(* ===== verification/Prelude.thy ===== *)
theory Prelude
  imports Main "HOL-Library.List_Lexorder" "HOL-Library.Char_ord"
    "HOL-Library.Product_Lexorder" "HOL-Library.Option_ord" "HOL-Library.Sublist"
    "HOL-Library.Code_Target_Nat"
begin

text \<open>
  What every component of the development shares: the result type of a fallible operation,
  the instants the program stores as ISO strings, the values of its JSON columns, the
  statements of SQL it issues over a table (a list of rows in rowid order), and the generic
  lemmas about them. The lemmas that rewrite statements are collected in \<open>sql_simps\<close>.
\<close>

named_theorems sql_simps

section \<open>Results, instants and JSON values\<close>

text \<open>
  An \<open>AppError\<close> of packages/shared carries a code and an HTTP status (its message is text for
  the reader and is left out); \<open>PlainError\<close> is \<open>new Error(...)\<close>; \<open>ConstraintError\<close> is what
  node:sqlite throws when a row would violate a PRIMARY KEY, UNIQUE, CHECK or REFERENCES
  clause.
\<close>

datatype app_error = AppError string nat | PlainError | ConstraintError

type_synonym 'a result = "app_error + 'a"

text \<open>Going on with the value of a call that did not throw; a call for each element of a list.\<close>

definition bind_r :: "'a result \<Rightarrow> ('a \<Rightarrow> 'b result) \<Rightarrow> 'b result" where
  "bind_r m k = (case m of Inl e \<Rightarrow> Inl e | Inr x \<Rightarrow> k x)"

definition ensure :: "bool \<Rightarrow> app_error \<Rightarrow> 'a result \<Rightarrow> 'a result" where
  "ensure b e r = (if b then r else Inl e)"

fun traverse :: "('a \<Rightarrow> 'b result) \<Rightarrow> 'a list \<Rightarrow> 'b list result" where
  "traverse f [] = Inr []"
| "traverse f (x # xs) =
     (case f x of Inl e \<Rightarrow> Inl e
      | Inr y \<Rightarrow> (case traverse f xs of Inl e \<Rightarrow> Inl e | Inr ys \<Rightarrow> Inr (y # ys)))"

lemma bind_r_simps [simp]: "bind_r (Inl e) k = Inl e" "bind_r (Inr x) k = k x"
  by (simp_all add: bind_r_def)

lemma bind_r_Inr_iff: "bind_r m k = Inr y \<longleftrightarrow> (\<exists>x. m = Inr x \<and> k x = Inr y)"
  by (cases m) simp_all

lemma ensure_Inr_iff [simp]: "ensure b e r = Inr y \<longleftrightarrow> b \<and> r = Inr y"
  by (simp add: ensure_def)

lemma traverse_Inr_iff:
  "traverse f xs = Inr ys \<longleftrightarrow> list_all2 (\<lambda>x y. f x = Inr y) xs ys"
proof (induction xs arbitrary: ys)
  case Nil
  then show ?case by auto
next
  case (Cons x xs)
  show ?case
    by (auto simp: list_all2_Cons1 Cons.IH [symmetric] split: sum.splits)
qed

text \<open>
  Instants are milliseconds since 1970. The program keeps them as the strings of
  \<open>Date.toISOString\<close>, texts of one width for the years to 9999, and compares those; texts and
  instants are ordered alike.
\<close>

type_synonym timestamp = nat

datatype json = JNull | JBool bool | JNum int | JStr string | JArr "json list"
  | JObj "(string \<times> json) list"

text \<open>A TEXT column that \<open>JSON.parse\<close> reads: \<open>None\<close> is a text on which it throws.\<close>

type_synonym json_text = "json option"

fun json_str :: "json \<Rightarrow> string option" where
  "json_str (JStr s) = Some s"
| "json_str _ = None"

text \<open>\<open>Array.isArray(v) && v.every((x) => typeof x === "string")\<close>, with the strings.\<close>

fun string_array :: "json \<Rightarrow> string list option" where
  "string_array (JArr vs) = those (map json_str vs)"
| "string_array _ = None"

lemma those_map_Some [simp]: "those (map (\<lambda>s. Some (f s)) xs) = Some (map f xs)"
  by (induction xs) auto

lemma string_array_JStr [simp]: "string_array (JArr (map JStr ss)) = Some ss"
  by (simp add: comp_def)

section \<open>Statements of SQL over a table\<close>

text \<open>\<open>UPDATE t SET f WHERE p\<close>, its number of changed rows, and \<open>DELETE FROM t WHERE p\<close>.\<close>

definition upd_where :: "('r \<Rightarrow> bool) \<Rightarrow> ('r \<Rightarrow> 'r) \<Rightarrow> 'r list \<Rightarrow> 'r list" where
  "upd_where p f rs = map (\<lambda>r. if p r then f r else r) rs"

definition changes :: "('r \<Rightarrow> bool) \<Rightarrow> 'r list \<Rightarrow> nat" where
  "changes p rs = length (filter p rs)"

definition del_where :: "('r \<Rightarrow> bool) \<Rightarrow> 'r list \<Rightarrow> 'r list" where
  "del_where p rs = filter (\<lambda>r. \<not> p r) rs"

text \<open>\<open>SELECT 1 FROM t WHERE p\<close> (is there a row), \<open>SUM\<close> and \<open>MAX\<close> with a default of 0.\<close>

definition exists_row :: "('r \<Rightarrow> bool) \<Rightarrow> 'r list \<Rightarrow> bool" where
  "exists_row p rs = list_ex p rs"

definition sum_rows :: "('r \<Rightarrow> nat) \<Rightarrow> 'r list \<Rightarrow> nat" where
  "sum_rows f rs = sum_list (map f rs)"

text \<open>
  Comparisons with a nullable column: NULL compares as unknown, which a WHERE clause
  treats as false. \<open>IS\<close> is plain equality of options.
\<close>

fun sql_eq :: "'a option \<Rightarrow> 'a \<Rightarrow> bool" where
  "sql_eq None _ = False"
| "sql_eq (Some a) b = (a = b)"

fun sql_gt :: "'a::ord option \<Rightarrow> 'a \<Rightarrow> bool" where
  "sql_gt None _ = False"
| "sql_gt (Some a) b = (b < a)"

fun sql_le :: "'a::ord option \<Rightarrow> 'a \<Rightarrow> bool" where
  "sql_le None _ = False"
| "sql_le (Some a) b = (a \<le> b)"

fun sql_lt :: "'a::ord option \<Rightarrow> 'a \<Rightarrow> bool" where
  "sql_lt None _ = False"
| "sql_lt (Some a) b = (a < b)"

text \<open>\<open>COALESCE(a, b)\<close>.\<close>

definition coalesce :: "'a option \<Rightarrow> 'a \<Rightarrow> 'a" where
  "coalesce a b = (case a of None \<Rightarrow> b | Some x \<Rightarrow> x)"

definition coalesce_opt :: "'a option \<Rightarrow> 'a option \<Rightarrow> 'a option" where
  "coalesce_opt a b = (case a of None \<Rightarrow> b | Some x \<Rightarrow> Some x)"

lemma sql_eq_iff [simp]: "sql_eq x y \<longleftrightarrow> x = Some y"
  by (cases x) auto

lemma sql_gt_iff: "sql_gt x y \<longleftrightarrow> (\<exists>a. x = Some a \<and> y < a)"
  by (cases x) auto

lemma sql_le_iff: "sql_le x y \<longleftrightarrow> (\<exists>a. x = Some a \<and> a \<le> y)"
  by (cases x) auto

lemma sql_lt_iff: "sql_lt x y \<longleftrightarrow> (\<exists>a. x = Some a \<and> a < y)"
  by (cases x) auto

lemma coalesce_simps [simp]:
  "coalesce None b = b" "coalesce (Some a) b = a"
  "coalesce_opt None c = c" "coalesce_opt (Some a) c = Some a"
  by (simp_all add: coalesce_def coalesce_opt_def)

section \<open>Lemmas about statements\<close>

lemma set_upd_where:
  "set (upd_where p f rs) = (\<lambda>r. if p r then f r else r) ` set rs"
  by (simp add: upd_where_def)

lemma upd_where_Nil [simp]: "upd_where p f [] = []"
  by (simp add: upd_where_def)

lemma upd_where_Cons [simp]:
  "upd_where p f (r # rs) = (if p r then f r else r) # upd_where p f rs"
  by (simp add: upd_where_def)

lemma changes_Nil [simp]: "changes p [] = 0"
  by (simp add: changes_def)

lemma changes_Cons [simp]: "changes p (r # rs) = (if p r then Suc (changes p rs) else changes p rs)"
  by (simp add: changes_def)

lemma changes_append [simp]: "changes p (xs @ ys) = changes p xs + changes p ys"
  by (simp add: changes_def)

lemma changes_zero_iff: "changes p rs = 0 \<longleftrightarrow> (\<forall>r\<in>set rs. \<not> p r)"
  by (simp add: changes_def filter_empty_conv)

lemma changes_pos_iff: "changes p rs > 0 \<longleftrightarrow> (\<exists>r\<in>set rs. p r)"
  using changes_zero_iff [of p rs] by auto

lemma upd_where_none: "changes p rs = 0 \<Longrightarrow> upd_where p f rs = rs"
  by (induction rs) (auto split: if_splits)

lemma upd_where_fail: "(\<And>r. r \<in> set rs \<Longrightarrow> \<not> p r) \<Longrightarrow> upd_where p f rs = rs"
  by (simp add: upd_where_none changes_zero_iff)

lemma length_upd_where [simp]: "length (upd_where p f rs) = length rs"
  by (simp add: upd_where_def)

lemma map_upd_where:
  "(\<And>r. p r \<Longrightarrow> g (f r) = g r) \<Longrightarrow> map g (upd_where p f rs) = map g rs"
  by (simp add: upd_where_def)

lemma upd_where_append [simp]: "upd_where p f (xs @ ys) = upd_where p f xs @ upd_where p f ys"
  by (simp add: upd_where_def)

lemma exists_row_iff [simp]: "exists_row p rs \<longleftrightarrow> (\<exists>r\<in>set rs. p r)"
  by (simp add: exists_row_def list_ex_iff)

lemma sum_rows_simps [simp]:
  "sum_rows f [] = 0" "sum_rows f (r # rs) = f r + sum_rows f rs"
  "sum_rows f (xs @ ys) = sum_rows f xs + sum_rows f ys"
  by (simp_all add: sum_rows_def)

lemma sum_rows_upd_where_le:
  "(\<And>r. p r \<Longrightarrow> g (f r) \<le> g r) \<Longrightarrow> sum_rows g (upd_where p f rs) \<le> sum_rows g rs"
  by (induction rs) (auto intro: add_mono)

lemma sum_rows_upd_where_eq:
  "(\<And>r. p r \<Longrightarrow> g (f r) = g r) \<Longrightarrow> sum_rows g (upd_where p f rs) = sum_rows g rs"
  by (induction rs) auto

lemma changes_upd_where_eq:
  "(\<And>r. p r \<Longrightarrow> q (f r) = q r) \<Longrightarrow> changes q (upd_where p f rs) = changes q rs"
  by (induction rs) auto

lemma changes_upd_where_less:
  "(\<And>r. r \<in> set rs \<Longrightarrow> p r \<Longrightarrow> q (f r) \<Longrightarrow> q r) \<Longrightarrow> changes q (upd_where p f rs) \<le> changes q rs"
  by (induction rs) (auto intro: le_SucI)

lemma changes_upd_where_ge: "changes q rs \<le> changes q (upd_where p f rs) + changes p rs"
  by (induction rs) auto

lemma changes_del_where_le: "changes q (del_where p rs) \<le> changes q rs"
  by (induction rs) (auto simp: del_where_def)

lemma changes_le_one_eq:
  "changes p rs \<le> 1 \<Longrightarrow> x \<in> set rs \<Longrightarrow> y \<in> set rs \<Longrightarrow> p x \<Longrightarrow> p y \<Longrightarrow> x = y"
proof (induction rs)
  case (Cons r rs)
  then show ?case by (auto simp: changes_zero_iff split: if_splits)
qed simp

lemma set_del_where [simp]: "set (del_where p rs) = {r \<in> set rs. \<not> p r}"
  by (auto simp: del_where_def)

section \<open>Tables with a primary key\<close>

text \<open>
  \<open>SELECT ... WHERE key = k\<close> reads the first row with the key. A table whose keys are distinct
  has at most one, so an UPDATE by key changes exactly the row the SELECT reads.
\<close>

definition row_by :: "('r \<Rightarrow> 'k) \<Rightarrow> 'k \<Rightarrow> 'r list \<Rightarrow> 'r option" where
  "row_by key k rs = find (\<lambda>r. key r = k) rs"

lemma row_by_Nil [simp]: "row_by key k [] = None"
  by (simp add: row_by_def)

lemma row_by_Cons [simp]:
  "row_by key k (r # rs) = (if key r = k then Some r else row_by key k rs)"
  by (simp add: row_by_def)

lemma row_by_SomeD: "row_by key k rs = Some r \<Longrightarrow> r \<in> set rs \<and> key r = k"
  by (auto simp: row_by_def find_Some_iff)

lemma row_by_None_iff: "row_by key k rs = None \<longleftrightarrow> (\<forall>r\<in>set rs. key r \<noteq> k)"
  by (auto simp: row_by_def find_None_iff)

lemma row_by_None_notin: "row_by key k rs = None \<longleftrightarrow> k \<notin> key ` set rs"
  by (auto simp: row_by_None_iff)

lemma row_by_append:
  "row_by key k (xs @ ys) = (case row_by key k xs of None \<Rightarrow> row_by key k ys | Some r \<Rightarrow> Some r)"
  by (induction xs) auto

locale keyed_table =
  fixes key :: "'r \<Rightarrow> 'k"
begin

lemma row_by_in:
  "distinct (map key rs) \<Longrightarrow> r \<in> set rs \<Longrightarrow> row_by key (key r) rs = Some r"
  by (induction rs) (auto simp: image_iff)

lemma row_by_iff:
  "distinct (map key rs) \<Longrightarrow> row_by key k rs = Some r \<longleftrightarrow> r \<in> set rs \<and> key r = k"
  using row_by_in row_by_SomeD by metis

lemma row_by_upd_where:
  "(\<And>r. p r \<Longrightarrow> key (f r) = key r) \<Longrightarrow>
   row_by key k (upd_where p f rs) = map_option (\<lambda>r. if p r then f r else r) (row_by key k rs)"
  by (induction rs) auto

lemma changes_by_key:
  assumes "distinct (map key rs)" and "\<And>r. p r \<Longrightarrow> key r = k"
  shows "changes p rs = (case row_by key k rs of None \<Rightarrow> 0 | Some r \<Rightarrow> if p r then 1 else 0)"
  using assms
proof (induction rs)
  case Nil
  then show ?case by simp
next
  case (Cons r rs)
  show ?case
  proof (cases "key r = k")
    case True
    have "changes p rs = 0"
      unfolding changes_zero_iff
    proof (rule ballI, rule notI)
      fix x assume "x \<in> set rs" "p x"
      with Cons.prems(2) have "key x = k" by blast
      with Cons.prems(1) True \<open>x \<in> set rs\<close> show False by (auto simp: image_iff)
    qed
    with True show ?thesis by simp
  next
    case False
    with Cons.prems(2) have "\<not> p r" by blast
    with False Cons show ?thesis by simp
  qed
qed

lemma changes_one_row:
  "distinct (map key rs) \<Longrightarrow> (\<And>r. p r \<Longrightarrow> key r = k) \<Longrightarrow> changes p rs = 1 \<Longrightarrow>
   \<exists>r. row_by key k rs = Some r \<and> p r"
  by (simp add: changes_by_key split: option.splits if_splits)

lemma changes_le_one:
  "distinct (map key rs) \<Longrightarrow> (\<And>r. p r \<Longrightarrow> key r = k) \<Longrightarrow> changes p rs \<le> 1"
  by (simp add: changes_by_key split: option.splits)

lemma distinct_upd_where:
  "(\<And>r. p r \<Longrightarrow> key (f r) = key r) \<Longrightarrow>
   distinct (map key (upd_where p f rs)) = distinct (map key rs)"
  by (simp add: map_upd_where)

lemma distinct_del_where: "distinct (map key rs) \<Longrightarrow> distinct (map key (del_where p rs))"
  by (simp add: del_where_def distinct_map_filter)

lemma distinct_insert:
  "distinct (map key rs) \<Longrightarrow> row_by key (key r) rs = None \<Longrightarrow> distinct (map key (rs @ [r]))"
  by (auto simp: row_by_None_iff)

end

section \<open>ORDER BY and LIMIT\<close>

text \<open>
  \<open>ORDER BY k LIMIT 1\<close> and the descending form. The key of a descending order ends in the
  primary key wherever the program pages by it, so ties do not arise there.
\<close>

definition first_by :: "('r \<Rightarrow> 'k::linorder) \<Rightarrow> 'r list \<Rightarrow> 'r option" where
  "first_by k rs = (case sort_key k rs of [] \<Rightarrow> None | r # _ \<Rightarrow> Some r)"

definition order_desc :: "('r \<Rightarrow> 'k::linorder) \<Rightarrow> 'r list \<Rightarrow> 'r list" where
  "order_desc k rs = rev (sort_key k rs)"

lemma first_by_None_iff [simp]: "first_by k rs = None \<longleftrightarrow> rs = []"
proof -
  have "sort_key k rs = [] \<longleftrightarrow> rs = []"
    by (metis length_0_conv length_sort)
  then show ?thesis by (auto simp: first_by_def split: list.splits)
qed

lemma first_by_SomeD:
  assumes "first_by k rs = Some r"
  shows "r \<in> set rs" and "\<forall>x\<in>set rs. k r \<le> k x"
proof -
  obtain xs where s: "sort_key k rs = r # xs"
    using assms by (auto simp: first_by_def split: list.splits)
  show "r \<in> set rs" using s by (metis list.set_intros(1) set_sort)
  have "sorted (map k (r # xs))" by (metis s sorted_sort_key)
  moreover have "set rs = set (r # xs)" by (metis s set_sort)
  ultimately show "\<forall>x\<in>set rs. k r \<le> k x" by auto
qed

lemma set_order_desc [simp]: "set (order_desc k rs) = set rs"
  by (simp add: order_desc_def)

lemma length_order_desc [simp]: "length (order_desc k rs) = length rs"
  by (simp add: order_desc_def)

end
