(* ===== verification/Schema.thy ===== *)
theory Schema
  imports Prelude
begin

text \<open>
  The relational state of the control plane (packages/database/src/schema.ts and the columns its
  migrations add): one record per table row, one list of rows per table in rowid order, and the
  whole database as a record. A nullable column is an option; a column whose CHECK lists its
  values is a datatype of those values; a JSON column is a \<open>json_text\<close>. The columns the
  modelled code never reads or writes (migration bookkeeping) are left out.
\<close>

section \<open>Enumerated columns\<close>

datatype job_status = Reserved | Uploading | Queued | Validating | Running | Succeeded | Failed
  | Timeout | Canceled | Rejected | Deleting | Deleted | Expired

datatype render_output = Pdf | Svg
datatype account_status = Active | Disabled
datatype client_type = Codex | ClaudeCode | Mcp | Ci | Generic
datatype role = User | Admin | Owner
datatype purpose = UserPurpose | ProductionSmoke
datatype key_kind = RenderKey | AdminKey
datatype deletion_status = Retained | DelPending | DelDeleting | DelRetry | DelFailed | DelDeleted
datatype source_status = SReserved | SUploading | SReady | SDeleting | SDeleted | SExpired
datatype nonce_state = Unused | Claimed | Consumed | Released | NExpired
datatype stage_status = StQueued | StRunning | StSucceeded | StFailed | StTimeout | StCanceled
  | StSkipped
datatype preview_status = PQueued | PRunning | PSucceeded | PFailed
datatype tree_status = TBuilding | TReady | TInvalid | TDeleting
datatype artifact_type = ASource | APdf | ALog | AErrors | ADependencies | APreview | ASvg | ASvgManifest
datatype actor = ActorUser | ActorServiceAccount | ActorAdminKey | ActorLocal | ActorSystem
  | ActorOauth | ActorPassword
datatype maintenance_mode = Normal | RejectNewJobs | ReadOnly | Lockdown

section \<open>Rows\<close>

record user_row =
  u_id :: string
  u_access_subject :: "string option"
  u_access_subject_linked_at :: "timestamp option"
  u_access_subject_generation :: nat
  u_email :: "string option"
  u_display_name :: string
  u_role :: role
  u_status :: account_status
  u_security_version :: nat
  u_created_by :: string
  u_created_at :: timestamp
  u_updated_at :: timestamp
  u_last_login_at :: "timestamp option"

record account_row =
  a_id :: string
  a_owner_user_id :: string
  a_name :: string
  a_client_type :: client_type
  a_status :: account_status
  a_security_version :: nat
  a_created_at :: timestamp
  a_updated_at :: timestamp
  a_purpose :: purpose

record key_row =
  k_id :: string
  k_service_account_id :: string
  k_name :: string
  k_prefix :: string
  k_kind :: key_kind
  k_secret_hash :: string
  k_pepper_id :: string
  k_scopes :: json_text
  k_expires_at :: "timestamp option"
  k_last_used_at :: "timestamp option"
  k_revoked_at :: "timestamp option"
  k_created_at :: timestamp
  k_created_by :: string

record source_row =
  s_id :: string
  s_owner_user_id :: string
  s_size :: nat
  s_sha256 :: string
  s_storage_key :: string
  s_status :: source_status
  s_created_at :: timestamp
  s_updated_at :: timestamp
  s_expires_at :: timestamp
  s_uploaded_at :: "timestamp option"
  s_paths :: "json_text option"
  s_dedupe_eligible :: bool
  s_deleted_at :: "timestamp option"
  s_received :: nat
  s_lease_owner :: "string option"
  s_lease_expires_at :: "timestamp option"
  s_purpose :: purpose
  s_deletion_status :: deletion_status
  s_deletion_attempts :: nat
  s_deletion_error :: "string option"
  s_deletion_next_attempt_at :: "timestamp option"

record job_row =
  j_id :: string
  j_user_id :: string
  j_service_account_id :: string
  j_api_key_id :: string
  j_status :: job_status
  j_renderer_version :: string
  j_source_size :: nat
  j_source_sha256 :: string
  j_created_at :: timestamp
  j_updated_at :: timestamp
  j_queued_at :: "timestamp option"
  j_started_at :: "timestamp option"
  j_completed_at :: "timestamp option"
  j_exit_code :: "int option"
  j_error_code :: "string option"
  j_error_message :: "string option"
  j_output_size :: "nat option"
  j_cancel_requested_at :: "timestamp option"
  j_retry_of_job_id :: "string option"
  j_lease_owner :: "string option"
  j_lease_expires_at :: "timestamp option"
  j_heartbeat_at :: "timestamp option"
  j_lease_generation :: nat
  j_deleted_at :: "timestamp option"
  j_source_id :: "string option"
  j_entrypoint :: string
  j_project_revision_id :: "string option"
  j_outputs :: json_text
  j_reserved_output_bytes :: nat
  j_render_status :: "job_status option"
  j_deletion_status :: deletion_status
  j_deletion_attempts :: nat
  j_deletion_error :: "string option"
  j_deletion_next_attempt_at :: "timestamp option"

record stage_row =
  st_job_id :: string
  st_source_sha256 :: string
  st_source_id :: "string option"
  st_entrypoint :: string
  st_project_revision_id :: "string option"
  st_renderer_image :: string
  st_pdf_status :: stage_status
  st_svg_status :: stage_status
  st_pdf_generation :: "nat option"
  st_svg_generation :: "nat option"
  st_pdf_sha256 :: "string option"
  st_synctex_sha256 :: "string option"
  st_synctex_bytes :: nat
  st_pdf_completed_at :: "timestamp option"
  st_pdf_error_code :: "string option"
  st_pdf_error_message :: "string option"
  st_svg_completed_at :: "timestamp option"
  st_svg_error_code :: "string option"
  st_svg_error_message :: "string option"
  st_svg_attempt :: nat

record artifact_row =
  ar_id :: string
  ar_job_id :: string
  ar_type :: artifact_type
  ar_relative_path :: string
  ar_size :: nat
  ar_sha256 :: string
  ar_created_at :: timestamp
  ar_storage_generation :: "nat option"

record nonce_row =
  n_nonce :: string
  n_resource_id :: string
  n_state :: nonce_state
  n_claim_owner :: "string option"
  n_claimed_at :: "timestamp option"
  n_claim_expires_at :: "timestamp option"
  n_used_at :: "timestamp option"
  n_expires_at :: timestamp

record revoked_ticket_row =
  rt_selector_type :: string
  rt_selector_value :: string
  rt_reason :: string
  rt_expires_at :: timestamp
  rt_created_at :: timestamp

record idempotency_row =
  i_actor_type :: string
  i_actor_id :: string
  i_operation :: string
  i_key_hash :: string
  i_request_hash :: string
  i_resource_id :: "string option"
  i_response_code :: "nat option"
  i_expires_at :: timestamp
  i_created_at :: timestamp

record lease_row =
  l_id :: string
  l_job_id :: string
  l_artifact_id :: string
  l_expires_at :: timestamp
  l_created_at :: timestamp

record audit_row =
  au_actor_type :: actor
  au_actor_id :: string
  au_action :: string
  au_target_type :: string
  au_target_id :: string
  au_result :: string
  au_ip_address :: "string option"
  au_user_agent :: "string option"
  au_metadata :: "(string \<times> json) list"
  au_created_at :: timestamp

record setting_row =
  g_key :: string
  g_value :: json_text
  g_updated_by :: string
  g_updated_at :: timestamp

record project_row =
  p_id :: string
  p_owner_user_id :: string
  p_display_name :: string
  p_created_at :: timestamp
  p_updated_at :: timestamp
  p_deleted_at :: "timestamp option"

record revision_row =
  r_id :: string
  r_project_id :: string
  r_source_id :: string
  r_number :: nat
  r_display_name :: string
  r_original_filename :: string
  r_entrypoint :: string
  r_outputs :: json_text
  r_created_at :: timestamp

record tree_row =
  t_id :: string
  t_identity :: string
  t_source_id :: string
  t_owner_user_id :: string
  t_status :: tree_status
  t_reserved_bytes :: nat
  t_manifest :: json_text
  t_created_at :: timestamp
  t_expires_at :: timestamp
  t_last_used_at :: timestamp

record reader_row =
  rd_tree_id :: string
  rd_job_id :: string
  rd_generation :: nat

record document_row =
  d_job_id :: string
  d_pdf_artifact_id :: string
  d_pdf_sha256 :: string
  d_page_count :: nat
  d_runtime_image :: string
  d_created_at :: timestamp

record preview_row =
  pv_sequence :: nat
  pv_job_id :: string
  pv_page :: nat
  pv_status :: preview_status
  pv_attempt :: nat
  pv_reserved_bytes :: nat
  pv_lease_owner :: "string option"
  pv_lease_expires_at :: "timestamp option"
  pv_error_code :: "string option"
  pv_created_at :: timestamp
  pv_updated_at :: timestamp

section \<open>The database\<close>

text \<open>
  \<open>preview_sequence\<close> is the AUTOINCREMENT counter of the preview queue. A new database holds
  the two settings the schema inserts.
\<close>

record db =
  users :: "user_row list"
  accounts :: "account_row list"
  api_keys :: "key_row list"
  sources :: "source_row list"
  jobs :: "job_row list"
  stages :: "stage_row list"
  artifacts :: "artifact_row list"
  job_nonces :: "nonce_row list"
  source_nonces :: "nonce_row list"
  revoked_tickets :: "revoked_ticket_row list"
  idempotency :: "idempotency_row list"
  download_leases :: "lease_row list"
  audit_logs :: "audit_row list"
  settings :: "setting_row list"
  projects :: "project_row list"
  revisions :: "revision_row list"
  trees :: "tree_row list"
  tree_readers :: "reader_row list"
  documents :: "document_row list"
  previews :: "preview_row list"
  preview_sequence :: nat

definition empty_db :: db where
  "empty_db = \<lparr>users = [], accounts = [], api_keys = [], sources = [], jobs = [], stages = [],
     artifacts = [], job_nonces = [], source_nonces = [], revoked_tickets = [], idempotency = [],
     download_leases = [], audit_logs = [],
     settings =
       [\<lparr>g_key = ''maintenance_mode'', g_value = Some (JStr ''normal''),
         g_updated_by = ''migration'', g_updated_at = 0\<rparr>,
        \<lparr>g_key = ''source_orphan_retention_minutes'', g_value = Some (JNum 60),
         g_updated_by = ''migration'', g_updated_at = 0\<rparr>],
     projects = [], revisions = [], trees = [], tree_readers = [], documents = [],
     previews = [], preview_sequence = 0\<rparr>"

text \<open>A transaction returns its value and the new database, or the error that rolls it back.\<close>

type_synonym 'a tx = "db \<Rightarrow> ('a \<times> db) result"

definition seq_tx :: "'a tx \<Rightarrow> ('a \<Rightarrow> 'b tx) \<Rightarrow> 'b tx" where
  "seq_tx m k d = (case m d of Inl e \<Rightarrow> Inl e | Inr (x, d') \<Rightarrow> k x d')"

text \<open>A read that may throw, a guard, and a statement that cannot fail, inside a transaction.\<close>

definition read_tx :: "(db \<Rightarrow> 'a result) \<Rightarrow> 'a tx" where
  "read_tx f d = (case f d of Inl e \<Rightarrow> Inl e | Inr x \<Rightarrow> Inr (x, d))"

definition guard_tx :: "(db \<Rightarrow> bool) \<Rightarrow> app_error \<Rightarrow> unit tx" where
  "guard_tx p e d = (if p d then Inr ((), d) else Inl e)"

definition write_tx :: "(db \<Rightarrow> db) \<Rightarrow> unit tx" where
  "write_tx f d = Inr ((), f d)"

definition return_tx :: "'a \<Rightarrow> 'a tx" where
  "return_tx x d = Inr (x, d)"

lemma seq_tx_Inr_iff:
  "seq_tx m k d = Inr (y, d'') \<longleftrightarrow> (\<exists>x d'. m d = Inr (x, d') \<and> k x d' = Inr (y, d''))"
  by (auto simp: seq_tx_def split: sum.splits prod.splits)

lemma tx_Inr_iff [simp]:
  "read_tx f d = Inr (x, d') \<longleftrightarrow> f d = Inr x \<and> d' = d"
  "guard_tx p e d = Inr (u, d') \<longleftrightarrow> p d \<and> d' = d"
  "write_tx g d = Inr (u, d') \<longleftrightarrow> d' = g d"
  "return_tx v d = Inr (w, d') \<longleftrightarrow> w = v \<and> d' = d"
  by (auto simp: read_tx_def guard_tx_def write_tx_def return_tx_def split: sum.splits)

section \<open>Primary keys as keyed tables\<close>

interpretation user_table: keyed_table u_id .
interpretation account_table: keyed_table a_id .
interpretation key_table: keyed_table k_id .
interpretation source_table: keyed_table s_id .
interpretation job_table: keyed_table j_id .
interpretation stage_table: keyed_table st_job_id .
interpretation artifact_table: keyed_table ar_id .
interpretation nonce_table: keyed_table n_nonce .
interpretation setting_table: keyed_table g_key .
interpretation project_table: keyed_table p_id .
interpretation revision_table: keyed_table r_id .
interpretation tree_table: keyed_table t_id .
interpretation document_table: keyed_table d_job_id .
interpretation preview_table: keyed_table pv_sequence .
interpretation lease_table: keyed_table l_id .

text \<open>Every primary key of the tables that operations address by id is unique.\<close>

definition keys_ok :: "db \<Rightarrow> bool" where
  "keys_ok d \<longleftrightarrow> distinct (map u_id (users d)) \<and> distinct (map a_id (accounts d)) \<and>
     distinct (map k_id (api_keys d)) \<and> distinct (map s_id (sources d)) \<and>
     distinct (map j_id (jobs d)) \<and> distinct (map st_job_id (stages d)) \<and>
     distinct (map ar_id (artifacts d)) \<and> distinct (map n_nonce (job_nonces d)) \<and>
     distinct (map n_nonce (source_nonces d)) \<and> distinct (map p_id (projects d)) \<and>
     distinct (map r_id (revisions d)) \<and> distinct (map t_id (trees d)) \<and>
     distinct (map d_job_id (documents d)) \<and> distinct (map pv_sequence (previews d)) \<and>
     distinct (map l_id (download_leases d))"

abbreviation job_of :: "db \<Rightarrow> string \<Rightarrow> job_row option" where
  "job_of d i \<equiv> row_by j_id i (jobs d)"

abbreviation source_of :: "db \<Rightarrow> string \<Rightarrow> source_row option" where
  "source_of d i \<equiv> row_by s_id i (sources d)"

abbreviation stage_of :: "db \<Rightarrow> string \<Rightarrow> stage_row option" where
  "stage_of d i \<equiv> row_by st_job_id i (stages d)"

section \<open>Orders on enumerations\<close>

text \<open>The maintenance modes are ordered by how much they forbid; the roles by their rank.\<close>

instantiation maintenance_mode :: linorder
begin

fun mode_rank :: "maintenance_mode \<Rightarrow> nat" where
  "mode_rank Normal = 0"
| "mode_rank RejectNewJobs = 1"
| "mode_rank ReadOnly = 2"
| "mode_rank Lockdown = 3"

definition "m \<le> n \<longleftrightarrow> mode_rank m \<le> mode_rank n"
definition "m < n \<longleftrightarrow> mode_rank m < mode_rank n"

instance
proof
  fix x y z :: maintenance_mode
  show "(x < y) = (x \<le> y \<and> \<not> y \<le> x)"
    by (auto simp: less_maintenance_mode_def less_eq_maintenance_mode_def)
  show "x \<le> x" by (simp add: less_eq_maintenance_mode_def)
  show "x \<le> y \<Longrightarrow> y \<le> z \<Longrightarrow> x \<le> z" by (simp add: less_eq_maintenance_mode_def)
  show "x \<le> y \<Longrightarrow> y \<le> x \<Longrightarrow> x = y"
    by (cases x; cases y) (simp_all add: less_eq_maintenance_mode_def)
  show "x \<le> y \<or> y \<le> x" by (auto simp: less_eq_maintenance_mode_def)
qed

end

end
