(* ===== verification/Job_Table.thy ===== *)
theory Job_Table
  imports Schema
begin

text \<open>
  The jobs table as SQLite runs it: UPDATEs that name the status column fire the two triggers
  that keep \<open>job_output_stages\<close> in step (packages/database/src/schema.ts), and an INSERT is
  refused when it breaks the primary key, a foreign key or the JSON check.
\<close>

section \<open>Status classes\<close>

fun status_name :: "job_status \<Rightarrow> string" where
  "status_name Reserved = ''reserved''"
| "status_name Uploading = ''uploading''"
| "status_name Queued = ''queued''"
| "status_name Validating = ''validating''"
| "status_name Running = ''running''"
| "status_name Succeeded = ''succeeded''"
| "status_name Failed = ''failed''"
| "status_name Timeout = ''timeout''"
| "status_name Canceled = ''canceled''"
| "status_name Rejected = ''rejected''"
| "status_name Deleting = ''deleting''"
| "status_name Deleted = ''deleted''"
| "status_name Expired = ''expired''"

text \<open>\<open>ACTIVE\<close> and \<open>TERMINAL\<close> of repositories/jobs.ts.\<close>

definition active :: "job_status \<Rightarrow> bool" where
  "active s \<longleftrightarrow> s \<in> {Reserved, Uploading, Queued, Validating, Running}"

definition terminal :: "job_status \<Rightarrow> bool" where
  "terminal s \<longleftrightarrow> s \<in> {Succeeded, Failed, Timeout, Canceled, Rejected, Expired}"

lemma active_simps [simp]:
  "active Reserved" "active Uploading" "active Queued" "active Validating" "active Running"
  "\<not> active Succeeded" "\<not> active Failed" "\<not> active Timeout" "\<not> active Canceled"
  "\<not> active Rejected" "\<not> active Deleting" "\<not> active Deleted" "\<not> active Expired"
  by (simp_all add: active_def)

lemma terminal_simps [simp]:
  "terminal Succeeded" "terminal Failed" "terminal Timeout" "terminal Canceled"
  "terminal Rejected" "terminal Expired" "\<not> terminal Reserved" "\<not> terminal Uploading"
  "\<not> terminal Queued" "\<not> terminal Validating" "\<not> terminal Running" "\<not> terminal Deleting"
  "\<not> terminal Deleted"
  by (simp_all add: terminal_def)

lemma terminal_not_active: "terminal s \<Longrightarrow> \<not> active s"
  by (cases s) auto

section \<open>Triggers on the status column\<close>

definition open_stage :: "stage_status \<Rightarrow> bool" where
  "open_stage s \<longleftrightarrow> s \<in> {StQueued, StRunning}"

lemma open_stage_simps [simp]:
  "open_stage StQueued" "open_stage StRunning" "\<not> open_stage StSucceeded" "\<not> open_stage StFailed"
  "\<not> open_stage StTimeout" "\<not> open_stage StCanceled" "\<not> open_stage StSkipped"
  by (simp_all add: open_stage_def)

text \<open>\<open>CASE WHEN NEW.status='rejected' THEN 'failed' ELSE NEW.status END\<close>.\<close>

fun stage_of_status :: "job_status \<Rightarrow> stage_status" where
  "stage_of_status Failed = StFailed"
| "stage_of_status Timeout = StTimeout"
| "stage_of_status Canceled = StCanceled"
| "stage_of_status _ = StFailed"

definition terminal_trigger :: "job_row \<Rightarrow> stage_row list \<Rightarrow> stage_row list" where
  "terminal_trigger new sts =
     upd_where (\<lambda>s. st_job_id s = j_id new \<and> open_stage (st_pdf_status s))
       (\<lambda>s. s\<lparr>st_pdf_status := stage_of_status (j_status new),
              st_pdf_completed_at := j_completed_at new,
              st_pdf_error_code := j_error_code new,
              st_pdf_error_message := j_error_message new\<rparr>)
       (upd_where (\<lambda>s. st_job_id s = j_id new \<and> open_stage (st_svg_status s))
         (\<lambda>s. s\<lparr>st_svg_status := (if st_pdf_status s \<noteq> StSucceeded then StSkipped
                                   else stage_of_status (j_status new)),
                st_svg_completed_at := j_completed_at new,
                st_svg_error_code := j_error_code new,
                st_svg_error_message := j_error_message new\<rparr>)
         sts)"

definition recover_trigger :: "job_row \<Rightarrow> stage_row list \<Rightarrow> stage_row list" where
  "recover_trigger new sts =
     upd_where (\<lambda>s. st_job_id s = j_id new)
       (\<lambda>s. s\<lparr>st_pdf_status := (if st_pdf_status s = StRunning then StQueued else st_pdf_status s),
              st_svg_status := (if st_svg_status s = StRunning then StQueued else st_svg_status s)\<rparr>)
       sts"

definition status_triggers :: "job_row \<Rightarrow> job_row \<Rightarrow> stage_row list \<Rightarrow> stage_row list" where
  "status_triggers old new sts =
     (if j_status new \<in> {Failed, Timeout, Canceled, Rejected} then terminal_trigger new sts
      else if j_status new = Queued \<and> j_status old \<in> {Validating, Running}
      then recover_trigger new sts
      else sts)"

section \<open>UPDATE\<close>

text \<open>An UPDATE that leaves the status column alone, and one that sets it. Both return changes.\<close>

definition update_jobs :: "(job_row \<Rightarrow> bool) \<Rightarrow> (job_row \<Rightarrow> job_row) \<Rightarrow> db \<Rightarrow> nat \<times> db" where
  "update_jobs p f d = (changes p (jobs d), d\<lparr>jobs := upd_where p f (jobs d)\<rparr>)"

definition update_jobs_status ::
  "(job_row \<Rightarrow> bool) \<Rightarrow> (job_row \<Rightarrow> job_row) \<Rightarrow> db \<Rightarrow> nat \<times> db" where
  "update_jobs_status p f d =
     (changes p (jobs d),
      d\<lparr>jobs := upd_where p f (jobs d),
        stages := fold (\<lambda>r. status_triggers r (f r)) (filter p (jobs d)) (stages d)\<rparr>)"

lemma fst_update_jobs [simp]:
  "fst (update_jobs p f d) = changes p (jobs d)"
  "fst (update_jobs_status p f d) = changes p (jobs d)"
  by (simp_all add: update_jobs_def update_jobs_status_def)

lemma jobs_update_jobs [simp]:
  "jobs (snd (update_jobs p f d)) = upd_where p f (jobs d)"
  "jobs (snd (update_jobs_status p f d)) = upd_where p f (jobs d)"
  by (simp_all add: update_jobs_def update_jobs_status_def)

lemma filter_none: "changes p rs = 0 \<Longrightarrow> filter p rs = []"
  by (simp add: changes_def)

text \<open>An UPDATE that matches no row leaves the database as it was.\<close>

lemma update_jobs_none:
  "changes p (jobs d) = 0 \<Longrightarrow> update_jobs p f d = (0, d)"
  "changes p (jobs d) = 0 \<Longrightarrow> update_jobs_status p f d = (0, d)"
  by (simp_all add: update_jobs_def update_jobs_status_def upd_where_none filter_none)

lemma other_tables_update_jobs [simp]:
  "sources (snd (update_jobs p f d)) = sources d"
  "sources (snd (update_jobs_status p f d)) = sources d"
  "previews (snd (update_jobs p f d)) = previews d"
  "previews (snd (update_jobs_status p f d)) = previews d"
  "trees (snd (update_jobs p f d)) = trees d"
  "trees (snd (update_jobs_status p f d)) = trees d"
  "stages (snd (update_jobs p f d)) = stages d"
  "projects (snd (update_jobs p f d)) = projects d"
  "projects (snd (update_jobs_status p f d)) = projects d"
  "revisions (snd (update_jobs p f d)) = revisions d"
  "revisions (snd (update_jobs_status p f d)) = revisions d"
  "users (snd (update_jobs p f d)) = users d"
  "users (snd (update_jobs_status p f d)) = users d"
  "accounts (snd (update_jobs p f d)) = accounts d"
  "accounts (snd (update_jobs_status p f d)) = accounts d"
  "api_keys (snd (update_jobs p f d)) = api_keys d"
  "api_keys (snd (update_jobs_status p f d)) = api_keys d"
  "artifacts (snd (update_jobs p f d)) = artifacts d"
  "artifacts (snd (update_jobs_status p f d)) = artifacts d"
  "settings (snd (update_jobs p f d)) = settings d"
  "settings (snd (update_jobs_status p f d)) = settings d"
  "job_nonces (snd (update_jobs p f d)) = job_nonces d"
  "job_nonces (snd (update_jobs_status p f d)) = job_nonces d"
  "idempotency (snd (update_jobs p f d)) = idempotency d"
  "idempotency (snd (update_jobs_status p f d)) = idempotency d"
  by (simp_all add: update_jobs_def update_jobs_status_def)

section \<open>The triggers on one row\<close>

lemma st_job_id_triggers [simp]:
  "map st_job_id (terminal_trigger new sts) = map st_job_id sts"
  "map st_job_id (recover_trigger new sts) = map st_job_id sts"
  "map st_job_id (status_triggers old new sts) = map st_job_id sts"
  by (simp_all add: status_triggers_def terminal_trigger_def recover_trigger_def map_upd_where)

lemma st_job_id_fold_triggers [simp]:
  "map st_job_id (fold (\<lambda>r. status_triggers r (f r)) rs sts) = map st_job_id sts"
  by (induction rs arbitrary: sts) simp_all

lemma st_job_id_update_jobs_status [simp]:
  "map st_job_id (stages (snd (update_jobs_status p f d))) = map st_job_id (stages d)"
  by (simp add: update_jobs_status_def)

text \<open>A property of every stage row that each trigger keeps is kept by the UPDATE.\<close>

lemma stages_update_jobs_status:
  assumes "\<And>old new sts. j_id new = j_id old \<Longrightarrow> \<forall>s\<in>set sts. P s \<Longrightarrow>
      \<forall>s\<in>set (status_triggers old new sts). P s"
    and "\<And>r. j_id (f r) = j_id r" and "\<forall>s\<in>set (stages d). P s"
  shows "\<forall>s\<in>set (stages (snd (update_jobs_status p f d))). P s"
proof -
  have "\<forall>s\<in>set (fold (\<lambda>r. status_triggers r (f r)) rs sts). P s" if "\<forall>s\<in>set sts. P s" for rs sts
    using that
  proof (induction rs arbitrary: sts)
    case (Cons r rs)
    have "\<forall>s\<in>set (status_triggers r (f r) sts). P s"
      by (rule assms(1) [OF assms(2) Cons.prems])
    from Cons.IH [OF this] show ?case by simp
  qed simp
  then show ?thesis using assms(3) by (simp add: update_jobs_status_def)
qed

text \<open>The effect of the triggers of one updated job on the stage rows of another: none.\<close>

lemma row_by_status_triggers_other:
  assumes "i \<noteq> j_id new"
  shows "row_by st_job_id i (status_triggers old new sts) = row_by st_job_id i sts"
proof -
  have other: "row_by st_job_id i (upd_where (\<lambda>s. st_job_id s = j_id new \<and> q s) g ss) =
      row_by st_job_id i ss" if "\<And>s. st_job_id (g s) = st_job_id s" for q g and ss
    using that assms by (induction ss) auto
  have "row_by st_job_id i (recover_trigger new sts) = row_by st_job_id i sts"
    unfolding recover_trigger_def by (rule other [of _ "\<lambda>_. True", simplified]) simp
  then show ?thesis by (simp add: status_triggers_def terminal_trigger_def other)
qed

section \<open>INSERT\<close>

definition fk :: "('r \<Rightarrow> string) \<Rightarrow> string \<Rightarrow> 'r list \<Rightarrow> bool" where
  "fk key k rs \<longleftrightarrow> row_by key k rs \<noteq> None"

definition fk_opt :: "('r \<Rightarrow> string) \<Rightarrow> string option \<Rightarrow> 'r list \<Rightarrow> bool" where
  "fk_opt key k rs \<longleftrightarrow> (case k of None \<Rightarrow> True | Some i \<Rightarrow> fk key i rs)"

definition job_constraints :: "db \<Rightarrow> job_row \<Rightarrow> bool" where
  "job_constraints d r \<longleftrightarrow>
     job_of d (j_id r) = None \<and>
     fk u_id (j_user_id r) (users d) \<and>
     fk a_id (j_service_account_id r) (accounts d) \<and>
     fk k_id (j_api_key_id r) (api_keys d) \<and>
     fk_opt j_id (j_retry_of_job_id r) (jobs d) \<and>
     fk_opt s_id (j_source_id r) (sources d) \<and>
     fk_opt r_id (j_project_revision_id r) (revisions d) \<and>
     j_outputs r \<noteq> None"

definition insert_job :: "job_row \<Rightarrow> unit tx" where
  "insert_job r d =
     (if job_constraints d r then Inr ((), d\<lparr>jobs := jobs d @ [r]\<rparr>) else Inl ConstraintError)"

fun output_name :: "render_output \<Rightarrow> string" where
  "output_name Pdf = ''pdf''"
| "output_name Svg = ''svg''"

text \<open>\<open>JSON.stringify(outputs)\<close>.\<close>

definition outputs_json :: "render_output list \<Rightarrow> json_text" where
  "outputs_json outs = Some (JArr (map (\<lambda>x. JStr (output_name x)) outs))"

text \<open>The columns an INSERT does not name, at their defaults.\<close>

definition blank_job :: job_row where
  "blank_job = \<lparr>j_id = [], j_user_id = [], j_service_account_id = [], j_api_key_id = [],
     j_status = Reserved, j_renderer_version = [], j_source_size = 0, j_source_sha256 = [],
     j_created_at = 0, j_updated_at = 0, j_queued_at = None, j_started_at = None,
     j_completed_at = None, j_exit_code = None, j_error_code = None, j_error_message = None,
     j_output_size = None, j_cancel_requested_at = None, j_retry_of_job_id = None,
     j_lease_owner = None, j_lease_expires_at = None, j_heartbeat_at = None,
     j_lease_generation = 0, j_deleted_at = None, j_source_id = None,
     j_entrypoint = ''main.tex'', j_project_revision_id = None, j_outputs = outputs_json [Pdf],
     j_reserved_output_bytes = 209715200, j_render_status = None, j_deletion_status = Retained,
     j_deletion_attempts = 0, j_deletion_error = None, j_deletion_next_attempt_at = None\<rparr>"

lemma insert_job_InrD:
  "insert_job r d = Inr (u, d') \<Longrightarrow> job_constraints d r \<and> d' = d\<lparr>jobs := jobs d @ [r]\<rparr>"
  by (auto simp: insert_job_def split: if_splits)

end
