(* ===== verification/Source_Lifecycle.thy ===== *)
theory Source_Lifecycle
  imports Job_Table
begin

text \<open>
  Settings (repositories/settings.ts), the maintenance gate for source writes and the rules that
  decide which sources are still referenced or ready (source-lifecycle.ts).
\<close>

section \<open>Settings\<close>

definition setting_get :: "db \<Rightarrow> string \<Rightarrow> setting_row option" where
  "setting_get d k = row_by g_key k (settings d)"

text \<open>\<open>JSON.parse\<close> of a broken value throws.\<close>

definition setting_value :: "db \<Rightarrow> string \<Rightarrow> json \<Rightarrow> json result" where
  "setting_value d k fallback =
     (case setting_get d k of
        None \<Rightarrow> Inr fallback
      | Some r \<Rightarrow> (case g_value r of None \<Rightarrow> Inl PlainError | Some v \<Rightarrow> Inr v))"

definition list_mutable :: "db \<Rightarrow> setting_row list" where
  "list_mutable d = sort_key g_key (filter (\<lambda>r. g_key r \<in>
     {''max_queue_length'', ''max_user_storage_bytes'', ''max_user_active_jobs'',
      ''source_orphan_retention_minutes''}) (settings d))"

definition setting_upsert :: "string \<Rightarrow> json \<Rightarrow> string \<Rightarrow> timestamp \<Rightarrow> db \<Rightarrow> db" where
  "setting_upsert k v by ts d =
     (let row = \<lparr>g_key = k, g_value = Some v, g_updated_by = by, g_updated_at = ts\<rparr> in
      case setting_get d k of
        None \<Rightarrow> d\<lparr>settings := settings d @ [row]\<rparr>
      | Some _ \<Rightarrow> d\<lparr>settings := upd_where (\<lambda>r. g_key r = k)
          (\<lambda>r. r\<lparr>g_value := Some v, g_updated_by := by, g_updated_at := ts\<rparr>) (settings d)\<rparr>)"

lemma setting_value_upsert:
  "setting_value (setting_upsert k v by ts d) k' w =
     (if k' = k then Inr v else setting_value d k' w)"
proof (cases "row_by g_key k (settings d)")
  case None
  then show ?thesis
    by (auto simp: setting_upsert_def setting_value_def setting_get_def row_by_append
        split: option.splits)
next
  case (Some r)
  have "row_by g_key k' (upd_where (\<lambda>r. g_key r = k)
      (\<lambda>r. r\<lparr>g_value := Some v, g_updated_by := by, g_updated_at := ts\<rparr>) (settings d)) =
      map_option (\<lambda>r. if g_key r = k then
        r\<lparr>g_value := Some v, g_updated_by := by, g_updated_at := ts\<rparr> else r)
      (row_by g_key k' (settings d))"
    by (rule setting_table.row_by_upd_where) simp
  with Some show ?thesis
    by (auto simp: setting_upsert_def setting_value_def setting_get_def
        split: option.splits dest: row_by_SomeD)
qed

section \<open>The maintenance gate\<close>

definition assert_source_writable :: "db \<Rightarrow> unit result" where
  "assert_source_writable d =
     (case setting_value d ''maintenance_mode'' (JStr ''normal'') of
        Inl e \<Rightarrow> Inl e
      | Inr m \<Rightarrow>
          if m \<noteq> JStr ''normal'' \<and> m \<noteq> JStr ''reject-new-jobs''
          then Inl (AppError ''MAINTENANCE'' 503) else Inr ())"

fun mode_name :: "maintenance_mode \<Rightarrow> string" where
  "mode_name Normal = ''normal''"
| "mode_name RejectNewJobs = ''reject-new-jobs''"
| "mode_name ReadOnly = ''read-only''"
| "mode_name Lockdown = ''lockdown''"

text \<open>Sources stay writable exactly below read-only.\<close>

lemma source_writable_iff:
  assumes "setting_value d ''maintenance_mode'' (JStr ''normal'') = Inr (JStr (mode_name m))"
  shows "assert_source_writable d = Inr () \<longleftrightarrow> m < ReadOnly"
  using assms by (cases m) (simp_all add: assert_source_writable_def less_maintenance_mode_def)

section \<open>References to a source\<close>

definition project_of :: "db \<Rightarrow> string \<Rightarrow> project_row option" where
  "project_of d i = row_by p_id i (projects d)"

text \<open>
  \<open>sourceReferenceCountSql\<close>: jobs that are not deleted or expired, and revisions of projects
  that are not deleted; owner-scoped, only those of the source's owner.
\<close>

definition job_references :: "bool \<Rightarrow> source_row \<Rightarrow> job_row \<Rightarrow> bool" where
  "job_references scoped s j \<longleftrightarrow>
     j_source_id j = Some (s_id s) \<and> j_status j \<notin> {Deleted, Expired} \<and>
     (scoped \<longrightarrow> j_user_id j = s_owner_user_id s)"

definition revision_references :: "db \<Rightarrow> bool \<Rightarrow> source_row \<Rightarrow> revision_row \<Rightarrow> bool" where
  "revision_references d scoped s r \<longleftrightarrow>
     (case project_of d (r_project_id r) of
        None \<Rightarrow> False
      | Some p \<Rightarrow> r_source_id r = s_id s \<and> p_deleted_at p = None \<and>
          (scoped \<longrightarrow> p_owner_user_id p = s_owner_user_id s))"

definition source_reference_count :: "db \<Rightarrow> bool \<Rightarrow> source_row \<Rightarrow> nat" where
  "source_reference_count d scoped s =
     changes (job_references scoped s) (jobs d) +
     changes (revision_references d scoped s) (revisions d)"

text \<open>\<open>readySourceSql\<close> with its timestamp parameter.\<close>

definition ready_source :: "db \<Rightarrow> timestamp \<Rightarrow> source_row \<Rightarrow> bool" where
  "ready_source d now s \<longleftrightarrow>
     s_status s = SReady \<and> (s_expires_at s > now \<or> source_reference_count d True s > 0)"

definition source_request_expires_at :: "timestamp \<Rightarrow> timestamp" where
  "source_request_expires_at ts = ts + 86400000"

lemma changes_mono:
  "(\<And>r. r \<in> set rs \<Longrightarrow> p r \<Longrightarrow> q r) \<Longrightarrow> changes p rs \<le> changes q rs"
  by (induction rs) auto

text \<open>The owner's own references are among all references.\<close>

lemma scoped_references_le:
  "source_reference_count d True s \<le> source_reference_count d False s"
  unfolding source_reference_count_def
  by (intro add_mono changes_mono)
    (auto simp: job_references_def revision_references_def split: option.splits)

lemma job_reference_counts:
  "j \<in> set (jobs d) \<Longrightarrow> job_references scoped s j \<Longrightarrow> source_reference_count d scoped s > 0"
  using changes_pos_iff [of "job_references scoped s" "jobs d"]
  by (auto simp: source_reference_count_def)

end
