(* ===== verification/Paging.thy ===== *)
theory Paging
  imports Schema
begin

text \<open>
  Keyset pagination as every list endpoint does it (packages/shared/src/pagination.ts and the
  page queries of the repositories): the rows whose sort values are below the cursor's, newest
  first, one more than asked for to see whether there is a next page. The locale
  \<open>paged_listing\<close> is the contract of a page query; its lemmas say that a client that follows
  the cursors sees every row exactly once.
\<close>

section \<open>Pages\<close>

record ('r, 'k) page =
  items :: "'r list"
  next_cursor :: "'k option"
  has_more :: bool

definition before_cursor :: "('r \<Rightarrow> 'k::linorder) \<Rightarrow> 'k option \<Rightarrow> 'r \<Rightarrow> bool" where
  "before_cursor key c r = (case c of None \<Rightarrow> True | Some k \<Rightarrow> key r < k)"

text \<open>
  The JavaScript after the query: \<open>hasMore = rows.length > limit\<close>, drop the extra row, and the
  cursor is the last row's sort values when there are more.
\<close>

definition cut_page :: "('r \<Rightarrow> 'k) \<Rightarrow> nat \<Rightarrow> 'r list \<Rightarrow> ('r, 'k) page" where
  "cut_page key limit rows =
     (let more = length rows > limit; shown = (if more then butlast rows else rows) in
      \<lparr>items = shown,
       next_cursor = (if more \<and> shown \<noteq> [] then Some (key (last shown)) else None),
       has_more = more\<rparr>)"

definition keyset_page ::
  "('r \<Rightarrow> 'k::linorder) \<Rightarrow> 'k option \<Rightarrow> nat \<Rightarrow> 'r list \<Rightarrow> ('r, 'k) page" where
  "keyset_page key c limit rows =
     cut_page key limit (take (limit + 1) (order_desc key (filter (before_cursor key c) rows)))"

text \<open>Following the cursors from the first page; the fuel bounds the number of requests.\<close>

fun walk :: "('k option \<Rightarrow> ('r, 'k) page) \<Rightarrow> nat \<Rightarrow> 'k option \<Rightarrow> 'r list option" where
  "walk fetch 0 c = None"
| "walk fetch (Suc n) c =
     (let p = fetch c in
      case next_cursor p of
        None \<Rightarrow> Some (items p)
      | Some k \<Rightarrow> map_option ((@) (items p)) (walk fetch n (Some k)))"

section \<open>Descending order\<close>

lemma sorted_order_desc: "sorted (rev (map key (order_desc key rows)))"
  by (simp add: order_desc_def rev_map)

lemma order_desc_eq_Nil [simp]: "order_desc key rows = [] \<longleftrightarrow> rows = []"
  by (metis length_0_conv length_order_desc)

lemma filter_order_desc: "filter p (order_desc key rows) = order_desc key (filter p rows)"
  by (simp add: order_desc_def rev_filter [symmetric] filter_sort)

lemma distinct_order_desc:
  "distinct (map key rows) \<Longrightarrow> distinct (map key (order_desc key rows))"
  by (simp add: distinct_map order_desc_def)

lemma filter_below_nth:
  fixes xs :: "'k::linorder list"
  assumes "sorted (rev xs)" and "distinct xs" and "n < length xs"
  shows "filter (\<lambda>x. x < xs ! n) xs = drop (Suc n) xs"
  using assms
proof (induction xs arbitrary: n)
  case Nil
  then show ?case by simp
next
  case (Cons a xs)
  have below: "\<forall>x\<in>set xs. x < a"
    using Cons.prems(1,2) by (auto simp: sorted_append order.strict_iff_order)
  show ?case
  proof (cases n)
    case 0
    with below show ?thesis by simp
  next
    case (Suc m)
    then have "filter (\<lambda>x. x < xs ! m) xs = drop (Suc m) xs"
      using Cons by (auto simp: sorted_append)
    moreover have "\<not> a < xs ! m"
      using below Cons.prems(3) Suc by (auto dest: bspec [OF _ nth_mem] simp: not_less)
    ultimately show ?thesis using Suc by simp
  qed
qed

lemma rows_after_nth:
  assumes "distinct (map key rows)" and "n < length rows"
  shows "order_desc key (filter (\<lambda>r. key r < key (order_desc key rows ! n)) rows) =
    drop (Suc n) (order_desc key rows)"
proof -
  let ?o = "order_desc key rows"
  have "filter (\<lambda>x. x < map key ?o ! n) (map key ?o) = drop (Suc n) (map key ?o)"
    using assms sorted_order_desc distinct_order_desc by (intro filter_below_nth) auto
  then have "map key (filter (\<lambda>r. key r < key (?o ! n)) ?o) = map key (drop (Suc n) ?o)"
    using assms by (simp add: filter_map comp_def drop_map)
  moreover have "inj_on key (set ?o)"
    using distinct_order_desc [OF assms(1)] by (simp add: distinct_map)
  then have "inj_on key (set (filter (\<lambda>r. key r < key (?o ! n)) ?o) \<union> set (drop (Suc n) ?o))"
    by (rule inj_on_subset) (auto dest: in_set_dropD)
  ultimately have "filter (\<lambda>r. key r < key (?o ! n)) ?o = drop (Suc n) ?o"
    by (rule map_inj_on)
  then show ?thesis by (simp add: filter_order_desc)
qed

section \<open>What a page holds\<close>

lemma items_keyset_page:
  "items (keyset_page key c limit rows) =
     take limit (order_desc key (filter (before_cursor key c) rows))"
  by (simp add: keyset_page_def cut_page_def Let_def butlast_take)

lemma has_more_keyset_page:
  "has_more (keyset_page key c limit rows) \<longleftrightarrow>
     limit < length (filter (before_cursor key c) rows)"
  by (auto simp: keyset_page_def cut_page_def Let_def min_def)

lemma next_cursor_keyset_page:
  assumes "0 < limit"
  shows "next_cursor (keyset_page key c limit rows) =
    (if limit < length (filter (before_cursor key c) rows)
     then Some (key (order_desc key (filter (before_cursor key c) rows) ! (limit - 1))) else None)"
proof -
  let ?o = "order_desc key (filter (before_cursor key c) rows)"
  show ?thesis
  proof (cases "limit < length ?o")
    case True
    then have "length (take (limit + 1) ?o) > limit" by simp
    moreover from True have b: "butlast (take (limit + 1) ?o) = take limit ?o"
      by (simp add: butlast_take)
    moreover from True assms have "take limit ?o \<noteq> []"
      by (cases ?o; cases limit) simp_all
    moreover from True assms have "last (take limit ?o) = ?o ! (limit - 1)"
      by (subst last_conv_nth) auto
    ultimately show ?thesis using True
      by (simp add: keyset_page_def cut_page_def Let_def)
  next
    case False
    then show ?thesis by (simp add: keyset_page_def cut_page_def Let_def)
  qed
qed

lemma length_items_keyset_page: "length (items (keyset_page key c limit rows)) \<le> limit"
  by (simp add: items_keyset_page)

lemma before_cursor_None [simp]: "before_cursor key None = (\<lambda>r. True)"
  by (simp add: before_cursor_def fun_eq_iff)

lemma before_cursor_Some [simp]: "before_cursor key (Some k) = (\<lambda>r. key r < k)"
  by (simp add: before_cursor_def fun_eq_iff)

section \<open>Following the cursors\<close>

text \<open>
  After a page that has more, the rows below its cursor are the rows of the cursor before it,
  without the page.
\<close>

lemma next_rows:
  fixes key :: "'r \<Rightarrow> 'k::linorder"
  assumes "distinct (map key rows)" and "0 < limit" and
    "next_cursor (keyset_page key c limit rows) = Some k"
  shows "order_desc key (filter (before_cursor key (Some k)) rows) =
    drop limit (order_desc key (filter (before_cursor key c) rows))"
proof -
  let ?f = "filter (before_cursor key c) rows"
  from assms(2,3) have len: "limit < length ?f" and
    k: "k = key (order_desc key ?f ! (limit - 1))"
    by (auto simp: next_cursor_keyset_page split: if_splits)
  have d: "distinct (map key ?f)" by (simp add: assms(1) distinct_map_filter)
  have "order_desc key ?f ! (limit - 1) \<in> set (order_desc key ?f)"
    using len by (intro nth_mem) simp
  then have "before_cursor key c (order_desc key ?f ! (limit - 1))" by simp
  then have "filter (before_cursor key (Some k)) rows = filter (\<lambda>r. key r < k) ?f"
    unfolding filter_filter using k
    by (intro filter_cong) (auto simp: before_cursor_def split: option.splits)
  then show ?thesis
    using rows_after_nth [OF d, of "limit - 1"] len assms(2) k by simp
qed

lemma walk_pages:
  fixes key :: "'r \<Rightarrow> 'k::linorder"
  assumes "distinct (map key rows)" and "0 < limit"
    and "length (filter (before_cursor key c) rows) < n"
  shows "walk (\<lambda>c. keyset_page key c limit rows) n c =
    Some (order_desc key (filter (before_cursor key c) rows))"
  using assms(3)
proof (induction n arbitrary: c)
  case 0
  then show ?case by simp
next
  case (Suc n)
  let ?o = "order_desc key (filter (before_cursor key c) rows)"
  show ?case
  proof (cases "next_cursor (keyset_page key c limit rows)")
    case None
    then have "length ?o \<le> limit"
      using assms(2) by (simp add: next_cursor_keyset_page split: if_splits)
    with None show ?thesis by (simp add: items_keyset_page)
  next
    case (Some k)
    have rest: "order_desc key (filter (before_cursor key (Some k)) rows) = drop limit ?o"
      by (rule next_rows [OF assms(1,2) Some])
    from Some assms(2) have "limit < length (filter (before_cursor key c) rows)"
      by (simp add: next_cursor_keyset_page split: if_splits)
    then have "length (order_desc key (filter (before_cursor key (Some k)) rows)) < n"
      using Suc.prems assms(2) unfolding rest by simp
    then have "length (filter (before_cursor key (Some k)) rows) < n" by simp
    from Suc.IH [OF this] Some show ?thesis
      by (simp only: walk.simps Let_def option.case option.map rest items_keyset_page
          append_take_drop_id)
  qed
qed

text \<open>
  The contract of a page query over the database: some listing of rows with a total sort key,
  of which the query returns the page at a cursor.
\<close>

locale paged_listing =
  fixes fetch :: "'d \<Rightarrow> 'k::linorder option \<Rightarrow> nat \<Rightarrow> ('r, 'k) page"
    and listing :: "'d \<Rightarrow> 'r list"
    and key :: "'r \<Rightarrow> 'k"
  assumes fetch_page: "fetch d c limit = keyset_page key c limit (listing d)"
begin

lemma page_bounded: "length (items (fetch d c limit)) \<le> limit"
  by (simp add: fetch_page length_items_keyset_page)

lemma page_sound: "r \<in> set (items (fetch d c limit)) \<Longrightarrow>
  r \<in> set (listing d) \<and> before_cursor key c r"
  by (auto simp: fetch_page items_keyset_page dest: in_set_takeD)

lemma walk_complete:
  "distinct (map key (listing d)) \<Longrightarrow> 0 < limit \<Longrightarrow> length (listing d) < n \<Longrightarrow>
   walk (\<lambda>c. fetch d c limit) n None = Some (order_desc key (listing d))"
  by (simp add: fetch_page walk_pages)

text \<open>A row inserted or deleted above the cursor does not disturb the rest of the walk.\<close>

lemma page_stable:
  assumes "filter (before_cursor key (Some k)) (listing d) =
    filter (before_cursor key (Some k)) (listing e)"
  shows "fetch d (Some k) limit = fetch e (Some k) limit"
  using assms by (simp add: fetch_page keyset_page_def)

end

end
