(* ===== verification/White_Space.thy ===== *)
theory White_Space
  imports Text
begin

text \<open>
  JavaScript's \<open>trim\<close> and \<open>split(/\s+/)\<close> for characters of one byte, the URL-safe base64
  alphabet of the secrets, and the check for control characters that several services repeat.
\<close>

definition is_space :: "char \<Rightarrow> bool" where
  "is_space c \<longleftrightarrow> (9 \<le> ord_of c \<and> ord_of c \<le> 13) \<or> ord_of c = 32 \<or> ord_of c = 160"

definition trim :: "string \<Rightarrow> string" where
  "trim s = rev (dropWhile is_space (rev (dropWhile is_space s)))"

text \<open>\<open>toLowerCase\<close> of ASCII text, and \<open>includes\<close>, SQL's \<open>instr(hay, needle) > 0\<close>.\<close>

definition lower_char :: "char \<Rightarrow> char" where
  "lower_char c = (if 65 \<le> (of_char c :: nat) \<and> (of_char c :: nat) \<le> 90
     then char_of ((of_char c :: nat) + 32) else c)"

definition lower :: "string \<Rightarrow> string" where
  "lower s = map lower_char s"

definition instr :: "string \<Rightarrow> string \<Rightarrow> bool" where
  "instr hay needle \<longleftrightarrow> list_ex (prefix needle) (suffixes hay)"

text \<open>The parts between runs of white space, for a text that neither starts nor ends with one.\<close>

fun split_spaces :: "string \<Rightarrow> string list" where
  "split_spaces [] = [[]]"
| "split_spaces (x # xs) =
     (if is_space x
      then (case xs of y # ys \<Rightarrow> if is_space y then split_spaces xs else [] # split_spaces xs
            | [] \<Rightarrow> [] # split_spaces xs)
      else case split_spaces xs of [] \<Rightarrow> [[x]] | p # ps \<Rightarrow> (x # p) # ps)"

definition url_safe :: "char \<Rightarrow> bool" where
  "url_safe c \<longleftrightarrow> is_alnum c \<or> c = CHR ''_'' \<or> c = CHR ''-''"

text \<open>\<open>^[A-Za-z0-9_-]{43}$\<close>: 32 bytes in base64url.\<close>

definition is_secret :: "string \<Rightarrow> bool" where
  "is_secret s \<longleftrightarrow> length s = 43 \<and> list_all url_safe s"

definition has_control :: "string \<Rightarrow> bool" where
  "has_control s \<longleftrightarrow> list_ex (\<lambda>c. ord_of c \<le> 31 \<or> ord_of c = 127) s"

text \<open>\<open>[...new Set(xs)]\<close>: the first of equal elements is kept.\<close>

definition unique :: "'a list \<Rightarrow> 'a list" where
  "unique xs = rev (remdups (rev xs))"

lemma set_unique [simp]: "set (unique xs) = set xs"
  by (simp add: unique_def)

lemma distinct_unique [simp]: "distinct (unique xs)"
  by (simp add: unique_def)

end
