(* ===== verification/Jobs.thy ===== *)
theory Jobs
  imports Source_Lifecycle Paging White_Space
begin

text \<open>
  \<open>JobsRepository\<close> (packages/database/src/repositories/jobs.ts): reads, lists and pages of jobs,
  the storage accounting, and the statements that cancel, restore, delete, insert and attach
  jobs. A projection of columns is modelled by the whole row; strings searched by \<open>lower\<close> and
  \<open>toLowerCase\<close> are ASCII, where both agree.
\<close>

section \<open>Visibility\<close>

text \<open>\<open>userServiceAccountSql\<close> and \<open>userJobSql\<close> (user-visible.ts).\<close>

definition user_account :: "db \<Rightarrow> string \<Rightarrow> bool" where
  "user_account d i \<longleftrightarrow> exists_row (\<lambda>a. a_id a = i \<and> a_purpose a = UserPurpose) (accounts d)"

definition user_job :: "db \<Rightarrow> job_row \<Rightarrow> bool" where
  "user_job d j \<longleftrightarrow> user_account d (j_service_account_id j)"

section \<open>Lists and pages\<close>

definition job_key :: "job_row \<Rightarrow> timestamp \<times> string" where
  "job_key j = (j_created_at j, j_id j)"

type_synonym job_cursor = "(timestamp \<times> string) option"

definition list_jobs :: "db \<Rightarrow> nat \<Rightarrow> job_row list" where
  "list_jobs d limit = take limit (order_desc j_created_at (filter (user_job d) (jobs d)))"

record job_filter =
  f_status :: "string option"
  f_source_id :: "string option"
  f_query :: "string option"

text \<open>A filter that is undefined or empty adds no condition.\<close>

definition admin_match :: "db \<Rightarrow> job_filter \<Rightarrow> job_row \<Rightarrow> bool" where
  "admin_match d f j \<longleftrightarrow>
     user_job d j \<and>
     (case f_status f of None \<Rightarrow> True | Some s \<Rightarrow> s = [] \<or> status_name (j_status j) = s) \<and>
     (case f_source_id f of None \<Rightarrow> True | Some s \<Rightarrow> s = [] \<or> j_source_id j = Some s) \<and>
     (case f_query f of None \<Rightarrow> True
      | Some q0 \<Rightarrow> (let q = lower (trim q0) in q = [] \<or> instr (lower (j_id j)) q \<or>
          instr (lower (coalesce (j_source_id j) [])) q \<or> instr (lower (j_user_id j)) q \<or>
          instr (lower (j_entrypoint j)) q))"

definition list_admin_page ::
  "job_filter \<Rightarrow> db \<Rightarrow> job_cursor \<Rightarrow> nat \<Rightarrow> (job_row, timestamp \<times> string) page" where
  "list_admin_page f d c limit =
     cut_page job_key limit (take (limit + 1) (order_desc job_key
       (filter (\<lambda>j. admin_match d f j \<and> before_cursor job_key c j) (jobs d))))"

definition count_admin :: "db \<Rightarrow> job_filter \<Rightarrow> nat" where
  "count_admin d f = changes (admin_match d f) (jobs d)"

definition retries :: "db \<Rightarrow> string \<Rightarrow> job_row list" where
  "retries d i = order_desc j_created_at (filter (\<lambda>j. j_retry_of_job_id j = Some i) (jobs d))"

definition get_job :: "db \<Rightarrow> string \<Rightarrow> job_row option" where
  "get_job d i = job_of d i"

definition get_visible :: "db \<Rightarrow> string \<Rightarrow> job_row option" where
  "get_visible d i = find (\<lambda>j. j_id j = i \<and> user_job d j) (jobs d)"

definition get_owned :: "db \<Rightarrow> string \<Rightarrow> string \<Rightarrow> string \<Rightarrow> job_row option" where
  "get_owned d i uid aid = find (\<lambda>j. j_id j = i \<and> j_user_id j = uid \<and>
     j_service_account_id j = aid \<and> j_deleted_at j = None) (jobs d)"

definition get_upload_state :: "db \<Rightarrow> string \<Rightarrow> (job_status \<times> string) option" where
  "get_upload_state d i = map_option (\<lambda>j. (j_status j, j_source_sha256 j)) (job_of d i)"

definition find_retry_source :: "db \<Rightarrow> string \<Rightarrow> job_row option" where
  "find_retry_source d i = find (\<lambda>j. j_id j = i \<and> user_job d j \<and>
     j_status j \<in> {Succeeded, Failed, Timeout, Canceled, Rejected}) (jobs d)"

definition list_owned :: "db \<Rightarrow> string \<Rightarrow> nat \<Rightarrow> job_row list" where
  "list_owned d uid limit = take limit (order_desc j_created_at
     (filter (\<lambda>j. j_user_id j = uid \<and> user_job d j \<and> j_deleted_at j = None) (jobs d)))"

text \<open>The LEFT JOINs of \<open>listOwnedPage\<close>: the revision, and its project unless deleted.\<close>

type_synonym owned_job = "job_row \<times> revision_row option \<times> project_row option"

definition join_project :: "db \<Rightarrow> job_row \<Rightarrow> owned_job" where
  "join_project d j =
     (let r = Option.bind (j_project_revision_id j) (\<lambda>i. row_by r_id i (revisions d));
          p = Option.bind r (\<lambda>r. Option.bind (project_of d (r_project_id r))
                (\<lambda>p. if p_deleted_at p = None then Some p else None))
      in (j, r, p))"

definition list_owned_page ::
  "string \<Rightarrow> db \<Rightarrow> job_cursor \<Rightarrow> nat \<Rightarrow> (owned_job, timestamp \<times> string) page" where
  "list_owned_page uid d c limit =
     cut_page (\<lambda>r. job_key (fst r)) limit (take (limit + 1) (order_desc (\<lambda>r. job_key (fst r))
       (filter (\<lambda>r. before_cursor job_key c (fst r)) (map (join_project d)
         (filter (\<lambda>j. j_user_id j = uid \<and> user_job d j \<and> j_deleted_at j = None) (jobs d))))))"

definition revision_jobs :: "db \<Rightarrow> string \<Rightarrow> job_row list" where
  "revision_jobs d r = filter (\<lambda>j. j_project_revision_id j = Some r \<and> user_job d j \<and>
     j_deleted_at j = None) (jobs d)"

text \<open>The \<open>Map\<close> results are association lists in the order of their first insertion.\<close>

definition list_summaries_for_revisions ::
  "db \<Rightarrow> string list \<Rightarrow> nat \<Rightarrow> (string \<times> job_row list) list" where
  "list_summaries_for_revisions d rs limit =
     filter (\<lambda>(r, js). js \<noteq> [])
       (map (\<lambda>r. (r, take limit (order_desc job_key (revision_jobs d r)))) (sort (remdups rs)))"

definition count_for_revisions :: "db \<Rightarrow> string list \<Rightarrow> (string \<times> nat) list" where
  "count_for_revisions d rs =
     filter (\<lambda>(r, n). n \<noteq> 0) (map (\<lambda>r. (r, length (revision_jobs d r))) (sort (remdups rs)))"

definition list_for_revision_page ::
  "string \<Rightarrow> db \<Rightarrow> job_cursor \<Rightarrow> nat \<Rightarrow> (job_row, timestamp \<times> string) page" where
  "list_for_revision_page r d c limit =
     cut_page job_key limit (take (limit + 1) (order_desc job_key
       (filter (before_cursor job_key c) (revision_jobs d r))))"

definition for_revision :: "db \<Rightarrow> string \<Rightarrow> job_row list" where
  "for_revision d r = order_desc j_created_at (revision_jobs d r)"

definition list_by_source_page ::
  "string \<Rightarrow> db \<Rightarrow> job_cursor \<Rightarrow> nat \<Rightarrow> (job_row, timestamp \<times> string) page" where
  "list_by_source_page s d c limit =
     cut_page job_key limit (take (limit + 1) (order_desc job_key
       (filter (before_cursor job_key c) (filter (\<lambda>j. j_source_id j = Some s \<and> user_job d j \<and>
          j_deleted_at j = None) (jobs d)))))"

section \<open>Counts and storage\<close>

definition count_active :: "db \<Rightarrow> nat" where
  "count_active d = changes (\<lambda>j. active (j_status j)) (jobs d)"

definition count_active_for_service_account :: "db \<Rightarrow> string \<Rightarrow> nat" where
  "count_active_for_service_account d i =
     changes (\<lambda>j. j_service_account_id j = i \<and> active (j_status j)) (jobs d)"

definition count_active_for_user :: "db \<Rightarrow> string \<Rightarrow> nat" where
  "count_active_for_user d i = changes (\<lambda>j. j_user_id j = i \<and> active (j_status j)) (jobs d)"

definition job_bytes :: "job_row \<Rightarrow> nat" where
  "job_bytes j =
     (if active (j_status j) then max (coalesce (j_output_size j) 0) (j_reserved_output_bytes j)
      else coalesce (j_output_size j) 0) +
     (if j_source_id j = None then j_source_size j else 0)"

definition storage_usage_for_user :: "db \<Rightarrow> string \<Rightarrow> nat" where
  "storage_usage_for_user d i =
     sum_rows s_size (filter (\<lambda>s. s_owner_user_id s = i \<and> s_status s \<noteq> SDeleted) (sources d)) +
     sum_rows job_bytes (filter (\<lambda>j. j_user_id j = i \<and> j_status j \<noteq> Deleted) (jobs d)) +
     sum_rows pv_reserved_bytes (filter (\<lambda>p. pv_status p = PRunning \<and>
       (case job_of d (pv_job_id p) of None \<Rightarrow> False | Some j \<Rightarrow> j_user_id j = i)) (previews d)) +
     sum_rows t_reserved_bytes (filter (\<lambda>t. t_owner_user_id t = i) (trees d))"

definition all_statuses :: "job_status list" where
  "all_statuses = [Reserved, Uploading, Queued, Validating, Running, Succeeded, Failed, Timeout,
     Canceled, Rejected, Deleting, Deleted, Expired]"

definition status_counts :: "db \<Rightarrow> (job_status \<times> nat) list" where
  "status_counts d = filter (\<lambda>(s, n). n \<noteq> 0)
     (map (\<lambda>s. (s, changes (\<lambda>j. user_job d j \<and> j_status j = s) (jobs d))) all_statuses)"

section \<open>Statements that change jobs\<close>

definition cancelable_now :: "job_status \<Rightarrow> bool" where
  "cancelable_now s \<longleftrightarrow> s \<in> {Reserved, Uploading, Queued, Validating}"

lemma cancelable_now_simps [simp]:
  "cancelable_now Reserved" "cancelable_now Uploading" "cancelable_now Queued"
  "cancelable_now Validating" "\<not> cancelable_now Running" "\<not> cancelable_now Succeeded"
  "\<not> cancelable_now Canceled" "\<not> cancelable_now Failed"
  by (simp_all add: cancelable_now_def)

definition cancel :: "string \<Rightarrow> timestamp \<Rightarrow> db \<Rightarrow> nat \<times> db" where
  "cancel i ts d = update_jobs_status (\<lambda>j. j_id j = i \<and> active (j_status j))
     (\<lambda>j. j\<lparr>j_cancel_requested_at := Some ts, j_updated_at := ts,
            j_render_status := (if cancelable_now (j_status j) then Some Canceled
                                else j_render_status j),
            j_status := (if cancelable_now (j_status j) then Canceled else j_status j)\<rparr>) d"

definition restore_reserved :: "string \<Rightarrow> timestamp \<Rightarrow> db \<Rightarrow> db" where
  "restore_reserved i ts d = snd (update_jobs_status (\<lambda>j. j_id j = i \<and> j_status j = Uploading)
     (\<lambda>j. j\<lparr>j_status := Reserved, j_updated_at := ts\<rparr>) d)"

definition mark_deleting :: "string \<Rightarrow> timestamp \<Rightarrow> db \<Rightarrow> nat \<times> db" where
  "mark_deleting i ts d = update_jobs_status (\<lambda>j. j_id j = i \<and> terminal (j_status j))
     (\<lambda>j. j\<lparr>j_render_status := Some (j_status j), j_status := Deleting,
            j_deletion_status := DelPending, j_deletion_attempts := 0, j_deletion_error := None,
            j_deletion_next_attempt_at := None, j_updated_at := ts\<rparr>) d"

record reserved_input =
  ri_id :: string
  ri_user_id :: string
  ri_service_account_id :: string
  ri_api_key_id :: string
  ri_renderer_version :: string
  ri_source_size :: nat
  ri_source_sha256 :: string
  ri_timestamp :: timestamp
  ri_source_id :: "string option"
  ri_entrypoint :: "string option"
  ri_project_revision_id :: "string option"
  ri_outputs :: "render_output list option"
  ri_reserved_output_bytes :: nat

definition reserved_row :: "reserved_input \<Rightarrow> job_row" where
  "reserved_row x = blank_job\<lparr>j_id := ri_id x, j_user_id := ri_user_id x,
     j_service_account_id := ri_service_account_id x, j_api_key_id := ri_api_key_id x,
     j_status := Reserved, j_renderer_version := ri_renderer_version x,
     j_source_size := ri_source_size x, j_source_sha256 := ri_source_sha256 x,
     j_created_at := ri_timestamp x, j_updated_at := ri_timestamp x,
     j_source_id := ri_source_id x, j_entrypoint := coalesce (ri_entrypoint x) ''main.tex'',
     j_project_revision_id := ri_project_revision_id x,
     j_outputs := outputs_json (coalesce (ri_outputs x) [Pdf]),
     j_reserved_output_bytes := ri_reserved_output_bytes x\<rparr>"

definition insert_reserved :: "reserved_input \<Rightarrow> unit tx" where
  "insert_reserved x d = insert_job (reserved_row x) d"

record queued_input =
  qi_id :: string
  qi_user_id :: string
  qi_service_account_id :: string
  qi_api_key_id :: string
  qi_renderer_version :: string
  qi_source_id :: string
  qi_entrypoint :: string
  qi_timestamp :: timestamp
  qi_retry_of_job_id :: "string option"
  qi_project_revision_id :: "string option"
  qi_outputs :: "render_output list option"
  qi_reserved_output_bytes :: nat

definition queued_row :: "queued_input \<Rightarrow> source_row \<Rightarrow> job_row" where
  "queued_row x s = blank_job\<lparr>j_id := qi_id x, j_user_id := qi_user_id x,
     j_service_account_id := qi_service_account_id x, j_api_key_id := qi_api_key_id x,
     j_status := Queued, j_renderer_version := qi_renderer_version x,
     j_source_size := s_size s, j_source_sha256 := s_sha256 s,
     j_created_at := qi_timestamp x, j_updated_at := qi_timestamp x,
     j_queued_at := Some (qi_timestamp x), j_retry_of_job_id := qi_retry_of_job_id x,
     j_source_id := Some (s_id s), j_entrypoint := qi_entrypoint x,
     j_project_revision_id := qi_project_revision_id x,
     j_outputs := outputs_json (coalesce (qi_outputs x) [Pdf]),
     j_reserved_output_bytes := qi_reserved_output_bytes x\<rparr>"

text \<open>INSERT ... SELECT from the owner's ready source: one row, or none when there is no such.\<close>

definition insert_queued :: "queued_input \<Rightarrow> nat tx" where
  "insert_queued x d =
     (case find (\<lambda>s. s_id s = qi_source_id x \<and> s_owner_user_id s = qi_user_id x \<and>
                     ready_source d (qi_timestamp x) s) (sources d) of
        None \<Rightarrow> Inr (0, d)
      | Some s \<Rightarrow> (case insert_job (queued_row x s) d of
          Inl e \<Rightarrow> Inl e | Inr (_, d') \<Rightarrow> Inr (1, d')))"

definition retry_row :: "string \<Rightarrow> job_row \<Rightarrow> string \<Rightarrow> timestamp \<Rightarrow> nat \<Rightarrow> job_row" where
  "retry_row i src ver ts bytes = blank_job\<lparr>j_id := i, j_user_id := j_user_id src,
     j_service_account_id := j_service_account_id src, j_api_key_id := j_api_key_id src,
     j_status := Queued, j_renderer_version := ver, j_source_size := j_source_size src,
     j_source_sha256 := j_source_sha256 src, j_created_at := ts, j_updated_at := ts,
     j_queued_at := Some ts, j_retry_of_job_id := Some (j_id src),
     j_source_id := j_source_id src, j_entrypoint := j_entrypoint src,
     j_project_revision_id := j_project_revision_id src, j_outputs := j_outputs src,
     j_reserved_output_bytes := bytes\<rparr>"

definition insert_retry :: "string \<Rightarrow> job_row \<Rightarrow> string \<Rightarrow> timestamp \<Rightarrow> nat \<Rightarrow> unit tx" where
  "insert_retry i src ver ts bytes d = insert_job (retry_row i src ver ts bytes) d"

text \<open>The UPDATE of \<open>attachProjectRevision\<close>; its foreign key refuses an unknown revision.\<close>

definition attach_project_revision :: "string \<Rightarrow> string \<Rightarrow> nat tx" where
  "attach_project_revision i r d =
     (let p = (\<lambda>j. j_id j = i \<and>
                  (j_project_revision_id j = None \<or> j_project_revision_id j = Some r)) in
      if changes p (jobs d) > 0 \<and> \<not> fk r_id r (revisions d) then Inl ConstraintError
      else Inr (update_jobs p (\<lambda>j. j\<lparr>j_project_revision_id := Some r\<rparr>) d))"

fun output_of_json :: "json \<Rightarrow> render_output option" where
  "output_of_json (JStr s) = (if s = ''pdf'' then Some Pdf else if s = ''svg'' then Some Svg
     else None)"
| "output_of_json _ = None"

text \<open>\<open>outputs(row)\<close> validates what is stored before it is used.\<close>

definition outputs :: "job_row \<Rightarrow> render_output list result" where
  "outputs j = (case j_outputs j of
       Some (JArr vs) \<Rightarrow>
         (case those (map output_of_json vs) of
            Some os \<Rightarrow> if os \<noteq> [] \<and> length os \<le> 2 \<and> Pdf \<in> set os \<and> distinct os
                       then Inr os else Inl PlainError
          | None \<Rightarrow> Inl PlainError)
     | _ \<Rightarrow> Inl PlainError)"

section \<open>The page queries keep the paging contract\<close>

definition owned_rows :: "string \<Rightarrow> db \<Rightarrow> owned_job list" where
  "owned_rows uid d = map (join_project d)
     (filter (\<lambda>j. j_user_id j = uid \<and> user_job d j \<and> j_deleted_at j = None) (jobs d))"

definition source_rows :: "string \<Rightarrow> db \<Rightarrow> job_row list" where
  "source_rows s d = filter (\<lambda>j. j_source_id j = Some s \<and> user_job d j \<and> j_deleted_at j = None)
     (jobs d)"

interpretation admin_listing: paged_listing "list_admin_page f"
  "\<lambda>d. filter (admin_match d f) (jobs d)" job_key for f
  by unfold_locales (simp add: list_admin_page_def keyset_page_def conj_commute)

interpretation owned_listing: paged_listing "list_owned_page uid" "owned_rows uid"
  "\<lambda>r. job_key (fst r)" for uid
proof unfold_locales
  fix d c limit
  have "before_cursor (\<lambda>r :: owned_job. job_key (fst r)) c = (\<lambda>r. before_cursor job_key c (fst r))"
    by (simp add: fun_eq_iff before_cursor_def split: option.splits)
  then show "list_owned_page uid d c limit =
      keyset_page (\<lambda>r. job_key (fst r)) c limit (owned_rows uid d)"
    by (simp add: list_owned_page_def keyset_page_def owned_rows_def)
qed

interpretation revision_listing: paged_listing "list_for_revision_page r"
  "\<lambda>d. revision_jobs d r" job_key for r
  by unfold_locales (simp add: list_for_revision_page_def keyset_page_def)

interpretation by_source_listing: paged_listing "list_by_source_page s" "source_rows s" job_key
  for s
  by unfold_locales (simp add: list_by_source_page_def keyset_page_def source_rows_def)

lemma distinct_job_key: "distinct (map j_id rs) \<Longrightarrow> distinct (map job_key rs)"
  by (simp add: distinct_map inj_on_def job_key_def)

lemma distinct_owned_rows:
  assumes "distinct (map j_id (jobs d))"
  shows "distinct (map (\<lambda>r. job_key (fst r)) (owned_rows uid d))"
proof -
  have "map (\<lambda>r. job_key (fst r)) (owned_rows uid d) = map job_key
      (filter (\<lambda>j. j_user_id j = uid \<and> user_job d j \<and> j_deleted_at j = None) (jobs d))"
    by (simp add: owned_rows_def join_project_def Let_def comp_def)
  then show ?thesis using assms by (simp add: distinct_job_key distinct_map_filter)
qed

lemma list_owned_page_walk:
  "distinct (map j_id (jobs d)) \<Longrightarrow> 0 < limit \<Longrightarrow> length (jobs d) < n \<Longrightarrow>
   walk (\<lambda>c. list_owned_page uid d c limit) n None =
     Some (order_desc (\<lambda>r. job_key (fst r)) (owned_rows uid d))"
proof (rule owned_listing.walk_complete)
  assume "length (jobs d) < n"
  moreover have "length (owned_rows uid d) \<le> length (jobs d)"
    by (simp add: owned_rows_def)
  ultimately show "length (owned_rows uid d) < n" by simp
qed (simp_all add: distinct_owned_rows)

lemma list_admin_page_walk:
  "distinct (map j_id (jobs d)) \<Longrightarrow> 0 < limit \<Longrightarrow> length (jobs d) < n \<Longrightarrow>
   walk (\<lambda>c. list_admin_page f d c limit) n None =
     Some (order_desc job_key (filter (admin_match d f) (jobs d)))"
  by (rule admin_listing.walk_complete)
    (auto simp: distinct_job_key distinct_map_filter intro: le_less_trans [OF length_filter_le])

section \<open>Stored outputs\<close>

lemma output_of_json_name [simp]: "output_of_json (JStr (output_name x)) = Some x"
  by (cases x) simp_all

lemma those_output_of_json [simp]:
  "those (map output_of_json (map (\<lambda>x. JStr (output_name x)) os)) = Some os"
  by (induction os) (simp_all del: output_of_json.simps)

lemma outputs_stored:
  assumes "j_outputs j = outputs_json os"
  shows "outputs j = (if length os \<le> 2 \<and> Pdf \<in> set os \<and> distinct os then Inr os
    else Inl PlainError)"
  using assms those_output_of_json [of os]
  by (auto simp: outputs_def outputs_json_def simp del: those_output_of_json)

lemma outputs_wf:
  "outputs j = Inr os \<Longrightarrow> os \<in> {[Pdf], [Pdf, Svg], [Svg, Pdf]}"
proof -
  assume a: "outputs j = Inr os"
  then have "Pdf \<in> set os" "distinct os" "length os \<le> 2"
    by (auto simp: outputs_def split: option.splits json.splits if_splits)
  then obtain x y where "os = [x] \<or> os = [x, y]"
    by (cases os; cases "tl os") auto
  with \<open>Pdf \<in> set os\<close> \<open>distinct os\<close> show ?thesis
    by (cases x; cases y) auto
qed

section \<open>Cancel and delete\<close>

lemma cancel_job_of:
  "job_of (snd (cancel i ts d)) k = map_option (\<lambda>j. if j_id j = i \<and> active (j_status j)
     then j\<lparr>j_cancel_requested_at := Some ts, j_updated_at := ts,
            j_render_status := (if cancelable_now (j_status j) then Some Canceled
                                else j_render_status j),
            j_status := (if cancelable_now (j_status j) then Canceled else j_status j)\<rparr>
     else j) (job_of d k)"
  by (simp add: cancel_def job_table.row_by_upd_where)

lemma cancel_changes:
  assumes "distinct (map j_id (jobs d))"
  shows "fst (cancel i ts d) =
    (case job_of d i of None \<Rightarrow> 0 | Some j \<Rightarrow> if active (j_status j) then 1 else 0)"
proof -
  have "changes (\<lambda>j. j_id j = i \<and> active (j_status j)) (jobs d) =
    (case job_of d i of None \<Rightarrow> 0 | Some j \<Rightarrow> if j_id j = i \<and> active (j_status j) then 1 else 0)"
    by (rule job_table.changes_by_key [OF assms]) simp
  then show ?thesis by (auto simp: cancel_def split: option.splits dest: row_by_SomeD)
qed

lemma mark_deleting_job_of:
  "job_of (snd (mark_deleting i ts d)) k = map_option (\<lambda>j. if j_id j = i \<and> terminal (j_status j)
     then j\<lparr>j_render_status := Some (j_status j), j_status := Deleting,
            j_deletion_status := DelPending, j_deletion_attempts := 0, j_deletion_error := None,
            j_deletion_next_attempt_at := None, j_updated_at := ts\<rparr>
     else j) (job_of d k)"
  by (simp add: mark_deleting_def job_table.row_by_upd_where)

section \<open>Inserting\<close>

lemma blank_job_simps [simp]:
  "j_status blank_job = Reserved" "j_output_size blank_job = None"
  "j_lease_owner blank_job = None" "j_lease_generation blank_job = 0"
  "j_deleted_at blank_job = None" "j_render_status blank_job = None"
  "j_queued_at blank_job = None" "j_source_id blank_job = None"
  by (simp_all add: blank_job_def)

lemma queued_row_simps [simp]:
  "j_id (queued_row x s) = qi_id x" "j_user_id (queued_row x s) = qi_user_id x"
  "j_status (queued_row x s) = Queued" "j_source_id (queued_row x s) = Some (s_id s)"
  "j_output_size (queued_row x s) = None" "j_lease_owner (queued_row x s) = None"
  "j_reserved_output_bytes (queued_row x s) = qi_reserved_output_bytes x"
  by (simp_all add: queued_row_def)

lemma reserved_row_simps [simp]:
  "j_id (reserved_row x) = ri_id x" "j_user_id (reserved_row x) = ri_user_id x"
  "j_status (reserved_row x) = Reserved" "j_source_id (reserved_row x) = ri_source_id x"
  "j_output_size (reserved_row x) = None" "j_lease_owner (reserved_row x) = None"
  "j_source_size (reserved_row x) = ri_source_size x"
  "j_reserved_output_bytes (reserved_row x) = ri_reserved_output_bytes x"
  by (simp_all add: reserved_row_def)

lemma retry_row_simps [simp]:
  "j_id (retry_row i src v ts b) = i" "j_user_id (retry_row i src v ts b) = j_user_id src"
  "j_status (retry_row i src v ts b) = Queued" "j_lease_owner (retry_row i src v ts b) = None"
  "j_source_id (retry_row i src v ts b) = j_source_id src"
  "j_output_size (retry_row i src v ts b) = None"
  "j_source_size (retry_row i src v ts b) = j_source_size src"
  "j_reserved_output_bytes (retry_row i src v ts b) = b"
  by (simp_all add: retry_row_def)

text \<open>A job is only queued from a ready source of its own user, with the source's size and hash.\<close>

lemma insert_queued_cases:
  assumes "insert_queued x d = Inr (n, d')"
  obtains "n = 0" "d' = d"
  | s where "n = 1" "s \<in> set (sources d)" "s_id s = qi_source_id x"
      "s_owner_user_id s = qi_user_id x" "ready_source d (qi_timestamp x) s"
      "job_constraints d (queued_row x s)" "d' = d\<lparr>jobs := jobs d @ [queued_row x s]\<rparr>"
proof (cases "find (\<lambda>s. s_id s = qi_source_id x \<and> s_owner_user_id s = qi_user_id x \<and>
    ready_source d (qi_timestamp x) s) (sources d)")
  case None
  with assms that(1) show thesis by (simp add: insert_queued_def)
next
  case (Some s)
  then have s: "s \<in> set (sources d)" "s_id s = qi_source_id x" "s_owner_user_id s = qi_user_id x"
    "ready_source d (qi_timestamp x) s"
    by (auto simp: find_Some_iff)
  from Some assms obtain u where "n = 1" "insert_job (queued_row x s) d = Inr (u, d')"
    by (auto simp: insert_queued_def split: sum.splits)
  with s that(2) show thesis by (blast dest: insert_job_InrD)
qed

text \<open>
  Inserting a job adds its reservation, and its source's size when it has a source of its own,
  to the user's storage.
\<close>

lemma job_of_append_new:
  "job_of d (j_id r) = None \<Longrightarrow> row_by j_id k (jobs d @ [r]) =
     (if k = j_id r then Some r else job_of d k)"
  by (auto simp: row_by_append split: option.splits)

lemma changes_where_cong: "(\<And>r. r \<in> set rs \<Longrightarrow> p r = q r) \<Longrightarrow> filter p rs = filter q rs"
  by (rule filter_cong) auto

lemma storage_usage_insert:
  assumes "job_constraints d r" and "j_status r \<noteq> Deleted"
    and "\<forall>p\<in>set (previews d). job_of d (pv_job_id p) \<noteq> None"
  shows "storage_usage_for_user (d\<lparr>jobs := jobs d @ [r]\<rparr>) u =
    storage_usage_for_user d u + (if j_user_id r = u then job_bytes r else 0)"
proof -
  have new: "job_of d (j_id r) = None" using assms(1) by (simp add: job_constraints_def)
  have "filter (\<lambda>p. pv_status p = PRunning \<and> (case row_by j_id (pv_job_id p) (jobs d @ [r]) of
        None \<Rightarrow> False | Some j \<Rightarrow> j_user_id j = u)) (previews d) =
      filter (\<lambda>p. pv_status p = PRunning \<and> (case job_of d (pv_job_id p) of
        None \<Rightarrow> False | Some j \<Rightarrow> j_user_id j = u)) (previews d)"
    using assms(3) new by (intro filter_cong) (auto simp: job_of_append_new)
  with assms(2) show ?thesis by (simp add: storage_usage_for_user_def)
qed

end
