(* ===== verification/Worker.thy ===== *)
theory Worker
  imports Jobs
begin

text \<open>
  \<open>WorkerRepository\<close> (packages/database/src/repositories/worker.ts): claiming the next queued job
  under a lease, and the statements a worker or a recovery run issues under that lease. Every
  such statement names the lease owner and generation it was given; the locale \<open>fenced\<close> is that
  contract, and every statement of the worker is an instance.
\<close>

section \<open>Claiming\<close>

definition has_prefix :: "string \<Rightarrow> string option \<Rightarrow> bool" where
  "has_prefix p owner \<longleftrightarrow> (case owner of None \<Rightarrow> False | Some w \<Rightarrow> take (length p) w = p)"

definition owned_active_job_ids :: "db \<Rightarrow> string \<Rightarrow> string list" where
  "owned_active_job_ids d w =
     map j_id (filter (\<lambda>j. j_status j \<in> {Validating, Running, Canceled} \<and>
       (j_lease_owner j = Some w \<or> has_prefix (w @ '':recovery:'') (j_lease_owner j))) (jobs d))"

record worker_job =
  w_id :: string
  w_source_size :: nat
  w_source_sha256 :: string
  w_status :: job_status
  w_source_id :: "string option"
  w_source_storage_key :: "string option"
  w_entrypoint :: string
  w_outputs :: json_text
  w_lease_generation :: nat

definition worker_job :: "db \<Rightarrow> job_row \<Rightarrow> worker_job" where
  "worker_job d j = \<lparr>w_id = j_id j, w_source_size = j_source_size j,
     w_source_sha256 = j_source_sha256 j, w_status = j_status j, w_source_id = j_source_id j,
     w_source_storage_key =
       map_option s_storage_key (Option.bind (j_source_id j) (source_of d)),
     w_entrypoint = j_entrypoint j, w_outputs = j_outputs j,
     w_lease_generation = j_lease_generation j\<rparr>"

definition queue_key :: "job_row \<Rightarrow> timestamp option \<times> string" where
  "queue_key j = (j_queued_at j, j_id j)"

definition preview_running :: "db \<Rightarrow> bool" where
  "preview_running d \<longleftrightarrow> exists_row (\<lambda>p. pv_status p = PRunning) (previews d)"

text \<open>The queued jobs \<open>claimNext\<close> chooses from.\<close>

definition claimable :: "timestamp option \<Rightarrow> string option \<Rightarrow> job_row \<Rightarrow> bool" where
  "claimable before expected j \<longleftrightarrow>
     j_status j = Queued \<and>
     (case before of None \<Rightarrow> True | Some b \<Rightarrow> sql_le (j_queued_at j) b) \<and>
     (case expected of None \<Rightarrow> True | Some i \<Rightarrow> j_id j = i)"

definition claim_update :: "string \<Rightarrow> timestamp \<Rightarrow> timestamp \<Rightarrow> job_row \<Rightarrow> job_row" where
  "claim_update w now until j = j\<lparr>j_status := Validating, j_lease_owner := Some w,
     j_lease_expires_at := Some until, j_heartbeat_at := Some now, j_updated_at := now,
     j_lease_generation := j_lease_generation j + 1, j_error_code := None,
     j_error_message := None\<rparr>"

definition claim_next ::
  "string \<Rightarrow> timestamp \<Rightarrow> timestamp \<Rightarrow> timestamp option \<Rightarrow> string option \<Rightarrow> db \<Rightarrow>
   worker_job option \<times> db" where
  "claim_next w now until before expected d =
     (if preview_running d then (None, d)
      else case first_by queue_key (filter (claimable before expected) (jobs d)) of
          None \<Rightarrow> (None, d)
        | Some j \<Rightarrow>
            (let (n, d') = update_jobs_status (\<lambda>r. j_id r = j_id j \<and> j_status r = Queued)
                   (claim_update w now until) d in
             (if n = 1
              then Some ((worker_job d j)\<lparr>w_lease_generation := j_lease_generation j + 1\<rparr>)
              else None, d')))"

definition next_queued :: "db \<Rightarrow> (string \<times> timestamp option) option" where
  "next_queued d = map_option (\<lambda>j. (j_id j, j_queued_at j))
     (first_by queue_key (filter (\<lambda>j. j_status j = Queued) (jobs d)))"

definition admission_candidates :: "db \<Rightarrow> (timestamp \<times> string) option \<Rightarrow> job_row list" where
  "admission_candidates d after = take 32 (sort_key queue_key (filter (\<lambda>j. j_status j = Queued \<and>
     (case after of None \<Rightarrow> True
      | Some (q, i) \<Rightarrow> sql_gt (j_queued_at j) q \<or> (sql_eq (j_queued_at j) q \<and> j_id j > i)))
     (jobs d)))"

definition job_matches :: "string option \<Rightarrow> job_row \<Rightarrow> bool" where
  "job_matches i j \<longleftrightarrow> (case i of None \<Rightarrow> True | Some k \<Rightarrow> j_id j = k)"

definition set_admission_reason ::
  "bool \<Rightarrow> timestamp \<Rightarrow> string option \<Rightarrow> string \<Rightarrow> db \<Rightarrow> db" where
  "set_admission_reason blocked ts i msg d =
     (if blocked
      then snd (update_jobs (\<lambda>j. j_status j = Queued \<and> job_matches i j \<and>
               (j_error_code j = None \<or> j_error_code j = Some ''HOST_RESOURCE_WAIT'') \<and>
               j_error_message j \<noteq> Some msg)
             (\<lambda>j. j\<lparr>j_error_code := Some ''HOST_RESOURCE_WAIT'', j_error_message := Some msg,
                    j_updated_at := ts\<rparr>) d)
      else snd (update_jobs (\<lambda>j. j_status j = Queued \<and>
               j_error_code j = Some ''HOST_RESOURCE_WAIT'' \<and> job_matches i j)
             (\<lambda>j. j\<lparr>j_error_code := None, j_error_message := None, j_updated_at := ts\<rparr>) d))"

section \<open>State a running job polls\<close>

record subject_state =
  ss_user_status :: account_status
  ss_sa_status :: account_status
  ss_revoked_at :: "timestamp option"
  ss_expires_at :: "timestamp option"

definition subject_state :: "db \<Rightarrow> string \<Rightarrow> subject_state option" where
  "subject_state d i =
     Option.bind (job_of d i) (\<lambda>j.
     Option.bind (row_by u_id (j_user_id j) (users d)) (\<lambda>u.
     Option.bind (row_by a_id (j_service_account_id j) (accounts d)) (\<lambda>a.
     map_option (\<lambda>k. \<lparr>ss_user_status = u_status u, ss_sa_status = a_status a,
         ss_revoked_at = k_revoked_at k, ss_expires_at = k_expires_at k\<rparr>)
       (row_by k_id (j_api_key_id j) (api_keys d)))))"

record runtime_state =
  rs_cancel_requested_at :: "timestamp option"
  rs_status :: job_status
  rs_lease_owner :: "string option"
  rs_lease_generation :: nat

definition runtime_state :: "db \<Rightarrow> string \<Rightarrow> runtime_state option" where
  "runtime_state d i = map_option (\<lambda>j. \<lparr>rs_cancel_requested_at = j_cancel_requested_at j,
     rs_status = j_status j, rs_lease_owner = j_lease_owner j,
     rs_lease_generation = j_lease_generation j\<rparr>) (job_of d i)"

section \<open>Statements under a lease\<close>

definition holds_lease :: "string \<Rightarrow> string \<Rightarrow> nat \<Rightarrow> job_row \<Rightarrow> bool" where
  "holds_lease i w g j \<longleftrightarrow> j_id j = i \<and> j_lease_owner j = Some w \<and> j_lease_generation j = g"

definition heartbeat ::
  "timestamp \<Rightarrow> timestamp \<Rightarrow> string \<Rightarrow> string \<Rightarrow> nat \<Rightarrow> db \<Rightarrow> nat \<times> db" where
  "heartbeat now until i w g d =
     update_jobs (\<lambda>j. holds_lease i w g j \<and> j_status j \<in> {Validating, Running})
       (\<lambda>j. j\<lparr>j_heartbeat_at := Some now, j_lease_expires_at := Some until\<rparr>) d"

definition mark_canceled ::
  "timestamp \<Rightarrow> nat option \<Rightarrow> string \<Rightarrow> string \<Rightarrow> nat \<Rightarrow> db \<Rightarrow> nat \<times> db" where
  "mark_canceled now bytes i w g d =
     update_jobs_status
       (\<lambda>j. holds_lease i w g j \<and> j_status j \<in> {Validating, Running, Canceled})
       (\<lambda>j. j\<lparr>j_status := Canceled, j_render_status := Some Canceled, j_completed_at := Some now,
              j_updated_at := now, j_output_size := coalesce_opt bytes (j_output_size j),
              j_lease_owner := None, j_lease_expires_at := None\<rparr>) d"

text \<open>\<open>finishFailure\<close> takes the status "rejected" or "failed"; the flag says which.\<close>

definition finish_failure ::
  "bool \<Rightarrow> string \<Rightarrow> string \<Rightarrow> timestamp \<Rightarrow> nat \<Rightarrow> string \<Rightarrow> string \<Rightarrow> nat \<Rightarrow> db \<Rightarrow> nat \<times> db" where
  "finish_failure rejected code msg now bytes i w g d =
     (let st = (if rejected then Rejected else Failed) in
      update_jobs_status (\<lambda>j. holds_lease i w g j \<and> j_status j \<in> {Validating, Running})
       (\<lambda>j. j\<lparr>j_status := st, j_render_status := Some st, j_error_code := Some code,
              j_error_message := Some msg, j_completed_at := Some now, j_updated_at := now,
              j_output_size := Some bytes, j_lease_owner := None, j_lease_expires_at := None\<rparr>) d)"

text \<open>The columns that callers set beside the status; any other name is refused.\<close>

datatype column_update = SetStartedAt "timestamp option" | SetCompletedAt "timestamp option"
  | SetOutputSize "nat option" | SetExitCode "int option" | SetErrorCode "string option"
  | SetErrorMessage "string option" | SetLeaseOwner "string option"
  | SetLeaseExpiresAt "timestamp option" | SetHeartbeatAt "timestamp option"
  | SetRenderStatus "job_status option" | SetQueuedAt "timestamp option" | SetOther string

fun worker_column :: "column_update \<Rightarrow> bool" where
  "worker_column (SetQueuedAt _) = False"
| "worker_column (SetOther _) = False"
| "worker_column _ = True"

fun set_column :: "column_update \<Rightarrow> job_row \<Rightarrow> job_row" where
  "set_column (SetStartedAt v) j = j\<lparr>j_started_at := v\<rparr>"
| "set_column (SetCompletedAt v) j = j\<lparr>j_completed_at := v\<rparr>"
| "set_column (SetOutputSize v) j = j\<lparr>j_output_size := v\<rparr>"
| "set_column (SetExitCode v) j = j\<lparr>j_exit_code := v\<rparr>"
| "set_column (SetErrorCode v) j = j\<lparr>j_error_code := v\<rparr>"
| "set_column (SetErrorMessage v) j = j\<lparr>j_error_message := v\<rparr>"
| "set_column (SetLeaseOwner v) j = j\<lparr>j_lease_owner := v\<rparr>"
| "set_column (SetLeaseExpiresAt v) j = j\<lparr>j_lease_expires_at := v\<rparr>"
| "set_column (SetHeartbeatAt v) j = j\<lparr>j_heartbeat_at := v\<rparr>"
| "set_column (SetRenderStatus v) j = j\<lparr>j_render_status := v\<rparr>"
| "set_column (SetQueuedAt v) j = j\<lparr>j_queued_at := v\<rparr>"
| "set_column (SetOther _) j = j"

definition set_columns :: "column_update list \<Rightarrow> job_row \<Rightarrow> job_row" where
  "set_columns us j = fold set_column us j"

definition transition_update ::
  "job_status list \<Rightarrow> job_status \<Rightarrow> timestamp \<Rightarrow> column_update list \<Rightarrow>
   string \<Rightarrow> string \<Rightarrow> nat \<Rightarrow> db \<Rightarrow> nat \<times> db" where
  "transition_update src dst now us i w g d =
     update_jobs_status (\<lambda>j. holds_lease i w g j \<and> j_status j \<in> set src)
       (\<lambda>j. set_columns us (j\<lparr>j_status := dst, j_updated_at := now\<rparr>)) d"

definition transition_owned ::
  "string \<Rightarrow> string \<Rightarrow> nat \<Rightarrow> job_status list \<Rightarrow> job_status \<Rightarrow> timestamp \<Rightarrow> column_update list \<Rightarrow>
   nat tx" where
  "transition_owned i w g src dst now us d =
     (if src = [] \<or> list_ex (\<lambda>u. \<not> worker_column u) us then Inl PlainError
      else Inr (transition_update src dst now us i w g d))"

record stale_lease =
  sl_id :: string
  sl_status :: job_status
  sl_lease_owner :: string
  sl_lease_expires_at :: timestamp
  sl_lease_generation :: nat

definition stale_lease :: "job_row \<Rightarrow> stale_lease option" where
  "stale_lease j = (case (j_lease_owner j, j_lease_expires_at j) of
       (Some w, Some e) \<Rightarrow> Some \<lparr>sl_id = j_id j, sl_status = j_status j, sl_lease_owner = w,
          sl_lease_expires_at = e, sl_lease_generation = j_lease_generation j\<rparr>
     | _ \<Rightarrow> None)"

definition stale_leases :: "timestamp \<Rightarrow> db \<Rightarrow> stale_lease list" where
  "stale_leases now d = List.map_filter stale_lease
     (filter (\<lambda>j. j_status j \<in> {Validating, Running, Canceled} \<and> j_lease_owner j \<noteq> None \<and>
        sql_lt (j_lease_expires_at j) now) (jobs d))"

definition claim_expired_lease ::
  "stale_lease \<Rightarrow> string \<Rightarrow> timestamp \<Rightarrow> timestamp \<Rightarrow> db \<Rightarrow> nat option \<times> db" where
  "claim_expired_lease l owner now until d =
     (let (n, d') = update_jobs
            (\<lambda>j. j_id j = sl_id l \<and> j_status j = sl_status l \<and>
                 j_lease_owner j = Some (sl_lease_owner l) \<and>
                 j_lease_expires_at j = Some (sl_lease_expires_at l) \<and>
                 j_lease_generation j = sl_lease_generation l \<and>
                 sql_le (j_lease_expires_at j) now)
            (\<lambda>j. j\<lparr>j_lease_owner := Some owner, j_lease_expires_at := Some until,
                   j_heartbeat_at := Some now, j_updated_at := now,
                   j_lease_generation := j_lease_generation j + 1\<rparr>) d in
      (if n = 1 then Some (sl_lease_generation l + 1) else None, d'))"

definition expire_recovery_claim :: "timestamp \<Rightarrow> string \<Rightarrow> string \<Rightarrow> nat \<Rightarrow> db \<Rightarrow> nat \<times> db" where
  "expire_recovery_claim now i w g d =
     update_jobs (\<lambda>j. holds_lease i w g j \<and> j_status j \<in> {Validating, Running, Canceled})
       (\<lambda>j. j\<lparr>j_lease_expires_at := Some now, j_updated_at := now\<rparr>) d"

definition recover_failed :: "timestamp \<Rightarrow> string \<Rightarrow> string \<Rightarrow> nat \<Rightarrow> db \<Rightarrow> nat \<times> db" where
  "recover_failed now i w g d =
     update_jobs_status (\<lambda>j. holds_lease i w g j \<and> j_status j \<in> {Validating, Running})
       (\<lambda>j. j\<lparr>j_status := Failed, j_render_status := Some Failed,
              j_error_code := Some ''WORKER_CRASHED'',
              j_error_message := Some ''Worker lease expired while container existed'',
              j_completed_at := Some now, j_updated_at := now,
              j_lease_owner := None, j_lease_expires_at := None\<rparr>) d"

definition recover_queued :: "timestamp \<Rightarrow> string \<Rightarrow> string \<Rightarrow> nat \<Rightarrow> db \<Rightarrow> nat \<times> db" where
  "recover_queued now i w g d =
     update_jobs_status (\<lambda>j. holds_lease i w g j \<and> j_status j \<in> {Validating, Running})
       (\<lambda>j. j\<lparr>j_status := Queued, j_updated_at := now, j_lease_owner := None,
              j_lease_expires_at := None\<rparr>) d"

section \<open>The fence\<close>

text \<open>
  What a statement under a lease promises: without a row that holds the lease it does nothing,
  it touches no other job, and it keeps every id and lease generation.
\<close>

abbreviation lease_ids :: "db \<Rightarrow> (string \<times> nat) list" where
  "lease_ids d \<equiv> map (\<lambda>j. (j_id j, j_lease_generation j)) (jobs d)"

locale fenced =
  fixes stmt :: "string \<Rightarrow> string \<Rightarrow> nat \<Rightarrow> db \<Rightarrow> nat \<times> db"
  assumes no_lease: "\<forall>j\<in>set (jobs d). \<not> holds_lease i w g j \<Longrightarrow> stmt i w g d = (0, d)"
    and keeps_leases: "lease_ids (snd (stmt i w g d)) = lease_ids d"
    and other_job: "k \<noteq> i \<Longrightarrow> job_of (snd (stmt i w g d)) k = job_of d k"
begin

lemma changed_holds: "0 < fst (stmt i w g d) \<Longrightarrow> \<exists>j\<in>set (jobs d). holds_lease i w g j"
  using no_lease [of d i w g] by force

lemma keeps_ids: "map j_id (jobs (snd (stmt i w g d))) = map j_id (jobs d)"
  using arg_cong [OF keeps_leases [of i w g d], of "map fst"] by (simp add: comp_def)

lemma superseded:
  assumes "distinct (map j_id (jobs d))" and "job_of d i = Some j" and "\<not> holds_lease i w g j"
  shows "stmt i w g d = (0, d)"
proof (rule no_lease, rule ballI, rule notI)
  fix x assume "x \<in> set (jobs d)" "holds_lease i w g x"
  then have "job_of d i = Some x"
    using job_table.row_by_in [OF assms(1)] by (auto simp: holds_lease_def)
  with assms(2,3) \<open>holds_lease i w g x\<close> show False by simp
qed

text \<open>Once the job's generation has moved past the one a worker holds, it can change nothing.\<close>

lemma outrun:
  "distinct (map j_id (jobs d)) \<Longrightarrow> job_of d i = Some j \<Longrightarrow> g < j_lease_generation j \<Longrightarrow>
   stmt i w g d = (0, d)"
  by (rule superseded) (auto simp: holds_lease_def)

end

definition keeps_lease :: "(job_row \<Rightarrow> job_row) \<Rightarrow> bool" where
  "keeps_lease f \<longleftrightarrow> (\<forall>j. j_id (f j) = j_id j \<and> j_lease_generation (f j) = j_lease_generation j)"

lemma fenced_update:
  assumes "keeps_lease f"
  shows "\<forall>j\<in>set (jobs d). \<not> holds_lease i w g j \<Longrightarrow>
      update_jobs (\<lambda>j. holds_lease i w g j \<and> q j) f d = (0, d)"
    and "\<forall>j\<in>set (jobs d). \<not> holds_lease i w g j \<Longrightarrow>
      update_jobs_status (\<lambda>j. holds_lease i w g j \<and> q j) f d = (0, d)"
    and "lease_ids (snd (update_jobs (\<lambda>j. holds_lease i w g j \<and> q j) f d)) = lease_ids d"
    and "lease_ids (snd (update_jobs_status (\<lambda>j. holds_lease i w g j \<and> q j) f d)) = lease_ids d"
    and "k \<noteq> i \<Longrightarrow>
      job_of (snd (update_jobs (\<lambda>j. holds_lease i w g j \<and> q j) f d)) k = job_of d k"
    and "k \<noteq> i \<Longrightarrow>
      job_of (snd (update_jobs_status (\<lambda>j. holds_lease i w g j \<and> q j) f d)) k = job_of d k"
proof -
  have f: "j_id (f j) = j_id j" "j_lease_generation (f j) = j_lease_generation j" for j
    using assms by (simp_all add: keeps_lease_def)
  show "update_jobs (\<lambda>j. holds_lease i w g j \<and> q j) f d = (0, d)"
      "update_jobs_status (\<lambda>j. holds_lease i w g j \<and> q j) f d = (0, d)"
    if "\<forall>j\<in>set (jobs d). \<not> holds_lease i w g j"
    using that by (simp_all add: update_jobs_none changes_zero_iff)
  show "lease_ids (snd (update_jobs (\<lambda>j. holds_lease i w g j \<and> q j) f d)) = lease_ids d"
      "lease_ids (snd (update_jobs_status (\<lambda>j. holds_lease i w g j \<and> q j) f d)) = lease_ids d"
    by (simp_all add: map_upd_where f)
  show "job_of (snd (update_jobs (\<lambda>j. holds_lease i w g j \<and> q j) f d)) k = job_of d k"
      "job_of (snd (update_jobs_status (\<lambda>j. holds_lease i w g j \<and> q j) f d)) k = job_of d k"
    if "k \<noteq> i"
    using that
    by (auto simp: job_table.row_by_upd_where f holds_lease_def intro!: map_option_idI
        dest: row_by_SomeD)
qed

lemma fencedI_plain:
  assumes "\<And>i w g d. stmt i w g d = update_jobs (\<lambda>j. holds_lease i w g j \<and> q j) f d"
    and "keeps_lease f"
  shows "fenced stmt"
  by unfold_locales (simp_all only: assms(1) fenced_update [OF assms(2)] not_False_eq_True)

lemma fencedI_status:
  assumes "\<And>i w g d. stmt i w g d = update_jobs_status (\<lambda>j. holds_lease i w g j \<and> q j) f d"
    and "keeps_lease f"
  shows "fenced stmt"
  by unfold_locales (simp_all only: assms(1) fenced_update [OF assms(2)] not_False_eq_True)

lemma set_column_keeps [simp]:
  "j_id (set_column u j) = j_id j" "j_lease_generation (set_column u j) = j_lease_generation j"
  "j_status (set_column u j) = j_status j" "j_updated_at (set_column u j) = j_updated_at j"
  "j_user_id (set_column u j) = j_user_id j" "j_source_id (set_column u j) = j_source_id j"
  "j_source_size (set_column u j) = j_source_size j"
  "j_reserved_output_bytes (set_column u j) = j_reserved_output_bytes j"
  "j_created_at (set_column u j) = j_created_at j"
  by (cases u; simp)+

lemma set_columns_keeps [simp]:
  "j_id (set_columns us j) = j_id j"
  "j_lease_generation (set_columns us j) = j_lease_generation j"
  "j_status (set_columns us j) = j_status j" "j_updated_at (set_columns us j) = j_updated_at j"
  "j_user_id (set_columns us j) = j_user_id j" "j_source_id (set_columns us j) = j_source_id j"
  "j_source_size (set_columns us j) = j_source_size j"
  "j_reserved_output_bytes (set_columns us j) = j_reserved_output_bytes j"
  "j_created_at (set_columns us j) = j_created_at j"
  unfolding set_columns_def by (induction us arbitrary: j; simp)+

interpretation heartbeat: fenced "heartbeat now until" for now until
  by (rule fencedI_plain, rule heartbeat_def) (simp add: keeps_lease_def)

interpretation mark_canceled: fenced "mark_canceled now bytes" for now bytes
  by (rule fencedI_status, rule mark_canceled_def) (simp add: keeps_lease_def)

interpretation finish_failure: fenced "finish_failure rejected code msg now bytes"
  for rejected code msg now bytes
  by (rule fencedI_status, unfold finish_failure_def Let_def, rule refl)
    (simp add: keeps_lease_def)

interpretation transition_owned: fenced "transition_update src dst now us" for src dst now us
  by (rule fencedI_status, rule transition_update_def) (simp add: keeps_lease_def)

interpretation expire_claim: fenced "expire_recovery_claim now" for now
  by (rule fencedI_plain, rule expire_recovery_claim_def) (simp add: keeps_lease_def)

interpretation recover_failed: fenced "recover_failed now" for now
  by (rule fencedI_status, rule recover_failed_def) (simp add: keeps_lease_def)

interpretation recover_queued: fenced "recover_queued now" for now
  by (rule fencedI_status, rule recover_queued_def) (simp add: keeps_lease_def)

section \<open>What claiming does\<close>

lemma claim_next_cases:
  assumes "distinct (map j_id (jobs d))" and "claim_next w now until before expected d = (r, d')"
  obtains "r = None" "d' = d"
  | j where "\<not> preview_running d" "j \<in> set (jobs d)" "claimable before expected j"
      "\<forall>x\<in>set (jobs d). claimable before expected x \<longrightarrow> queue_key j \<le> queue_key x"
      "r = Some ((worker_job d j)\<lparr>w_lease_generation := j_lease_generation j + 1\<rparr>)"
      "d' = snd (update_jobs_status (\<lambda>x. j_id x = j_id j \<and> j_status x = Queued)
                  (claim_update w now until) d)"
proof (cases "preview_running d")
  case True
  with assms(2) that(1) show thesis by (simp add: claim_next_def)
next
  case False
  show thesis
  proof (cases "first_by queue_key (filter (claimable before expected) (jobs d))")
    case None
    with False assms(2) that(1) show thesis by (simp add: claim_next_def)
  next
    case (Some j)
    then have j: "j \<in> set (jobs d)" "claimable before expected j"
      "\<forall>x\<in>set (jobs d). claimable before expected x \<longrightarrow> queue_key j \<le> queue_key x"
      using first_by_SomeD [OF Some] by auto
    have "changes (\<lambda>x. j_id x = j_id j \<and> j_status x = Queued) (jobs d) =
      (case job_of d (j_id j) of None \<Rightarrow> 0
       | Some r \<Rightarrow> if j_id r = j_id j \<and> j_status r = Queued then 1 else 0)"
      by (rule job_table.changes_by_key [OF assms(1)]) simp
    moreover have "job_of d (j_id j) = Some j"
      by (rule job_table.row_by_in [OF assms(1) j(1)])
    ultimately have "changes (\<lambda>x. j_id x = j_id j \<and> j_status x = Queued) (jobs d) = 1"
      using j(2) by (simp add: claimable_def)
    then have one: "fst (update_jobs_status (\<lambda>x. j_id x = j_id j \<and> j_status x = Queued)
        (claim_update w now until) d) = 1" by simp
    obtain n e where u: "update_jobs_status (\<lambda>x. j_id x = j_id j \<and> j_status x = Queued)
        (claim_update w now until) d = (n, e)" by (cases "update_jobs_status
          (\<lambda>x. j_id x = j_id j \<and> j_status x = Queued) (claim_update w now until) d")
    with one have "n = 1" by simp
    with False Some assms(2) u have
      "r = Some ((worker_job d j)\<lparr>w_lease_generation := j_lease_generation j + 1\<rparr>)" "d' = e"
      by (simp_all add: claim_next_def)
    with u show thesis by (intro that(2) [OF False j]) simp_all
  qed
qed

lemma claim_next_None:
  assumes "distinct (map j_id (jobs d))" and "claim_next w now until None None d = (None, d')"
  shows "preview_running d \<or> (\<forall>j\<in>set (jobs d). j_status j \<noteq> Queued)"
proof (rule ccontr)
  assume "\<not> ?thesis"
  then obtain j where j: "\<not> preview_running d" "j \<in> set (jobs d)" "j_status j = Queued" by auto
  then have "filter (claimable None None) (jobs d) \<noteq> []"
    by (auto simp: filter_empty_conv claimable_def)
  then obtain k where k: "first_by queue_key (filter (claimable None None) (jobs d)) = Some k"
    by (cases "first_by queue_key (filter (claimable None None) (jobs d))") auto
  then have q: "k \<in> set (jobs d)" "j_status k = Queued"
    using first_by_SomeD(1) [OF k] by (auto simp: claimable_def)
  have "changes (\<lambda>x. j_id x = j_id k \<and> j_status x = Queued) (jobs d) = 1"
    using job_table.row_by_in [OF assms(1) q(1)] q(2)
    by (subst job_table.changes_by_key [OF assms(1)]) auto
  then have "fst (update_jobs_status (\<lambda>x. j_id x = j_id k \<and> j_status x = Queued)
      (claim_update w now until) d) = 1" by simp
  moreover obtain n e where u: "update_jobs_status (\<lambda>x. j_id x = j_id k \<and> j_status x = Queued)
      (claim_update w now until) d = (n, e)" by fastforce
  ultimately have "n = 1" by simp
  with assms(2) j(1) k u show False by (simp add: claim_next_def)
qed

end
