(* ===== verification/Nonces.thy ===== *)
theory Nonces
  imports Worker
begin

text \<open>
  The operations of \<open>RendererDatabase\<close> (packages/database/src/index.ts): the audit log, the
  guarded job transition, and the single-use upload nonces of jobs and of sources, with the
  nonce, idempotency and revocation statements of \<open>SecurityRepository\<close> (repositories/security.ts).
  The clock \<open>nowIso()\<close> is a parameter; the worker notification that follows a commit is a wake-up
  signal and leaves no state.
\<close>

section \<open>Audit and transitions\<close>

definition audit :: "audit_row \<Rightarrow> db \<Rightarrow> db" where
  "audit a d = d\<lparr>audit_logs := audit_logs d @ [a]\<rparr>"

lemma audit_other [simp]:
  "jobs (audit a d) = jobs d" "sources (audit a d) = sources d" "stages (audit a d) = stages d"
  "previews (audit a d) = previews d" "trees (audit a d) = trees d" "users (audit a d) = users d"
  "accounts (audit a d) = accounts d" "api_keys (audit a d) = api_keys d"
  "projects (audit a d) = projects d" "revisions (audit a d) = revisions d"
  "artifacts (audit a d) = artifacts d" "settings (audit a d) = settings d"
  "job_nonces (audit a d) = job_nonces d" "source_nonces (audit a d) = source_nonces d"
  "idempotency (audit a d) = idempotency d" "documents (audit a d) = documents d"
  by (simp_all add: audit_def)

definition transition_job ::
  "string \<Rightarrow> job_status list \<Rightarrow> job_status \<Rightarrow> column_update list \<Rightarrow> timestamp \<Rightarrow> unit tx" where
  "transition_job i src dst us now d =
     (if src = [] then Inl (AppError ''INVALID_TRANSITION'' 500)
      else
        (let set1 = [SetRenderStatus (Some dst)] in
         case update_jobs_status (\<lambda>j. j_id j = i \<and> j_status j \<in> set src)
             (\<lambda>j. set_columns ((if terminal dst then set1 else []) @ us)
                    (j\<lparr>j_status := dst, j_updated_at := now\<rparr>)) d of
           (n, d') \<Rightarrow> if n \<noteq> 1 then Inl (AppError ''JOB_STATE_CONFLICT'' 409) else Inr ((), d')))"

section \<open>Nonce rows\<close>

definition usable :: "string \<Rightarrow> string \<Rightarrow> timestamp \<Rightarrow> nonce_row \<Rightarrow> bool" where
  "usable n res now r \<longleftrightarrow> n_nonce r = n \<and> n_resource_id r = res \<and>
     n_state r \<in> {Unused, Released} \<and> n_expires_at r > now"

definition claimed_by :: "string \<Rightarrow> string \<Rightarrow> timestamp \<Rightarrow> nonce_row \<Rightarrow> bool" where
  "claimed_by n ow now r \<longleftrightarrow> n_nonce r = n \<and> n_state r = Claimed \<and>
     n_claim_owner r = Some ow \<and> sql_gt (n_claim_expires_at r) now"

definition set_claimed :: "string \<Rightarrow> timestamp \<Rightarrow> timestamp \<Rightarrow> nonce_row \<Rightarrow> nonce_row" where
  "set_claimed ow now until r = r\<lparr>n_state := Claimed, n_claim_owner := Some ow,
     n_claimed_at := Some now, n_claim_expires_at := Some until\<rparr>"

definition set_consumed :: "timestamp \<Rightarrow> nonce_row \<Rightarrow> nonce_row" where
  "set_consumed now r = r\<lparr>n_state := Consumed, n_used_at := Some now,
     n_claim_expires_at := None\<rparr>"

definition set_released :: "nonce_row \<Rightarrow> nonce_row" where
  "set_released r = r\<lparr>n_state := Released, n_claim_owner := None, n_claimed_at := None,
     n_claim_expires_at := None\<rparr>"

section \<open>Job nonces\<close>

definition claim_nonce ::
  "string \<Rightarrow> string \<Rightarrow> string \<Rightarrow> timestamp \<Rightarrow> timestamp \<Rightarrow> unit tx" where
  "claim_nonce n job ow until now d =
     (if changes (usable n job now) (job_nonces d) \<noteq> 1
      then Inl (AppError ''UPLOAD_TICKET_REPLAYED'' 409)
      else Inr ((), d\<lparr>job_nonces := upd_where (usable n job now) (set_claimed ow now until)
                       (job_nonces d)\<rparr>))"

definition extend_nonce_claim ::
  "string \<Rightarrow> string \<Rightarrow> timestamp \<Rightarrow> timestamp \<Rightarrow> db \<Rightarrow> nat \<times> db" where
  "extend_nonce_claim n ow ts until d =
     (changes (claimed_by n ow ts) (job_nonces d),
      d\<lparr>job_nonces := upd_where (claimed_by n ow ts) (\<lambda>r. r\<lparr>n_claim_expires_at := Some until\<rparr>)
          (job_nonces d)\<rparr>)"

definition consume_nonce :: "string \<Rightarrow> string \<Rightarrow> timestamp \<Rightarrow> unit tx" where
  "consume_nonce n ow now d =
     (if changes (claimed_by n ow now) (job_nonces d) \<noteq> 1
      then Inl (AppError ''NONCE_STATE_CONFLICT'' 409)
      else Inr ((), d\<lparr>job_nonces := upd_where (claimed_by n ow now) (set_consumed now)
                       (job_nonces d)\<rparr>))"

definition release_nonce :: "string \<Rightarrow> string \<Rightarrow> timestamp \<Rightarrow> db \<Rightarrow> nat \<times> db" where
  "release_nonce n ow ts d =
     (changes (claimed_by n ow ts) (job_nonces d),
      d\<lparr>job_nonces := upd_where (claimed_by n ow ts) set_released (job_nonces d)\<rparr>)"

section \<open>Source nonces\<close>

definition claim_source_nonce ::
  "string \<Rightarrow> string \<Rightarrow> string \<Rightarrow> timestamp \<Rightarrow> timestamp \<Rightarrow> unit tx" where
  "claim_source_nonce n src ow until now d =
     (if changes (usable n src now) (source_nonces d) \<noteq> 1
      then Inl (AppError ''UPLOAD_TICKET_REPLAYED'' 409)
      else Inr ((), d\<lparr>source_nonces := upd_where (usable n src now) (set_claimed ow now until)
                       (source_nonces d)\<rparr>))"

definition extend_source_nonce_claim ::
  "string \<Rightarrow> string \<Rightarrow> timestamp \<Rightarrow> timestamp \<Rightarrow> db \<Rightarrow> nat \<times> db" where
  "extend_source_nonce_claim n ow ts until d =
     (changes (claimed_by n ow ts) (source_nonces d),
      d\<lparr>source_nonces := upd_where (claimed_by n ow ts)
          (\<lambda>r. r\<lparr>n_claim_expires_at := Some until\<rparr>) (source_nonces d)\<rparr>)"

definition consume_source_nonce :: "string \<Rightarrow> string \<Rightarrow> timestamp \<Rightarrow> unit tx" where
  "consume_source_nonce n ow now d =
     (if changes (claimed_by n ow now) (source_nonces d) \<noteq> 1
      then Inl (AppError ''NONCE_STATE_CONFLICT'' 409)
      else Inr ((), d\<lparr>source_nonces := upd_where (claimed_by n ow now) (set_consumed now)
                       (source_nonces d)\<rparr>))"

definition release_source_nonce :: "string \<Rightarrow> string \<Rightarrow> timestamp \<Rightarrow> db \<Rightarrow> nat \<times> db" where
  "release_source_nonce n ow ts d =
     (changes (claimed_by n ow ts) (source_nonces d),
      d\<lparr>source_nonces := upd_where (claimed_by n ow ts) set_released (source_nonces d)\<rparr>)"

section \<open>Issuing nonces, idempotency and revocation\<close>

definition new_nonce :: "string \<Rightarrow> string \<Rightarrow> timestamp \<Rightarrow> nonce_row" where
  "new_nonce n res exp = \<lparr>n_nonce = n, n_resource_id = res, n_state = Unused,
     n_claim_owner = None, n_claimed_at = None, n_claim_expires_at = None, n_used_at = None,
     n_expires_at = exp\<rparr>"

definition insert_nonce :: "string \<Rightarrow> string \<Rightarrow> timestamp \<Rightarrow> unit tx" where
  "insert_nonce n job exp d =
     (if row_by n_nonce n (job_nonces d) = None \<and> fk j_id job (jobs d)
      then Inr ((), d\<lparr>job_nonces := job_nonces d @ [new_nonce n job exp]\<rparr>)
      else Inl ConstraintError)"

definition insert_source_nonce :: "string \<Rightarrow> string \<Rightarrow> timestamp \<Rightarrow> unit tx" where
  "insert_source_nonce n src exp d =
     (if row_by n_nonce n (source_nonces d) = None \<and> fk s_id src (sources d)
      then Inr ((), d\<lparr>source_nonces := source_nonces d @ [new_nonce n src exp]\<rparr>)
      else Inl ConstraintError)"

text \<open>The first row of \<open>ORDER BY expires_at DESC\<close>.\<close>

definition latest_usable :: "string \<Rightarrow> timestamp \<Rightarrow> nonce_row list \<Rightarrow> nonce_row option" where
  "latest_usable res now rs =
     (case order_desc n_expires_at (filter (\<lambda>r. n_resource_id r = res \<and>
          n_state r \<in> {Unused, Released} \<and> n_expires_at r > now) rs) of
        [] \<Rightarrow> None | r # _ \<Rightarrow> Some r)"

definition latest_usable_nonce :: "db \<Rightarrow> string \<Rightarrow> timestamp \<Rightarrow> (string \<times> timestamp) option" where
  "latest_usable_nonce d job now =
     map_option (\<lambda>r. (n_nonce r, n_expires_at r)) (latest_usable job now (job_nonces d))"

definition latest_usable_source_nonce :: "db \<Rightarrow> string \<Rightarrow> timestamp \<Rightarrow> string option" where
  "latest_usable_source_nonce d src now =
     map_option n_nonce (latest_usable src now (source_nonces d))"

definition idem_key :: "idempotency_row \<Rightarrow> string \<times> string \<times> string \<times> string" where
  "idem_key r = (i_actor_type r, i_actor_id r, i_operation r, i_key_hash r)"

definition find_idempotency ::
  "db \<Rightarrow> string \<Rightarrow> string \<Rightarrow> string \<Rightarrow> string \<Rightarrow> timestamp \<Rightarrow> idempotency_row option" where
  "find_idempotency d at ai op kh now =
     find (\<lambda>r. idem_key r = (at, ai, op, kh) \<and> i_expires_at r > now) (idempotency d)"

definition insert_idempotency :: "idempotency_row \<Rightarrow> unit tx" where
  "insert_idempotency x d =
     (if \<not> i_expires_at x > i_created_at x then Inl PlainError
      else if row_by idem_key (idem_key x) (idempotency d) = None
      then Inr ((), d\<lparr>idempotency := idempotency d @ [x]\<rparr>)
      else
        (let p = (\<lambda>r. idem_key r = idem_key x \<and> i_expires_at r \<le> i_created_at x) in
         if changes p (idempotency d) \<noteq> 1 then Inl (AppError ''IDEMPOTENCY_CONFLICT'' 409)
         else Inr ((), d\<lparr>idempotency := upd_where p
           (\<lambda>r. r\<lparr>i_request_hash := i_request_hash x, i_resource_id := i_resource_id x,
                  i_response_code := i_response_code x, i_expires_at := i_expires_at x,
                  i_created_at := i_created_at x\<rparr>) (idempotency d)\<rparr>)))"

definition revoke_ticket_key :: "string \<Rightarrow> string \<Rightarrow> timestamp \<Rightarrow> timestamp \<Rightarrow> db \<Rightarrow> db" where
  "revoke_ticket_key kid reason exp ts d =
     (let p = (\<lambda>r. rt_selector_type r = ''kid'' \<and> rt_selector_value r = kid) in
      if exists_row p (revoked_tickets d)
      then d\<lparr>revoked_tickets := upd_where p (\<lambda>r. r\<lparr>rt_reason := reason, rt_expires_at := exp,
               rt_created_at := ts\<rparr>) (revoked_tickets d)\<rparr>
      else d\<lparr>revoked_tickets := revoked_tickets d @ [\<lparr>rt_selector_type = ''kid'',
               rt_selector_value = kid, rt_reason = reason, rt_expires_at = exp,
               rt_created_at = ts\<rparr>]\<rparr>)"

section \<open>Single use\<close>

text \<open>
  The contract of a nonce table: a claim takes an unused or released row, extending, consuming
  and releasing take a row claimed by the caller that has not run out. The lemmas hold for any
  such table; job nonces and source nonces are its instances.
\<close>

locale nonce_store =
  fixes tbl :: "db \<Rightarrow> nonce_row list"
    and claim :: "string \<Rightarrow> string \<Rightarrow> string \<Rightarrow> timestamp \<Rightarrow> timestamp \<Rightarrow> unit tx"
    and extend :: "string \<Rightarrow> string \<Rightarrow> timestamp \<Rightarrow> timestamp \<Rightarrow> db \<Rightarrow> nat \<times> db"
    and consume :: "string \<Rightarrow> string \<Rightarrow> timestamp \<Rightarrow> unit tx"
    and release :: "string \<Rightarrow> string \<Rightarrow> timestamp \<Rightarrow> db \<Rightarrow> nat \<times> db"
  assumes claimI: "claim n res ow until now d = Inr (u, d') \<Longrightarrow>
      changes (usable n res now) (tbl d) = 1 \<and>
      tbl d' = upd_where (usable n res now) (set_claimed ow now until) (tbl d)"
    and claimE: "claim n res ow until now d = Inl e \<Longrightarrow> changes (usable n res now) (tbl d) \<noteq> 1"
    and extendI: "extend n ow now until d = (c, d') \<Longrightarrow> c = changes (claimed_by n ow now) (tbl d) \<and>
      tbl d' = upd_where (claimed_by n ow now) (\<lambda>r. r\<lparr>n_claim_expires_at := Some until\<rparr>) (tbl d)"
    and consumeI: "consume n ow now d = Inr (u, d') \<Longrightarrow>
      changes (claimed_by n ow now) (tbl d) = 1 \<and>
      tbl d' = upd_where (claimed_by n ow now) (set_consumed now) (tbl d)"
    and consumeE: "consume n ow now d = Inl e \<Longrightarrow> changes (claimed_by n ow now) (tbl d) \<noteq> 1"
    and releaseI: "release n ow now d = (c, d') \<Longrightarrow> c = changes (claimed_by n ow now) (tbl d) \<and>
      tbl d' = upd_where (claimed_by n ow now) set_released (tbl d)"
begin

text \<open>Every row with the nonce is consumed: no operation can take it any more.\<close>

definition spent :: "string \<Rightarrow> db \<Rightarrow> bool" where
  "spent n d \<longleftrightarrow> (\<forall>r\<in>set (tbl d). n_nonce r = n \<longrightarrow> n_state r = Consumed)"

lemma spent_no_claim: "spent n d \<Longrightarrow> \<exists>e. claim n res ow until now d = Inl e"
proof (cases "claim n res ow until now d")
  case (Inr b)
  assume "spent n d"
  then have "changes (usable n res now) (tbl d) = 0"
    by (auto simp: changes_zero_iff spent_def usable_def)
  with Inr claimI [of n res ow until now d] show ?thesis by (cases b) auto
qed simp

lemma spent_no_consume: "spent n d \<Longrightarrow> \<exists>e. consume n ow now d = Inl e"
proof (cases "consume n ow now d")
  case (Inr b)
  assume "spent n d"
  then have "changes (claimed_by n ow now) (tbl d) = 0"
    by (auto simp: changes_zero_iff spent_def claimed_by_def)
  with Inr consumeI [of n ow now d] show ?thesis by (cases b) auto
qed simp

lemma not_spent_claimed: "spent n d \<Longrightarrow> r \<in> set (tbl d) \<Longrightarrow> \<not> claimed_by n ow now r"
  by (auto simp: spent_def claimed_by_def)

lemma spent_extend: "spent n d \<Longrightarrow> fst (extend n ow now until d) = 0"
  using extendI [of n ow now until d]
  by (cases "extend n ow now until d") (auto simp: changes_zero_iff dest: not_spent_claimed)

lemma spent_release: "spent n d \<Longrightarrow> fst (release n ow now d) = 0"
  using releaseI [of n ow now d]
  by (cases "release n ow now d") (auto simp: changes_zero_iff dest: not_spent_claimed)

text \<open>Operations on any nonce keep a spent one spent.\<close>

lemma spent_upd:
  assumes "spent n d" and "\<And>r. p r \<Longrightarrow> n_state r \<noteq> Consumed" and "\<And>r. n_nonce (f r) = n_nonce r"
    and "tbl d' = upd_where p f (tbl d)"
  shows "spent n d'"
  unfolding spent_def
proof (rule ballI, rule impI)
  fix r assume "r \<in> set (tbl d')" "n_nonce r = n"
  then obtain q where q: "q \<in> set (tbl d)" "r = (if p q then f q else q)"
    by (auto simp: assms(4) set_upd_where)
  with assms(3) \<open>n_nonce r = n\<close> have "n_nonce q = n" by (auto split: if_splits)
  with q(1) assms(1) have "n_state q = Consumed" by (auto simp: spent_def)
  with q(2) assms(2) show "n_state r = Consumed" by (auto split: if_splits)
qed

lemma spent_claim: "spent n d \<Longrightarrow> claim m res ow until now d = Inr (u, d') \<Longrightarrow> spent n d'"
  by (drule claimI, erule spent_upd [where p = "usable m res now"])
    (auto simp: usable_def set_claimed_def)

lemma spent_after_extend: "spent n d \<Longrightarrow> extend m ow now until d = (c, d') \<Longrightarrow> spent n d'"
  by (drule extendI, erule spent_upd [where p = "claimed_by m ow now"])
    (auto simp: claimed_by_def)

lemma spent_consume: "spent n d \<Longrightarrow> consume m ow now d = Inr (u, d') \<Longrightarrow> spent n d'"
  by (drule consumeI, erule spent_upd [where p = "claimed_by m ow now"])
    (auto simp: claimed_by_def set_consumed_def)

lemma spent_after_release: "spent n d \<Longrightarrow> release m ow now d = (c, d') \<Longrightarrow> spent n d'"
  by (drule releaseI, erule spent_upd [where p = "claimed_by m ow now"])
    (auto simp: claimed_by_def set_released_def)

text \<open>Consuming spends the nonce, when its key is unique.\<close>

lemma consume_spends:
  assumes "distinct (map n_nonce (tbl d))" and "consume n ow now d = Inr (u, d')"
  shows "spent n d'"
proof -
  from consumeI [OF assms(2)] have one: "changes (claimed_by n ow now) (tbl d) = 1"
    and t: "tbl d' = upd_where (claimed_by n ow now) (set_consumed now) (tbl d)" by auto
  obtain r where r: "row_by n_nonce n (tbl d) = Some r" "claimed_by n ow now r"
    using nonce_table.changes_one_row [OF assms(1) _ one] by (auto simp: claimed_by_def)
  show ?thesis
    unfolding spent_def
  proof (rule ballI, rule impI)
    fix x assume "x \<in> set (tbl d')" "n_nonce x = n"
    then obtain q where q: "q \<in> set (tbl d)" "x = (if claimed_by n ow now q then
        set_consumed now q else q)" by (auto simp: t set_upd_where)
    with \<open>n_nonce x = n\<close> have "n_nonce q = n" by (auto simp: set_consumed_def split: if_splits)
    then have "q = r" using nonce_table.row_by_in [OF assms(1) q(1)] r(1) by simp
    with q(2) r(2) show "n_state x = Consumed" by (simp add: set_consumed_def)
  qed
qed

text \<open>A claim is exclusive: until it is released, nobody else claims the nonce.\<close>

lemma claim_exclusive:
  assumes "distinct (map n_nonce (tbl d))" and "claim n res ow until now d = Inr (u, d')"
  shows "\<exists>e. claim n res' ow' until' now' d' = Inl e"
proof -
  from claimI [OF assms(2)] have one: "changes (usable n res now) (tbl d) = 1"
    and t: "tbl d' = upd_where (usable n res now) (set_claimed ow now until) (tbl d)" by auto
  obtain r where r: "row_by n_nonce n (tbl d) = Some r" "usable n res now r"
    using nonce_table.changes_one_row [OF assms(1) _ one] by (auto simp: usable_def)
  have "row_by n_nonce n (tbl d') = Some (set_claimed ow now until r)"
    using r by (simp add: t nonce_table.row_by_upd_where set_claimed_def)
  moreover have "distinct (map n_nonce (tbl d'))"
    by (simp add: t nonce_table.distinct_upd_where assms(1) set_claimed_def)
  ultimately have "changes (usable n res' now') (tbl d') = 0"
    by (subst nonce_table.changes_by_key) (auto simp: usable_def set_claimed_def)
  then show ?thesis using claimI [of n res' ow' until' now' d']
    by (cases "claim n res' ow' until' now' d'") auto
qed

end

interpretation job_nonce: nonce_store job_nonces claim_nonce extend_nonce_claim consume_nonce
    release_nonce
  by unfold_locales
    (auto simp: claim_nonce_def extend_nonce_claim_def consume_nonce_def release_nonce_def
      split: if_splits)

interpretation source_nonce: nonce_store source_nonces claim_source_nonce
    extend_source_nonce_claim consume_source_nonce release_source_nonce
  by unfold_locales
    (auto simp: claim_source_nonce_def extend_source_nonce_claim_def consume_source_nonce_def
      release_source_nonce_def split: if_splits)

section \<open>Idempotency records\<close>

text \<open>
  What a replay sees: after the insert, every lookup before the record's expiry returns it, and
  a second insert under the same key is refused while it is alive.
\<close>

lemma find_key_row:
  "distinct (map idem_key rs) \<Longrightarrow> r \<in> set rs \<Longrightarrow> idem_key r = k \<Longrightarrow> q r \<Longrightarrow>
   find (\<lambda>x. idem_key x = k \<and> q x) rs = Some r"
  by (induction rs) (auto simp: image_iff)

interpretation idempotency_table: keyed_table idem_key .

lemma insert_idempotency_found:
  assumes "distinct (map idem_key (idempotency d))" and "insert_idempotency x d = Inr (u, d')"
    and "idem_key x = (at, ai, op, kh)" and "now < i_expires_at x"
  shows "\<exists>r. find_idempotency d' at ai op kh now = Some r \<and>
    i_request_hash r = i_request_hash x \<and> i_resource_id r = i_resource_id x \<and>
    i_response_code r = i_response_code x \<and> i_expires_at r = i_expires_at x"
proof (cases "row_by idem_key (idem_key x) (idempotency d)")
  case None
  with assms have "d' = d\<lparr>idempotency := idempotency d @ [x]\<rparr>"
    by (auto simp: insert_idempotency_def split: if_splits)
  moreover have "find (\<lambda>r. idem_key r = idem_key x \<and> i_expires_at r > now)
      (idempotency d @ [x]) = Some x"
    using assms None by (intro find_key_row idempotency_table.distinct_insert) auto
  ultimately show ?thesis using assms(3) by (simp add: find_idempotency_def)
next
  case (Some r)
  let ?p = "\<lambda>r. idem_key r = idem_key x \<and> i_expires_at r \<le> i_created_at x"
  let ?f = "\<lambda>r. r\<lparr>i_request_hash := i_request_hash x, i_resource_id := i_resource_id x,
    i_response_code := i_response_code x, i_expires_at := i_expires_at x,
    i_created_at := i_created_at x\<rparr>"
  from Some assms(2) have one: "changes ?p (idempotency d) = 1" and
    d': "d' = d\<lparr>idempotency := upd_where ?p ?f (idempotency d)\<rparr>"
    by (auto simp: insert_idempotency_def Let_def split: if_splits)
  have k: "idem_key (?f y) = idem_key y" for y by (simp add: idem_key_def)
  obtain s where s: "row_by idem_key (idem_key x) (idempotency d) = Some s" "?p s"
    using idempotency_table.changes_one_row [OF assms(1) _ one, where k = "idem_key x"] by blast
  then have "?f s \<in> set (upd_where ?p ?f (idempotency d))"
    by (auto simp: set_upd_where dest!: row_by_SomeD intro!: rev_image_eqI [of s])
  then have "find (\<lambda>r. idem_key r = idem_key x \<and> i_expires_at r > now)
      (upd_where ?p ?f (idempotency d)) = Some (?f s)"
    using assms(1,4) k s(2) by (intro find_key_row) (auto simp: idempotency_table.distinct_upd_where)
  then show ?thesis using assms(3) d' by (simp add: find_idempotency_def)
qed

lemma insert_idempotency_conflict:
  assumes "distinct (map idem_key (idempotency d))"
    and "find_idempotency d (i_actor_type x) (i_actor_id x) (i_operation x) (i_key_hash x)
           (i_created_at x) = Some r"
    and "i_created_at x < i_expires_at x"
  shows "insert_idempotency x d = Inl (AppError ''IDEMPOTENCY_CONFLICT'' 409)"
proof -
  from assms(2) have r: "r \<in> set (idempotency d)" "idem_key r = idem_key x"
    "i_created_at x < i_expires_at r"
    by (auto simp: find_idempotency_def find_Some_iff idem_key_def)
  have row: "row_by idem_key (idem_key x) (idempotency d) = Some r"
    using idempotency_table.row_by_in [OF assms(1) r(1)] r(2) by simp
  have "changes (\<lambda>y. idem_key y = idem_key x \<and> i_expires_at y \<le> i_created_at x) (idempotency d) = 0"
    using row r(3) by (subst idempotency_table.changes_by_key [OF assms(1)]) auto
  with row assms(3) show ?thesis by (simp add: insert_idempotency_def)
qed

section \<open>Transitions\<close>

lemma transition_job_InrD:
  assumes "distinct (map j_id (jobs d))" and "transition_job i src dst us now d = Inr (u, d')"
  shows "\<exists>j. job_of d i = Some j \<and> j_status j \<in> set src \<and>
    job_of d' i = Some (set_columns ((if terminal dst then [SetRenderStatus (Some dst)] else []) @ us)
      (j\<lparr>j_status := dst, j_updated_at := now\<rparr>))"
proof -
  let ?p = "\<lambda>j. j_id j = i \<and> j_status j \<in> set src"
  let ?f = "\<lambda>j. set_columns ((if terminal dst then [SetRenderStatus (Some dst)] else []) @ us)
    (j\<lparr>j_status := dst, j_updated_at := now\<rparr>)"
  from assms(2) have u: "update_jobs_status ?p ?f d = (1, d')"
    by (simp add: transition_job_def Let_def split: if_splits prod.splits)
  have "changes ?p (jobs d) = 1"
    using arg_cong [OF u, of fst] by (simp only: fst_update_jobs fst_conv)
  moreover have d': "d' = snd (update_jobs_status ?p ?f d)" by (simp only: u snd_conv)
  ultimately obtain j where j: "job_of d i = Some j" "?p j"
    using job_table.changes_one_row [OF assms(1), where p = ?p and k = i] by auto
  then have "job_of d' i = Some (?f j)"
    by (simp add: d' job_table.row_by_upd_where)
  with j show ?thesis by blast
qed

end
