(* ===== verification/Output_Stages.thy ===== *)
theory Output_Stages
  imports Nonces Text
begin

text \<open>
  \<open>OutputStagesRepository\<close> (repositories/output-stages.ts): the checkpoint row of a PDF+SVG job,
  the statements that move its two stages, and the requeueing of a failed SVG stage. A stage
  statement counts only under a live lease of a running job whose inputs are still the ones of
  the checkpoint. \<open>stage_check\<close> is the CHECK clauses of the table, \<open>stage_order\<close> what the
  statements keep beyond them.
\<close>

section \<open>The checks of the table\<close>

definition len64 :: "string option \<Rightarrow> bool" where
  "len64 s \<longleftrightarrow> (case s of None \<Rightarrow> True | Some x \<Rightarrow> length x = 64)"

definition positive_opt :: "nat option \<Rightarrow> bool" where
  "positive_opt n \<longleftrightarrow> (case n of None \<Rightarrow> True | Some x \<Rightarrow> 0 < x)"

definition stage_check :: "stage_row \<Rightarrow> bool" where
  "stage_check s \<longleftrightarrow>
     length (st_source_sha256 s) = 64 \<and> st_pdf_status s \<noteq> StSkipped \<and>
     positive_opt (st_pdf_generation s) \<and> positive_opt (st_svg_generation s) \<and>
     len64 (st_pdf_sha256 s) \<and> len64 (st_synctex_sha256 s) \<and>
     1 \<le> st_svg_attempt s \<and> st_svg_attempt s \<le> 8 \<and>
     (st_pdf_status s = StSucceeded \<longrightarrow>
        st_pdf_generation s \<noteq> None \<and> st_pdf_sha256 s \<noteq> None \<and>
        st_synctex_sha256 s \<noteq> None \<and> st_pdf_completed_at s \<noteq> None) \<and>
     (st_svg_status s = StSucceeded \<longrightarrow> st_svg_generation s \<noteq> None)"

definition update_stages :: "(stage_row \<Rightarrow> bool) \<Rightarrow> (stage_row \<Rightarrow> stage_row) \<Rightarrow> nat tx" where
  "update_stages p f d =
     (if list_ex (\<lambda>s. p s \<and> \<not> stage_check (f s)) (stages d) then Inl ConstraintError
      else Inr (changes p (stages d), d\<lparr>stages := upd_where p f (stages d)\<rparr>))"

section \<open>Reading\<close>

definition checkpoint :: "db \<Rightarrow> string \<Rightarrow> stage_row option" where
  "checkpoint d i = stage_of d i"

record public_pdf =
  pp_status :: stage_status
  pp_completed_at :: "timestamp option"
  pp_error_code :: "string option"
  pp_error_message :: "string option"
  pp_sha256 :: "string option"

record public_svg =
  ps_status :: stage_status
  ps_completed_at :: "timestamp option"
  ps_error_code :: "string option"
  ps_error_message :: "string option"
  ps_attempt :: nat

definition public_checkpoint :: "stage_row \<Rightarrow> public_pdf \<times> public_svg" where
  "public_checkpoint r =
     (\<lparr>pp_status = st_pdf_status r, pp_completed_at = st_pdf_completed_at r,
       pp_error_code = st_pdf_error_code r, pp_error_message = st_pdf_error_message r,
       pp_sha256 = st_pdf_sha256 r\<rparr>,
      \<lparr>ps_status = st_svg_status r, ps_completed_at = st_svg_completed_at r,
       ps_error_code = st_svg_error_code r, ps_error_message = st_svg_error_message r,
       ps_attempt = st_svg_attempt r\<rparr>)"

definition public_state :: "db \<Rightarrow> string \<Rightarrow> (public_pdf \<times> public_svg) option" where
  "public_state d i = map_option public_checkpoint (checkpoint d i)"

text \<open>Pages of 200 ids; within a page the rows come in table order. A \<open>Map\<close> keeps the last.\<close>

fun chunks :: "nat \<Rightarrow> 'a list \<Rightarrow> 'a list list" where
  "chunks n [] = []"
| "chunks n (x # xs) = take (Suc n) (x # xs) # chunks n (drop n xs)"

definition public_states ::
  "db \<Rightarrow> string list \<Rightarrow> (string \<rightharpoonup> public_pdf \<times> public_svg) result" where
  "public_states d ids =
     (if length ids > 10000 then Inl PlainError
      else Inr (fold (\<lambda>ids m. fold (\<lambda>r m. m(st_job_id r \<mapsto> public_checkpoint r))
              (filter (\<lambda>r. st_job_id r \<in> set ids) (stages d)) m) (chunks 199 ids) Map.empty))"

definition retention_start :: "db \<Rightarrow> string \<Rightarrow> timestamp \<Rightarrow> timestamp" where
  "retention_start d i fallback =
     (case checkpoint d i of
        None \<Rightarrow> fallback
      | Some r \<Rightarrow> if st_pdf_status r = StSucceeded then coalesce (st_pdf_completed_at r) fallback
                  else fallback)"

section \<open>Writing under the lease\<close>

text \<open>The inputs of the job are still those the checkpoint was made for.\<close>

definition same_inputs :: "job_row \<Rightarrow> stage_row \<Rightarrow> bool" where
  "same_inputs j s \<longleftrightarrow> j_source_sha256 j = st_source_sha256 s \<and> j_entrypoint j = st_entrypoint s \<and>
     j_source_id j = st_source_id s \<and> j_project_revision_id j = st_project_revision_id s"

definition stage_owned :: "db \<Rightarrow> string \<Rightarrow> nat \<Rightarrow> stage_row \<Rightarrow> bool" where
  "stage_owned d w g s \<longleftrightarrow> exists_row (\<lambda>j. j_id j = st_job_id s \<and> j_lease_owner j = Some w \<and>
     j_lease_generation j = g \<and> j_status j = Running \<and> j_cancel_requested_at j = None \<and>
     same_inputs j s) (jobs d)"

fun json_each :: "json \<Rightarrow> json list" where
  "json_each (JArr vs) = vs"
| "json_each (JObj kvs) = map snd kvs"
| "json_each v = [v]"

definition new_stage :: "string \<Rightarrow> job_row \<Rightarrow> stage_row" where
  "new_stage img j = \<lparr>st_job_id = j_id j, st_source_sha256 = j_source_sha256 j,
     st_source_id = j_source_id j, st_entrypoint = j_entrypoint j,
     st_project_revision_id = j_project_revision_id j, st_renderer_image = img,
     st_pdf_status = StQueued, st_svg_status = StQueued, st_pdf_generation = None,
     st_svg_generation = None, st_pdf_sha256 = None, st_synctex_sha256 = None,
     st_synctex_bytes = 0, st_pdf_completed_at = None, st_pdf_error_code = None,
     st_pdf_error_message = None, st_svg_completed_at = None, st_svg_error_code = None,
     st_svg_error_message = None, st_svg_attempt = 1\<rparr>"

text \<open>INSERT OR IGNORE: a row that exists or breaks a check is skipped silently.\<close>

definition wants_stages :: "string \<Rightarrow> string \<Rightarrow> nat \<Rightarrow> job_row \<Rightarrow> bool" where
  "wants_stages i w g j \<longleftrightarrow>
     holds_lease i w g j \<and> j_status j \<in> {Validating, Running} \<and> j_cancel_requested_at j = None \<and>
     (case j_outputs j of None \<Rightarrow> False | Some v \<Rightarrow> JStr ''svg'' \<in> set (json_each v))"

definition stage_initialize :: "string \<Rightarrow> string \<Rightarrow> nat \<Rightarrow> string \<Rightarrow> db \<Rightarrow> bool \<times> db" where
  "stage_initialize i w g img d =
     (let d' = (case find (wants_stages i w g) (jobs d) of
                  None \<Rightarrow> d
                | Some j \<Rightarrow>
                    if stage_of d i = None \<and> stage_check (new_stage img j)
                    then d\<lparr>stages := stages d @ [new_stage img j]\<rparr> else d)
      in (checkpoint d' i \<noteq> None, d'))"

definition stage_start :: "render_output \<Rightarrow> string \<Rightarrow> string \<Rightarrow> nat \<Rightarrow> bool tx" where
  "stage_start stage i w g d =
     (case (case stage of
          Pdf \<Rightarrow> update_stages (\<lambda>s. st_job_id s = i \<and> st_pdf_status s = StQueued \<and>
                  stage_owned d w g s) (\<lambda>s. s\<lparr>st_pdf_status := StRunning\<rparr>) d
        | Svg \<Rightarrow> update_stages (\<lambda>s. st_job_id s = i \<and> st_svg_status s = StQueued \<and>
                  stage_owned d w g s \<and> st_pdf_status s = StSucceeded)
                (\<lambda>s. s\<lparr>st_svg_status := StRunning\<rparr>) d) of
        Inl e \<Rightarrow> Inl e
      | Inr (n, d') \<Rightarrow> Inr (n = 1, d'))"

record pdf_result =
  pr_generation :: nat
  pr_sha256 :: string
  pr_synctex_sha256 :: string
  pr_synctex_bytes :: nat
  pr_completed_at :: timestamp

definition complete_pdf :: "string \<Rightarrow> string \<Rightarrow> nat \<Rightarrow> pdf_result \<Rightarrow> bool tx" where
  "complete_pdf i w g x d =
     (case update_stages (\<lambda>s. st_job_id s = i \<and> st_pdf_status s = StRunning \<and> stage_owned d w g s)
        (\<lambda>s. s\<lparr>st_pdf_status := StSucceeded, st_pdf_generation := Some (pr_generation x),
               st_pdf_sha256 := Some (pr_sha256 x), st_synctex_sha256 := Some (pr_synctex_sha256 x),
               st_synctex_bytes := pr_synctex_bytes x,
               st_pdf_completed_at := Some (pr_completed_at x)\<rparr>) d of
        Inl e \<Rightarrow> Inl e
      | Inr (n, d') \<Rightarrow> Inr (n = 1, d'))"

text \<open>The four statuses an SVG stage may complete with.\<close>

datatype svg_outcome = SvgSucceeded | SvgFailed | SvgTimeout | SvgCanceled

fun svg_status_of :: "svg_outcome \<Rightarrow> stage_status" where
  "svg_status_of SvgSucceeded = StSucceeded"
| "svg_status_of SvgFailed = StFailed"
| "svg_status_of SvgTimeout = StTimeout"
| "svg_status_of SvgCanceled = StCanceled"

record svg_result =
  sr_generation :: nat
  sr_outcome :: svg_outcome
  sr_error_code :: "string option"
  sr_error_message :: "string option"
  sr_completed_at :: timestamp

definition complete_svg :: "string \<Rightarrow> string \<Rightarrow> nat \<Rightarrow> svg_result \<Rightarrow> bool tx" where
  "complete_svg i w g x d =
     (case update_stages (\<lambda>s. st_job_id s = i \<and> st_svg_status s = StRunning \<and> stage_owned d w g s)
        (\<lambda>s. s\<lparr>st_svg_status := svg_status_of (sr_outcome x), st_svg_error_code := sr_error_code x,
               st_svg_error_message := sr_error_message x,
               st_svg_completed_at := Some (sr_completed_at x),
               st_svg_generation := Some (sr_generation x)\<rparr>) d of
        Inl e \<Rightarrow> Inl e
      | Inr (n, d') \<Rightarrow> Inr (n = 1, d'))"

section \<open>Requeueing a failed SVG stage\<close>

definition svg_retryable :: "db \<Rightarrow> timestamp \<Rightarrow> timestamp \<Rightarrow> job_row \<Rightarrow> bool" where
  "svg_retryable d now cutoff j \<longleftrightarrow>
     j_status j \<in> {Failed, Timeout, Canceled} \<and> j_lease_owner j = None \<and>
     exists_row (\<lambda>p. st_job_id p = j_id j \<and> st_pdf_status p = StSucceeded \<and> same_inputs j p \<and>
        exists_row (\<lambda>a. ar_job_id a = j_id j \<and> ar_relative_path a = ''result.pdf'' \<and>
           ar_type a = APdf \<and> ar_storage_generation a \<noteq> None \<and>
           ar_storage_generation a = st_pdf_generation p \<and>
           st_pdf_sha256 p = Some (ar_sha256 a)) (artifacts d) \<and>
        sql_gt (st_pdf_completed_at p) cutoff \<and>
        st_svg_status p \<in> {StFailed, StTimeout, StCanceled} \<and> st_svg_attempt p < 8) (stages d) \<and>
     exists_row (\<lambda>s. j_source_id j = Some (s_id s) \<and> s_owner_user_id s = j_user_id j \<and>
        s_sha256 s = j_source_sha256 j \<and> s_size s = j_source_size j \<and>
        ready_source d now s) (sources d)"

definition requeued_job :: "timestamp \<Rightarrow> nat \<Rightarrow> job_row \<Rightarrow> job_row" where
  "requeued_job now bytes j = j\<lparr>j_status := Queued, j_render_status := None,
     j_queued_at := Some now, j_updated_at := now, j_completed_at := None, j_error_code := None,
     j_error_message := None, j_exit_code := None, j_cancel_requested_at := None,
     j_reserved_output_bytes := bytes\<rparr>"

definition requeued_stage :: "stage_row \<Rightarrow> stage_row" where
  "requeued_stage s = s\<lparr>st_svg_status := StQueued, st_svg_completed_at := None,
     st_svg_generation := None, st_svg_error_code := None, st_svg_error_message := None,
     st_svg_attempt := st_svg_attempt s + 1\<rparr>"

definition requeue_svg ::
  "string \<Rightarrow> string \<Rightarrow> timestamp \<Rightarrow> timestamp \<Rightarrow> nat \<Rightarrow> bool tx" where
  "requeue_svg i uid now cutoff bytes d =
     (case update_jobs_status (\<lambda>j. j_id j = i \<and> j_user_id j = uid \<and> svg_retryable d now cutoff j)
             (requeued_job now bytes) d of
        (n, d1) \<Rightarrow>
          if n \<noteq> 1 then Inr (False, d1)
          else (case update_stages (\<lambda>s. st_job_id s = i) requeued_stage d1 of
                  Inl e \<Rightarrow> Inl e
                | Inr (_, d2) \<Rightarrow> Inr (True, d2)))"

section \<open>What the stages keep\<close>

text \<open>
  An SVG stage runs and ends only on a published PDF: until then it is queued or skipped.
\<close>

definition stage_order :: "stage_row \<Rightarrow> bool" where
  "stage_order s \<longleftrightarrow> st_svg_status s \<in> {StQueued, StSkipped} \<or> st_pdf_status s = StSucceeded"

definition stage_ok :: "stage_row \<Rightarrow> bool" where
  "stage_ok s \<longleftrightarrow> stage_check s \<and> stage_order s"

definition stages_ok :: "db \<Rightarrow> bool" where
  "stages_ok d \<longleftrightarrow> (\<forall>s\<in>set (stages d). stage_ok s)"

definition pdf_part :: "stage_row \<Rightarrow> _" where
  "pdf_part s = (st_source_sha256 s, st_source_id s, st_entrypoint s, st_project_revision_id s,
     st_renderer_image s, st_pdf_status s, st_pdf_generation s, st_pdf_sha256 s,
     st_synctex_sha256 s, st_synctex_bytes s, st_pdf_completed_at s, st_pdf_error_code s,
     st_pdf_error_message s)"

lemma stage_of_status_simps [simp]:
  "stage_of_status s \<noteq> StSucceeded" "stage_of_status s \<noteq> StSkipped"
  "\<not> open_stage (stage_of_status s)" "stage_of_status s \<noteq> StQueued"
  "stage_of_status s \<noteq> StRunning"
  by (cases s; simp)+

lemma ball_upd_where:
  "\<forall>r\<in>set rs. P r \<Longrightarrow> (\<And>r. P r \<Longrightarrow> p r \<Longrightarrow> P (f r)) \<Longrightarrow> \<forall>r\<in>set (upd_where p f rs). P r"
  by (auto simp: set_upd_where)

lemma stage_ok_triggers:
  assumes "\<forall>s\<in>set sts. stage_ok s"
  shows "\<forall>s\<in>set (status_triggers old new sts). stage_ok s"
proof -
  have svg: "stage_ok s \<Longrightarrow> open_stage (st_svg_status s) \<Longrightarrow> stage_ok (s\<lparr>st_svg_status :=
      (if st_pdf_status s \<noteq> StSucceeded then StSkipped else stage_of_status t),
      st_svg_completed_at := a, st_svg_error_code := b, st_svg_error_message := c\<rparr>)" for s t a b c
    by (auto simp: stage_ok_def stage_check_def stage_order_def)
  have pdf: "stage_ok s \<Longrightarrow> open_stage (st_pdf_status s) \<Longrightarrow> stage_ok (s\<lparr>st_pdf_status :=
      stage_of_status t, st_pdf_completed_at := a, st_pdf_error_code := b,
      st_pdf_error_message := c\<rparr>)" for s t a b c
    by (auto simp: stage_ok_def stage_check_def stage_order_def)
  have recover: "stage_ok s \<Longrightarrow> stage_ok (s\<lparr>st_pdf_status :=
      (if st_pdf_status s = StRunning then StQueued else st_pdf_status s), st_svg_status :=
      (if st_svg_status s = StRunning then StQueued else st_svg_status s)\<rparr>)" for s
    by (auto simp: stage_ok_def stage_check_def stage_order_def)
  have "\<forall>s\<in>set (terminal_trigger new sts). stage_ok s"
    unfolding terminal_trigger_def
    by (intro ball_upd_where assms) (rule svg pdf; simp)+
  moreover have "\<forall>s\<in>set (recover_trigger new sts). stage_ok s"
    unfolding recover_trigger_def by (intro ball_upd_where assms recover)
  ultimately show ?thesis using assms by (simp add: status_triggers_def)
qed

lemma stages_ok_update_jobs_status:
  assumes "stages_ok d" and "\<And>r. j_id (f r) = j_id r"
  shows "stages_ok (snd (update_jobs_status p f d))"
  unfolding stages_ok_def
proof (rule stages_update_jobs_status)
  show "\<forall>s\<in>set (stages d). stage_ok s" using assms(1) by (simp add: stages_ok_def)
qed (rule stage_ok_triggers, assumption, rule assms(2))

lemma stages_ok_update_stages:
  assumes "stages_ok d" and "update_stages p f d = Inr (n, d')"
    and "\<And>s. s \<in> set (stages d) \<Longrightarrow> p s \<Longrightarrow> stage_order (f s)"
  shows "stages_ok d'"
  using assms
  by (auto simp: update_stages_def stages_ok_def stage_ok_def set_upd_where list_ex_iff
      split: if_splits)

lemma stages_ok_initialize:
  "stages_ok d \<Longrightarrow> stages_ok (snd (stage_initialize i w g img d))"
  by (auto simp: stage_initialize_def Let_def stages_ok_def stage_ok_def stage_order_def
      new_stage_def split: option.splits)

lemma counted_InrD:
  "(case r of Inl e \<Rightarrow> Inl e | Inr (n, d') \<Rightarrow> Inr (n = (1::nat), d')) = Inr (b, e) \<longleftrightarrow>
   (\<exists>n. r = Inr (n, e) \<and> b = (n = 1))"
  by (auto split: sum.splits)

lemma stages_ok_start:
  assumes "stages_ok d" and "stage_start st i w g d = Inr (b, d')"
  shows "stages_ok d'"
proof (cases st)
  case Pdf
  with assms(2) obtain n where u: "update_stages (\<lambda>s. st_job_id s = i \<and>
      st_pdf_status s = StQueued \<and> stage_owned d w g s) (\<lambda>s. s\<lparr>st_pdf_status := StRunning\<rparr>) d =
      Inr (n, d')" by (auto simp: stage_start_def counted_InrD)
  show ?thesis
    by (rule stages_ok_update_stages [OF assms(1) u])
      (use assms(1) in \<open>auto simp: stages_ok_def stage_ok_def stage_order_def\<close>)
next
  case Svg
  with assms(2) obtain n where u: "update_stages (\<lambda>s. st_job_id s = i \<and>
      st_svg_status s = StQueued \<and> stage_owned d w g s \<and> st_pdf_status s = StSucceeded)
      (\<lambda>s. s\<lparr>st_svg_status := StRunning\<rparr>) d = Inr (n, d')"
    by (auto simp: stage_start_def counted_InrD)
  show ?thesis
    by (rule stages_ok_update_stages [OF assms(1) u]) (simp add: stage_order_def)
qed

lemma stages_ok_complete_pdf:
  assumes "stages_ok d" and "complete_pdf i w g x d = Inr (b, d')"
  shows "stages_ok d'"
proof -
  from assms(2) obtain n where "update_stages (\<lambda>s. st_job_id s = i \<and> st_pdf_status s = StRunning \<and>
      stage_owned d w g s) (\<lambda>s. s\<lparr>st_pdf_status := StSucceeded,
      st_pdf_generation := Some (pr_generation x), st_pdf_sha256 := Some (pr_sha256 x),
      st_synctex_sha256 := Some (pr_synctex_sha256 x), st_synctex_bytes := pr_synctex_bytes x,
      st_pdf_completed_at := Some (pr_completed_at x)\<rparr>) d = Inr (n, d')"
    by (auto simp: complete_pdf_def counted_InrD)
  from stages_ok_update_stages [OF assms(1) this] show ?thesis by (simp add: stage_order_def)
qed

lemma stages_ok_complete_svg:
  assumes "stages_ok d" and "complete_svg i w g x d = Inr (b, d')"
  shows "stages_ok d'"
proof -
  from assms(2) obtain n where u: "update_stages (\<lambda>s. st_job_id s = i \<and> st_svg_status s = StRunning \<and>
      stage_owned d w g s) (\<lambda>s. s\<lparr>st_svg_status := svg_status_of (sr_outcome x),
      st_svg_error_code := sr_error_code x, st_svg_error_message := sr_error_message x,
      st_svg_completed_at := Some (sr_completed_at x),
      st_svg_generation := Some (sr_generation x)\<rparr>) d = Inr (n, d')"
    by (auto simp: complete_svg_def counted_InrD)
  show ?thesis
    by (rule stages_ok_update_stages [OF assms(1) u])
      (use assms(1) in \<open>auto simp: stages_ok_def stage_ok_def stage_order_def\<close>)
qed

lemma requeue_svg_cases:
  assumes "requeue_svg i uid now cutoff bytes d = Inr (b, d')"
  obtains "\<not> b" "d' = snd (update_jobs_status (\<lambda>j. j_id j = i \<and> j_user_id j = uid \<and>
      svg_retryable d now cutoff j) (requeued_job now bytes) d)"
      "changes (\<lambda>j. j_id j = i \<and> j_user_id j = uid \<and> svg_retryable d now cutoff j) (jobs d) \<noteq> 1"
  | d1 n where "b" "d1 = snd (update_jobs_status (\<lambda>j. j_id j = i \<and> j_user_id j = uid \<and>
      svg_retryable d now cutoff j) (requeued_job now bytes) d)"
      "changes (\<lambda>j. j_id j = i \<and> j_user_id j = uid \<and> svg_retryable d now cutoff j) (jobs d) = 1"
      "update_stages (\<lambda>s. st_job_id s = i) requeued_stage d1 = Inr (n, d')"
proof -
  let ?u = "update_jobs_status (\<lambda>j. j_id j = i \<and> j_user_id j = uid \<and> svg_retryable d now cutoff j)
    (requeued_job now bytes) d"
  obtain n d1 where u: "?u = (n, d1)" by (cases ?u)
  have n: "n = changes (\<lambda>j. j_id j = i \<and> j_user_id j = uid \<and> svg_retryable d now cutoff j) (jobs d)"
    using arg_cong [OF u, of fst] by simp
  have d1: "d1 = snd ?u" by (simp only: u snd_conv)
  have eq: "requeue_svg i uid now cutoff bytes d =
      (if n \<noteq> 1 then Inr (False, d1)
       else (case update_stages (\<lambda>s. st_job_id s = i) requeued_stage d1 of
               Inl e \<Rightarrow> Inl e | Inr (_, d2) \<Rightarrow> Inr (True, d2)))"
    by (simp only: requeue_svg_def u prod.case)
  show thesis
  proof (cases "n = 1")
    case True
    with assms eq obtain m where "b" "update_stages (\<lambda>s. st_job_id s = i) requeued_stage d1 = Inr (m, d')"
      by (auto split: sum.splits)
    then show thesis by (rule that(2) [OF _ d1 n [symmetric, unfolded True]])
  next
    case False
    with assms eq have "\<not> b" "d' = d1" by simp_all
    show thesis by (rule that(1)) (use \<open>\<not> b\<close> \<open>d' = d1\<close> d1 n False in simp_all)
  qed
qed

lemma requeued_job_id [simp]: "j_id (requeued_job now bytes j) = j_id j"
  by (simp add: requeued_job_def)

lemma stages_ok_requeue:
  assumes "stages_ok d" and "requeue_svg i uid now cutoff bytes d = Inr (b, d')"
  shows "stages_ok d'"
  using assms(2)
proof (cases rule: requeue_svg_cases)
  case 1
  then show ?thesis using assms(1) by (simp add: stages_ok_update_jobs_status)
next
  case (2 d1 n)
  have "stages_ok d1" using 2(2) assms(1) by (simp add: stages_ok_update_jobs_status)
  from stages_ok_update_stages [OF this 2(4)] show ?thesis
    by (simp add: stage_order_def requeued_stage_def)
qed

section \<open>A published PDF is final\<close>

text \<open>Between two states of the table, every published PDF part stays as it is.\<close>

definition pdf_kept :: "stage_row list \<Rightarrow> stage_row list \<Rightarrow> bool" where
  "pdf_kept sts sts' \<longleftrightarrow> (\<forall>i s. row_by st_job_id i sts = Some s \<and> st_pdf_status s = StSucceeded \<longrightarrow>
     (\<exists>s'. row_by st_job_id i sts' = Some s' \<and> pdf_part s' = pdf_part s))"

lemma pdf_kept_refl [simp]: "pdf_kept sts sts"
  by (auto simp: pdf_kept_def)

lemma pdf_part_status: "pdf_part s' = pdf_part s \<Longrightarrow> st_pdf_status s' = st_pdf_status s"
  by (simp add: pdf_part_def)

lemma pdf_kept_trans:
  assumes "pdf_kept a b" and "pdf_kept b c"
  shows "pdf_kept a c"
  unfolding pdf_kept_def
proof (intro allI impI)
  fix i s assume "row_by st_job_id i a = Some s \<and> st_pdf_status s = StSucceeded"
  with assms(1) obtain t where t: "row_by st_job_id i b = Some t" "pdf_part t = pdf_part s"
      "st_pdf_status t = StSucceeded"
    unfolding pdf_kept_def by (metis pdf_part_status)
  with assms(2) obtain u where "row_by st_job_id i c = Some u" "pdf_part u = pdf_part t"
    unfolding pdf_kept_def by blast
  with t(2) show "\<exists>s'. row_by st_job_id i c = Some s' \<and> pdf_part s' = pdf_part s" by simp
qed

lemma pdf_kept_upd_where:
  assumes "\<And>s. st_job_id (f s) = st_job_id s"
    and "\<And>s. p s \<Longrightarrow> st_pdf_status s = StSucceeded \<Longrightarrow> pdf_part (f s) = pdf_part s"
  shows "pdf_kept sts (upd_where p f sts)"
  using assms by (auto simp: pdf_kept_def stage_table.row_by_upd_where)

lemma pdf_kept_append: "pdf_kept sts (sts @ new)"
  by (auto simp: pdf_kept_def row_by_append)

lemma pdf_kept_triggers: "pdf_kept sts (status_triggers old new sts)"
proof -
  have t: "pdf_kept sts (terminal_trigger new sts)"
    unfolding terminal_trigger_def
    by (rule pdf_kept_trans [OF pdf_kept_upd_where pdf_kept_upd_where])
      (auto simp: pdf_part_def)
  have r: "pdf_kept sts (recover_trigger new sts)"
    unfolding recover_trigger_def by (rule pdf_kept_upd_where) (auto simp: pdf_part_def)
  show ?thesis using t r by (simp add: status_triggers_def)
qed

lemma pdf_kept_update_jobs_status: "pdf_kept (stages d) (stages (snd (update_jobs_status p f d)))"
proof -
  have "pdf_kept sts (fold (\<lambda>r. status_triggers r (f r)) rs sts)" for rs sts
  proof (induction rs arbitrary: sts)
    case (Cons r rs)
    show ?case using pdf_kept_trans [OF pdf_kept_triggers Cons.IH] by simp
  qed simp
  then show ?thesis by (simp add: update_jobs_status_def)
qed

lemma pdf_kept_update_stages:
  assumes "update_stages p f d = Inr (n, d')" and "\<And>s. st_job_id (f s) = st_job_id s"
    and "\<And>s. p s \<Longrightarrow> st_pdf_status s = StSucceeded \<Longrightarrow> pdf_part (f s) = pdf_part s"
  shows "pdf_kept (stages d) (stages d')"
  using assms(1) pdf_kept_upd_where [of f p "stages d", OF assms(2,3)]
  by (auto simp: update_stages_def split: if_splits)

lemma pdf_kept_initialize: "pdf_kept (stages d) (stages (snd (stage_initialize i w g img d)))"
  by (auto simp: stage_initialize_def Let_def pdf_kept_append split: option.splits)

lemma pdf_kept_start:
  assumes "stage_start st i w g d = Inr (b, d')"
  shows "pdf_kept (stages d) (stages d')"
  using assms
  by (cases st) (auto simp: stage_start_def counted_InrD pdf_part_def elim!: pdf_kept_update_stages)

lemma pdf_kept_complete_pdf:
  "complete_pdf i w g x d = Inr (b, d') \<Longrightarrow> pdf_kept (stages d) (stages d')"
  by (auto simp: complete_pdf_def counted_InrD elim!: pdf_kept_update_stages)

lemma pdf_kept_complete_svg:
  "complete_svg i w g x d = Inr (b, d') \<Longrightarrow> pdf_kept (stages d) (stages d')"
  by (auto simp: complete_svg_def counted_InrD pdf_part_def elim!: pdf_kept_update_stages)

lemma pdf_kept_requeue:
  assumes "requeue_svg i uid now cutoff bytes d = Inr (b, d')"
  shows "pdf_kept (stages d) (stages d')"
  using assms
proof (cases rule: requeue_svg_cases)
  case 1
  then show ?thesis using pdf_kept_update_jobs_status by simp
next
  case (2 d1 n)
  have "pdf_kept (stages d) (stages d1)" using 2(2) pdf_kept_update_jobs_status by simp
  moreover have "pdf_kept (stages d1) (stages d')"
    by (rule pdf_kept_update_stages [OF 2(4)]) (simp_all add: requeued_stage_def pdf_part_def)
  ultimately show ?thesis by (rule pdf_kept_trans)
qed

end
