(* ===== verification/Artifacts.thy ===== *)
theory Artifacts
  imports Output_Stages
begin

text \<open>
  \<open>ArtifactsRepository\<close> (repositories/artifacts.ts) with the availability rule of
  artifact-availability.ts: which artifacts of a job may be downloaded, where their files lie,
  download leases, and publishing a stage's files.
\<close>

section \<open>Where a file lies\<close>

definition safe_part :: "string \<Rightarrow> bool" where
  "safe_part p \<longleftrightarrow> p \<noteq> [] \<and> p \<noteq> ''.'' \<and> p \<noteq> ''..''"

definition bad_artifact_path :: "string \<Rightarrow> string \<Rightarrow> bool" where
  "bad_artifact_path job path \<longleftrightarrow>
     \<not> is_id ''job_'' job \<or> CHR 0x5C \<in> set path \<or> CHR 0x00 \<in> set path \<or>
     list_ex (\<lambda>p. \<not> safe_part p) (split_on CHR ''/'' path)"

text \<open>\<open>join\<close> of clean parts below the (normalised) data root.\<close>

definition artifact_storage_path :: "string \<Rightarrow> artifact_row \<Rightarrow> string result" where
  "artifact_storage_path root r =
     (if bad_artifact_path (ar_job_id r) (ar_relative_path r) then Inl PlainError
      else case ar_storage_generation r of
          None \<Rightarrow> Inr (join_on CHR ''/''
                    [root, ''jobs'', ar_job_id r, ''output'', ar_relative_path r])
        | Some g \<Rightarrow> if g = 0 then Inl PlainError
                    else Inr (join_on CHR ''/''
                      [root, ''jobs'', ar_job_id r, ''outputs'', decimal g, ar_relative_path r]))"

section \<open>Availability\<close>

record availability =
  av_retention_hours :: nat
  av_now :: timestamp

definition hour_ms :: nat where "hour_ms = 3600000"

definition artifact_retention_expires_at :: "timestamp \<Rightarrow> nat \<Rightarrow> timestamp result" where
  "artifact_retention_expires_at start hours =
     (if hours = 0 then Inl PlainError else Inr (start + hours * hour_ms))"

definition artifact_availability_cutoff :: "availability \<Rightarrow> timestamp result" where
  "artifact_availability_cutoff p =
     (if av_retention_hours p = 0 then Inl PlainError
      else Inr (av_now p - av_retention_hours p * hour_ms))"

text \<open>\<open>relative_path LIKE 'svg/%'\<close>; LIKE ignores case.\<close>

definition like_svg :: "string \<Rightarrow> bool" where
  "like_svg path \<longleftrightarrow> starts_with ''svg/'' (lower path)"

definition published_stage :: "db \<Rightarrow> string \<Rightarrow> stage_row option" where
  "published_stage d i = find (\<lambda>s. st_job_id s = i \<and> st_pdf_status s = StSucceeded) (stages d)"

definition artifact_available :: "db \<Rightarrow> timestamp \<Rightarrow> job_row \<Rightarrow> artifact_row \<Rightarrow> bool" where
  "artifact_available d cutoff j a \<longleftrightarrow>
     (j_status j \<in> {Succeeded, Failed, Timeout, Canceled, Rejected} \<or>
      (j_status j \<in> {Queued, Validating, Running} \<and> published_stage d (j_id j) \<noteq> None)) \<and>
     coalesce (Option.bind (published_stage d (j_id j)) st_pdf_completed_at)
       (coalesce (j_completed_at j) (j_updated_at j)) > cutoff \<and>
     (\<not> like_svg (ar_relative_path a) \<or> stage_of d (j_id j) = None \<or>
      (ar_storage_generation a \<noteq> None \<and>
       ar_storage_generation a = Option.bind (stage_of d (j_id j)) st_svg_generation))"

definition downloadable :: "db \<Rightarrow> timestamp \<Rightarrow> string \<Rightarrow> artifact_row \<Rightarrow> bool" where
  "downloadable d cutoff i a \<longleftrightarrow> ar_job_id a = i \<and>
     (case job_of d i of None \<Rightarrow> False | Some j \<Rightarrow> artifact_available d cutoff j a)"

definition list_downloadable :: "db \<Rightarrow> string \<Rightarrow> availability \<Rightarrow> artifact_row list result" where
  "list_downloadable d i p =
     (case artifact_availability_cutoff p of
        Inl e \<Rightarrow> Inl e
      | Inr cutoff \<Rightarrow>
          Inr (sort_key ar_relative_path (filter (downloadable d cutoff i) (artifacts d))))"

definition get_downloadable ::
  "db \<Rightarrow> string \<Rightarrow> string \<Rightarrow> availability \<Rightarrow> artifact_row option result" where
  "get_downloadable d i path p =
     (case artifact_availability_cutoff p of
        Inl e \<Rightarrow> Inl e
      | Inr cutoff \<Rightarrow>
          Inr (find (\<lambda>a. ar_relative_path a = path \<and> downloadable d cutoff i a) (artifacts d)))"

definition referenced_generations :: "db \<Rightarrow> string \<Rightarrow> nat list" where
  "referenced_generations d i =
     remdups (List.map_filter ar_storage_generation (filter (\<lambda>a. ar_job_id a = i) (artifacts d)))"

definition has_active_transfers :: "db \<Rightarrow> string \<Rightarrow> timestamp \<Rightarrow> bool" where
  "has_active_transfers d i ts \<longleftrightarrow>
     exists_row (\<lambda>l. l_job_id l = i \<and> l_expires_at l > ts) (download_leases d)"

definition has_published_pdf :: "db \<Rightarrow> string \<Rightarrow> bool" where
  "has_published_pdf d i \<longleftrightarrow> exists_row (\<lambda>a. ar_job_id a = i \<and> ar_type a = APdf \<and>
     ar_relative_path a = ''result.pdf'') (artifacts d)"

section \<open>Download leases\<close>

definition create_lease :: "lease_row \<Rightarrow> unit tx" where
  "create_lease l d =
     (if row_by l_id (l_id l) (download_leases d) = None \<and> fk j_id (l_job_id l) (jobs d) \<and>
         fk ar_id (l_artifact_id l) (artifacts d)
      then Inr ((), d\<lparr>download_leases := download_leases d @ [l]\<rparr>) else Inl ConstraintError)"

definition delete_lease :: "string \<Rightarrow> db \<Rightarrow> db" where
  "delete_lease i d = d\<lparr>download_leases := del_where (\<lambda>l. l_id l = i) (download_leases d)\<rparr>"

definition renew_lease :: "string \<Rightarrow> timestamp \<Rightarrow> timestamp \<Rightarrow> db \<Rightarrow> bool \<times> db" where
  "renew_lease i ts exp d =
     (let p = (\<lambda>l. l_id l = i \<and> l_expires_at l > ts) in
      (changes p (download_leases d) = 1,
       d\<lparr>download_leases := upd_where p (\<lambda>l. l\<lparr>l_expires_at := exp\<rparr>) (download_leases d)\<rparr>))"

text \<open>
  \<open>protectArtifactDownloadLeases\<close> (artifact-download-lease.ts): one heartbeat renews every lease
  for five minutes; the first that is gone is a loss. On a loss the stream is destroyed and the
  leases released.
\<close>

definition artifact_download_lease_ms :: nat where "artifact_download_lease_ms = 300000"

fun lease_heartbeat :: "string list \<Rightarrow> timestamp \<Rightarrow> db \<Rightarrow> bool \<times> db" where
  "lease_heartbeat [] now d = (True, d)"
| "lease_heartbeat (i # is) now d =
     (case renew_lease i now (now + artifact_download_lease_ms) d of
        (True, d') \<Rightarrow> lease_heartbeat is now d'
      | (False, d') \<Rightarrow> (False, d'))"

definition release_leases :: "string list \<Rightarrow> db \<Rightarrow> db" where
  "release_leases is d = fold delete_lease is d"

text \<open>A live guard: what one tick of its timer does, and whether the stream survives.\<close>

definition lease_tick :: "string list \<Rightarrow> timestamp \<Rightarrow> db \<Rightarrow> bool \<times> db" where
  "lease_tick is now d =
     (case lease_heartbeat is now d of
        (True, d') \<Rightarrow> (True, d') | (False, d') \<Rightarrow> (False, release_leases is d'))"

section \<open>Publishing\<close>

definition artifact_row_ok :: "db \<Rightarrow> artifact_row \<Rightarrow> bool" where
  "artifact_row_ok d a \<longleftrightarrow> fk j_id (ar_job_id a) (jobs d) \<and> positive_opt (ar_storage_generation a)"

definition artifact_insert :: "artifact_row \<Rightarrow> unit tx" where
  "artifact_insert a d =
     (if row_by ar_id (ar_id a) (artifacts d) = None \<and> artifact_row_ok d a \<and>
         \<not> exists_row (\<lambda>x. ar_job_id x = ar_job_id a \<and> ar_relative_path x = ar_relative_path a)
             (artifacts d)
      then Inr ((), d\<lparr>artifacts := artifacts d @ [a]\<rparr>) else Inl ConstraintError)"

definition same_path :: "artifact_row \<Rightarrow> artifact_row \<Rightarrow> bool" where
  "same_path a x \<longleftrightarrow> ar_job_id x = ar_job_id a \<and> ar_relative_path x = ar_relative_path a"

text \<open>The upsert takes the new content but keeps the id that transfers hold.\<close>

definition publish_stage :: "artifact_row \<Rightarrow> unit tx" where
  "publish_stage a d =
     (if \<not> starts_with ''svg/'' (ar_relative_path a) then artifact_insert a d
      else if exists_row (same_path a) (artifacts d)
      then if positive_opt (ar_storage_generation a)
           then Inr ((), d\<lparr>artifacts := upd_where (same_path a)
                  (\<lambda>x. x\<lparr>ar_type := ar_type a, ar_size := ar_size a, ar_sha256 := ar_sha256 a,
                         ar_created_at := ar_created_at a,
                         ar_storage_generation := ar_storage_generation a\<rparr>) (artifacts d)\<rparr>)
           else Inl ConstraintError
      else artifact_insert a d)"

section \<open>Lemmas\<close>

text \<open>
  The path of a stored file stays below its job's directory: no part of it climbs, is empty or
  hides a separator.
\<close>

lemma artifact_storage_path_parts:
  assumes "artifact_storage_path root r = Inr path"
  obtains dir where "path = join_on CHR ''/'' (root # ''jobs'' # ar_job_id r # dir @
        split_on CHR ''/'' (ar_relative_path r))"
    and "dir \<in> insert [''output''] ((\<lambda>g. [''outputs'', decimal g]) ` UNIV)"
    and "list_all safe_part (split_on CHR ''/'' (ar_relative_path r))"
proof -
  let ?parts = "split_on CHR ''/'' (ar_relative_path r)"
  from assms have safe: "list_all safe_part ?parts"
    by (auto simp: artifact_storage_path_def bad_artifact_path_def list_all_iff list_ex_iff
        split: if_splits)
  have whole: "join_on CHR ''/'' (xs @ [ar_relative_path r]) = join_on CHR ''/'' (xs @ ?parts)"
    if "xs \<noteq> []" for xs
    using that by (simp add: join_on_append)
  show thesis
  proof (cases "ar_storage_generation r")
    case None
    with assms have "path = join_on CHR ''/'' ([root, ''jobs'', ar_job_id r, ''output''] @
        [ar_relative_path r])" by (auto simp: artifact_storage_path_def split: if_splits)
    then have "path = join_on CHR ''/'' ([root, ''jobs'', ar_job_id r, ''output''] @ ?parts)"
      by (simp only: whole list.distinct not_False_eq_True)
    then show thesis by (intro that [OF _ _ safe, of "[''output'']"]) simp_all
  next
    case (Some g)
    with assms have "path = join_on CHR ''/'' ([root, ''jobs'', ar_job_id r, ''outputs'', decimal g]
        @ [ar_relative_path r])" by (auto simp: artifact_storage_path_def split: if_splits)
    then have "path = join_on CHR ''/'' ([root, ''jobs'', ar_job_id r, ''outputs'', decimal g] @
        ?parts)" by (simp only: whole list.distinct not_False_eq_True)
    then show thesis by (intro that [OF _ _ safe, of "[''outputs'', decimal g]"]) simp_all
  qed
qed

text \<open>A lease that was lost is never taken up again: the tick fails and releases all.\<close>

lemma lease_heartbeat_lost:
  assumes "i \<in> set is" and "\<forall>l\<in>set (download_leases d). l_id l = i \<longrightarrow> l_expires_at l \<le> now"
  shows "\<not> fst (lease_heartbeat is now d)"
  using assms
proof (induction "is" arbitrary: d)
  case (Cons k ks)
  show ?case
  proof (cases "k = i")
    case True
    with Cons.prems have "changes (\<lambda>l. l_id l = k \<and> l_expires_at l > now) (download_leases d) = 0"
      by (auto simp: changes_zero_iff)
    then show ?thesis by (simp add: renew_lease_def Let_def)
  next
    case False
    obtain b e where r: "renew_lease k now (now + artifact_download_lease_ms) d = (b, e)"
      by fastforce
    with Cons.prems False have "\<forall>l\<in>set (download_leases e). l_id l = i \<longrightarrow> l_expires_at l \<le> now"
      by (auto simp: renew_lease_def Let_def set_upd_where)
    with r Cons False show ?thesis by (cases b) auto
  qed
qed simp

lemma release_leases_gone:
  "i \<in> set is \<Longrightarrow> l \<in> set (download_leases (release_leases is d)) \<Longrightarrow> l_id l \<noteq> i"
proof (induction "is" arbitrary: d)
  case (Cons k ks)
  have sub: "set (download_leases (fold delete_lease xs e)) \<subseteq> set (download_leases e)" for xs e
  proof (induction xs arbitrary: e)
    case (Cons x xs)
    have "set (download_leases (delete_lease x e)) \<subseteq> set (download_leases e)"
      by (auto simp: delete_lease_def)
    with Cons.IH [of "delete_lease x e"] show ?case by simp
  qed simp
  show ?case
  proof (cases "i \<in> set ks")
    case True
    with Cons show ?thesis by (simp add: release_leases_def)
  next
    case False
    with Cons.prems sub [of ks "delete_lease k d"] show ?thesis
      by (auto simp: release_leases_def delete_lease_def)
  qed
qed simp

text \<open>Republishing a stage keeps the ids and paths of the artifacts there were.\<close>

lemma publish_stage_keeps_ids:
  assumes "publish_stage a d = Inr (u, d')"
  shows "\<exists>new. map (\<lambda>x. (ar_id x, ar_job_id x, ar_relative_path x)) (artifacts d') =
     map (\<lambda>x. (ar_id x, ar_job_id x, ar_relative_path x)) (artifacts d) @ new"
  using assms
  by (auto simp: publish_stage_def artifact_insert_def map_upd_where split: if_splits)

end
