(* ===== verification/Previews.thy ===== *)
theory Previews
  imports Artifacts
begin

text \<open>
  \<open>PreviewsRepository\<close> (repositories/previews.ts): the bounded queue of page previews. One
  preview runs at a time and never beside a render; a running one is addressed by its owner and
  attempt. The lemmas give the queue's bounds and why its head is never stuck.
\<close>

section \<open>Documents and requests\<close>

definition document :: "db \<Rightarrow> string \<Rightarrow> document_row option" where
  "document d i = row_by d_job_id i (documents d)"

definition register :: "document_row \<Rightarrow> unit tx" where
  "register x d =
     (if document d (d_job_id x) = None \<and> fk j_id (d_job_id x) (jobs d) \<and>
         fk ar_id (d_pdf_artifact_id x) (artifacts d) \<and> length (d_pdf_sha256 x) = 64 \<and>
         1 \<le> d_page_count x \<and> d_page_count x \<le> 100
      then Inr ((), d\<lparr>documents := documents d @ [x]\<rparr>) else Inl ConstraintError)"

definition same_page :: "string \<Rightarrow> nat \<Rightarrow> preview_row \<Rightarrow> bool" where
  "same_page i n p \<longleftrightarrow> pv_job_id p = i \<and> pv_page p = n"

definition page_key :: "preview_row \<Rightarrow> string \<times> nat" where
  "page_key p = (pv_job_id p, pv_page p)"

interpretation page_table: keyed_table page_key .

lemma same_page_iff: "same_page i n p \<longleftrightarrow> page_key p = (i, n)"
  by (simp add: same_page_def page_key_def)

definition preview_get :: "db \<Rightarrow> string \<Rightarrow> nat \<Rightarrow> preview_row option" where
  "preview_get d i n = find (same_page i n) (previews d)"

definition verified_pdf :: "db \<Rightarrow> string \<Rightarrow> availability \<Rightarrow> artifact_row option result" where
  "verified_pdf d i policy =
     (case get_downloadable d i ''result.pdf'' policy of
        Inl e \<Rightarrow> Inl e
      | Inr pdf \<Rightarrow> Inr (case (document d i, pdf) of
          (Some x, Some a) \<Rightarrow> if ar_id a = d_pdf_artifact_id x \<and> ar_sha256 a = d_pdf_sha256 x
                              then Some a else None
        | _ \<Rightarrow> None))"

definition queue_open :: "preview_row \<Rightarrow> bool" where
  "queue_open p \<longleftrightarrow> pv_status p \<in> {PQueued, PRunning}"

text \<open>The counts over \<open>p JOIN jobs j\<close>: all waiting or running requests, and the owner's.\<close>

definition queued_total :: "db \<Rightarrow> nat" where
  "queued_total d = changes (\<lambda>p. queue_open p \<and> job_of d (pv_job_id p) \<noteq> None) (previews d)"

definition queued_owned :: "db \<Rightarrow> string \<Rightarrow> nat" where
  "queued_owned d i = changes (\<lambda>p. queue_open p \<and>
     (case (job_of d (pv_job_id p), job_of d i) of
        (Some j, Some k) \<Rightarrow> j_user_id j = j_user_id k | _ \<Rightarrow> False)) (previews d)"

definition new_preview :: "nat \<Rightarrow> string \<Rightarrow> nat \<Rightarrow> timestamp \<Rightarrow> preview_row" where
  "new_preview q i n ts = \<lparr>pv_sequence = q, pv_job_id = i, pv_page = n, pv_status = PQueued,
     pv_attempt = 0, pv_reserved_bytes = 0, pv_lease_owner = None, pv_lease_expires_at = None,
     pv_error_code = None, pv_created_at = ts, pv_updated_at = ts\<rparr>"

definition enqueue :: "string \<Rightarrow> nat \<Rightarrow> timestamp \<Rightarrow> db \<Rightarrow> db" where
  "enqueue i n ts d =
     (if exists_row (same_page i n) (previews d)
      then d\<lparr>previews := upd_where (same_page i n)
             (\<lambda>p. p\<lparr>pv_status := PQueued, pv_error_code := None, pv_updated_at := ts\<rparr>) (previews d)\<rparr>
      else d\<lparr>previews := previews d @ [new_preview (Suc (preview_sequence d)) i n ts],
             preview_sequence := Suc (preview_sequence d)\<rparr>)"

definition request_preview :: "string \<Rightarrow> nat \<Rightarrow> timestamp \<Rightarrow> availability \<Rightarrow> unit tx" where
  "request_preview i n ts policy d =
     (case verified_pdf d i policy of
        Inl e \<Rightarrow> Inl e
      | Inr pdf \<Rightarrow>
        (case (document d i, pdf) of
           (Some x, Some _) \<Rightarrow>
             if n < 1 \<or> n > d_page_count x then Inl (AppError ''PREVIEW_PAGE_INVALID'' 404)
             else
               (let prior = preview_get d i n;
                    checked =
                      (if queued_total d \<ge> 32 \<or> queued_owned d i \<ge> 8
                       then Inl (AppError ''PREVIEW_QUEUE_FULL'' 503)
                       else Inr ((), enqueue i n ts d))
                in case prior of
                     None \<Rightarrow> checked
                   | Some p \<Rightarrow>
                       if pv_status p \<noteq> PFailed then Inr ((), d)
                       else if pv_attempt p \<ge> 3 \<or> ts < pv_updated_at p + 60000
                       then Inl (AppError ''PREVIEW_UNAVAILABLE'' 503)
                       else checked)
         | _ \<Rightarrow> Inl (AppError ''ARTIFACT_NOT_FOUND'' 404)))"

section \<open>Running a preview\<close>

definition preview_busy :: "db \<Rightarrow> bool" where
  "preview_busy d \<longleftrightarrow> preview_running d \<or>
     exists_row (\<lambda>j. j_status j \<in> {Validating, Running} \<or>
       (j_status j = Canceled \<and> j_lease_owner j \<noteq> None)) (jobs d)"

definition preview_key :: "preview_row \<Rightarrow> timestamp \<times> nat" where
  "preview_key p = (pv_created_at p, pv_sequence p)"

definition next_preview :: "db \<Rightarrow> preview_row option" where
  "next_preview d = first_by preview_key (filter (\<lambda>p. pv_status p = PQueued) (previews d))"

definition claim_preview :: "string \<Rightarrow> timestamp \<Rightarrow> db \<Rightarrow> preview_row option \<times> db" where
  "claim_preview w ts d =
     (if preview_busy d then (None, d)
      else case next_preview d of
          None \<Rightarrow> (None, d)
        | Some nx \<Rightarrow>
            (let p = (\<lambda>r. pv_sequence r = pv_sequence nx \<and> pv_status r = PQueued \<and> pv_attempt r < 3);
                 d' = d\<lparr>previews := upd_where p (\<lambda>r. r\<lparr>pv_status := PRunning,
                     pv_attempt := pv_attempt r + 1, pv_lease_owner := Some w,
                     pv_lease_expires_at := Some (ts + 120000), pv_updated_at := ts\<rparr>) (previews d)\<rparr>
             in (if changes p (previews d) = 1 then preview_get d' (pv_job_id nx) (pv_page nx)
                 else None, d')))"

text \<open>The running row of an owner and an attempt.\<close>

definition preview_fence :: "nat \<Rightarrow> string \<Rightarrow> nat \<Rightarrow> preview_row \<Rightarrow> bool" where
  "preview_fence q w a p \<longleftrightarrow> pv_sequence p = q \<and> pv_status p = PRunning \<and>
     pv_lease_owner p = Some w \<and> pv_attempt p = a"

definition owns_preview :: "db \<Rightarrow> preview_row \<Rightarrow> string \<Rightarrow> bool" where
  "owns_preview d r w \<longleftrightarrow> (case preview_get d (pv_job_id r) (pv_page r) of
       None \<Rightarrow> False
     | Some p \<Rightarrow> pv_status p = PRunning \<and> pv_lease_owner p = Some w \<and> pv_attempt p = pv_attempt r)"

definition reserve_preview :: "preview_row \<Rightarrow> string \<Rightarrow> nat \<Rightarrow> nat \<Rightarrow> db \<Rightarrow> bool \<times> db" where
  "reserve_preview r w bytes maximum d =
     (case job_of d (pv_job_id r) of
        None \<Rightarrow> (False, d)
      | Some j \<Rightarrow>
          if \<not> owns_preview d r w \<or> bytes < 1 \<or>
             storage_usage_for_user d (j_user_id j) + bytes > maximum
          then (False, d)
          else (let p = (\<lambda>x. preview_fence (pv_sequence r) w (pv_attempt r) x \<and>
                             pv_reserved_bytes x = 0) in
                (changes p (previews d) = 1,
                 d\<lparr>previews := upd_where p (\<lambda>x. x\<lparr>pv_reserved_bytes := bytes\<rparr>) (previews d)\<rparr>)))"

definition charge :: "string \<Rightarrow> nat \<Rightarrow> db \<Rightarrow> db" where
  "charge i bytes d = snd (update_jobs (\<lambda>j. j_id j = i)
     (\<lambda>j. j\<lparr>j_output_size := Some (coalesce (j_output_size j) 0 + bytes)\<rparr>) d)"

text \<open>\<open>lease_owner=?\<close> with the stale row's owner; a NULL owner matches nothing.\<close>

definition claim_preview_recovery ::
  "preview_row \<Rightarrow> string \<Rightarrow> timestamp \<Rightarrow> db \<Rightarrow> preview_row option \<times> db" where
  "claim_preview_recovery r w ts d =
     (let p = (\<lambda>x. pv_sequence x = pv_sequence r \<and> pv_status x = PRunning \<and>
               pv_lease_owner x \<noteq> None \<and> pv_lease_owner x = pv_lease_owner r \<and>
               pv_attempt x = pv_attempt r \<and> sql_lt (pv_lease_expires_at x) ts);
          d' = d\<lparr>previews := upd_where p (\<lambda>x. x\<lparr>pv_lease_owner := Some w,
                 pv_lease_expires_at := Some (ts + 120000), pv_updated_at := ts\<rparr>) (previews d)\<rparr>
      in (if changes p (previews d) = 1 then preview_get d' (pv_job_id r) (pv_page r) else None, d'))"

text \<open>An empty error code is falsy: the request succeeds.\<close>

definition finish_preview ::
  "preview_row \<Rightarrow> string \<Rightarrow> timestamp \<Rightarrow> string option \<Rightarrow> db \<Rightarrow> bool \<times> db" where
  "finish_preview r w ts err d =
     (let p = preview_fence (pv_sequence r) w (pv_attempt r) in
      (changes p (previews d) = 1,
       d\<lparr>previews := upd_where p (\<lambda>x. x\<lparr>pv_status :=
             (if err \<noteq> None \<and> err \<noteq> Some [] then PFailed else PSucceeded), pv_error_code := err,
             pv_reserved_bytes := 0, pv_lease_owner := None, pv_lease_expires_at := None,
             pv_updated_at := ts\<rparr>) (previews d)\<rparr>))"

definition stale_previews :: "db \<Rightarrow> timestamp \<Rightarrow> preview_row list" where
  "stale_previews d ts =
     filter (\<lambda>p. pv_status p = PRunning \<and> sql_lt (pv_lease_expires_at p) ts) (previews d)"

section \<open>The bounds of the queue\<close>

text \<open>
  Sequences and pages are unique, a waiting request has an attempt left, and at most one request
  runs.
\<close>

definition preview_row_ok :: "preview_row \<Rightarrow> bool" where
  "preview_row_ok p \<longleftrightarrow> pv_attempt p \<le> 3 \<and> (pv_status p = PQueued \<longrightarrow> pv_attempt p < 3)"

definition previews_ok :: "db \<Rightarrow> bool" where
  "previews_ok d \<longleftrightarrow>
     distinct (map pv_sequence (previews d)) \<and> distinct (map page_key (previews d)) \<and>
     (\<forall>p\<in>set (previews d). pv_sequence p \<le> preview_sequence d \<and> preview_row_ok p) \<and>
     changes (\<lambda>p. pv_status p = PRunning) (previews d) \<le> 1"

definition waiting :: "db \<Rightarrow> nat" where
  "waiting d = changes queue_open (previews d)"

lemma preview_running_iff: "preview_running d \<longleftrightarrow> changes (\<lambda>p. pv_status p = PRunning) (previews d) > 0"
  by (simp add: preview_running_def changes_pos_iff)

lemma changes_upd_where_le:
  "(\<And>r. q (f r) \<Longrightarrow> p r \<Longrightarrow> q r) \<Longrightarrow> changes q (upd_where p f rs) \<le> changes q rs"
  by (induction rs) (auto intro: le_SucI)

lemma changes_upd_where_new:
  "\<forall>r\<in>set rs. \<not> q r \<Longrightarrow> (\<And>r. p r \<Longrightarrow> q (f r)) \<Longrightarrow> changes q (upd_where p f rs) = changes p rs"
  by (induction rs) auto

lemma previews_ok_update:
  assumes "previews_ok d" and "\<And>p. pv_sequence (f p) = pv_sequence p \<and> page_key (f p) = page_key p"
    and "\<And>p. sel p \<Longrightarrow> preview_row_ok p \<Longrightarrow> preview_row_ok (f p)"
    and "\<And>p. pv_status (f p) = PRunning \<Longrightarrow> sel p \<Longrightarrow> pv_status p = PRunning"
  shows "previews_ok (d\<lparr>previews := upd_where sel f (previews d)\<rparr>)"
proof -
  have "changes (\<lambda>p. pv_status p = PRunning) (upd_where sel f (previews d)) \<le>
      changes (\<lambda>p. pv_status p = PRunning) (previews d)"
    by (rule changes_upd_where_le) (rule assms(4))
  then show ?thesis
    using assms
    by (auto simp: previews_ok_def preview_table.distinct_upd_where page_table.distinct_upd_where
        set_upd_where)
qed

lemma preview_get_row: "preview_get d i n = row_by page_key (i, n) (previews d)"
  by (simp add: preview_get_def row_by_def same_page_iff [abs_def])

text \<open>The branches of a request that succeeds: the page is already under way, or it is queued.\<close>

lemma request_preview_cases:
  assumes "request_preview i n ts policy d = Inr (u, d')"
  obtains p where "preview_get d i n = Some p" "pv_status p \<noteq> PFailed" "d' = d"
  | x where "d' = enqueue i n ts d" "document d i = Some x" "1 \<le> n" "n \<le> d_page_count x"
      "queued_total d < 32" "queued_owned d i < 8"
      "\<forall>p. preview_get d i n = Some p \<longrightarrow> pv_status p = PFailed \<and> pv_attempt p < 3"
proof -
  from assms obtain x pdf where v: "verified_pdf d i policy = Inr (Some pdf)"
    and x: "document d i = Some x"
    by (auto simp: request_preview_def split: sum.splits option.splits)
  note r = assms [unfolded request_preview_def v x, simplified]
  have page: "1 \<le> n" "n \<le> d_page_count x" using r by (auto simp: Let_def split: if_splits)
  show thesis
  proof (cases "preview_get d i n")
    case None
    with r page show thesis
      by (intro that(2) [OF _ x]) (auto simp: Let_def not_le split: if_splits)
  next
    case (Some p)
    show thesis
    proof (cases "pv_status p = PFailed")
      case True
      with r page Some show thesis
        by (intro that(2) [OF _ x]) (auto simp: Let_def not_le not_less split: if_splits)
    next
      case False
      with r page Some show thesis
        by (intro that(1)) (auto simp: Let_def split: if_splits)
    qed
  qed
qed

lemma previews_ok_enqueue:
  assumes "previews_ok d" and "\<forall>p. preview_get d i n = Some p \<longrightarrow> pv_status p = PFailed \<and> pv_attempt p < 3"
  shows "previews_ok (enqueue i n ts d)"
proof (cases "preview_get d i n")
  case None
  then have no: "\<not> exists_row (same_page i n) (previews d)"
    by (auto simp: preview_get_row row_by_None_iff same_page_iff)
  have "distinct (map page_key (previews d @ [new_preview (Suc (preview_sequence d)) i n ts]))"
    using assms(1) None
    by (intro page_table.distinct_insert)
      (simp_all add: previews_ok_def preview_get_row page_key_def new_preview_def)
  moreover have "Suc (preview_sequence d) \<notin> pv_sequence ` set (previews d)"
    using assms(1) by (force simp: previews_ok_def)
  ultimately show ?thesis
    using assms(1) no
    by (auto simp: enqueue_def previews_ok_def new_preview_def preview_row_ok_def le_SucI)
next
  case (Some p)
  with assms(2) have p: "pv_status p = PFailed" "pv_attempt p < 3" by auto
  from assms(1) have keys: "distinct (map page_key (previews d))" by (simp add: previews_ok_def)
  have only: "same_page i n q \<Longrightarrow> q \<in> set (previews d) \<Longrightarrow> q = p" for q
    using page_table.row_by_in [OF keys, of q] Some by (auto simp: preview_get_row same_page_iff)
  have ex: "exists_row (same_page i n) (previews d)"
    using Some by (auto simp: preview_get_row same_page_iff dest: row_by_SomeD)
  let ?f = "\<lambda>p. p\<lparr>pv_status := PQueued, pv_error_code := None, pv_updated_at := ts\<rparr>"
  have same: "upd_where (same_page i n) ?f (previews d) =
      upd_where (\<lambda>q. same_page i n q \<and> q = p) ?f (previews d)"
    unfolding upd_where_def by (intro map_cong) (auto dest: only)
  have "previews_ok (d\<lparr>previews := upd_where (\<lambda>q. same_page i n q \<and> q = p) ?f (previews d)\<rparr>)"
    by (rule previews_ok_update [OF assms(1)])
      (auto simp: page_key_def preview_row_ok_def p)
  with same ex show ?thesis by (simp add: enqueue_def)
qed

lemma previews_ok_request:
  assumes "previews_ok d" and "request_preview i n ts policy d = Inr (u, d')"
  shows "previews_ok d'"
  using assms(2)
  by (cases rule: request_preview_cases) (auto simp: assms(1) intro!: previews_ok_enqueue)

text \<open>The head of a legal queue can always be claimed, so the queue never stalls behind it.\<close>

lemma claim_preview_cases:
  assumes "previews_ok d" and "claim_preview w ts d = (r, d')"
  obtains "r = None" "d' = d" "preview_busy d \<or> next_preview d = None"
  | x where "\<not> preview_busy d" "next_preview d = Some x" "x \<in> set (previews d)"
      "pv_status x = PQueued" "pv_attempt x < 3"
      "d' = d\<lparr>previews := upd_where (\<lambda>r. pv_sequence r = pv_sequence x \<and> pv_status r = PQueued \<and>
          pv_attempt r < 3) (\<lambda>r. r\<lparr>pv_status := PRunning, pv_attempt := pv_attempt r + 1,
          pv_lease_owner := Some w, pv_lease_expires_at := Some (ts + 120000),
          pv_updated_at := ts\<rparr>) (previews d)\<rparr>"
      "r = Some (x\<lparr>pv_status := PRunning, pv_attempt := pv_attempt x + 1,
          pv_lease_owner := Some w, pv_lease_expires_at := Some (ts + 120000),
          pv_updated_at := ts\<rparr>)"
proof (cases "preview_busy d \<or> next_preview d = None")
  case True
  with assms(2) that(1) show thesis
    by (auto simp: claim_preview_def split: if_splits option.splits)
next
  case False
  then obtain x where x: "next_preview d = Some x" and b: "\<not> preview_busy d" by auto
  then have q: "x \<in> set (previews d)" "pv_status x = PQueued"
    using first_by_SomeD(1) [OF x [unfolded next_preview_def]] by auto
  from assms(1) have keys: "distinct (map pv_sequence (previews d))"
    "distinct (map page_key (previews d))" and a: "pv_attempt x < 3"
    using q by (auto simp: previews_ok_def preview_row_ok_def)
  let ?p = "\<lambda>r. pv_sequence r = pv_sequence x \<and> pv_status r = PQueued \<and> pv_attempt r < 3"
  let ?f = "\<lambda>r. r\<lparr>pv_status := PRunning, pv_attempt := pv_attempt r + 1,
    pv_lease_owner := Some w, pv_lease_expires_at := Some (ts + 120000), pv_updated_at := ts\<rparr>"
  have "row_by pv_sequence (pv_sequence x) (previews d) = Some x"
    by (rule preview_table.row_by_in [OF keys(1) q(1)])
  then have one: "changes ?p (previews d) = 1"
    using q(2) a by (subst preview_table.changes_by_key [OF keys(1)]) auto
  have "row_by page_key (page_key x) (upd_where ?p ?f (previews d)) = Some (?f x)"
    using page_table.row_by_in [OF keys(2) q(1)] q(2) a
    by (subst page_table.row_by_upd_where) (simp_all add: page_key_def)
  then have "r = Some (?f x)" "d' = d\<lparr>previews := upd_where ?p ?f (previews d)\<rparr>"
    using assms(2) b x one by (simp_all add: claim_preview_def preview_get_row page_key_def)
  then show thesis by (intro that(2) [OF b x q a]) simp_all
qed

lemma previews_ok_claim:
  assumes "previews_ok d" and "claim_preview w ts d = (r, d')"
  shows "previews_ok d'"
  using assms
proof (cases rule: claim_preview_cases)
  case (2 x)
  let ?p = "\<lambda>r. pv_sequence r = pv_sequence x \<and> pv_status r = PQueued \<and> pv_attempt r < 3"
  let ?f = "\<lambda>r. r\<lparr>pv_status := PRunning, pv_attempt := pv_attempt r + 1,
    pv_lease_owner := Some w, pv_lease_expires_at := Some (ts + 120000), pv_updated_at := ts\<rparr>"
  from assms(1) have keys: "distinct (map pv_sequence (previews d))" by (simp add: previews_ok_def)
  from 2(1) have "\<forall>p\<in>set (previews d). pv_status p \<noteq> PRunning"
    by (auto simp: preview_busy_def preview_running_def)
  then have "changes (\<lambda>p. pv_status p = PRunning) (upd_where ?p ?f (previews d)) = changes ?p (previews d)"
    by (intro changes_upd_where_new) simp_all
  moreover have "changes ?p (previews d) \<le> 1"
    by (rule preview_table.changes_le_one [OF keys]) simp
  ultimately show ?thesis
    using assms(1) 2(6)
    by (auto simp: previews_ok_def preview_table.distinct_upd_where page_table.distinct_upd_where
        page_key_def set_upd_where preview_row_ok_def)
qed (simp add: assms(1))

lemma previews_ok_others:
  assumes "previews_ok d"
  shows "previews_ok (snd (reserve_preview r w bytes maximum d))"
    and "previews_ok (snd (claim_preview_recovery r w ts d))"
    and "previews_ok (snd (finish_preview r w ts err d))"
    and "previews_ok (charge i bytes d)"
proof -
  show "previews_ok (snd (reserve_preview r w bytes maximum d))"
    using assms by (auto simp: reserve_preview_def Let_def page_key_def preview_row_ok_def
        preview_fence_def intro!: previews_ok_update split: option.splits)
  show "previews_ok (snd (claim_preview_recovery r w ts d))"
    using assms by (auto simp: claim_preview_recovery_def Let_def page_key_def preview_row_ok_def
        intro!: previews_ok_update)
  show "previews_ok (snd (finish_preview r w ts err d))"
    using assms by (auto simp: finish_preview_def Let_def page_key_def preview_row_ok_def
        preview_fence_def intro!: previews_ok_update)
  show "previews_ok (charge i bytes d)"
    using assms by (simp add: charge_def previews_ok_def update_jobs_def)
qed

end
