(* ===== verification/Lifecycle.thy ===== *)
theory Lifecycle
  imports Previews
begin

text \<open>
  The life of jobs, output stages and previews under every interleaving of the statements that
  the services, the workers and their recovery issue. \<open>step\<close> is one committed statement, with the
  arguments its callers pass (the rows that \<open>staleLeases\<close> lists have one of three statuses);
  \<open>frame\<close> is any statement on other tables. The lemmas give, for one
  statement at a time, how a job may change (\<open>evolves\<close>) and what stays true of the whole
  database (\<open>lifecycle_ok\<close>).
\<close>

section \<open>How a job may change\<close>

text \<open>The transitions between statuses that some statement makes.\<close>

fun next_statuses :: "job_status \<Rightarrow> job_status list" where
  "next_statuses Reserved = [Uploading, Canceled]"
| "next_statuses Uploading = [Queued, Reserved, Canceled]"
| "next_statuses Queued = [Validating, Canceled]"
| "next_statuses Validating = [Running, Queued, Canceled, Rejected, Failed]"
| "next_statuses Running = [Queued, Succeeded, Failed, Timeout, Canceled, Rejected]"
| "next_statuses Succeeded = [Deleting]"
| "next_statuses Failed = [Queued, Deleting]"
| "next_statuses Timeout = [Queued, Deleting]"
| "next_statuses Canceled = [Queued, Deleting]"
| "next_statuses Rejected = [Deleting]"
| "next_statuses Expired = [Deleting]"
| "next_statuses Deleting = []"
| "next_statuses Deleted = []"

definition identity :: "job_row \<Rightarrow> _" where
  "identity j = (j_id j, j_user_id j, j_service_account_id j, j_api_key_id j, j_renderer_version j,
     j_source_size j, j_source_sha256 j, j_created_at j, j_retry_of_job_id j, j_source_id j,
     j_entrypoint j, j_outputs j)"

text \<open>Nothing touches the lease of a job that is being deleted.\<close>

definition evolves :: "job_row \<Rightarrow> job_row \<Rightarrow> bool" where
  "evolves j j' \<longleftrightarrow> identity j' = identity j \<and> j_lease_generation j \<le> j_lease_generation j' \<and>
     (j_status j' = j_status j \<or> j_status j' \<in> set (next_statuses (j_status j))) \<and>
     (j_status j = Deleting \<longrightarrow> j_lease_owner j' = j_lease_owner j) \<and>
     (j_lease_owner j' \<noteq> None \<longrightarrow> j_lease_owner j' = j_lease_owner j \<or>
        j_lease_generation j < j_lease_generation j')"

lemma evolves_refl [simp]: "evolves j j"
  by (simp add: evolves_def)

lemma evolves_id: "evolves j j' \<Longrightarrow> j_id j' = j_id j"
  by (simp add: evolves_def identity_def)

lemma identity_set_column [simp]: "identity (set_column u j) = identity j"
  by (cases u) (simp_all add: identity_def)

lemma identity_set_columns [simp]: "identity (set_columns us j) = identity j"
  unfolding set_columns_def by (induction us arbitrary: j) simp_all

section \<open>What stays true of a job\<close>

text \<open>
  A validating or running job is under a lease; a lease is only on a job that validates, runs,
  was canceled while validating, or was deleted right after that; who has leased has a
  generation.
\<close>

definition job_ok :: "job_row \<Rightarrow> bool" where
  "job_ok j \<longleftrightarrow>
     (j_status j \<in> {Validating, Running} \<longrightarrow>
        j_lease_owner j \<noteq> None \<and> j_lease_expires_at j \<noteq> None) \<and>
     (j_lease_owner j \<noteq> None \<longrightarrow>
        j_status j \<in> {Validating, Running, Canceled, Deleting} \<and> 0 < j_lease_generation j)"

text \<open>The jobs that hold up previews: \<open>busy\<close> of previews.ts.\<close>

definition occupies :: "job_row \<Rightarrow> bool" where
  "occupies j \<longleftrightarrow> j_status j \<in> {Validating, Running} \<or>
     (j_status j = Canceled \<and> j_lease_owner j \<noteq> None)"

lemma preview_busy_iff: "preview_busy d \<longleftrightarrow> preview_running d \<or> (\<exists>j\<in>set (jobs d). occupies j)"
  by (simp add: preview_busy_def occupies_def)

text \<open>One statement's effect on each job it changes.\<close>

definition lawful :: "(job_row \<Rightarrow> bool) \<Rightarrow> (job_row \<Rightarrow> job_row) \<Rightarrow> bool" where
  "lawful p f \<longleftrightarrow> (\<forall>j. p j \<longrightarrow> evolves j (f j) \<and> (job_ok j \<longrightarrow> job_ok (f j)))"

definition calm :: "(job_row \<Rightarrow> bool) \<Rightarrow> (job_row \<Rightarrow> job_row) \<Rightarrow> bool" where
  "calm p f \<longleftrightarrow> (\<forall>j. p j \<longrightarrow> job_ok j \<longrightarrow> occupies (f j) \<longrightarrow> occupies j)"

section \<open>What stays true of the database\<close>

definition lifecycle_ok :: "db \<Rightarrow> bool" where
  "lifecycle_ok d \<longleftrightarrow>
     distinct (map j_id (jobs d)) \<and> distinct (map st_job_id (stages d)) \<and>
     (\<forall>j\<in>set (jobs d). job_ok j) \<and> stages_ok d \<and> previews_ok d \<and>
     (preview_running d \<longrightarrow> (\<forall>j\<in>set (jobs d). \<not> occupies j))"

text \<open>Two states between which every job evolved and every published PDF stayed.\<close>

definition follows :: "db \<Rightarrow> db \<Rightarrow> bool" where
  "follows d d' \<longleftrightarrow>
     (\<forall>i j. job_of d i = Some j \<longrightarrow> (\<exists>j'. job_of d' i = Some j' \<and> evolves j j')) \<and>
     pdf_kept (stages d) (stages d')"

lemma lawful_id: "lawful p f \<Longrightarrow> p j \<Longrightarrow> j_id (f j) = j_id j"
  by (auto simp: lawful_def dest: evolves_id)

lemma followsI_update:
  assumes "lawful p f" and "jobs d' = upd_where p f (jobs d)" and "pdf_kept (stages d) (stages d')"
  shows "follows d d'"
proof -
  have "row_by j_id i (upd_where p f rs) = map_option (\<lambda>r. if p r then f r else r) (row_by j_id i rs)"
    for i rs
    by (rule job_table.row_by_upd_where) (rule lawful_id [OF assms(1)])
  then show ?thesis
    using assms by (auto simp: follows_def lawful_def)
qed

lemma followsI_same: "jobs d' = jobs d \<Longrightarrow> pdf_kept (stages d) (stages d') \<Longrightarrow> follows d d'"
  by (auto simp: follows_def)

lemma distinct_upd_jobs:
  assumes "lawful p f" and "distinct (map j_id rs)"
  shows "distinct (map j_id (upd_where p f rs))"
proof -
  have "map j_id (upd_where p f rs) = map j_id rs"
    using assms(1) by (intro map_upd_where) (auto simp: lawful_def dest: evolves_id)
  then show ?thesis using assms(2) by simp
qed

lemma previews_ok_cong: "previews d' = previews d \<Longrightarrow> preview_sequence d' = preview_sequence d \<Longrightarrow>
  previews_ok d' = previews_ok d"
  by (simp add: previews_ok_def)

lemma preview_running_cong: "previews d' = previews d \<Longrightarrow> preview_running d' = preview_running d"
  by (simp add: preview_running_def)

lemma stages_ok_cong: "stages d' = stages d \<Longrightarrow> stages_ok d' = stages_ok d"
  by (simp add: stages_ok_def)

lemma lifecycle_ok_jobs:
  assumes "lifecycle_ok d" and "lawful p f" and "calm p f"
    and "jobs d' = upd_where p f (jobs d)" and "previews d' = previews d"
    and "preview_sequence d' = preview_sequence d"
    and "map st_job_id (stages d') = map st_job_id (stages d)" and "stages_ok d'"
  shows "lifecycle_ok d'"
  using assms distinct_upd_jobs [OF assms(2)]
  unfolding lifecycle_ok_def previews_ok_cong [OF assms(5,6)] preview_running_cong [OF assms(5)]
  by (auto simp: set_upd_where lawful_def calm_def)

lemma preview_sequence_update_jobs [simp]:
  "preview_sequence (snd (update_jobs p f d)) = preview_sequence d"
  "preview_sequence (snd (update_jobs_status p f d)) = preview_sequence d"
  by (simp_all add: update_jobs_def update_jobs_status_def)

lemma ok_update_jobs:
  assumes "lifecycle_ok d" and "lawful p f" and "calm p f"
  shows "lifecycle_ok (snd (update_jobs p f d)) \<and> follows d (snd (update_jobs p f d))"
proof
  show "lifecycle_ok (snd (update_jobs p f d))"
    by (rule lifecycle_ok_jobs [OF assms])
      (use assms(1) in \<open>simp_all add: lifecycle_ok_def stages_ok_def\<close>)
  show "follows d (snd (update_jobs p f d))"
    by (rule followsI_update [OF assms(2)]) simp_all
qed

lemma stages_ok_update_jobs_status':
  assumes "stages_ok d"
  shows "stages_ok (snd (update_jobs_status p f d))"
proof -
  have "\<forall>s\<in>set (fold (\<lambda>r. status_triggers r (f r)) rs sts). stage_ok s"
    if "\<forall>s\<in>set sts. stage_ok s" for rs sts
    using that
  proof (induction rs arbitrary: sts)
    case (Cons r rs)
    show ?case using Cons.IH [OF stage_ok_triggers [OF Cons.prems]] by simp
  qed simp
  then show ?thesis using assms by (simp add: update_jobs_status_def stages_ok_def)
qed

lemma ok_update_jobs_status:
  assumes "lifecycle_ok d" and "lawful p f" and "calm p f"
  shows "lifecycle_ok (snd (update_jobs_status p f d)) \<and>
    follows d (snd (update_jobs_status p f d))"
proof
  show "lifecycle_ok (snd (update_jobs_status p f d))"
    by (rule lifecycle_ok_jobs [OF assms])
      (use assms(1) in \<open>simp_all add: lifecycle_ok_def stages_ok_update_jobs_status'\<close>)
  show "follows d (snd (update_jobs_status p f d))"
    by (rule followsI_update [OF assms(2)]) (simp_all add: pdf_kept_update_jobs_status)
qed

lemma ok_insert:
  assumes "lifecycle_ok d" and "insert_job r d = Inr (u, d')"
    and "j_status r \<in> {Reserved, Queued}" and "j_lease_owner r = None"
  shows "lifecycle_ok d' \<and> follows d d'"
proof
  from insert_job_InrD [OF assms(2)] have c: "job_of d (j_id r) = None"
    and d': "d' = d\<lparr>jobs := jobs d @ [r]\<rparr>" by (auto simp: job_constraints_def)
  from assms(1) have "distinct (map j_id (jobs d))" by (simp add: lifecycle_ok_def)
  from job_table.distinct_insert [OF this c] show "lifecycle_ok d'"
    using assms
    by (auto simp: d' lifecycle_ok_def job_ok_def occupies_def stages_ok_def previews_ok_def
        preview_running_def)
  show "follows d d'"
    by (auto simp: d' follows_def row_by_append intro: evolves_refl)
qed

section \<open>Each statement on jobs\<close>

lemmas law_defs = lawful_def calm_def evolves_def identity_def job_ok_def occupies_def holds_lease_def

lemma ok_cancel: "lifecycle_ok d \<Longrightarrow>
  lifecycle_ok (snd (cancel i ts d)) \<and> follows d (snd (cancel i ts d))"
  unfolding cancel_def
  by (rule ok_update_jobs_status) (auto simp: law_defs active_def cancelable_now_def)

lemma ok_restore: "lifecycle_ok d \<Longrightarrow>
  lifecycle_ok (restore_reserved i ts d) \<and> follows d (restore_reserved i ts d)"
  unfolding restore_reserved_def
  by (rule ok_update_jobs_status) (auto simp: law_defs)

lemma ok_mark_deleting: "lifecycle_ok d \<Longrightarrow>
  lifecycle_ok (snd (mark_deleting i ts d)) \<and> follows d (snd (mark_deleting i ts d))"
  unfolding mark_deleting_def
  by (rule ok_update_jobs_status) (auto simp: law_defs terminal_def)

lemma ok_heartbeat: "lifecycle_ok d \<Longrightarrow>
  lifecycle_ok (snd (heartbeat now until i w g d)) \<and> follows d (snd (heartbeat now until i w g d))"
  unfolding heartbeat_def by (rule ok_update_jobs) (auto simp: law_defs)

lemma ok_mark_canceled: "lifecycle_ok d \<Longrightarrow>
  lifecycle_ok (snd (mark_canceled now b i w g d)) \<and> follows d (snd (mark_canceled now b i w g d))"
  unfolding mark_canceled_def by (rule ok_update_jobs_status) (auto simp: law_defs)

lemma ok_finish_failure: "lifecycle_ok d \<Longrightarrow>
  lifecycle_ok (snd (finish_failure rej c m now b i w g d)) \<and>
  follows d (snd (finish_failure rej c m now b i w g d))"
  unfolding finish_failure_def Let_def by (rule ok_update_jobs_status) (auto simp: law_defs)

lemma ok_expire_claim: "lifecycle_ok d \<Longrightarrow>
  lifecycle_ok (snd (expire_recovery_claim now i w g d)) \<and>
  follows d (snd (expire_recovery_claim now i w g d))"
  unfolding expire_recovery_claim_def by (rule ok_update_jobs) (auto simp: law_defs)

lemma ok_recover_failed: "lifecycle_ok d \<Longrightarrow>
  lifecycle_ok (snd (recover_failed now i w g d)) \<and> follows d (snd (recover_failed now i w g d))"
  unfolding recover_failed_def by (rule ok_update_jobs_status) (auto simp: law_defs)

lemma ok_recover_queued: "lifecycle_ok d \<Longrightarrow>
  lifecycle_ok (snd (recover_queued now i w g d)) \<and> follows d (snd (recover_queued now i w g d))"
  unfolding recover_queued_def by (rule ok_update_jobs_status) (auto simp: law_defs)

lemma ok_admission_reason: "lifecycle_ok d \<Longrightarrow>
  lifecycle_ok (set_admission_reason b ts i m d) \<and> follows d (set_admission_reason b ts i m d)"
  unfolding set_admission_reason_def
  by (cases b; simp only: if_True if_False; rule ok_update_jobs) (auto simp: law_defs)

lemma ok_charge: "lifecycle_ok d \<Longrightarrow> lifecycle_ok (charge i b d) \<and> follows d (charge i b d)"
  unfolding charge_def by (rule ok_update_jobs) (auto simp: law_defs)

lemma snd_claim_expired:
  "snd (claim_expired_lease l ow now until d) = snd (update_jobs
     (\<lambda>j. j_id j = sl_id l \<and> j_status j = sl_status l \<and> j_lease_owner j = Some (sl_lease_owner l) \<and>
          j_lease_expires_at j = Some (sl_lease_expires_at l) \<and>
          j_lease_generation j = sl_lease_generation l \<and> sql_le (j_lease_expires_at j) now)
     (\<lambda>j. j\<lparr>j_lease_owner := Some ow, j_lease_expires_at := Some until, j_heartbeat_at := Some now,
            j_updated_at := now, j_lease_generation := j_lease_generation j + 1\<rparr>) d)"
  by (simp add: claim_expired_lease_def split: prod.splits)

lemma ok_claim_expired: "lifecycle_ok d \<Longrightarrow> sl_status l \<in> {Validating, Running, Canceled} \<Longrightarrow>
  lifecycle_ok (snd (claim_expired_lease l ow now until d)) \<and>
  follows d (snd (claim_expired_lease l ow now until d))"
  unfolding snd_claim_expired by (rule ok_update_jobs) (auto simp: law_defs)

lemma ok_attach:
  "lifecycle_ok d \<Longrightarrow> attach_project_revision i r d = Inr (n, d') \<Longrightarrow>
   lifecycle_ok d' \<and> follows d d'"
  using ok_update_jobs [of d "\<lambda>j. j_id j = i \<and> (j_project_revision_id j = None \<or>
      j_project_revision_id j = Some r)" "\<lambda>j. j\<lparr>j_project_revision_id := Some r\<rparr>"]
  by (auto simp: attach_project_revision_def Let_def law_defs split: if_splits
      dest: arg_cong [where f = snd])

section \<open>Transitions under the callers' arguments\<close>

text \<open>A column list that gives the lease back, as every final transition of the worker does.\<close>

definition releases :: "column_update list \<Rightarrow> bool" where
  "releases us \<longleftrightarrow> SetLeaseOwner None \<in> set us \<and>
     list_all (\<lambda>u. case u of SetLeaseOwner (Some w) \<Rightarrow> False | _ \<Rightarrow> True) us"

text \<open>One that leaves the lease alone.\<close>

definition keeps_owner :: "column_update list \<Rightarrow> bool" where
  "keeps_owner us \<longleftrightarrow> list_all (\<lambda>u. case u of SetLeaseOwner w \<Rightarrow> False
     | SetLeaseExpiresAt e \<Rightarrow> False | _ \<Rightarrow> True) us"

lemma set_columns_Cons: "set_columns (u # us) j = set_columns us (set_column u j)"
  by (simp add: set_columns_def)

lemma releases_owner_aux:
  assumes "list_all (\<lambda>u. case u of SetLeaseOwner (Some w) \<Rightarrow> False | _ \<Rightarrow> True) us"
    and "SetLeaseOwner None \<in> set us \<or> j_lease_owner j = None"
  shows "j_lease_owner (set_columns us j) = None"
  using assms
proof (induction us arbitrary: j)
  case (Cons u us)
  have "SetLeaseOwner None \<in> set us \<or> j_lease_owner (set_column u j) = None"
    using Cons.prems by (cases u) (auto split: option.splits)
  with Cons show ?case by (simp add: set_columns_Cons)
qed (simp add: set_columns_def)

lemma releases_owner: "releases us \<Longrightarrow> j_lease_owner (set_columns us j) = None"
  by (rule releases_owner_aux) (simp_all add: releases_def)

lemma keeps_owner_lease:
  "keeps_owner us \<Longrightarrow> j_lease_owner (set_columns us j) = j_lease_owner j \<and>
   j_lease_expires_at (set_columns us j) = j_lease_expires_at j"
proof (induction us arbitrary: j)
  case (Cons u us)
  then have "j_lease_owner (set_column u j) = j_lease_owner j \<and>
      j_lease_expires_at (set_column u j) = j_lease_expires_at j"
    by (cases u) (auto simp: keeps_owner_def)
  with Cons show ?case by (simp add: set_columns_Cons keeps_owner_def)
qed (simp add: set_columns_def)

lemma identity_status_update: "identity (j\<lparr>j_status := s, j_updated_at := t\<rparr>) = identity j"
  by (simp add: identity_def)

lemma ok_transition_job:
  assumes "lifecycle_ok d" and "transition_job i src dst us now d = Inr (u, d')"
    and "(src = [Reserved] \<and> dst = Uploading \<or> src = [Uploading] \<and> dst = Queued) \<and> keeps_owner us"
  shows "lifecycle_ok d' \<and> follows d d'"
proof -
  let ?p = "\<lambda>j. j_id j = i \<and> j_status j \<in> set src"
  let ?f = "\<lambda>j. set_columns us (j\<lparr>j_status := dst, j_updated_at := now\<rparr>)"
  have nt: "\<not> terminal dst" and ne: "src \<noteq> []" using assms(3) by auto
  have "\<exists>n. update_jobs_status ?p ?f d = (n, d')"
    using assms(2) ne nt by (cases "update_jobs_status ?p ?f d")
      (auto simp: transition_job_def split: if_splits)
  then have d': "d' = snd (update_jobs_status ?p ?f d)" by (metis snd_conv)
  have lease: "j_lease_owner (?f j) = j_lease_owner j \<and>
      j_lease_expires_at (?f j) = j_lease_expires_at j" for j
    using keeps_owner_lease [of us "j\<lparr>j_status := dst, j_updated_at := now\<rparr>"] assms(3) by simp
  show ?thesis
    unfolding d'
  proof (rule ok_update_jobs_status [OF assms(1)])
    show "lawful ?p ?f"
      unfolding lawful_def evolves_def job_ok_def
      using assms(3) lease by (auto simp: identity_status_update)
    show "calm ?p ?f"
      unfolding calm_def occupies_def job_ok_def using assms(3) by auto
  qed
qed

text \<open>The worker's transitions: start, progress, and a final status that releases the lease.\<close>

definition worker_transition :: "job_status list \<Rightarrow> job_status \<Rightarrow> column_update list \<Rightarrow> bool" where
  "worker_transition src dst us \<longleftrightarrow>
     (src = [Validating] \<and> dst = Running \<and> keeps_owner us) \<or>
     (src = [Running] \<and> dst = Running \<and> keeps_owner us) \<or>
     (src = [Validating] \<and> dst = Rejected \<and> releases us) \<or>
     (src = [Running] \<and> dst \<in> {Succeeded, Failed, Timeout, Rejected} \<and> releases us)"

lemma ok_transition_owned:
  assumes "lifecycle_ok d" and "transition_owned i w g src dst now us d = Inr (n, d')"
    and "worker_transition src dst us"
  shows "lifecycle_ok d' \<and> follows d d'"
proof -
  let ?p = "\<lambda>j. holds_lease i w g j \<and> j_status j \<in> set src"
  let ?f = "\<lambda>j. set_columns us (j\<lparr>j_status := dst, j_updated_at := now\<rparr>)"
  have "(n, d') = update_jobs_status ?p ?f d"
    using assms(2) by (simp add: transition_owned_def transition_update_def split: if_splits)
  then have d': "d' = snd (update_jobs_status ?p ?f d)" by (metis snd_conv)
  have lease: "keeps_owner us \<Longrightarrow> j_lease_owner (?f j) = j_lease_owner j \<and>
      j_lease_expires_at (?f j) = j_lease_expires_at j" for j
    using keeps_owner_lease [of us "j\<lparr>j_status := dst, j_updated_at := now\<rparr>"] by simp
  note free = releases_owner [of us]
  show ?thesis
    unfolding d'
  proof (rule ok_update_jobs_status [OF assms(1)])
    show "lawful ?p ?f"
      unfolding lawful_def evolves_def job_ok_def
      using assms(3) lease free
      by (auto simp: worker_transition_def identity_status_update)
    show "calm ?p ?f"
      unfolding calm_def occupies_def job_ok_def
      using assms(3) by (auto simp: worker_transition_def)
  qed
qed

section \<open>Claims, stages and previews\<close>

lemma lawful_claim: "lawful (\<lambda>x. j_id x = i \<and> j_status x = Queued) (claim_update w now until)"
  by (auto simp: law_defs claim_update_def)

lemma ok_claim_next:
  assumes "lifecycle_ok d" and "claim_next w now until before expected d = (r, d')"
  shows "lifecycle_ok d' \<and> follows d d'"
proof -
  from assms(1) have "distinct (map j_id (jobs d))" by (simp add: lifecycle_ok_def)
  from this assms(2) show ?thesis
  proof (cases rule: claim_next_cases)
    case 1
    then show ?thesis using assms(1) by (simp add: followsI_same)
  next
    case (2 j)
    let ?p = "\<lambda>x. j_id x = j_id j \<and> j_status x = Queued"
    let ?f = "claim_update w now until"
    have "lifecycle_ok d'"
      using assms(1) distinct_upd_jobs [OF lawful_claim] lawful_claim [of "j_id j" w now until] 2(1)
      unfolding 2(6) lifecycle_ok_def
      by (auto simp: stages_ok_update_jobs_status' previews_ok_def preview_running_def lawful_def
          set_upd_where)
    moreover have "follows d d'"
      unfolding 2(6) by (rule followsI_update [OF lawful_claim])
        (simp_all add: pdf_kept_update_jobs_status)
    ultimately show ?thesis ..
  qed
qed

lemma ok_stages:
  assumes "lifecycle_ok d" and "jobs d' = jobs d" and "previews d' = previews d"
    and "preview_sequence d' = preview_sequence d" and "stages_ok d'"
    and "distinct (map st_job_id (stages d'))" and "pdf_kept (stages d) (stages d')"
  shows "lifecycle_ok d' \<and> follows d d'"
  using assms by (simp add: lifecycle_ok_def previews_ok_def preview_running_def followsI_same)

lemma update_stages_frame:
  assumes "update_stages p f d = Inr (n, d')" and "\<And>s. st_job_id (f s) = st_job_id s"
  shows "jobs d' = jobs d \<and> previews d' = previews d \<and> preview_sequence d' = preview_sequence d \<and>
    map st_job_id (stages d') = map st_job_id (stages d)"
  using assms by (auto simp: update_stages_def map_upd_where split: if_splits)

lemma ok_stage_initialize:
  assumes "lifecycle_ok d"
  shows "lifecycle_ok (snd (stage_initialize i w g img d)) \<and>
    follows d (snd (stage_initialize i w g img d))"
proof (rule ok_stages [OF assms])
  have find_id: "j_id j = i" if "find (wants_stages i w g) js = Some j" for j js
    using that by (auto simp: find_Some_iff wants_stages_def holds_lease_def)
  show "distinct (map st_job_id (stages (snd (stage_initialize i w g img d))))"
    using assms
    by (auto simp: stage_initialize_def Let_def lifecycle_ok_def new_stage_def row_by_None_iff
        split: option.splits dest!: find_id)
  show "stages_ok (snd (stage_initialize i w g img d))"
    using assms by (simp add: lifecycle_ok_def stages_ok_initialize)
  show "pdf_kept (stages d) (stages (snd (stage_initialize i w g img d)))"
    by (rule pdf_kept_initialize)
qed (auto simp: stage_initialize_def Let_def split: option.splits)

lemma ok_stage_start:
  assumes "lifecycle_ok d" and "stage_start st i w g d = Inr (b, d')"
  shows "lifecycle_ok d' \<and> follows d d'"
proof -
  have "jobs d' = jobs d \<and> previews d' = previews d \<and> preview_sequence d' = preview_sequence d \<and>
      map st_job_id (stages d') = map st_job_id (stages d)"
    using assms(2)
    by (cases st) (auto simp: stage_start_def counted_InrD dest!: update_stages_frame)
  then show ?thesis
    using assms by (intro ok_stages) (auto simp: lifecycle_ok_def stages_ok_start pdf_kept_start
        intro: stages_ok_start)
qed

lemma ok_complete_pdf:
  assumes "lifecycle_ok d" and "complete_pdf i w g x d = Inr (b, d')"
  shows "lifecycle_ok d' \<and> follows d d'"
proof -
  have "jobs d' = jobs d \<and> previews d' = previews d \<and> preview_sequence d' = preview_sequence d \<and>
      map st_job_id (stages d') = map st_job_id (stages d)"
    using assms(2) by (auto simp: complete_pdf_def counted_InrD dest!: update_stages_frame)
  then show ?thesis
    using assms by (intro ok_stages) (auto simp: lifecycle_ok_def pdf_kept_complete_pdf
        intro: stages_ok_complete_pdf)
qed

lemma ok_complete_svg:
  assumes "lifecycle_ok d" and "complete_svg i w g x d = Inr (b, d')"
  shows "lifecycle_ok d' \<and> follows d d'"
proof -
  have "jobs d' = jobs d \<and> previews d' = previews d \<and> preview_sequence d' = preview_sequence d \<and>
      map st_job_id (stages d') = map st_job_id (stages d)"
    using assms(2) by (auto simp: complete_svg_def counted_InrD dest!: update_stages_frame)
  then show ?thesis
    using assms by (intro ok_stages) (auto simp: lifecycle_ok_def pdf_kept_complete_svg
        intro: stages_ok_complete_svg)
qed

lemma ok_requeue_svg:
  assumes "lifecycle_ok d" and "requeue_svg i uid now cutoff bytes d = Inr (b, d')"
  shows "lifecycle_ok d' \<and> follows d d'"
proof -
  let ?p = "\<lambda>j. j_id j = i \<and> j_user_id j = uid \<and> svg_retryable d now cutoff j"
  let ?f = "requeued_job now bytes"
  have laws: "lawful ?p ?f" "calm ?p ?f"
    by (auto simp: law_defs requeued_job_def svg_retryable_def)
  note ok1 = ok_update_jobs_status [OF assms(1) laws]
  show ?thesis
    using assms(2)
  proof (cases rule: requeue_svg_cases)
    case 1
    then show ?thesis using ok1 by simp
  next
    case (2 d1 n)
    have fr: "jobs d' = jobs d1 \<and> previews d' = previews d1 \<and>
        preview_sequence d' = preview_sequence d1 \<and>
        map st_job_id (stages d') = map st_job_id (stages d1)"
      by (rule update_stages_frame [OF 2(4)]) (simp add: requeued_stage_def)
    have kept: "pdf_kept (stages d1) (stages d')"
      by (rule pdf_kept_update_stages [OF 2(4)]) (simp_all add: requeued_stage_def pdf_part_def)
    from ok1 2(2) have "lifecycle_ok d1" "follows d d1" by simp_all
    moreover have "lifecycle_ok d'"
    proof -
      have "stages_ok d'" using assms(1) stages_ok_requeue [OF _ assms(2)]
        by (simp add: lifecycle_ok_def)
      moreover have "distinct (map st_job_id (stages d'))"
        using fr \<open>lifecycle_ok d1\<close> by (simp add: lifecycle_ok_def)
      ultimately show ?thesis using ok_stages [OF \<open>lifecycle_ok d1\<close>, of d'] fr kept by simp
    qed
    moreover have "follows d d'"
      using \<open>follows d d1\<close> pdf_kept_trans [OF _ kept] fr by (simp add: follows_def)
    ultimately show ?thesis by simp
  qed
qed

lemma ok_previews:
  assumes "lifecycle_ok d" and "previews_ok d'" and "jobs d' = jobs d" and "stages d' = stages d"
    and "preview_running d' \<Longrightarrow> preview_running d"
  shows "lifecycle_ok d' \<and> follows d d'"
  using assms by (auto simp: lifecycle_ok_def stages_ok_def followsI_same)

lemma upd_where_running:
  assumes "\<And>p. sel p \<Longrightarrow> pv_status (f p) = PRunning \<Longrightarrow> pv_status p = PRunning"
    and "exists_row (\<lambda>p. pv_status p = PRunning) (upd_where sel f rs)"
  shows "exists_row (\<lambda>p. pv_status p = PRunning) rs"
  using assms by (auto simp: set_upd_where split: if_splits)

lemma ok_request_preview:
  assumes "lifecycle_ok d" and "request_preview i n ts policy d = Inr (u, d')"
  shows "lifecycle_ok d' \<and> follows d d'"
proof (rule ok_previews [OF assms(1)])
  show "previews_ok d'"
    using assms previews_ok_request by (auto simp: lifecycle_ok_def)
  show "preview_running d' \<Longrightarrow> preview_running d" "jobs d' = jobs d" "stages d' = stages d"
    using assms(2)
    by (cases rule: request_preview_cases;
        auto simp: enqueue_def preview_running_def new_preview_def set_upd_where split: if_splits)+
qed

lemma ok_claim_preview:
  assumes "lifecycle_ok d" and "claim_preview w ts d = (r, d')"
  shows "lifecycle_ok d' \<and> follows d d'"
proof -
  have pv: "previews_ok d" "previews_ok d'"
    using assms previews_ok_claim by (auto simp: lifecycle_ok_def)
  show ?thesis
    using pv(1) assms(2)
  proof (cases rule: claim_preview_cases)
    case 1
    then show ?thesis using assms(1) by (simp add: followsI_same)
  next
    case (2 x)
    then have "jobs d' = jobs d" "stages d' = stages d" by simp_all
    moreover have "\<forall>j\<in>set (jobs d). \<not> occupies j" using 2(1) by (simp add: preview_busy_iff)
    ultimately show ?thesis
      using assms(1) pv(2) by (simp add: lifecycle_ok_def stages_ok_def followsI_same)
  qed
qed

lemma ok_preview_others:
  assumes "lifecycle_ok d"
  shows "lifecycle_ok (snd (reserve_preview r w b m d)) \<and> follows d (snd (reserve_preview r w b m d))"
    and "lifecycle_ok (snd (claim_preview_recovery r w ts d)) \<and>
      follows d (snd (claim_preview_recovery r w ts d))"
    and "lifecycle_ok (snd (finish_preview r w ts err d)) \<and>
      follows d (snd (finish_preview r w ts err d))"
proof -
  from assms have pv: "previews_ok d" by (simp add: lifecycle_ok_def)
  show "lifecycle_ok (snd (reserve_preview r w b m d)) \<and> follows d (snd (reserve_preview r w b m d))"
    by (rule ok_previews [OF assms previews_ok_others(1) [OF pv]])
      (auto simp: reserve_preview_def Let_def preview_running_def set_upd_where preview_fence_def
        split: option.splits if_splits)
  show "lifecycle_ok (snd (claim_preview_recovery r w ts d)) \<and>
      follows d (snd (claim_preview_recovery r w ts d))"
    by (rule ok_previews [OF assms previews_ok_others(2) [OF pv]])
      (auto simp: claim_preview_recovery_def Let_def preview_running_def set_upd_where
        split: if_splits)
  show "lifecycle_ok (snd (finish_preview r w ts err d)) \<and>
      follows d (snd (finish_preview r w ts err d))"
    by (rule ok_previews [OF assms previews_ok_others(3) [OF pv]])
      (auto simp: finish_preview_def Let_def preview_running_def set_upd_where preview_fence_def
        split: if_splits)
qed

section \<open>The step relation\<close>

inductive step :: "db \<Rightarrow> db \<Rightarrow> bool" where
  insert_reserved: "insert_reserved x d = Inr (u, d') \<Longrightarrow> step d d'"
| insert_queued: "insert_queued y d = Inr (n, d') \<Longrightarrow> step d d'"
| insert_retry: "insert_retry i src ver ts b d = Inr (u, d') \<Longrightarrow> step d d'"
| cancel: "step d (snd (cancel i ts d))"
| restore: "step d (restore_reserved i ts d)"
| mark_deleting: "step d (snd (mark_deleting i ts d))"
| attach: "attach_project_revision i r d = Inr (n, d') \<Longrightarrow> step d d'"
| upload_starts: "keeps_owner us \<Longrightarrow>
    transition_job i [Reserved] Uploading us now d = Inr (u, d') \<Longrightarrow> step d d'"
| upload_done: "keeps_owner us \<Longrightarrow>
    transition_job i [Uploading] Queued us now d = Inr (u, d') \<Longrightarrow> step d d'"
| claim: "claim_next w now until before expected d = (c, d') \<Longrightarrow> step d d'"
| admission: "step d (set_admission_reason b ts k m d)"
| heartbeat: "step d (snd (heartbeat now until i w g d))"
| mark_canceled: "step d (snd (mark_canceled now ob i w g d))"
| finish_failure: "step d (snd (finish_failure rej code m now b i w g d))"
| transition: "worker_transition src dst us \<Longrightarrow>
    transition_owned i w g src dst now us d = Inr (n, d') \<Longrightarrow> step d d'"
| claim_expired: "sl_status l \<in> {Validating, Running, Canceled} \<Longrightarrow>
    step d (snd (claim_expired_lease l ow now until d))"
| expire_claim: "step d (snd (expire_recovery_claim now i w g d))"
| recover_failed: "step d (snd (recover_failed now i w g d))"
| recover_queued: "step d (snd (recover_queued now i w g d))"
| stage_init: "step d (snd (stage_initialize i w g img d))"
| stage_start: "stage_start st i w g d = Inr (ok, d') \<Longrightarrow> step d d'"
| complete_pdf: "complete_pdf i w g pr d = Inr (ok, d') \<Longrightarrow> step d d'"
| complete_svg: "complete_svg i w g sr d = Inr (ok, d') \<Longrightarrow> step d d'"
| requeue_svg: "requeue_svg i uid now cutoff b d = Inr (ok, d') \<Longrightarrow> step d d'"
| request_preview: "request_preview i n ts policy d = Inr (u, d') \<Longrightarrow> step d d'"
| claim_preview: "claim_preview w ts d = (pv, d') \<Longrightarrow> step d d'"
| reserve_preview: "step d (snd (reserve_preview p w b m d))"
| recover_preview: "step d (snd (claim_preview_recovery p w ts d))"
| finish_preview: "step d (snd (finish_preview p w ts err d))"
| charge: "step d (charge i b d)"
| frame: "jobs d' = jobs d \<Longrightarrow> stages d' = stages d \<Longrightarrow> previews d' = previews d \<Longrightarrow>
    preview_sequence d' = preview_sequence d \<Longrightarrow> step d d'"

inductive reachable :: "db \<Rightarrow> bool" where
  start: "reachable empty_db"
| next_state: "reachable d \<Longrightarrow> step d d' \<Longrightarrow> reachable d'"

inductive_simps reachable_empty [simp]: "reachable empty_db"
inductive_cases reachableE: "reachable d"

lemma ok_insert_reserved:
  "lifecycle_ok d \<Longrightarrow> insert_reserved x d = Inr (u, d') \<Longrightarrow> lifecycle_ok d' \<and> follows d d'"
  unfolding insert_reserved_def by (erule ok_insert, assumption) simp_all

lemma ok_insert_retry:
  "lifecycle_ok d \<Longrightarrow> insert_retry i src ver ts b d = Inr (u, d') \<Longrightarrow>
   lifecycle_ok d' \<and> follows d d'"
  unfolding insert_retry_def by (erule ok_insert, assumption) simp_all

lemma ok_insert_queued:
  assumes "lifecycle_ok d" and "insert_queued x d = Inr (n, d')"
  shows "lifecycle_ok d' \<and> follows d d'"
  using assms(2)
proof (cases rule: insert_queued_cases)
  case 1
  then show ?thesis using assms(1) by (simp add: followsI_same)
next
  case (2 s)
  then have "insert_job (queued_row x s) d = Inr ((), d')" by (simp add: insert_job_def)
  from ok_insert [OF assms(1) this] show ?thesis by simp
qed

lemma ok_frame:
  "lifecycle_ok d \<Longrightarrow> jobs d' = jobs d \<Longrightarrow> stages d' = stages d \<Longrightarrow> previews d' = previews d \<Longrightarrow>
   preview_sequence d' = preview_sequence d \<Longrightarrow> lifecycle_ok d' \<and> follows d d'"
  by (simp add: lifecycle_ok_def stages_ok_def previews_ok_def preview_running_def followsI_same)

lemmas ok_statements = ok_insert_reserved ok_insert_queued ok_insert_retry ok_cancel ok_restore
  ok_mark_deleting ok_attach ok_claim_next ok_admission_reason ok_heartbeat ok_mark_canceled
  ok_finish_failure ok_transition_owned ok_claim_expired ok_expire_claim ok_recover_failed
  ok_recover_queued ok_stage_initialize ok_stage_start ok_complete_pdf ok_complete_svg
  ok_requeue_svg ok_request_preview ok_claim_preview ok_preview_others ok_charge

lemma step_ok: "step d d' \<Longrightarrow> lifecycle_ok d \<Longrightarrow> lifecycle_ok d' \<and> follows d d'"
proof (induction rule: step.induct)
  case (upload_starts us i now d u d')
  from ok_transition_job [OF upload_starts(3,2)] upload_starts(1) show ?case by simp
next
  case (upload_done us i now d u d')
  from ok_transition_job [OF upload_done(3,2)] upload_done(1) show ?case by simp
next
  case (frame d' d)
  from ok_frame [OF frame(5,1-4)] show ?case .
qed (rule ok_statements; assumption)+

lemma lifecycle_ok_empty: "lifecycle_ok empty_db"
  by (simp add: lifecycle_ok_def empty_db_def stages_ok_def previews_ok_def preview_running_def)

lemma reachable_ok: "reachable d \<Longrightarrow> lifecycle_ok d"
  by (induction rule: reachable.induct) (auto simp: lifecycle_ok_empty dest: step_ok)

section \<open>Runs\<close>

text \<open>What stays true from one state to any later one.\<close>

definition generation_kept :: "db \<Rightarrow> db \<Rightarrow> bool" where
  "generation_kept d d' \<longleftrightarrow> (\<forall>i j. job_of d i = Some j \<longrightarrow> (\<exists>j'. job_of d' i = Some j' \<and>
     identity j' = identity j \<and> j_lease_generation j \<le> j_lease_generation j'))"

lemma generation_kept_trans:
  "generation_kept a b \<Longrightarrow> generation_kept b c \<Longrightarrow> generation_kept a c"
  unfolding generation_kept_def by (metis order_trans)

lemma follows_generation_kept: "follows d d' \<Longrightarrow> generation_kept d d'"
  unfolding follows_def generation_kept_def evolves_def by blast

lemma run_ok:
  "step\<^sup>*\<^sup>* d d' \<Longrightarrow> lifecycle_ok d \<Longrightarrow> lifecycle_ok d' \<and> generation_kept d d' \<and>
   pdf_kept (stages d) (stages d')"
proof (induction rule: rtranclp_induct)
  case base
  then show ?case by (simp add: generation_kept_def)
next
  case (step e f)
  then have e: "lifecycle_ok e" "generation_kept d e" "pdf_kept (stages d) (stages e)" by simp_all
  from step_ok [OF step.hyps(2) e(1)] have f: "lifecycle_ok f" "follows e f" by simp_all
  from f(2) have "generation_kept e f" "pdf_kept (stages e) (stages f)"
    by (simp_all add: follows_generation_kept) (simp add: follows_def)
  with e f(1) show ?case by (blast intro: generation_kept_trans pdf_kept_trans)
qed

text \<open>The statuses no statement leaves, or only towards deletion.\<close>

lemma follows_status:
  "follows d d' \<Longrightarrow> job_of d i = Some j \<Longrightarrow>
   \<exists>j'. job_of d' i = Some j' \<and> (j_status j' = j_status j \<or> j_status j' \<in> set (next_statuses (j_status j)))"
  unfolding follows_def evolves_def by blast

definition settled :: "job_status \<Rightarrow> bool" where
  "settled s \<longleftrightarrow> s \<in> {Succeeded, Rejected, Deleting, Deleted, Expired}"

lemma settled_run:
  assumes "step\<^sup>*\<^sup>* d d'" and "lifecycle_ok d" and "job_of d i = Some j" and "settled (j_status j)"
  shows "\<exists>j'. job_of d' i = Some j' \<and> j_status j' \<in> {j_status j, Deleting}"
  using assms
proof (induction rule: rtranclp_induct)
  case base
  then show ?case by simp
next
  case (step e f)
  then obtain k where k: "job_of e i = Some k" "j_status k \<in> {j_status j, Deleting}" by blast
  have e: "lifecycle_ok e" using run_ok [OF step.hyps(1)] step.prems(1) by simp
  obtain l where l: "job_of f i = Some l"
      "j_status l = j_status k \<or> j_status l \<in> set (next_statuses (j_status k))"
    using follows_status [OF conjunct2 [OF step_ok [OF step.hyps(2) e]] k(1)] by blast
  with k(2) step.prems(3) show ?case
    by (cases "j_status j") (auto simp: settled_def)
qed

end
