(* ===== verification/Scenarios.thy ===== *)
theory Scenarios
  imports Lifecycle
begin

text \<open>
  Concrete states of the control plane, reached from an empty database by the modelled
  statements: one user with a service account, a key and a ready source; a queued job; the job
  claimed by a worker, running, and canceled or recovered. The witnesses of the properties
  evaluate on them.
\<close>

definition sha :: string where "sha = replicate 64 CHR ''a''"
definition jid :: string where "jid = ''job_'' @ replicate 32 CHR ''1''"
definition sid :: string where "sid = ''source_'' @ replicate 32 CHR ''2''"

definition the_user :: user_row where
  "the_user = \<lparr>u_id = ''u'', u_access_subject = None, u_access_subject_linked_at = None,
     u_access_subject_generation = 0, u_email = Some ''u@x'', u_display_name = ''U'', u_role = User,
     u_status = Active, u_security_version = 1, u_created_by = ''s'', u_created_at = 0,
     u_updated_at = 0, u_last_login_at = None\<rparr>"

definition the_account :: account_row where
  "the_account = \<lparr>a_id = ''a'', a_owner_user_id = ''u'', a_name = ''A'', a_client_type = Ci,
     a_status = Active, a_security_version = 1, a_created_at = 0, a_updated_at = 0,
     a_purpose = UserPurpose\<rparr>"

definition the_key :: key_row where
  "the_key = \<lparr>k_id = ''k'', k_service_account_id = ''a'', k_name = ''K'', k_prefix = ''p'',
     k_kind = RenderKey, k_secret_hash = ''h'', k_pepper_id = ''q'',
     k_scopes = Some (JArr [JStr ''render:create'']), k_expires_at = None, k_last_used_at = None,
     k_revoked_at = None, k_created_at = 0, k_created_by = ''u''\<rparr>"

definition the_source :: source_row where
  "the_source = \<lparr>s_id = sid, s_owner_user_id = ''u'', s_size = 100, s_sha256 = sha,
     s_storage_key = ''sources/x'', s_status = SReady, s_created_at = 0, s_updated_at = 0,
     s_expires_at = 5000, s_uploaded_at = Some 0, s_paths = None, s_dedupe_eligible = True,
     s_deleted_at = None, s_received = 100, s_lease_owner = None, s_lease_expires_at = None,
     s_purpose = UserPurpose, s_deletion_status = Retained, s_deletion_attempts = 0,
     s_deletion_error = None, s_deletion_next_attempt_at = None\<rparr>"

definition demo_base :: db where
  "demo_base = empty_db\<lparr>users := [the_user], accounts := [the_account], api_keys := [the_key],
     sources := [the_source]\<rparr>"

definition the_request :: queued_input where
  "the_request = \<lparr>qi_id = jid, qi_user_id = ''u'', qi_service_account_id = ''a'',
     qi_api_key_id = ''k'', qi_renderer_version = ''v1'', qi_source_id = sid,
     qi_entrypoint = ''main.tex'', qi_timestamp = 10, qi_retry_of_job_id = None,
     qi_project_revision_id = None, qi_outputs = Some [Pdf, Svg], qi_reserved_output_bytes = 1000\<rparr>"

definition after :: "('a \<times> db) result \<Rightarrow> db" where
  "after r = (case r of Inl _ \<Rightarrow> empty_db | Inr (_, d) \<Rightarrow> d)"

lemma after_Inr: "\<not> isl r \<Longrightarrow> r = Inr (fst (projr r), after r)"
  by (cases r) (simp_all add: after_def split: prod.splits)

definition demo_queued :: db where
  "demo_queued = after (insert_queued the_request demo_base)"

definition demo_claimed :: db where
  "demo_claimed = snd (claim_next ''w1'' 20 50 None None demo_queued)"

definition demo_running :: db where
  "demo_running = after (transition_owned jid ''w1'' 1 [Validating] Running 21 [SetStartedAt (Some 21)]
     demo_claimed)"

text \<open>Canceled while it validates: the lease stays with the worker.\<close>

definition demo_canceled :: db where
  "demo_canceled = snd (cancel jid 25 demo_claimed)"

text \<open>The worker is lost; another takes the expired lease over and requeues, and a third claims.\<close>

definition the_stale :: stale_lease where
  "the_stale = \<lparr>sl_id = jid, sl_status = Validating, sl_lease_owner = ''w1'',
     sl_lease_expires_at = 50, sl_lease_generation = 1\<rparr>"

definition demo_taken :: db where
  "demo_taken = snd (claim_expired_lease the_stale ''w2:recovery:x'' 60 90 demo_claimed)"

lemma reach_base: "reachable demo_base"
  by (rule next_state [OF start frame]) (simp_all add: demo_base_def empty_db_def)

lemma reach_queued: "reachable demo_queued"
proof -
  have "\<not> isl (insert_queued the_request demo_base)" by code_simp
  from after_Inr [OF this] show ?thesis
    unfolding demo_queued_def by (rule next_state [OF reach_base insert_queued])
qed

lemma reach_claimed: "reachable demo_claimed"
  unfolding demo_claimed_def by (rule next_state [OF reach_queued claim]) (rule prod.collapse [symmetric])

lemma reach_running: "reachable demo_running"
proof -
  let ?us = "[SetStartedAt (Some 21)]"
  have t: "worker_transition [Validating] Running ?us"
    by (simp add: worker_transition_def keeps_owner_def)
  have "\<not> isl (transition_owned jid ''w1'' 1 [Validating] Running 21 ?us demo_claimed)"
    by (simp add: transition_owned_def)
  from after_Inr [OF this] show ?thesis
    unfolding demo_running_def by (rule next_state [OF reach_claimed transition [OF t]])
qed

lemma reach_canceled: "reachable demo_canceled"
  unfolding demo_canceled_def by (rule next_state [OF reach_claimed step.cancel])

lemma reach_taken: "reachable demo_taken"
  unfolding demo_taken_def
  by (rule next_state [OF reach_claimed claim_expired]) (simp add: the_stale_def)

lemma demo_statuses:
  "map j_status (jobs demo_queued) = [Queued]"
  "map j_status (jobs demo_claimed) = [Validating]"
  "map j_status (jobs demo_running) = [Running]"
  "map j_status (jobs demo_canceled) = [Canceled]"
  "map j_lease_generation (jobs demo_taken) = [2]"
  by code_simp+

section \<open>A staged render\<close>

text \<open>PDF published, SVG failed, the job failed with it, and the SVG stage queued again.\<close>

lemma reach_after:
  assumes "reachable d" and "\<not> isl r" and "\<And>u d'. r = Inr (u, d') \<Longrightarrow> step d d'"
  shows "reachable (after r)"
  by (rule next_state [OF assms(1)]) (rule assms(3) [OF after_Inr [OF assms(2)]])

definition the_pdf :: pdf_result where
  "the_pdf = \<lparr>pr_generation = 2, pr_sha256 = sha, pr_synctex_sha256 = sha, pr_synctex_bytes = 7,
     pr_completed_at = 30\<rparr>"

definition the_svg_failure :: svg_result where
  "the_svg_failure = \<lparr>sr_generation = 3, sr_outcome = SvgFailed, sr_error_code = Some ''SVG'',
     sr_error_message = None, sr_completed_at = 40\<rparr>"

definition the_artifact :: artifact_row where
  "the_artifact = \<lparr>ar_id = ''art'', ar_job_id = jid, ar_type = APdf,
     ar_relative_path = ''result.pdf'', ar_size = 50, ar_sha256 = sha, ar_created_at = 30,
     ar_storage_generation = Some 2\<rparr>"

definition final_columns :: "job_status \<Rightarrow> timestamp \<Rightarrow> column_update list" where
  "final_columns s t = [SetRenderStatus (Some s), SetCompletedAt (Some t), SetOutputSize (Some 50),
     SetExitCode (Some 0), SetErrorCode None, SetErrorMessage None, SetLeaseOwner None,
     SetLeaseExpiresAt None, SetHeartbeatAt (Some t)]"

definition demo_staged :: db where
  "demo_staged = snd (stage_initialize jid ''w1'' 1 ''img'' demo_running)"

definition demo_pdf_started :: db where
  "demo_pdf_started = after (stage_start Pdf jid ''w1'' 1 demo_staged)"

definition demo_pdf :: db where
  "demo_pdf = after (complete_pdf jid ''w1'' 1 the_pdf demo_pdf_started)"

definition demo_published :: db where
  "demo_published = after (publish_stage the_artifact demo_pdf)"

definition demo_svg_started :: db where
  "demo_svg_started = after (stage_start Svg jid ''w1'' 1 demo_published)"

definition demo_svg_failed :: db where
  "demo_svg_failed = after (complete_svg jid ''w1'' 1 the_svg_failure demo_svg_started)"

definition demo_failed :: db where
  "demo_failed = after (transition_owned jid ''w1'' 1 [Running] Failed 41 (final_columns Failed 41)
     demo_svg_failed)"

definition demo_retry :: db where
  "demo_retry = after (requeue_svg jid ''u'' 60 20 800 demo_failed)"

definition demo_succeeded :: db where
  "demo_succeeded = after (transition_owned jid ''w1'' 1 [Running] Succeeded 41
     (final_columns Succeeded 41) demo_running)"

definition demo_deleting :: db where
  "demo_deleting = snd (mark_deleting jid 50 demo_succeeded)"

lemma releases_final [simp]: "releases (final_columns s t)" "list_all worker_column (final_columns s t)"
  by (simp_all add: releases_def final_columns_def)

lemma reach_staged: "reachable demo_staged"
  unfolding demo_staged_def by (rule next_state [OF reach_running stage_init])

lemma reach_pdf_started: "reachable demo_pdf_started"
  unfolding demo_pdf_started_def by (rule reach_after [OF reach_staged]) (code_simp, rule stage_start)

lemma reach_pdf: "reachable demo_pdf"
  unfolding demo_pdf_def by (rule reach_after [OF reach_pdf_started]) (code_simp, rule complete_pdf)

lemma reach_published: "reachable demo_published"
  unfolding demo_published_def
proof (rule reach_after [OF reach_pdf])
  fix u d' assume "publish_stage the_artifact demo_pdf = Inr (u, d')"
  then show "step demo_pdf d'"
    by (intro frame) (auto simp: publish_stage_def artifact_insert_def split: if_splits)
qed code_simp

lemma reach_svg_started: "reachable demo_svg_started"
  unfolding demo_svg_started_def by (rule reach_after [OF reach_published]) (code_simp, rule stage_start)

lemma reach_svg_failed: "reachable demo_svg_failed"
  unfolding demo_svg_failed_def
  by (rule reach_after [OF reach_svg_started]) (code_simp, rule complete_svg)

lemma reach_failed: "reachable demo_failed"
  unfolding demo_failed_def
  by (rule reach_after [OF reach_svg_failed])
    (simp add: transition_owned_def final_columns_def,
     rule transition [of "[Running]" Failed "final_columns Failed 41"],
     simp add: worker_transition_def)

lemma step_retry: "step demo_failed demo_retry"
proof -
  have "\<not> isl (requeue_svg jid ''u'' 60 20 800 demo_failed)" by code_simp
  from after_Inr [OF this] show ?thesis unfolding demo_retry_def by (rule requeue_svg)
qed

lemma reach_retry: "reachable demo_retry"
  by (rule next_state [OF reach_failed step_retry])

lemma reach_succeeded: "reachable demo_succeeded"
  unfolding demo_succeeded_def
  by (rule reach_after [OF reach_running])
    (simp add: transition_owned_def final_columns_def,
     rule transition [of "[Running]" Succeeded "final_columns Succeeded 41"],
     simp add: worker_transition_def)

lemma step_deleting: "step demo_succeeded demo_deleting"
  unfolding demo_deleting_def by (rule step.mark_deleting)

lemma staged_statuses:
  "map (\<lambda>s. (st_pdf_status s, st_svg_status s)) (stages demo_failed) = [(StSucceeded, StFailed)]"
  "map (\<lambda>s. (st_pdf_status s, st_svg_status s, st_svg_attempt s)) (stages demo_retry) =
     [(StSucceeded, StQueued, 2)]"
  "map j_status (jobs demo_retry) = [Queued]"
  "map j_status (jobs demo_deleting) = [Deleting]"
  by code_simp+

section \<open>A page preview\<close>

definition the_document :: document_row where
  "the_document = \<lparr>d_job_id = jid, d_pdf_artifact_id = ''art'', d_pdf_sha256 = sha,
     d_page_count = 3, d_runtime_image = ''img'', d_created_at = 42\<rparr>"

definition the_policy :: availability where
  "the_policy = \<lparr>av_retention_hours = 24, av_now = 45\<rparr>"

definition demo_document :: db where
  "demo_document = demo_succeeded\<lparr>artifacts := [the_artifact], documents := [the_document]\<rparr>"

definition demo_requested :: db where
  "demo_requested = after (request_preview jid 2 45 the_policy demo_document)"

definition demo_previewing :: db where
  "demo_previewing = snd (claim_preview ''w1'' 46 demo_requested)"

lemma reach_document: "reachable demo_document"
  by (rule next_state [OF reach_succeeded frame]) (simp_all add: demo_document_def)

lemma reach_requested: "reachable demo_requested"
  unfolding demo_requested_def
  by (rule reach_after [OF reach_document]) (code_simp, rule request_preview)

lemma reach_previewing: "reachable demo_previewing"
  unfolding demo_previewing_def
  by (rule next_state [OF reach_requested claim_preview]) (rule prod.collapse [symmetric])

end
