(* ===== verification/Sources.thy ===== *)
theory Sources
  imports Nonces
begin

text \<open>
  \<open>SourcesRepository\<close> (repositories/sources.ts): lookups of ready and retained sources, the admin
  page, deletion guarded by references, reservation, and the chunked upload under a lease with a
  compare-and-set offset. The locale \<open>offset_upload\<close> is the contract of that upload.
\<close>

section \<open>Lookups\<close>

definition source_get :: "db \<Rightarrow> string \<Rightarrow> source_row option" where
  "source_get d i = source_of d i"

definition source_get_visible :: "db \<Rightarrow> string \<Rightarrow> source_row option" where
  "source_get_visible d i = find (\<lambda>s. s_id s = i \<and> s_purpose s = UserPurpose) (sources d)"

text \<open>\<open>COALESCE((SELECT purpose FROM service_accounts WHERE id=?),'user')\<close>.\<close>

definition account_purpose :: "db \<Rightarrow> string \<Rightarrow> purpose" where
  "account_purpose d a = (case row_by a_id a (accounts d) of
     None \<Rightarrow> UserPurpose | Some r \<Rightarrow> a_purpose r)"

definition source_get_owned :: "db \<Rightarrow> string \<Rightarrow> string \<Rightarrow> string \<Rightarrow> source_row option" where
  "source_get_owned d i uid acc = find (\<lambda>s. s_id s = i \<and> s_owner_user_id s = uid \<and>
     s_purpose s = account_purpose d acc \<and> s_status s \<notin> {SDeleted, SExpired}) (sources d)"

definition source_get_owned_ready ::
  "db \<Rightarrow> string \<Rightarrow> string \<Rightarrow> timestamp \<Rightarrow> string \<Rightarrow> source_row option" where
  "source_get_owned_ready d i uid ts acc = find (\<lambda>s. s_id s = i \<and> s_owner_user_id s = uid \<and>
     s_purpose s = account_purpose d acc \<and> ready_source d ts s) (sources d)"

definition source_get_ready :: "db \<Rightarrow> string \<Rightarrow> timestamp \<Rightarrow> source_row option" where
  "source_get_ready d i ts =
     find (\<lambda>s. s_id s = i \<and> s_purpose s = UserPurpose \<and> ready_source d ts s) (sources d)"

definition is_project_retained :: "db \<Rightarrow> string \<Rightarrow> bool" where
  "is_project_retained d i \<longleftrightarrow> exists_row (\<lambda>s. s_id s = i \<and>
     exists_row (revision_references d True s) (revisions d)) (sources d)"

definition is_retained :: "db \<Rightarrow> string \<Rightarrow> bool" where
  "is_retained d i \<longleftrightarrow>
     exists_row (\<lambda>s. s_id s = i \<and> source_reference_count d True s > 0) (sources d)"

definition source_list :: "db \<Rightarrow> nat \<Rightarrow> source_row list" where
  "source_list d limit =
     take limit (order_desc s_created_at (filter (\<lambda>s. s_status s \<noteq> SDeleted) (sources d)))"

definition find_ready ::
  "db \<Rightarrow> string \<Rightarrow> string \<Rightarrow> nat \<Rightarrow> timestamp \<Rightarrow> string \<Rightarrow> source_row option" where
  "find_ready d uid sha bytes now acc =
     (case order_desc s_created_at (filter (\<lambda>s. s_owner_user_id s = uid \<and> s_sha256 s = sha \<and>
         s_size s = bytes \<and> s_dedupe_eligible s \<and> s_purpose s = account_purpose d acc \<and>
         ready_source d now s) (sources d)) of
        [] \<Rightarrow> None | s # _ \<Rightarrow> Some s)"

definition reference_count :: "db \<Rightarrow> string \<Rightarrow> nat" where
  "reference_count d i =
     changes (\<lambda>j. j_source_id j = Some i \<and> j_status j \<noteq> Deleted) (jobs d) +
     changes (\<lambda>r. r_source_id r = i \<and> (case project_of d (r_project_id r) of
        None \<Rightarrow> False | Some p \<Rightarrow> p_deleted_at p = None)) (revisions d)"

definition blocking_reference_count :: "db \<Rightarrow> string \<Rightarrow> nat" where
  "blocking_reference_count d i =
     (case source_of d i of None \<Rightarrow> 0 | Some s \<Rightarrow> source_reference_count d False s)"

definition source_storage_usage :: "db \<Rightarrow> string \<Rightarrow> nat" where
  "source_storage_usage d uid =
     sum_rows s_size (filter (\<lambda>s. s_owner_user_id s = uid \<and> s_status s \<noteq> SDeleted) (sources d))"

text \<open>\<open>JSON.parse\<close> of a broken text throws; a value that is no string array counts as no paths.\<close>

definition source_paths :: "source_row \<Rightarrow> string list result" where
  "source_paths s = (case s_paths s of
       None \<Rightarrow> Inr []
     | Some None \<Rightarrow> Inl PlainError
     | Some (Some v) \<Rightarrow> Inr (coalesce (string_array v) []))"

section \<open>The admin page\<close>

record source_list_row =
  sl_source :: source_row
  sl_job_count :: nat
  sl_blocking :: nat
  sl_latest_job :: "(string \<times> job_status \<times> timestamp) option"

fun source_status_name :: "source_status \<Rightarrow> string" where
  "source_status_name SReserved = ''reserved''"
| "source_status_name SUploading = ''uploading''"
| "source_status_name SReady = ''ready''"
| "source_status_name SDeleting = ''deleting''"
| "source_status_name SDeleted = ''deleted''"
| "source_status_name SExpired = ''expired''"

definition visible_source_jobs :: "db \<Rightarrow> source_row \<Rightarrow> job_row list" where
  "visible_source_jobs d s = filter (\<lambda>j. j_source_id j = Some (s_id s) \<and> user_job d j \<and>
     j_deleted_at j = None) (jobs d)"

definition source_listed :: "db \<Rightarrow> source_row \<Rightarrow> source_list_row" where
  "source_listed d s = \<lparr>sl_source = s, sl_job_count = length (visible_source_jobs d s),
     sl_blocking = source_reference_count d False s,
     sl_latest_job = (case order_desc job_key (visible_source_jobs d s) of
        [] \<Rightarrow> None | j # _ \<Rightarrow> Some (j_id j, j_status j, j_created_at j))\<rparr>"

definition source_match :: "string option \<Rightarrow> string option \<Rightarrow> source_row \<Rightarrow> bool" where
  "source_match query status s \<longleftrightarrow>
     s_status s \<noteq> SDeleted \<and> s_purpose s = UserPurpose \<and>
     (case status of None \<Rightarrow> True | Some t \<Rightarrow> t = [] \<or> source_status_name (s_status s) = t) \<and>
     (case query of None \<Rightarrow> True
      | Some q0 \<Rightarrow> (let q = lower (trim q0) in q = [] \<or> instr (lower (s_id s)) q \<or>
          instr (lower (s_owner_user_id s)) q \<or> instr (lower (s_sha256 s)) q))"

definition listed_key :: "source_list_row \<Rightarrow> timestamp \<times> string" where
  "listed_key r = (s_created_at (sl_source r), s_id (sl_source r))"

definition source_list_page :: "string option \<Rightarrow> string option \<Rightarrow> db \<Rightarrow> job_cursor \<Rightarrow> nat \<Rightarrow>
  (source_list_row, timestamp \<times> string) page" where
  "source_list_page query status d c limit =
     cut_page listed_key limit (take (limit + 1) (order_desc listed_key
       (filter (before_cursor listed_key c)
         (map (source_listed d) (filter (source_match query status) (sources d))))))"

definition source_list_total :: "string option \<Rightarrow> string option \<Rightarrow> db \<Rightarrow> nat" where
  "source_list_total query status d = changes (source_match query status) (sources d)"

interpretation source_listing: paged_listing "source_list_page query status"
  "\<lambda>d. map (source_listed d) (filter (source_match query status) (sources d))" listed_key
  for query status
  by unfold_locales (simp add: source_list_page_def keyset_page_def)

section \<open>Statements that change sources\<close>

definition update_sources :: "(source_row \<Rightarrow> bool) \<Rightarrow> (source_row \<Rightarrow> source_row) \<Rightarrow> db \<Rightarrow> nat \<times> db" where
  "update_sources p f d = (changes p (sources d), d\<lparr>sources := upd_where p f (sources d)\<rparr>)"

definition source_mark_deleting :: "string \<Rightarrow> timestamp \<Rightarrow> db \<Rightarrow> nat \<times> db" where
  "source_mark_deleting i ts d =
     update_sources (\<lambda>s. s_id s = i \<and> s_status s \<in> {SReady, SExpired} \<and>
         source_reference_count d False s = 0)
       (\<lambda>s. s\<lparr>s_status := SDeleting, s_deletion_status := DelPending, s_deletion_attempts := 0,
              s_deletion_error := None, s_deletion_next_attempt_at := None, s_updated_at := ts\<rparr>) d"

record source_input =
  si_id :: string
  si_owner_user_id :: string
  si_size :: nat
  si_sha256 :: string
  si_storage_key :: string
  si_timestamp :: timestamp
  si_expires_at :: timestamp
  si_dedupe_eligible :: "bool option"
  si_service_account_id :: "string option"

definition reserved_source :: "db \<Rightarrow> source_input \<Rightarrow> source_row" where
  "reserved_source d x = \<lparr>s_id = si_id x, s_owner_user_id = si_owner_user_id x,
     s_size = si_size x, s_sha256 = si_sha256 x, s_storage_key = si_storage_key x,
     s_status = SReserved, s_created_at = si_timestamp x, s_updated_at = si_timestamp x,
     s_expires_at = si_expires_at x, s_uploaded_at = None, s_paths = None,
     s_dedupe_eligible = (si_dedupe_eligible x \<noteq> Some False), s_deleted_at = None, s_received = 0,
     s_lease_owner = None, s_lease_expires_at = None,
     s_purpose = account_purpose d (coalesce (si_service_account_id x) []),
     s_deletion_status = Retained, s_deletion_attempts = 0, s_deletion_error = None,
     s_deletion_next_attempt_at = None\<rparr>"

definition source_insert_reserved :: "source_input \<Rightarrow> unit tx" where
  "source_insert_reserved x d =
     (if source_of d (si_id x) = None \<and> fk u_id (si_owner_user_id x) (users d) \<and>
         length (si_sha256 x) = 64 \<and>
         \<not> exists_row (\<lambda>s. s_storage_key s = si_storage_key x) (sources d)
      then Inr ((), d\<lparr>sources := sources d @ [reserved_source d x]\<rparr>)
      else Inl ConstraintError)"

datatype source_update = SetUploadedAt "timestamp option" | SetSourceExpiresAt timestamp
  | SetPaths "json_text option"

fun set_source_column :: "source_update \<Rightarrow> source_row \<Rightarrow> source_row" where
  "set_source_column (SetUploadedAt v) s = s\<lparr>s_uploaded_at := v\<rparr>"
| "set_source_column (SetSourceExpiresAt v) s = s\<lparr>s_expires_at := v\<rparr>"
| "set_source_column (SetPaths v) s = s\<lparr>s_paths := v\<rparr>"

definition source_transition ::
  "string \<Rightarrow> source_status list \<Rightarrow> source_status \<Rightarrow> timestamp \<Rightarrow> source_update list \<Rightarrow> unit tx" where
  "source_transition i src dst ts us d =
     (case update_sources (\<lambda>s. s_id s = i \<and> s_status s \<in> set src)
         (\<lambda>s. fold set_source_column us (s\<lparr>s_status := dst, s_updated_at := ts\<rparr>)) d of
        (n, d') \<Rightarrow> if n \<noteq> 1 then Inl PlainError else Inr ((), d'))"

definition source_transition_before_expiry ::
  "string \<Rightarrow> source_status list \<Rightarrow> source_status \<Rightarrow> timestamp \<Rightarrow> source_update list \<Rightarrow> unit tx" where
  "source_transition_before_expiry i src dst ts us d =
     (case update_sources (\<lambda>s. s_id s = i \<and> s_status s \<in> set src \<and> s_expires_at s > ts)
         (\<lambda>s. fold set_source_column us (s\<lparr>s_status := dst, s_updated_at := ts\<rparr>)) d of
        (n, d') \<Rightarrow> if n \<noteq> 1 then Inl (AppError ''SOURCE_EXPIRED'' 409) else Inr ((), d'))"

text \<open>A DELETE; upload nonces and revisions of the source hold it by their foreign keys.\<close>

definition discard_reservation :: "string \<Rightarrow> nat tx" where
  "discard_reservation i d =
     (let p = (\<lambda>s. s_id s = i \<and> s_status s \<in> {SReserved, SUploading} \<and>
                 \<not> exists_row (\<lambda>j. j_source_id j = Some i) (jobs d)) in
      if changes p (sources d) > 0 \<and>
         (exists_row (\<lambda>n. n_resource_id n = i) (source_nonces d) \<or>
          exists_row (\<lambda>r. r_source_id r = i) (revisions d))
      then Inl ConstraintError
      else Inr (changes p (sources d), d\<lparr>sources := del_where p (sources d)\<rparr>))"

section \<open>The chunked upload\<close>

definition claimable_lease :: "string \<Rightarrow> string \<Rightarrow> string \<Rightarrow> timestamp \<Rightarrow> source_row \<Rightarrow> bool" where
  "claimable_lease i uid w ts s \<longleftrightarrow>
     s_id s = i \<and> s_owner_user_id s = uid \<and> s_status s = SUploading \<and> s_expires_at s > ts \<and>
     (s_lease_owner s = None \<or> s_lease_expires_at s = None \<or>
      sql_le (s_lease_expires_at s) ts \<or> s_lease_owner s = Some w)"

definition claim_upload_lease ::
  "string \<Rightarrow> string \<Rightarrow> string \<Rightarrow> timestamp \<Rightarrow> timestamp \<Rightarrow> db \<Rightarrow> source_row option \<times> db" where
  "claim_upload_lease i uid w ts until d =
     (let (n, d') = update_sources (claimable_lease i uid w ts)
            (\<lambda>s. s\<lparr>s_lease_owner := Some w, s_lease_expires_at := Some until\<rparr>) d in
      (if n \<noteq> 1 then None
       else case source_get d' i of
           None \<Rightarrow> None
         | Some s \<Rightarrow> if s_lease_owner s = Some w \<and> s_lease_expires_at s = Some until
                     then Some s else None, d'))"

definition release_upload_lease :: "string \<Rightarrow> string \<Rightarrow> db \<Rightarrow> nat \<times> db" where
  "release_upload_lease i w d = update_sources (\<lambda>s. s_id s = i \<and> s_lease_owner s = Some w)
     (\<lambda>s. s\<lparr>s_lease_owner := None, s_lease_expires_at := None\<rparr>) d"

definition holds_upload :: "string \<Rightarrow> string \<Rightarrow> timestamp \<Rightarrow> source_row \<Rightarrow> bool" where
  "holds_upload i w ts s \<longleftrightarrow> s_id s = i \<and> s_status s = SUploading \<and> s_lease_owner s = Some w \<and>
     sql_gt (s_lease_expires_at s) ts \<and> s_expires_at s > ts"

definition extend_upload_lease :: "string \<Rightarrow> string \<Rightarrow> timestamp \<Rightarrow> timestamp \<Rightarrow> db \<Rightarrow> nat \<times> db" where
  "extend_upload_lease i w ts until d =
     update_sources (holds_upload i w ts) (\<lambda>s. s\<lparr>s_lease_expires_at := Some until\<rparr>) d"

definition commit_upload_offset ::
  "string \<Rightarrow> string \<Rightarrow> nat \<Rightarrow> nat \<Rightarrow> timestamp \<Rightarrow> db \<Rightarrow> nat \<times> db" where
  "commit_upload_offset i w expected next ts d =
     update_sources (\<lambda>s. holds_upload i w ts s \<and> s_received s = expected \<and> next \<le> s_size s)
       (\<lambda>s. s\<lparr>s_received := next, s_updated_at := ts\<rparr>) d"

definition complete_upload ::
  "string \<Rightarrow> string \<Rightarrow> timestamp \<Rightarrow> timestamp \<Rightarrow> json_text \<Rightarrow> db \<Rightarrow> nat \<times> db" where
  "complete_upload i w ts exp paths d =
     update_sources (\<lambda>s. holds_upload i w ts s \<and> s_received s = s_size s)
       (\<lambda>s. s\<lparr>s_status := SReady, s_updated_at := ts, s_uploaded_at := Some ts, s_expires_at := exp,
              s_paths := Some paths, s_received := s_size s, s_lease_owner := None,
              s_lease_expires_at := None\<rparr>) d"

section \<open>References protect a source\<close>

lemma sources_update_sources [simp]:
  "fst (update_sources p f d) = changes p (sources d)"
  "sources (snd (update_sources p f d)) = upd_where p f (sources d)"
  "jobs (snd (update_sources p f d)) = jobs d"
  "revisions (snd (update_sources p f d)) = revisions d"
  "projects (snd (update_sources p f d)) = projects d"
  by (simp_all add: update_sources_def)

text \<open>A source with any reference is never marked for deletion.\<close>

lemma referenced_not_deleted:
  assumes "s \<in> set (sources d)" and "source_reference_count d False s > 0"
  shows "s \<in> set (sources (snd (source_mark_deleting i ts d)))"
  using assms by (auto simp: source_mark_deleting_def set_upd_where intro!: rev_image_eqI [of s])

lemma mark_deleting_unreferenced:
  assumes "t \<in> set (sources (snd (source_mark_deleting i ts d)))" and "s_status t = SDeleting"
    and "t \<notin> set (sources d)"
  shows "\<exists>s\<in>set (sources d). s_id s = s_id t \<and> s_status s \<in> {SReady, SExpired} \<and>
    source_reference_count d False s = 0"
  using assms by (auto simp: source_mark_deleting_def set_upd_where split: if_splits)

section \<open>One writer at a time\<close>

text \<open>
  What an upload's store promises: a claim gives the lease to one writer until it runs out or is
  released, and the offset moves only for the holder, from the offset it expected, and never past
  the size. \<open>row\<close> reads the upload's row.
\<close>

locale offset_upload =
  fixes row :: "db \<Rightarrow> string \<Rightarrow> source_row option"
    and claim :: "string \<Rightarrow> string \<Rightarrow> string \<Rightarrow> timestamp \<Rightarrow> timestamp \<Rightarrow> db \<Rightarrow> source_row option \<times> db"
    and commit :: "string \<Rightarrow> string \<Rightarrow> nat \<Rightarrow> nat \<Rightarrow> timestamp \<Rightarrow> db \<Rightarrow> nat \<times> db"
    and complete :: "string \<Rightarrow> string \<Rightarrow> timestamp \<Rightarrow> timestamp \<Rightarrow> json_text \<Rightarrow> db \<Rightarrow> nat \<times> db"
    and ok :: "db \<Rightarrow> bool"
  assumes claim_some: "ok d \<Longrightarrow> claim i uid w ts until d = (Some r, d') \<Longrightarrow>
      ok d' \<and> row d' i = Some r \<and> s_lease_owner r = Some w \<and> s_lease_expires_at r = Some until \<and>
      s_status r = SUploading"
    and claim_needs: "ok d \<Longrightarrow> claim i uid w ts until d = (Some r, d') \<Longrightarrow>
      \<exists>s. row d i = Some s \<and> claimable_lease i uid w ts s"
    and commit_one: "ok d \<Longrightarrow> commit i w expected next ts d = (n, d') \<Longrightarrow> 0 < n \<Longrightarrow>
      \<exists>s. row d i = Some s \<and> holds_upload i w ts s \<and> s_received s = expected \<and> next \<le> s_size s \<and>
        row d' i = Some (s\<lparr>s_received := next, s_updated_at := ts\<rparr>) \<and> ok d'"
    and commit_none: "ok d \<Longrightarrow> commit i w expected next ts d = (0, d') \<Longrightarrow> d' = d"
    and complete_one: "ok d \<Longrightarrow> complete i w ts exp paths d = (n, d') \<Longrightarrow> 0 < n \<Longrightarrow>
      \<exists>s. row d i = Some s \<and> holds_upload i w ts s \<and> s_received s = s_size s \<and>
        (\<exists>t. row d' i = Some t \<and> s_status t = SReady \<and> s_received t = s_size t \<and>
             s_size t = s_size s \<and> s_lease_owner t = None)"
begin

text \<open>While a lease is live, no other writer can claim it.\<close>

lemma claim_exclusive:
  assumes "ok d" and "claim i uid w ts until d = (Some r, d')" and "w' \<noteq> w" and "ts' < until"
  shows "fst (claim i uid' w' ts' until' d') = None"
proof (rule ccontr)
  assume "fst (claim i uid' w' ts' until' d') \<noteq> None"
  then obtain r' e where c: "claim i uid' w' ts' until' d' = (Some r', e)"
    by (cases "claim i uid' w' ts' until' d'") auto
  from claim_some [OF assms(1,2)] have r: "ok d'" "row d' i = Some r" "s_lease_owner r = Some w"
    "s_lease_expires_at r = Some until" by auto
  from claim_needs [OF r(1) c] r assms(3,4) show False
    by (auto simp: claimable_lease_def)
qed

text \<open>Two commits from the same offset: the second finds the offset moved and does nothing.\<close>

lemma commit_once:
  assumes "ok d" and "commit i w expected next ts d = (n, d')" and "0 < n" and "next \<noteq> expected"
  shows "fst (commit i w' expected next' ts' d') = 0"
proof (rule ccontr)
  assume n0: "fst (commit i w' expected next' ts' d') \<noteq> 0"
  obtain m e where c: "commit i w' expected next' ts' d' = (m, e)" by fastforce
  with n0 have m: "0 < m" by simp
  from commit_one [OF assms(1-3)] obtain s where
    s: "row d' i = Some (s\<lparr>s_received := next, s_updated_at := ts\<rparr>)" "ok d'" by blast
  from commit_one [OF s(2) c m] s(1) assms(4) show False by auto
qed

text \<open>What is published is complete: every byte of the announced size was committed.\<close>

lemma complete_exact:
  assumes "ok d" and "complete i w ts exp paths d = (n, d')" and "0 < n"
  obtains s where "row d i = Some s" "s_received s = s_size s" "s_lease_owner s = Some w"
  using complete_one [OF assms] by (auto simp: holds_upload_def)

end

definition sources_keyed :: "db \<Rightarrow> bool" where
  "sources_keyed d \<longleftrightarrow> distinct (map s_id (sources d))"

lemma one_source:
  assumes "sources_keyed d" and "0 < changes p (sources d)" and "\<And>s. p s \<Longrightarrow> s_id s = i"
    and "\<And>s. s_id (f s) = s_id s"
  shows "\<exists>s. source_of d i = Some s \<and> p s \<and> row_by s_id i (upd_where p f (sources d)) = Some (f s)"
proof -
  have "changes p (sources d) \<le> 1"
    using assms(1,3) source_table.changes_le_one by (auto simp: sources_keyed_def)
  with assms(2) have "changes p (sources d) = 1" by linarith
  then obtain s where s: "source_of d i = Some s" "p s"
    using source_table.changes_one_row [of "sources d" p i] assms(1,3)
    by (auto simp: sources_keyed_def)
  have "row_by s_id i (upd_where p f (sources d)) =
      map_option (\<lambda>r. if p r then f r else r) (source_of d i)"
    by (rule source_table.row_by_upd_where) (rule assms(4))
  with s show ?thesis by simp
qed

lemma keyed_update_sources: "(\<And>s. s_id (f s) = s_id s) \<Longrightarrow> sources_keyed d \<Longrightarrow>
  sources_keyed (snd (update_sources p f d))"
  by (simp add: sources_keyed_def source_table.distinct_upd_where)

lemma source_claim_cases:
  assumes "sources_keyed d" and "claim_upload_lease i uid w ts until d = (Some r, d')"
  shows "sources_keyed d' \<and> source_of d' i = Some r \<and> s_lease_owner r = Some w \<and>
    s_lease_expires_at r = Some until \<and> s_status r = SUploading \<and>
    (\<exists>s. source_of d i = Some s \<and> claimable_lease i uid w ts s)"
proof -
  let ?p = "claimable_lease i uid w ts"
  let ?f = "\<lambda>s. s\<lparr>s_lease_owner := Some w, s_lease_expires_at := Some until\<rparr>"
  obtain n e where u: "update_sources ?p ?f d = (n, e)" by fastforce
  with assms(2) have e: "e = d'" "n = 1" "source_get e i = Some r"
    by (auto simp: claim_upload_lease_def split: if_splits option.splits)
  have "changes ?p (sources d) = 1" "sources d' = upd_where ?p ?f (sources d)"
    using arg_cong [OF u, of fst] arg_cong [OF u, of "\<lambda>x. sources (snd x)"] e by simp_all
  with one_source [OF assms(1), of ?p i ?f]
  obtain s where "source_of d i = Some s" "?p s" "source_of d' i = Some (?f s)"
    by (auto simp: claimable_lease_def)
  moreover have "sources_keyed d'"
    using keyed_update_sources [of ?f d ?p] assms(1) u e(1) by simp
  ultimately show ?thesis using e by (auto simp: source_get_def claimable_lease_def)
qed

interpretation upload: offset_upload source_of claim_upload_lease commit_upload_offset
  complete_upload sources_keyed
proof unfold_locales
  fix d i uid w ts until r d'
  assume a: "sources_keyed d" "claim_upload_lease i uid w ts until d = (Some r, d')"
  from source_claim_cases [OF a]
  show "sources_keyed d' \<and> source_of d' i = Some r \<and> s_lease_owner r = Some w \<and>
      s_lease_expires_at r = Some until \<and> s_status r = SUploading"
    and "\<exists>s. source_of d i = Some s \<and> claimable_lease i uid w ts s" by blast+
next
  fix d i w expected "next" ts n d'
  let ?p = "\<lambda>s. holds_upload i w ts s \<and> s_received s = expected \<and> next \<le> s_size s"
  let ?f = "\<lambda>s. s\<lparr>s_received := next, s_updated_at := ts\<rparr>"
  assume a: "sources_keyed d" "commit_upload_offset i w expected next ts d = (n, d')" "0 < n"
  then have "0 < changes ?p (sources d)" and d': "d' = snd (update_sources ?p ?f d)"
    by (auto simp: commit_upload_offset_def update_sources_def)
  with one_source [OF a(1), of ?p i ?f] obtain s where "source_of d i = Some s" "?p s"
      "row_by s_id i (upd_where ?p ?f (sources d)) = Some (?f s)"
    by (auto simp: holds_upload_def)
  moreover have "sources_keyed d'" unfolding d' by (rule keyed_update_sources [OF _ a(1)]) simp
  ultimately show "\<exists>s. source_of d i = Some s \<and> holds_upload i w ts s \<and> s_received s = expected \<and>
      next \<le> s_size s \<and> source_of d' i = Some (?f s) \<and> sources_keyed d'"
    by (auto simp: d')
next
  fix d i w expected "next" ts d'
  assume "commit_upload_offset i w expected next ts d = (0, d')"
  then show "d' = d"
    by (auto simp: commit_upload_offset_def update_sources_def upd_where_none)
next
  fix d i w ts exp paths n d'
  let ?p = "\<lambda>s. holds_upload i w ts s \<and> s_received s = s_size s"
  let ?f = "\<lambda>s. s\<lparr>s_status := SReady, s_updated_at := ts, s_uploaded_at := Some ts,
    s_expires_at := exp, s_paths := Some paths, s_received := s_size s, s_lease_owner := None,
    s_lease_expires_at := None\<rparr>"
  assume a: "sources_keyed d" "complete_upload i w ts exp paths d = (n, d')" "0 < n"
  then have "0 < changes ?p (sources d)" and d': "d' = snd (update_sources ?p ?f d)"
    by (auto simp: complete_upload_def update_sources_def)
  with one_source [OF a(1), of ?p i ?f] obtain s where "source_of d i = Some s" "?p s"
      "row_by s_id i (upd_where ?p ?f (sources d)) = Some (?f s)"
    by (auto simp: holds_upload_def)
  then show "\<exists>s. source_of d i = Some s \<and> holds_upload i w ts s \<and> s_received s = s_size s \<and>
      (\<exists>t. source_of d' i = Some t \<and> s_status t = SReady \<and> s_received t = s_size t \<and>
           s_size t = s_size s \<and> s_lease_owner t = None)"
    by (auto simp: d')
qed

end
