(* ===== verification/Projects.thy ===== *)
theory Projects
  imports Sources Output_Stages
begin

text \<open>
  \<open>ProjectsRepository\<close> (repositories/projects.ts) and the saved-document policy
  \<open>ProjectOperations\<close> (project-operations.ts): owned projects and their revisions, whose numbers
  are handed out consecutively and whose sources stay retained as long as the project lives.
\<close>

section \<open>The repository\<close>

definition live_project :: "string \<Rightarrow> project_row \<Rightarrow> bool" where
  "live_project uid p \<longleftrightarrow> p_owner_user_id p = uid \<and> p_deleted_at p = None"

definition projects_list_owned :: "db \<Rightarrow> string \<Rightarrow> nat \<Rightarrow> project_row list" where
  "projects_list_owned d uid limit =
     take limit (order_desc p_updated_at (filter (live_project uid) (projects d)))"

definition project_revisions :: "db \<Rightarrow> string \<Rightarrow> revision_row list" where
  "project_revisions d p = filter (\<lambda>r. r_project_id r = p) (revisions d)"

definition revision_key :: "revision_row \<Rightarrow> nat \<times> string" where
  "revision_key r = (r_number r, r_id r)"

definition latest_revision :: "db \<Rightarrow> string \<Rightarrow> revision_row option" where
  "latest_revision d p = (case order_desc revision_key (project_revisions d p) of
     [] \<Rightarrow> None | r # _ \<Rightarrow> Some r)"

text \<open>
  The row of \<open>ProjectSummaryRow\<close>: the six \<open>latest_revision\<close> columns all read the row of
  \<open>ORDER BY revision_number DESC, id DESC LIMIT 1\<close>.
\<close>

record project_summary =
  ps_project :: project_row
  ps_revision_count :: nat
  ps_latest :: "revision_row option"

definition revision_count :: "db \<Rightarrow> string \<Rightarrow> nat" where
  "revision_count d p = changes (\<lambda>r. r_project_id r = p) (revisions d)"

definition project_summary_row :: "db \<Rightarrow> project_row \<Rightarrow> project_summary" where
  "project_summary_row d p = \<lparr>ps_project = p, ps_revision_count = revision_count d (p_id p),
     ps_latest = latest_revision d (p_id p)\<rparr>"

definition summary_key :: "project_summary \<Rightarrow> timestamp \<times> string" where
  "summary_key s = (p_updated_at (ps_project s), p_id (ps_project s))"

definition projects_list_owned_page :: "string \<Rightarrow> db \<Rightarrow> (timestamp \<times> string) option \<Rightarrow> nat \<Rightarrow>
  (project_summary, timestamp \<times> string) page" where
  "projects_list_owned_page uid d c limit =
     cut_page summary_key limit (take (limit + 1) (order_desc summary_key
       (filter (before_cursor summary_key c)
         (map (project_summary_row d) (filter (live_project uid) (projects d))))))"

definition project_get_owned :: "db \<Rightarrow> string \<Rightarrow> string \<Rightarrow> project_row option" where
  "project_get_owned d i uid = find (\<lambda>p. p_id p = i \<and> live_project uid p) (projects d)"

definition project_insert :: "string \<Rightarrow> string \<Rightarrow> string \<Rightarrow> timestamp \<Rightarrow> unit tx" where
  "project_insert i uid name ts d =
     (if project_of d i = None \<and> fk u_id uid (users d) \<and> 1 \<le> length name \<and> length name \<le> 200
      then Inr ((), d\<lparr>projects := projects d @ [\<lparr>p_id = i, p_owner_user_id = uid,
             p_display_name = name, p_created_at = ts, p_updated_at = ts, p_deleted_at = None\<rparr>]\<rparr>)
      else Inl ConstraintError)"

definition update_projects ::
  "(project_row \<Rightarrow> bool) \<Rightarrow> (project_row \<Rightarrow> project_row) \<Rightarrow> db \<Rightarrow> nat \<times> db" where
  "update_projects p f d = (changes p (projects d), d\<lparr>projects := upd_where p f (projects d)\<rparr>)"

definition project_rename_row :: "string \<Rightarrow> string \<Rightarrow> string \<Rightarrow> timestamp \<Rightarrow> nat tx" where
  "project_rename_row i uid name ts d =
     (let p = (\<lambda>x. p_id x = i \<and> live_project uid x) in
      if changes p (projects d) > 0 \<and> \<not> (1 \<le> length name \<and> length name \<le> 200)
      then Inl ConstraintError
      else Inr (update_projects p (\<lambda>x. x\<lparr>p_display_name := name, p_updated_at := ts\<rparr>) d))"

definition soft_delete :: "string \<Rightarrow> string \<Rightarrow> timestamp \<Rightarrow> db \<Rightarrow> nat \<times> db" where
  "soft_delete i uid ts d = update_projects (\<lambda>x. p_id x = i \<and> live_project uid x)
     (\<lambda>x. x\<lparr>p_deleted_at := Some ts, p_updated_at := ts\<rparr>) d"

definition revisions_of :: "db \<Rightarrow> string \<Rightarrow> revision_row list" where
  "revisions_of d p = order_desc r_number (project_revisions d p)"

text \<open>
  The \<open>revisionNumber\<close> of a decoded cursor: \<open>/^\d+$/\<close>, then \<open>Number\<close>, which must be a safe
  integer of at least 1. A value over 2^53 - 1 may be rounded, but never down to a safe one.
\<close>

definition digits_value :: "string \<Rightarrow> nat" where
  "digits_value s = fold (\<lambda>c n. 10 * n + (ord_of c - 48)) s 0"

definition cursor_revision_number :: "string \<Rightarrow> nat result" where
  "cursor_revision_number s =
     (if s = [] \<or> \<not> list_all is_digit s then Inl (AppError ''INVALID_CURSOR'' 400)
      else if digits_value s > 9007199254740991 \<or> digits_value s < 1
      then Inl (AppError ''INVALID_CURSOR'' 400)
      else Inr (digits_value s))"

definition revisions_page :: "string \<Rightarrow> db \<Rightarrow> (nat \<times> string) option \<Rightarrow> nat \<Rightarrow>
  (revision_row, nat \<times> string) page" where
  "revisions_page p d c limit =
     cut_page revision_key limit (take (limit + 1) (order_desc revision_key
       (filter (before_cursor revision_key c) (project_revisions d p))))"

definition revision_owned :: "db \<Rightarrow> string \<Rightarrow> string \<Rightarrow> revision_row option" where
  "revision_owned d i uid = find (\<lambda>r. r_id r = i \<and>
     exists_row (\<lambda>p. p_id p = r_project_id r \<and> live_project uid p) (projects d)) (revisions d)"

definition revision_for_source ::
  "db \<Rightarrow> string \<Rightarrow> string \<Rightarrow> string \<Rightarrow> revision_row option" where
  "revision_for_source d p s e = find (\<lambda>r. r_project_id r = p \<and> r_source_id r = s \<and>
     r_entrypoint r = e) (revisions d)"

record revision_input =
  vi_project_id :: string
  vi_source_id :: string
  vi_display_name :: string
  vi_original_filename :: string
  vi_entrypoint :: string
  vi_outputs :: "render_output list"

definition next_revision_number :: "db \<Rightarrow> string \<Rightarrow> nat" where
  "next_revision_number d p = foldr max (map r_number (project_revisions d p)) 0 + 1"

definition revision_row_of ::
  "string \<Rightarrow> revision_input \<Rightarrow> timestamp \<Rightarrow> nat \<Rightarrow> revision_row" where
  "revision_row_of i x ts n = \<lparr>r_id = i, r_project_id = vi_project_id x,
     r_source_id = vi_source_id x, r_number = n, r_display_name = vi_display_name x,
     r_original_filename = vi_original_filename x, r_entrypoint = vi_entrypoint x,
     r_outputs = outputs_json (vi_outputs x), r_created_at = ts\<rparr>"

definition revision_constraints :: "db \<Rightarrow> revision_row \<Rightarrow> bool" where
  "revision_constraints d r \<longleftrightarrow> row_by r_id (r_id r) (revisions d) = None \<and>
     fk p_id (r_project_id r) (projects d) \<and> fk s_id (r_source_id r) (sources d) \<and>
     r_number r > 0 \<and> 1 \<le> length (r_display_name r) \<and> length (r_display_name r) \<le> 200 \<and>
     1 \<le> length (r_original_filename r) \<and> length (r_original_filename r) \<le> 240 \<and>
     1 \<le> length (r_entrypoint r) \<and> length (r_entrypoint r) \<le> 240 \<and>
     \<not> exists_row (\<lambda>x. r_project_id x = r_project_id r \<and>
         (r_number x = r_number r \<or>
          r_source_id x = r_source_id r \<and> r_entrypoint x = r_entrypoint r)) (revisions d)"

definition insert_revision :: "string \<Rightarrow> revision_input \<Rightarrow> timestamp \<Rightarrow> revision_row tx" where
  "insert_revision i x ts d =
     (let r = revision_row_of i x ts (next_revision_number d (vi_project_id x)) in
      if revision_constraints d r then Inr (r, d\<lparr>revisions := revisions d @ [r]\<rparr>)
      else Inl ConstraintError)"

definition revision_outputs :: "revision_row \<Rightarrow> render_output list result" where
  "revision_outputs r = (case r_outputs r of
       Some (JArr vs) \<Rightarrow>
         (case those (map output_of_json vs) of
            Some os \<Rightarrow> if 1 \<le> length os \<and> length os \<le> 2 \<and> distinct os \<and> Pdf \<in> set os
                       then Inr os else Inl (AppError ''PROJECT_REVISION_OUTPUTS_INVALID'' 500)
          | None \<Rightarrow> Inl (AppError ''PROJECT_REVISION_OUTPUTS_INVALID'' 500))
     | _ \<Rightarrow> Inl (AppError ''PROJECT_REVISION_OUTPUTS_INVALID'' 500))"

definition project_touch :: "string \<Rightarrow> timestamp \<Rightarrow> db \<Rightarrow> db" where
  "project_touch i ts d = snd (update_projects (\<lambda>p. p_id p = i) (\<lambda>p. p\<lparr>p_updated_at := ts\<rparr>) d)"

section \<open>Operations of an actor\<close>

record project_actor =
  pa_user_id :: string
  pa_type :: actor
  pa_id :: string

definition project_audit ::
  "project_actor \<Rightarrow> string \<Rightarrow> string \<Rightarrow> string \<Rightarrow> (string \<times> json) list \<Rightarrow> timestamp \<Rightarrow> audit_row" where
  "project_audit a action ttype target meta now = \<lparr>au_actor_type = pa_type a,
     au_actor_id = pa_id a, au_action = action, au_target_type = ttype, au_target_id = target,
     au_result = ''success'', au_ip_address = None, au_user_agent = None, au_metadata = meta,
     au_created_at = now\<rparr>"

definition projects_assert_writable :: "db \<Rightarrow> unit result" where
  "projects_assert_writable d =
     (case setting_value d ''maintenance_mode'' (JStr ''normal'') of
        Inl e \<Rightarrow> Inl e
      | Inr m \<Rightarrow> if m = JStr ''read-only'' \<or> m = JStr ''lockdown''
                 then Inl (AppError ''MAINTENANCE'' 503) else Inr ())"

definition project_create :: "project_actor \<Rightarrow> string \<Rightarrow> string \<Rightarrow> timestamp \<Rightarrow> string tx" where
  "project_create a i name now =
     seq_tx (read_tx projects_assert_writable) (\<lambda>_.
     seq_tx (project_insert i (pa_user_id a) name now) (\<lambda>_.
     seq_tx (write_tx (audit (project_audit a ''project.created'' ''project'' i [] now))) (\<lambda>_.
     return_tx i)))"

definition one_changed :: "nat \<Rightarrow> app_error \<Rightarrow> unit tx" where
  "one_changed n e d = (if n \<noteq> 1 then Inl e else Inr ((), d))"

definition project_rename :: "project_actor \<Rightarrow> string \<Rightarrow> string \<Rightarrow> timestamp \<Rightarrow> unit tx" where
  "project_rename a i name now =
     seq_tx (read_tx projects_assert_writable) (\<lambda>_.
     seq_tx (project_rename_row i (pa_user_id a) name now) (\<lambda>n.
     seq_tx (one_changed n (AppError ''PROJECT_NOT_FOUND'' 404)) (\<lambda>_.
     write_tx (audit (project_audit a ''project.renamed'' ''project'' i [] now)))))"

definition project_delete :: "project_actor \<Rightarrow> string \<Rightarrow> timestamp \<Rightarrow> unit tx" where
  "project_delete a i now =
     seq_tx (read_tx projects_assert_writable) (\<lambda>_.
     seq_tx (\<lambda>d. Inr (soft_delete i (pa_user_id a) now d)) (\<lambda>n.
     seq_tx (one_changed n (AppError ''PROJECT_NOT_FOUND'' 404)) (\<lambda>_.
     write_tx (audit (project_audit a ''project.deleted'' ''project'' i
       [(''lifecycle'', JStr ''metadata-only; Sources and Jobs retain their existing retention policy'')]
       now)))))"

definition owned_revision ::
  "db \<Rightarrow> project_actor \<Rightarrow> string \<Rightarrow> string \<Rightarrow> (project_row \<times> revision_row) result" where
  "owned_revision d a p r =
     (case (project_get_owned d p (pa_user_id a), revision_owned d r (pa_user_id a)) of
        (Some x, Some v) \<Rightarrow> if r_project_id v = p_id x then Inr (x, v)
                            else Inl (AppError ''PROJECT_REVISION_NOT_FOUND'' 404)
      | _ \<Rightarrow> Inl (AppError ''PROJECT_REVISION_NOT_FOUND'' 404))"

text \<open>\<open>getOwnedReady\<close> is called here without a service account: only user sources qualify.\<close>

definition project_revision :: "db \<Rightarrow> project_actor \<Rightarrow> string \<Rightarrow> string \<Rightarrow> timestamp \<Rightarrow>
  (project_row \<times> revision_row \<times> source_row) result" where
  "project_revision d a p r now =
     bind_r (owned_revision d a p r) (\<lambda>(x, v).
       case source_get_owned_ready d (r_source_id v) (pa_user_id a) now [] of
         None \<Rightarrow> Inl (AppError ''SOURCE_EXPIRED'' 410)
       | Some s \<Rightarrow> Inr (x, v, s))"

definition valid_outputs :: "render_output list \<Rightarrow> bool" where
  "valid_outputs os \<longleftrightarrow> 1 \<le> length os \<and> length os \<le> 2 \<and> Pdf \<in> set os \<and> distinct os"

definition attach_checks ::
  "project_actor \<Rightarrow> revision_input \<Rightarrow> timestamp \<Rightarrow> db \<Rightarrow> project_row result" where
  "attach_checks a x now d =
     bind_r (projects_assert_writable d) (\<lambda>_.
     ensure (valid_outputs (vi_outputs x)) (AppError ''INVALID_OUTPUTS'' 400)
     (case project_get_owned d (vi_project_id x) (pa_user_id a) of
        None \<Rightarrow> Inl (AppError ''PROJECT_NOT_FOUND'' 404)
      | Some p \<Rightarrow>
          (case source_get_owned_ready d (vi_source_id x) (pa_user_id a) now [] of
             None \<Rightarrow> Inl (AppError ''SOURCE_NOT_READY'' 409)
           | Some s \<Rightarrow> bind_r (source_paths s) (\<lambda>paths.
               ensure (vi_entrypoint x \<in> set paths) (AppError ''ENTRYPOINT_MISSING'' 422)
                 (Inr p)))))"

definition find_or_insert_revision ::
  "project_actor \<Rightarrow> revision_input \<Rightarrow> string \<Rightarrow> timestamp \<Rightarrow> revision_row tx" where
  "find_or_insert_revision a x i now d =
     (case revision_for_source d (vi_project_id x) (vi_source_id x) (vi_entrypoint x) of
        Some r \<Rightarrow> Inr (r, d)
      | None \<Rightarrow> seq_tx (insert_revision i x now) (\<lambda>r.
          seq_tx (write_tx (audit (project_audit a ''project.revision_created''
            ''project_revision'' (r_id r) [(''projectId'', JStr (vi_project_id x)),
              (''sourceId'', JStr (vi_source_id x))] now))) (\<lambda>_. return_tx r)) d)"

definition attach_revision ::
  "project_actor \<Rightarrow> revision_input \<Rightarrow> string \<Rightarrow> timestamp \<Rightarrow> revision_row tx" where
  "attach_revision a x i now =
     seq_tx (read_tx (attach_checks a x now)) (\<lambda>p.
     seq_tx (find_or_insert_revision a x i now) (\<lambda>r.
     seq_tx (write_tx (project_touch (p_id p) now)) (\<lambda>_. return_tx r)))"

section \<open>What a client sees\<close>

record job_item =
  ji_job :: job_row
  ji_outputs :: "render_output list"
  ji_stages :: "(public_pdf \<times> public_svg) option"

definition job_item :: "(string \<rightharpoonup> public_pdf \<times> public_svg) \<Rightarrow> job_row \<Rightarrow> job_item result" where
  "job_item stgs j = bind_r (outputs j) (\<lambda>os.
     Inr \<lparr>ji_job = j, ji_outputs = os, ji_stages = stgs (j_id j)\<rparr>)"

record revision_view =
  vw_revision :: revision_row
  vw_outputs :: "render_output list"
  vw_jobs :: "job_item list"
  vw_job_count :: nat
  vw_jobs_has_more :: bool
  vw_jobs_next_cursor :: "(timestamp \<times> string) option"

definition revision_summary :: "(string \<rightharpoonup> public_pdf \<times> public_svg) \<Rightarrow>
  (string \<times> job_row list) list \<Rightarrow> (string \<times> nat) list \<Rightarrow> revision_row \<Rightarrow> revision_view result" where
  "revision_summary stgs jobs_by counts r =
     (let js = coalesce (map_of jobs_by (r_id r)) []; n = coalesce (map_of counts (r_id r)) 0 in
      bind_r (revision_outputs r) (\<lambda>os.
      bind_r (traverse (job_item stgs) js) (\<lambda>xs.
        Inr \<lparr>vw_revision = r, vw_outputs = os, vw_jobs = xs, vw_job_count = n,
             vw_jobs_has_more = (n > length js),
             vw_jobs_next_cursor = (if n > length js \<and> js \<noteq> [] then Some (job_key (last js))
                                    else None)\<rparr>)))"

record project_view =
  pj_project :: project_row
  pj_revision_count :: nat
  pj_latest :: "revision_view option"
  pj_revisions :: "(revision_view, nat \<times> string) page"

text \<open>\<open>listSummary\<close> renames the columns of a row; the record is both.\<close>

definition project_list :: "db \<Rightarrow> project_actor \<Rightarrow> (timestamp \<times> string) option \<Rightarrow> nat \<Rightarrow>
  (project_summary, timestamp \<times> string) page" where
  "project_list d a c limit = projects_list_owned_page (pa_user_id a) d c limit"

text \<open>The default of \<open>listSummariesForRevisions\<close> is fifty jobs for each revision.\<close>

definition project_get :: "db \<Rightarrow> project_actor \<Rightarrow> string \<Rightarrow> (nat \<times> string) option \<Rightarrow> nat \<Rightarrow>
  project_view result" where
  "project_get d a i c limit =
     (case project_get_owned d i (pa_user_id a) of
        None \<Rightarrow> Inl (AppError ''PROJECT_NOT_FOUND'' 404)
      | Some p \<Rightarrow>
          (let pg = revisions_page i d c limit; latest = latest_revision d i;
               ids = remdups (map r_id (items pg @ (case latest of None \<Rightarrow> [] | Some r \<Rightarrow> [r])));
               jobs_by = list_summaries_for_revisions d ids 50;
               counts = count_for_revisions d ids in
           bind_r (public_states d (map j_id (concat (map snd jobs_by)))) (\<lambda>stgs.
           bind_r (case latest of None \<Rightarrow> Inr None
                   | Some r \<Rightarrow> bind_r (revision_summary stgs jobs_by counts r) (\<lambda>v. Inr (Some v)))
             (\<lambda>lv.
           bind_r (traverse (revision_summary stgs jobs_by counts) (items pg)) (\<lambda>vs.
             Inr \<lparr>pj_project = p, pj_revision_count = revision_count d i, pj_latest = lv,
                  pj_revisions = \<lparr>items = vs, next_cursor = next_cursor pg,
                                  has_more = has_more pg\<rparr>\<rparr>)))))"

definition project_jobs :: "db \<Rightarrow> project_actor \<Rightarrow> string \<Rightarrow> string \<Rightarrow> job_cursor \<Rightarrow> nat \<Rightarrow>
  (job_item, timestamp \<times> string) page result" where
  "project_jobs d a p r c limit =
     bind_r (owned_revision d a p r) (\<lambda>_.
       (let pg = list_for_revision_page r d c limit in
        bind_r (public_states d (map j_id (items pg))) (\<lambda>stgs.
        bind_r (traverse (job_item stgs) (items pg)) (\<lambda>xs.
          Inr \<lparr>items = xs, next_cursor = next_cursor pg, has_more = has_more pg\<rparr>))))"

section \<open>The pages keep the paging contract\<close>

interpretation project_listing: paged_listing "projects_list_owned_page uid"
  "\<lambda>d. map (project_summary_row d) (filter (live_project uid) (projects d))" summary_key for uid
  by unfold_locales (simp add: projects_list_owned_page_def keyset_page_def)

interpretation revisions_listing: paged_listing "revisions_page p"
  "\<lambda>d. project_revisions d p" revision_key for p
  by unfold_locales (simp add: revisions_page_def keyset_page_def)

section \<open>Revision numbers\<close>

text \<open>The revisions of a project are numbered 1, 2, 3, ... in the order they were saved.\<close>

definition revisions_numbered :: "db \<Rightarrow> bool" where
  "revisions_numbered d \<longleftrightarrow>
     (\<forall>p. map r_number (project_revisions d p) = [1..<length (project_revisions d p) + 1])"

lemma foldr_max_snoc: "foldr max (xs @ [k]) 0 = max (foldr max xs 0) (k :: nat)"
  by (induction xs) (simp_all only: append_Nil append_Cons foldr.simps comp_apply id_apply
      max.assoc max.commute)

lemma foldr_max_upt: "foldr max [1..<n + 1] 0 = (n :: nat)"
proof (induction n)
  case (Suc n)
  then show ?case using foldr_max_snoc [of "[1..<n + 1]" "n + 1"] by simp
qed simp

lemma next_revision_number_eq:
  "revisions_numbered d \<Longrightarrow> next_revision_number d p = length (project_revisions d p) + 1"
  using foldr_max_upt by (simp add: next_revision_number_def revisions_numbered_def)

lemma insert_revision_cases:
  assumes "insert_revision i x ts d = Inr (r, d')"
  shows "r = revision_row_of i x ts (next_revision_number d (vi_project_id x)) \<and>
    revision_constraints d r \<and> d' = d\<lparr>revisions := revisions d @ [r]\<rparr>"
  using assms by (auto simp: insert_revision_def Let_def split: if_splits)

lemma revisions_numbered_insert:
  assumes "revisions_numbered d" and "insert_revision i x ts d = Inr (r, d')"
  shows "revisions_numbered d'"
proof -
  from insert_revision_cases [OF assms(2)] next_revision_number_eq [OF assms(1)]
  have r: "r_project_id r = vi_project_id x"
      "r_number r = length (project_revisions d (vi_project_id x)) + 1"
      "d' = d\<lparr>revisions := revisions d @ [r]\<rparr>"
    by (auto simp: revision_row_of_def)
  have "map r_number (project_revisions d' p) = [1..<length (project_revisions d' p) + 1]" for p
    using assms(1) r by (auto simp: revisions_numbered_def project_revisions_def)
  then show ?thesis by (simp add: revisions_numbered_def)
qed

section \<open>Attaching a revision\<close>

lemma revisions_touch [simp]:
  "revisions (project_touch i ts d) = revisions d" "sources (project_touch i ts d) = sources d"
  "jobs (project_touch i ts d) = jobs d"
  by (simp_all add: project_touch_def update_projects_def)

lemma attach_revision_cases:
  assumes "attach_revision a x i now d = Inr (r, d')"
  obtains p where "attach_checks a x now d = Inr p"
    "revision_for_source d (vi_project_id x) (vi_source_id x) (vi_entrypoint x) = Some r"
    "d' = project_touch (p_id p) now d"
  | p where "attach_checks a x now d = Inr p"
    "revision_for_source d (vi_project_id x) (vi_source_id x) (vi_entrypoint x) = None"
    "insert_revision i x now d = Inr (r, d\<lparr>revisions := revisions d @ [r]\<rparr>)"
    "revisions d' = revisions d @ [r]" "sources d' = sources d" "jobs d' = jobs d"
    "projects d' = projects (project_touch (p_id p) now d)"
proof -
  from assms obtain p e where p: "attach_checks a x now d = Inr p"
    and f: "find_or_insert_revision a x i now d = Inr (r, e)"
    and d': "d' = project_touch (p_id p) now e"
    by (auto simp: attach_revision_def seq_tx_Inr_iff)
  show thesis
  proof (cases "revision_for_source d (vi_project_id x) (vi_source_id x) (vi_entrypoint x)")
    case (Some v)
    with f have "v = r" "e = d" by (auto simp: find_or_insert_revision_def)
    with Some p d' that(1) show thesis by simp
  next
    case None
    with f obtain e1 where ins: "insert_revision i x now d = Inr (r, e1)"
      and e: "e = audit (project_audit a ''project.revision_created'' ''project_revision'' (r_id r)
        [(''projectId'', JStr (vi_project_id x)), (''sourceId'', JStr (vi_source_id x))] now) e1"
      by (auto simp: find_or_insert_revision_def seq_tx_Inr_iff)
    from insert_revision_cases [OF ins] have e1: "e1 = d\<lparr>revisions := revisions d @ [r]\<rparr>"
      by blast
    have "projects d' = projects (project_touch (p_id p) now d)"
      by (simp add: d' e e1 project_touch_def update_projects_def)
    with p None ins e1 that(2) show thesis by (simp add: d' e)
  qed
qed

lemma attach_checks_InrD:
  assumes "attach_checks a x now d = Inr p"
  shows "project_get_owned d (vi_project_id x) (pa_user_id a) = Some p"
    and "valid_outputs (vi_outputs x)"
    and "\<exists>s. source_get_owned_ready d (vi_source_id x) (pa_user_id a) now [] = Some s"
  using assms
  by (auto simp: attach_checks_def bind_r_Inr_iff split: option.splits)

lemma revision_for_source_SomeD:
  "revision_for_source d p s e = Some r \<Longrightarrow>
   r \<in> set (revisions d) \<and> r_project_id r = p \<and> r_source_id r = s \<and> r_entrypoint r = e"
  by (auto simp: revision_for_source_def find_Some_iff)

lemma find_append_new:
  "find P xs = None \<Longrightarrow> P x \<Longrightarrow> find P (xs @ [x]) = Some x"
  by (induction xs) (auto split: if_splits)

text \<open>What a revision is found by after it was attached, and that the source is the one asked for.\<close>

lemma attach_revision_found:
  assumes "attach_revision a x i now d = Inr (r, d')"
  shows "revision_for_source d' (vi_project_id x) (vi_source_id x) (vi_entrypoint x) = Some r"
  using assms
proof (cases rule: attach_revision_cases)
  case (1 p)
  then show ?thesis by (simp add: revision_for_source_def)
next
  case (2 p)
  from insert_revision_cases [OF 2(3)]
  have "r_project_id r = vi_project_id x" "r_source_id r = vi_source_id x"
    "r_entrypoint r = vi_entrypoint x"
    by (auto simp: revision_row_of_def)
  with 2 show ?thesis by (simp add: revision_for_source_def find_append_new)
qed

lemma revisions_numbered_attach:
  assumes "revisions_numbered d" and "attach_revision a x i now d = Inr (r, d')"
  shows "revisions_numbered d'"
  using assms(2)
proof (cases rule: attach_revision_cases)
  case (1 p)
  then show ?thesis using assms(1) by (simp add: revisions_numbered_def project_revisions_def)
next
  case (2 p)
  from revisions_numbered_insert [OF assms(1) 2(3)] 2(4) show ?thesis
    by (simp add: revisions_numbered_def project_revisions_def)
qed

lemma revision_outputs_stored:
  "r_outputs r = outputs_json os \<Longrightarrow> valid_outputs os \<Longrightarrow> revision_outputs r = Inr os"
  using those_output_of_json [of os]
  by (auto simp: revision_outputs_def outputs_json_def valid_outputs_def
      simp del: those_output_of_json)

lemma project_of_touch:
  "project_of (project_touch i ts d) k =
     map_option (\<lambda>p. if p_id p = i then p\<lparr>p_updated_at := ts\<rparr> else p) (project_of d k)"
  unfolding project_of_def project_touch_def update_projects_def
  by (simp add: project_table.row_by_upd_where)

text \<open>A source whose revision was attached to a live project cannot be deleted.\<close>

lemma attached_source_kept:
  assumes "attach_revision a x i now d = Inr (r, d')" and "distinct (map p_id (projects d))"
  shows "source_mark_deleting (vi_source_id x) ts d' = (0, d')"
proof -
  obtain p where checks: "attach_checks a x now d = Inr p"
    and r: "r \<in> set (revisions d')" "r_project_id r = vi_project_id x"
      "r_source_id r = vi_source_id x"
    and pr: "projects d' = projects (project_touch (p_id p) now d)"
    using assms(1)
  proof (cases rule: attach_revision_cases)
    case (1 p)
    with revision_for_source_SomeD [OF 1(2)] that show thesis by simp
  next
    case (2 p)
    with insert_revision_cases [OF 2(3)] that show thesis by (simp add: revision_row_of_def)
  qed
  from attach_checks_InrD(1) [OF checks]
  have "p \<in> set (projects d)" "p_id p = vi_project_id x" "p_deleted_at p = None"
    by (auto simp: project_get_owned_def live_project_def find_Some_iff)
  with assms(2) have "project_of d (vi_project_id x) = Some p"
    unfolding project_of_def by (metis project_table.row_by_in)
  with pr have "project_of d' (vi_project_id x) = Some (p\<lparr>p_updated_at := now\<rparr>)"
    using project_of_touch [of "p_id p" now d "vi_project_id x"] \<open>p_id p = vi_project_id x\<close>
    by (simp add: project_of_def)
  with r \<open>p_deleted_at p = None\<close>
  have ref: "s_id s = vi_source_id x \<Longrightarrow> revision_references d' False s r" for s
    by (simp add: revision_references_def)
  then have "source_reference_count d' False s > 0" if "s_id s = vi_source_id x" for s
    using that r(1) changes_pos_iff [of "revision_references d' False s" "revisions d'"]
    by (auto simp: source_reference_count_def)
  then have "changes (\<lambda>s. s_id s = vi_source_id x \<and> s_status s \<in> {SReady, SExpired} \<and>
      source_reference_count d' False s = 0) (sources d') = 0"
    by (auto simp: changes_zero_iff)
  then show ?thesis
    by (simp add: source_mark_deleting_def update_sources_def upd_where_none)
qed

end
