(* ===== verification/Json.thy ===== *)
theory Json
  imports Text
begin

text \<open>
  \<open>JSON.stringify\<close> of the values the program hashes and stores, and the numeric reading that
  JavaScript's comparisons give a stored setting. Strings are ASCII, as JSON leaves them but for
  quotes, backslashes and control characters.
\<close>

definition hex_digit :: "nat \<Rightarrow> char" where
  "hex_digit n = (if n < 10 then char_of (48 + n) else char_of (87 + n))"

definition escape_char :: "char \<Rightarrow> string" where
  "escape_char c =
     (if c = CHR 0x22 then [CHR 0x5C, CHR 0x22]
      else if c = CHR 0x5C then [CHR 0x5C, CHR 0x5C]
      else if ord_of c = 8 then [CHR 0x5C, CHR ''b'']
      else if ord_of c = 9 then [CHR 0x5C, CHR ''t'']
      else if ord_of c = 10 then [CHR 0x5C, CHR ''n'']
      else if ord_of c = 12 then [CHR 0x5C, CHR ''f'']
      else if ord_of c = 13 then [CHR 0x5C, CHR ''r'']
      else if ord_of c < 32
      then [CHR 0x5C, CHR ''u'', CHR ''0'', CHR ''0'', hex_digit (ord_of c div 16),
            hex_digit (ord_of c mod 16)]
      else [c])"

definition quote :: "string \<Rightarrow> string" where
  "quote s = CHR 0x22 # concat (map escape_char s) @ [CHR 0x22]"

definition show_int :: "int \<Rightarrow> string" where
  "show_int i = (if i < 0 then CHR ''-'' # decimal (nat (- i)) else decimal (nat i))"

fun stringify :: "json \<Rightarrow> string" and members :: "(string \<times> json) list \<Rightarrow> string list"
  and elements :: "json list \<Rightarrow> string list" where
  "stringify JNull = ''null''"
| "stringify (JBool b) = (if b then ''true'' else ''false'')"
| "stringify (JNum i) = show_int i"
| "stringify (JStr s) = quote s"
| "stringify (JArr vs) = CHR ''['' # join_on CHR '','' (elements vs) @ '']''"
| "stringify (JObj ms) = CHR 0x7B # join_on CHR '','' (members ms) @ [CHR 0x7D]"
| "members [] = []"
| "members ((k, v) # ms) = (quote k @ CHR '':'' # stringify v) # members ms"
| "elements [] = []"
| "elements (v # vs) = stringify v # elements vs"

section \<open>Numbers\<close>

text \<open>
  The number a value is compared as; \<open>None\<close> is NaN, with which every comparison is false. (A
  string setting of digits would also be read as a number; the settings are stored as numbers.)
\<close>

fun js_number :: "json \<Rightarrow> int option" where
  "js_number (JNum i) = Some i"
| "js_number JNull = Some 0"
| "js_number (JBool b) = Some (if b then 1 else 0)"
| "js_number _ = None"

text \<open>\<open>n >= v\<close>, and \<open>need > v - used\<close>.\<close>

definition reaches :: "nat \<Rightarrow> json \<Rightarrow> bool" where
  "reaches n v = (case js_number v of None \<Rightarrow> False | Some b \<Rightarrow> int n \<ge> b)"

definition exceeds :: "int \<Rightarrow> json \<Rightarrow> nat \<Rightarrow> bool" where
  "exceeds need v used = (case js_number v of None \<Rightarrow> False | Some b \<Rightarrow> need > b - int used)"

lemma exceeds_num [simp]: "exceeds need (JNum b) used \<longleftrightarrow> int used + need > b"
  by (auto simp: exceeds_def)

lemma reaches_num [simp]: "reaches n (JNum b) \<longleftrightarrow> int n \<ge> b"
  by (simp add: reaches_def)

end
