(* ===== verification/Svg_Retry.thy ===== *)
theory Svg_Retry
  imports Projects Json Text
begin

text \<open>
  \<open>SvgRetryOperations.retry\<close> (packages/database/src/svg-retry-operations.ts): a failed SVG stage
  goes back to the queue once for each idempotency key, within the queue and storage limits.
  \<open>sha\<close> stands for the hexadecimal SHA-256 of node:crypto. The checks against settings are
  shared with the ticket services.
\<close>

section \<open>Checks against settings\<close>

definition check_setting ::
  "db \<Rightarrow> string \<Rightarrow> json \<Rightarrow> (json \<Rightarrow> bool) \<Rightarrow> string \<Rightarrow> nat \<Rightarrow> unit result" where
  "check_setting d k fallback bad e st =
     bind_r (setting_value d k fallback) (\<lambda>v. if bad v then Inl (AppError e st) else Inr ())"

lemma check_setting_Inr_iff:
  "check_setting d k fallback bad e st = Inr u \<longleftrightarrow>
     (\<exists>v. setting_value d k fallback = Inr v \<and> \<not> bad v)"
  by (auto simp: check_setting_def bind_r_Inr_iff)

section \<open>The operation\<close>

record retry_actor =
  ra_user_id :: string
  ra_type :: actor
  ra_id :: string
  ra_service_account_id :: "string option"

fun actor_name :: "actor \<Rightarrow> string" where
  "actor_name ActorUser = ''user''"
| "actor_name ActorServiceAccount = ''service_account''"
| "actor_name ActorAdminKey = ''admin_key''"
| "actor_name ActorLocal = ''local''"
| "actor_name ActorSystem = ''system''"
| "actor_name ActorOauth = ''oauth''"
| "actor_name ActorPassword = ''password''"

record retry_limits =
  rl_max_queue_length :: "int option"
  rl_max_user_storage_bytes :: "int option"
  rl_max_output_bytes :: "int option"
  rl_artifact_retention_hours :: "int option"

definition max_safe :: int where "max_safe = 9007199254740991"

definition limit_ok :: "int \<Rightarrow> bool" where
  "limit_ok v \<longleftrightarrow> 0 < v \<and> v \<le> max_safe"

definition retry_output :: "retry_limits \<Rightarrow> int" where
  "retry_output l = coalesce (rl_max_output_bytes l) 209715200"

definition retry_limits_ok :: "retry_limits \<Rightarrow> bool" where
  "retry_limits_ok l \<longleftrightarrow> limit_ok (retry_output l) \<and>
     limit_ok (coalesce (rl_artifact_retention_hours l) 24) \<and>
     limit_ok (coalesce (rl_max_queue_length l) 100) \<and>
     limit_ok (coalesce (rl_max_user_storage_bytes l) 1073741824)"

definition retry_job :: "db \<Rightarrow> retry_actor \<Rightarrow> string \<Rightarrow> job_row option" where
  "retry_job d a i =
     (case (case ra_service_account_id a of
              None \<Rightarrow> get_visible d i | Some acc \<Rightarrow> get_owned d i (ra_user_id a) acc) of
        None \<Rightarrow> None
      | Some j \<Rightarrow> if j_user_id j \<noteq> ra_user_id a \<or>
            (ra_service_account_id a \<noteq> None \<and>
             Some (j_service_account_id j) \<noteq> ra_service_account_id a)
          then None else Some j)"

definition retry_admission :: "retry_limits \<Rightarrow> retry_actor \<Rightarrow> job_row \<Rightarrow> db \<Rightarrow> unit result" where
  "retry_admission l a j d =
     bind_r (check_setting d ''maintenance_mode'' (JStr ''normal'') (\<lambda>v. v \<noteq> JStr ''normal'')
       ''MAINTENANCE'' 503) (\<lambda>_.
     bind_r (check_setting d ''max_queue_length'' (JNum (coalesce (rl_max_queue_length l) 100))
       (reaches (count_active d)) ''QUEUE_FULL'' 503) (\<lambda>_.
     ensure (count_active_for_service_account d (j_service_account_id j) < 5)
       (AppError ''ACCOUNT_QUEUE_LIMIT'' 429)
     (bind_r (check_setting d ''max_user_active_jobs'' (JNum 20)
       (reaches (count_active_for_user d (ra_user_id a))) ''USER_QUEUE_LIMIT'' 429) (\<lambda>_.
      check_setting d ''max_user_storage_bytes''
       (JNum (coalesce (rl_max_user_storage_bytes l) 1073741824))
       (\<lambda>v. exceeds (max 0 (retry_output l - int (coalesce (j_output_size j) 0))) v
              (storage_usage_for_user d (ra_user_id a)))
       ''USER_STORAGE_QUOTA'' 429))))"

definition retry_record :: "(string \<Rightarrow> string) \<Rightarrow> retry_actor \<Rightarrow> string \<Rightarrow> string \<Rightarrow> timestamp \<Rightarrow>
  idempotency_row" where
  "retry_record sha a i key now = \<lparr>i_actor_type = actor_name (ra_type a), i_actor_id = ra_id a,
     i_operation = ''render.retry_svg'', i_key_hash = sha key, i_request_hash = sha i,
     i_resource_id = Some i, i_response_code = Some 202, i_expires_at = now + 86400000,
     i_created_at = now\<rparr>"

definition retry_audit :: "retry_actor \<Rightarrow> string \<Rightarrow> timestamp \<Rightarrow> audit_row" where
  "retry_audit a i now = \<lparr>au_actor_type = ra_type a, au_actor_id = ra_id a,
     au_action = ''render.svg.retried'', au_target_type = ''job'', au_target_id = i,
     au_result = ''success'', au_ip_address = None, au_user_agent = None, au_metadata = [],
     au_created_at = now\<rparr>"

text \<open>
  The transaction; its value says whether an earlier request was reused. A retention that reaches
  back before 1970 makes the cutoff 0, below every completion time, as the string order would.
\<close>

definition retry_new :: "(string \<Rightarrow> string) \<Rightarrow> retry_limits \<Rightarrow> retry_actor \<Rightarrow> string \<Rightarrow> string \<Rightarrow>
  timestamp \<Rightarrow> job_row \<Rightarrow> bool tx" where
  "retry_new sha l a i key now j =
     seq_tx (read_tx (retry_admission l a j)) (\<lambda>_.
     seq_tx (requeue_svg i (ra_user_id a) now
       (now - nat (coalesce (rl_artifact_retention_hours l) 24) * 3600000)
       (nat (retry_output l))) (\<lambda>done.
     seq_tx (guard_tx (\<lambda>_. done) (AppError ''SVG_NOT_RETRYABLE'' 409)) (\<lambda>_.
     seq_tx (insert_idempotency (retry_record sha a i key now)) (\<lambda>_.
     seq_tx (write_tx (audit (retry_audit a i now))) (\<lambda>_. return_tx False)))))"

definition retry_tx :: "(string \<Rightarrow> string) \<Rightarrow> retry_limits \<Rightarrow> retry_actor \<Rightarrow> string \<Rightarrow> string \<Rightarrow>
  timestamp \<Rightarrow> bool tx" where
  "retry_tx sha l a i key now d =
     (case retry_job d a i of
        None \<Rightarrow> Inl (AppError ''JOB_NOT_FOUND'' 404)
      | Some j \<Rightarrow>
          (case find_idempotency d (actor_name (ra_type a)) (ra_id a) ''render.retry_svg'' (sha key)
              now of
             Some r \<Rightarrow> if i_request_hash r \<noteq> sha i \<or> i_resource_id r \<noteq> Some i
                       then Inl (AppError ''IDEMPOTENCY_CONFLICT'' 409) else Inr (True, d)
           | None \<Rightarrow> retry_new sha l a i key now j d))"

definition retry_svg :: "(string \<Rightarrow> string) \<Rightarrow> retry_limits \<Rightarrow> retry_actor \<Rightarrow> string \<Rightarrow> string \<Rightarrow>
  timestamp \<Rightarrow> bool tx" where
  "retry_svg sha l a i key now d =
     (if \<not> is_id ''job_'' i then Inl (AppError ''JOB_NOT_FOUND'' 404)
      else if length key < 16 \<or> length key > 200
      then Inl (AppError ''IDEMPOTENCY_KEY_REQUIRED'' 400)
      else if \<not> retry_limits_ok l then Inl PlainError
      else retry_tx sha l a i key now d)"

section \<open>What a retry does\<close>

lemma retry_svg_new:
  assumes "retry_svg sha l a i key now d = Inr (False, d')"
  obtains j d1 d2 where "retry_limits_ok l" "retry_job d a i = Some j"
    "retry_admission l a j d = Inr ()"
    "requeue_svg i (ra_user_id a) now (now - nat (coalesce (rl_artifact_retention_hours l) 24) *
       3600000) (nat (retry_output l)) d = Inr (True, d1)"
    "insert_idempotency (retry_record sha a i key now) d1 = Inr ((), d2)"
    "d' = audit (retry_audit a i now) d2"
  using assms
  by (auto simp: retry_svg_def retry_tx_def retry_new_def seq_tx_Inr_iff
      split: if_splits option.splits)

lemma retry_svg_reused:
  assumes "retry_svg sha l a i key now d = Inr (True, d')"
  shows "d' = d"
  using assms
  by (auto simp: retry_svg_def retry_tx_def retry_new_def seq_tx_Inr_iff
      split: if_splits option.splits)

end
