(* ===== verification/Tickets.thy ===== *)
theory Tickets
  imports Nonces Text
begin

text \<open>
  Tickets (packages/ticket/src/index.ts): signed claims that let a client upload to, follow and
  delete one job. The signature scheme is the jose library, a record of functions over an opaque
  type of tokens; \<open>jose_ok\<close> states what its documentation promises. A payload is the list of its
  members, as \<open>JSON.parse\<close> gives it. All clock readings of one call are the one argument \<open>now\<close>.
\<close>

section \<open>The signature library\<close>

type_synonym payload = "(string \<times> json) list"

record 't jose =
  decode_header :: "'t \<Rightarrow> payload option"
  jwt_sign :: "payload \<Rightarrow> payload \<Rightarrow> string \<Rightarrow> 't"
  jwt_verify :: "'t \<Rightarrow> string \<Rightarrow> string \<Rightarrow> string \<Rightarrow> nat \<Rightarrow> payload option"

definition live_claims :: "string \<Rightarrow> string \<Rightarrow> nat \<Rightarrow> payload \<Rightarrow> bool" where
  "live_claims iss aud secs p \<longleftrightarrow> map_of p ''iss'' = Some (JStr iss) \<and>
     map_of p ''aud'' = Some (JStr aud) \<and> map_of p ''nbf'' = None \<and>
     (case map_of p ''exp'' of Some (JNum e) \<Rightarrow> int secs < e | _ \<Rightarrow> False)"

definition hs256 :: "string \<Rightarrow> payload" where
  "hs256 kid = [(''alg'', JStr ''HS256''), (''typ'', JStr ''JWT''), (''kid'', JStr kid)]"

text \<open>A token is read back as it was signed, under its key, until it expires.\<close>

definition jose_ok :: "'t jose \<Rightarrow> bool" where
  "jose_ok J \<longleftrightarrow> (\<forall>kid p key. decode_header J (jwt_sign J (hs256 kid) p key) = Some (hs256 kid) \<and>
     (\<forall>iss aud secs. live_claims iss aud secs p \<longrightarrow>
        jwt_verify J (jwt_sign J (hs256 kid) p key) key iss aud secs = Some p))"

section \<open>The service\<close>

datatype ticket_scope = UploadScope | StatusScope | DownloadScope | CancelScope | DeleteScope

fun scope_name :: "ticket_scope \<Rightarrow> string" where
  "scope_name UploadScope = ''upload''"
| "scope_name StatusScope = ''status''"
| "scope_name DownloadScope = ''download''"
| "scope_name CancelScope = ''cancel''"
| "scope_name DeleteScope = ''delete''"

record signing_key =
  sk_kid :: string
  sk_secret :: string

record ticket_service =
  tk_issuer :: string
  tk_audience :: string
  tk_active :: signing_key
  tk_keys :: "signing_key list"

definition kid_char :: "char \<Rightarrow> bool" where
  "kid_char c \<longleftrightarrow> is_alnum c \<or> c \<in> {CHR ''.'', CHR ''_'', CHR ''-''}"

definition is_kid :: "string \<Rightarrow> bool" where
  "is_kid s \<longleftrightarrow> 1 \<le> length s \<and> length s \<le> 100 \<and> list_all kid_char s"

text \<open>
  \<open>loadSigningKeyRing\<close>: \<open>entries\<close> are the directory's entries (is it a file, its name), \<open>reads\<close>
  the contents of a file, \<open>None\<close> where reading throws.
\<close>

definition key_files :: "string \<Rightarrow> (bool \<times> string) list \<Rightarrow> string list" where
  "key_files act entries = map snd (filter (\<lambda>(file, n). file \<and> length n \<ge> 4 \<and>
     drop (length n - 4) n = ''.key'' \<and> is_kid (take (length n - 4) n) \<and>
     n \<noteq> act @ ''.key'') entries)"

definition load_signing_key_ring ::
  "(string \<Rightarrow> string option) \<Rightarrow> string \<Rightarrow> (string \<times> (bool \<times> string) list) option \<Rightarrow>
   string option \<Rightarrow> (signing_key \<times> signing_key list) result" where
  "load_signing_key_ring reads kid dir active_file =
     (let path = (\<lambda>d n. d @ ''/'' @ n);
          load = (\<lambda>k f. case reads f of None \<Rightarrow> Inl PlainError
                    | Some s \<Rightarrow> Inr \<lparr>sk_kid = k, sk_secret = s\<rparr>) in
      if dir = None \<and> active_file = None then Inl (AppError ''TICKET_KEY_CONFIG_INVALID'' 500)
      else if \<not> is_kid kid then Inl (AppError ''TICKET_KEY_CONFIG_INVALID'' 500)
      else bind_r (load kid (case active_file of Some f \<Rightarrow> f
                     | None \<Rightarrow> path (fst (the dir)) (kid @ ''.key''))) (\<lambda>act.
        case dir of None \<Rightarrow> Inr (act, [])
        | Some (d, entries) \<Rightarrow>
            bind_r (traverse (\<lambda>n. load (take (length n - 4) n) (path d n)) (key_files kid entries))
              (\<lambda>ks. Inr (act, ks))))"

definition new_ticket_service ::
  "string \<Rightarrow> string \<Rightarrow> signing_key \<Rightarrow> signing_key list \<Rightarrow> ticket_service result" where
  "new_ticket_service iss aud act ks =
     (if length (sk_secret act) < 32 \<or> list_ex (\<lambda>k. length (sk_secret k) < 32) ks
      then Inl (AppError ''TICKET_KEY_CONFIG_INVALID'' 500)
      else if \<not> distinct (map sk_kid (act # ks))
      then Inl (AppError ''TICKET_KEY_CONFIG_INVALID'' 500)
      else Inr \<lparr>tk_issuer = iss, tk_audience = aud, tk_active = act, tk_keys = act # ks\<rparr>)"

definition key_of :: "ticket_service \<Rightarrow> string \<Rightarrow> string option" where
  "key_of ts kid = map_of (map (\<lambda>k. (sk_kid k, sk_secret k)) (tk_keys ts)) kid"

section \<open>Issuing\<close>

record ticket_subject =
  tc_resource_id :: string
  tc_user_id :: string
  tc_service_account_id :: string
  tc_api_key_id :: string
  tc_user_security_version :: nat
  tc_account_security_version :: nat

definition subject_members :: "string \<Rightarrow> ticket_subject \<Rightarrow> payload" where
  "subject_members id_field s = [(id_field, JStr (tc_resource_id s)),
     (''user_id'', JStr (tc_user_id s)),
     (''service_account_id'', JStr (tc_service_account_id s)),
     (''api_key_id'', JStr (tc_api_key_id s)),
     (''user_security_version'', JNum (int (tc_user_security_version s))),
     (''service_account_security_version'', JNum (int (tc_account_security_version s)))]"

definition standard_members :: "ticket_service \<Rightarrow> nat \<Rightarrow> nat \<Rightarrow> string \<Rightarrow> payload" where
  "standard_members ts issued ttl jti = [(''iss'', JStr (tk_issuer ts)),
     (''aud'', JStr (tk_audience ts)), (''iat'', JNum (int issued)),
     (''exp'', JNum (int (issued + ttl))), (''jti'', JStr jti)]"

definition scope_member :: "ticket_scope list \<Rightarrow> string \<times> json" where
  "scope_member scs = (''scopes'', JArr (map (\<lambda>s. JStr (scope_name s)) scs))"

definition sign_ticket :: "'t jose \<Rightarrow> ticket_service \<Rightarrow> timestamp \<Rightarrow> string \<Rightarrow> nat \<Rightarrow> payload \<Rightarrow> 't" where
  "sign_ticket J ts now jti ttl p = jwt_sign J (hs256 (sk_kid (tk_active ts)))
     (p @ standard_members ts (now div 1000) ttl jti) (sk_secret (tk_active ts))"

definition upload_members :: "nat \<Rightarrow> string \<Rightarrow> string \<Rightarrow> payload" where
  "upload_members bytes sha nonce =
     [(''size'', JNum (int bytes)), (''sha256'', JStr sha), (''nonce'', JStr nonce)]"

definition issue_upload :: "'t jose \<Rightarrow> ticket_service \<Rightarrow> timestamp \<Rightarrow> string \<Rightarrow> ticket_subject \<Rightarrow>
  nat \<Rightarrow> string \<Rightarrow> string \<Rightarrow> nat \<Rightarrow> 't" where
  "issue_upload J ts now jti s bytes sha nonce ttl = sign_ticket J ts now jti ttl
     (subject_members ''job_id'' s @ scope_member [UploadScope] # upload_members bytes sha nonce)"

definition issue_source_upload :: "'t jose \<Rightarrow> ticket_service \<Rightarrow> timestamp \<Rightarrow> string \<Rightarrow>
  ticket_subject \<Rightarrow> nat \<Rightarrow> string \<Rightarrow> string \<Rightarrow> nat \<Rightarrow> 't" where
  "issue_source_upload J ts now jti s bytes sha nonce ttl = sign_ticket J ts now jti ttl
     (subject_members ''source_id'' s @ scope_member [UploadScope] # upload_members bytes sha nonce)"

definition job_scopes :: "ticket_scope list" where
  "job_scopes = [StatusScope, DownloadScope, CancelScope, DeleteScope]"

definition issue_job :: "'t jose \<Rightarrow> ticket_service \<Rightarrow> timestamp \<Rightarrow> string \<Rightarrow> ticket_subject \<Rightarrow>
  nat \<Rightarrow> 't" where
  "issue_job J ts now jti s ttl = sign_ticket J ts now jti ttl
     (subject_members ''job_id'' s @ [scope_member job_scopes])"

section \<open>Claims\<close>

definition str_member :: "payload \<Rightarrow> string \<Rightarrow> string option" where
  "str_member p f = Option.bind (map_of p f) json_str"

fun json_num :: "json \<Rightarrow> int option" where
  "json_num (JNum i) = Some i"
| "json_num _ = None"

definition num_member :: "payload \<Rightarrow> string \<Rightarrow> int option" where
  "num_member p f = Option.bind (map_of p f) json_num"

record ticket_claims =
  cl_resource_id :: string
  cl_user_id :: string
  cl_service_account_id :: string
  cl_api_key_id :: string
  cl_user_security_version :: int
  cl_account_security_version :: int
  cl_scopes :: "string list"
  cl_payload :: payload

definition bad_claims :: app_error where
  "bad_claims = AppError ''INVALID_TICKET_CLAIMS'' 401"

definition claims_of :: "string \<Rightarrow> payload \<Rightarrow> ticket_claims result" where
  "claims_of id_field p =
     (case (str_member p id_field, str_member p ''user_id'', str_member p ''service_account_id'',
            str_member p ''api_key_id'', num_member p ''user_security_version'',
            num_member p ''service_account_security_version'',
            Option.bind (map_of p ''scopes'') string_array) of
        (Some r, Some u, Some a, Some k, Some uv, Some av, Some scs) \<Rightarrow>
          Inr \<lparr>cl_resource_id = r, cl_user_id = u, cl_service_account_id = a, cl_api_key_id = k,
               cl_user_security_version = uv, cl_account_security_version = av, cl_scopes = scs,
               cl_payload = p\<rparr>
      | _ \<Rightarrow> Inl bad_claims)"

definition validate_claims :: "payload \<Rightarrow> ticket_claims result" where
  "validate_claims p = claims_of ''job_id'' p"

definition validate_source_claims :: "payload \<Rightarrow> ticket_claims result" where
  "validate_source_claims p =
     (if str_member p ''sha256'' = None \<or> str_member p ''nonce'' = None \<or> num_member p ''size'' = None
      then Inl bad_claims else claims_of ''source_id'' p)"

section \<open>Verification\<close>

definition revoked :: "db \<Rightarrow> string \<Rightarrow> string \<Rightarrow> timestamp \<Rightarrow> bool" where
  "revoked d kind v now = exists_row (\<lambda>r. rt_selector_type r = kind \<and> rt_selector_value r = v \<and>
     rt_expires_at r > now) (revoked_tickets d)"

text \<open>Header, revoked key, known key, signature: the first half of \<open>verify\<close> and of \<open>verifiedPayload\<close>.\<close>

definition signed_payload ::
  "'t jose \<Rightarrow> ticket_service \<Rightarrow> db \<Rightarrow> 't \<Rightarrow> timestamp \<Rightarrow> payload result" where
  "signed_payload J ts d token now =
     (case decode_header J token of
        None \<Rightarrow> Inl (AppError ''INVALID_TICKET'' 401)
      | Some h \<Rightarrow>
          (case str_member h ''kid'' of
             None \<Rightarrow> Inl (AppError ''TICKET_KID_MISSING'' 401)
           | Some kid \<Rightarrow>
               if revoked d ''kid'' kid now then Inl (AppError ''TICKET_REVOKED'' 401)
               else (case key_of ts kid of
                   None \<Rightarrow> Inl (AppError ''TICKET_KEY_UNKNOWN'' 401)
                 | Some key \<Rightarrow>
                     (case jwt_verify J token key (tk_issuer ts) (tk_audience ts) (now div 1000) of
                        None \<Rightarrow> Inl (AppError ''INVALID_TICKET'' 401)
                      | Some p \<Rightarrow> Inr p))))"

definition check_jti :: "db \<Rightarrow> payload \<Rightarrow> timestamp \<Rightarrow> unit result" where
  "check_jti d p now = (case str_member p ''jti'' of
       None \<Rightarrow> Inl (AppError ''TICKET_JTI_MISSING'' 401)
     | Some j \<Rightarrow> if revoked d ''jti'' j now then Inl (AppError ''TICKET_REVOKED'' 401) else Inr ())"

definition live_subject ::
  "user_row \<Rightarrow> account_row \<Rightarrow> key_row \<Rightarrow> ticket_claims \<Rightarrow> timestamp \<Rightarrow> unit result" where
  "live_subject u a k c now =
     (if u_status u \<noteq> Active \<or> a_status a \<noteq> Active \<or> k_revoked_at k \<noteq> None \<or>
         sql_le (k_expires_at k) now
      then Inl (AppError ''TICKET_SUBJECT_INACTIVE'' 401)
      else if int (u_security_version u) \<noteq> cl_user_security_version c \<or>
         int (a_security_version a) \<noteq> cl_account_security_version c
      then Inl (AppError ''TICKET_SECURITY_VERSION_CHANGED'' 401)
      else Inr ())"

definition job_subject ::
  "db \<Rightarrow> ticket_claims \<Rightarrow> (job_row \<times> user_row \<times> account_row \<times> key_row) option" where
  "job_subject d c =
     Option.bind (find (\<lambda>j. j_id j = cl_resource_id c \<and> j_user_id j = cl_user_id c \<and>
       j_service_account_id j = cl_service_account_id c \<and> j_api_key_id j = cl_api_key_id c)
       (jobs d)) (\<lambda>j.
     Option.bind (row_by u_id (j_user_id j) (users d)) (\<lambda>u.
     Option.bind (row_by a_id (j_service_account_id j) (accounts d)) (\<lambda>a.
     map_option (\<lambda>k. (j, u, a, k)) (row_by k_id (j_api_key_id j) (api_keys d)))))"

definition revalidate_subject :: "db \<Rightarrow> ticket_claims \<Rightarrow> timestamp \<Rightarrow> unit result" where
  "revalidate_subject d c now = (case job_subject d c of
       None \<Rightarrow> Inl (AppError ''JOB_NOT_FOUND'' 404)
     | Some (j, u, a, k) \<Rightarrow> if j_status j = Deleted then Inl (AppError ''JOB_NOT_FOUND'' 404)
                          else live_subject u a k c now)"

definition source_subject ::
  "db \<Rightarrow> ticket_claims \<Rightarrow> (source_row \<times> user_row \<times> account_row \<times> key_row) option" where
  "source_subject d c =
     Option.bind (find (\<lambda>s. s_id s = cl_resource_id c \<and> s_owner_user_id s = cl_user_id c)
       (sources d)) (\<lambda>s.
     Option.bind (row_by u_id (s_owner_user_id s) (users d)) (\<lambda>u.
     Option.bind (find (\<lambda>a. a_id a = cl_service_account_id c \<and> a_owner_user_id a = u_id u)
       (accounts d)) (\<lambda>a.
     map_option (\<lambda>k. (s, u, a, k))
       (find (\<lambda>k. k_id k = cl_api_key_id c \<and> k_service_account_id k = a_id a) (api_keys d)))))"

definition revalidate_source_subject :: "db \<Rightarrow> ticket_claims \<Rightarrow> timestamp \<Rightarrow> unit result" where
  "revalidate_source_subject d c now = (case source_subject d c of
       None \<Rightarrow> Inl (AppError ''SOURCE_NOT_FOUND'' 404)
     | Some (s, u, a, k) \<Rightarrow>
         if s_status s \<in> {SDeleted, SExpired} then Inl (AppError ''SOURCE_NOT_FOUND'' 404)
         else live_subject u a k c now)"

definition verify_ticket :: "'t jose \<Rightarrow> ticket_service \<Rightarrow> db \<Rightarrow> 't \<Rightarrow> ticket_scope \<Rightarrow> string \<Rightarrow>
  timestamp \<Rightarrow> ticket_claims result" where
  "verify_ticket J ts d token scope job now =
     bind_r (signed_payload J ts d token now) (\<lambda>p.
     bind_r (validate_claims p) (\<lambda>c.
     ensure (cl_resource_id c = job) (AppError ''TICKET_JOB_MISMATCH'' 403)
     (ensure (scope_name scope \<in> set (cl_scopes c)) (AppError ''TICKET_SCOPE_MISSING'' 403)
     (bind_r (check_jti d p now) (\<lambda>_.
      bind_r (revalidate_subject d c now) (\<lambda>_. Inr c))))))"

definition verify_source_upload :: "'t jose \<Rightarrow> ticket_service \<Rightarrow> db \<Rightarrow> 't \<Rightarrow> string \<Rightarrow>
  timestamp \<Rightarrow> ticket_claims result" where
  "verify_source_upload J ts d token src now =
     bind_r (signed_payload J ts d token now) (\<lambda>p.
     bind_r (check_jti d p now) (\<lambda>_.
     bind_r (validate_source_claims p) (\<lambda>c.
     ensure (cl_resource_id c = src) (AppError ''TICKET_SOURCE_MISMATCH'' 403)
     (ensure (''upload'' \<in> set (cl_scopes c)) (AppError ''TICKET_SCOPE_MISSING'' 403)
     (bind_r (revalidate_source_subject d c now) (\<lambda>_. Inr c))))))"

section \<open>What an accepted ticket shows\<close>

lemma live_subject_Inr_iff:
  "live_subject u a k c now = Inr () \<longleftrightarrow>
     u_status u = Active \<and> a_status a = Active \<and> k_revoked_at k = None \<and>
     (\<forall>t. k_expires_at k = Some t \<longrightarrow> now < t) \<and>
     cl_user_security_version c = int (u_security_version u) \<and>
     cl_account_security_version c = int (a_security_version a)"
  by (auto simp: live_subject_def sql_le_iff not_le)

lemma job_subject_SomeD:
  "job_subject d c = Some (j, u, a, k) \<Longrightarrow>
   j \<in> set (jobs d) \<and> j_id j = cl_resource_id c \<and> u \<in> set (users d) \<and> u_id u = cl_user_id c \<and>
   a \<in> set (accounts d) \<and> a_id a = cl_service_account_id c \<and>
   k \<in> set (api_keys d) \<and> k_id k = cl_api_key_id c"
  by (auto simp: job_subject_def bind_eq_Some_conv find_Some_iff dest!: row_by_SomeD)

lemma verify_ticket_Inr:
  assumes "verify_ticket J ts d token scope job now = Inr c"
  obtains j u a k where "job_subject d c = Some (j, u, a, k)" "cl_resource_id c = job"
    "scope_name scope \<in> set (cl_scopes c)" "j_status j \<noteq> Deleted"
    "live_subject u a k c now = Inr ()"
  using assms
  by (auto simp: verify_ticket_def bind_r_Inr_iff revalidate_subject_def
      split: option.splits if_splits)

lemma revoked_kid_rejected:
  "decode_header J token = Some h \<Longrightarrow> str_member h ''kid'' = Some kid \<Longrightarrow>
   revoked d ''kid'' kid now \<Longrightarrow>
   verify_ticket J ts d token scope job now = Inl (AppError ''TICKET_REVOKED'' 401)"
  by (simp add: verify_ticket_def signed_payload_def)

section \<open>Issued tickets verify\<close>

lemma map_of_members [simp]:
  "map_of (x # xs) k = (if fst x = k then Some (snd x) else map_of xs k)"
  by (cases x) auto

lemma scope_array: "string_array (snd (scope_member scs)) = Some (map scope_name scs)"
  using string_array_JStr [of "map scope_name scs"]
  by (simp add: scope_member_def comp_def del: string_array.simps)

lemma claims_of_issued:
  assumes "id_field \<in> {''job_id'', ''source_id''}"
  shows "claims_of id_field (subject_members id_field s @ scope_member scs # rest) =
    Inr \<lparr>cl_resource_id = tc_resource_id s, cl_user_id = tc_user_id s,
      cl_service_account_id = tc_service_account_id s, cl_api_key_id = tc_api_key_id s,
      cl_user_security_version = int (tc_user_security_version s),
      cl_account_security_version = int (tc_account_security_version s),
      cl_scopes = map scope_name scs,
      cl_payload = subject_members id_field s @ scope_member scs # rest\<rparr>"
  using assms scope_array [of scs]
  by (auto simp: claims_of_def subject_members_def str_member_def num_member_def scope_member_def
      simp del: string_array.simps)

definition issued_claims :: "ticket_subject \<Rightarrow> ticket_scope list \<Rightarrow> payload \<Rightarrow> ticket_claims" where
  "issued_claims s scs p = \<lparr>cl_resource_id = tc_resource_id s, cl_user_id = tc_user_id s,
      cl_service_account_id = tc_service_account_id s, cl_api_key_id = tc_api_key_id s,
      cl_user_security_version = int (tc_user_security_version s),
      cl_account_security_version = int (tc_account_security_version s),
      cl_scopes = map scope_name scs, cl_payload = p\<rparr>"

lemma key_of_active:
  "new_ticket_service iss aud act ks = Inr ts \<Longrightarrow>
   key_of ts (sk_kid (tk_active ts)) = Some (sk_secret (tk_active ts))"
  by (auto simp: new_ticket_service_def key_of_def split: if_splits)

lemma signed_payload_issued:
  assumes "jose_ok J" and "new_ticket_service iss aud act ks = Inr ts"
    and "\<not> revoked d ''kid'' (sk_kid (tk_active ts)) now'"
    and "now' div 1000 < now div 1000 + ttl"
    and "\<forall>f\<in>{''iss'', ''aud'', ''nbf'', ''exp''}. map_of p f = None"
  shows "signed_payload J ts d (sign_ticket J ts now jti ttl p) now' =
    Inr (p @ standard_members ts (now div 1000) ttl jti)"
proof -
  have "live_claims (tk_issuer ts) (tk_audience ts) (now' div 1000)
      (p @ standard_members ts (now div 1000) ttl jti)"
    using assms(4,5) by (simp add: live_claims_def standard_members_def map_add_def)
  moreover have "str_member (hs256 kid) ''kid'' = Some kid" for kid
    by (simp add: hs256_def str_member_def)
  ultimately show ?thesis
    using assms(1,3) key_of_active [OF assms(2)]
    by (simp add: signed_payload_def sign_ticket_def jose_ok_def)
qed

lemma str_member_jti:
  "map_of p ''jti'' = None \<Longrightarrow> str_member (p @ standard_members ts issued ttl jti) ''jti'' = Some jti"
  by (simp add: str_member_def standard_members_def map_add_def)

text \<open>A job ticket is accepted for each of its scopes as long as its subject stays as it was.\<close>

lemma verify_issued_job:
  assumes "jose_ok J" and "new_ticket_service iss aud act ks = Inr ts"
    and "\<not> revoked d ''kid'' (sk_kid (tk_active ts)) now'" and "\<not> revoked d ''jti'' jti now'"
    and "now' div 1000 < now div 1000 + ttl"
    and "c = issued_claims s job_scopes (subject_members ''job_id'' s @
       [scope_member job_scopes] @ standard_members ts (now div 1000) ttl jti)"
    and "job_subject d c = Some (j, u, a, k)" and "j_status j \<noteq> Deleted"
    and "live_subject u a k c now' = Inr ()"
  shows "verify_ticket J ts d (issue_job J ts now jti s ttl) scope job now' =
    (if tc_resource_id s \<noteq> job then Inl (AppError ''TICKET_JOB_MISMATCH'' 403)
     else if scope \<notin> set job_scopes then Inl (AppError ''TICKET_SCOPE_MISSING'' 403)
     else Inr c)"
proof -
  let ?p = "subject_members ''job_id'' s @ [scope_member job_scopes]"
  let ?q = "?p @ standard_members ts (now div 1000) ttl jti"
  have "\<forall>f\<in>{''iss'', ''aud'', ''nbf'', ''exp''}. map_of ?p f = None"
    by (simp add: subject_members_def scope_member_def)
  from signed_payload_issued [OF assms(1,2,3,5) this]
  have sp: "signed_payload J ts d (issue_job J ts now jti s ttl) now' = Inr ?q"
    by (simp add: issue_job_def)
  have vc: "validate_claims ?q = Inr c"
    using claims_of_issued [of "''job_id''" s job_scopes "standard_members ts (now div 1000) ttl jti"]
      assms(6) by (simp add: validate_claims_def issued_claims_def)
  have "map_of ?p ''jti'' = None" by (simp add: subject_members_def scope_member_def)
  from str_member_jti [OF this] have "check_jti d ?q now' = Inr ()"
    using assms(4) by (simp add: check_jti_def)
  moreover have "revalidate_subject d c now' = Inr ()"
    using assms(7-9) by (simp add: revalidate_subject_def)
  moreover have "cl_resource_id c = tc_resource_id s" "cl_scopes c = map scope_name job_scopes"
    using assms(6) by (simp_all add: issued_claims_def)
  moreover have "scope_name scope \<in> set (map scope_name job_scopes) \<longleftrightarrow> scope \<in> set job_scopes"
    by (cases scope) (simp_all add: job_scopes_def)
  ultimately show ?thesis using sp vc by (simp add: verify_ticket_def ensure_def)
qed

section \<open>A signature library that keeps the promise\<close>

text \<open>Tokens that carry the header, the payload and the key: the plainest model of the laws.\<close>

definition plain_jose :: "(payload \<times> payload \<times> string) jose" where
  "plain_jose = \<lparr>decode_header = (\<lambda>(h, p, k). Some h), jwt_sign = (\<lambda>h p k. (h, p, k)),
     jwt_verify = (\<lambda>(h, p, k) key iss aud secs.
       if k = key \<and> live_claims iss aud secs p then Some p else None)\<rparr>"

lemma plain_jose_ok: "jose_ok plain_jose"
  by (simp add: jose_ok_def plain_jose_def)

end
