(* ===== verification/Zip_Paths.thy ===== *)
theory Zip_Paths
  imports Text
begin

text \<open>
  Paths of source archives (packages/zip-validation/src/index.ts): the normalisation every entry
  name and entrypoint passes, and \<open>extname\<close> and \<open>resolve\<close> of node:path as the code uses them. A
  name is the list of its UTF-8 bytes, so \<open>length\<close> is \<open>Buffer.byteLength\<close> and the code points are
  the bytes that do not continue a character; every pattern of the code is ASCII.
\<close>

section \<open>Parts of a path\<close>

definition to_lower_char :: "char \<Rightarrow> char" where
  "to_lower_char c = (if is_upper c then char_of (ord_of c + 32) else c)"

definition to_lower :: "string \<Rightarrow> string" where
  "to_lower s = map to_lower_char s"

definition code_points :: "string \<Rightarrow> nat" where
  "code_points s = length (filter (\<lambda>c. \<not> (128 \<le> ord_of c \<and> ord_of c < 192)) s)"

definition control_char :: "char \<Rightarrow> bool" where
  "control_char c \<longleftrightarrow> ord_of c < 32 \<or> ord_of c = 127"

text \<open>\<open>/^(con|prn|aux|nul|com[1-9]|lpt[1-9])(?:\.|$)/i\<close>: the part up to its first dot.\<close>

definition windows_reserved :: "string \<Rightarrow> bool" where
  "windows_reserved part \<longleftrightarrow> (let s = to_lower (takeWhile (\<lambda>c. c \<noteq> CHR ''.'') part) in
     s \<in> {''con'', ''prn'', ''aux'', ''nul''} \<or>
     (length s = 4 \<and> take 3 s \<in> {''com'', ''lpt''} \<and> is_digit (s ! 3) \<and> s ! 3 \<noteq> CHR ''0''))"

definition dot_part :: "string \<Rightarrow> bool" where
  "dot_part p \<longleftrightarrow> p = [] \<or> p = ''.'' \<or> p = ''..''"

definition unsafe_name :: "nat \<Rightarrow> string \<Rightarrow> bool" where
  "unsafe_name max_name p \<longleftrightarrow> code_points p > max_name \<or> length p > 255 \<or>
     (p \<noteq> [] \<and> last p \<in> {CHR '' '', CHR ''.''}) \<or> windows_reserved p"

text \<open>The extension of the last non-empty part, from its last dot, unless that dot is first.\<close>

definition last_part :: "string \<Rightarrow> string" where
  "last_part p = (case rev (filter (\<lambda>x. x \<noteq> []) (split_on CHR ''/'' p)) of [] \<Rightarrow> [] | x # _ \<Rightarrow> x)"

definition extname :: "string \<Rightarrow> string" where
  "extname p = (let b = last_part p; pre = rev (dropWhile (\<lambda>c. c \<noteq> CHR ''.'') (rev b)) in
     if length pre \<le> 1 \<or> b = ''..'' then [] else drop (length pre - 1) b)"

definition allowed_extensions :: "string set" where
  "allowed_extensions = {''.tex'', ''.sty'', ''.cls'', ''.bib'', ''.bst'', ''.csv'', ''.dat'',
     ''.txt'', ''.png'', ''.jpg'', ''.jpeg'', ''.pdf''}"

section \<open>Normalisation\<close>

record zip_limits =
  max_extracted_bytes :: nat
  max_file_bytes :: nat
  max_entries :: nat
  max_files :: nat
  max_depth :: nat
  max_name_length :: nat

text \<open>The loop over the parts throws at the first bad one.\<close>

fun check_parts :: "nat \<Rightarrow> string list \<Rightarrow> unit result" where
  "check_parts n [] = Inr ()"
| "check_parts n (p # ps) =
     (if dot_part p then Inl (AppError ''ZIP_DOT_PATH'' 422)
      else if unsafe_name n p then Inl (AppError ''ZIP_UNSAFE_NAME'' 422)
      else check_parts n ps)"

definition slashes :: "string \<Rightarrow> string" where
  "slashes s = map (\<lambda>c. if c = CHR 0x5C then CHR ''/'' else c) s"

definition drive_letter :: "string \<Rightarrow> bool" where
  "drive_letter s \<longleftrightarrow> (case s of a # b # _ \<Rightarrow> (is_lower a \<or> is_upper a) \<and> b = CHR '':'' | _ \<Rightarrow> False)"

definition normalize_entry :: "string \<Rightarrow> zip_limits \<Rightarrow> string result" where
  "normalize_entry name lim =
     (if list_ex control_char name then Inl (AppError ''ZIP_CONTROL_CHARACTER'' 422)
      else
        (let replaced = slashes name in
         if starts_with ''/'' replaced \<or> drive_letter replaced
         then Inl (AppError ''ZIP_ABSOLUTE_PATH'' 422)
         else
           (let dir = ends_with ''/'' replaced;
                all = split_on CHR ''/'' replaced;
                parts = (if dir then butlast all else all) in
            if parts = [] \<or> length parts > max_depth lim then Inl (AppError ''ZIP_DEPTH'' 422)
            else bind_r (check_parts (max_name_length lim) parts) (\<lambda>_.
              Inr (join_on CHR ''/'' parts @ (if dir then ''/'' else []))))))"

definition path_limits :: "nat \<Rightarrow> nat \<Rightarrow> zip_limits" where
  "path_limits depth name_length = \<lparr>max_extracted_bytes = 1, max_file_bytes = 1, max_entries = 1,
     max_files = 1, max_depth = depth, max_name_length = name_length\<rparr>"

definition validate_entrypoint :: "string \<Rightarrow> nat \<Rightarrow> nat \<Rightarrow> string result" where
  "validate_entrypoint v depth name_length =
     (if ends_with ''/'' v \<or> CHR 0x5C \<in> set v then Inl (AppError ''INVALID_ENTRYPOINT'' 422)
      else bind_r (normalize_entry v (path_limits depth name_length)) (\<lambda>p.
        if to_lower (extname p) \<noteq> ''.tex'' then Inl (AppError ''INVALID_ENTRYPOINT'' 422)
        else Inr p))"

definition validate_source_file :: "string \<Rightarrow> nat \<Rightarrow> nat \<Rightarrow> string result" where
  "validate_source_file v depth name_length =
     (if ends_with ''/'' v then Inl (AppError ''INVALID_SOURCE_PATH'' 422)
      else bind_r (normalize_entry v (path_limits depth name_length)) (\<lambda>p.
        if to_lower (extname p) \<notin> allowed_extensions
        then Inl (AppError ''ZIP_EXTENSION_REJECTED'' 422) else Inr p))"

section \<open>What a normalised name looks like\<close>

definition clean_part :: "nat \<Rightarrow> string \<Rightarrow> bool" where
  "clean_part n p \<longleftrightarrow> \<not> dot_part p \<and> \<not> unsafe_name n p \<and> CHR ''/'' \<notin> set p \<and>
     CHR 0x5C \<notin> set p \<and> \<not> list_ex control_char p"

definition clean_path :: "zip_limits \<Rightarrow> string \<Rightarrow> bool" where
  "clean_path lim p \<longleftrightarrow> (\<exists>ps. ps \<noteq> [] \<and> length ps \<le> max_depth lim \<and>
     list_all (clean_part (max_name_length lim)) ps \<and> p = join_on CHR ''/'' ps \<and>
     \<not> drive_letter p)"

lemma check_parts_Inr_iff:
  "check_parts n ps = Inr u \<longleftrightarrow> list_all (\<lambda>p. \<not> dot_part p \<and> \<not> unsafe_name n p) ps"
  by (induction ps) auto

lemma set_slashes: "c \<in> set (slashes s) \<Longrightarrow> c = CHR ''/'' \<or> c \<in> set s"
  by (auto simp: slashes_def)

lemma no_backslash_slashes: "CHR 0x5C \<notin> set (slashes s)"
  by (auto simp: slashes_def)

lemma slashes_id: "CHR 0x5C \<notin> set s \<Longrightarrow> slashes s = s"
  by (induction s) (auto simp: slashes_def)

lemma set_parts_subset: "p \<in> set (split_on c s) \<Longrightarrow> set p \<subseteq> set s"
  by (induction s arbitrary: p) (fastforce split: if_splits list.splits)+

lemma ends_with_slash: "ends_with [c] s \<longleftrightarrow> s \<noteq> [] \<and> last s = c"
  by (cases s rule: rev_cases) (auto simp: ends_with_def)

lemma split_on_snoc: "split_on c (s @ [c]) = split_on c s @ [[]]"
  by (induction s) (auto split: list.splits)

lemma normalize_entry_parts:
  assumes "normalize_entry name lim = Inr p"
  obtains ps dir where "ps \<noteq> []" "length ps \<le> max_depth lim"
    "list_all (clean_part (max_name_length lim)) ps"
    "p = join_on CHR ''/'' ps @ (if dir then ''/'' else [])" "\<not> drive_letter p"
    "dir = ends_with ''/'' (slashes name)" "slashes name = p"
proof -
  let ?r = "slashes name"
  let ?dir = "ends_with ''/'' ?r"
  let ?all = "split_on CHR ''/'' ?r"
  let ?ps = "if ?dir then butlast ?all else ?all"
  from assms have ctl: "\<not> list_ex control_char name" and drv: "\<not> drive_letter ?r"
    and len: "?ps \<noteq> []" "length ?ps \<le> max_depth lim"
    and ok: "list_all (\<lambda>q. \<not> dot_part q \<and> \<not> unsafe_name (max_name_length lim) q) ?ps"
    and p: "p = join_on CHR ''/'' ?ps @ (if ?dir then ''/'' else [])"
    by (auto simp: normalize_entry_def Let_def bind_r_Inr_iff check_parts_Inr_iff
        split: if_splits)
  have join: "?r = join_on CHR ''/'' ?ps @ (if ?dir then ''/'' else [])"
  proof (cases ?dir)
    case True
    then obtain s where s: "?r = s @ ''/''"
      by (auto simp: ends_with_slash) (metis append_butlast_last_id)
    then show ?thesis using True by (simp add: split_on_snoc)
  qed simp
  have "set ?ps \<subseteq> set ?all" by (auto dest: in_set_butlastD)
  have clean: "clean_part (max_name_length lim) q" if "q \<in> set ?ps" for q
  proof -
    have q: "q \<in> set ?all" using that \<open>set ?ps \<subseteq> set ?all\<close> by blast
    have sub: "set q \<subseteq> set ?r" by (rule set_parts_subset [OF q])
    have noslash: "CHR ''/'' \<notin> set q" by (rule split_on_parts [OF q])
    have "\<not> list_ex control_char q"
      using sub noslash ctl set_slashes by (fastforce simp: list_ex_iff)
    moreover have "CHR 0x5C \<notin> set q" using sub no_backslash_slashes by blast
    ultimately show ?thesis
      using ok that noslash by (auto simp: clean_part_def list_all_iff)
  qed
  show thesis
  proof (rule that [of ?ps ?dir])
    show "list_all (clean_part (max_name_length lim)) ?ps"
      unfolding list_all_iff using clean by blast
    show "slashes name = p" unfolding p by (rule join)
    then show "\<not> drive_letter p" using drv by simp
  qed (use len p in simp_all)
qed

lemma list_all_clean_parts:
  "list_all (clean_part n) ps \<Longrightarrow> list_all (\<lambda>p. \<not> dot_part p \<and> \<not> unsafe_name n p) ps"
  by (auto simp: list_all_iff clean_part_def)

lemma clean_part_not_Nil: "clean_part n p \<Longrightarrow> p \<noteq> []"
  by (auto simp: clean_part_def dot_part_def)

lemma set_join_on: "set (join_on c ps) \<subseteq> insert c (\<Union> (set ` set ps))"
  by (induction c ps rule: join_on.induct) auto

lemma last_join_on:
  "ps \<noteq> [] \<Longrightarrow> [] \<notin> set ps \<Longrightarrow> join_on c ps \<noteq> [] \<and> last (join_on c ps) = last (last ps)"
  by (induction c ps rule: join_on.induct) auto

lemma hd_join_on: "ps \<noteq> [] \<Longrightarrow> hd ps \<noteq> [] \<Longrightarrow> hd (join_on c ps) = hd (hd ps)"
  by (induction c ps rule: join_on.induct) auto

text \<open>A clean path contains no backslash and no control character, and is not absolute.\<close>

lemma clean_join:
  assumes "ps \<noteq> []" and "list_all (clean_part n) ps"
  shows "CHR 0x5C \<notin> set (join_on CHR ''/'' ps)" "\<not> list_ex control_char (join_on CHR ''/'' ps)"
    "\<not> starts_with ''/'' (join_on CHR ''/'' ps)" "\<not> ends_with ''/'' (join_on CHR ''/'' ps)"
    "join_on CHR ''/'' ps \<noteq> []" "split_on CHR ''/'' (join_on CHR ''/'' ps) = ps"
proof -
  have parts: "p \<in> set ps \<Longrightarrow> p \<noteq> [] \<and> CHR ''/'' \<notin> set p \<and> CHR 0x5C \<notin> set p \<and>
      (\<forall>c\<in>set p. \<not> control_char c)" for p
    using assms(2) by (auto simp: list_all_iff clean_part_def list_ex_iff dot_part_def)
  have sub: "set (join_on CHR ''/'' ps) \<subseteq> insert CHR ''/'' (\<Union> (set ` set ps))"
    by (rule set_join_on)
  show "CHR 0x5C \<notin> set (join_on CHR ''/'' ps)" using sub parts by fastforce
  have "\<not> control_char CHR ''/''" by (simp add: control_char_def)
  with sub parts show "\<not> list_ex control_char (join_on CHR ''/'' ps)"
    by (fastforce simp: list_ex_iff)
  have nil: "[] \<notin> set ps" using parts by blast
  have ends: "join_on CHR ''/'' ps \<noteq> [] \<and> last (join_on CHR ''/'' ps) = last (last ps)"
    by (rule last_join_on [OF assms(1) nil])
  then show "join_on CHR ''/'' ps \<noteq> []" by blast
  have l: "last ps \<in> set ps" "hd ps \<in> set ps" using assms(1) by simp_all
  with ends parts show "\<not> ends_with ''/'' (join_on CHR ''/'' ps)"
    unfolding ends_with_slash by (metis last_in_set)
  have "hd (join_on CHR ''/'' ps) = hd (hd ps)"
    using hd_join_on [OF assms(1)] parts l(2) by blast
  with ends parts l(2) show "\<not> starts_with ''/'' (join_on CHR ''/'' ps)"
    by (cases "join_on CHR ''/'' ps") (auto simp: starts_with_def dest!: parts, metis list.set_sel(1))
  show "split_on CHR ''/'' (join_on CHR ''/'' ps) = ps"
    using parts by (intro split_join assms(1)) blast
qed

text \<open>Normalising twice changes nothing.\<close>

lemma normalize_entry_idem:
  assumes "normalize_entry name lim = Inr p"
  shows "normalize_entry p lim = Inr p"
proof -
  from normalize_entry_parts [OF assms] obtain ps dir where ps: "ps \<noteq> []"
    "length ps \<le> max_depth lim" "list_all (clean_part (max_name_length lim)) ps"
    "p = join_on CHR ''/'' ps @ (if dir then ''/'' else [])" "\<not> drive_letter p" by metis
  note clean = clean_join [OF ps(1,3)]
  have nc: "\<not> control_char CHR ''/''" by (simp add: control_char_def)
  have s: "slashes p = p" by (rule slashes_id) (use clean(1) ps(4) in auto)
  have "\<not> list_ex control_char p" using clean(2) nc ps(4) by auto
  moreover have "\<not> starts_with ''/'' p"
    using clean(3,5) ps(4) by (cases "join_on CHR ''/'' ps") (auto simp: starts_with_def)
  moreover have e: "ends_with ''/'' p \<longleftrightarrow> dir"
    using clean(4) ps(4) by (cases dir) (simp_all add: ends_with_slash)
  moreover have "(if dir then butlast (split_on CHR ''/'' p) else split_on CHR ''/'' p) = ps"
    using clean(6) ps(4) by (cases dir) (simp_all add: split_on_snoc)
  moreover have "check_parts (max_name_length lim) ps = Inr ()"
    using list_all_clean_parts [OF ps(3)] by (simp add: check_parts_Inr_iff)
  ultimately show ?thesis
    using ps(1,2,5) ps(4) [symmetric] s
    unfolding normalize_entry_def Let_def by (cases dir) simp_all
qed

lemma validate_entrypoint_clean:
  assumes "validate_entrypoint v depth n = Inr p"
  shows "p = v \<and> clean_path (path_limits depth n) p \<and> to_lower (extname p) = ''.tex''"
proof -
  from assms have v: "\<not> ends_with ''/'' v" "CHR 0x5C \<notin> set v"
    and n: "normalize_entry v (path_limits depth n) = Inr p"
    and x: "to_lower (extname p) = ''.tex''"
    by (auto simp: validate_entrypoint_def bind_r_Inr_iff split: if_splits)
  from normalize_entry_parts [OF n] slashes_id [OF v(2)] v(1) x show ?thesis
    unfolding clean_path_def by (metis append.right_neutral)
qed

section \<open>\<open>resolve\<close>\<close>

text \<open>Segments of an absolute path: empty ones and dots vanish, two dots go up.\<close>

definition resolve_part :: "string \<Rightarrow> string list \<Rightarrow> string list" where
  "resolve_part p acc = (if p = [] \<or> p = ''.'' then acc
     else if p = ''..'' then (if acc = [] then [] else butlast acc) else acc @ [p])"

definition path_resolve :: "string \<Rightarrow> string \<Rightarrow> string" where
  "path_resolve root p =
     ''/'' @ join_on CHR ''/'' (fold resolve_part (split_on CHR ''/''
       (if starts_with ''/'' p then p else root @ ''/'' @ p)) [])"

definition real_root :: "string \<Rightarrow> bool" where
  "real_root root \<longleftrightarrow> (\<exists>ps. ps \<noteq> [] \<and> list_all (\<lambda>p. \<not> dot_part p \<and> CHR ''/'' \<notin> set p) ps \<and>
     root = ''/'' @ join_on CHR ''/'' ps)"

lemma fold_resolve_plain:
  "list_all (\<lambda>p. \<not> dot_part p) ps \<Longrightarrow> fold resolve_part ps acc = acc @ ps"
  by (induction ps arbitrary: acc) (auto simp: resolve_part_def dot_part_def)

text \<open>Below a real root a clean path resolves to itself: it cannot leave the root.\<close>

lemma resolve_clean:
  assumes "real_root root" and "clean_path lim p"
  shows "path_resolve root p = root @ ''/'' @ p"
proof -
  from assms(1) obtain rs where rs: "rs \<noteq> []"
    "list_all (\<lambda>p. \<not> dot_part p \<and> CHR ''/'' \<notin> set p) rs" "root = ''/'' @ join_on CHR ''/'' rs"
    by (auto simp: real_root_def)
  from assms(2) obtain ps where ps: "ps \<noteq> []" "list_all (clean_part (max_name_length lim)) ps"
    "p = join_on CHR ''/'' ps" by (auto simp: clean_path_def)
  have noslash: "\<forall>q\<in>set (rs @ ps). CHR ''/'' \<notin> set q"
    using rs(2) ps(2) by (auto simp: list_all_iff clean_part_def)
  have "root @ ''/'' @ p = CHR ''/'' # join_on CHR ''/'' (rs @ ps)"
    using rs(1,3) ps(1,3) by (simp add: join_on_append)
  moreover have "split_on CHR ''/'' (CHR ''/'' # join_on CHR ''/'' (rs @ ps)) = [] # rs @ ps"
    using rs(1) noslash by (simp add: split_join)
  moreover have "fold resolve_part ([] # rs @ ps) [] = rs @ ps"
    using fold_resolve_plain [of "rs @ ps" "[]"] rs(2) ps(2)
    by (auto simp: resolve_part_def list_all_iff clean_part_def)
  ultimately show ?thesis
    using clean_join(3) [OF ps(1,2)] ps(3) unfolding path_resolve_def by simp
qed

end
