(* ===== verification/Render_Tickets.thy ===== *)
theory Render_Tickets
  imports Svg_Retry Tickets Zip_Paths
begin

text \<open>
  \<open>RenderTicketsService\<close> (apps/internal-api/src/services/render-tickets.ts): admission of new
  render jobs, exactly once for each idempotency key. A request reads the database, signs tickets,
  runs one transaction and, when that fails, looks the key up again: between these other processes
  may commit, so a request takes the database and the clock as they are at each of its \<open>visits\<close>.
  Fresh identifiers and ticket ids (random bytes) are arguments; \<open>sha\<close> is the hexadecimal SHA-256.
\<close>

section \<open>Actors, dependencies and replies\<close>

record service_actor =
  sa_user_id :: string
  sa_service_account_id :: string
  sa_api_key_id :: string
  sa_user_security_version :: nat
  sa_account_security_version :: nat

definition to_subject :: "service_actor \<Rightarrow> string \<Rightarrow> ticket_subject" where
  "to_subject a i = \<lparr>tc_resource_id = i, tc_user_id = sa_user_id a,
     tc_service_account_id = sa_service_account_id a, tc_api_key_id = sa_api_key_id a,
     tc_user_security_version = sa_user_security_version a,
     tc_account_security_version = sa_account_security_version a\<rparr>"

record 't ticket_deps =
  dp_jose :: "'t jose"
  dp_tickets :: ticket_service
  dp_sha :: "string \<Rightarrow> string"
  dp_url :: "string \<Rightarrow> string"
  dp_renderer_version :: string
  dp_max_output_bytes :: nat
  dp_max_queue_length :: nat
  dp_max_user_storage_bytes :: nat
  dp_retention_hours :: nat

record fresh_ids =
  fr_job_id :: string
  fr_source_id :: string
  fr_nonce :: string
  fr_upload_jti :: string
  fr_job_jti :: string

record visits =
  vs_lookup :: "timestamp \<times> db"
  vs_commit :: "timestamp \<times> db"
  vs_raced :: "timestamp \<times> db"

record 't upload_reply =
  up_job_id :: string
  up_upload_ticket :: 't
  up_job_ticket :: 't
  up_upload_url :: string
  up_expires_at :: timestamp

record 't job_reply =
  jb_job_id :: string
  jb_job_ticket :: 't
  jb_expires_at :: timestamp

datatype 't render_reply = UploadReply nat "'t upload_reply" | JobReply nat "'t job_reply"

section \<open>Admission\<close>

definition assert_accepting :: "'t ticket_deps \<Rightarrow> service_actor \<Rightarrow> nat \<Rightarrow> db \<Rightarrow> unit result" where
  "assert_accepting dp a bytes d =
     bind_r (check_setting d ''maintenance_mode'' (JStr ''normal'') (\<lambda>v. v \<noteq> JStr ''normal'')
       ''MAINTENANCE'' 503) (\<lambda>_.
     bind_r (check_setting d ''max_queue_length'' (JNum (int (dp_max_queue_length dp)))
       (reaches (count_active d)) ''QUEUE_FULL'' 503) (\<lambda>_.
     ensure (count_active_for_service_account d (sa_service_account_id a) < 5)
       (AppError ''ACCOUNT_QUEUE_LIMIT'' 429)
     (bind_r (check_setting d ''max_user_active_jobs'' (JNum 20)
       (reaches (count_active_for_user d (sa_user_id a))) ''USER_QUEUE_LIMIT'' 429) (\<lambda>_.
      check_setting d ''max_user_storage_bytes'' (JNum (int (dp_max_user_storage_bytes dp)))
       (\<lambda>v. exceeds (int (bytes + dp_max_output_bytes dp)) v
              (storage_usage_for_user d (sa_user_id a)))
       ''USER_STORAGE_QUOTA'' 429))))"

definition require_owned_job :: "db \<Rightarrow> service_actor \<Rightarrow> string \<Rightarrow> job_row result" where
  "require_owned_job d a i =
     (case get_owned d i (sa_user_id a) (sa_service_account_id a) of
        None \<Rightarrow> Inl (AppError ''JOB_NOT_FOUND'' 404)
      | Some j \<Rightarrow> if j_api_key_id j \<noteq> sa_api_key_id a then Inl (AppError ''JOB_NOT_FOUND'' 404)
                 else Inr j)"

section \<open>Idempotency\<close>

text \<open>The first lookup, and the lookup after a failed transaction.\<close>

definition existing_resource ::
  "db \<Rightarrow> string \<Rightarrow> string \<Rightarrow> string \<Rightarrow> string \<Rightarrow> timestamp \<Rightarrow> string option result" where
  "existing_resource d acc op kh rh now =
     (case find_idempotency d ''service_account'' acc op kh now of
        None \<Rightarrow> Inr None
      | Some r \<Rightarrow>
          if i_request_hash r \<noteq> rh then Inl (AppError ''IDEMPOTENCY_CONFLICT'' 409)
          else (case i_resource_id r of
              None \<Rightarrow> Inl (AppError ''IDEMPOTENCY_INCOMPLETE'' 409)
            | Some i \<Rightarrow> Inr (Some i)))"

definition raced_resource ::
  "db \<Rightarrow> string \<Rightarrow> string \<Rightarrow> string \<Rightarrow> string \<Rightarrow> timestamp \<Rightarrow> string option" where
  "raced_resource d acc op kh rh now =
     (case find_idempotency d ''service_account'' acc op kh now of
        None \<Rightarrow> None
      | Some r \<Rightarrow> (case i_resource_id r of
            None \<Rightarrow> None
          | Some i \<Rightarrow> if i \<noteq> [] \<and> i_request_hash r = rh then Some i else None))"

text \<open>
  The transaction at the second visit: its new database, or, when it throws, the unchanged one
  and the reply for the resource that the key names by the third visit.
\<close>

definition commit_or_raced :: "visits \<Rightarrow> unit tx \<Rightarrow> 'r \<Rightarrow> string option \<Rightarrow>
  (string \<Rightarrow> 'r result) \<Rightarrow> 'r result \<times> db" where
  "commit_or_raced vs tx reply raced issue =
     (case tx (snd (vs_commit vs)) of
        Inr (_, d') \<Rightarrow> (Inr reply, d')
      | Inl e \<Rightarrow> (case raced of Some i \<Rightarrow> issue i | None \<Rightarrow> Inl e, snd (vs_commit vs)))"

section \<open>Replies for existing jobs\<close>

definition upload_url :: "'t ticket_deps \<Rightarrow> string \<Rightarrow> string" where
  "upload_url dp i = dp_url dp (''/api/v1/jobs/'' @ i @ ''/source'')"

definition renew :: "'t ticket_deps \<Rightarrow> service_actor \<Rightarrow> string \<Rightarrow> timestamp \<Rightarrow> db \<Rightarrow> string \<Rightarrow>
  't job_reply result" where
  "renew dp a i now d jti = bind_r (require_owned_job d a i) (\<lambda>_.
     Inr \<lparr>jb_job_id = i,
       jb_job_ticket = issue_job (dp_jose dp) (dp_tickets dp) now jti (to_subject a i) 1800,
       jb_expires_at = now + 1800000\<rparr>)"

definition issue_existing :: "'t ticket_deps \<Rightarrow> service_actor \<Rightarrow> fresh_ids \<Rightarrow> timestamp \<Rightarrow> db \<Rightarrow>
  string \<Rightarrow> 't upload_reply result" where
  "issue_existing dp a fr now d i =
     bind_r (require_owned_job d a i) (\<lambda>j.
     ensure (j_status j = Reserved) (AppError ''IDEMPOTENT_RESOURCE_STATE'' 409)
     (case latest_usable_nonce d i now of
        None \<Rightarrow> Inl (AppError ''IDEMPOTENT_RESOURCE_GONE'' 410)
      | Some (nonce, exp) \<Rightarrow> Inr \<lparr>up_job_id = i,
          up_upload_ticket = issue_upload (dp_jose dp) (dp_tickets dp) now (fr_upload_jti fr)
            (to_subject a i) (j_source_size j) (j_source_sha256 j) nonce 600,
          up_job_ticket = issue_job (dp_jose dp) (dp_tickets dp) now (fr_job_jti fr)
            (to_subject a i) 1800,
          up_upload_url = upload_url dp i, up_expires_at = exp\<rparr>))"

definition issue_existing_source_job :: "'t ticket_deps \<Rightarrow> service_actor \<Rightarrow> fresh_ids \<Rightarrow>
  timestamp \<Rightarrow> db \<Rightarrow> string \<Rightarrow> 't job_reply result" where
  "issue_existing_source_job dp a fr now d i = renew dp a i now d (fr_job_jti fr)"

section \<open>Jobs with an upload of their own\<close>

definition created_record :: "service_actor \<Rightarrow> string \<Rightarrow> string \<Rightarrow> string \<Rightarrow> string \<Rightarrow> timestamp \<Rightarrow>
  timestamp \<Rightarrow> idempotency_row" where
  "created_record a op kh rh i exp now = \<lparr>i_actor_type = ''service_account'',
     i_actor_id = sa_service_account_id a, i_operation = op, i_key_hash = kh,
     i_request_hash = rh, i_resource_id = Some i, i_response_code = Some 201,
     i_expires_at = exp, i_created_at = now\<rparr>"

definition render_audit :: "service_actor \<Rightarrow> string \<Rightarrow> string \<Rightarrow> string \<Rightarrow> payload \<Rightarrow> timestamp \<Rightarrow>
  audit_row" where
  "render_audit a action ttype i meta now = \<lparr>au_actor_type = ActorServiceAccount,
     au_actor_id = sa_service_account_id a, au_action = action, au_target_type = ttype,
     au_target_id = i, au_result = ''success'', au_ip_address = None, au_user_agent = None,
     au_metadata = meta, au_created_at = now\<rparr>"

record upload_request =
  uq_size :: nat
  uq_sha256 :: string
  uq_outputs :: "render_output list option"

definition request_outputs :: "render_output list option \<Rightarrow> render_output list" where
  "request_outputs os = coalesce os [Pdf]"

definition outputs_member :: "render_output list \<Rightarrow> payload" where
  "outputs_member os = [(''outputs'', JArr (map (\<lambda>x. JStr (output_name x)) os))]"

definition upload_request_json :: "upload_request \<Rightarrow> json" where
  "upload_request_json q = JObj ([(''size'', JNum (int (uq_size q))), (''sha256'', JStr (uq_sha256 q))]
     @ (if Svg \<in> set (request_outputs (uq_outputs q))
        then outputs_member (request_outputs (uq_outputs q)) else []))"

definition reserved_source_input :: "service_actor \<Rightarrow> string \<Rightarrow> nat \<Rightarrow> string \<Rightarrow> timestamp \<Rightarrow>
  timestamp \<Rightarrow> bool option \<Rightarrow> source_input" where
  "reserved_source_input a i bytes shasum now exp dedupe = \<lparr>si_id = i,
     si_owner_user_id = sa_user_id a, si_size = bytes, si_sha256 = shasum,
     si_storage_key = ''sources/'' @ i @ ''/source.zip'', si_timestamp = now, si_expires_at = exp,
     si_dedupe_eligible = dedupe, si_service_account_id = Some (sa_service_account_id a)\<rparr>"

definition legacy_job_input :: "'t ticket_deps \<Rightarrow> service_actor \<Rightarrow> fresh_ids \<Rightarrow>
  upload_request \<Rightarrow> timestamp \<Rightarrow> reserved_input" where
  "legacy_job_input dp a fr q now = \<lparr>ri_id = fr_job_id fr, ri_user_id = sa_user_id a,
     ri_service_account_id = sa_service_account_id a, ri_api_key_id = sa_api_key_id a,
     ri_renderer_version = dp_renderer_version dp, ri_source_size = uq_size q,
     ri_source_sha256 = uq_sha256 q, ri_timestamp = now, ri_source_id = Some (fr_source_id fr),
     ri_entrypoint = None, ri_project_revision_id = None,
     ri_outputs = Some (request_outputs (uq_outputs q)),
     ri_reserved_output_bytes = dp_max_output_bytes dp\<rparr>"

definition legacy_tx :: "'t ticket_deps \<Rightarrow> service_actor \<Rightarrow> fresh_ids \<Rightarrow> upload_request \<Rightarrow>
  string \<Rightarrow> string \<Rightarrow> timestamp \<Rightarrow> unit tx" where
  "legacy_tx dp a fr q kh rh now =
     seq_tx (read_tx (assert_accepting dp a (uq_size q))) (\<lambda>_.
     seq_tx (source_insert_reserved (reserved_source_input a (fr_source_id fr) (uq_size q)
       (uq_sha256 q) now (now + 600000) (Some False))) (\<lambda>_.
     seq_tx (insert_reserved (legacy_job_input dp a fr q now)) (\<lambda>_.
     seq_tx (insert_nonce (fr_nonce fr) (fr_job_id fr) (now + 600000)) (\<lambda>_.
     seq_tx (insert_idempotency (created_record a ''render.create'' kh rh (fr_job_id fr)
       (now + 600000) now)) (\<lambda>_.
     write_tx (audit (render_audit a ''render.reserved'' ''job'' (fr_job_id fr)
       [(''sourceSize'', JNum (int (uq_size q))), (''sourceSha256'', JStr (uq_sha256 q))] now)))))))"

definition legacy_reply :: "'t ticket_deps \<Rightarrow> service_actor \<Rightarrow> fresh_ids \<Rightarrow> upload_request \<Rightarrow>
  timestamp \<Rightarrow> 't upload_reply" where
  "legacy_reply dp a fr q now = \<lparr>up_job_id = fr_job_id fr,
     up_upload_ticket = issue_upload (dp_jose dp) (dp_tickets dp) now (fr_upload_jti fr)
       (to_subject a (fr_job_id fr)) (uq_size q) (uq_sha256 q) (fr_nonce fr) 600,
     up_job_ticket = issue_job (dp_jose dp) (dp_tickets dp) now (fr_job_jti fr)
       (to_subject a (fr_job_id fr)) 1800,
     up_upload_url = upload_url dp (fr_job_id fr), up_expires_at = now + 600000\<rparr>"

text \<open>A status is 201 for a new job and 200 for one an earlier request made.\<close>

definition reused_upload :: "'t upload_reply result \<Rightarrow> 't render_reply result" where
  "reused_upload r = bind_r r (\<lambda>x. Inr (UploadReply 200 x))"

definition create_legacy :: "'t ticket_deps \<Rightarrow> service_actor \<Rightarrow> fresh_ids \<Rightarrow> upload_request \<Rightarrow>
  string \<Rightarrow> visits \<Rightarrow> 't render_reply result \<times> db" where
  "create_legacy dp a fr q key vs =
     (let rh = dp_sha dp (stringify (upload_request_json q)); kh = dp_sha dp key;
          (t0, d0) = vs_lookup vs; now = fst (vs_commit vs); (t2, d2) = vs_raced vs;
          acc = sa_service_account_id a in
      case existing_resource d0 acc ''render.create'' kh rh t0 of
        Inl e \<Rightarrow> (Inl e, d0)
      | Inr (Some i) \<Rightarrow> (reused_upload (issue_existing dp a fr t0 d0 i), d0)
      | Inr None \<Rightarrow>
          commit_or_raced vs (legacy_tx dp a fr q kh rh now)
            (UploadReply 201 (legacy_reply dp a fr q now))
            (raced_resource d2 acc ''render.create'' kh rh t2)
            (\<lambda>i. reused_upload (issue_existing dp a fr t2 d2 i)))"

section \<open>Jobs from a ready source\<close>

record source_request =
  sq_source_id :: string
  sq_entrypoint :: "string option"
  sq_outputs :: "render_output list option"
  sq_project :: "(string \<times> string) option"

definition source_request_json :: "source_request \<Rightarrow> string \<Rightarrow> json" where
  "source_request_json q entrypoint =
     JObj ([(''sourceId'', JStr (sq_source_id q)), (''entrypoint'', JStr entrypoint)]
     @ (if Svg \<in> set (request_outputs (sq_outputs q))
        then outputs_member (request_outputs (sq_outputs q)) else [])
     @ (case sq_project q of None \<Rightarrow> []
        | Some (p, r) \<Rightarrow>
            [(''project'', JObj [(''projectId'', JStr p), (''revisionId'', JStr r)])]))"

definition usable_source :: "service_actor \<Rightarrow> string \<Rightarrow> string \<Rightarrow> timestamp \<Rightarrow> db \<Rightarrow> source_row result" where
  "usable_source a i entrypoint now d =
     (case source_get_owned_ready d i (sa_user_id a) now (sa_service_account_id a) of
        None \<Rightarrow> Inl (AppError ''SOURCE_NOT_READY'' 409)
      | Some s \<Rightarrow> bind_r (source_paths s) (\<lambda>ps.
          ensure (entrypoint \<in> set ps) (AppError ''ENTRYPOINT_MISSING'' 422) (Inr s)))"

definition request_revision ::
  "service_actor \<Rightarrow> (string \<times> string) option \<Rightarrow> source_row \<Rightarrow> string \<Rightarrow> db \<Rightarrow>
   revision_row option result" where
  "request_revision a project s entrypoint d =
     (case project of None \<Rightarrow> Inr None
      | Some (p, r) \<Rightarrow>
          (case (project_get_owned d p (sa_user_id a), revision_owned d r (sa_user_id a)) of
             (Some _, Some v) \<Rightarrow>
               if r_project_id v = p \<and> r_source_id v = s_id s \<and> r_entrypoint v = entrypoint
               then Inr (Some v) else Inl (AppError ''PROJECT_REVISION_NOT_FOUND'' 404)
           | _ \<Rightarrow> Inl (AppError ''PROJECT_REVISION_NOT_FOUND'' 404)))"

definition queued_input_of :: "'t ticket_deps \<Rightarrow> service_actor \<Rightarrow> string \<Rightarrow> source_request \<Rightarrow>
  string \<Rightarrow> source_row \<Rightarrow> revision_row option \<Rightarrow> timestamp \<Rightarrow> queued_input" where
  "queued_input_of dp a i q entrypoint s v now = \<lparr>qi_id = i, qi_user_id = sa_user_id a,
     qi_service_account_id = sa_service_account_id a, qi_api_key_id = sa_api_key_id a,
     qi_renderer_version = dp_renderer_version dp, qi_source_id = s_id s,
     qi_entrypoint = entrypoint, qi_timestamp = now, qi_retry_of_job_id = None,
     qi_project_revision_id = map_option r_id v,
     qi_outputs = Some (request_outputs (sq_outputs q)),
     qi_reserved_output_bytes = dp_max_output_bytes dp\<rparr>"

definition from_source_tx :: "'t ticket_deps \<Rightarrow> service_actor \<Rightarrow> string \<Rightarrow> source_request \<Rightarrow>
  string \<Rightarrow> string \<Rightarrow> string \<Rightarrow> timestamp \<Rightarrow> unit tx" where
  "from_source_tx dp a i q entrypoint kh rh now =
     seq_tx (read_tx (assert_accepting dp a 0)) (\<lambda>_.
     seq_tx (read_tx (usable_source a (sq_source_id q) entrypoint now)) (\<lambda>s.
     seq_tx (read_tx (request_revision a (sq_project q) s entrypoint)) (\<lambda>v.
     seq_tx (insert_queued (queued_input_of dp a i q entrypoint s v now)) (\<lambda>n.
     seq_tx (guard_tx (\<lambda>_. n = 1) (AppError ''SOURCE_NOT_READY'' 409)) (\<lambda>_.
     seq_tx (insert_idempotency (created_record a ''render.create'' kh rh i (now + 86400000) now))
       (\<lambda>_.
     write_tx (audit (render_audit a ''render.queued'' ''job'' i
       ([(''sourceId'', JStr (s_id s)), (''entrypoint'', JStr entrypoint)]
        @ outputs_member (request_outputs (sq_outputs q))
        @ (case v of None \<Rightarrow> [] | Some r \<Rightarrow> [(''projectRevisionId'', JStr (r_id r))])) now))))))))"

definition reused_job :: "'t job_reply result \<Rightarrow> 't render_reply result" where
  "reused_job r = bind_r r (\<lambda>x. Inr (JobReply 200 x))"

definition create_from_source :: "'t ticket_deps \<Rightarrow> service_actor \<Rightarrow> fresh_ids \<Rightarrow>
  source_request \<Rightarrow> string \<Rightarrow> visits \<Rightarrow> 't render_reply result \<times> db" where
  "create_from_source dp a fr q key vs =
     (let (t0, d0) = vs_lookup vs; now = fst (vs_commit vs); (t2, d2) = vs_raced vs;
          acc = sa_service_account_id a; kh = dp_sha dp key in
      case validate_entrypoint (coalesce (sq_entrypoint q) ''main.tex'') 10 200 of
        Inl e \<Rightarrow> (Inl e, d0)
      | Inr entrypoint \<Rightarrow>
          (let rh = dp_sha dp (stringify (source_request_json q entrypoint)) in
           case existing_resource d0 acc ''render.create'' kh rh t0 of
             Inl e \<Rightarrow> (Inl e, d0)
           | Inr (Some i) \<Rightarrow> (reused_job (issue_existing_source_job dp a fr t0 d0 i), d0)
           | Inr None \<Rightarrow>
               (case usable_source a (sq_source_id q) entrypoint t0 d0 of
                  Inl e \<Rightarrow> (Inl e, d0)
                | Inr _ \<Rightarrow>
                    commit_or_raced vs
                      (from_source_tx dp a (fr_job_id fr) q entrypoint kh rh now)
                      (JobReply 201 \<lparr>jb_job_id = fr_job_id fr,
                         jb_job_ticket = issue_job (dp_jose dp) (dp_tickets dp) now (fr_job_jti fr)
                           (to_subject a (fr_job_id fr)) 1800,
                         jb_expires_at = now + 1800000\<rparr>)
                      (raced_resource d2 acc ''render.create'' kh rh t2)
                      (\<lambda>i. reused_job (issue_existing_source_job dp a fr t2 d2 i)))))"

section \<open>All requests\<close>

datatype render_request = RetrySvg string | Upload upload_request | FromSource source_request

definition retry_limits_of :: "'t ticket_deps \<Rightarrow> retry_limits" where
  "retry_limits_of dp = \<lparr>rl_max_queue_length = Some (int (dp_max_queue_length dp)),
     rl_max_user_storage_bytes = Some (int (dp_max_user_storage_bytes dp)),
     rl_max_output_bytes = Some (int (dp_max_output_bytes dp)),
     rl_artifact_retention_hours = Some (int (dp_retention_hours dp))\<rparr>"

definition account_actor :: "service_actor \<Rightarrow> retry_actor" where
  "account_actor a = \<lparr>ra_user_id = sa_user_id a, ra_type = ActorServiceAccount,
     ra_id = sa_service_account_id a, ra_service_account_id = Some (sa_service_account_id a)\<rparr>"

text \<open>A retry runs in one turn; only signing its ticket comes after the commit.\<close>

definition create_retry :: "'t ticket_deps \<Rightarrow> service_actor \<Rightarrow> fresh_ids \<Rightarrow> string \<Rightarrow> string \<Rightarrow>
  timestamp \<Rightarrow> db \<Rightarrow> 't render_reply result \<times> db" where
  "create_retry dp a fr i key now d =
     (case require_owned_job d a i of
        Inl e \<Rightarrow> (Inl e, d)
      | Inr _ \<Rightarrow>
          (case retry_svg (dp_sha dp) (retry_limits_of dp) (account_actor a) i key now d of
             Inl e \<Rightarrow> (Inl e, d)
           | Inr (reused, d') \<Rightarrow>
               (bind_r (renew dp a i now d' (fr_job_jti fr))
                  (\<lambda>x. Inr (JobReply (if reused then 200 else 202) x)), d')))"

definition create_render :: "'t ticket_deps \<Rightarrow> service_actor \<Rightarrow> fresh_ids \<Rightarrow> render_request \<Rightarrow>
  string \<Rightarrow> visits \<Rightarrow> 't render_reply result \<times> db" where
  "create_render dp a fr q key vs = (case q of
       RetrySvg i \<Rightarrow> create_retry dp a fr i key (fst (vs_commit vs)) (snd (vs_commit vs))
     | FromSource s \<Rightarrow> create_from_source dp a fr s key vs
     | Upload u \<Rightarrow> create_legacy dp a fr u key vs)"

end
