(* ===== verification/Render_Admission.thy ===== *)
theory Render_Admission
  imports Render_Tickets
begin

text \<open>
  What admission guarantees: a job that is created or retried fits into its user's storage, and a
  key creates one job however often and however concurrently it is sent.
\<close>

section \<open>Storage of a user\<close>

lemma storage_usage_cong:
  "sources d' = sources d \<Longrightarrow> jobs d' = jobs d \<Longrightarrow> previews d' = previews d \<Longrightarrow> trees d' = trees d \<Longrightarrow>
   storage_usage_for_user d' u = storage_usage_for_user d u"
  by (simp add: storage_usage_for_user_def)

lemma storage_usage_add_source:
  "s_status s \<noteq> SDeleted \<Longrightarrow> storage_usage_for_user (d\<lparr>sources := sources d @ [s]\<rparr>) u =
     storage_usage_for_user d u + (if s_owner_user_id s = u then s_size s else 0)"
  by (simp add: storage_usage_for_user_def)

lemma sum_rows_filter:
  "sum_rows g (filter p rs) = sum_rows (\<lambda>r. if p r then g r else 0) rs"
  by (induction rs) auto

context keyed_table
begin

text \<open>An UPDATE of the one row with a key changes a sum by that row's difference.\<close>

lemma sum_rows_upd_key:
  assumes "distinct (map key rs)" and "row_by key k rs = Some r" and "p r"
    and "\<And>x. p x \<Longrightarrow> key x = k"
  shows "sum_rows g (upd_where p f rs) + g r = sum_rows g rs + g (f r)"
  using assms(1,2)
proof (induction rs)
  case (Cons x rs)
  show ?case
  proof (cases "key x = k")
    case True
    with Cons.prems have "x = r" by simp
    moreover have "upd_where p f rs = rs"
    proof (rule upd_where_fail)
      fix y assume "y \<in> set rs"
      with Cons.prems(1) True have "key y \<noteq> k" by (auto simp: image_iff)
      then show "\<not> p y" using assms(4) by blast
    qed
    ultimately show ?thesis using assms(3) by simp
  next
    case False
    with assms(4) have "\<not> p x" by blast
    with False Cons show ?thesis by simp
  qed
qed simp

end

definition previews_refer :: "db \<Rightarrow> bool" where
  "previews_refer d \<longleftrightarrow> (\<forall>p\<in>set (previews d). job_of d (pv_job_id p) \<noteq> None)"

section \<open>Frames of the transactions\<close>

lemma source_insert_reserved_InrD:
  "source_insert_reserved x d = Inr (u, d') \<Longrightarrow>
   d' = d\<lparr>sources := sources d @ [reserved_source d x]\<rparr> \<and> source_of d (si_id x) = None"
  by (auto simp: source_insert_reserved_def split: if_splits)

lemma insert_nonce_InrD:
  "insert_nonce n j exp d = Inr (u, d') \<Longrightarrow>
   d' = d\<lparr>job_nonces := job_nonces d @ [new_nonce n j exp]\<rparr>"
  by (auto simp: insert_nonce_def split: if_splits)

lemma insert_idempotency_frame:
  assumes "insert_idempotency x d = Inr (u, d')"
  shows "d' = d\<lparr>idempotency := idempotency d'\<rparr>"
    and "sources d' = sources d" "jobs d' = jobs d" "previews d' = previews d" "trees d' = trees d"
    "job_nonces d' = job_nonces d"
  using assms by (auto simp: insert_idempotency_def Let_def split: if_splits)

section \<open>Storage limits\<close>

lemma assert_accepting_storage:
  assumes "assert_accepting dp a bytes d = Inr u"
    and "setting_value d ''max_user_storage_bytes'' (JNum (int (dp_max_user_storage_bytes dp))) =
      Inr (JNum m)"
  shows "int (storage_usage_for_user d (sa_user_id a) + bytes + dp_max_output_bytes dp) \<le> m"
  using assms by (auto simp: assert_accepting_def bind_r_Inr_iff check_setting_Inr_iff)

lemma legacy_tx_InrD:
  assumes "legacy_tx dp a fr q kh rh now d = Inr (u, d')"
  obtains d1 d2 d3 d4 au where "assert_accepting dp a (uq_size q) d = Inr ()"
    "source_insert_reserved (reserved_source_input a (fr_source_id fr) (uq_size q)
       (uq_sha256 q) now (now + 600000) (Some False)) d = Inr ((), d1)"
    "insert_job (reserved_row (legacy_job_input dp a fr q now)) d1 = Inr ((), d2)"
    "insert_nonce (fr_nonce fr) (fr_job_id fr) (now + 600000) d2 = Inr ((), d3)"
    "insert_idempotency (created_record a ''render.create'' kh rh (fr_job_id fr)
       (now + 600000) now) d3 = Inr ((), d4)" "d' = audit au d4"
  using assms by (auto simp: legacy_tx_def seq_tx_Inr_iff insert_reserved_def)

lemma legacy_tx_storage:
  assumes "legacy_tx dp a fr q kh rh now d = Inr (u, d')" and "previews_refer d"
  shows "storage_usage_for_user d' (sa_user_id a) =
      storage_usage_for_user d (sa_user_id a) + uq_size q + dp_max_output_bytes dp"
    and "assert_accepting dp a (uq_size q) d = Inr ()"
proof -
  let ?x = "legacy_job_input dp a fr q now" and ?u = "sa_user_id a"
  from assms(1) obtain d1 d2 d3 d4 au where
    acc: "assert_accepting dp a (uq_size q) d = Inr ()"
    and d1: "source_insert_reserved (reserved_source_input a (fr_source_id fr) (uq_size q)
       (uq_sha256 q) now (now + 600000) (Some False)) d = Inr ((), d1)"
    and d2: "insert_job (reserved_row ?x) d1 = Inr ((), d2)"
    and d3: "insert_nonce (fr_nonce fr) (fr_job_id fr) (now + 600000) d2 = Inr ((), d3)"
    and d4: "insert_idempotency (created_record a ''render.create'' kh rh (fr_job_id fr)
       (now + 600000) now) d3 = Inr ((), d4)"
    and d': "d' = audit au d4"
    by (rule legacy_tx_InrD)
  show "assert_accepting dp a (uq_size q) d = Inr ()" by (rule acc)
  note s = source_insert_reserved_InrD [OF d1]
  note j = insert_job_InrD [OF d2]
  have "storage_usage_for_user d' ?u = storage_usage_for_user d2 ?u"
    using d' insert_idempotency_frame [OF d4] insert_nonce_InrD [OF d3]
    by (intro storage_usage_cong) auto
  also have "d2 = d1\<lparr>jobs := jobs d1 @ [reserved_row ?x]\<rparr>" using j by blast
  also have "storage_usage_for_user \<dots> ?u = storage_usage_for_user d1 ?u +
      (if j_user_id (reserved_row ?x) = ?u then job_bytes (reserved_row ?x) else 0)"
    using assms(2) j s by (intro storage_usage_insert) (simp_all add: previews_refer_def)
  also have "\<dots> = storage_usage_for_user d1 ?u + dp_max_output_bytes dp"
    by (simp add: job_bytes_def reserved_row_def legacy_job_input_def)
  also have "storage_usage_for_user d1 ?u = storage_usage_for_user d ?u + uq_size q"
    using s by (simp add: storage_usage_add_source reserved_source_def reserved_source_input_def)
  finally show "storage_usage_for_user d' ?u =
      storage_usage_for_user d ?u + uq_size q + dp_max_output_bytes dp" by simp
qed

lemma from_source_tx_InrD:
  assumes "from_source_tx dp a i q entrypoint kh rh now d = Inr (u, d')"
  obtains s v t d1 d2 au where "assert_accepting dp a 0 d = Inr ()"
    "usable_source a (sq_source_id q) entrypoint now d = Inr s"
    "request_revision a (sq_project q) s entrypoint d = Inr v"
    "t \<in> set (sources d)" "s_id t = s_id s" "s_owner_user_id t = sa_user_id a"
    "ready_source d now t"
    "job_constraints d (queued_row (queued_input_of dp a i q entrypoint s v now) t)"
    "d1 = d\<lparr>jobs := jobs d @ [queued_row (queued_input_of dp a i q entrypoint s v now) t]\<rparr>"
    "insert_idempotency (created_record a ''render.create'' kh rh i (now + 86400000) now) d1 =
       Inr ((), d2)" "d' = audit au d2"
proof -
  from assms obtain s v d1 d2 au where
    a: "assert_accepting dp a 0 d = Inr ()"
    "usable_source a (sq_source_id q) entrypoint now d = Inr s"
    "request_revision a (sq_project q) s entrypoint d = Inr v"
    and q: "insert_queued (queued_input_of dp a i q entrypoint s v now) d = Inr (1, d1)"
    and r: "insert_idempotency (created_record a ''render.create'' kh rh i (now + 86400000) now)
       d1 = Inr ((), d2)" "d' = audit au d2"
    by (auto simp: from_source_tx_def seq_tx_Inr_iff)
  from q show thesis
  proof (cases rule: insert_queued_cases)
    case (2 t)
    with a r that show thesis by (simp add: queued_input_of_def)
  qed simp
qed

lemma from_source_tx_storage:
  assumes "from_source_tx dp a i q entrypoint kh rh now d = Inr (u, d')" and "previews_refer d"
  shows "storage_usage_for_user d' (sa_user_id a) =
      storage_usage_for_user d (sa_user_id a) + dp_max_output_bytes dp"
    and "assert_accepting dp a 0 d = Inr ()"
proof -
  from assms(1) obtain s v t d1 d2 au where c: "assert_accepting dp a 0 d = Inr ()"
    "job_constraints d (queued_row (queued_input_of dp a i q entrypoint s v now) t)"
    "d1 = d\<lparr>jobs := jobs d @ [queued_row (queued_input_of dp a i q entrypoint s v now) t]\<rparr>"
    "insert_idempotency (created_record a ''render.create'' kh rh i (now + 86400000) now) d1 =
       Inr ((), d2)" "d' = audit au d2"
    by (rule from_source_tx_InrD) blast
  show "assert_accepting dp a 0 d = Inr ()" by (rule c(1))
  let ?r = "queued_row (queued_input_of dp a i q entrypoint s v now) t"
  have "storage_usage_for_user d' (sa_user_id a) = storage_usage_for_user d1 (sa_user_id a)"
    using c(5) insert_idempotency_frame [OF c(4)] by (intro storage_usage_cong) auto
  also have "\<dots> = storage_usage_for_user d (sa_user_id a) +
      (if j_user_id ?r = sa_user_id a then job_bytes ?r else 0)"
    unfolding c(3) using c(2) assms(2)
    by (intro storage_usage_insert) (simp_all add: previews_refer_def)
  also have "\<dots> = storage_usage_for_user d (sa_user_id a) + dp_max_output_bytes dp"
    by (simp add: job_bytes_def queued_row_def queued_input_of_def)
  finally show "storage_usage_for_user d' (sa_user_id a) =
      storage_usage_for_user d (sa_user_id a) + dp_max_output_bytes dp" .
qed

section \<open>Storage of a retry\<close>

definition held_bytes :: "string \<Rightarrow> job_row \<Rightarrow> nat" where
  "held_bytes u j = (if j_user_id j = u \<and> j_status j \<noteq> Deleted then job_bytes j else 0)"

definition other_bytes :: "db \<Rightarrow> string \<Rightarrow> nat" where
  "other_bytes d u =
     sum_rows s_size (filter (\<lambda>s. s_owner_user_id s = u \<and> s_status s \<noteq> SDeleted) (sources d)) +
     sum_rows pv_reserved_bytes (filter (\<lambda>p. pv_status p = PRunning \<and>
       (case job_of d (pv_job_id p) of None \<Rightarrow> False | Some j \<Rightarrow> j_user_id j = u)) (previews d)) +
     sum_rows t_reserved_bytes (filter (\<lambda>t. t_owner_user_id t = u) (trees d))"

lemma storage_usage_parts:
  "storage_usage_for_user d u = other_bytes d u + sum_rows (held_bytes u) (jobs d)"
  by (simp add: storage_usage_for_user_def other_bytes_def sum_rows_filter held_bytes_def [abs_def])

lemma other_bytes_update_jobs:
  assumes "\<And>j. p j \<Longrightarrow> j_user_id (f j) = j_user_id j \<and> j_id (f j) = j_id j"
  shows "other_bytes (snd (update_jobs_status p f d)) u = other_bytes d u"
proof -
  have "job_of (snd (update_jobs_status p f d)) i =
      map_option (\<lambda>j. if p j then f j else j) (job_of d i)" for i
    using assms job_table.row_by_upd_where [of p f i "jobs d"] by simp
  then have "(case job_of (snd (update_jobs_status p f d)) i of None \<Rightarrow> False
      | Some j \<Rightarrow> j_user_id j = u) = (case job_of d i of None \<Rightarrow> False | Some j \<Rightarrow> j_user_id j = u)" for i
    using assms by (cases "job_of d i") simp_all
  then show ?thesis unfolding other_bytes_def by simp
qed

lemma update_stages_jobs:
  "update_stages p f d = Inr (n, d') \<Longrightarrow> jobs d' = jobs d \<and> sources d' = sources d \<and>
   previews d' = previews d \<and> trees d' = trees d \<and> idempotency d' = idempotency d"
  by (auto simp: update_stages_def split: if_splits)

lemma requeue_svg_storage:
  assumes "requeue_svg i u now cutoff b d = Inr (True, d')" and "distinct (map j_id (jobs d))"
    and "job_of d i = Some j"
  shows "storage_usage_for_user d' u =
      storage_usage_for_user d u + (b - coalesce (j_output_size j) 0)"
proof -
  let ?p = "\<lambda>j. j_id j = i \<and> j_user_id j = u \<and> svg_retryable d now cutoff j"
  let ?f = "requeued_job now b"
  obtain n e where u: "update_jobs_status ?p ?f d = (n, e)" by fastforce
  with assms(1) obtain m where n: "n = 1"
    and st: "update_stages (\<lambda>s. st_job_id s = i) requeued_stage e = Inr (m, d')"
    by (auto simp: requeue_svg_def split: if_splits sum.splits)
  have e: "e = snd (update_jobs_status ?p ?f d)" by (simp only: u snd_conv)
  have "changes ?p (jobs d) = 1"
    using arg_cong [OF u, of fst] n by (simp only: fst_update_jobs fst_conv)
  from job_table.changes_one_row [OF assms(2) _ this, of i] assms(3) have j: "?p j" by auto
  have "storage_usage_for_user d' u = storage_usage_for_user e u"
    using update_stages_jobs [OF st] by (intro storage_usage_cong) simp_all
  also have "\<dots> = other_bytes d u + sum_rows (held_bytes u) (upd_where ?p ?f (jobs d))"
    unfolding storage_usage_parts e
    by (subst other_bytes_update_jobs) (simp_all add: requeued_job_def)
  finally have new: "storage_usage_for_user d' u =
      other_bytes d u + sum_rows (held_bytes u) (upd_where ?p ?f (jobs d))" .
  have "sum_rows (held_bytes u) (upd_where ?p ?f (jobs d)) + held_bytes u j =
      sum_rows (held_bytes u) (jobs d) + held_bytes u (?f j)"
    by (rule job_table.sum_rows_upd_key [where p = ?p, OF assms(2,3) j]) simp
  moreover have "held_bytes u (?f j) = held_bytes u j + (b - coalesce (j_output_size j) 0)"
    using j by (auto simp: held_bytes_def requeued_job_def job_bytes_def svg_retryable_def)
  ultimately show ?thesis using new by (simp add: storage_usage_parts)
qed

lemma retry_job_row:
  "distinct (map j_id (jobs d)) \<Longrightarrow> retry_job d a i = Some j \<Longrightarrow>
   job_of d i = Some j \<and> j_user_id j = ra_user_id a"
  by (auto simp: retry_job_def get_visible_def get_owned_def find_Some_iff job_table.row_by_iff
      split: option.splits if_splits)

lemma retry_svg_storage:
  assumes "retry_svg sha l a i key now d = Inr (False, d')" and "distinct (map j_id (jobs d))"
    and "setting_value d ''max_user_storage_bytes''
      (JNum (coalesce (rl_max_user_storage_bytes l) 1073741824)) = Inr (JNum m)"
  shows "int (storage_usage_for_user d' (ra_user_id a)) \<le> m"
  using assms(1)
proof (rule retry_svg_new)
  fix j d1 d2
  assume a: "retry_limits_ok l" "retry_job d a i = Some j" "retry_admission l a j d = Inr ()"
    "requeue_svg i (ra_user_id a) now (now - nat (coalesce (rl_artifact_retention_hours l) 24) *
       3600000) (nat (retry_output l)) d = Inr (True, d1)"
    "insert_idempotency (retry_record sha a i key now) d1 = Inr ((), d2)"
    "d' = audit (retry_audit a i now) d2"
  let ?u = "ra_user_id a"
  from retry_job_row [OF assms(2) a(2)] have j: "job_of d i = Some j" by blast
  have "storage_usage_for_user d' ?u = storage_usage_for_user d1 ?u"
    using a(6) insert_idempotency_frame [OF a(5)] by (intro storage_usage_cong) auto
  also have "\<dots> = storage_usage_for_user d ?u +
      (nat (retry_output l) - coalesce (j_output_size j) 0)"
    by (rule requeue_svg_storage [OF a(4) assms(2) j])
  finally have new: "storage_usage_for_user d' ?u = storage_usage_for_user d ?u +
      (nat (retry_output l) - coalesce (j_output_size j) 0)" .
  from a(3) assms(3) have "int (storage_usage_for_user d ?u) +
      max 0 (retry_output l - int (coalesce (j_output_size j) 0)) \<le> m"
    by (auto simp: retry_admission_def bind_r_Inr_iff check_setting_Inr_iff)
  moreover have "int (nat (retry_output l) - coalesce (j_output_size j) 0) =
      max 0 (retry_output l - int (coalesce (j_output_size j) 0))"
    using a(1) by (auto simp: retry_limits_ok_def limit_ok_def)
  ultimately show ?thesis using new by simp
qed

section \<open>One job for each key\<close>

fun reply_status :: "'t render_reply \<Rightarrow> nat" where
  "reply_status (UploadReply n _) = n"
| "reply_status (JobReply n _) = n"

fun reply_job :: "'t render_reply \<Rightarrow> string" where
  "reply_job (UploadReply _ x) = up_job_id x"
| "reply_job (JobReply _ x) = jb_job_id x"

definition key_recorded :: "db \<Rightarrow> string \<Rightarrow> string \<Rightarrow> string \<Rightarrow> string \<Rightarrow> string \<Rightarrow> timestamp \<Rightarrow> bool" where
  "key_recorded d acc op kh rh i until \<longleftrightarrow> i \<noteq> [] \<and> distinct (map idem_key (idempotency d)) \<and>
     (\<forall>now < until. \<exists>r. find_idempotency d ''service_account'' acc op kh now = Some r \<and>
        i_request_hash r = rh \<and> i_resource_id r = Some i)"

lemma existing_recorded:
  "key_recorded d acc op kh rh i until \<Longrightarrow> now < until \<Longrightarrow>
   existing_resource d acc op kh rh now = Inr (Some i)"
  by (auto simp: key_recorded_def existing_resource_def split: option.splits)

lemma existing_other_hash:
  "key_recorded d acc op kh rh i until \<Longrightarrow> now < until \<Longrightarrow> rh' \<noteq> rh \<Longrightarrow>
   existing_resource d acc op kh rh' now = Inl (AppError ''IDEMPOTENCY_CONFLICT'' 409)"
  by (auto simp: key_recorded_def existing_resource_def split: option.splits)

lemma raced_recorded:
  "key_recorded d acc op kh rh i until \<Longrightarrow> now < until \<Longrightarrow>
   raced_resource d acc op kh rh now = Some i"
  by (auto simp: key_recorded_def raced_resource_def split: option.splits)

lemma distinct_insert_idempotency:
  assumes "distinct (map idem_key (idempotency d))" and "insert_idempotency x d = Inr (u, d')"
  shows "distinct (map idem_key (idempotency d'))"
  using assms idempotency_table.distinct_insert
  by (auto simp: insert_idempotency_def Let_def idempotency_table.distinct_upd_where idem_key_def
      split: if_splits)

lemma created_recorded:
  assumes "distinct (map idem_key (idempotency d))" and "i \<noteq> []"
    and "insert_idempotency (created_record a op kh rh i exp now) d = Inr (u, d')"
    and "idempotency e = idempotency d'"
  shows "key_recorded e (sa_service_account_id a) op kh rh i exp"
proof -
  have "\<exists>r. find_idempotency e ''service_account'' (sa_service_account_id a) op kh t = Some r \<and>
      i_request_hash r = rh \<and> i_resource_id r = Some i" if "t < exp" for t
    using insert_idempotency_found [OF assms(1,3), of "''service_account''"
        "sa_service_account_id a" op kh t] that assms(4)
    by (auto simp: created_record_def idem_key_def find_idempotency_def)
  with distinct_insert_idempotency [OF assms(1,3)] assms(2,4) show ?thesis
    by (simp add: key_recorded_def)
qed

text \<open>While the record lives, a second transaction under its key cannot commit.\<close>

lemma record_refused:
  assumes "key_recorded d acc op kh rh i until" and "acc = sa_service_account_id a"
    and "now < until" and "now < exp" and "idempotency e = idempotency d"
  shows "insert_idempotency (created_record a op kh rh' i' exp now) e =
    Inl (AppError ''IDEMPOTENCY_CONFLICT'' 409)"
proof -
  from assms obtain r where "find_idempotency e ''service_account'' acc op kh now = Some r"
    by (auto simp: key_recorded_def find_idempotency_def)
  with assms show ?thesis
    by (intro insert_idempotency_conflict [of _ _ r]) (simp_all add: created_record_def key_recorded_def)
qed

lemma legacy_tx_refused:
  assumes "key_recorded d (sa_service_account_id a) ''render.create'' kh rh i until"
    and "now < until"
  shows "\<exists>e. legacy_tx dp a fr q kh rh' now d = Inl e"
proof (cases "legacy_tx dp a fr q kh rh' now d")
  case (Inr x)
  then obtain u d' where "legacy_tx dp a fr q kh rh' now d = Inr (u, d')" by (cases x) auto
  then show ?thesis
  proof (rule legacy_tx_InrD)
    fix d1 d2 d3 d4 au
    assume d: "source_insert_reserved (reserved_source_input a (fr_source_id fr) (uq_size q)
        (uq_sha256 q) now (now + 600000) (Some False)) d = Inr ((), d1)"
      "insert_job (reserved_row (legacy_job_input dp a fr q now)) d1 = Inr ((), d2)"
      "insert_nonce (fr_nonce fr) (fr_job_id fr) (now + 600000) d2 = Inr ((), d3)"
      "insert_idempotency (created_record a ''render.create'' kh rh' (fr_job_id fr)
        (now + 600000) now) d3 = Inr ((), d4)"
    have "idempotency d3 = idempotency d"
      using source_insert_reserved_InrD [OF d(1)] insert_job_InrD [OF d(2)]
        insert_nonce_InrD [OF d(3)] by simp
    from record_refused [OF assms(1) refl assms(2) _ this] d(4) show ?thesis by simp
  qed
qed blast

lemma from_source_tx_refused:
  assumes "key_recorded d (sa_service_account_id a) ''render.create'' kh rh i until"
    and "now < until"
  shows "\<exists>e. from_source_tx dp a j q entrypoint kh rh' now d = Inl e"
proof (cases "from_source_tx dp a j q entrypoint kh rh' now d")
  case (Inr x)
  then obtain u d' where "from_source_tx dp a j q entrypoint kh rh' now d = Inr (u, d')"
    by (cases x) auto
  then show ?thesis
  proof (rule from_source_tx_InrD)
    fix s v t d1 d2
    assume d: "d1 = d\<lparr>jobs := jobs d @ [queued_row (queued_input_of dp a j q entrypoint s v now) t]\<rparr>"
      "insert_idempotency (created_record a ''render.create'' kh rh' j (now + 86400000) now) d1 =
        Inr ((), d2)"
    then have "idempotency d1 = idempotency d" by simp
    from record_refused [OF assms(1) refl assms(2) _ this] d(2) show ?thesis by simp
  qed
qed blast

lemma get_owned_new:
  assumes "job_of d (j_id r) = None" and "jobs d' = jobs d @ [r]" and "j_deleted_at r = None"
    and "j_user_id r = sa_user_id a" and "j_service_account_id r = sa_service_account_id a"
    and "j_api_key_id r = sa_api_key_id a"
  shows "require_owned_job d' a (j_id r) = Inr r"
proof -
  have "find (\<lambda>j. j_id j = j_id r \<and> j_user_id j = sa_user_id a \<and>
      j_service_account_id j = sa_service_account_id a \<and> j_deleted_at j = None) (jobs d) = None"
    using assms(1) by (auto simp: find_None_iff row_by_None_iff)
  from find_append_new [OF this, of r] assms show ?thesis
    by (simp add: require_owned_job_def get_owned_def)
qed

lemma from_source_created:
  assumes "from_source_tx dp a i q entrypoint kh rh now d = Inr (u, d')"
    and "distinct (map idem_key (idempotency d))" and "i \<noteq> []"
  shows "key_recorded d' (sa_service_account_id a) ''render.create'' kh rh i (now + 86400000)"
    and "\<exists>j. require_owned_job d' a i = Inr j"
proof -
  from assms(1) obtain s v t d1 d2 au where
    c: "job_constraints d (queued_row (queued_input_of dp a i q entrypoint s v now) t)"
    "d1 = d\<lparr>jobs := jobs d @ [queued_row (queued_input_of dp a i q entrypoint s v now) t]\<rparr>"
    "insert_idempotency (created_record a ''render.create'' kh rh i (now + 86400000) now) d1 =
       Inr ((), d2)" "d' = audit au d2"
    by (rule from_source_tx_InrD) blast
  let ?r = "queued_row (queued_input_of dp a i q entrypoint s v now) t"
  from c(2) assms(2) have "distinct (map idem_key (idempotency d1))" by simp
  from created_recorded [OF this assms(3) c(3)] c(4)
  show "key_recorded d' (sa_service_account_id a) ''render.create'' kh rh i (now + 86400000)"
    by simp
  have "require_owned_job d' a (j_id ?r) = Inr ?r"
    using c insert_idempotency_frame(3) [OF c(3)]
    by (intro get_owned_new [where d = d]) (simp_all add: job_constraints_def queued_input_of_def
        queued_row_def blank_job_def)
  then show "\<exists>j. require_owned_job d' a i = Inr j" by (auto simp: queued_input_of_def queued_row_def)
qed

lemma latest_usable_exists:
  assumes "r \<in> set rs" and "n_resource_id r = i" and "n_state r \<in> {Unused, Released}"
    and "n_expires_at r > now"
  shows "\<exists>x. latest_usable i now rs = Some x"
proof -
  have "filter (\<lambda>r. n_resource_id r = i \<and> n_state r \<in> {Unused, Released} \<and> n_expires_at r > now) rs
      \<noteq> []" using assms by (auto simp: filter_empty_conv)
  then show ?thesis by (auto simp: latest_usable_def split: list.splits)
qed

lemma legacy_created:
  assumes "legacy_tx dp a fr q kh rh now d = Inr (u, d')"
    and "distinct (map idem_key (idempotency d))" and "fr_job_id fr \<noteq> []"
  shows "key_recorded d' (sa_service_account_id a) ''render.create'' kh rh (fr_job_id fr) (now + 600000)"
    and "\<exists>j. require_owned_job d' a (fr_job_id fr) = Inr j \<and> j_status j = Reserved"
    and "t < now + 600000 \<Longrightarrow> \<exists>x. latest_usable_nonce d' (fr_job_id fr) t = Some x"
proof -
  let ?x = "legacy_job_input dp a fr q now"
  from assms(1) obtain d1 d2 d3 d4 au where
    d1: "source_insert_reserved (reserved_source_input a (fr_source_id fr) (uq_size q)
       (uq_sha256 q) now (now + 600000) (Some False)) d = Inr ((), d1)"
    and d2: "insert_job (reserved_row ?x) d1 = Inr ((), d2)"
    and d3: "insert_nonce (fr_nonce fr) (fr_job_id fr) (now + 600000) d2 = Inr ((), d3)"
    and d4: "insert_idempotency (created_record a ''render.create'' kh rh (fr_job_id fr)
       (now + 600000) now) d3 = Inr ((), d4)"
    and d': "d' = audit au d4"
    by (rule legacy_tx_InrD)
  have "distinct (map idem_key (idempotency d3))"
    using source_insert_reserved_InrD [OF d1] insert_job_InrD [OF d2] insert_nonce_InrD [OF d3]
      assms(2) by simp
  from created_recorded [OF this assms(3) d4] d'
  show "key_recorded d' (sa_service_account_id a) ''render.create'' kh rh (fr_job_id fr)
      (now + 600000)" by simp
  have "jobs d' = jobs d1 @ [reserved_row ?x]" "job_of d1 (j_id (reserved_row ?x)) = None"
    using d' insert_idempotency_frame(3) [OF d4] insert_nonce_InrD [OF d3] insert_job_InrD [OF d2]
    by (simp_all add: job_constraints_def)
  then have "require_owned_job d' a (j_id (reserved_row ?x)) = Inr (reserved_row ?x)"
    by (intro get_owned_new [where d = d1]) (simp_all add: reserved_row_def legacy_job_input_def
        blank_job_def)
  then show "\<exists>j. require_owned_job d' a (fr_job_id fr) = Inr j \<and> j_status j = Reserved"
    by (auto simp: reserved_row_def legacy_job_input_def)
  have "new_nonce (fr_nonce fr) (fr_job_id fr) (now + 600000) \<in> set (job_nonces d')"
    using d' insert_idempotency_frame(6) [OF d4] insert_nonce_InrD [OF d3] by simp
  then show "\<exists>x. latest_usable_nonce d' (fr_job_id fr) t = Some x" if "t < now + 600000"
    using that latest_usable_exists [of _ "job_nonces d'" "fr_job_id fr" t]
    by (fastforce simp: latest_usable_nonce_def new_nonce_def)
qed

text \<open>Two visits see the key alike: at the first look, or because the second came later.\<close>

definition follows_request :: "visits \<Rightarrow> db \<Rightarrow> visits \<Rightarrow> bool" where
  "follows_request vs d' vs' \<longleftrightarrow>
     snd (vs_commit vs') = d' \<and> snd (vs_raced vs') = d' \<and>
     fst (vs_commit vs') < fst (vs_commit vs) + 600000 \<and>
     fst (vs_raced vs') < fst (vs_commit vs) + 600000 \<and>
     vs_lookup vs' \<in> {vs_lookup vs, vs_commit vs'}"

lemma create_legacy_once:
  assumes "create_legacy dp a fr q key vs = (Inr rep, d')" and "reply_status rep = 201"
    and "distinct (map idem_key (idempotency (snd (vs_commit vs))))" and "fr_job_id fr \<noteq> []"
    and "follows_request vs d' vs'"
  shows "\<exists>rep'. create_legacy dp a fr' q key vs' = (Inr rep', d') \<and> reply_status rep' = 200 \<and>
    reply_job rep' = reply_job rep"
proof -
  let ?acc = "sa_service_account_id a" and ?kh = "dp_sha dp key"
    and ?rh = "dp_sha dp (stringify (upload_request_json q))"
    and ?now = "fst (vs_commit vs)" and ?d = "snd (vs_commit vs)"
  from assms(1,2) have none: "existing_resource (snd (vs_lookup vs)) ?acc ''render.create'' ?kh ?rh
        (fst (vs_lookup vs)) = Inr None"
    and tx: "legacy_tx dp a fr q ?kh ?rh ?now ?d = Inr ((), d')"
    and rep: "rep = UploadReply 201 (legacy_reply dp a fr q ?now)"
    by (auto simp: create_legacy_def Let_def commit_or_raced_def reused_upload_def bind_r_Inr_iff
        split: prod.splits sum.splits option.splits)
  note made = legacy_created [OF tx assms(3,4)]
  have issue: "\<exists>x. issue_existing dp a fr' t d' (fr_job_id fr) = Inr x \<and> up_job_id x = fr_job_id fr"
    if "t < ?now + 600000" for t
    using made(2) made(3) [OF that] by (fastforce simp: issue_existing_def ensure_def)
  obtain t1 t2 where v: "vs_commit vs' = (t1, d')" "vs_raced vs' = (t2, d')"
    "t1 < ?now + 600000" "t2 < ?now + 600000" "vs_lookup vs' \<in> {vs_lookup vs, vs_commit vs'}"
    using assms(5) unfolding follows_request_def by (metis prod.collapse)
  from v(5) show ?thesis
  proof (elim insertE, simp_all)
    assume l: "vs_lookup vs' = vs_lookup vs"
    from legacy_tx_refused [OF made(1) v(3)] obtain e where
      "legacy_tx dp a fr' q ?kh ?rh t1 d' = Inl e" by blast
    with l v none issue [OF v(4)] raced_recorded [OF made(1) v(4)] rep show ?thesis
      by (auto simp: create_legacy_def Let_def commit_or_raced_def reused_upload_def
          legacy_reply_def split: prod.splits)
  next
    assume l: "vs_lookup vs' = vs_commit vs'"
    with v existing_recorded [OF made(1) v(3)] issue [OF v(3)] rep show ?thesis
      by (auto simp: create_legacy_def Let_def reused_upload_def legacy_reply_def
          split: prod.splits)
  qed
qed

lemma create_from_source_once:
  assumes "create_from_source dp a fr q key vs = (Inr rep, d')" and "reply_status rep = 201"
    and "distinct (map idem_key (idempotency (snd (vs_commit vs))))" and "fr_job_id fr \<noteq> []"
    and "follows_request vs d' vs'"
  shows "\<exists>rep'. create_from_source dp a fr' q key vs' = (Inr rep', d') \<and> reply_status rep' = 200 \<and>
    reply_job rep' = reply_job rep"
proof -
  let ?acc = "sa_service_account_id a" and ?kh = "dp_sha dp key"
    and ?now = "fst (vs_commit vs)" and ?d = "snd (vs_commit vs)"
  from assms(1,2) obtain ep s where
    ep: "validate_entrypoint (coalesce (sq_entrypoint q) ''main.tex'') 10 200 = Inr ep"
    and none: "existing_resource (snd (vs_lookup vs)) ?acc ''render.create'' ?kh
        (dp_sha dp (stringify (source_request_json q ep))) (fst (vs_lookup vs)) = Inr None"
    and src: "usable_source a (sq_source_id q) ep (fst (vs_lookup vs)) (snd (vs_lookup vs)) = Inr s"
    and tx: "from_source_tx dp a (fr_job_id fr) q ep ?kh
        (dp_sha dp (stringify (source_request_json q ep))) ?now ?d = Inr ((), d')"
    and rep: "reply_job rep = fr_job_id fr"
    by (auto simp: create_from_source_def Let_def commit_or_raced_def reused_job_def bind_r_Inr_iff
        split: prod.splits sum.splits option.splits)
  let ?rh = "dp_sha dp (stringify (source_request_json q ep))"
  note made = from_source_created [OF tx assms(3,4)]
  have issue: "\<exists>x. issue_existing_source_job dp a fr' t d' (fr_job_id fr) = Inr x \<and>
      jb_job_id x = fr_job_id fr" for t
    using made(2) by (auto simp: issue_existing_source_job_def renew_def)
  obtain t1 t2 where v: "vs_commit vs' = (t1, d')" "vs_raced vs' = (t2, d')"
    "t1 < ?now + 86400000" "t2 < ?now + 86400000"
    "vs_lookup vs' \<in> {vs_lookup vs, vs_commit vs'}"
    using assms(5) unfolding follows_request_def
    by (cases "vs_commit vs'"; cases "vs_raced vs'") fastforce
  from v(5) show ?thesis
  proof (elim insertE, simp_all)
    assume l: "vs_lookup vs' = vs_lookup vs"
    from from_source_tx_refused [OF made(1) v(3)] obtain e where
      "from_source_tx dp a (fr_job_id fr') q ep ?kh ?rh t1 d' = Inl e" by blast
    with l v ep none src issue [of t2] raced_recorded [OF made(1) v(4)] rep show ?thesis
      by (auto simp: create_from_source_def Let_def commit_or_raced_def reused_job_def
          split: prod.splits)
  next
    assume l: "vs_lookup vs' = vs_commit vs'"
    with v ep existing_recorded [OF made(1) v(3)] issue [of t1] rep show ?thesis
      by (auto simp: create_from_source_def Let_def reused_job_def split: prod.splits)
  qed
qed

end
