(* ===== verification/Source_Tickets.thy ===== *)
theory Source_Tickets
  imports Render_Admission
begin

text \<open>
  \<open>SourceTicketsService\<close> (apps/internal-api/src/services/source-tickets.ts): a source is uploaded
  once and shared. A request that names content the user already has ready gets that source;
  otherwise a reservation is made within the user's storage. Visits, fresh ids and the hash are
  those of \<open>Render_Tickets\<close>.
\<close>

record 't source_reply =
  sy_source_id :: string
  sy_ticket :: "('t \<times> string) option"
  sy_expires_at :: timestamp

text \<open>\<open>sy_ticket\<close> is the upload ticket and URL when \<open>uploadRequired\<close>, and None otherwise.\<close>

definition source_upload_url :: "'t ticket_deps \<Rightarrow> string \<Rightarrow> string" where
  "source_upload_url dp i = dp_url dp (''/api/v1/sources/'' @ i @ ''/content'')"

definition assert_storage :: "'t ticket_deps \<Rightarrow> string \<Rightarrow> nat \<Rightarrow> db \<Rightarrow> unit result" where
  "assert_storage dp u bytes d =
     check_setting d ''max_user_storage_bytes'' (JNum (int (dp_max_user_storage_bytes dp)))
       (\<lambda>v. exceeds (int bytes) v (storage_usage_for_user d u)) ''USER_STORAGE_QUOTA'' 429"

definition issue_existing_source :: "'t ticket_deps \<Rightarrow> service_actor \<Rightarrow> fresh_ids \<Rightarrow> timestamp \<Rightarrow>
  db \<Rightarrow> string \<Rightarrow> 't source_reply result" where
  "issue_existing_source dp a fr now d i =
     (case source_get_owned d i (sa_user_id a) (sa_service_account_id a) of
        None \<Rightarrow> Inl (AppError ''SOURCE_NOT_FOUND'' 404)
      | Some s \<Rightarrow>
          ensure (\<not> (s_expires_at s \<le> now \<and> source_get_owned_ready d i (sa_user_id a) now
                    (sa_service_account_id a) = None))
            (AppError ''IDEMPOTENT_RESOURCE_GONE'' 410)
          (if s_status s = SReady
           then Inr \<lparr>sy_source_id = i, sy_ticket = None, sy_expires_at = s_expires_at s\<rparr>
           else ensure (s_status s = SReserved) (AppError ''IDEMPOTENCY_IN_PROGRESS'' 409)
             (case latest_usable_source_nonce d i now of
                None \<Rightarrow> Inl (AppError ''IDEMPOTENT_RESOURCE_GONE'' 410)
              | Some nonce \<Rightarrow> Inr \<lparr>sy_source_id = i,
                  sy_ticket = Some (issue_source_upload (dp_jose dp) (dp_tickets dp) now
                    (fr_upload_jti fr) (to_subject a i) (s_size s) (s_sha256 s) nonce 600,
                    source_upload_url dp i),
                  sy_expires_at = s_expires_at s\<rparr>)))"

record shared_request =
  hq_size :: nat
  hq_sha256 :: string

definition shared_request_json :: "shared_request \<Rightarrow> json" where
  "shared_request_json q =
     JObj [(''size'', JNum (int (hq_size q))), (''sha256'', JStr (hq_sha256 q))]"

text \<open>The transaction that binds the key to a source that is ready.\<close>

definition reuse_tx :: "service_actor \<Rightarrow> source_row \<Rightarrow> string \<Rightarrow> string \<Rightarrow> timestamp \<Rightarrow> unit tx" where
  "reuse_tx a s kh rh now =
     seq_tx (read_tx assert_source_writable) (\<lambda>_.
     seq_tx (guard_tx (\<lambda>d. source_get_owned_ready d (s_id s) (sa_user_id a) now
         (sa_service_account_id a) \<noteq> None) (AppError ''SOURCE_NOT_READY'' 409)) (\<lambda>_.
     insert_idempotency \<lparr>i_actor_type = ''service_account'',
       i_actor_id = sa_service_account_id a, i_operation = ''source.create'', i_key_hash = kh,
       i_request_hash = rh, i_resource_id = Some (s_id s), i_response_code = Some 200,
       i_expires_at = source_request_expires_at now, i_created_at = now\<rparr>))"

definition reserve_tx :: "'t ticket_deps \<Rightarrow> service_actor \<Rightarrow> fresh_ids \<Rightarrow> shared_request \<Rightarrow>
  string \<Rightarrow> string \<Rightarrow> timestamp \<Rightarrow> unit tx" where
  "reserve_tx dp a fr q kh rh now =
     seq_tx (read_tx assert_source_writable) (\<lambda>_.
     seq_tx (read_tx (assert_storage dp (sa_user_id a) (hq_size q))) (\<lambda>_.
     seq_tx (source_insert_reserved (reserved_source_input a (fr_source_id fr) (hq_size q)
       (hq_sha256 q) now (now + 600000) None)) (\<lambda>_.
     seq_tx (insert_source_nonce (fr_nonce fr) (fr_source_id fr) (now + 600000)) (\<lambda>_.
     seq_tx (insert_idempotency (created_record a ''source.create'' kh rh (fr_source_id fr)
       (now + 600000) now)) (\<lambda>_.
     write_tx (audit (render_audit a ''source.reserved'' ''source'' (fr_source_id fr)
       [(''size'', JNum (int (hq_size q))), (''sha256'', JStr (hq_sha256 q))] now)))))))"

text \<open>The status is 200 for a source that existed and 201 for a reservation.\<close>

definition create_source :: "'t ticket_deps \<Rightarrow> service_actor \<Rightarrow> fresh_ids \<Rightarrow> shared_request \<Rightarrow>
  string \<Rightarrow> visits \<Rightarrow> (nat \<times> 't source_reply) result \<times> db" where
  "create_source dp a fr q key vs =
     (let rh = dp_sha dp (stringify (shared_request_json q)); kh = dp_sha dp key;
          (t0, d0) = vs_lookup vs; now = fst (vs_commit vs); (t2, d2) = vs_raced vs;
          acc = sa_service_account_id a;
          raced = raced_resource d2 acc ''source.create'' kh rh t2;
          reissue = (\<lambda>t d i. bind_r (issue_existing_source dp a fr t d i) (\<lambda>r. Inr (200, r))) in
      case assert_source_writable d0 of
        Inl e \<Rightarrow> (Inl e, d0)
      | Inr _ \<Rightarrow>
          (case existing_resource d0 acc ''source.create'' kh rh t0 of
             Inl e \<Rightarrow> (Inl e, d0)
           | Inr (Some i) \<Rightarrow> (reissue t0 d0 i, d0)
           | Inr None \<Rightarrow>
               (case find_ready d0 (sa_user_id a) (hq_sha256 q) (hq_size q) t0 acc of
                  Some s \<Rightarrow> commit_or_raced vs (reuse_tx a s kh rh now)
                    (200, \<lparr>sy_source_id = s_id s, sy_ticket = None, sy_expires_at = s_expires_at s\<rparr>)
                    raced (reissue t2 d2)
                | None \<Rightarrow> commit_or_raced vs (reserve_tx dp a fr q kh rh now)
                    (201, \<lparr>sy_source_id = fr_source_id fr,
                       sy_ticket = Some (issue_source_upload (dp_jose dp) (dp_tickets dp) now
                         (fr_upload_jti fr) (to_subject a (fr_source_id fr)) (hq_size q)
                         (hq_sha256 q) (fr_nonce fr) 600, source_upload_url dp (fr_source_id fr)),
                       sy_expires_at = now + 600000\<rparr>)
                    raced (reissue t2 d2))))"

section \<open>What a reservation guarantees\<close>

lemma insert_source_nonce_InrD:
  "insert_source_nonce n s exp d = Inr (u, d') \<Longrightarrow>
   d' = d\<lparr>source_nonces := source_nonces d @ [new_nonce n s exp]\<rparr>"
  by (auto simp: insert_source_nonce_def split: if_splits)

lemma reserve_tx_InrD:
  assumes "reserve_tx dp a fr q kh rh now d = Inr (u, d')"
  obtains d1 d2 d3 au where "assert_source_writable d = Inr ()"
    "assert_storage dp (sa_user_id a) (hq_size q) d = Inr ()"
    "source_insert_reserved (reserved_source_input a (fr_source_id fr) (hq_size q)
       (hq_sha256 q) now (now + 600000) None) d = Inr ((), d1)"
    "insert_source_nonce (fr_nonce fr) (fr_source_id fr) (now + 600000) d1 = Inr ((), d2)"
    "insert_idempotency (created_record a ''source.create'' kh rh (fr_source_id fr)
       (now + 600000) now) d2 = Inr ((), d3)" "d' = audit au d3"
  using assms by (auto simp: reserve_tx_def seq_tx_Inr_iff)

lemma reserve_tx_storage:
  assumes "reserve_tx dp a fr q kh rh now d = Inr (u, d')"
    and "setting_value d ''max_user_storage_bytes'' (JNum (int (dp_max_user_storage_bytes dp))) =
      Inr (JNum m)"
  shows "storage_usage_for_user d' (sa_user_id a) =
      storage_usage_for_user d (sa_user_id a) + hq_size q"
    and "int (storage_usage_for_user d' (sa_user_id a)) \<le> m"
proof -
  from assms(1) obtain d1 d2 d3 au where
    st: "assert_storage dp (sa_user_id a) (hq_size q) d = Inr ()"
    and d1: "source_insert_reserved (reserved_source_input a (fr_source_id fr) (hq_size q)
       (hq_sha256 q) now (now + 600000) None) d = Inr ((), d1)"
    and d2: "insert_source_nonce (fr_nonce fr) (fr_source_id fr) (now + 600000) d1 = Inr ((), d2)"
    and d3: "insert_idempotency (created_record a ''source.create'' kh rh (fr_source_id fr)
       (now + 600000) now) d2 = Inr ((), d3)" and d': "d' = audit au d3"
    by (rule reserve_tx_InrD)
  have "storage_usage_for_user d' (sa_user_id a) = storage_usage_for_user d1 (sa_user_id a)"
    using d' insert_idempotency_frame [OF d3] insert_source_nonce_InrD [OF d2]
    by (intro storage_usage_cong) auto
  also have "\<dots> = storage_usage_for_user d (sa_user_id a) + hq_size q"
    using source_insert_reserved_InrD [OF d1]
    by (simp add: storage_usage_add_source reserved_source_def reserved_source_input_def)
  finally show new: "storage_usage_for_user d' (sa_user_id a) =
      storage_usage_for_user d (sa_user_id a) + hq_size q" .
  show "int (storage_usage_for_user d' (sa_user_id a)) \<le> m"
    using st assms(2) new by (auto simp: assert_storage_def check_setting_Inr_iff)
qed

text \<open>A request for content the user has ready makes no new source.\<close>

lemma create_source_cases:
  assumes "create_source dp a fr q key vs = (Inr (st, r), d')"
  obtains "st = 200" "sources d' = sources (snd (vs_commit vs)) \<or> d' = snd (vs_lookup vs)"
  | kh rh where "st = 201"
      "reserve_tx dp a fr q kh rh (fst (vs_commit vs)) (snd (vs_commit vs)) = Inr ((), d')"
      "find_ready (snd (vs_lookup vs)) (sa_user_id a) (hq_sha256 q) (hq_size q)
         (fst (vs_lookup vs)) (sa_service_account_id a) = None"
      "sy_source_id r = fr_source_id fr"
proof -
  have reuse: "sources e = sources d" if "reuse_tx a s kh rh now d = Inr (u, e)" for s kh rh now d u e
    using that insert_idempotency_frame by (auto simp: reuse_tx_def seq_tx_Inr_iff)
  show thesis
    using assms that
    by (auto simp: create_source_def Let_def commit_or_raced_def bind_r_Inr_iff dest: reuse
        split: prod.splits sum.splits option.splits)
qed

end
