(* ===== verification/Zip_Extract.thy ===== *)
theory Zip_Extract
  imports Zip_Paths "HOL-Library.Word"
begin

text \<open>
  \<open>validateAndExtract\<close> (packages/zip-validation/src/index.ts). yauzl, which reads the central
  directory, is the list of what it reports: entries, or a broken directory. The archive itself
  is its bytes, from which the local headers are read back. \<open>canon\<close> stands for
  \<open>s.normalize("NFC").toLowerCase()\<close>, \<open>real\<close> for \<open>realpath\<close> of the destination's directories.
\<close>

unbundle bit_operations_syntax

section \<open>Entries and local headers\<close>

record zip_entry =
  ze_name :: string
  ze_flags :: "16 word"
  ze_method :: nat
  ze_compressed :: nat
  ze_uncompressed :: nat
  ze_external :: "32 word"
  ze_offset :: nat
  ze_chunks :: "nat list option"

text \<open>\<open>ze_chunks\<close>: the sizes of the decompressed chunks, or \<open>None\<close> when the stream cannot open.\<close>

datatype zip_event = ZipEntry zip_entry | ZipBroken

definition read_at :: "string \<Rightarrow> nat \<Rightarrow> nat \<Rightarrow> string" where
  "read_at file len off = take len (drop off file)"

definition le16 :: "string \<Rightarrow> nat \<Rightarrow> nat" where
  "le16 b i = ord_of (b ! i) + 256 * ord_of (b ! (i + 1))"

definition le32 :: "string \<Rightarrow> nat \<Rightarrow> nat" where
  "le32 b i = le16 b i + 65536 * le16 b (i + 2)"

definition local_header_error :: "string \<Rightarrow> app_error" where
  "local_header_error c = AppError c 422"

definition assert_local_header :: "string \<Rightarrow> zip_entry \<Rightarrow> unit result" where
  "assert_local_header file e =
     (let fixed = read_at file 30 (ze_offset e) in
      ensure (length fixed = 30 \<and> le32 fixed 0 = 67324752)
        (local_header_error ''ZIP_LOCAL_HEADER_INVALID'')
     (let flags = le16 fixed 6; meth = le16 fixed 8; nl = le16 fixed 26; xl = le16 fixed 28 in
      ensure (flags = unat (ze_flags e) \<and> meth = ze_method e \<and> nl \<le> 4096 \<and> xl \<le> 65535)
        (local_header_error ''ZIP_HEADER_MISMATCH'')
     (let local_name = read_at file nl (ze_offset e + 30);
          utf8 = ((ze_flags e AND 0x800) \<noteq> 0) in
      ensure (length local_name = nl \<and> (utf8 \<or> \<not> list_ex (\<lambda>c. ord_of c > 127) local_name) \<and>
              local_name = ze_name e)
        (local_header_error ''ZIP_HEADER_MISMATCH'')
     (ensure ((ze_flags e AND 8) \<noteq> 0 \<or>
              (le32 fixed 18 = ze_compressed e \<and> le32 fixed 22 = ze_uncompressed e))
        (local_header_error ''ZIP_HEADER_MISMATCH'') (Inr ())))))"

definition entry_type :: "zip_entry \<Rightarrow> 32 word" where
  "entry_type e = (drop_bit 16 (ze_external e) AND 0xffff) AND 0xF000"

definition assert_entry_type :: "zip_entry \<Rightarrow> string \<Rightarrow> unit result" where
  "assert_entry_type e normalized =
     (if (ze_flags e AND 1) \<noteq> 0 then Inl (AppError ''ZIP_ENCRYPTED'' 422)
      else
        (let dir = ends_with ''/'' normalized in
         if entry_type e = 0 \<or> (dir \<and> entry_type e = 0x4000) \<or>
            (\<not> dir \<and> entry_type e = 0x8000)
         then Inr () else Inl (AppError ''ZIP_SPECIAL_FILE'' 422)))"

section \<open>One entry\<close>

record zip_context =
  zc_limits :: zip_limits
  zc_root :: string
  zc_entrypoint :: "string option"
  zc_canon :: "string \<Rightarrow> string"
  zc_real :: "string \<Rightarrow> string"
  zc_file :: string

record zip_state =
  zs_entries :: nat
  zs_files :: nat
  zs_bytes :: nat
  zs_seen :: "string list"
  zs_names :: "string \<rightharpoonup> string"
  zs_paths :: "string list"
  zs_entrypoint :: bool
  zs_tex :: bool

definition zip_start :: zip_state where
  "zip_start = \<lparr>zs_entries = 0, zs_files = 0, zs_bytes = 0, zs_seen = [], zs_names = Map.empty,
     zs_paths = [], zs_entrypoint = False, zs_tex = False\<rparr>"

text \<open>The component prefixes of a path, each compared with the spelling it had before.\<close>

fun note_names :: "(string \<Rightarrow> string) \<Rightarrow> string list \<Rightarrow> (string \<rightharpoonup> string) \<Rightarrow>
  (string \<rightharpoonup> string) result" where
  "note_names canon [] m = Inr m"
| "note_names canon (p # ps) m =
     (if m (canon p) \<noteq> None \<and> m (canon p) \<noteq> Some p then Inl (AppError ''ZIP_DUPLICATE_PATH'' 422)
      else note_names canon ps (m(canon p \<mapsto> p)))"

definition component_prefixes :: "string \<Rightarrow> string list" where
  "component_prefixes normalized =
     (let q = (if ends_with ''/'' normalized then butlast normalized else normalized);
          cs = split_on CHR ''/'' q
      in map (\<lambda>n. join_on CHR ''/'' (take n cs)) [1..<length cs + 1])"

text \<open>The metering transform: chunks pass until one exceeds a limit.\<close>

fun meter :: "zip_limits \<Rightarrow> nat list \<Rightarrow> nat \<Rightarrow> nat \<Rightarrow> (nat \<times> nat) result" where
  "meter lim [] file total_bytes = Inr (file, total_bytes)"
| "meter lim (n # ns) file total_bytes =
     (if file + n > max_file_bytes lim \<or> total_bytes + n > max_extracted_bytes lim
      then Inl (AppError ''ZIP_BOMB'' 422)
      else meter lim ns (file + n) (total_bytes + n))"

text \<open>
  \<open>mkdir\<close> fails below a file, and creating a file exclusively fails where a directory or file is;
  the destination is new, so what is there is what the loop wrote.
\<close>

definition parent_paths :: "string \<Rightarrow> string list" where
  "parent_paths p = butlast (component_prefixes p)"

definition mkdir_fails :: "string list \<Rightarrow> string \<Rightarrow> bool" where
  "mkdir_fails paths p \<longleftrightarrow> list_ex (\<lambda>q. q \<in> set paths) (parent_paths p)"

definition create_fails :: "string list \<Rightarrow> string \<Rightarrow> bool" where
  "create_fails paths p \<longleftrightarrow> p \<in> set paths \<or> list_ex (\<lambda>q. p \<in> set (parent_paths q)) paths"

definition entry_limits :: "zip_limits \<Rightarrow> zip_entry \<Rightarrow> unit result" where
  "entry_limits lim e =
     ensure (ze_uncompressed e \<le> max_file_bytes lim) (AppError ''ZIP_FILE_TOO_LARGE'' 422)
     (ensure (\<not> (ze_uncompressed e > 0 \<and> ze_compressed e > 0 \<and>
                  ze_uncompressed e > 10000 * ze_compressed e))
       (AppError ''ZIP_SUSPICIOUS_RATIO'' 422) (Inr ()))"

definition store_entry :: "zip_context \<Rightarrow> zip_entry \<Rightarrow> string \<Rightarrow> zip_state \<Rightarrow> zip_state result" where
  "store_entry c e p st =
     (let target = path_resolve (zc_root c) p;
          dir = join_on CHR ''/'' (butlast (split_on CHR ''/'' target));
          parent = zc_real c dir in
      ensure (starts_with (zc_root c @ ''/'') target) (AppError ''ZIP_SLIP'' 422)
     (ensure (\<not> mkdir_fails (zs_paths st) p) PlainError
     (ensure (parent = zc_root c \<or> starts_with (zc_root c @ ''/'') parent)
       (AppError ''ZIP_SYMLINK_ESCAPE'' 422)
     (case ze_chunks e of
        None \<Rightarrow> Inl (AppError ''INVALID_ZIP_ENTRY'' 422)
      | Some chunks \<Rightarrow>
          ensure (\<not> create_fails (zs_paths st) p) PlainError
          (bind_r (meter (zc_limits c) chunks 0 (zs_bytes st)) (\<lambda>(file, total_bytes).
             ensure (file = ze_uncompressed e) (AppError ''ZIP_SIZE_MISMATCH'' 422)
             (Inr (st\<lparr>zs_bytes := total_bytes, zs_paths := zs_paths st @ [p]\<rparr>))))))))"

definition file_entry :: "zip_context \<Rightarrow> zip_entry \<Rightarrow> string \<Rightarrow> zip_state \<Rightarrow> zip_state result" where
  "file_entry c e p st =
     (let st1 = st\<lparr>zs_files := zs_files st + 1\<rparr>; ext = to_lower (extname p) in
      ensure (zs_files st1 \<le> max_files (zc_limits c)) (AppError ''ZIP_TOO_MANY_FILES'' 422)
     (bind_r (entry_limits (zc_limits c) e) (\<lambda>_.
      ensure (ext \<in> allowed_extensions) (AppError ''ZIP_EXTENSION_REJECTED'' 422)
      (store_entry c e p (st1\<lparr>zs_entrypoint := zs_entrypoint st1 \<or> zc_entrypoint c = Some p,
                              zs_tex := zs_tex st1 \<or> ext = ''.tex''\<rparr>)))))"

definition noted :: "string \<Rightarrow> (string \<rightharpoonup> string) \<Rightarrow> zip_state \<Rightarrow> zip_state" where
  "noted k m st =
     st\<lparr>zs_entries := zs_entries st + 1, zs_seen := k # zs_seen st, zs_names := m\<rparr>"

definition extract_entry :: "zip_context \<Rightarrow> zip_entry \<Rightarrow> zip_state \<Rightarrow> zip_state result" where
  "extract_entry c e st =
     ensure (zs_entries st + 1 \<le> max_entries (zc_limits c)) (AppError ''ZIP_TOO_MANY_ENTRIES'' 422)
     (bind_r (assert_local_header (zc_file c) e) (\<lambda>_.
      bind_r (normalize_entry (ze_name e) (zc_limits c)) (\<lambda>p.
      ensure (zc_canon c p \<notin> set (zs_seen st)) (AppError ''ZIP_DUPLICATE_PATH'' 422)
     (bind_r (note_names (zc_canon c) (component_prefixes p) (zs_names st)) (\<lambda>m.
      bind_r (assert_entry_type e p) (\<lambda>_.
        if ends_with ''/'' p then Inr (noted (zc_canon c p) m st)
        else file_entry c e p (noted (zc_canon c p) m st)))))))"

section \<open>The loop\<close>

fun extract_events :: "zip_context \<Rightarrow> zip_event list \<Rightarrow> zip_state \<Rightarrow> zip_state result" where
  "extract_events c [] st = Inr st"
| "extract_events c (ZipBroken # evs) st = Inl (AppError ''INVALID_ZIP'' 422)"
| "extract_events c (ZipEntry e # evs) st =
     bind_r (extract_entry c e st) (\<lambda>st'. extract_events c evs st')"

record extract_result =
  xr_files :: nat
  xr_bytes :: nat
  xr_paths :: "string list"

text \<open>
  \<open>requested = ""\<close> asks for any \<open>.tex\<close> file. Every failure removes the destination, so the result
  is all that is left of a failed extraction.
\<close>

definition validate_and_extract :: "zip_limits \<Rightarrow> (string \<Rightarrow> string) \<Rightarrow> (string \<Rightarrow> string) \<Rightarrow>
  string \<Rightarrow> string \<Rightarrow> zip_event list option \<Rightarrow> string \<Rightarrow> extract_result result" where
  "validate_and_extract lim canon real root file archive requested =
     (case archive of None \<Rightarrow> Inl (AppError ''INVALID_ZIP'' 422)
      | Some evs \<Rightarrow>
        bind_r (if requested = [] then Inr None
                else bind_r (validate_entrypoint requested (max_depth lim) (max_name_length lim))
                       (\<lambda>p. Inr (Some p))) (\<lambda>entrypoint.
        bind_r (extract_events \<lparr>zc_limits = lim, zc_root = root, zc_entrypoint = entrypoint,
                  zc_canon = canon, zc_real = real, zc_file = file\<rparr> evs zip_start) (\<lambda>st.
          if entrypoint \<noteq> None \<and> \<not> zs_entrypoint st then Inl (AppError ''ENTRYPOINT_MISSING'' 422)
          else if entrypoint = None \<and> \<not> zs_tex st
          then Inl (AppError ''TEX_ENTRYPOINT_MISSING'' 422)
          else Inr \<lparr>xr_files = zs_files st, xr_bytes = zs_bytes st, xr_paths = zs_paths st\<rparr>)))"

section \<open>What an extraction guarantees\<close>

definition tex_path :: "string \<Rightarrow> bool" where
  "tex_path p \<longleftrightarrow> to_lower (extname p) = ''.tex''"

definition zip_ok :: "zip_context \<Rightarrow> zip_state \<Rightarrow> bool" where
  "zip_ok c st \<longleftrightarrow>
     zs_entries st \<le> max_entries (zc_limits c) \<and> zs_files st \<le> max_files (zc_limits c) \<and>
     zs_files st = length (zs_paths st) \<and> zs_bytes st \<le> max_extracted_bytes (zc_limits c) \<and>
     distinct (map (zc_canon c) (zs_paths st)) \<and>
     zc_canon c ` set (zs_paths st) \<subseteq> set (zs_seen st) \<and>
     (\<forall>p\<in>set (zs_paths st). clean_path (zc_limits c) p \<and>
        to_lower (extname p) \<in> allowed_extensions \<and>
        starts_with (zc_root c @ ''/'') (path_resolve (zc_root c) p)) \<and>
     (zs_entrypoint st \<longrightarrow> (\<exists>p. zc_entrypoint c = Some p \<and> p \<in> set (zs_paths st))) \<and>
     (zs_tex st \<longrightarrow> (\<exists>p\<in>set (zs_paths st). tex_path p))"

lemma zip_ok_start: "zip_ok c zip_start"
  by (simp add: zip_ok_def zip_start_def)

lemma meter_bounds:
  "meter lim ns f0 t0 = Inr (f, t) \<Longrightarrow> t0 \<le> max_extracted_bytes lim \<Longrightarrow>
   t \<le> max_extracted_bytes lim \<and> t = t0 + sum_list ns \<and> f = f0 + sum_list ns"
proof (induction ns arbitrary: f0 t0)
  case (Cons n ns)
  from Cons.prems(1) have "meter lim ns (f0 + n) (t0 + n) = Inr (f, t)"
    and "t0 + n \<le> max_extracted_bytes lim"
    by (auto split: if_splits)
  from Cons.IH [OF this] show ?case by simp
qed simp

lemma store_entry_Inr:
  assumes "store_entry c e p st = Inr st'"
  obtains chunks t where "ze_chunks e = Some chunks"
    "starts_with (zc_root c @ ''/'') (path_resolve (zc_root c) p)"
    "meter (zc_limits c) chunks 0 (zs_bytes st) = Inr (ze_uncompressed e, t)"
    "\<not> create_fails (zs_paths st) p"
    "st' = st\<lparr>zs_bytes := t, zs_paths := zs_paths st @ [p]\<rparr>"
  using assms
  by (auto simp: store_entry_def Let_def bind_r_Inr_iff split: option.splits)

lemma zip_ok_store:
  assumes "zip_ok c st" and "store_entry c e p (st\<lparr>zs_files := zs_files st + 1,
       zs_entrypoint := zs_entrypoint st \<or> zc_entrypoint c = Some p,
       zs_tex := zs_tex st \<or> tex_path p\<rparr>) = Inr st'"
    and "clean_path (zc_limits c) p" and "to_lower (extname p) \<in> allowed_extensions"
    and "zs_files st + 1 \<le> max_files (zc_limits c)"
    and "zc_canon c p \<in> set (zs_seen st)" and "zc_canon c p \<notin> zc_canon c ` set (zs_paths st)"
  shows "zip_ok c st'"
  using assms(2)
proof (rule store_entry_Inr)
  fix chunks t
  let ?st = "st\<lparr>zs_files := zs_files st + 1,
       zs_entrypoint := zs_entrypoint st \<or> zc_entrypoint c = Some p,
       zs_tex := zs_tex st \<or> tex_path p\<rparr>"
  assume "starts_with (zc_root c @ ''/'') (path_resolve (zc_root c) p)"
    and m: "meter (zc_limits c) chunks 0 (zs_bytes ?st) = Inr (ze_uncompressed e, t)"
    and "st' = ?st\<lparr>zs_bytes := t, zs_paths := zs_paths ?st @ [p]\<rparr>"
  moreover have "t \<le> max_extracted_bytes (zc_limits c)"
    using meter_bounds [OF m] assms(1) by (simp add: zip_ok_def)
  ultimately show ?thesis using assms(1,3-7) by (auto simp: zip_ok_def)
qed

lemma zip_ok_file:
  assumes "zip_ok c st" and "file_entry c e p st = Inr st'" and "clean_path (zc_limits c) p"
    and "zc_canon c p \<in> set (zs_seen st)" and "zc_canon c p \<notin> zc_canon c ` set (zs_paths st)"
  shows "zip_ok c st'"
  using assms(2) zip_ok_store [OF assms(1) _ assms(3) _ _ assms(4,5), of e st']
  by (simp add: file_entry_def Let_def bind_r_Inr_iff tex_path_def)

lemma extract_entry_Inr:
  assumes "extract_entry c e st = Inr st'"
  obtains p m where "zs_entries st + 1 \<le> max_entries (zc_limits c)"
    "normalize_entry (ze_name e) (zc_limits c) = Inr p" "zc_canon c p \<notin> set (zs_seen st)"
    "ends_with ''/'' p" "st' = noted (zc_canon c p) m st"
  | p m where "zs_entries st + 1 \<le> max_entries (zc_limits c)"
    "normalize_entry (ze_name e) (zc_limits c) = Inr p" "zc_canon c p \<notin> set (zs_seen st)"
    "\<not> ends_with ''/'' p" "file_entry c e p (noted (zc_canon c p) m st) = Inr st'"
  using assms by (auto simp: extract_entry_def bind_r_Inr_iff split: if_splits)

lemma normalized_file_clean:
  assumes "normalize_entry name lim = Inr p" and "\<not> ends_with ''/'' p"
  shows "clean_path lim p"
  using normalize_entry_parts [OF assms(1)] assms(2) unfolding clean_path_def ends_with_slash
  by (metis append.right_neutral append_is_Nil_conv last_snoc list.discI)

lemma zip_ok_noted:
  "zip_ok c st \<Longrightarrow> zs_entries st + 1 \<le> max_entries (zc_limits c) \<Longrightarrow> zip_ok c (noted k m st)"
  by (auto simp: zip_ok_def noted_def)

lemma zip_ok_entry:
  assumes "zip_ok c st" and "extract_entry c e st = Inr st'"
  shows "zip_ok c st'"
  using assms(2)
proof (cases rule: extract_entry_Inr)
  case (1 p m)
  with zip_ok_noted [OF assms(1) 1(1)] show ?thesis by simp
next
  case (2 p m)
  have "zc_canon c p \<notin> zc_canon c ` set (zs_paths st)"
    using assms(1) 2(3) by (auto simp: zip_ok_def)
  with zip_ok_file [OF zip_ok_noted [OF assms(1) 2(1)] 2(5) normalized_file_clean [OF 2(2,4)]]
  show ?thesis by (simp add: noted_def)
qed

lemma zip_ok_events:
  "zip_ok c st \<Longrightarrow> extract_events c evs st = Inr st' \<Longrightarrow> zip_ok c st'"
  by (induction c evs st rule: extract_events.induct)
    (auto simp: bind_r_Inr_iff dest: zip_ok_entry)

text \<open>The files of an accepted archive.\<close>

lemma validate_and_extract_ok:
  assumes "validate_and_extract lim canon real root file archive requested = Inr r"
  obtains c st where "zip_ok c st" "zc_limits c = lim" "zc_canon c = canon" "zc_root c = root"
    "r = \<lparr>xr_files = zs_files st, xr_bytes = zs_bytes st, xr_paths = zs_paths st\<rparr>"
    "requested = [] \<Longrightarrow> zs_tex st"
    "requested \<noteq> [] \<Longrightarrow> zs_entrypoint st \<and> zc_entrypoint c = Some requested"
proof -
  from assms obtain evs entrypoint st where z: "archive = Some evs"
    and ep: "(if requested = [] then Inr None
        else bind_r (validate_entrypoint requested (max_depth lim) (max_name_length lim))
               (\<lambda>p. Inr (Some p))) = Inr entrypoint"
    and ev: "extract_events \<lparr>zc_limits = lim, zc_root = root, zc_entrypoint = entrypoint,
        zc_canon = canon, zc_real = real, zc_file = file\<rparr> evs zip_start = Inr st"
    and fin: "entrypoint \<noteq> None \<Longrightarrow> zs_entrypoint st" "entrypoint = None \<Longrightarrow> zs_tex st"
      "r = \<lparr>xr_files = zs_files st, xr_bytes = zs_bytes st, xr_paths = zs_paths st\<rparr>"
    by (auto simp: validate_and_extract_def bind_r_Inr_iff split: option.splits if_splits)
  let ?c = "\<lparr>zc_limits = lim, zc_root = root, zc_entrypoint = entrypoint,
        zc_canon = canon, zc_real = real, zc_file = file\<rparr>"
  have e: "requested = [] \<Longrightarrow> entrypoint = None"
    "requested \<noteq> [] \<Longrightarrow> entrypoint = Some requested"
    using ep by (auto simp: bind_r_Inr_iff split: if_splits dest: validate_entrypoint_clean)
  show thesis
    using that [of ?c st] zip_ok_events [OF zip_ok_start ev] fin e by simp
qed

end
