(* ===== verification/Upload.thy ===== *)
theory Upload
  imports Sources Tickets Zip_Extract Json
begin

text \<open>
  The upload of a source archive (apps/renderer-api/src/services/upload.ts). One upload is a
  sequence of phases between which other processes run: it claims its nonce and the source, writes
  and checks the body, makes sure that it still owns the claim, moves the file into place and
  publishes the source; a failure gives the claim back if it is still held. Each phase runs on the
  database and clock it finds, the \<open>upload_run\<close>. \<open>sha\<close> is the hexadecimal SHA-256.
\<close>

section \<open>Claims and body\<close>

record upload_deps =
  ud_max_upload_bytes :: nat
  ud_max_extracted_bytes :: nat
  ud_max_entries :: nat
  ud_max_files :: nat
  ud_min_free_bytes :: nat
  ud_sha :: "string \<Rightarrow> string"
  ud_canon :: "string \<Rightarrow> string"
  ud_root :: string

text \<open>
  The request: \<open>Number\<close> of its Content-Length when that is an integer, its Content-Type, and the
  chunks of its body. The directory yauzl reads from the written bytes is \<open>ur_archive\<close> below.
\<close>

record upload_request_http =
  uh_content_length :: "int option"
  uh_content_type :: "string option"
  uh_body :: "string list option"

definition assert_upload_claims ::
  "upload_deps \<Rightarrow> upload_request_http \<Rightarrow> ticket_claims \<Rightarrow> (int \<times> string \<times> string) result" where
  "assert_upload_claims dp req c =
     (case (num_member (cl_payload c) ''size'', str_member (cl_payload c) ''sha256'',
            str_member (cl_payload c) ''nonce'') of
        (Some n, Some h, Some nonce) \<Rightarrow>
          ensure (n \<le> int (ud_max_upload_bytes dp)) (AppError ''UPLOAD_TOO_LARGE'' 413)
         (ensure (uh_content_length req = Some n) (AppError ''CONTENT_LENGTH_MISMATCH'' 400)
         (ensure (map_option (takeWhile (\<lambda>x. x \<noteq> CHR '';'')) (uh_content_type req) =
                  Some ''application/zip'') (AppError ''UNSUPPORTED_MEDIA_TYPE'' 415)
         (Inr (n, h, nonce))))
      | _ \<Rightarrow> Inl (AppError ''UPLOAD_CLAIMS_INVALID'' 401))"

text \<open>The meter stops the body at the first chunk over the claimed size or the limit.\<close>

fun receive :: "int \<Rightarrow> nat \<Rightarrow> string list \<Rightarrow> string \<Rightarrow> string result" where
  "receive claimed limit [] got = Inr got"
| "receive claimed limit (c # cs) got =
     (if int (length got + length c) > claimed \<or> length got + length c > limit
      then Inl (AppError ''UPLOAD_TOO_LARGE'' 413)
      else receive claimed limit cs (got @ c))"

definition write_verified_body ::
  "upload_deps \<Rightarrow> nat \<Rightarrow> upload_request_http \<Rightarrow> int \<Rightarrow> string \<Rightarrow> string result" where
  "write_verified_body dp free req claimed hash =
     ensure (ud_min_free_bytes dp \<le> free) (AppError ''STORAGE_PRESSURE'' 503)
     (case uh_body req of
        None \<Rightarrow> Inl (AppError ''UPLOAD_BODY_REQUIRED'' 400)
      | Some chunks \<Rightarrow>
          bind_r (receive claimed (ud_max_upload_bytes dp) chunks []) (\<lambda>got.
            ensure (int (length got) = claimed \<and> ud_sha dp got = hash)
              (AppError ''UPLOAD_INTEGRITY_FAILED'' 422) (Inr got)))"

lemma receive_bounded:
  "receive claimed limit cs got = Inr out \<Longrightarrow> length got \<le> limit \<Longrightarrow> length out \<le> limit"
  by (induction cs arbitrary: got) (auto split: if_splits)

lemma write_verified_body_Inr:
  assumes "write_verified_body dp free req claimed hash = Inr got"
  shows "int (length got) = claimed \<and> ud_sha dp got = hash \<and> length got \<le> ud_max_upload_bytes dp"
  using assms receive_bounded [of claimed "ud_max_upload_bytes dp" _ "[]" got]
  by (auto simp: write_verified_body_def bind_r_Inr_iff split: option.splits)

section \<open>The claim and its heartbeat\<close>

datatype upload_context = ForJob string | ForSource

fun claim_upload_nonce :: "upload_context \<Rightarrow> string \<Rightarrow> string \<Rightarrow> string \<Rightarrow> timestamp \<Rightarrow> unit tx" where
  "claim_upload_nonce ForSource src nonce ow now =
     claim_source_nonce nonce src ow (now + 120000) now"
| "claim_upload_nonce (ForJob job) src nonce ow now =
     seq_tx (claim_nonce nonce job ow (now + 120000) now)
       (\<lambda>_. transition_job job [Reserved] Uploading [] now)"

fun extend_claim :: "upload_context \<Rightarrow> string \<Rightarrow> string \<Rightarrow> timestamp \<Rightarrow> db \<Rightarrow> nat \<times> db" where
  "extend_claim ForSource nonce ow now d = extend_source_nonce_claim nonce ow now (now + 120000) d"
| "extend_claim (ForJob job) nonce ow now d = extend_nonce_claim nonce ow now (now + 120000) d"

fun consume_claim :: "upload_context \<Rightarrow> string \<Rightarrow> string \<Rightarrow> timestamp \<Rightarrow> unit tx" where
  "consume_claim ForSource nonce ow now = consume_source_nonce nonce ow now"
| "consume_claim (ForJob job) nonce ow now = consume_nonce nonce ow now"

fun release_claim :: "upload_context \<Rightarrow> string \<Rightarrow> string \<Rightarrow> timestamp \<Rightarrow> db \<Rightarrow> nat \<times> db" where
  "release_claim ForSource nonce ow now d = release_source_nonce nonce ow now d"
| "release_claim (ForJob job) nonce ow now d = release_nonce nonce ow now d"

text \<open>
  \<open>extend()\<close>: once an extension was refused the claim counts as lost. The timer calls it every
  thirty seconds; \<open>lost\<close> is what the earlier calls left.
\<close>

definition heartbeat_extend ::
  "upload_context \<Rightarrow> string \<Rightarrow> string \<Rightarrow> bool \<Rightarrow> timestamp \<Rightarrow> db \<Rightarrow> bool \<times> db" where
  "heartbeat_extend cx nonce ow lost now d =
     (if lost then (False, d)
      else case extend_claim cx nonce ow now d of (n, d') \<Rightarrow> (n = 1, d'))"

section \<open>The transactions\<close>

definition begin_upload_tx ::
  "upload_context \<Rightarrow> string \<Rightarrow> string \<Rightarrow> string \<Rightarrow> timestamp \<Rightarrow> unit tx" where
  "begin_upload_tx cx src nonce ow now =
     seq_tx (read_tx assert_source_writable) (\<lambda>_.
     seq_tx (claim_upload_nonce cx src nonce ow now) (\<lambda>_.
     source_transition src [SReserved] SUploading now []))"

text \<open>\<open>new Date(NaN).toISOString()\<close> throws; a time before 1970 would be in the past either way.\<close>

definition orphan_expiry :: "timestamp \<Rightarrow> db \<Rightarrow> timestamp result" where
  "orphan_expiry now d =
     bind_r (setting_value d ''source_orphan_retention_minutes'' (JNum 60)) (\<lambda>v.
       case js_number v of None \<Rightarrow> Inl PlainError | Some m \<Rightarrow> Inr (nat (int now + m * 60000)))"

definition upload_audit :: "ticket_claims \<Rightarrow> source_row \<Rightarrow> nat \<Rightarrow> timestamp \<Rightarrow> audit_row" where
  "upload_audit c s files now = \<lparr>au_actor_type = ActorServiceAccount,
     au_actor_id = cl_service_account_id c, au_action = ''source.uploaded'',
     au_target_type = ''source'', au_target_id = s_id s, au_result = ''success'',
     au_ip_address = None, au_user_agent = None,
     au_metadata = [(''size'', JNum (int (s_size s))), (''sha256'', JStr (s_sha256 s)),
       (''files'', JNum (int files))], au_created_at = now\<rparr>"

definition paths_json :: "string list \<Rightarrow> json_text" where
  "paths_json ps = Some (JArr (map JStr ps))"

definition queue_uploaded :: "upload_context \<Rightarrow> timestamp \<Rightarrow> unit tx" where
  "queue_uploaded cx now = (case cx of ForSource \<Rightarrow> return_tx ()
     | ForJob job \<Rightarrow> transition_job job [Uploading] Queued [SetQueuedAt (Some now)] now)"

definition publish_upload_tx :: "upload_context \<Rightarrow> ticket_claims \<Rightarrow> source_row \<Rightarrow> string \<Rightarrow> string \<Rightarrow>
  extract_result \<Rightarrow> timestamp \<Rightarrow> timestamp \<Rightarrow> unit tx" where
  "publish_upload_tx cx c s nonce ow x expires now =
     seq_tx (read_tx assert_source_writable) (\<lambda>_.
     seq_tx (consume_claim cx nonce ow now) (\<lambda>_.
     seq_tx (source_transition (s_id s) [SUploading] SReady now
       [SetUploadedAt (Some now), SetSourceExpiresAt expires,
        SetPaths (Some (paths_json (xr_paths x)))]) (\<lambda>_.
     seq_tx (queue_uploaded cx now) (\<lambda>_.
     write_tx (audit (upload_audit c s (xr_files x) now))))))"

definition restore_upload :: "upload_context \<Rightarrow> string \<Rightarrow> timestamp \<Rightarrow> db \<Rightarrow> db" where
  "restore_upload cx src now d =
     (let d1 = snd (update_sources (\<lambda>s. s_id s = src \<and> s_status s = SUploading)
                      (\<lambda>s. s\<lparr>s_status := SReserved, s_updated_at := now\<rparr>) d) in
      case cx of ForSource \<Rightarrow> d1 | ForJob job \<Rightarrow> restore_reserved job now d1)"

definition release_upload :: "upload_context \<Rightarrow> string \<Rightarrow> string \<Rightarrow> string \<Rightarrow> timestamp \<Rightarrow> db \<Rightarrow> db" where
  "release_upload cx src nonce ow now d =
     (case release_claim cx nonce ow now d of
        (n, d1) \<Rightarrow> if n \<noteq> 1 then d1 else restore_upload cx src now d1)"

section \<open>One upload\<close>

text \<open>
  What an upload meets on its way: the databases at its claim, at the ownership check, at its
  publication and at its two clean-up phases; whether its heartbeat had already failed at the two
  checks; the free space; what yauzl finds in the written file; and whether the file system
  accepts the rename.
\<close>

record upload_run =
  ur_claim :: "timestamp \<times> db"
  ur_free :: nat
  ur_archive :: "zip_event list option"
  ur_check :: "timestamp \<times> db"
  ur_check_lost :: bool
  ur_renamed :: bool
  ur_publish :: "timestamp \<times> db"
  ur_retain :: "timestamp \<times> db"
  ur_retain_lost :: bool
  ur_release :: "timestamp \<times> db"

definition upload_limits :: "upload_deps \<Rightarrow> zip_limits" where
  "upload_limits dp = \<lparr>max_extracted_bytes = ud_max_extracted_bytes dp,
     max_file_bytes = ud_max_upload_bytes dp, max_entries = ud_max_entries dp,
     max_files = ud_max_files dp, max_depth = 10, max_name_length = 200\<rparr>"

definition bad_storage_key :: "string \<Rightarrow> bool" where
  "bad_storage_key k \<longleftrightarrow> starts_with ''/'' k \<or> ''..'' \<in> set (split_on CHR ''/'' k)"

definition inspection_root :: "upload_deps \<Rightarrow> source_row \<Rightarrow> string \<Rightarrow> string" where
  "inspection_root dp s ow = join_on CHR ''/'' (butlast (split_on CHR ''/''
     (ud_root dp @ ''/'' @ s_storage_key s)) @ [''.inspect-'' @ ow])"

text \<open>Everything between the claim and the publication that does not write the database.\<close>

definition inspect_body :: "upload_deps \<Rightarrow> upload_request_http \<Rightarrow> source_row \<Rightarrow> string \<Rightarrow>
  upload_run \<Rightarrow> (string \<times> extract_result) result" where
  "inspect_body dp req s ow run =
     bind_r (write_verified_body dp (ur_free run) req (int (s_size s)) (s_sha256 s)) (\<lambda>got.
     bind_r (validate_and_extract (upload_limits dp) (ud_canon dp) id (inspection_root dp s ow)
       got (ur_archive run) []) (\<lambda>x. Inr (got, x)))"

text \<open>
  The result of the main path: the extraction and the database after publication. A failure
  carries the error; the phases it had finished stay done.
\<close>

definition upload_main :: "upload_deps \<Rightarrow> upload_context \<Rightarrow> ticket_claims \<Rightarrow>
  upload_request_http \<Rightarrow> source_row \<Rightarrow> string \<Rightarrow> string \<Rightarrow> upload_run \<Rightarrow> (extract_result \<times> db) result" where
  "upload_main dp cx c req s nonce ow run =
     bind_r (inspect_body dp req s ow run) (\<lambda>(got, x).
     ensure (fst (heartbeat_extend cx nonce ow (ur_check_lost run) (fst (ur_check run))
               (snd (ur_check run)))) (AppError ''UPLOAD_CLAIM_LOST'' 409)
     (bind_r (assert_source_writable (snd (ur_check run))) (\<lambda>_.
      ensure (ur_renamed run) PlainError
      (case ur_publish run of (now, d) \<Rightarrow>
        bind_r (orphan_expiry now d) (\<lambda>expires.
        bind_r (publish_upload_tx cx c s nonce ow x expires now d) (\<lambda>(_, d'). Inr (x, d')))))))"

text \<open>What a failed upload does to the database it finds: nothing unless it still owns the claim.\<close>

definition upload_cleanup ::
  "upload_context \<Rightarrow> string \<Rightarrow> string \<Rightarrow> string \<Rightarrow> upload_run \<Rightarrow> db" where
  "upload_cleanup cx src nonce ow run =
     (if fst (heartbeat_extend cx nonce ow (ur_retain_lost run) (fst (ur_retain run))
               (snd (ur_retain run)))
      then release_upload cx src nonce ow (fst (ur_release run)) (snd (ur_release run))
      else snd (ur_retain run))"

datatype upload_outcome = AlreadyThere | Published extract_result

definition upload_shared :: "upload_deps \<Rightarrow> upload_context \<Rightarrow> ticket_claims \<Rightarrow>
  upload_request_http \<Rightarrow> string \<Rightarrow> string \<Rightarrow> upload_run \<Rightarrow> upload_outcome result \<times> db" where
  "upload_shared dp cx c req src ow run =
     (let (now, d) = ur_claim run in
      case bind_r (assert_upload_claims dp req c) (\<lambda>cl.
           bind_r (assert_source_writable d) (\<lambda>_.
             case source_get d src of None \<Rightarrow> Inl (AppError ''SOURCE_NOT_FOUND'' 404)
             | Some s \<Rightarrow> Inr (cl, s))) of
        Inl e \<Rightarrow> (Inl e, d)
      | Inr ((n, hash, nonce), s) \<Rightarrow>
          if s_status s = SReady \<and> s_sha256 s = hash then (Inr AlreadyThere, d)
          else if s_status s \<noteq> SReserved then (Inl (AppError ''SOURCE_NOT_UPLOADABLE'' 409), d)
          else if bad_storage_key (s_storage_key s)
          then (Inl (AppError ''SOURCE_STORAGE_INVALID'' 500), d)
          else (case begin_upload_tx cx src nonce ow now d of
              Inl e \<Rightarrow> (Inl e, d)
            | Inr _ \<Rightarrow>
                (case upload_main dp cx c req s nonce ow run of
                   Inr (x, d') \<Rightarrow> (Inr (Published x), d')
                 | Inl e \<Rightarrow> (Inl e, upload_cleanup cx src nonce ow run))))"

section \<open>Jobs of old releases\<close>

text \<open>Such a job has no source row: its archive lies in its own directory.\<close>

definition begin_legacy_tx :: "string \<Rightarrow> string \<Rightarrow> string \<Rightarrow> timestamp \<Rightarrow> unit tx" where
  "begin_legacy_tx job nonce ow now =
     seq_tx (read_tx assert_source_writable) (\<lambda>_.
     seq_tx (claim_nonce nonce job ow (now + 120000) now) (\<lambda>_.
     transition_job job [Reserved] Uploading [] now))"

definition publish_legacy_tx :: "string \<Rightarrow> string \<Rightarrow> string \<Rightarrow> timestamp \<Rightarrow> unit tx" where
  "publish_legacy_tx job nonce ow now =
     seq_tx (read_tx assert_source_writable) (\<lambda>_.
     seq_tx (consume_nonce nonce ow now) (\<lambda>_.
     transition_job job [Uploading] Queued [SetQueuedAt (Some now)] now))"

definition legacy_main :: "upload_deps \<Rightarrow> upload_request_http \<Rightarrow> string \<Rightarrow> int \<Rightarrow> string \<Rightarrow>
  string \<Rightarrow> string \<Rightarrow> upload_run \<Rightarrow> db result" where
  "legacy_main dp req job n hash nonce ow run =
     bind_r (write_verified_body dp (ur_free run) req n hash) (\<lambda>_.
     ensure (fst (heartbeat_extend (ForJob job) nonce ow (ur_check_lost run) (fst (ur_check run))
               (snd (ur_check run)))) (AppError ''UPLOAD_CLAIM_LOST'' 409)
     (bind_r (assert_source_writable (snd (ur_check run))) (\<lambda>_.
      ensure (ur_renamed run) PlainError
      (case ur_publish run of (now, d) \<Rightarrow>
        bind_r (publish_legacy_tx job nonce ow now d) (\<lambda>(_, d'). Inr d')))))"

definition legacy_cleanup :: "string \<Rightarrow> string \<Rightarrow> string \<Rightarrow> upload_run \<Rightarrow> db" where
  "legacy_cleanup job nonce ow run =
     (if fst (heartbeat_extend (ForJob job) nonce ow (ur_retain_lost run) (fst (ur_retain run))
               (snd (ur_retain run)))
      then (case ur_release run of (now, d) \<Rightarrow>
             (case release_nonce nonce ow now d of
                (n, d1) \<Rightarrow> if n = 1 then restore_reserved job now d1 else d1))
      else snd (ur_retain run))"

definition upload_legacy :: "upload_deps \<Rightarrow> ticket_claims \<Rightarrow> upload_request_http \<Rightarrow> string \<Rightarrow>
  string \<Rightarrow> upload_run \<Rightarrow> unit result \<times> db" where
  "upload_legacy dp c req job ow run =
     (let (now, d) = ur_claim run in
      case bind_r (assert_upload_claims dp req c) (\<lambda>cl.
           bind_r (assert_source_writable d) (\<lambda>_. Inr cl)) of
        Inl e \<Rightarrow> (Inl e, d)
      | Inr (n, hash, nonce) \<Rightarrow>
          if get_upload_state d job = Some (Queued, hash) then (Inr (), d)
          else if map_option fst (get_upload_state d job) \<noteq> Some Reserved
          then (Inl (AppError ''JOB_NOT_UPLOADABLE'' 409), d)
          else (case begin_legacy_tx job nonce ow now d of
              Inl e \<Rightarrow> (Inl e, d)
            | Inr _ \<Rightarrow>
                (case legacy_main dp req job n hash nonce ow run of
                   Inr d' \<Rightarrow> (Inr (), d')
                 | Inl e \<Rightarrow> (Inl e, legacy_cleanup job nonce ow run))))"

text \<open>\<open>uploadSource\<close>: to the source of the job, or, where it has none, to the job itself.\<close>

definition upload_source :: "upload_deps \<Rightarrow> ticket_claims \<Rightarrow> upload_request_http \<Rightarrow> string \<Rightarrow>
  string \<Rightarrow> upload_run \<Rightarrow> unit result \<times> db" where
  "upload_source dp c req job ow run =
     (let d = snd (ur_claim run) in
      case get_job d job of
        None \<Rightarrow> (Inl (AppError ''JOB_NOT_FOUND'' 404), d)
      | Some j \<Rightarrow> (case j_source_id j of
          None \<Rightarrow> upload_legacy dp c req job ow run
        | Some i \<Rightarrow> (case source_get d i of
            None \<Rightarrow> (Inl (AppError ''SOURCE_NOT_FOUND'' 404), d)
          | Some s \<Rightarrow> (case upload_shared dp (ForJob job) c req (s_id s) ow run of
              (r, d') \<Rightarrow> (bind_r r (\<lambda>_. Inr ()), d')))))"

definition upload_source_content :: "upload_deps \<Rightarrow> ticket_claims \<Rightarrow> upload_request_http \<Rightarrow>
  string \<Rightarrow> string \<Rightarrow> upload_run \<Rightarrow> unit result \<times> db" where
  "upload_source_content dp c req src ow run =
     (case upload_shared dp ForSource c req src ow run of (r, d') \<Rightarrow> (bind_r r (\<lambda>_. Inr ()), d'))"

section \<open>What a published source is\<close>

lemma source_transition_InrD:
  assumes "sources_keyed d" and "source_transition i src dst ts us d = Inr (u, d')"
  shows "\<exists>s. source_of d i = Some s \<and> s_status s \<in> set src \<and>
    source_of d' i = Some (fold set_source_column us (s\<lparr>s_status := dst, s_updated_at := ts\<rparr>))"
    and "d' = d\<lparr>sources := sources d'\<rparr>"
proof -
  let ?p = "\<lambda>s. s_id s = i \<and> s_status s \<in> set src"
  let ?f = "\<lambda>s. fold set_source_column us (s\<lparr>s_status := dst, s_updated_at := ts\<rparr>)"
  have id1: "s_id (set_source_column x s) = s_id s" for x s by (cases x) simp_all
  have "s_id (fold set_source_column us s) = s_id s" for s
    by (induction us arbitrary: s) (simp_all add: id1)
  then have keep: "s_id (?f s) = s_id s" for s by simp
  from assms(2) have "changes ?p (sources d) = 1"
    and d': "d' = d\<lparr>sources := upd_where ?p ?f (sources d)\<rparr>"
    by (auto simp: source_transition_def update_sources_def split: if_splits)
  with one_source [OF assms(1), of ?p i ?f] keep show "\<exists>s. source_of d i = Some s \<and>
      s_status s \<in> set src \<and> source_of d' i = Some (?f s)" by auto
  show "d' = d\<lparr>sources := sources d'\<rparr>" using d' by simp
qed

lemma consume_claim_InrD:
  assumes "consume_claim cx nonce ow now d = Inr (u, d')"
  shows "sources d' = sources d" and "jobs d' = jobs d"
  using assms
  by (cases cx; auto simp: consume_nonce_def consume_source_nonce_def split: if_splits)+

lemma upload_published:
  assumes "upload_shared dp cx c req src ow run = (Inr (Published x), d')"
  obtains s n hash nonce got expires where "source_get (snd (ur_claim run)) src = Some s"
    "assert_upload_claims dp req c = Inr (n, hash, nonce)" "s_status s = SReserved"
    "length got = s_size s" "ud_sha dp got = s_sha256 s"
    "validate_and_extract (upload_limits dp) (ud_canon dp) id (inspection_root dp s ow) got
       (ur_archive run) [] = Inr x"
    "publish_upload_tx cx c s nonce ow x expires (fst (ur_publish run)) (snd (ur_publish run)) =
       Inr ((), d')"
proof -
  obtain now d where run: "ur_claim run = (now, d)" by fastforce
  from assms obtain n hash nonce s where s: "source_get d src = Some s" "s_status s = SReserved"
    and cl: "assert_upload_claims dp req c = Inr (n, hash, nonce)"
    and m: "upload_main dp cx c req s nonce ow run = Inr (x, d')"
    by (auto simp: upload_shared_def run bind_r_def split: sum.splits option.splits if_splits)
  obtain pt pd where pub: "ur_publish run = (pt, pd)" by fastforce
  with m obtain got expires where i: "inspect_body dp req s ow run = Inr (got, x)"
    and p: "publish_upload_tx cx c s nonce ow x expires (fst (ur_publish run))
       (snd (ur_publish run)) = Inr ((), d')"
    by (auto simp: upload_main_def bind_r_Inr_iff split: prod.splits)
  from i have w: "write_verified_body dp (ur_free run) req (int (s_size s)) (s_sha256 s) = Inr got"
    and v: "validate_and_extract (upload_limits dp) (ud_canon dp) id (inspection_root dp s ow) got
       (ur_archive run) [] = Inr x"
    by (auto simp: inspect_body_def bind_r_Inr_iff)
  from write_verified_body_Inr [OF w] have "length got = s_size s" "ud_sha dp got = s_sha256 s"
    by simp_all
  with that s cl v p run show thesis by simp
qed

lemma source_paths_stored: "s_paths s = Some (paths_json ps) \<Longrightarrow> source_paths s = Inr ps"
  by (simp add: source_paths_def paths_json_def del: string_array.simps)

lemma publish_upload_ready:
  assumes "publish_upload_tx cx c s nonce ow x expires now d = Inr ((), d')" and "sources_keyed d"
  obtains s0 t where "source_of d (s_id s) = Some s0" "s_status s0 = SUploading"
    "source_of d' (s_id s) = Some t" "s_status t = SReady" "source_paths t = Inr (xr_paths x)"
    "s_size t = s_size s0" "s_sha256 t = s_sha256 s0" "s_expires_at t = expires"
proof -
  from assms(1) obtain d1 d2 d3 where
    con: "consume_claim cx nonce ow now d = Inr ((), d1)"
    and tr: "source_transition (s_id s) [SUploading] SReady now [SetUploadedAt (Some now),
        SetSourceExpiresAt expires, SetPaths (Some (paths_json (xr_paths x)))] d1 = Inr ((), d2)"
    and q: "queue_uploaded cx now d2 = Inr ((), d3)"
    and d': "d' = audit (upload_audit c s (xr_files x) now) d3"
    by (auto simp: publish_upload_tx_def seq_tx_Inr_iff)
  have src: "sources d1 = sources d" by (rule consume_claim_InrD [OF con])
  then have "sources_keyed d1" using assms(2) by (simp add: sources_keyed_def)
  from source_transition_InrD(1) [OF this tr] src obtain s0 where
    s0: "source_of d (s_id s) = Some s0" "s_status s0 = SUploading"
    and t: "source_of d2 (s_id s) = Some (fold set_source_column [SetUploadedAt (Some now),
        SetSourceExpiresAt expires, SetPaths (Some (paths_json (xr_paths x)))]
        (s0\<lparr>s_status := SReady, s_updated_at := now\<rparr>))"
    by auto
  have "sources d3 = sources d2"
    using q by (cases cx) (auto simp: queue_uploaded_def transition_job_def Let_def
        update_jobs_status_def split: if_splits)
  with t d' have "source_of d' (s_id s) = Some (s0\<lparr>s_status := SReady, s_updated_at := now,
      s_uploaded_at := Some now, s_expires_at := expires,
      s_paths := Some (paths_json (xr_paths x))\<rparr>)" by simp
  with that [OF s0] show thesis by (simp add: source_paths_stored)
qed

section \<open>A claim is spent once\<close>

text \<open>The nonce table of the two kinds of upload.\<close>

definition nonce_spent :: "upload_context \<Rightarrow> string \<Rightarrow> db \<Rightarrow> bool" where
  "nonce_spent cx nonce d = (case cx of ForSource \<Rightarrow> source_nonce.spent nonce d
     | ForJob _ \<Rightarrow> job_nonce.spent nonce d)"

lemma nonce_spent_no_claim:
  assumes "nonce_spent cx nonce d"
  shows "\<exists>e. claim_upload_nonce cx src nonce ow now d = Inl e"
proof (cases cx)
  case (ForJob job)
  with assms have "job_nonce.spent nonce d" by (simp add: nonce_spent_def)
  from job_nonce.spent_no_claim [OF this, of job ow "now + 120000" now] ForJob show ?thesis
    by (auto simp: seq_tx_def)
next
  case ForSource
  with assms have "source_nonce.spent nonce d" by (simp add: nonce_spent_def)
  from source_nonce.spent_no_claim [OF this, of src ow "now + 120000" now] ForSource
  show ?thesis by simp
qed

lemma begin_upload_spent:
  "nonce_spent cx nonce d \<Longrightarrow> \<exists>e. begin_upload_tx cx src nonce ow now d = Inl e"
  using nonce_spent_no_claim [of cx nonce d src ow now]
  by (auto simp: begin_upload_tx_def seq_tx_def read_tx_def split: sum.splits)

lemma source_transition_nonces:
  "source_transition i src dst ts us d = Inr (u, d') \<Longrightarrow>
   job_nonces d' = job_nonces d \<and> source_nonces d' = source_nonces d"
  by (auto simp: source_transition_def update_sources_def split: if_splits)

lemma queue_uploaded_nonces:
  "queue_uploaded cx now d = Inr (u, d') \<Longrightarrow>
   job_nonces d' = job_nonces d \<and> source_nonces d' = source_nonces d"
  by (cases cx) (auto simp: queue_uploaded_def transition_job_def Let_def update_jobs_status_def
      split: if_splits)

lemma consume_claim_spends:
  assumes "consume_claim cx nonce ow now d = Inr (u, d')"
    and "distinct (map n_nonce (job_nonces d))" and "distinct (map n_nonce (source_nonces d))"
  shows "nonce_spent cx nonce d'"
proof (cases cx)
  case (ForJob job)
  with assms(1) have "consume_nonce nonce ow now d = Inr (u, d')" by simp
  from job_nonce.consume_spends [OF assms(2) this] ForJob show ?thesis by (simp add: nonce_spent_def)
next
  case ForSource
  with assms(1) have "consume_source_nonce nonce ow now d = Inr (u, d')" by simp
  from source_nonce.consume_spends [OF assms(3) this] ForSource show ?thesis
    by (simp add: nonce_spent_def)
qed

lemma publish_upload_spends:
  assumes "publish_upload_tx cx c s nonce ow x expires now d = Inr (u, d')"
    and "distinct (map n_nonce (job_nonces d))" and "distinct (map n_nonce (source_nonces d))"
  shows "nonce_spent cx nonce d'"
proof -
  from assms(1) obtain d1 d2 d3 where
    con: "consume_claim cx nonce ow now d = Inr ((), d1)"
    and tr: "source_transition (s_id s) [SUploading] SReady now [SetUploadedAt (Some now),
        SetSourceExpiresAt expires, SetPaths (Some (paths_json (xr_paths x)))] d1 = Inr ((), d2)"
    and q: "queue_uploaded cx now d2 = Inr ((), d3)"
    and d': "d' = audit (upload_audit c s (xr_files x) now) d3"
    by (auto simp: publish_upload_tx_def seq_tx_Inr_iff)
  have "job_nonces d' = job_nonces d1" "source_nonces d' = source_nonces d1"
    using source_transition_nonces [OF tr] queue_uploaded_nonces [OF q] d' by simp_all
  with consume_claim_spends [OF con assms(2,3)] show ?thesis
    by (cases cx) (simp_all add: nonce_spent_def job_nonce.spent_def source_nonce.spent_def)
qed

text \<open>A failed upload that lost its claim leaves every row alone.\<close>

lemma cleanup_lost:
  "fst (heartbeat_extend cx nonce ow (ur_retain_lost run) (fst (ur_retain run))
     (snd (ur_retain run))) = False \<Longrightarrow>
   upload_cleanup cx src nonce ow run = snd (ur_retain run)"
  by (simp add: upload_cleanup_def)

end
