(* ===== verification/Request_Scenarios.thy ===== *)
theory Request_Scenarios
  imports Scenarios Source_Tickets Upload
begin

text \<open>
  Concrete requests on the states of \<open>Scenarios\<close>: a service account, its ticket service, and the
  visits of a request that meets no other. The hash is any function of the length SHA-256 has.
\<close>

definition toy_hash :: "string \<Rightarrow> string" where
  "toy_hash s = take 64 (s @ replicate 64 CHR ''0'')"

definition the_actor :: service_actor where
  "the_actor = \<lparr>sa_user_id = ''u'', sa_service_account_id = ''a'', sa_api_key_id = ''k'',
     sa_user_security_version = 1, sa_account_security_version = 1\<rparr>"

definition the_tickets :: ticket_service where
  "the_tickets = \<lparr>tk_issuer = ''iss'', tk_audience = ''aud'',
     tk_active = \<lparr>sk_kid = ''k1'', sk_secret = replicate 32 CHR ''s''\<rparr>,
     tk_keys = [\<lparr>sk_kid = ''k1'', sk_secret = replicate 32 CHR ''s''\<rparr>]\<rparr>"

definition the_deps :: "(payload \<times> payload \<times> string) ticket_deps" where
  "the_deps = \<lparr>dp_jose = plain_jose, dp_tickets = the_tickets, dp_sha = toy_hash, dp_url = id,
     dp_renderer_version = ''v1'', dp_max_output_bytes = 1000, dp_max_queue_length = 100,
     dp_max_user_storage_bytes = 5000, dp_retention_hours = 24\<rparr>"

definition fresh1 :: fresh_ids where
  "fresh1 = \<lparr>fr_job_id = ''job_'' @ replicate 32 CHR ''5'',
     fr_source_id = ''source_'' @ replicate 32 CHR ''6'', fr_nonce = ''n1'',
     fr_upload_jti = ''j1'', fr_job_jti = ''j2''\<rparr>"

definition fresh2 :: fresh_ids where
  "fresh2 = \<lparr>fr_job_id = ''job_'' @ replicate 32 CHR ''7'',
     fr_source_id = ''source_'' @ replicate 32 CHR ''8'', fr_nonce = ''n2'',
     fr_upload_jti = ''j3'', fr_job_jti = ''j4''\<rparr>"

definition alone :: "timestamp \<Rightarrow> db \<Rightarrow> visits" where
  "alone t d = \<lparr>vs_lookup = (t, d), vs_commit = (t, d), vs_raced = (t, d)\<rparr>"

definition the_key_text :: string where "the_key_text = ''0123456789abcdef''"

text \<open>The ready source of the base state, with its paths.\<close>

definition ready_base :: db where
  "ready_base = demo_base\<lparr>sources := [the_source\<lparr>s_paths := Some (paths_json [''main.tex''])\<rparr>]\<rparr>"

definition source_query :: source_request where
  "source_query = \<lparr>sq_source_id = sid, sq_entrypoint = None, sq_outputs = Some [Pdf, Svg],
     sq_project = None\<rparr>"

definition demo_created :: db where
  "demo_created =
     snd (create_render the_deps the_actor fresh1 (FromSource source_query) the_key_text
       (alone 10 ready_base))"

definition upload_query :: upload_request where
  "upload_query = \<lparr>uq_size = 6, uq_sha256 = toy_hash ''abcdef'', uq_outputs = None\<rparr>"

definition demo_reserved :: db where
  "demo_reserved = snd (create_render the_deps the_actor fresh1 (Upload upload_query) the_key_text
     (alone 10 ready_base))"

lemma demo_created_status:
  "map j_status (jobs demo_created) = [Queued]"
  "map j_status (jobs demo_reserved) = [Reserved]"
  "storage_usage_for_user demo_created ''u'' = 1100"
  "storage_usage_for_user demo_reserved ''u'' = 1106"
  by code_simp+

section \<open>An archive and its upload\<close>

text \<open>A stored entry main.tex of six bytes, as the archive's local header describes it.\<close>

definition zip_bytes :: string where
  "zip_bytes = map char_of [80, 75, 3, 4, 20, 0, 0, 0, 0, 0, 0, 0, 0, 0, 0, 0, 0, 0, 6, 0, 0, 0,
     6, 0, 0, 0, 8, 0, 0, 0 :: nat] @ ''main.tex'' @ ''abcdef''"

definition zip_main :: zip_entry where
  "zip_main = \<lparr>ze_name = ''main.tex'', ze_flags = 0, ze_method = 0, ze_compressed = 6,
     ze_uncompressed = 6, ze_external = 0, ze_offset = 0, ze_chunks = Some [4, 2]\<rparr>"

definition upload_deps1 :: upload_deps where
  "upload_deps1 = \<lparr>ud_max_upload_bytes = 1000, ud_max_extracted_bytes = 1000, ud_max_entries = 10,
     ud_max_files = 10, ud_min_free_bytes = 5, ud_sha = toy_hash, ud_canon = to_lower,
     ud_root = ''/data''\<rparr>"

definition shared_query :: shared_request where
  "shared_query = \<lparr>hq_size = 44, hq_sha256 = toy_hash zip_bytes\<rparr>"

definition new_sid :: string where "new_sid = fr_source_id fresh1"

text \<open>What the request reserves, and the claims of its upload ticket.\<close>

definition demo_shared :: db where
  "demo_shared = ready_base\<lparr>sources := sources ready_base @ [reserved_source ready_base
     (reserved_source_input the_actor new_sid 44 (toy_hash zip_bytes) 10 600010 None)],
     source_nonces := [new_nonce ''n1'' new_sid 600010]\<rparr>"

definition upload_claims :: ticket_claims where
  "upload_claims = issued_claims (to_subject the_actor new_sid) [UploadScope]
     (upload_members 44 (toy_hash zip_bytes) ''n1'')"

definition upload_http :: upload_request_http where
  "upload_http = \<lparr>uh_content_length = Some 44, uh_content_type = Some ''application/zip; q'',
     uh_body = Some [take 20 zip_bytes, drop 20 zip_bytes]\<rparr>"

definition demo_uploading :: db where
  "demo_uploading = after (begin_upload_tx ForSource new_sid ''n1'' ''upload_1'' 12 demo_shared)"

definition upload_run1 :: upload_run where
  "upload_run1 = \<lparr>ur_claim = (12, demo_shared), ur_free = 100, ur_archive = Some [ZipEntry zip_main],
     ur_check = (13, demo_uploading), ur_check_lost = False, ur_renamed = True,
     ur_publish = (14, demo_uploading), ur_retain = (15, demo_uploading), ur_retain_lost = False,
     ur_release = (15, demo_uploading)\<rparr>"

definition upload_result :: "upload_outcome result \<times> db" where
  "upload_result = upload_shared upload_deps1 ForSource upload_claims upload_http new_sid
     ''upload_1'' upload_run1"

definition demo_uploaded :: db where
  "demo_uploaded = snd upload_result"

lemma demo_shared_facts:
  "map s_status (sources demo_shared) = [SReady, SReserved]"
  "map s_status (sources demo_uploading) = [SReady, SUploading]"
  "map s_status (sources demo_uploaded) = [SReady, SReady]"
  "fst upload_result = Inr (Published \<lparr>xr_files = 1, xr_bytes = 6, xr_paths = [''main.tex'']\<rparr>)"
  by code_simp+

lemma create_source_reserves:
  "map_option fst (case fst (create_source the_deps the_actor fresh1 shared_query the_key_text
     (alone 10 ready_base)) of Inl e \<Rightarrow> None | Inr r \<Rightarrow> Some r) = Some 201"
  by code_simp

end
