(* ===== verification/Request_Properties.thy ===== *)
theory Request_Properties
  imports Request_Scenarios
begin

text \<open>
  Properties of the requests that make jobs and sources, with an application of each on the
  states of \<open>Request_Scenarios\<close>.
\<close>

section \<open>Creating renders\<close>

lemma find_upd_where:
  "(\<And>x. p x \<Longrightarrow> P (f x) = P x) \<Longrightarrow>
   find P (upd_where p f rs) = map_option (\<lambda>x. if p x then f x else x) (find P rs)"
  by (induction rs) auto

lemma create_retry_status:
  "create_retry dp a fr i key now d = (Inr rep, d') \<Longrightarrow>
   \<exists>b. retry_svg (dp_sha dp) (retry_limits_of dp) (account_actor a) i key now d = Inr (b, d') \<and>
     reply_status rep = (if b then 200 else 202)"
proof -
  assume r: "create_retry dp a fr i key now d = (Inr rep, d')"
  then obtain j where j: "require_owned_job d a i = Inr j"
    by (cases "require_owned_job d a i") (simp_all add: create_retry_def)
  with r obtain b e where b: "retry_svg (dp_sha dp) (retry_limits_of dp) (account_actor a) i key now d =
      Inr (b, e)"
    by (cases "retry_svg (dp_sha dp) (retry_limits_of dp) (account_actor a) i key now d")
      (auto simp: create_retry_def)
  with r j obtain x where "e = d'" "rep = JobReply (if b then 200 else 202) x"
    by (auto simp: create_retry_def bind_r_Inr_iff)
  with b show ?thesis by auto
qed



definition created_status :: "'t render_reply result \<times> db \<Rightarrow> (nat \<times> string) option" where
  "created_status r = (case fst r of Inl _ \<Rightarrow> None | Inr x \<Rightarrow> Some (reply_status x, reply_job x))"

lemma created_once: "created_status (create_render the_deps the_actor fresh1 (FromSource source_query)
    the_key_text (alone 10 ready_base)) = Some (201, fr_job_id fresh1)"
  by code_simp

lemma created_statusD:
  "created_status r = Some (st, i) \<Longrightarrow>
   \<exists>x. r = (Inr x, snd r) \<and> reply_status x = st \<and> reply_job x = i"
  by (cases r) (auto simp: created_status_def split: sum.splits)


text \<open>
  C10. Admission keeps the storage limit: whenever a request creates or requeues a job, what the
  user's sources, jobs (with the output they reserve), running previews and cached trees occupy
  afterwards is within \<open>max_user_storage_bytes\<close>.
\<close>

theorem render_within_storage:
  assumes "create_render dp a fr q key vs = (Inr rep, d')" and "reply_status rep \<noteq> 200"
    and "d = snd (vs_commit vs)"
    and "setting_value d ''max_user_storage_bytes'' (JNum (int (dp_max_user_storage_bytes dp))) =
      Inr (JNum m)"
    and "previews_refer d" and "distinct (map j_id (jobs d))"
  shows "int (storage_usage_for_user d' (sa_user_id a)) \<le> m"
proof (cases q)
  case (RetrySvg i)
  with assms(1-3) have "retry_svg (dp_sha dp) (retry_limits_of dp) (account_actor a) i key
      (fst (vs_commit vs)) d = Inr (False, d')"
    using create_retry_status [of dp a fr i key "fst (vs_commit vs)" d rep d']
    by (auto simp: create_render_def split: if_splits)
  from retry_svg_storage [OF this assms(6), of m] assms(4) show ?thesis
    by (simp add: retry_limits_of_def account_actor_def)
next
  case (Upload u)
  with assms(1-3) obtain kh rh where tx: "legacy_tx dp a fr u kh rh (fst (vs_commit vs)) d = Inr ((), d')"
    by (auto simp: create_render_def create_legacy_def Let_def commit_or_raced_def reused_upload_def
        bind_r_Inr_iff split: sum.splits prod.splits option.splits)
  from legacy_tx_storage [OF tx assms(5)] assert_accepting_storage [OF _ assms(4)] show ?thesis
    by fastforce
next
  case (FromSource s)
  with assms(1-3) obtain i ep kh rh where
    tx: "from_source_tx dp a i s ep kh rh (fst (vs_commit vs)) d = Inr ((), d')"
    by (auto simp: create_render_def create_from_source_def Let_def commit_or_raced_def
        reused_job_def bind_r_Inr_iff split: sum.splits prod.splits option.splits)
  from from_source_tx_storage [OF tx assms(5)] assert_accepting_storage [OF _ assms(4)] show ?thesis
    by fastforce
qed

theorem render_within_storage_witness:
  "int (storage_usage_for_user demo_created ''u'') \<le> 5000"
proof -
  from created_statusD [OF created_once] obtain x where
    x: "create_render the_deps the_actor fresh1 (FromSource source_query) the_key_text
      (alone 10 ready_base) = (Inr x, demo_created)" "reply_status x = 201"
    unfolding demo_created_def by blast
  then have "reply_status x \<noteq> 200" by simp
  moreover have "setting_value ready_base ''max_user_storage_bytes''
      (JNum (int (dp_max_user_storage_bytes the_deps))) = Inr (JNum 5000)"
    by (simp add: ready_base_def demo_base_def empty_db_def setting_value_def setting_get_def
        the_deps_def)
  moreover have "previews_refer ready_base" "distinct (map j_id (jobs ready_base))"
    by (simp_all add: previews_refer_def ready_base_def demo_base_def empty_db_def)
  ultimately show ?thesis
    using render_within_storage [OF x(1), of ready_base 5000]
    by (simp add: alone_def the_actor_def)
qed

text \<open>
  C11. A retry of a failed SVG stage happens once for each key: repeated within a day it reports
  the earlier one and changes nothing.
\<close>

lemma requeue_svg_visible:
  assumes "requeue_svg i u now cutoff b d = Inr (True, d')" and "retry_job d a i = Some j"
  shows "\<exists>j'. retry_job d' a i = Some j'" "accounts d' = accounts d" "idempotency d' = idempotency d"
proof -
  let ?p = "\<lambda>j. j_id j = i \<and> j_user_id j = u \<and> svg_retryable d now cutoff j"
  let ?f = "requeued_job now b"
  from assms(1) obtain n where st:
    "update_stages (\<lambda>s. st_job_id s = i) requeued_stage (snd (update_jobs_status ?p ?f d)) = Inr (n, d')"
    by (auto simp: requeue_svg_def split: if_splits sum.splits prod.splits)
  then have jobs: "jobs d' = upd_where ?p ?f (jobs d)" and acc: "accounts d' = accounts d"
    and "idempotency d' = idempotency d"
    by (auto simp: update_stages_def split: if_splits)
  then show "accounts d' = accounts d" "idempotency d' = idempotency d" by blast+
  have keep: "j_id (?f x) = j_id x" "j_user_id (?f x) = j_user_id x"
    "j_service_account_id (?f x) = j_service_account_id x" "j_deleted_at (?f x) = j_deleted_at x" for x
    by (simp_all add: requeued_job_def)
  have "get_visible d' i = map_option (\<lambda>x. if ?p x then ?f x else x) (get_visible d i)"
    unfolding get_visible_def jobs
    by (subst find_upd_where) (simp_all add: keep user_job_def user_account_def acc)
  moreover have "get_owned d' i v w = map_option (\<lambda>x. if ?p x then ?f x else x) (get_owned d i v w)"
    for v w
    unfolding get_owned_def jobs by (subst find_upd_where) (simp_all add: keep)
  ultimately show "\<exists>j'. retry_job d' a i = Some j'"
    using assms(2) keep by (auto simp: retry_job_def split: option.splits if_splits)
qed

theorem retry_once:
  assumes "retry_svg hash l a i key now d = Inr (False, d')"
    and "distinct (map idem_key (idempotency d))" and "t < now + 86400000"
  shows "retry_svg hash l a i key t d' = Inr (True, d')"
  using assms(1)
proof (rule retry_svg_new)
  fix j d1 d2
  assume a: "retry_limits_ok l" "retry_job d a i = Some j"
    "requeue_svg i (ra_user_id a) now (now - nat (coalesce (rl_artifact_retention_hours l) 24) *
       3600000) (nat (retry_output l)) d = Inr (True, d1)"
    "insert_idempotency (retry_record hash a i key now) d1 = Inr ((), d2)"
    "d' = audit (retry_audit a i now) d2"
  have d1: "distinct (map idem_key (idempotency d1))"
    using requeue_svg_visible(3) [OF a(3,2)] assms(2) by simp
  have "\<exists>r. find_idempotency d2 (actor_name (ra_type a)) (ra_id a) ''render.retry_svg'' (hash key) t =
      Some r \<and> i_request_hash r = hash i \<and> i_resource_id r = Some i"
    using insert_idempotency_found [OF d1 a(4), of "actor_name (ra_type a)" "ra_id a"
        "''render.retry_svg''" "hash key" t] assms(3)
    by (auto simp: retry_record_def idem_key_def)
  then obtain r where r: "find_idempotency d' (actor_name (ra_type a)) (ra_id a) ''render.retry_svg''
      (hash key) t = Some r" "i_request_hash r = hash i" "i_resource_id r = Some i"
    using a(5) by (auto simp: find_idempotency_def)
  have "accounts d2 = accounts d1" by (subst insert_idempotency_frame(1) [OF a(4)]) simp
  then have eq: "accounts d' = accounts d1" "jobs d' = jobs d1"
    using a(5) insert_idempotency_frame(3) [OF a(4)] by simp_all
  have "retry_job d' a i = retry_job d1 a i"
    unfolding retry_job_def get_visible_def get_owned_def user_job_def user_account_def eq ..
  with requeue_svg_visible(1) [OF a(3,2)] obtain j' where "retry_job d' a i = Some j'" by metis
  with r assms(1) show ?thesis
    by (auto simp: retry_svg_def retry_tx_def split: if_splits)
qed

definition retry_actor1 :: retry_actor where
  "retry_actor1 = account_actor the_actor"

definition retry_limits1 :: retry_limits where
  "retry_limits1 = retry_limits_of the_deps"

definition demo_retried :: db where
  "demo_retried =
     after (retry_svg toy_hash retry_limits1 retry_actor1 jid the_key_text 60 demo_failed)"

theorem retry_once_witness:
  "retry_svg toy_hash retry_limits1 retry_actor1 jid the_key_text 70 demo_retried =
     Inr (True, demo_retried)"
proof -
  have "map_option fst (case retry_svg toy_hash retry_limits1 retry_actor1 jid the_key_text 60
      demo_failed of Inl _ \<Rightarrow> None | Inr x \<Rightarrow> Some x) = Some False" by code_simp
  then have r: "retry_svg toy_hash retry_limits1 retry_actor1 jid the_key_text 60 demo_failed =
      Inr (False, demo_retried)"
    by (auto simp: demo_retried_def after_def split: sum.splits)
  have "idempotency demo_failed = []" by code_simp
  then show ?thesis by (intro retry_once [OF r]) simp_all
qed

section \<open>Sources\<close>

text \<open>
  A request for an upload is answered with the source the user already has ready, and then no
  source is made; otherwise exactly one source is reserved, with the announced size and hash,
  inside the user's storage limit, and nothing ready matched.
\<close>

theorem create_source_reserves_or_reuses:
  assumes "create_source dp a fr q key vs = (Inr (st, r), d')" and "d = snd (vs_commit vs)"
    and "setting_value d ''max_user_storage_bytes'' (JNum (int (dp_max_user_storage_bytes dp))) =
      Inr (JNum m)"
  shows "(st = 200 \<and> (sources d' = sources d \<or> d' = snd (vs_lookup vs))) \<or>
    (st = 201 \<and> sy_source_id r = fr_source_id fr \<and>
     find_ready (snd (vs_lookup vs)) (sa_user_id a) (hq_sha256 q) (hq_size q)
       (fst (vs_lookup vs)) (sa_service_account_id a) = None \<and>
     (\<exists>s. sources d' = sources d @ [s] \<and> s_id s = fr_source_id fr \<and> s_status s = SReserved \<and>
        s_size s = hq_size q \<and> s_sha256 s = hq_sha256 q \<and> s_owner_user_id s = sa_user_id a) \<and>
     int (storage_usage_for_user d' (sa_user_id a)) \<le> m)"
  using assms(1)
proof (cases rule: create_source_cases)
  case 1
  with assms(2) show ?thesis by blast
next
  case (2 kh rh)
  with assms(2) have tx: "reserve_tx dp a fr q kh rh (fst (vs_commit vs)) d = Inr ((), d')" by simp
  from tx obtain d1 d2 d3 au where
    d1: "source_insert_reserved (reserved_source_input a (fr_source_id fr) (hq_size q)
       (hq_sha256 q) (fst (vs_commit vs)) (fst (vs_commit vs) + 600000) None) d = Inr ((), d1)"
    and d2: "insert_source_nonce (fr_nonce fr) (fr_source_id fr) (fst (vs_commit vs) + 600000) d1 =
       Inr ((), d2)"
    and d3: "insert_idempotency (created_record a ''source.create'' kh rh (fr_source_id fr)
       (fst (vs_commit vs) + 600000) (fst (vs_commit vs))) d2 = Inr ((), d3)"
    and d': "d' = audit au d3"
    by (rule reserve_tx_InrD)
  have "sources d' = sources d @ [reserved_source d (reserved_source_input a (fr_source_id fr)
      (hq_size q) (hq_sha256 q) (fst (vs_commit vs)) (fst (vs_commit vs) + 600000) None)]"
    using d' insert_idempotency_frame(2) [OF d3] insert_source_nonce_InrD [OF d2]
      source_insert_reserved_InrD [OF d1] by simp
  with 2 reserve_tx_storage(2) [OF tx assms(3)] show ?thesis
    by (simp add: reserved_source_def reserved_source_input_def)
qed

theorem create_source_reserves_or_reuses_witness:
  "\<exists>r d'. create_source the_deps the_actor fresh1 shared_query the_key_text (alone 10 ready_base) =
     (Inr (201, r), d') \<and> int (storage_usage_for_user d' ''u'') \<le> 5000"
proof -
  have "map_option fst (case fst (create_source the_deps the_actor fresh1 shared_query the_key_text
      (alone 10 ready_base)) of Inl e \<Rightarrow> None | Inr r \<Rightarrow> Some r) = Some 201"
    by (rule create_source_reserves)
  then obtain r d' where
    r: "create_source the_deps the_actor fresh1 shared_query the_key_text (alone 10 ready_base) =
      (Inr (201, r), d')"
    by (cases "create_source the_deps the_actor fresh1 shared_query the_key_text (alone 10 ready_base)")
      (auto split: sum.splits)
  have "setting_value ready_base ''max_user_storage_bytes''
      (JNum (int (dp_max_user_storage_bytes the_deps))) = Inr (JNum 5000)"
    by (simp add: ready_base_def demo_base_def empty_db_def setting_value_def setting_get_def
        the_deps_def)
  with create_source_reserves_or_reuses [OF r refl] r show ?thesis
    by (auto simp: alone_def the_actor_def)
qed

end
