(* ===== verification/Upload_Properties.thy ===== *)
theory Upload_Properties
  imports Request_Scenarios
begin

text \<open>
  Properties of the upload service: what a published source is, and that an upload ticket is
  used at most once, whatever other requests do to the nonces meanwhile.
\<close>

section \<open>Nonces through the life of the system\<close>

text \<open>
  One statement on the nonce tables, by any request: the operations of \<open>RendererDatabase\<close> and
  \<open>SecurityRepository\<close> on either table, or anything that leaves both tables alone.
\<close>

inductive nonce_step :: "db \<Rightarrow> db \<Rightarrow> bool" where
  claim: "claim_nonce m job ow until now d = Inr (u, d') \<Longrightarrow> nonce_step d d'"
| extend: "extend_nonce_claim m ow now until d = (c, d') \<Longrightarrow> nonce_step d d'"
| consume: "consume_nonce m ow now d = Inr (u, d') \<Longrightarrow> nonce_step d d'"
| release: "release_nonce m ow now d = (c, d') \<Longrightarrow> nonce_step d d'"
| insert: "insert_nonce m job expires d = Inr (u, d') \<Longrightarrow> nonce_step d d'"
| claim_source: "claim_source_nonce m src ow until now d = Inr (u, d') \<Longrightarrow> nonce_step d d'"
| extend_source: "extend_source_nonce_claim m ow now until d = (c, d') \<Longrightarrow> nonce_step d d'"
| consume_source: "consume_source_nonce m ow now d = Inr (u, d') \<Longrightarrow> nonce_step d d'"
| release_source: "release_source_nonce m ow now d = (c, d') \<Longrightarrow> nonce_step d d'"
| insert_source: "insert_source_nonce m src expires d = Inr (u, d') \<Longrightarrow> nonce_step d d'"
| other: "job_nonces d' = job_nonces d \<Longrightarrow> source_nonces d' = source_nonces d \<Longrightarrow> nonce_step d d'"

text \<open>The nonce's row is there, and every row with it is consumed.\<close>

context nonce_store begin

definition used :: "string \<Rightarrow> db \<Rightarrow> bool" where
  "used n d \<longleftrightarrow> spent n d \<and> n \<in> n_nonce ` set (tbl d)"

lemma names_kept:
  "(\<And>r. n_nonce (f r) = n_nonce r) \<Longrightarrow> n_nonce ` set (upd_where p f rs) = n_nonce ` set rs"
  by (metis (mono_tags, lifting) list.set_map map_upd_where)

lemma used_claim: "used n d \<Longrightarrow> claim m res ow until now d = Inr (u, d') \<Longrightarrow> used n d'"
  using spent_claim [of n d m res ow until now u d'] claimI [of m res ow until now d u d']
  by (auto simp: used_def names_kept set_claimed_def)

lemma used_extend: "used n d \<Longrightarrow> extend m ow now until d = (c, d') \<Longrightarrow> used n d'"
  using spent_after_extend [of n d m ow now until c d'] extendI [of m ow now until d c d']
  by (auto simp: used_def names_kept)

lemma used_consume: "used n d \<Longrightarrow> consume m ow now d = Inr (u, d') \<Longrightarrow> used n d'"
  using spent_consume [of n d m ow now u d'] consumeI [of m ow now d u d']
  by (auto simp: used_def names_kept set_consumed_def)

lemma used_release: "used n d \<Longrightarrow> release m ow now d = (c, d') \<Longrightarrow> used n d'"
  using spent_after_release [of n d m ow now c d'] releaseI [of m ow now d c d']
  by (auto simp: used_def names_kept set_released_def)

lemma used_insert:
  "used n d \<Longrightarrow> row_by n_nonce m (tbl d) = None \<Longrightarrow> tbl d' = tbl d @ [new_nonce m res expires] \<Longrightarrow>
   used n d'"
  by (auto simp: used_def spent_def new_nonce_def row_by_None_iff)

lemma used_same: "used n d \<Longrightarrow> tbl d' = tbl d \<Longrightarrow> used n d'"
  by (simp add: used_def spent_def)

lemma consume_uses:
  assumes "distinct (map n_nonce (tbl d))" and "consume n ow now d = Inr (u, d')"
  shows "used n d'"
proof -
  from consumeI [OF assms(2)] have "changes (claimed_by n ow now) (tbl d) = 1" by simp
  then have "n \<in> n_nonce ` set (tbl d)"
    by (metis changes_pos_iff claimed_by_def image_eqI zero_less_one)
  then have "n \<in> n_nonce ` set (tbl d')"
    using consumeI [OF assms(2)] by (simp add: names_kept set_consumed_def)
  with consume_spends [OF assms] show ?thesis by (simp add: used_def)
qed

end

lemma nonce_frames:
  "claim_nonce m job ow until now d = Inr (u, d') \<Longrightarrow> source_nonces d' = source_nonces d"
  "extend_nonce_claim m ow now until d = (c, d') \<Longrightarrow> source_nonces d' = source_nonces d"
  "consume_nonce m ow now d = Inr (u, d') \<Longrightarrow> source_nonces d' = source_nonces d"
  "release_nonce m ow now d = (c, d') \<Longrightarrow> source_nonces d' = source_nonces d"
  "insert_nonce m job expires d = Inr (u, d') \<Longrightarrow> source_nonces d' = source_nonces d"
  "claim_source_nonce m src ow until now d = Inr (u, d') \<Longrightarrow> job_nonces d' = job_nonces d"
  "extend_source_nonce_claim m ow now until d = (c, d') \<Longrightarrow> job_nonces d' = job_nonces d"
  "consume_source_nonce m ow now d = Inr (u, d') \<Longrightarrow> job_nonces d' = job_nonces d"
  "release_source_nonce m ow now d = (c, d') \<Longrightarrow> job_nonces d' = job_nonces d"
  "insert_source_nonce m src expires d = Inr (u, d') \<Longrightarrow> job_nonces d' = job_nonces d"
  by (auto simp: claim_nonce_def extend_nonce_claim_def consume_nonce_def release_nonce_def
      insert_nonce_def claim_source_nonce_def extend_source_nonce_claim_def
      consume_source_nonce_def release_source_nonce_def insert_source_nonce_def
      split: if_splits)


definition used_up :: "upload_context \<Rightarrow> string \<Rightarrow> db \<Rightarrow> bool" where
  "used_up cx n d = (case cx of ForSource \<Rightarrow> source_nonce.used n d | ForJob _ \<Rightarrow> job_nonce.used n d)"

lemma used_up_step: "nonce_step d d' \<Longrightarrow> used_up cx n d \<Longrightarrow> used_up cx n d'"
proof (induction rule: nonce_step.induct)
  case (insert m job expires d u d')
  then have "row_by n_nonce m (job_nonces d) = None"
    "job_nonces d' = job_nonces d @ [new_nonce m job expires]"
    by (auto simp: insert_nonce_def split: if_splits)
  with insert show ?case
    by (auto simp: used_up_def intro: job_nonce.used_insert source_nonce.used_same nonce_frames
        split: upload_context.splits)
next
  case (insert_source m src expires d u d')
  then have "row_by n_nonce m (source_nonces d) = None"
    "source_nonces d' = source_nonces d @ [new_nonce m src expires]"
    by (auto simp: insert_source_nonce_def split: if_splits)
  with insert_source show ?case
    by (auto simp: used_up_def intro: source_nonce.used_insert job_nonce.used_same nonce_frames
        split: upload_context.splits)
qed (auto simp: used_up_def split: upload_context.splits
  intro: job_nonce.used_claim job_nonce.used_extend job_nonce.used_consume job_nonce.used_release
    source_nonce.used_claim source_nonce.used_extend source_nonce.used_consume
    source_nonce.used_release source_nonce.used_same job_nonce.used_same nonce_frames)

lemma used_up_steps: "nonce_step\<^sup>*\<^sup>* d d' \<Longrightarrow> used_up cx n d \<Longrightarrow> used_up cx n d'"
  by (induction rule: rtranclp_induct) (auto intro: used_up_step)

lemma used_up_spent: "used_up cx n d \<Longrightarrow> nonce_spent cx n d"
  by (simp add: used_up_def nonce_spent_def job_nonce.used_def source_nonce.used_def
      split: upload_context.splits)

lemma publish_upload_uses:
  assumes "publish_upload_tx cx c s nonce ow x expires now d = Inr (u, d')"
    and "distinct (map n_nonce (job_nonces d))" and "distinct (map n_nonce (source_nonces d))"
  shows "used_up cx nonce d'"
proof -
  from assms(1) obtain d1 d2 d3 where con: "consume_claim cx nonce ow now d = Inr ((), d1)"
    and tr: "source_transition (s_id s) [SUploading] SReady now [SetUploadedAt (Some now),
        SetSourceExpiresAt expires, SetPaths (Some (paths_json (xr_paths x)))] d1 = Inr ((), d2)"
    and q: "queue_uploaded cx now d2 = Inr ((), d3)"
    and d': "d' = audit (upload_audit c s (xr_files x) now) d3"
    by (auto simp: publish_upload_tx_def seq_tx_Inr_iff)
  have "used_up cx nonce d1"
    using con assms(2,3) job_nonce.consume_uses source_nonce.consume_uses
    by (cases cx) (auto simp: used_up_def)
  moreover have "nonce_step d1 d'"
    using source_transition_nonces [OF tr] queue_uploaded_nonces [OF q] d'
    by (intro nonce_step.other) simp_all
  ultimately show ?thesis by (rule used_up_step [rotated])
qed

section \<open>What an upload publishes\<close>

text \<open>
  C13. An upload that is published received exactly the bytes that were announced for the source:
  their number and hash are the ones in its row, the archive passed the extraction, and the source
  is ready afterwards with the paths of the files that the extraction found. The nonce it was
  uploaded under is consumed.
\<close>

theorem upload_publishes_verified:
  assumes "upload_shared dp cx c req src ow run = (Inr (Published x), d')"
    and "sources_keyed (snd (ur_publish run))"
    and "distinct (map n_nonce (job_nonces (snd (ur_publish run))))"
    and "distinct (map n_nonce (source_nonces (snd (ur_publish run))))"
  shows "\<exists>s t got n hash nonce. source_get (snd (ur_claim run)) src = Some s \<and>
    length got = s_size s \<and> ud_sha dp got = s_sha256 s \<and>
    validate_and_extract (upload_limits dp) (ud_canon dp) id (inspection_root dp s ow) got
      (ur_archive run) [] = Inr x \<and>
    source_get d' src = Some t \<and> s_status t = SReady \<and> source_paths t = Inr (xr_paths x) \<and>
    assert_upload_claims dp req c = Inr (n, hash, nonce) \<and> nonce_spent cx nonce d'"
  using assms(1)
proof (rule upload_published)
  fix s n hash nonce got expires
  assume s: "source_get (snd (ur_claim run)) src = Some s"
    and cl: "assert_upload_claims dp req c = Inr (n, hash, nonce)"
    and got: "length got = s_size s" "ud_sha dp got = s_sha256 s"
      "validate_and_extract (upload_limits dp) (ud_canon dp) id (inspection_root dp s ow) got
       (ur_archive run) [] = Inr x"
    and p: "publish_upload_tx cx c s nonce ow x expires (fst (ur_publish run))
       (snd (ur_publish run)) = Inr ((), d')"
  from s have id: "s_id s = src" by (auto simp: source_get_def dest: row_by_SomeD)
  from publish_upload_ready [OF p assms(2)] obtain t where "source_of d' src = Some t"
    "s_status t = SReady" "source_paths t = Inr (xr_paths x)" by (auto simp: id)
  with s cl got used_up_spent [OF publish_upload_uses [OF p assms(3,4)]] show ?thesis
    by (auto simp: source_get_def)
qed

lemma demo_upload_run:
  "upload_shared upload_deps1 ForSource upload_claims upload_http new_sid ''upload_1'' upload_run1 =
     (Inr (Published \<lparr>xr_files = 1, xr_bytes = 6, xr_paths = [''main.tex'']\<rparr>), demo_uploaded)"
  using demo_shared_facts(4) by (simp add: upload_result_def demo_uploaded_def prod_eq_iff)

lemma demo_upload_keys:
  "sources_keyed (snd (ur_publish upload_run1))"
  "distinct (map n_nonce (job_nonces (snd (ur_publish upload_run1))))"
  "distinct (map n_nonce (source_nonces (snd (ur_publish upload_run1))))"
  by code_simp+

lemma demo_upload_claims:
  "assert_upload_claims upload_deps1 upload_http upload_claims = Inr (44, toy_hash zip_bytes, ''n1'')"
  by code_simp

theorem upload_publishes_verified_witness:
  "\<exists>t. source_get demo_uploaded new_sid = Some t \<and> s_status t = SReady \<and>
     source_paths t = Inr [''main.tex''] \<and> source_nonce.spent ''n1'' demo_uploaded"
  using upload_publishes_verified [OF demo_upload_run demo_upload_keys] demo_upload_claims
  by (auto simp: nonce_spent_def)

section \<open>A ticket uploads once\<close>

text \<open>
  C14. An upload ticket is good for one upload: after its upload was published, whatever is done
  to the nonces by then, a second upload that presents the same ticket is told that its source is
  already there, or is refused with an error, before it receives a byte; it changes nothing.
\<close>

theorem upload_ticket_used_once:
  assumes "upload_shared dp cx c req src ow run = (Inr (Published x), d')"
    and "distinct (map n_nonce (job_nonces (snd (ur_publish run))))"
    and "distinct (map n_nonce (source_nonces (snd (ur_publish run))))"
    and "assert_upload_claims dp req c = Inr (n, hash, nonce)"
    and "assert_upload_claims dp req' c = Inr (n, hash, nonce)"
    and "nonce_step\<^sup>*\<^sup>* d' e" and "ur_claim run' = (now, e)"
  shows "\<exists>r. upload_shared dp cx c req' src' ow' run' = (r, e) \<and>
    r \<in> insert (Inr AlreadyThere) (range Inl)"
proof -
  obtain s expires where "publish_upload_tx cx c s nonce ow x expires (fst (ur_publish run))
       (snd (ur_publish run)) = Inr ((), d')"
    by (rule upload_published [OF assms(1)]) (use assms(4) in auto)
  from publish_upload_uses [OF this assms(2,3)] assms(6) have "used_up cx nonce e"
    by (rule used_up_steps [rotated])
  then obtain err where "begin_upload_tx cx src' nonce ow' now e = Inl err"
    using begin_upload_spent used_up_spent by blast
  then show ?thesis
    by (auto simp: upload_shared_def assms(5,7) bind_r_def split: sum.splits option.splits)
qed

theorem upload_ticket_used_once_witness:
  "snd (upload_shared upload_deps1 ForSource upload_claims upload_http new_sid ''upload_2''
     (upload_run1\<lparr>ur_claim := (16, demo_uploaded)\<rparr>)) = demo_uploaded"
  using upload_ticket_used_once [OF demo_upload_run demo_upload_keys(2,3) demo_upload_claims
      demo_upload_claims rtranclp.rtrancl_refl,
      of "upload_run1\<lparr>ur_claim := (16, demo_uploaded)\<rparr>" 16 new_sid "''upload_2''"]
  by auto

end
