(* ===== verification/Access_Properties.thy ===== *)
theory Access_Properties
  imports Request_Scenarios
begin

text \<open>
  Properties of the tickets that stand for a job: those the service issues are accepted for what
  they name and nothing else, and what is accepted is a live subject's.
\<close>

definition the_ticket :: "payload \<times> payload \<times> string" where
  "the_ticket = issue_job plain_jose the_tickets 1000 ''j2'' (to_subject the_actor jid) 1800"

definition the_claims :: ticket_claims where
  "the_claims = issued_claims (to_subject the_actor jid) job_scopes
     (subject_members ''job_id'' (to_subject the_actor jid) @
       [scope_member job_scopes] @ standard_members the_tickets (1000 div 1000) 1800 ''j2'')"

lemma the_ticket_service:
  "new_ticket_service ''iss'' ''aud'' \<lparr>sk_kid = ''k1'', sk_secret = replicate 32 CHR ''s''\<rparr> [] =
     Inr the_tickets"
  by code_simp

section \<open>Issue and verify\<close>

text \<open>
  C15. A job ticket verifies: presented before it expires, while neither its key nor itself is
  revoked and the job, its user, service account and key are as they were, it is accepted with
  exactly the claims it was issued with for its own job and the four scopes of a job ticket, and
  refused with a mismatch for another job and with a missing scope for an upload.
\<close>

theorem job_ticket_round_trip:
  assumes "jose_ok J" and "new_ticket_service iss aud act ks = Inr ts"
    and "\<not> revoked d ''kid'' (sk_kid (tk_active ts)) later" and "\<not> revoked d ''jti'' jti later"
    and "later div 1000 < now div 1000 + ttl"
    and "c = issued_claims s job_scopes (subject_members ''job_id'' s @
       [scope_member job_scopes] @ standard_members ts (now div 1000) ttl jti)"
    and "job_subject d c = Some (j, u, a, k)" and "j_status j \<noteq> Deleted"
    and "live_subject u a k c later = Inr ()"
  shows "verify_ticket J ts d (issue_job J ts now jti s ttl) scope job later =
    (if tc_resource_id s \<noteq> job then Inl (AppError ''TICKET_JOB_MISMATCH'' 403)
     else if scope = UploadScope then Inl (AppError ''TICKET_SCOPE_MISSING'' 403)
     else Inr c)"
proof -
  have "scope \<notin> set job_scopes \<longleftrightarrow> scope = UploadScope"
    by (cases scope) (simp_all add: job_scopes_def)
  with verify_issued_job [OF assms, of scope job] show ?thesis by simp
qed

theorem job_ticket_round_trip_witness:
  "verify_ticket plain_jose the_tickets demo_queued the_ticket StatusScope jid 2000 = Inr the_claims \<and>
   verify_ticket plain_jose the_tickets demo_queued the_ticket UploadScope jid 2000 =
     Inl (AppError ''TICKET_SCOPE_MISSING'' 403)"
proof -
  have nr: "\<not> revoked demo_queued ''kid'' (sk_kid (tk_active the_tickets)) 2000"
    "\<not> revoked demo_queued ''jti'' ''j2'' 2000" by code_simp+
  have "map_option (\<lambda>(j, u, a, k). (j_status j, live_subject u a k the_claims 2000))
      (job_subject demo_queued the_claims) = Some (Queued, Inr ())" by code_simp
  then obtain j u a k where s: "job_subject demo_queued the_claims = Some (j, u, a, k)"
    "j_status j \<noteq> Deleted" "live_subject u a k the_claims 2000 = Inr ()" by auto
  from job_ticket_round_trip [OF plain_jose_ok the_ticket_service nr _ the_claims_def s, of _ jid]
  show ?thesis by (simp add: the_ticket_def to_subject_def)
qed

section \<open>What is accepted\<close>

text \<open>
  C16. Whatever token the service accepts was signed under a known key that is not revoked, is not
  itself revoked, names the job and carries the scope it is used for; the job exists, belongs to
  the user, account and key of the claims and is not deleted; user and account are active, the
  key is neither revoked nor expired, and the security versions are the current ones.
\<close>

theorem accepted_ticket_is_live:
  assumes "verify_ticket J ts d token scope job now = Inr c"
  shows "\<exists>h kid key jti j u a k. decode_header J token = Some h \<and> str_member h ''kid'' = Some kid \<and>
    \<not> revoked d ''kid'' kid now \<and> key_of ts kid = Some key \<and>
    jwt_verify J token key (tk_issuer ts) (tk_audience ts) (now div 1000) = Some (cl_payload c) \<and>
    str_member (cl_payload c) ''jti'' = Some jti \<and> \<not> revoked d ''jti'' jti now \<and>
    scope_name scope \<in> set (cl_scopes c) \<and>
    j \<in> set (jobs d) \<and> j_id j = job \<and> j_status j \<noteq> Deleted \<and> j_user_id j = u_id u \<and>
    j_service_account_id j = a_id a \<and> j_api_key_id j = k_id k \<and>
    u \<in> set (users d) \<and> u_status u = Active \<and> a \<in> set (accounts d) \<and> a_status a = Active \<and>
    k \<in> set (api_keys d) \<and> k_revoked_at k = None \<and>
    (case k_expires_at k of None \<Rightarrow> True | Some t \<Rightarrow> now < t) \<and>
    cl_user_security_version c = int (u_security_version u) \<and>
    cl_account_security_version c = int (a_security_version a)"
proof -
  from assms obtain p where p: "signed_payload J ts d token now = Inr p" "validate_claims p = Inr c"
    "check_jti d p now = Inr ()" by (auto simp: verify_ticket_def bind_r_Inr_iff)
  from p(2) have pl: "cl_payload c = p"
    by (auto simp: validate_claims_def claims_of_def split: option.splits)
  obtain j u a k where s: "job_subject d c = Some (j, u, a, k)" "cl_resource_id c = job"
    "scope_name scope \<in> set (cl_scopes c)" "j_status j \<noteq> Deleted" "live_subject u a k c now = Inr ()"
    using assms by (rule verify_ticket_Inr)
  from s(1) have own: "j_user_id j = u_id u" "j_service_account_id j = a_id a" "j_api_key_id j = k_id k"
    by (auto simp: job_subject_def bind_eq_Some_conv find_Some_iff dest!: row_by_SomeD)
  have expiry: "case k_expires_at k of None \<Rightarrow> True | Some t \<Rightarrow> now < t"
    using s(5) by (simp add: live_subject_Inr_iff split: option.splits)
  obtain h kid key where "decode_header J token = Some h" "str_member h ''kid'' = Some kid"
    "\<not> revoked d ''kid'' kid now" "key_of ts kid = Some key"
    "jwt_verify J token key (tk_issuer ts) (tk_audience ts) (now div 1000) = Some (cl_payload c)"
    using p(1) by (auto simp: signed_payload_def pl split: option.splits if_splits)
  moreover obtain jti where "str_member (cl_payload c) ''jti'' = Some jti" "\<not> revoked d ''jti'' jti now"
    using p(3) by (auto simp: check_jti_def pl split: option.splits if_splits)
  moreover have "j_id j = job" using job_subject_SomeD [OF s(1)] s(2) by simp
  ultimately show ?thesis
    using s(3,4,5) own expiry job_subject_SomeD [OF s(1)] unfolding live_subject_Inr_iff by blast
qed

lemma the_ticket_accepted:
  "verify_ticket plain_jose the_tickets demo_queued the_ticket StatusScope jid 2000 = Inr the_claims"
  by code_simp

theorem accepted_ticket_is_live_witness:
  "\<exists>j\<in>set (jobs demo_queued). j_id j = jid \<and> j_status j \<noteq> Deleted \<and> j_user_id j = ''u''"
proof -
  have "map u_id (users demo_queued) = [''u'']" by code_simp
  then have "u \<in> set (users demo_queued) \<Longrightarrow> u_id u = ''u''" for u by auto
  with accepted_ticket_is_live [OF the_ticket_accepted] show ?thesis by metis
qed

end
