(* ===== verification/Document_Properties.thy ===== *)
theory Document_Properties
  imports Request_Scenarios
begin

text \<open>
  Properties of names and paths: what an accepted archive leaves on disk, that normalised names
  are stable and stay below the directory they are resolved against, and where the file of an
  artifact row lies.
\<close>

section \<open>Archives\<close>

text \<open>
  C17. An archive that is accepted leaves only files that are safe: they are counted, within the
  limits for files and bytes, pairwise different also for a file system that folds their names,
  each with a permitted extension and a clean path that resolves to a place below the
  destination; and the requested entrypoint, or some TeX file where none is requested, is there.
\<close>

theorem extraction_is_safe:
  assumes "validate_and_extract lim canon real root file archive requested = Inr r"
    and "real_root root"
  shows "xr_files r = length (xr_paths r) \<and> xr_files r \<le> max_files lim \<and>
    xr_bytes r \<le> max_extracted_bytes lim \<and> distinct (map canon (xr_paths r)) \<and>
    list_all (\<lambda>p. clean_path lim p \<and> to_lower (extname p) \<in> allowed_extensions \<and>
      path_resolve root p = root @ ''/'' @ p) (xr_paths r) \<and>
    (if requested = [] then list_ex tex_path (xr_paths r) else requested \<in> set (xr_paths r))"
proof -
  from assms(1) obtain c st where z: "zip_ok c st" "zc_limits c = lim" "zc_canon c = canon"
    and r: "r = \<lparr>xr_files = zs_files st, xr_bytes = zs_bytes st, xr_paths = zs_paths st\<rparr>"
    and e: "requested = [] \<Longrightarrow> zs_tex st"
      "requested \<noteq> [] \<Longrightarrow> zs_entrypoint st \<and> zc_entrypoint c = Some requested"
    by (rule validate_and_extract_ok) blast
  have "list_all (\<lambda>p. clean_path lim p \<and> to_lower (extname p) \<in> allowed_extensions \<and>
      path_resolve root p = root @ ''/'' @ p) (zs_paths st)"
    using z resolve_clean [OF assms(2)] by (auto simp: zip_ok_def list_all_iff)
  moreover have "if requested = [] then list_ex tex_path (zs_paths st) else requested \<in> set (zs_paths st)"
    using z(1) e by (auto simp: zip_ok_def list_ex_iff)
  ultimately show ?thesis using z by (simp add: r zip_ok_def)
qed

definition the_limits :: zip_limits where
  "the_limits = \<lparr>max_extracted_bytes = 1000, max_file_bytes = 1000, max_entries = 10,
     max_files = 10, max_depth = 4, max_name_length = 40\<rparr>"

lemma real_root_data: "real_root ''/data''"
  unfolding real_root_def
  by (rule exI [of _ "[''data'']"]) (simp add: dot_part_def)

theorem extraction_is_safe_witness:
  "path_resolve ''/data'' ''main.tex'' = ''/data/main.tex'' \<and> clean_path the_limits ''main.tex''"
proof -
  have "validate_and_extract the_limits to_lower id ''/data'' zip_bytes (Some [ZipEntry zip_main])
      ''main.tex'' = Inr \<lparr>xr_files = 1, xr_bytes = 6, xr_paths = [''main.tex'']\<rparr>" by code_simp
  from extraction_is_safe [OF this real_root_data] show ?thesis by simp
qed

section \<open>Names\<close>

text \<open>
  An entrypoint that a request may name is used as it was written, has the extension of a
  TeX file, and resolves below the directory of the source, never out of it.
\<close>

theorem entrypoint_stays_inside:
  assumes "validate_entrypoint v depth n = Inr p" and "real_root root"
  shows "p = v \<and> to_lower (extname v) = ''.tex'' \<and> path_resolve root v = root @ ''/'' @ v"
  using validate_entrypoint_clean [OF assms(1)] resolve_clean [OF assms(2)] by blast

theorem entrypoint_stays_inside_witness:
  "path_resolve ''/data'' ''sub/main.tex'' = ''/data/sub/main.tex''"
proof -
  have "validate_entrypoint ''sub/main.tex'' 4 40 = Inr ''sub/main.tex''" by code_simp
  from entrypoint_stays_inside [OF this real_root_data] show ?thesis by simp
qed

section \<open>Stored files\<close>

lemma resolve_absolute:
  assumes "ps \<noteq> []" and "list_all (\<lambda>p. \<not> dot_part p \<and> CHR ''/'' \<notin> set p) ps"
  shows "path_resolve cwd (CHR ''/'' # join_on CHR ''/'' ps) = CHR ''/'' # join_on CHR ''/'' ps"
proof -
  have "split_on CHR ''/'' (CHR ''/'' # join_on CHR ''/'' ps) = [] # ps"
    using assms by (simp add: split_join list_all_iff)
  moreover have "fold resolve_part ([] # ps) [] = ps"
    using fold_resolve_plain [of ps "[]"] assms(2) by (auto simp: resolve_part_def list_all_iff)
  ultimately show ?thesis by (simp add: path_resolve_def starts_with_def)
qed

lemma digits_plain: "\<not> dot_part (decimal g) \<and> CHR ''/'' \<notin> set (decimal g)"
  using decimal_digits [of g] decimal_not_Nil [of g]
  by (auto simp: dot_part_def list_all_iff is_digit_def)

lemma id_plain:
  assumes "is_id ''job_'' s"
  shows "\<not> dot_part s \<and> CHR ''/'' \<notin> set s"
proof -
  from assms obtain t where t: "s = ''job_'' @ t" "list_all is_hex t"
    using append_take_drop_id [of "length ''job_''" s] unfolding is_id_def by metis
  have "CHR ''/'' \<notin> set t" using t(2) by (auto simp: list_all_iff is_hex_def is_digit_def)
  with t(1) show ?thesis by (simp add: dot_part_def)
qed

text \<open>
  The file of an artifact row is below the output directories of the row's own job: the path
  is not changed by resolving it, so no part of the stored name leads out again.
\<close>

theorem stored_artifact_confined:
  assumes "artifact_storage_path root r = Inr path" and "real_root root"
  shows "path_resolve cwd path = path \<and>
    starts_with (root @ ''/jobs/'' @ ar_job_id r @ ''/output'') path"
proof -
  let ?parts = "split_on CHR ''/'' (ar_relative_path r)"
  obtain dir where path: "path = join_on CHR ''/'' (root # ''jobs'' # ar_job_id r # dir @ ?parts)"
    and dir: "dir \<in> insert [''output''] ((\<lambda>g. [''outputs'', decimal g]) ` UNIV)"
    and safe: "list_all safe_part ?parts" using assms(1) by (rule artifact_storage_path_parts)
  obtain rs where rs: "rs \<noteq> []" "list_all (\<lambda>p. \<not> dot_part p \<and> CHR ''/'' \<notin> set p) rs"
    "root = ''/'' @ join_on CHR ''/'' rs" using assms(2) by (auto simp: real_root_def)
  let ?below = "''jobs'' # ar_job_id r # dir @ ?parts"
  have below: "path = root @ CHR ''/'' # join_on CHR ''/'' ?below" by (simp add: path)
  also have "\<dots> = CHR ''/'' # join_on CHR ''/'' (rs @ ?below)"
    using rs(1,3) by (simp add: join_on_append)
  finally have whole: "path = CHR ''/'' # join_on CHR ''/'' (rs @ ?below)" .
  have "is_id ''job_'' (ar_job_id r)"
    using assms(1) by (auto simp: artifact_storage_path_def bad_artifact_path_def split: if_splits)
  moreover have "list_all (\<lambda>p. \<not> dot_part p \<and> CHR ''/'' \<notin> set p) ?parts"
    using safe split_on_parts [of _ "CHR ''/''"] by (auto simp: list_all_iff safe_part_def dot_part_def)
  ultimately have "list_all (\<lambda>p. \<not> dot_part p \<and> CHR ''/'' \<notin> set p) (rs @ ?below)"
    using rs(2) dir digits_plain id_plain by (auto simp: dot_part_def)
  then have "path_resolve cwd path = path"
    unfolding whole by (rule resolve_absolute [rotated]) simp
  moreover have "starts_with (root @ ''/jobs/'' @ ar_job_id r @ ''/output'') path"
  proof -
    obtain q qs where "?parts = q # qs" by (cases ?parts) auto
    with dir obtain z where z: "join_on CHR ''/'' ?below = ''jobs/'' @ ar_job_id r @ ''/output'' @ z"
      by auto
    have "path = (root @ ''/jobs/'' @ ar_job_id r @ ''/output'') @ z" unfolding below z by simp
    then show ?thesis using starts_with_append by metis
  qed
  ultimately show ?thesis by blast
qed

definition the_svg_artifact :: artifact_row where
  "the_svg_artifact = \<lparr>ar_id = ''r'', ar_job_id = jid, ar_type = ASvg,
     ar_relative_path = ''main.pdf'', ar_size = 1, ar_sha256 = sha, ar_created_at = 0,
     ar_storage_generation = Some 2\<rparr>"

theorem stored_artifact_confined_witness:
  "starts_with (''/data/jobs/'' @ jid) (''/data/jobs/'' @ jid @ ''/outputs/2/main.pdf'')"
proof -
  have "artifact_storage_path ''/data'' the_svg_artifact = Inr (''/data/jobs/'' @ jid @ ''/outputs/2/main.pdf'')"
    by code_simp
  from stored_artifact_confined [OF this real_root_data] show ?thesis
    by (simp add: starts_with_def the_svg_artifact_def)
qed

end
