(* ===== verification/Source_Trees.thy ===== *)
theory Source_Trees
  imports Jobs Json
begin

text \<open>
  \<open>SourceTreesRepository\<close> (repositories/source-trees.ts): the cache of extracted source trees. A
  tree is reserved against three budgets before anything is extracted, and read only by a job
  that is leased and still renders the very source of the tree.
\<close>

text \<open>\<open>ownedJob\<close>.\<close>

definition tree_owned_job :: "db \<Rightarrow> tree_row \<Rightarrow> string \<Rightarrow> nat \<Rightarrow> bool" where
  "tree_owned_job d t i g \<longleftrightarrow> exists_row (\<lambda>j. j_id j = i \<and> j_lease_generation j = g \<and>
     j_lease_owner j \<noteq> None \<and> j_status j \<in> {Validating, Running} \<and>
     j_source_id j = Some (t_source_id t) \<and> j_user_id j = t_owner_user_id t \<and>
     exists_row (\<lambda>s. j_source_id j = Some (s_id s) \<and> s_owner_user_id s = j_user_id j \<and>
       s_status s = SReady \<and> s_sha256 s = j_source_sha256 j \<and> s_size s = j_source_size j)
       (sources d)) (jobs d)"

definition reader :: "string \<Rightarrow> string \<Rightarrow> nat \<Rightarrow> reader_row" where
  "reader t i g = \<lparr>rd_tree_id = t, rd_job_id = i, rd_generation = g\<rparr>"

definition tree_acquire ::
  "string \<Rightarrow> string \<Rightarrow> string \<Rightarrow> nat \<Rightarrow> timestamp \<Rightarrow> db \<Rightarrow> tree_row option \<times> db" where
  "tree_acquire identity owner job g now d =
     (case find (\<lambda>t. t_identity t = identity \<and> t_owner_user_id t = owner \<and> t_status t = TReady \<and>
                 t_expires_at t > now) (trees d) of
        None \<Rightarrow> (None, d)
      | Some t \<Rightarrow>
          if \<not> tree_owned_job d t job g then (None, d)
          else (Some t, d\<lparr>tree_readers := (if reader (t_id t) job g \<in> set (tree_readers d)
                       then tree_readers d else tree_readers d @ [reader (t_id t) job g]),
                 trees := upd_where (\<lambda>x. t_id x = t_id t) (\<lambda>x. x\<lparr>t_last_used_at := now\<rparr>) (trees d)\<rparr>))"

text \<open>\<open>typeof v !== "number" || !isSafeInteger(v) || v < 0\<close> refuses the reservation.\<close>

fun usable_quota :: "json \<Rightarrow> nat option" where
  "usable_quota (JNum i) = (if 0 \<le> i \<and> i \<le> 9007199254740991 then Some (nat i) else None)"
| "usable_quota _ = None"

definition tree_constraints :: "db \<Rightarrow> tree_row \<Rightarrow> string \<Rightarrow> nat \<Rightarrow> bool" where
  "tree_constraints d t job g \<longleftrightarrow> row_by t_id (t_id t) (trees d) = None \<and>
     \<not> exists_row (\<lambda>x. t_identity x = t_identity t) (trees d) \<and> 0 < t_reserved_bytes t \<and>
     reader (t_id t) job g \<notin> set (tree_readers d)"

definition tree_reserve ::
  "tree_row \<Rightarrow> string \<Rightarrow> nat \<Rightarrow> nat \<Rightarrow> nat \<Rightarrow> nat \<Rightarrow> bool tx" where
  "tree_reserve t job g global_bytes user_bytes default_user_storage d =
     (if \<not> tree_owned_job d t job g then Inr (False, d)
      else case setting_value d ''max_user_storage_bytes'' (JNum (int default_user_storage)) of
          Inl e \<Rightarrow> Inl e
        | Inr v \<Rightarrow>
          (case usable_quota v of
             None \<Rightarrow> Inr (False, d)
           | Some quota \<Rightarrow>
               if length (trees d) \<ge> 64 \<or>
                  sum_rows t_reserved_bytes (trees d) + t_reserved_bytes t > global_bytes \<or>
                  sum_rows t_reserved_bytes
                    (filter (\<lambda>x. t_owner_user_id x = t_owner_user_id t) (trees d)) +
                    t_reserved_bytes t > user_bytes \<or>
                  storage_usage_for_user d (t_owner_user_id t) + t_reserved_bytes t > quota \<or>
                  exists_row (\<lambda>x. t_identity x = t_identity t) (trees d)
               then Inr (False, d)
               else if tree_constraints d t job g
               then Inr (True, d\<lparr>trees := trees d @ [t],
                         tree_readers := tree_readers d @ [reader (t_id t) job g]\<rparr>)
               else Inl ConstraintError))"

definition tree_publish :: "string \<Rightarrow> db \<Rightarrow> db" where
  "tree_publish i d = d\<lparr>trees := upd_where (\<lambda>t. t_id t = i \<and> t_status t = TBuilding)
     (\<lambda>t. t\<lparr>t_status := TReady\<rparr>) (trees d)\<rparr>"

definition tree_invalidate :: "string \<Rightarrow> db \<Rightarrow> db" where
  "tree_invalidate i d = d\<lparr>trees := upd_where (\<lambda>t. t_id t = i \<and> t_status t \<noteq> TDeleting)
     (\<lambda>t. t\<lparr>t_status := TInvalid\<rparr>) (trees d)\<rparr>"

definition tree_release :: "reader_row \<Rightarrow> db \<Rightarrow> db" where
  "tree_release p d = d\<lparr>tree_readers := del_where (\<lambda>r. r = p) (tree_readers d)\<rparr>"

definition readers_list :: "db \<Rightarrow> reader_row list" where
  "readers_list d = take 128 (sort_key rd_tree_id (tree_readers d))"

section \<open>The budgets\<close>

definition tree_budgets :: "nat \<Rightarrow> nat \<Rightarrow> db \<Rightarrow> bool" where
  "tree_budgets global_bytes user_bytes d \<longleftrightarrow>
     length (trees d) \<le> 64 \<and> sum_rows t_reserved_bytes (trees d) \<le> global_bytes \<and>
     (\<forall>u. sum_rows t_reserved_bytes (filter (\<lambda>x. t_owner_user_id x = u) (trees d)) \<le> user_bytes) \<and>
     distinct (map t_identity (trees d))"

lemma tree_reserve_cases:
  assumes "tree_reserve t job g gb ub dus d = Inr (b, d')"
  obtains "\<not> b" "d' = d"
  | quota v where "b" "d' = d\<lparr>trees := trees d @ [t],
        tree_readers := tree_readers d @ [reader (t_id t) job g]\<rparr>"
      "tree_owned_job d t job g"
      "setting_value d ''max_user_storage_bytes'' (JNum (int dus)) = Inr v"
      "usable_quota v = Some quota" "length (trees d) < 64"
      "sum_rows t_reserved_bytes (trees d) + t_reserved_bytes t \<le> gb"
      "sum_rows t_reserved_bytes (filter (\<lambda>x. t_owner_user_id x = t_owner_user_id t) (trees d)) +
         t_reserved_bytes t \<le> ub"
      "storage_usage_for_user d (t_owner_user_id t) + t_reserved_bytes t \<le> quota"
      "\<forall>x\<in>set (trees d). t_identity x \<noteq> t_identity t"
  using assms
  by (auto simp: tree_reserve_def not_le not_less split: if_splits sum.splits option.splits)

lemma tree_budgets_reserve:
  assumes "tree_budgets gb ub d" and "tree_reserve t job g gb ub dus d = Inr (b, d')"
  shows "tree_budgets gb ub d'"
  using assms(2)
proof (cases rule: tree_reserve_cases)
  case 1
  then show ?thesis using assms(1) by simp
next
  case (2 quota v)
  have "sum_rows t_reserved_bytes (filter (\<lambda>x. t_owner_user_id x = u) (trees d @ [t])) \<le> ub" for u
    using assms(1) 2(8) by (cases "t_owner_user_id t = u") (auto simp: tree_budgets_def)
  with 2 assms(1) show ?thesis by (auto simp: tree_budgets_def)
qed

lemma storage_usage_add_tree:
  "storage_usage_for_user (d\<lparr>trees := trees d @ [t], tree_readers := rs\<rparr>) u =
     storage_usage_for_user d u + (if t_owner_user_id t = u then t_reserved_bytes t else 0)"
  by (simp add: storage_usage_for_user_def)

end
