(* ===== verification/Storage_Properties.thy ===== *)
theory Storage_Properties
  imports Request_Scenarios Source_Trees
begin

text \<open>
  Properties of what is stored: revisions of projects and their sources, the outputs of a job,
  the listings, the queue and budget limits, and uploads by offset.
\<close>

section \<open>Revisions\<close>

text \<open>
  Attaching is done once: when the same source and entrypoint are attached to a project again,
  the second call answers with the revision of the first and adds none, and the revisions of every
  project stay numbered 1, 2, 3, ... in the order they were made.
\<close>

theorem attach_revision_once:
  assumes "attach_revision a x i now d = Inr (r, d')" and "revisions_numbered d"
    and "attach_revision b y k later d' = Inr (r2, d2)" and "vi_project_id y = vi_project_id x"
    and "vi_source_id y = vi_source_id x" and "vi_entrypoint y = vi_entrypoint x"
  shows "r2 = r \<and> revisions d2 = revisions d' \<and> r \<in> set (revisions d2) \<and>
    map r_number (project_revisions d2 p) = [1..<length (project_revisions d2 p) + 1]"
proof -
  from attach_revision_found [OF assms(1)]
  have found: "revision_for_source d' (vi_project_id y) (vi_source_id y) (vi_entrypoint y) = Some r"
    by (simp add: assms(4-6))
  have "r2 = r \<and> revisions d2 = revisions d'"
    using assms(3)
  proof (cases rule: attach_revision_cases)
    case (1 p)
    with found show ?thesis by simp
  next
    case (2 p)
    with found show ?thesis by simp
  qed
  moreover have "revisions_numbered d2"
    using revisions_numbered_attach assms(1-3) by blast
  ultimately show ?thesis using revision_for_source_SomeD [OF found]
    by (simp add: revisions_numbered_def)
qed

definition the_project :: project_row where
  "the_project = \<lparr>p_id = ''p1'', p_owner_user_id = ''u'', p_display_name = ''Thesis'',
     p_created_at = 1, p_updated_at = 1, p_deleted_at = None\<rparr>"

definition demo_project :: db where
  "demo_project = ready_base\<lparr>projects := [the_project]\<rparr>"

definition the_owner :: project_actor where
  "the_owner = \<lparr>pa_user_id = ''u'', pa_type = ActorUser, pa_id = ''u''\<rparr>"

definition the_revision :: revision_input where
  "the_revision = \<lparr>vi_project_id = ''p1'', vi_source_id = sid, vi_display_name = ''First'',
     vi_original_filename = ''thesis.zip'', vi_entrypoint = ''main.tex'', vi_outputs = [Pdf]\<rparr>"

definition demo_attached :: db where
  "demo_attached = after (attach_revision the_owner the_revision ''r1'' 20 demo_project)"

lemma demo_attach:
  "\<exists>r. attach_revision the_owner the_revision ''r1'' 20 demo_project = Inr (r, demo_attached) \<and>
     r_number r = 1"
  "\<exists>r d. attach_revision the_owner the_revision ''r2'' 30 demo_attached = Inr (r, d)"
proof -
  have "(case attach_revision the_owner the_revision ''r1'' 20 demo_project of
      Inl _ \<Rightarrow> 0 | Inr (r, _) \<Rightarrow> r_number r) = 1" by code_simp
  then show "\<exists>r. attach_revision the_owner the_revision ''r1'' 20 demo_project =
      Inr (r, demo_attached) \<and> r_number r = 1"
    unfolding demo_attached_def
    by (cases "attach_revision the_owner the_revision ''r1'' 20 demo_project")
      (auto simp: after_def split: prod.splits)
  have "\<not> isl (attach_revision the_owner the_revision ''r2'' 30 demo_attached)" by code_simp
  from after_Inr [OF this] show "\<exists>r d. attach_revision the_owner the_revision ''r2'' 30
      demo_attached = Inr (r, d)" by blast
qed

lemma demo_numbered: "revisions_numbered demo_project"
proof -
  have "revisions demo_project = []" by code_simp
  then show ?thesis by (simp add: revisions_numbered_def project_revisions_def)
qed

theorem attach_revision_once_witness:
  "\<exists>r d. attach_revision the_owner the_revision ''r2'' 30 demo_attached = Inr (r, d) \<and>
     r_number r = 1 \<and> revisions d = revisions demo_attached"
proof -
  from demo_attach obtain r r2 d where
    "attach_revision the_owner the_revision ''r1'' 20 demo_project = Inr (r, demo_attached)"
    "r_number r = 1" "attach_revision the_owner the_revision ''r2'' 30 demo_attached = Inr (r2, d)"
    by blast
  with attach_revision_once [OF this(1) demo_numbered this(3)] show ?thesis by auto
qed

section \<open>Jobs\<close>

text \<open>
  The outputs a job is created with are the outputs that are read back from its row, when
  they are an acceptable choice (the PDF, with or without SVG, none twice), and nothing else is
  ever read back: a row that holds anything else is an error.
\<close>

lemma stored_outputs_read_back:
  assumes "insert_queued q d = Inr (n, d')" and "n \<noteq> 0" and "distinct (map j_id (jobs d'))"
  shows "\<exists>j. job_of d' (qi_id q) = Some j \<and> j_status j = Queued \<and>
    outputs j = (if valid_outputs (coalesce (qi_outputs q) [Pdf])
      then Inr (coalesce (qi_outputs q) [Pdf]) else Inl PlainError)"
  using assms(1)
proof (cases rule: insert_queued_cases)
  case (2 s)
  let ?j = "queued_row q s"
  have "job_of d' (qi_id q) = Some ?j"
    using job_table.row_by_in [OF assms(3), of ?j] 2(7) by (simp add: queued_row_def)
  moreover have "outputs ?j = (if valid_outputs (coalesce (qi_outputs q) [Pdf])
      then Inr (coalesce (qi_outputs q) [Pdf]) else Inl PlainError)"
    by (subst outputs_stored [of _ "coalesce (qi_outputs q) [Pdf]"])
      (auto simp: queued_row_def valid_outputs_def Suc_le_eq)
  ultimately show ?thesis by (simp add: queued_row_def)
qed (use assms(2) in simp)



section \<open>Queues and budgets\<close>

lemma changes_upd_where_add:
  "changes q (upd_where p f rs) \<le> changes q rs + changes p rs"
  by (induction rs) auto

lemma enqueue_adds_one:
  assumes "previews_ok d"
  shows "changes q (previews (enqueue i n ts d)) \<le> changes q (previews d) + 1"
proof -
  have "changes (same_page i n) (previews d) \<le> 1"
    using assms page_table.changes_le_one [of "previews d" "same_page i n" "(i, n)"]
    by (simp add: previews_ok_def same_page_iff)
  then have "changes q (upd_where (same_page i n) f (previews d)) \<le> changes q (previews d) + 1" for f
    using changes_upd_where_add [of q "same_page i n" f "previews d"] by linarith
  then show ?thesis by (simp add: enqueue_def)
qed

text \<open>
  The queue of previews is bounded: a request that is accepted and was not already under way
  names a page the document has, and leaves at most 32 open requests in all and at most eight of
  the job's owner; the invariant of the queue (unique pages, at most one running, attempts left
  for what waits) is kept.
\<close>

theorem preview_queue_bounded:
  assumes "previews_ok d" and "request_preview i n ts policy d = Inr (u, d')"
  shows "previews_ok d' \<and> (d' = d \<or> (queued_total d' \<le> 32 \<and> queued_owned d' i \<le> 8 \<and>
    (case document d i of None \<Rightarrow> False | Some x \<Rightarrow> 1 \<le> n \<and> n \<le> d_page_count x)))"
  using assms(2)
proof (cases rule: request_preview_cases)
  case (2 x)
  have jobs: "jobs d' = jobs d" by (simp add: 2(1) enqueue_def)
  have "queued_total d' \<le> 32" "queued_owned d' i \<le> 8"
    unfolding queued_total_def queued_owned_def jobs unfolding 2(1)
    using 2(5,6) by (auto simp: queued_total_def queued_owned_def
      intro!: order_trans [OF enqueue_adds_one [OF assms(1)]])
  with 2 previews_ok_request [OF assms] show ?thesis by simp
qed (use assms(1) in simp)

theorem preview_queue_bounded_witness: "queued_total demo_requested \<le> 32 \<and> previews_ok demo_requested"
proof -
  have "\<not> isl (request_preview jid 2 45 the_policy demo_document)" by code_simp
  from after_Inr [OF this] have r: "request_preview jid 2 45 the_policy demo_document =
      Inr (fst (projr (request_preview jid 2 45 the_policy demo_document)), demo_requested)"
    by (simp add: demo_requested_def)
  have "previews demo_document = []" by code_simp
  then have ok: "previews_ok demo_document" by (simp add: previews_ok_def)
  have "queued_total demo_document = 0" by code_simp
  with preview_queue_bounded [OF ok r] show ?thesis by auto
qed

text \<open>One statement on the cache of trees.\<close>

inductive tree_step :: "nat \<Rightarrow> nat \<Rightarrow> db \<Rightarrow> db \<Rightarrow> bool" for gb ub where
  acquire: "tree_acquire key u job g now d = (r, d') \<Longrightarrow> tree_step gb ub d d'"
| reserve: "tree_reserve t job g gb ub dus d = Inr (b, d') \<Longrightarrow> tree_step gb ub d d'"
| publish: "tree_step gb ub d (tree_publish i d)"
| invalidate: "tree_step gb ub d (tree_invalidate i d)"
| release: "tree_step gb ub d (tree_release p d)"

lemma tree_budgets_update:
  assumes "tree_budgets gb ub d" and "trees d' = upd_where p f (trees d)"
    and "\<And>t. t_identity (f t) = t_identity t" and "\<And>t. t_owner_user_id (f t) = t_owner_user_id t"
    and "\<And>t. t_reserved_bytes (f t) = t_reserved_bytes t"
  shows "tree_budgets gb ub d'"
proof -
  have m: "map g (upd_where p f ts) = map g ts" if "\<And>t. g (f t) = g t" for g :: "tree_row \<Rightarrow> 'b" and ts
    using that by (rule map_upd_where)
  have s: "sum_rows t_reserved_bytes (upd_where p f ts) = sum_rows t_reserved_bytes ts" for ts
    by (rule sum_rows_upd_where_eq) (rule assms(5))
  have "filter (\<lambda>x. t_owner_user_id x = u) (upd_where p f ts) =
      upd_where p f (filter (\<lambda>x. t_owner_user_id x = u) ts)" for u ts
    by (induction ts) (simp_all add: assms(4))
  with assms(1) m [of t_identity, OF assms(3)] show ?thesis
    by (simp add: tree_budgets_def assms(2) s)
qed

lemma tree_budgets_step: "tree_step gb ub d d' \<Longrightarrow> tree_budgets gb ub d \<Longrightarrow> tree_budgets gb ub d'"
proof (induction rule: tree_step.induct)
  case (acquire key u job g now d r d')
  then show ?case
    by (auto simp: tree_acquire_def split: option.splits if_splits
        intro: tree_budgets_update [where f = "\<lambda>x. x\<lparr>t_last_used_at := now\<rparr>"])
next
  case (reserve t job g dus d b d')
  then show ?case by (auto intro: tree_budgets_reserve)
next
  case (publish d i)
  then show ?case
    by (rule tree_budgets_update [where f = "\<lambda>x. x\<lparr>t_status := TReady\<rparr>"])
      (simp_all add: tree_publish_def)
next
  case (invalidate d i)
  then show ?case
    by (rule tree_budgets_update [where f = "\<lambda>x. x\<lparr>t_status := TInvalid\<rparr>"])
      (simp_all add: tree_invalidate_def)
next
  case (release d p)
  then show ?case by (simp add: tree_release_def tree_budgets_def)
qed

text \<open>
  The cache of source trees keeps to its budgets, whatever the workers do with it: never more
  than 64 trees, never more reserved bytes than the cache as a whole or one user may have, and never
  two trees of one identity.
\<close>

theorem tree_budgets_kept:
  assumes "(tree_step gb ub)\<^sup>*\<^sup>* d d'" and "trees d = []"
  shows "length (trees d') \<le> 64 \<and> sum_rows t_reserved_bytes (trees d') \<le> gb \<and>
    sum_rows t_reserved_bytes (filter (\<lambda>x. t_owner_user_id x = u) (trees d')) \<le> ub \<and>
    distinct (map t_identity (trees d'))"
proof -
  have "tree_budgets gb ub d" using assms(2) by (simp add: tree_budgets_def)
  with assms(1) have "tree_budgets gb ub d'"
    by (induction rule: rtranclp_induct) (auto intro: tree_budgets_step)
  then show ?thesis by (simp add: tree_budgets_def)
qed

definition the_tree :: tree_row where
  "the_tree = \<lparr>t_id = ''t1'', t_identity = ''i1'', t_source_id = sid, t_owner_user_id = ''u'',
     t_status = TBuilding, t_reserved_bytes = 300, t_manifest = None, t_created_at = 30,
     t_expires_at = 4000, t_last_used_at = 30\<rparr>"

theorem tree_budgets_kept_witness:
  "map t_reserved_bytes (trees (after (tree_reserve the_tree jid 1 1000 500 5000 demo_running))) = [300] \<and>
   sum_rows t_reserved_bytes (trees (after (tree_reserve the_tree jid 1 1000 500 5000 demo_running))) \<le> 1000"
proof -
  let ?d = "after (tree_reserve the_tree jid 1 1000 500 5000 demo_running)"
  have v: "\<not> isl (tree_reserve the_tree jid 1 1000 500 5000 demo_running)"
    "map t_reserved_bytes (trees ?d) = [300]" "trees demo_running = []" by code_simp+
  have "(tree_step 1000 500)\<^sup>*\<^sup>* demo_running ?d"
    by (rule r_into_rtranclp) (rule tree_step.reserve [OF after_Inr [OF v(1)]])
  from tree_budgets_kept [OF this v(3)] v(2) show ?thesis by simp
qed

section \<open>Uploads by offset\<close>

text \<open>
  While a writer's lease on an upload is live nobody else gets it, and an offset is committed
  once: after a commit that moved the offset, a second commit that expects the old one, whoever
  sends it, changes no row.
\<close>

theorem upload_writer_exclusive:
  assumes "sources_keyed d" and "claim_upload_lease i uid w ts until d = (Some r, d')"
    and "w' \<noteq> w" and "ts' < until" and "commit_upload_offset i w expected to_offset now d' = (n, e)"
    and "0 < n" and "to_offset \<noteq> expected"
  shows "fst (claim_upload_lease i uid' w' ts' until' d') = None \<and>
    commit_upload_offset i w'' expected to_offset' now' e = (0, e)"
proof -
  have k: "sources_keyed d'" using source_claim_cases [OF assms(1,2)] by blast
  from upload.commit_one [OF this assms(5,6)] have e: "sources_keyed e" by blast
  obtain m f where c: "commit_upload_offset i w'' expected to_offset' now' e = (m, f)" by fastforce
  with upload.commit_once [OF k assms(5-7), of w'' to_offset' now'] have "m = 0" by simp
  with c upload.commit_none [OF e] upload.claim_exclusive [OF assms(1-4)] show ?thesis by simp
qed

definition browser_source :: source_row where
  "browser_source = the_source\<lparr>s_status := SUploading, s_received := 0, s_expires_at := 5000,
     s_uploaded_at := None\<rparr>"

definition demo_offset :: db where
  "demo_offset = demo_base\<lparr>sources := [browser_source]\<rparr>"

definition demo_leased :: db where
  "demo_leased = snd (claim_upload_lease sid ''u'' ''b1'' 10 100 demo_offset)"

definition demo_committed :: db where
  "demo_committed = snd (commit_upload_offset sid ''b1'' 0 60 20 demo_leased)"

lemma demo_lease:
  "\<exists>r. claim_upload_lease sid ''u'' ''b1'' 10 100 demo_offset = (Some r, demo_leased)"
  "commit_upload_offset sid ''b1'' 0 60 20 demo_leased = (1, demo_committed)"
  "sources_keyed demo_offset"
proof -
  have "fst (claim_upload_lease sid ''u'' ''b1'' 10 100 demo_offset) \<noteq> None" by code_simp
  then show "\<exists>r. claim_upload_lease sid ''u'' ''b1'' 10 100 demo_offset = (Some r, demo_leased)"
    by (auto simp: demo_leased_def prod_eq_iff)
  have "fst (commit_upload_offset sid ''b1'' 0 60 20 demo_leased) = 1" by code_simp
  then show "commit_upload_offset sid ''b1'' 0 60 20 demo_leased = (1, demo_committed)"
    by (simp add: demo_committed_def prod_eq_iff)
  show "sources_keyed demo_offset" by code_simp
qed

theorem upload_writer_exclusive_witness:
  "fst (claim_upload_lease sid ''u'' ''b2'' 50 150 demo_leased) = None \<and>
   commit_upload_offset sid ''b1'' 0 40 30 demo_committed = (0, demo_committed)"
proof -
  obtain r where "claim_upload_lease sid ''u'' ''b1'' 10 100 demo_offset = (Some r, demo_leased)"
    using demo_lease(1) by blast
  from upload_writer_exclusive [OF demo_lease(3) this _ _ demo_lease(2), of "''b2''" 50]
  show ?thesis by simp
qed

section \<open>Deletion of sources\<close>

text \<open>
  A source that anything still refers to is never marked for deletion: the statement changes
  only the source it names, and only when it is ready or expired and no job that is not deleted
  and no revision of a live project refers to it; every other row stays as it is.
\<close>

lemma referenced_source_kept:
  assumes "source_mark_deleting i ts d = (n, d')" and "s \<in> set (sources d)"
    and "s_id s \<noteq> i \<or> source_reference_count d False s > 0 \<or> s_status s \<notin> {SReady, SExpired}"
  shows "s \<in> set (sources d') \<and> d' = d\<lparr>sources := sources d'\<rparr>"
  using assms
  by (auto simp: source_mark_deleting_def update_sources_def set_upd_where
      intro!: rev_image_eqI [of s])

end
