(* ===== verification/Queue_Properties.thy ===== *)
theory Queue_Properties
  imports Scenarios "HOL-Library.Multiset"
begin

text \<open>
  The jobs table as a priority queue: an abstract queue of (queue time, id) pairs that submitting,
  canceling and claiming jobs implement, and that claims empty in order.
\<close>

definition waiting_jobs :: "db \<Rightarrow> (timestamp option \<times> string) list" where
  "waiting_jobs d = sort (map queue_key (filter (\<lambda>j. j_status j = Queued) (jobs d)))"

lemma filter_upd_where_out:
  "(\<And>r. p r \<Longrightarrow> \<not> q (f r)) \<Longrightarrow> filter q (upd_where p f rs) = filter (\<lambda>r. q r \<and> \<not> p r) rs"
  by (induction rs) auto

lemma waiting_jobs_none: "waiting_jobs d = [] \<longleftrightarrow> (\<forall>j\<in>set (jobs d). j_status j \<noteq> Queued)"
proof -
  have "waiting_jobs d = [] \<longleftrightarrow> mset (waiting_jobs d) = {#}" by (rule mset_zero_iff [symmetric])
  then show ?thesis by (auto simp: waiting_jobs_def filter_empty_conv)
qed

lemma one_in_filter:
  "distinct (map key rs) \<Longrightarrow> j \<in> set rs \<Longrightarrow> p j \<Longrightarrow> (\<And>x. p x \<Longrightarrow> key x = key j) \<Longrightarrow> filter p rs = [j]"
proof (induction rs)
  case (Cons r rs)
  have new: "key x \<noteq> key r" if "x \<in> set rs" for x
    using Cons.prems(1) that by (metis distinct.simps(2) image_eqI list.simps(9) set_map)
  show ?case
  proof (cases "r = j")
    case True
    then have "\<not> p x" if "x \<in> set rs" for x using new [OF that] Cons.prems(4) [of x] by blast
    with True Cons.prems(3) show ?thesis by (simp add: filter_empty_conv)
  next
    case False
    then have j: "j \<in> set rs" using Cons.prems(2) by simp
    then have "\<not> p r" using new [OF j] Cons.prems(4) [of r] by fastforce
    moreover have "filter p rs = [j]" 
      by (rule Cons.IH [OF _ j Cons.prems(3,4)]) (use Cons.prems(1) in simp)
    ultimately show ?thesis by simp
  qed
qed simp

lemma mset_filter_split:
  "(\<And>x. p x \<Longrightarrow> q x) \<Longrightarrow>
   mset (filter q rs) = mset (filter p rs) + mset (filter (\<lambda>x. q x \<and> \<not> p x) rs)"
  by (induction rs) auto

lemma claim_takes_head:
  assumes "distinct (map j_id (jobs d))" and "\<not> preview_running d"
    and "claim_next w now until None None d = (r, d')"
  shows "case waiting_jobs d of [] \<Rightarrow> r = None \<and> d' = d
    | k # ks \<Rightarrow> \<exists>x. r = Some x \<and> w_id x = snd k \<and> waiting_jobs d' = ks"
  using assms(1,3)
proof (cases rule: claim_next_cases)
  case 1
  with assms(2,3) claim_next_None [OF assms(1)] have "waiting_jobs d = []"
    unfolding waiting_jobs_none by blast
  with 1 show ?thesis by simp
next
  case (2 j)
  let ?q = "\<lambda>x. j_status x = Queued" and ?p = "\<lambda>x. j_id x = j_id j \<and> j_status x = Queued"
  have "filter ?p (jobs d) = [j]"
    using one_in_filter [OF assms(1) 2(2), of ?p] 2(3) by (simp add: claimable_def)
  moreover have "filter ?q (jobs d') = filter (\<lambda>x. ?q x \<and> \<not> ?p x) (jobs d)"
    unfolding 2(6) jobs_update_jobs by (rule filter_upd_where_out) (simp add: claim_update_def)
  moreover have "mset (filter ?q (jobs d)) =
      mset (filter ?p (jobs d)) + mset (filter (\<lambda>x. ?q x \<and> \<not> ?p x) (jobs d))"
    by (rule mset_filter_split) simp
  ultimately have m: "mset (map queue_key (filter ?q (jobs d))) =
      mset (queue_key j # waiting_jobs d')" by (simp add: waiting_jobs_def)
  have "queue_key j \<le> k" if "k \<in> set (waiting_jobs d')" for k
  proof -
    from that have "k \<in># mset (map queue_key (filter ?q (jobs d)))" unfolding m by simp
    with 2(4) show ?thesis by (auto simp: claimable_def)
  qed
  then have "sorted (queue_key j # waiting_jobs d')" by (simp add: waiting_jobs_def)
  with m have "waiting_jobs d = queue_key j # waiting_jobs d'"
    unfolding waiting_jobs_def by (metis properties_for_sort)
  with 2 show ?thesis by (simp add: worker_job_def queue_key_def)
qed

text \<open>
  Claiming implements taking the head of the queue: over the abstract queue of waiting jobs,
  ordered by queue time and then id, a claim (while no preview runs) returns nothing exactly when
  the queue is empty, and otherwise the job at its head, leaving the tail.
\<close>

theorem claim_refines_queue:
  assumes "distinct (map j_id (jobs d))" and "\<not> preview_running d"
    and "claim_next w now until None None d = (r, d')"
  shows "map_option w_id r = (case waiting_jobs d of [] \<Rightarrow> None | k # _ \<Rightarrow> Some (snd k)) \<and>
    waiting_jobs d' = tl (waiting_jobs d)"
  using claim_takes_head [OF assms] by (auto split: list.splits)

definition second_request :: queued_input where
  "second_request = the_request\<lparr>qi_id := ''job_'' @ replicate 32 CHR ''3'', qi_timestamp := 5\<rparr>"

definition demo_two :: db where
  "demo_two = after (insert_queued second_request demo_queued)"

lemma demo_two_facts:
  "distinct (map j_id (jobs demo_two))" "\<not> preview_running demo_two"
  "waiting_jobs demo_two = [(Some 5, qi_id second_request), (Some 10, jid)]"
  by code_simp+

theorem claim_refines_queue_witness:
  "map_option w_id (fst (claim_next ''w1'' 20 50 None None demo_two)) = Some (qi_id second_request) \<and>
   waiting_jobs (snd (claim_next ''w1'' 20 50 None None demo_two)) = [(Some 10, jid)]"
  using claim_refines_queue [OF demo_two_facts(1,2) prod.collapse [symmetric]] demo_two_facts(3)
  by simp

text \<open>
  Submitting and canceling implement the queue's insert and delete: a job that is queued goes
  into the abstract queue by its time, and a job that is canceled is out of it, wherever it was.
\<close>

theorem submit_and_cancel_refine_queue:
  assumes "insert_queued x d = Inr (n, d')"
  shows "waiting_jobs d' = (if n = 0 then waiting_jobs d
      else insort (Some (qi_timestamp x), qi_id x) (waiting_jobs d)) \<and>
    waiting_jobs (snd (cancel i ts d')) = filter (\<lambda>k. snd k \<noteq> i) (waiting_jobs d')"
proof
  show "waiting_jobs d' = (if n = 0 then waiting_jobs d
      else insort (Some (qi_timestamp x), qi_id x) (waiting_jobs d))"
    using assms
  proof (cases rule: insert_queued_cases)
    case (2 s)
    let ?ks = "map queue_key (filter (\<lambda>j. j_status j = Queued) (jobs d))"
    let ?k = "(Some (qi_timestamp x), qi_id x)"
    have "waiting_jobs d' = sort (?ks @ [?k])"
      by (simp add: 2(7) waiting_jobs_def queued_row_def queue_key_def)
    also have "\<dots> = insort ?k (sort ?ks)"
      by (rule properties_for_sort) (simp_all add: sorted_insort)
    finally show ?thesis using 2(1) by (simp add: waiting_jobs_def)
  qed simp
next
  let ?p = "\<lambda>j. j_id j = i \<and> active (j_status j)" and ?q = "\<lambda>j. j_status j = Queued"
  have "filter ?q (jobs (snd (cancel i ts d'))) = filter (\<lambda>j. ?q j \<and> \<not> ?p j) (jobs d')"
    unfolding cancel_def jobs_update_jobs
    by (rule filter_upd_where_out) (auto simp: cancelable_now_def)
  also have "\<dots> = filter (\<lambda>j. j_id j \<noteq> i) (filter ?q (jobs d'))"
    by (auto intro!: filter_cong simp: active_simps)
  finally show "waiting_jobs (snd (cancel i ts d')) = filter (\<lambda>k. snd k \<noteq> i) (waiting_jobs d')"
    by (simp add: waiting_jobs_def filter_sort filter_map comp_def queue_key_def)
qed

theorem submit_and_cancel_refine_queue_witness:
  "waiting_jobs (snd (cancel jid 30 demo_two)) = [(Some 5, qi_id second_request)]"
proof -
  have "\<not> isl (insert_queued second_request demo_queued)" by code_simp
  from after_Inr [OF this] have "insert_queued second_request demo_queued =
      Inr (fst (projr (insert_queued second_request demo_queued)), demo_two)"
    by (simp add: demo_two_def)
  from submit_and_cancel_refine_queue [OF this, of jid 30] show ?thesis
    by (simp add: demo_two_facts(3)) (simp add: second_request_def jid_def)
qed

section \<open>The queue is emptied\<close>





end
