(* ===== verification/Environment.thy ===== *)
theory Environment
  imports Text
begin

text \<open>
  Bounded integers from the process environment (deploy/scripts/environment.mjs): the fallback of
  a missing variable, the decimal form a variable must have, and the bounds of its value.
\<close>

definition max_safe_integer :: int where
  "max_safe_integer = 9007199254740991"

definition is_safe_integer :: "int \<Rightarrow> bool" where
  "is_safe_integer i \<longleftrightarrow> - max_safe_integer \<le> i \<and> i \<le> max_safe_integer"

text \<open>\<open>^(?:0|[1-9][0-9]*)$\<close>, and the number such a text is.\<close>

definition canonical_decimal :: "string \<Rightarrow> bool" where
  "canonical_decimal s \<longleftrightarrow> s = ''0'' \<or> (s \<noteq> [] \<and> list_all is_digit s \<and> hd s \<noteq> CHR ''0'')"

definition decimal_value :: "string \<Rightarrow> nat" where
  "decimal_value s = fold (\<lambda>c n. 10 * n + (ord_of c - 48)) s 0"

text \<open>
  \<open>Number(raw)\<close> rounds a text above the safe integers to a number that is not safe either, so the
  exact value decides as the rounded one does.
\<close>

definition bounded_integer_environment ::
  "(string \<rightharpoonup> string) \<Rightarrow> string \<Rightarrow> int \<Rightarrow> int \<Rightarrow> int \<Rightarrow> int result" where
  "bounded_integer_environment env name fallback lo hi =
     (if \<not> is_safe_integer fallback \<or> \<not> is_safe_integer lo \<or> \<not> is_safe_integer hi \<or> lo > hi \<or>
         fallback < lo \<or> fallback > hi
      then Inl PlainError
      else case env name of
          None \<Rightarrow> Inr fallback
        | Some raw \<Rightarrow>
            if \<not> canonical_decimal raw then Inl PlainError
            else (let v = int (decimal_value raw) in
              if \<not> is_safe_integer v \<or> v < lo \<or> v > hi then Inl PlainError else Inr v))"

text \<open>The last argument is optional in the code, \<^const>\<open>max_safe_integer\<close> by default.\<close>

definition positive_integer_environment ::
  "(string \<rightharpoonup> string) \<Rightarrow> string \<Rightarrow> int \<Rightarrow> int \<Rightarrow> int result" where
  "positive_integer_environment env name fallback maximum =
     bounded_integer_environment env name fallback 1 maximum"

definition valid_port_environment :: "(string \<rightharpoonup> string) \<Rightarrow> string \<Rightarrow> int \<Rightarrow> int result" where
  "valid_port_environment env name fallback =
     bounded_integer_environment env name fallback 1 65535"

section \<open>Decimal texts\<close>

lemma decimal_value_snoc: "decimal_value (s @ [c]) = 10 * decimal_value s + (ord_of c - 48)"
  by (simp add: decimal_value_def)

lemma digit_of: "m < 10 \<Longrightarrow> of_char (char_of (48 + m)) = (48 + m :: nat)" for m :: nat
  by simp

lemma decimal_value_decimal: "decimal_value (decimal n) = n"
proof (induction n rule: decimal.induct)
  case (1 n)
  show ?case
  proof (cases "n < 10")
    case True
    then show ?thesis using digit_of [of n] by (subst decimal.simps) (simp add: decimal_value_def)
  next
    case False
    then show ?thesis
      using 1 digit_of [of "n mod 10"] by (subst decimal.simps) (simp add: decimal_value_snoc)
  qed
qed

lemma hd_decimal: "n \<noteq> 0 \<Longrightarrow> hd (decimal n) \<noteq> CHR ''0''"
proof (induction n rule: decimal.induct)
  case (1 n)
  show ?case
  proof (cases "n < 10")
    case True
    have "char_of (48 + n) \<noteq> CHR ''0''"
    proof
      assume "char_of (48 + n) = CHR ''0''"
      then have "of_char (char_of (48 + n)) = (of_char (CHR ''0'') :: nat)" by simp
      with True 1(2) show False by simp
    qed
    with True show ?thesis by (subst decimal.simps) simp
  next
    case False
    with 1 show ?thesis by (subst decimal.simps) (simp add: hd_append)
  qed
qed

lemma canonical_decimal_decimal: "canonical_decimal (decimal n)"
proof (cases "n = 0")
  case True
  have "decimal 0 = ''0''" by code_simp
  with True show ?thesis by (simp add: canonical_decimal_def)
next
  case False
  then show ?thesis using decimal_digits [of n] hd_decimal [of n] by (simp add: canonical_decimal_def)
qed

lemma bounded_integer_bounds:
  assumes "bounded_integer_environment env name fallback lo hi = Inr v"
  shows "lo \<le> v \<and> v \<le> hi \<and> is_safe_integer v"
  using assms by (auto simp: bounded_integer_environment_def Let_def split: if_splits option.splits)

lemma bounded_integer_written:
  assumes "bounded_integer_environment Map.empty name fallback lo hi = Inr w"
    and "lo \<le> int n" and "int n \<le> hi"
  shows "bounded_integer_environment (Map.empty(name \<mapsto> decimal n)) name fallback lo hi = Inr (int n)"
  using assms canonical_decimal_decimal [of n]
  by (auto simp: bounded_integer_environment_def decimal_value_decimal is_safe_integer_def
      max_safe_integer_def split: if_splits)

end
