(* ===== verification/Maintenance.thy ===== *)
theory Maintenance
  imports Lifecycle Environment
begin

text \<open>
  When the worker must run (deploy/scripts/worker-demand.mjs), and the collector of cached source
  trees (deploy/scripts/source-tree-gc.mjs).
\<close>

section \<open>Demand for the worker\<close>

text \<open>The configuration: is the worker stopped when idle, and after how many milliseconds.\<close>

definition worker_idle_configuration :: "(string \<rightharpoonup> string) \<Rightarrow> (bool \<times> int) result" where
  "worker_idle_configuration env =
     (let enabled = coalesce (env ''WORKER_IDLE_ENABLED'') ''false'' in
      ensure (enabled = ''true'' \<or> enabled = ''false'') PlainError
      (bind_r (bounded_integer_environment env ''WORKER_IDLE_TIMEOUT_SECONDS'' 900 30 86400)
        (\<lambda>n. Inr (enabled = ''true'', 1000 * n))))"

definition worker_has_demand :: "db \<Rightarrow> bool" where
  "worker_has_demand d \<longleftrightarrow>
     exists_row (\<lambda>j. j_status j \<in> {Queued, Validating, Running} \<or> j_lease_owner j \<noteq> None) (jobs d) \<or>
     exists_row (\<lambda>p. pv_status p \<in> {PQueued, PRunning} \<or> pv_lease_owner p \<noteq> None) (previews d) \<or>
     tree_readers d \<noteq> [] \<or>
     exists_row (\<lambda>t. t_status t \<in> {TBuilding, TDeleting}) (trees d)"

text \<open>No work is missed: whatever a worker could claim or must recover is demand.\<close>

lemma demand_of_job:
  "j \<in> set (jobs d) \<Longrightarrow> j_status j \<in> {Queued, Validating, Running} \<or> j_lease_owner j \<noteq> None \<Longrightarrow>
   worker_has_demand d"
  by (auto simp: worker_has_demand_def)

section \<open>The collector of source trees\<close>

text \<open>
  The candidate of one round: without readers, and over a budget, unfinished, expired or without
  its ready source; \<open>pressure\<close> makes every tree without readers one. Deleting ones come first,
  then the ones that are not ready, then the least recently used.
\<close>

definition tree_collectable :: "bool \<Rightarrow> nat \<Rightarrow> nat \<Rightarrow> timestamp \<Rightarrow> db \<Rightarrow> tree_row \<Rightarrow> bool" where
  "tree_collectable pressure max_bytes max_user now d t \<longleftrightarrow>
     \<not> exists_row (\<lambda>r. rd_tree_id r = t_id t) (tree_readers d) \<and>
     (pressure \<or> sum_rows t_reserved_bytes (trees d) > max_bytes \<or>
      sum_rows t_reserved_bytes (filter (\<lambda>x. t_owner_user_id x = t_owner_user_id t) (trees d)) >
        max_user \<or>
      t_status t \<in> {TBuilding, TInvalid, TDeleting} \<or> t_expires_at t \<le> now \<or>
      \<not> exists_row (\<lambda>s. s_id s = t_source_id t \<and> s_status s = SReady \<and>
          s_owner_user_id s = t_owner_user_id t) (sources d))"

definition collect_key :: "tree_row \<Rightarrow> nat \<times> timestamp \<times> string" where
  "collect_key t = ((if t_status t = TDeleting then 0 else if t_status t \<noteq> TReady then 1 else 2),
     t_last_used_at t, t_id t)"

definition next_collectable :: "bool \<Rightarrow> nat \<Rightarrow> nat \<Rightarrow> timestamp \<Rightarrow> db \<Rightarrow> tree_row option" where
  "next_collectable pressure max_bytes max_user now d =
     first_by collect_key (filter (tree_collectable pressure max_bytes max_user now d) (trees d))"

definition mark_tree_deleting :: "string \<Rightarrow> db \<Rightarrow> db" where
  "mark_tree_deleting i d = d\<lparr>trees := upd_where (\<lambda>t. t_id t = i) (\<lambda>t. t\<lparr>t_status := TDeleting\<rparr>)
     (trees d)\<rparr>"

definition delete_tree :: "string \<Rightarrow> db \<Rightarrow> db" where
  "delete_tree i d = d\<lparr>trees := del_where (\<lambda>t. t_id t = i \<and> t_status t = TDeleting \<and>
     \<not> exists_row (\<lambda>r. rd_tree_id r = i) (tree_readers d)) (trees d)\<rparr>"

text \<open>
  The rounds: \<open>remove i\<close> stands for the checked removal of the tree's directory, true when it is
  gone (or was not there), false when a check or the removal throws, which ends the collection
  and leaves the row as it is. \<open>now r\<close> is the clock in the round with \<open>r\<close> left.
\<close>

fun collect_source_trees :: "(string \<Rightarrow> bool) \<Rightarrow> bool \<Rightarrow> nat \<Rightarrow> nat \<Rightarrow> (nat \<Rightarrow> timestamp) \<Rightarrow> nat \<Rightarrow>
  db \<Rightarrow> unit result \<times> db" where
  "collect_source_trees remove pressure mb mu now 0 d = (Inr (), d)"
| "collect_source_trees remove pressure mb mu now (Suc r) d =
     (case next_collectable pressure mb mu (now r) d of
        None \<Rightarrow> (Inr (), d)
      | Some t \<Rightarrow>
          (let d1 = mark_tree_deleting (t_id t) d in
           if \<not> is_id ''tree_'' (t_id t) \<or> \<not> remove (t_id t) then (Inl PlainError, d1)
           else collect_source_trees remove pressure mb mu now r (delete_tree (t_id t) d1)))"

lemma next_collectable_SomeD:
  "next_collectable pressure mb mu now d = Some t \<Longrightarrow>
   t \<in> set (trees d) \<and> tree_collectable pressure mb mu now d t"
  using first_by_SomeD(1) [of collect_key] by (fastforce simp: next_collectable_def)

text \<open>A tree that somebody reads is neither marked nor removed, and what is removed was deleted.\<close>

lemma read_tree_kept:
  assumes "t \<in> set (trees d)" and "r \<in> set (tree_readers d)" and "rd_tree_id r = t_id t"
  shows "t \<in> set (trees (snd (collect_source_trees remove pressure mb mu now n d))) \<and>
    tree_readers (snd (collect_source_trees remove pressure mb mu now n d)) = tree_readers d"
  using assms
proof (induction remove pressure mb mu now n d rule: collect_source_trees.induct)
  case (2 remove pressure mb mu now n d)
  show ?case
  proof (cases "next_collectable pressure mb mu (now n) d")
    case (Some x)
    with next_collectable_SomeD [OF Some] 2(3,4) have "t_id x \<noteq> t_id t"
      by (auto simp: tree_collectable_def)
    with 2(2) have "t \<in> set (trees (mark_tree_deleting (t_id x) d))"
      "t \<in> set (trees (delete_tree (t_id x) (mark_tree_deleting (t_id x) d)))"
      by (auto simp: mark_tree_deleting_def delete_tree_def set_upd_where intro!: rev_image_eqI [of t])
    with Some 2 show ?thesis
      by (simp add: Let_def mark_tree_deleting_def delete_tree_def)
  qed (use 2 in simp)
qed simp

text \<open>The files are gone before the row is.\<close>

lemma collected_tree_removed:
  assumes "t \<in> set (trees d)"
    and "t_id t \<notin> t_id ` set (trees (snd (collect_source_trees remove pressure mb mu now n d)))"
  shows "remove (t_id t)"
  using assms
proof (induction remove pressure mb mu now n d arbitrary: t rule: collect_source_trees.induct)
  case (1 remove pressure mb mu now d)
  then show ?case by auto
next
  case (2 remove pressure mb mu now n d)
  show ?case
  proof (cases "next_collectable pressure mb mu (now n) d")
    case None
    with 2 show ?thesis by auto
  next
    case (Some x)
    let ?d1 = "mark_tree_deleting (t_id x) d"
    have marked: "t_id ` set (trees ?d1) = t_id ` set (trees d)"
      using map_upd_where [of "\<lambda>t. t_id t = t_id x" t_id "\<lambda>t. t\<lparr>t_status := TDeleting\<rparr>" "trees d"]
      by (simp add: mark_tree_deleting_def) (metis list.set_map)
    show ?thesis
    proof (cases "\<not> is_id ''tree_'' (t_id x) \<or> \<not> remove (t_id x)")
      case True
      with Some 2(3) marked 2(2) show ?thesis by (auto simp: Let_def)
    next
      case False
      show ?thesis
      proof (cases "t_id t = t_id x")
        case True
        with False show ?thesis by simp
      next
        case other: False
        with 2(2) have "t \<in> set (trees (delete_tree (t_id x) ?d1))"
          by (auto simp: mark_tree_deleting_def delete_tree_def set_upd_where
              intro!: rev_image_eqI [of t])
        moreover have "t_id t \<notin> t_id ` set (trees (snd (collect_source_trees remove pressure mb mu
            now n (delete_tree (t_id x) ?d1))))"
          using 2(3) Some False by (simp add: Let_def)
        ultimately show ?thesis using 2(1) [OF Some refl False] by blast
      qed
    qed
  qed
qed

end
