(* ===== verification/Cleanup.thy ===== *)
theory Cleanup
  imports Maintenance Sources
begin

text \<open>
  The timer that cleans up (deploy/scripts/cleanup.mjs): it recovers uploads whose claim ran out,
  expires reservations, purges what has expired, and deletes jobs and sources in two steps, with
  the removal of their files in between, retried with a growing delay. The removal of files and
  the texts of errors are parameters; the tables of the remote MCP login, the pruning of the audit
  log and the report it prints are left out.
\<close>

section \<open>Uploads whose claim ran out\<close>

definition stale_claim :: "timestamp \<Rightarrow> nonce_row \<Rightarrow> bool" where
  "stale_claim now n \<longleftrightarrow> n_state n = Claimed \<and>
     (case n_claim_expires_at n of None \<Rightarrow> True | Some t \<Rightarrow> t \<le> now)"

definition give_back :: "timestamp \<Rightarrow> nonce_row \<Rightarrow> nonce_row" where
  "give_back now n = n\<lparr>n_state := (if n_expires_at n > now then Released else NExpired),
     n_claim_owner := None, n_claimed_at := None, n_claim_expires_at := None\<rparr>"

text \<open>\<open>String(row.claim_owner ?? "")\<close>: a missing owner becomes the empty one, which matches no row.\<close>

definition same_claim :: "timestamp \<Rightarrow> nonce_row \<Rightarrow> nonce_row \<Rightarrow> bool" where
  "same_claim now row n \<longleftrightarrow> n_nonce n = n_nonce row \<and>
     n_claim_owner n = Some (coalesce (n_claim_owner row) []) \<and> stale_claim now n"

definition restore_source :: "timestamp \<Rightarrow> string option \<Rightarrow> db \<Rightarrow> db" where
  "restore_source now i d = snd (update_sources (\<lambda>s. Some (s_id s) = i \<and> s_status s = SUploading)
     (\<lambda>s. s\<lparr>s_status := SReserved, s_updated_at := now\<rparr>) d)"

definition recover_job_upload :: "timestamp \<Rightarrow> nonce_row \<Rightarrow> db \<Rightarrow> db" where
  "recover_job_upload now row d =
     (let d1 = d\<lparr>job_nonces := upd_where (same_claim now row) (give_back now) (job_nonces d)\<rparr> in
      if changes (same_claim now row) (job_nonces d) = 1
      then restore_source now (Option.bind (job_of d (n_resource_id row)) j_source_id)
             (restore_reserved (n_resource_id row) now d1)
      else d1)"

definition recover_job_uploads :: "timestamp \<Rightarrow> db \<Rightarrow> db" where
  "recover_job_uploads now d =
     fold (recover_job_upload now) (filter (stale_claim now) (job_nonces d)) d"

definition recover_source_upload :: "timestamp \<Rightarrow> nonce_row \<Rightarrow> db \<Rightarrow> db" where
  "recover_source_upload now row d =
     (let d1 = d\<lparr>source_nonces := upd_where (same_claim now row) (give_back now) (source_nonces d)\<rparr> in
      if changes (same_claim now row) (source_nonces d) = 1
      then restore_source now (Some (n_resource_id row)) d1 else d1)"

definition recover_source_uploads :: "timestamp \<Rightarrow> db \<Rightarrow> db" where
  "recover_source_uploads now d =
     fold (recover_source_upload now) (filter (stale_claim now) (source_nonces d)) d"

section \<open>What has expired\<close>

text \<open>An upload of the resource is under way: its claim has not run out.\<close>

definition live_claim :: "timestamp \<Rightarrow> string \<Rightarrow> nonce_row list \<Rightarrow> bool" where
  "live_claim now i rs \<longleftrightarrow>
     exists_row (\<lambda>n. n_resource_id n = i \<and> n_state n = Claimed \<and> sql_gt (n_claim_expires_at n) now) rs"

text \<open>The cutoffs are differences of clock and retention: they may lie before every timestamp.\<close>

definition expire_job_reservations :: "timestamp \<Rightarrow> int \<Rightarrow> db \<Rightarrow> db" where
  "expire_job_reservations now cutoff d = snd (update_jobs_status
     (\<lambda>j. j_status j \<in> {Reserved, Uploading} \<and> int (j_updated_at j) < cutoff \<and>
          \<not> live_claim now (j_id j) (job_nonces d))
     (\<lambda>j. j\<lparr>j_status := Expired, j_render_status := Some Expired, j_completed_at := Some now,
            j_updated_at := now, j_error_code := Some ''UPLOAD_EXPIRED''\<rparr>) d)"

definition expire_nonces :: "timestamp \<Rightarrow> nonce_row list \<Rightarrow> nonce_row list" where
  "expire_nonces now = upd_where (\<lambda>n. n_expires_at n < now \<and> n_state n \<in> {Unused, Released})
     (\<lambda>n. n\<lparr>n_state := NExpired, n_claim_owner := None, n_claimed_at := None,
            n_claim_expires_at := None\<rparr>)"

definition expire_source_reservations :: "timestamp \<Rightarrow> db \<Rightarrow> db" where
  "expire_source_reservations now d = snd (update_sources
     (\<lambda>s. s_status s \<in> {SReserved, SUploading} \<and> s_expires_at s < now \<and>
          \<not> live_claim now (s_id s) (source_nonces d) \<and>
          \<not> exists_row (\<lambda>j. j_source_id j = Some (s_id s) \<and> live_claim now (j_id j) (job_nonces d))
              (jobs d))
     (\<lambda>s. s\<lparr>s_status := SExpired, s_updated_at := now\<rparr>) d)"

definition purge_expired :: "timestamp \<Rightarrow> db \<Rightarrow> db" where
  "purge_expired now d =
     (let gone = (\<lambda>n. n_expires_at n < now \<and> n_state n \<noteq> Claimed) in
      d\<lparr>download_leases := del_where (\<lambda>l. l_expires_at l \<le> now) (download_leases d),
        job_nonces := del_where gone (job_nonces d),
        source_nonces := del_where gone (source_nonces d),
        revoked_tickets := del_where (\<lambda>r. rt_expires_at r < now) (revoked_tickets d),
        idempotency := del_where (\<lambda>r. i_expires_at r < now) (idempotency d)\<rparr>)"

text \<open>The statements in the order of the script.\<close>

definition expire_all :: "timestamp \<Rightarrow> int \<Rightarrow> db \<Rightarrow> db" where
  "expire_all now reservation_cutoff d =
     (let d1 = expire_job_reservations now reservation_cutoff d;
          d2 = d1\<lparr>job_nonces := expire_nonces now (job_nonces d1)\<rparr>;
          d3 = expire_source_reservations now d2;
          d4 = d3\<lparr>source_nonces := expire_nonces now (source_nonces d3)\<rparr>
      in purge_expired now d4)"

section \<open>Retries\<close>

definition max_cleanup_attempts :: nat where "max_cleanup_attempts = 10"

text \<open>\<open>nextRetry\<close>: 300 seconds, doubled with every attempt, at most a day.\<close>

definition next_retry :: "timestamp \<Rightarrow> nat \<Rightarrow> timestamp" where
  "next_retry clock attempt = clock + min (300 * 2 ^ (attempt - 1)) 86400 * 1000"

text \<open>\<open>errorMessage\<close>: control characters become spaces, and 500 characters are kept.\<close>

definition cleanup_message :: "string \<Rightarrow> string" where
  "cleanup_message s = take 500 (map (\<lambda>c. if ord_of c < 32 \<or> ord_of c = 127 then CHR '' '' else c) s)"

record cleanup_deps =
  cd_root :: string
  cd_remove :: "string \<Rightarrow> bool \<Rightarrow> string option"
  cd_error :: "app_error \<Rightarrow> string"
  cd_now :: timestamp
  cd_clock :: timestamp

text \<open>
  \<open>cd_remove path recursive\<close> is the text of the error that \<open>rm\<close> throws, \<open>cd_error\<close> the text of a
  database error, \<open>cd_now\<close> the time of the run and \<open>cd_clock\<close> the clock when a failure is recorded.
  Removals stop at the first error.
\<close>

fun remove_all :: "cleanup_deps \<Rightarrow> (string \<times> bool) list \<Rightarrow> string option" where
  "remove_all c [] = None"
| "remove_all c ((p, rec) # ps) =
     (case cd_remove c p rec of Some e \<Rightarrow> Some e | None \<Rightarrow> remove_all c ps)"

section \<open>Jobs\<close>

definition deletion_due :: "timestamp \<Rightarrow> deletion_status \<Rightarrow> timestamp option \<Rightarrow> bool" where
  "deletion_due now st at \<longleftrightarrow> st \<in> {DelPending, DelDeleting, DelRetry} \<and>
     (case at of None \<Rightarrow> True | Some t \<Rightarrow> t \<le> now)"

text \<open>\<open>COALESCE((SELECT pdf_completed_at ...), completed_at, updated_at)\<close>.\<close>

definition retention_time :: "db \<Rightarrow> job_row \<Rightarrow> timestamp" where
  "retention_time d j = coalesce
     (Option.bind (find (\<lambda>s. st_job_id s = j_id j \<and> st_pdf_status s = StSucceeded) (stages d))
        st_pdf_completed_at)
     (coalesce (j_completed_at j) (j_updated_at j))"

definition job_in_use :: "timestamp \<Rightarrow> db \<Rightarrow> string \<Rightarrow> bool" where
  "job_in_use now d i \<longleftrightarrow>
     exists_row (\<lambda>l. l_job_id l = i \<and> l_expires_at l > now) (download_leases d) \<or>
     exists_row (\<lambda>p. pv_job_id p = i \<and> pv_status p = PRunning) (previews d)"

definition job_due :: "timestamp \<Rightarrow> int \<Rightarrow> db \<Rightarrow> job_row \<Rightarrow> bool" where
  "job_due now cutoff d j \<longleftrightarrow>
     ((j_deletion_status j = Retained \<and> terminal (j_status j) \<and> int (retention_time d j) \<le> cutoff) \<or>
      (j_status j = Deleting \<and> j_deletion_status j \<in> {Retained, DelPending, DelDeleting}) \<or>
      deletion_due now (j_deletion_status j) (j_deletion_next_attempt_at j)) \<and>
     \<not> job_in_use now d (j_id j)"

definition due_key :: "job_row \<Rightarrow> timestamp \<times> string" where
  "due_key j = (coalesce (j_deletion_next_attempt_at j)
     (coalesce (j_completed_at j) (j_updated_at j)), j_id j)"

definition jobs_due :: "timestamp \<Rightarrow> int \<Rightarrow> db \<Rightarrow> string list" where
  "jobs_due now cutoff d =
     map j_id (take 100 (sort_key due_key (filter (job_due now cutoff d) (jobs d))))"

definition claim_job_deletion :: "timestamp \<Rightarrow> int \<Rightarrow> string \<Rightarrow> db \<Rightarrow> nat \<times> db" where
  "claim_job_deletion now cutoff i d = update_jobs_status (\<lambda>j. j_id j = i \<and> job_due now cutoff d j)
     (\<lambda>j. j\<lparr>j_render_status := coalesce_opt (j_render_status j)
              (if terminal (j_status j) then Some (j_status j) else None),
            j_status := Deleting, j_deletion_status := DelDeleting,
            j_deletion_attempts := j_deletion_attempts j + 1, j_deletion_error := None,
            j_deletion_next_attempt_at := None, j_updated_at := now\<rparr>) d"

text \<open>
  The files of a job: all of its directory, or, where the directory also holds the source of an
  old upload, everything but that.
\<close>

definition job_targets :: "string \<Rightarrow> string \<Rightarrow> string option \<Rightarrow> (string \<times> bool) list" where
  "job_targets root i storage =
     (let dir = root @ ''/jobs/'' @ i in
      if storage = Some (''jobs/'' @ i @ ''/input/source.zip'')
      then map (\<lambda>c. (dir @ ''/'' @ c, True))
        [''output'', ''outputs'', ''work'', ''staging'', ''attempts'', ''preview-attempts'']
      else [(dir, True)])"

text \<open>
  \<open>DELETE FROM artifacts\<close> is refused while a download lease refers to one of them; documents of
  the deleted artifacts and their preview requests go with them.
\<close>

definition delete_artifacts :: "string \<Rightarrow> unit tx" where
  "delete_artifacts i d =
     (let ids = map ar_id (filter (\<lambda>a. ar_job_id a = i) (artifacts d));
          docs = map d_job_id (filter (\<lambda>x. d_pdf_artifact_id x \<in> set ids) (documents d)) in
      if exists_row (\<lambda>l. l_artifact_id l \<in> set ids) (download_leases d) then Inl ConstraintError
      else Inr ((), d\<lparr>artifacts := del_where (\<lambda>a. ar_job_id a = i) (artifacts d),
        documents := del_where (\<lambda>x. d_pdf_artifact_id x \<in> set ids) (documents d),
        previews := del_where (\<lambda>p. pv_job_id p \<in> set docs) (previews d)\<rparr>))"

definition mark_job_deleted :: "timestamp \<Rightarrow> string \<Rightarrow> unit tx" where
  "mark_job_deleted now i d =
     (case update_jobs_status
        (\<lambda>j. j_id j = i \<and> j_status j = Deleting \<and> j_deletion_status j = DelDeleting)
        (\<lambda>j. j\<lparr>j_status := Deleted, j_deletion_status := DelDeleted, j_deletion_error := None,
               j_deletion_next_attempt_at := None, j_deleted_at := Some now, j_updated_at := now\<rparr>) d of
        (n, d') \<Rightarrow> if n \<noteq> 1 then Inl PlainError else Inr ((), d'))"

definition expire_unreferenced :: "timestamp \<Rightarrow> string option \<Rightarrow> db \<Rightarrow> db" where
  "expire_unreferenced now i d = snd (update_sources (\<lambda>s. Some (s_id s) = i \<and> s_status s = SReady \<and>
       source_reference_count d False s = 0)
     (\<lambda>s. s\<lparr>s_expires_at := now, s_updated_at := now\<rparr>) d)"

definition finish_job_deletion :: "timestamp \<Rightarrow> string \<Rightarrow> unit tx" where
  "finish_job_deletion now i d =
     (let src = Option.bind (job_of d i) j_source_id in
      seq_tx (delete_artifacts i) (\<lambda>_.
      seq_tx (mark_job_deleted now i) (\<lambda>_. write_tx (expire_unreferenced now src))) d)"

definition fail_job_deletion :: "cleanup_deps \<Rightarrow> string \<Rightarrow> string \<Rightarrow> db \<Rightarrow> db" where
  "fail_job_deletion c msg i d =
     (let attempt = (case job_of d i of None \<Rightarrow> max_cleanup_attempts | Some j \<Rightarrow> j_deletion_attempts j);
          retry = attempt < max_cleanup_attempts in
      snd (update_jobs_status
        (\<lambda>j. j_id j = i \<and> j_status j = Deleting \<and> j_deletion_status j = DelDeleting)
        (\<lambda>j. j\<lparr>j_status := coalesce (j_render_status j) (j_status j),
               j_deletion_status := (if retry then DelRetry else DelFailed),
               j_deletion_error := Some (cleanup_message msg),
               j_deletion_next_attempt_at :=
                 (if retry then Some (next_retry (cd_clock c) attempt) else None),
               j_updated_at := cd_now c\<rparr>) d))"

text \<open>One job: claimed, its files removed, its rows deleted; any error is recorded on the row.\<close>

definition cleanup_job :: "cleanup_deps \<Rightarrow> int \<Rightarrow> string \<Rightarrow> db \<Rightarrow> db" where
  "cleanup_job c cutoff i d =
     (case claim_job_deletion (cd_now c) cutoff i d of
        (n, d1) \<Rightarrow>
          if n \<noteq> 1 then d1
          else (let storage = map_option s_storage_key
                      (Option.bind (Option.bind (job_of d1 i) j_source_id) (source_of d1)) in
            case remove_all c (job_targets (cd_root c) i storage) of
              Some e \<Rightarrow> fail_job_deletion c e i d1
            | None \<Rightarrow> (case finish_job_deletion (cd_now c) i d1 of
                  Inl e \<Rightarrow> fail_job_deletion c (cd_error c e) i d1
                | Inr (_, d2) \<Rightarrow> d2)))"

section \<open>Sources\<close>

definition source_due :: "timestamp \<Rightarrow> db \<Rightarrow> source_row \<Rightarrow> bool" where
  "source_due now d s \<longleftrightarrow>
     ((s_deletion_status s = Retained \<and> s_status s \<in> {SReady, SExpired} \<and> s_expires_at s \<le> now) \<or>
      (s_status s = SDeleting \<and> s_deletion_status s \<in> {Retained, DelPending, DelDeleting}) \<or>
      deletion_due now (s_deletion_status s) (s_deletion_next_attempt_at s)) \<and>
     source_reference_count d False s = 0"

definition sources_due :: "timestamp \<Rightarrow> db \<Rightarrow> (string \<times> string) list" where
  "sources_due now d = map (\<lambda>s. (s_id s, s_storage_key s)) (take 100
     (sort_key (\<lambda>s. (coalesce (s_deletion_next_attempt_at s) (s_expires_at s), s_id s))
       (filter (source_due now d) (sources d))))"

definition claim_source_deletion :: "timestamp \<Rightarrow> string \<Rightarrow> db \<Rightarrow> nat \<times> db" where
  "claim_source_deletion now i d = update_sources (\<lambda>s. s_id s = i \<and> source_due now d s)
     (\<lambda>s. s\<lparr>s_status := SDeleting, s_deletion_status := DelDeleting,
            s_deletion_attempts := s_deletion_attempts s + 1, s_deletion_error := None,
            s_deletion_next_attempt_at := None, s_updated_at := now\<rparr>) d"

definition source_target :: "string \<Rightarrow> string \<Rightarrow> string \<Rightarrow> (string \<times> bool) result" where
  "source_target root i key =
     (if starts_with ''/'' key \<or> ''..'' \<in> set (split_on CHR ''/'' key) then Inl PlainError
      else if key = ''sources/'' @ i @ ''/source.zip'' then Inr (root @ ''/sources/'' @ i, True)
      else Inr (root @ ''/'' @ key, False))"

definition finish_source_deletion :: "timestamp \<Rightarrow> string \<Rightarrow> unit tx" where
  "finish_source_deletion now i d =
     (case update_sources (\<lambda>s. s_id s = i \<and> s_status s = SDeleting \<and>
          s_deletion_status s = DelDeleting \<and> source_reference_count d False s = 0)
        (\<lambda>s. s\<lparr>s_status := SDeleted, s_deletion_status := DelDeleted, s_deletion_error := None,
               s_deletion_next_attempt_at := None, s_deleted_at := Some now, s_updated_at := now\<rparr>) d of
        (n, d') \<Rightarrow> if n \<noteq> 1 then Inl PlainError else Inr ((), d'))"

definition fail_source_deletion :: "cleanup_deps \<Rightarrow> string \<Rightarrow> string \<Rightarrow> db \<Rightarrow> db" where
  "fail_source_deletion c msg i d =
     (let attempt = (case source_of d i of None \<Rightarrow> max_cleanup_attempts
                     | Some s \<Rightarrow> s_deletion_attempts s);
          retry = attempt < max_cleanup_attempts in
      snd (update_sources
        (\<lambda>s. s_id s = i \<and> s_status s = SDeleting \<and> s_deletion_status s = DelDeleting)
        (\<lambda>s. s\<lparr>s_status := SExpired,
               s_deletion_status := (if retry then DelRetry else DelFailed),
               s_deletion_error := Some (cleanup_message msg),
               s_deletion_next_attempt_at :=
                 (if retry then Some (next_retry (cd_clock c) attempt) else None),
               s_updated_at := cd_now c\<rparr>) d))"

definition cleanup_source :: "cleanup_deps \<Rightarrow> string \<times> string \<Rightarrow> db \<Rightarrow> db" where
  "cleanup_source c row d =
     (case claim_source_deletion (cd_now c) (fst row) d of
        (n, d1) \<Rightarrow>
          if n \<noteq> 1 then d1
          else (case source_target (cd_root c) (fst row) (snd row) of
              Inl e \<Rightarrow> fail_source_deletion c ''Unsafe source storage key'' (fst row) d1
            | Inr t \<Rightarrow>
                (case remove_all c [t] of
                   Some e \<Rightarrow> fail_source_deletion c e (fst row) d1
                 | None \<Rightarrow> (case finish_source_deletion (cd_now c) (fst row) d1 of
                       Inl e \<Rightarrow> fail_source_deletion c (cd_error c e) (fst row) d1
                     | Inr (_, d2) \<Rightarrow> d2))))"

section \<open>History\<close>

definition old_jobs :: "int \<Rightarrow> db \<Rightarrow> string list" where
  "old_jobs cutoff d = map j_id (take 1000 (filter (\<lambda>j. j_status j = Deleted \<and>
     (case j_deleted_at j of None \<Rightarrow> False | Some t \<Rightarrow> int t < cutoff)) (jobs d)))"

text \<open>
  The row of a deleted job: refused while an artifact or a download lease refers to it; its stages,
  its document and the requests for the document go with it.
\<close>

definition delete_job_row :: "string \<Rightarrow> unit tx" where
  "delete_job_row i d =
     (if exists_row (\<lambda>a. ar_job_id a = i) (artifacts d) \<or>
         exists_row (\<lambda>l. l_job_id l = i) (download_leases d) then Inl ConstraintError
      else if changes (\<lambda>j. j_id j = i \<and> j_status j = Deleted) (jobs d) \<noteq> 1 then Inl PlainError
      else Inr ((), d\<lparr>jobs := del_where (\<lambda>j. j_id j = i \<and> j_status j = Deleted) (jobs d),
        stages := del_where (\<lambda>s. st_job_id s = i) (stages d),
        documents := del_where (\<lambda>x. d_job_id x = i) (documents d),
        previews := del_where (\<lambda>p. pv_job_id p = i) (previews d)\<rparr>))"

definition forget_job :: "string \<Rightarrow> db \<Rightarrow> db" where
  "forget_job i d =
     (let d1 = snd (update_jobs (\<lambda>j. j_retry_of_job_id j = Some i)
                 (\<lambda>j. j\<lparr>j_retry_of_job_id := None\<rparr>) d);
          d2 = d1\<lparr>job_nonces := del_where (\<lambda>n. n_resource_id n = i) (job_nonces d1)\<rparr> in
      case delete_job_row i d2 of Inl e \<Rightarrow> d | Inr (_, d3) \<Rightarrow> d3)"

section \<open>The run\<close>

text \<open>
  The whole script, with its settings in hours, days and minutes, on a database that nobody else
  writes meanwhile; the collection of source trees comes first and its failure is only reported.
\<close>

record cleanup_settings =
  cs_artifact_hours :: nat
  cs_history_days :: nat
  cs_reservation_minutes :: nat

definition cutoff_before :: "timestamp \<Rightarrow> nat \<Rightarrow> nat \<Rightarrow> int" where
  "cutoff_before clock amount unit_ms = int clock - int (amount * unit_ms)"

definition cleanup_run :: "cleanup_deps \<Rightarrow> cleanup_settings \<Rightarrow> (db \<Rightarrow> db) \<Rightarrow> db \<Rightarrow> db" where
  "cleanup_run c s collect d =
     (let now = cd_now c;
          d1 = recover_source_uploads now (recover_job_uploads now (collect d));
          d2 = expire_all now (cutoff_before (cd_clock c) (cs_reservation_minutes s) 60000) d1;
          cutoff = cutoff_before (cd_clock c) (cs_artifact_hours s) 3600000;
          d3 = fold (cleanup_job c cutoff) (jobs_due now cutoff d2) d2;
          d4 = fold (cleanup_source c) (sources_due now d3) d3
      in fold forget_job (old_jobs (cutoff_before (cd_clock c) (cs_history_days s) 86400000) d4) d4)"

end
