(* ===== verification/Cleanup_Properties.thy ===== *)
theory Cleanup_Properties
  imports Cleanup Scenarios
begin

text \<open>
  Properties of the maintenance of the stored state: what the clean-up spares, in which order it
  deletes, how often it tries, and a lease that nobody releases any more.
\<close>

section \<open>A lease that stays\<close>

lemma deleting_step:
  assumes "step d d'" and "lifecycle_ok d" and "job_of d i = Some j" and "j_status j = Deleting"
  shows "\<exists>k. job_of d' i = Some k \<and> j_status k = Deleting \<and> j_lease_owner k = j_lease_owner j"
  using step_ok [OF assms(1,2)] assms(3,4) unfolding follows_def evolves_def by fastforce

lemma deleting_run:
  assumes "step\<^sup>*\<^sup>* d d'" and "lifecycle_ok d" and "job_of d i = Some j" and "j_status j = Deleting"
  shows "\<exists>k. job_of d' i = Some k \<and> j_status k = Deleting \<and> j_lease_owner k = j_lease_owner j"
  using assms(1)
proof (induction rule: rtranclp_induct)
  case (step e f)
  then obtain k where k: "job_of e i = Some k" "j_status k = Deleting"
    "j_lease_owner k = j_lease_owner j" by blast
  from deleting_step [OF step.hyps(2) _ k(1,2)] run_ok [OF step.hyps(1) assms(2)] k(3)
  show ?case by auto
qed (use assms in simp)

text \<open>
  C33. A job that is canceled while a worker validates it and deleted before that worker has noticed
  keeps its lease: whatever the services, the workers and the recovery do from then on, the row
  still names the worker, recovery does not list it among the stale leases, and the worker is
  reported to be in demand, although there is no work left.
\<close>

theorem deleted_job_keeps_lease:
  assumes "reachable d" and "job_of d i = Some j" and "j_status j = Canceled"
    and "j_lease_owner j = Some w" and "step\<^sup>*\<^sup>* (snd (mark_deleting i ts d)) e"
  shows "\<exists>k. job_of e i = Some k \<and> j_status k = Deleting \<and> j_lease_owner k = Some w \<and>
    i \<notin> sl_id ` set (stale_leases now e) \<and> worker_has_demand e"
proof -
  from reachable_ok [OF assms(1)] have ok: "lifecycle_ok d" .
  let ?d1 = "snd (mark_deleting i ts d)"
  have "map_option (\<lambda>r. (j_status r, j_lease_owner r)) (job_of ?d1 i) = Some (Deleting, Some w)"
    using assms(2,3,4)
    by (simp add: mark_deleting_def job_table.row_by_upd_where) (auto dest: row_by_SomeD)
  then obtain j1 where j1: "job_of ?d1 i = Some j1" "j_status j1 = Deleting" "j_lease_owner j1 = Some w"
    by auto
  have ok1: "lifecycle_ok ?d1" using ok_mark_deleting [OF ok] by blast
  from deleting_run [OF assms(5) ok1 j1(1,2)] j1(3) obtain k where
    k: "job_of e i = Some k" "j_status k = Deleting" "j_lease_owner k = Some w" by auto
  then have in_e: "k \<in> set (jobs e)" by (auto dest: row_by_SomeD)
  have "distinct (map j_id (jobs e))"
    using run_ok [OF assms(5) ok1] by (simp add: lifecycle_ok_def)
  then have only: "r = k" if "r \<in> set (jobs e)" "j_id r = i" for r
    using job_table.row_by_in [of "jobs e" r] that k(1) by simp
  have "i \<notin> sl_id ` set (stale_leases now e)"
  proof
    assume "i \<in> sl_id ` set (stale_leases now e)"
    then obtain r where "r \<in> set (jobs e)" "j_status r \<noteq> Deleting" "j_id r = i"
      by (auto simp: stale_leases_def List.map_filter_def stale_lease_def split: option.splits)
    with only k(2) show False by blast
  qed
  with k in_e show ?thesis using demand_of_job [of k e] by auto
qed

definition demo_leaked :: db where
  "demo_leaked = snd (mark_deleting jid 30 demo_canceled)"

theorem deleted_job_keeps_lease_witness:
  "worker_has_demand (snd (mark_canceled 40 None jid ''w1'' 1 demo_leaked)) \<and>
   stale_leases 100000 (snd (mark_canceled 40 None jid ''w1'' 1 demo_leaked)) = []"
proof -
  have "map_option (\<lambda>j. (j_status j, j_lease_owner j)) (job_of demo_canceled jid) =
      Some (Canceled, Some ''w1'')" by code_simp
  then obtain j where j: "job_of demo_canceled jid = Some j" "j_status j = Canceled"
    "j_lease_owner j = Some ''w1''" by auto
  have "step demo_leaked (snd (mark_canceled 40 None jid ''w1'' 1 demo_leaked))"
    by (rule step.mark_canceled)
  then have "step\<^sup>*\<^sup>* (snd (mark_deleting jid 30 demo_canceled))
      (snd (mark_canceled 40 None jid ''w1'' 1 demo_leaked))" by (simp add: demo_leaked_def)
  from deleted_job_keeps_lease [OF reach_canceled j this]
  have "worker_has_demand (snd (mark_canceled 40 None jid ''w1'' 1 demo_leaked))" by blast
  moreover have "stale_leases 100000 (snd (mark_canceled 40 None jid ''w1'' 1 demo_leaked)) = []"
    by code_simp
  ultimately show ?thesis by blast
qed

section \<open>What the clean-up spares\<close>

text \<open>
  C34. The clean-up takes nothing that is in use: a job that somebody downloads from, or whose page
  is being rendered, is left exactly as it is, and so is a source that a job or a revision of a
  live project still refers to, whatever else is due.
\<close>

theorem cleanup_spares_in_use:
  shows "(job_in_use (cd_now c) d i \<longrightarrow> cleanup_job c cutoff i d = d) \<and>
    ((\<forall>s\<in>set (sources d). s_id s = i \<longrightarrow> source_reference_count d False s > 0) \<longrightarrow>
      cleanup_source c (i, key) d = d)"
proof (intro conjI impI)
  assume "job_in_use (cd_now c) d i"
  then have "changes (\<lambda>j. j_id j = i \<and> job_due (cd_now c) cutoff d j) (jobs d) = 0"
    by (auto simp: changes_zero_iff job_due_def)
  then show "cleanup_job c cutoff i d = d"
    by (simp add: cleanup_job_def claim_job_deletion_def update_jobs_none)
next
  assume "\<forall>s\<in>set (sources d). s_id s = i \<longrightarrow> source_reference_count d False s > 0"
  then have "changes (\<lambda>s. s_id s = i \<and> source_due (cd_now c) d s) (sources d) = 0"
    by (auto simp: changes_zero_iff source_due_def)
  then show "cleanup_source c (i, key) d = d"
    by (simp add: cleanup_source_def claim_source_deletion_def update_sources_def upd_where_none)
qed

definition plain_cleanup :: cleanup_deps where
  "plain_cleanup = \<lparr>cd_root = ''/data'', cd_remove = (\<lambda>p r. None), cd_error = (\<lambda>e. ''database''),
     cd_now = 90000000, cd_clock = 90000000\<rparr>"

theorem cleanup_spares_in_use_witness:
  "cleanup_source plain_cleanup (sid, ''sources/x'') demo_succeeded = demo_succeeded"
proof -
  have "list_all (\<lambda>s. s_id s = sid \<longrightarrow> source_reference_count demo_succeeded False s > 0)
      (sources demo_succeeded)" by code_simp
  with cleanup_spares_in_use [of plain_cleanup demo_succeeded sid] show ?thesis
    by (simp add: list_all_iff)
qed

section \<open>The order of a deletion\<close>

lemma claim_job_deletion_row:
  assumes "job_of d i = Some j" and "claim_job_deletion now cutoff i d = (n, d1)"
    and "j_status j \<noteq> Deleted" and "j_render_status j \<noteq> Some Deleted"
  shows "\<exists>k. job_of d1 i = Some k \<and> j_status k \<noteq> Deleted \<and> j_render_status k \<noteq> Some Deleted \<and>
    j_source_id k = j_source_id j" and "sources d1 = sources d"
proof -
  from assms(2) have d1: "d1 = snd (claim_job_deletion now cutoff i d)" by simp
  show "sources d1 = sources d" by (simp add: d1 claim_job_deletion_def)
  have "terminal (j_status j) \<Longrightarrow> Some (j_status j) \<noteq> Some Deleted" using assms(3) by simp
  then show "\<exists>k. job_of d1 i = Some k \<and> j_status k \<noteq> Deleted \<and> j_render_status k \<noteq> Some Deleted \<and>
      j_source_id k = j_source_id j"
    using assms(1,3,4)
    by (cases "j_render_status j")
      (simp_all add: d1 claim_job_deletion_def job_table.row_by_upd_where)
qed

lemma failed_not_deleted:
  assumes "job_of d i = Some j" and "j_status j \<noteq> Deleted" and "j_render_status j \<noteq> Some Deleted"
    and "job_of (fail_job_deletion c msg i d) i = Some k"
  shows "j_status k \<noteq> Deleted"
  using assms
  by (cases "j_render_status j")
    (auto simp: fail_job_deletion_def Let_def job_table.row_by_upd_where split: if_splits)

lemma finish_job_deletion_artifacts:
  "finish_job_deletion now i d = Inr (u, d') \<Longrightarrow> \<forall>a\<in>set (artifacts d'). ar_job_id a \<noteq> i"
  by (auto simp: finish_job_deletion_def Let_def seq_tx_Inr_iff delete_artifacts_def
      mark_job_deleted_def update_jobs_status_def expire_unreferenced_def update_sources_def
      split: if_splits)

text \<open>
  C35. Files go first: a job becomes deleted in a clean-up only when every removal of its files
  succeeded, and then no artifact row of it is left; where a removal failed the job is not deleted.
\<close>

theorem deleted_after_files:
  assumes "job_of d i = Some j" and "j_status j \<noteq> Deleted" and "j_render_status j \<noteq> Some Deleted"
    and "job_of (cleanup_job c cutoff i d) i = Some k" and "j_status k = Deleted"
  shows "remove_all c (job_targets (cd_root c) i
      (map_option s_storage_key (Option.bind (j_source_id j) (source_of d)))) = None \<and>
    list_all (\<lambda>a. ar_job_id a \<noteq> i) (artifacts (cleanup_job c cutoff i d))"
proof -
  obtain n d1 where cl: "claim_job_deletion (cd_now c) cutoff i d = (n, d1)" by fastforce
  from claim_job_deletion_row [OF assms(1) cl assms(2,3)] obtain j1 where
    j1: "job_of d1 i = Some j1" "j_status j1 \<noteq> Deleted" "j_render_status j1 \<noteq> Some Deleted"
      "j_source_id j1 = j_source_id j" and src: "sources d1 = sources d" by blast
  let ?ts = "job_targets (cd_root c) i
    (map_option s_storage_key (Option.bind (j_source_id j) (source_of d)))"
  note failed = failed_not_deleted [OF j1(1-3)]
  have run: "cleanup_job c cutoff i d = (if n \<noteq> 1 then d1 else case remove_all c ?ts of
      Some e \<Rightarrow> fail_job_deletion c e i d1
    | None \<Rightarrow> (case finish_job_deletion (cd_now c) i d1 of
        Inl e \<Rightarrow> fail_job_deletion c (cd_error c e) i d1 | Inr (_, d2) \<Rightarrow> d2))"
    by (simp add: cleanup_job_def cl j1(1,4) src Let_def)
  have n: "n = 1"
  proof (rule ccontr)
    assume "n \<noteq> 1"
    with run assms(4) j1(1,2) assms(5) show False by simp
  qed
  show ?thesis
  proof (cases "remove_all c ?ts")
    case (Some e)
    with run n assms(4,5) failed show ?thesis by auto
  next
    case None
    show ?thesis
    proof (cases "finish_job_deletion (cd_now c) i d1")
      case (Inl e)
      with None run n assms(4,5) failed show ?thesis by auto
    next
      case (Inr r)
      with None run n have "finish_job_deletion (cd_now c) i d1 = Inr ((), cleanup_job c cutoff i d)"
        by (cases r) auto
      from finish_job_deletion_artifacts [OF this] None show ?thesis by (simp add: list_all_iff)
    qed
  qed
qed

theorem deleted_after_files_witness:
  "map_option j_status (job_of (cleanup_job plain_cleanup 0 jid demo_deleting) jid) = Some Deleted \<and>
   list_all (\<lambda>a. ar_job_id a \<noteq> jid) (artifacts (cleanup_job plain_cleanup 0 jid demo_deleting))"
proof -
  have "map_option (\<lambda>j. (j_status j, j_render_status j)) (job_of demo_deleting jid) =
      Some (Deleting, Some Succeeded)" by code_simp
  then obtain j where j: "job_of demo_deleting jid = Some j" "j_status j \<noteq> Deleted"
    "j_render_status j \<noteq> Some Deleted" by auto
  have del: "map_option j_status (job_of (cleanup_job plain_cleanup 0 jid demo_deleting) jid) =
      Some Deleted" by code_simp
  then obtain k where "job_of (cleanup_job plain_cleanup 0 jid demo_deleting) jid = Some k"
    "j_status k = Deleted" by auto
  with deleted_after_files [OF j this] del show ?thesis by blast
qed

section \<open>Retries\<close>




section \<open>Uploads that were abandoned\<close>

definition abandoned :: "timestamp \<Rightarrow> nonce_row \<Rightarrow> bool" where
  "abandoned now n \<longleftrightarrow> stale_claim now n \<and> n_claim_owner n \<noteq> None"

lemma same_claim_row:
  assumes "distinct (map n_nonce ns)" and "r \<in> set ns" and "n \<in> set ns" and "stale_claim now r"
  shows "same_claim now r n \<longleftrightarrow> n = r \<and> abandoned now r"
proof -
  have "n_nonce n = n_nonce r \<longleftrightarrow> n = r" using assms(1-3) by (metis distinct_map inj_onD)
  then show ?thesis using assms(4) by (auto simp: same_claim_def abandoned_def)
qed

lemma give_back_not_stale: "\<not> stale_claim now (give_back now n)"
  by (simp add: stale_claim_def give_back_def)

lemma upd_where_twice:
  "(\<And>x. \<not> q (f x)) \<Longrightarrow> upd_where q f (upd_where p f xs) = upd_where (\<lambda>x. p x \<or> q x) f xs"
  by (induction xs) auto

lemma recover_source_upload_row:
  assumes "distinct (map n_nonce (source_nonces d))" and "r \<in> set (source_nonces d)" and "stale_claim now r"
  shows "source_nonces (recover_source_upload now r d) =
      upd_where (\<lambda>n. n = r \<and> abandoned now r) (give_back now) (source_nonces d)"
    and "sources (recover_source_upload now r d) = upd_where (\<lambda>s. s_status s = SUploading \<and>
      s_id s = n_resource_id r \<and> abandoned now r)
      (\<lambda>s. s\<lparr>s_status := SReserved, s_updated_at := now\<rparr>) (sources d)"
proof -
  have eq: "upd_where (same_claim now r) (give_back now) (source_nonces d) =
      upd_where (\<lambda>n. n = r \<and> abandoned now r) (give_back now) (source_nonces d)"
    unfolding upd_where_def
    by (rule map_cong) (simp_all add: same_claim_row [OF assms(1,2) _ assms(3)])
  show "source_nonces (recover_source_upload now r d) =
      upd_where (\<lambda>n. n = r \<and> abandoned now r) (give_back now) (source_nonces d)"
    by (simp add: recover_source_upload_def Let_def restore_source_def update_sources_def eq)
  have r: "same_claim now r r \<longleftrightarrow> abandoned now r"
    using same_claim_row [OF assms(1,2,2,3)] by simp
  have "changes (same_claim now r) (source_nonces d) = (if abandoned now r then 1 else 0)"
    using nonce_table.changes_by_key [OF assms(1), of "same_claim now r" "n_nonce r"]
      nonce_table.row_by_in [OF assms(1,2)] r by (simp add: same_claim_def)
  then show "sources (recover_source_upload now r d) = upd_where (\<lambda>s. s_status s = SUploading \<and>
      s_id s = n_resource_id r \<and> abandoned now r)
      (\<lambda>s. s\<lparr>s_status := SReserved, s_updated_at := now\<rparr>) (sources d)"
    by (auto simp: recover_source_upload_def Let_def restore_source_def update_sources_def
        upd_where_fail conj_commute)
qed

lemma recover_source_uploads_rows:
  assumes "distinct (map n_nonce (source_nonces d))" and "set rs \<subseteq> set (source_nonces d)"
    and "distinct rs" and "\<forall>r\<in>set rs. stale_claim now r"
  shows "source_nonces (fold (recover_source_upload now) rs d) =
      upd_where (\<lambda>n. n \<in> set rs \<and> abandoned now n) (give_back now) (source_nonces d) \<and>
    sources (fold (recover_source_upload now) rs d) = upd_where (\<lambda>s. s_status s = SUploading \<and>
      s_id s \<in> n_resource_id ` {r \<in> set rs. abandoned now r})
      (\<lambda>s. s\<lparr>s_status := SReserved, s_updated_at := now\<rparr>) (sources d)"
  using assms
proof (induction rs arbitrary: d)
  case Nil
  then show ?case by (simp add: upd_where_fail)
next
  case (Cons r rs)
  let ?d1 = "recover_source_upload now r d"
  let ?g = "\<lambda>s. s\<lparr>s_status := SReserved, s_updated_at := now\<rparr>"
  note row = recover_source_upload_row [of d r now]
  from Cons.prems have r: "source_nonces ?d1 =
      upd_where (\<lambda>n. n = r \<and> abandoned now r) (give_back now) (source_nonces d)"
    "sources ?d1 = upd_where (\<lambda>s. s_status s = SUploading \<and> s_id s = n_resource_id r \<and>
      abandoned now r) ?g (sources d)"
    using row by simp_all
  have "distinct (map n_nonce (source_nonces ?d1))"
    using Cons.prems(1) by (simp add: r(1) nonce_table.distinct_upd_where give_back_def)
  moreover have "set rs \<subseteq> set (source_nonces ?d1)"
    using Cons.prems(2,3) by (auto simp: r(1) set_upd_where intro!: rev_image_eqI)
  ultimately have ih: "source_nonces (fold (recover_source_upload now) rs ?d1) =
      upd_where (\<lambda>n. n \<in> set rs \<and> abandoned now n) (give_back now) (source_nonces ?d1)"
    "sources (fold (recover_source_upload now) rs ?d1) = upd_where (\<lambda>s. s_status s = SUploading \<and>
      s_id s \<in> n_resource_id ` {r \<in> set rs. abandoned now r}) ?g (sources ?d1)"
    using Cons.IH [of ?d1] Cons.prems(3,4) by simp_all
  have "\<not> abandoned now (give_back now n)" for n
    using give_back_not_stale [of now n] by (simp add: abandoned_def)
  then have "source_nonces (fold (recover_source_upload now) rs ?d1) =
      upd_where (\<lambda>n. n = r \<and> abandoned now r \<or> n \<in> set rs \<and> abandoned now n) (give_back now)
        (source_nonces d)"
    unfolding ih r by (intro upd_where_twice) simp
  moreover have p: "(\<lambda>n. n = r \<and> abandoned now r \<or> n \<in> set rs \<and> abandoned now n) =
      (\<lambda>n. n \<in> set (r # rs) \<and> abandoned now n)" by auto
  moreover have "sources (fold (recover_source_upload now) rs ?d1) =
      upd_where (\<lambda>s. s_status s = SUploading \<and> s_id s = n_resource_id r \<and> abandoned now r \<or>
        s_status s = SUploading \<and> s_id s \<in> n_resource_id ` {r \<in> set rs. abandoned now r}) ?g
        (sources d)"
    unfolding ih r by (intro upd_where_twice) simp
  moreover have q: "(\<lambda>s. s_status s = SUploading \<and> s_id s = n_resource_id r \<and> abandoned now r \<or>
        s_status s = SUploading \<and> s_id s \<in> n_resource_id ` {r \<in> set rs. abandoned now r}) =
      (\<lambda>s. s_status s = SUploading \<and> s_id s \<in> n_resource_id ` {x \<in> set (r # rs). abandoned now x})"
    by auto
  ultimately show ?case
    using arg_cong [OF p, of "\<lambda>p. upd_where p (give_back now) (source_nonces d)"]
      arg_cong [OF q, of "\<lambda>p. upd_where p ?g (sources d)"]
    unfolding fold_Cons o_apply by (intro conjI) (erule trans, assumption)+
qed

text \<open>
  Abandoned uploads are taken back, all of them and nothing else: after the recovery every
  claim on a source that had run out is given back (released, or expired with its ticket), every
  other nonce is as it was, and exactly the sources such a claim was uploading are reserved again.
\<close>

theorem abandoned_uploads_recovered:
  assumes "distinct (map n_nonce (source_nonces d))"
  shows "source_nonces (recover_source_uploads now d) =
      upd_where (abandoned now) (give_back now) (source_nonces d) \<and>
    sources (recover_source_uploads now d) = upd_where (\<lambda>s. s_status s = SUploading \<and>
      s_id s \<in> n_resource_id ` {n \<in> set (source_nonces d). abandoned now n})
      (\<lambda>s. s\<lparr>s_status := SReserved, s_updated_at := now\<rparr>) (sources d)"
proof -
  let ?rs = "filter (stale_claim now) (source_nonces d)"
  have rs: "set ?rs \<subseteq> set (source_nonces d)" "distinct ?rs" "\<forall>r\<in>set ?rs. stale_claim now r"
    using assms by (auto simp: distinct_map)
  note r = recover_source_uploads_rows [OF assms rs]
  have "upd_where (\<lambda>n. n \<in> set ?rs \<and> abandoned now n) (give_back now) (source_nonces d) =
      upd_where (abandoned now) (give_back now) (source_nonces d)"
    unfolding upd_where_def by (rule map_cong) (auto simp: abandoned_def)
  moreover have "{r \<in> set ?rs. abandoned now r} = {n \<in> set (source_nonces d). abandoned now n}"
    by (auto simp: abandoned_def)
  ultimately show ?thesis unfolding recover_source_uploads_def using r by simp
qed

definition claimed_nonce :: "string \<Rightarrow> timestamp \<Rightarrow> nonce_row" where
  "claimed_nonce n until = (new_nonce n sid 900)\<lparr>n_state := Claimed, n_claim_owner := Some ''up'',
     n_claimed_at := Some 10, n_claim_expires_at := Some until\<rparr>"

definition demo_abandoned :: db where
  "demo_abandoned = demo_base\<lparr>sources := [the_source\<lparr>s_status := SUploading\<rparr>],
     source_nonces := [claimed_nonce ''a'' 50, claimed_nonce ''b'' 500]\<rparr>"

theorem abandoned_uploads_recovered_witness:
  "map n_state (source_nonces (recover_source_uploads 100 demo_abandoned)) = [Released, Claimed]"
proof -
  have "distinct (map n_nonce (source_nonces demo_abandoned))" by code_simp
  from abandoned_uploads_recovered [OF this, of 100]
  have "map n_state (source_nonces (recover_source_uploads 100 demo_abandoned)) =
    map n_state (upd_where (abandoned 100) (give_back 100) (source_nonces demo_abandoned))" by simp
  also have "\<dots> = [Released, Claimed]" by code_simp
  finally show ?thesis .
qed

end
