(* ===== verification/Auth_Tables.thy ===== *)
theory Auth_Tables
  imports Nonces
begin

text \<open>
  The tables of the logins and of the OAuth server (packages/database/src/schema.ts and
  migration 7), beside the shared tables of \<^typ>\<open>db\<close>, which they refer to. The code keeps only
  hashes of its secrets; here a hash is a string like any other.
\<close>

datatype auth_mode = CloudflareAccess | Oidc | Password
datatype token_type = AccessToken | RefreshToken

record identity_row =
  id_id :: string
  id_user_id :: string
  id_provider :: auth_mode
  id_issuer :: string
  id_subject :: string
  id_preferred_username :: "string option"
  id_email :: "string option"
  id_linked_at :: timestamp
  id_last_seen_at :: timestamp

record credential_row =
  cr_user_id :: string
  cr_login_name :: string
  cr_password_hash :: string
  cr_password_updated_at :: timestamp

record session_row =
  ws_token_hash :: string
  ws_user_id :: string
  ws_auth_mode :: auth_mode
  ws_identity_id :: "string option"
  ws_user_security_version :: nat
  ws_csrf_hash :: string
  ws_created_at :: timestamp
  ws_last_seen_at :: timestamp
  ws_idle_expires_at :: timestamp
  ws_absolute_expires_at :: timestamp
  ws_revoked_at :: "timestamp option"

record attempt_row =
  at_key_hash :: string
  at_failure_count :: nat
  at_window_started_at :: timestamp
  at_blocked_until :: "timestamp option"
  at_updated_at :: timestamp

record oauth_client_row =
  oc_client_id :: string
  oc_client_name :: string
  oc_redirect_uris :: json_text
  oc_created_at :: timestamp
  oc_last_used_at :: "timestamp option"

record oauth_code_row =
  co_code_hash :: string
  co_client_id :: string
  co_user_id :: string
  co_user_security_version :: nat
  co_redirect_uri :: string
  co_scopes :: json_text
  co_resource :: string
  co_code_challenge :: string
  co_created_at :: timestamp
  co_expires_at :: timestamp
  co_used_at :: "timestamp option"

record family_row =
  fa_id :: string
  fa_client_id :: string
  fa_user_id :: string
  fa_user_security_version :: nat
  fa_scopes :: json_text
  fa_resource :: string
  fa_created_at :: timestamp
  fa_expires_at :: timestamp
  fa_revoked_at :: "timestamp option"

record oauth_token_row =
  to_token_hash :: string
  to_family_id :: string
  to_type :: token_type
  to_sequence :: nat
  to_created_at :: timestamp
  to_expires_at :: timestamp
  to_used_at :: "timestamp option"
  to_revoked_at :: "timestamp option"

record continuation_row =
  lc_handle_hash :: string
  lc_browser_hash :: string
  lc_client_id :: string
  lc_target :: string
  lc_expires_at :: timestamp

record principal_row =
  mp_user_id :: string
  mp_service_account_id :: string
  mp_api_key_id :: string
  mp_created_at :: timestamp

record source_ref_row =
  sf_id :: string
  sf_source_id :: string
  sf_owner_user_id :: string
  sf_created_at :: timestamp
  sf_expires_at :: timestamp
  sf_revoked_at :: "timestamp option"

record rate_row =
  rw_user_id :: string
  rw_tool_name :: string
  rw_window_start :: timestamp
  rw_request_count :: nat

text \<open>\<open>shared\<close> holds the tables of \<^typ>\<open>db\<close>; all of them are one SQLite database.\<close>

record auth_db =
  shared :: db
  identities :: "identity_row list"
  credentials :: "credential_row list"
  sessions :: "session_row list"
  attempts :: "attempt_row list"
  web_principals :: "principal_row list"
  oauth_clients :: "oauth_client_row list"
  oauth_codes :: "oauth_code_row list"
  families :: "family_row list"
  oauth_tokens :: "oauth_token_row list"
  continuations :: "continuation_row list"
  mcp_principals :: "principal_row list"
  source_refs :: "source_ref_row list"
  rate_limits :: "rate_row list"

definition empty_auth :: auth_db where
  "empty_auth = \<lparr>shared = empty_db, identities = [], credentials = [], sessions = [], attempts = [],
     web_principals = [], oauth_clients = [], oauth_codes = [], families = [], oauth_tokens = [],
     continuations = [], mcp_principals = [], source_refs = [], rate_limits = []\<rparr>"

type_synonym 'a atx = "auth_db \<Rightarrow> ('a \<times> auth_db) result"

text \<open>A transaction over the shared tables only, and one after another.\<close>

definition shared_tx :: "'a tx \<Rightarrow> 'a atx" where
  "shared_tx m a = (case m (shared a) of Inl e \<Rightarrow> Inl e | Inr (x, d) \<Rightarrow> Inr (x, a\<lparr>shared := d\<rparr>))"

definition bind_a :: "'a atx \<Rightarrow> ('a \<Rightarrow> 'b atx) \<Rightarrow> 'b atx" where
  "bind_a m k a = (case m a of Inl e \<Rightarrow> Inl e | Inr (x, a') \<Rightarrow> k x a')"

lemma bind_a_Inr_iff:
  "bind_a m k a = Inr (y, a'') \<longleftrightarrow> (\<exists>x a'. m a = Inr (x, a') \<and> k x a' = Inr (y, a''))"
  by (auto simp: bind_a_def split: sum.splits prod.splits)

definition audit_a :: "audit_row \<Rightarrow> auth_db \<Rightarrow> auth_db" where
  "audit_a r a = a\<lparr>shared := audit r (shared a)\<rparr>"

lemma audit_a_other [simp]:
  "sessions (audit_a r a) = sessions a" "identities (audit_a r a) = identities a"
  "credentials (audit_a r a) = credentials a" "attempts (audit_a r a) = attempts a"
  "oauth_clients (audit_a r a) = oauth_clients a" "oauth_codes (audit_a r a) = oauth_codes a"
  "families (audit_a r a) = families a" "oauth_tokens (audit_a r a) = oauth_tokens a"
  "continuations (audit_a r a) = continuations a" "users (shared (audit_a r a)) = users (shared a)"
  by (simp_all add: audit_a_def)

definition user_get :: "auth_db \<Rightarrow> string \<Rightarrow> user_row option" where
  "user_get a i = row_by u_id i (users (shared a))"

text \<open>The constraints on a new row of either table of principals, whose rows are \<open>rs\<close>.\<close>

definition principal_constraints :: "auth_db \<Rightarrow> principal_row list \<Rightarrow> principal_row \<Rightarrow> bool" where
  "principal_constraints a rs p \<longleftrightarrow>
     \<not> exists_row (\<lambda>r. mp_user_id r = mp_user_id p \<or> mp_api_key_id r = mp_api_key_id p \<or>
         mp_service_account_id r = mp_service_account_id p) rs \<and>
     fk u_id (mp_user_id p) (users (shared a)) \<and>
     fk a_id (mp_service_account_id p) (accounts (shared a)) \<and>
     fk k_id (mp_api_key_id p) (api_keys (shared a))"

interpretation session_table: keyed_table ws_token_hash .
interpretation identity_table: keyed_table id_id .
interpretation attempt_table: keyed_table at_key_hash .
interpretation code_table: keyed_table co_code_hash .
interpretation family_table: keyed_table fa_id .
interpretation token_table: keyed_table to_token_hash .

end
