(* ===== verification/OAuth_Store.thy ===== *)
theory OAuth_Store
  imports Auth_Tables
begin

text \<open>
  The statements of the OAuth tables (packages/database/src/repositories/remote-mcp.ts). An
  insertion that breaks a key or a reference throws; a consumption is an UPDATE guarded by what
  must still hold, and returns the number of rows it changed.
\<close>

section \<open>Login continuations\<close>

definition cleanup_login_continuations :: "timestamp \<Rightarrow> auth_db \<Rightarrow> nat \<times> auth_db" where
  "cleanup_login_continuations now a =
     (changes (\<lambda>c. lc_expires_at c \<le> now) (continuations a),
      a\<lparr>continuations := del_where (\<lambda>c. lc_expires_at c \<le> now) (continuations a)\<rparr>)"

definition login_continuation_count :: "auth_db \<Rightarrow> nat" where
  "login_continuation_count a = length (continuations a)"

definition insert_login_continuation :: "continuation_row \<Rightarrow> unit atx" where
  "insert_login_continuation c a =
     (if row_by lc_handle_hash (lc_handle_hash c) (continuations a) = None \<and>
         length (lc_handle_hash c) = 64 \<and> length (lc_browser_hash c) = 64 \<and>
         lc_target c \<noteq> [] \<and> length (lc_target c) \<le> 65536 \<and>
         fk oc_client_id (lc_client_id c) (oauth_clients a)
      then Inr ((), a\<lparr>continuations := continuations a @ [c]\<rparr>)
      else Inl ConstraintError)"

text \<open>\<open>DELETE ... RETURNING target\<close>: the row is gone once its target was read.\<close>

definition consume_login_continuation ::
  "string \<Rightarrow> string \<Rightarrow> timestamp \<Rightarrow> auth_db \<Rightarrow> string option \<times> auth_db" where
  "consume_login_continuation handle browser now a =
     (let p = (\<lambda>c. lc_handle_hash c = handle \<and> lc_browser_hash c = browser \<and> lc_expires_at c > now)
      in (map_option lc_target (find p (continuations a)),
          a\<lparr>continuations := del_where p (continuations a)\<rparr>))"

section \<open>Clients\<close>

definition oauth_client :: "auth_db \<Rightarrow> string \<Rightarrow> oauth_client_row option" where
  "oauth_client a i = row_by oc_client_id i (oauth_clients a)"

definition insert_client :: "string \<Rightarrow> string \<Rightarrow> string list \<Rightarrow> timestamp \<Rightarrow> unit atx" where
  "insert_client i name uris now a =
     (if oauth_client a i = None
      then Inr ((), a\<lparr>oauth_clients := oauth_clients a @ [\<lparr>oc_client_id = i, oc_client_name = name,
             oc_redirect_uris = Some (JArr (map JStr uris)), oc_created_at = now,
             oc_last_used_at = None\<rparr>]\<rparr>)
      else Inl ConstraintError)"

definition touch_client :: "string \<Rightarrow> timestamp \<Rightarrow> auth_db \<Rightarrow> auth_db" where
  "touch_client i now a = a\<lparr>oauth_clients := upd_where (\<lambda>c. oc_client_id c = i)
     (\<lambda>c. c\<lparr>oc_last_used_at := Some now\<rparr>) (oauth_clients a)\<rparr>"

definition count_clients :: "auth_db \<Rightarrow> nat" where
  "count_clients a = length (oauth_clients a)"

section \<open>Authorization codes\<close>

definition insert_authorization_code :: "oauth_code_row \<Rightarrow> unit atx" where
  "insert_authorization_code c a =
     (if row_by co_code_hash (co_code_hash c) (oauth_codes a) = None \<and>
         fk oc_client_id (co_client_id c) (oauth_clients a) \<and>
         fk u_id (co_user_id c) (users (shared a)) \<and> 0 < co_user_security_version c
      then Inr ((), a\<lparr>oauth_codes := oauth_codes a @ [c]\<rparr>)
      else Inl ConstraintError)"

definition authorization_code :: "auth_db \<Rightarrow> string \<Rightarrow> oauth_code_row option" where
  "authorization_code a h = row_by co_code_hash h (oauth_codes a)"

definition usable_code :: "string \<Rightarrow> timestamp \<Rightarrow> oauth_code_row \<Rightarrow> bool" where
  "usable_code h now c \<longleftrightarrow> co_code_hash c = h \<and> co_used_at c = None \<and> co_expires_at c > now"

definition consume_authorization_code :: "string \<Rightarrow> timestamp \<Rightarrow> auth_db \<Rightarrow> nat \<times> auth_db" where
  "consume_authorization_code h now a =
     (changes (usable_code h now) (oauth_codes a),
      a\<lparr>oauth_codes := upd_where (usable_code h now) (\<lambda>c. c\<lparr>co_used_at := Some now\<rparr>)
          (oauth_codes a)\<rparr>)"

section \<open>Families of tokens\<close>

definition insert_token_family :: "family_row \<Rightarrow> unit atx" where
  "insert_token_family f a =
     (if row_by fa_id (fa_id f) (families a) = None \<and>
         fk oc_client_id (fa_client_id f) (oauth_clients a) \<and>
         fk u_id (fa_user_id f) (users (shared a))
      then Inr ((), a\<lparr>families := families a @ [f]\<rparr>)
      else Inl ConstraintError)"

definition insert_token :: "oauth_token_row \<Rightarrow> unit atx" where
  "insert_token t a =
     (if row_by to_token_hash (to_token_hash t) (oauth_tokens a) = None \<and>
         fk fa_id (to_family_id t) (families a)
      then Inr ((), a\<lparr>oauth_tokens := oauth_tokens a @ [t]\<rparr>)
      else Inl ConstraintError)"

text \<open>The token together with its family.\<close>

definition token_get :: "auth_db \<Rightarrow> string \<Rightarrow> (oauth_token_row \<times> family_row) option" where
  "token_get a h = Option.bind (row_by to_token_hash h (oauth_tokens a))
     (\<lambda>t. map_option (\<lambda>f. (t, f)) (row_by fa_id (to_family_id t) (families a)))"

definition refreshable :: "string \<Rightarrow> timestamp \<Rightarrow> oauth_token_row \<Rightarrow> bool" where
  "refreshable h now t \<longleftrightarrow> to_token_hash t = h \<and> to_type t = RefreshToken \<and> to_used_at t = None \<and>
     to_revoked_at t = None \<and> to_expires_at t > now"

definition consume_refresh :: "string \<Rightarrow> timestamp \<Rightarrow> auth_db \<Rightarrow> nat \<times> auth_db" where
  "consume_refresh h now a =
     (changes (refreshable h now) (oauth_tokens a),
      a\<lparr>oauth_tokens := upd_where (refreshable h now) (\<lambda>t. t\<lparr>to_used_at := Some now\<rparr>)
          (oauth_tokens a)\<rparr>)"

definition revoke_family :: "string \<Rightarrow> timestamp \<Rightarrow> auth_db \<Rightarrow> auth_db" where
  "revoke_family i now a =
     a\<lparr>families := upd_where (\<lambda>f. fa_id f = i)
         (\<lambda>f. f\<lparr>fa_revoked_at := Some (coalesce (fa_revoked_at f) now)\<rparr>) (families a),
       oauth_tokens := upd_where (\<lambda>t. to_family_id t = i)
         (\<lambda>t. t\<lparr>to_revoked_at := Some (coalesce (to_revoked_at t) now)\<rparr>) (oauth_tokens a)\<rparr>"

section \<open>Principals, source references and rates\<close>

definition mcp_principal :: "auth_db \<Rightarrow> string \<Rightarrow> principal_row option" where
  "mcp_principal a u = row_by mp_user_id u (mcp_principals a)"

definition insert_principal :: "principal_row \<Rightarrow> unit atx" where
  "insert_principal p a =
     (if principal_constraints a (mcp_principals a) p
      then Inr ((), a\<lparr>mcp_principals := mcp_principals a @ [p]\<rparr>) else Inl ConstraintError)"

definition source_ref :: "auth_db \<Rightarrow> string \<Rightarrow> string \<Rightarrow> timestamp \<Rightarrow> source_ref_row option" where
  "source_ref a i u now = find (\<lambda>r. sf_id r = i \<and> sf_owner_user_id r = u \<and>
     sf_revoked_at r = None \<and> sf_expires_at r > now) (source_refs a)"

definition insert_source_ref :: "source_ref_row \<Rightarrow> unit atx" where
  "insert_source_ref r a =
     (if row_by sf_id (sf_id r) (source_refs a) = None \<and>
         fk s_id (sf_source_id r) (sources (shared a)) \<and>
         fk u_id (sf_owner_user_id r) (users (shared a))
      then Inr ((), a\<lparr>source_refs := source_refs a @ [r]\<rparr>) else Inl ConstraintError)"

definition rate_key :: "rate_row \<Rightarrow> string \<times> string \<times> timestamp" where
  "rate_key r = (rw_user_id r, rw_tool_name r, rw_window_start r)"

text \<open>The upsert and the count it left.\<close>

definition increment_rate_limit :: "string \<Rightarrow> string \<Rightarrow> timestamp \<Rightarrow> nat atx" where
  "increment_rate_limit u tool window a =
     (case row_by rate_key (u, tool, window) (rate_limits a) of
        Some r \<Rightarrow> Inr (rw_request_count r + 1,
          a\<lparr>rate_limits := upd_where (\<lambda>r. rate_key r = (u, tool, window))
              (\<lambda>r. r\<lparr>rw_request_count := rw_request_count r + 1\<rparr>) (rate_limits a)\<rparr>)
      | None \<Rightarrow>
          if fk u_id u (users (shared a))
          then Inr (1, a\<lparr>rate_limits := rate_limits a @ [\<lparr>rw_user_id = u, rw_tool_name = tool,
                 rw_window_start = window, rw_request_count = 1\<rparr>]\<rparr>)
          else Inl ConstraintError)"

section \<open>Clean-up\<close>

text \<open>
  The statements in their order: what has expired, then the clients that were not used since the
  cutoff and that nothing refers to. The cutoffs are differences and may lie before every instant.
\<close>

definition unused_client :: "auth_db \<Rightarrow> int \<Rightarrow> oauth_client_row \<Rightarrow> bool" where
  "unused_client a cutoff c \<longleftrightarrow>
     int (coalesce (oc_last_used_at c) (oc_created_at c)) < cutoff \<and>
     \<not> exists_row (\<lambda>k. co_client_id k = oc_client_id c) (oauth_codes a) \<and>
     \<not> exists_row (\<lambda>f. fa_client_id f = oc_client_id c) (families a) \<and>
     \<not> exists_row (\<lambda>l. lc_client_id l = oc_client_id c) (continuations a)"

definition cleanup_expired :: "timestamp \<Rightarrow> int \<Rightarrow> auth_db \<Rightarrow> auth_db" where
  "cleanup_expired now rate_before a =
     (let a1 = snd (cleanup_login_continuations now a);
          a2 = a1\<lparr>oauth_codes := del_where (\<lambda>c. co_expires_at c \<le> now) (oauth_codes a1),
                  oauth_tokens := del_where (\<lambda>t. to_expires_at t \<le> now) (oauth_tokens a1)\<rparr>
      in a2\<lparr>families := del_where (\<lambda>f. fa_expires_at f \<le> now \<and>
                \<not> exists_row (\<lambda>t. to_family_id t = fa_id f) (oauth_tokens a2)) (families a2),
            source_refs := del_where (\<lambda>r. sf_expires_at r \<le> now) (source_refs a2),
            rate_limits := del_where (\<lambda>r. int (rw_window_start r) < rate_before)
              (rate_limits a2)\<rparr>)"

definition cleanup_remote :: "timestamp \<Rightarrow> int \<Rightarrow> int \<Rightarrow> auth_db \<Rightarrow> auth_db" where
  "cleanup_remote now rate_before client_before a =
     (let a1 = cleanup_expired now rate_before a in
      a1\<lparr>oauth_clients := del_where (unused_client a1 client_before) (oauth_clients a1)\<rparr>)"

text \<open>
  What the clean-up timer (deploy/scripts/cleanup.mjs) deletes from these tables: also what was
  revoked, at once.
\<close>

definition purge_remote :: "timestamp \<Rightarrow> int \<Rightarrow> auth_db \<Rightarrow> auth_db" where
  "purge_remote now rate_before a =
     (let a1 = snd (cleanup_login_continuations now a);
          a2 = a1\<lparr>oauth_codes := del_where (\<lambda>c. co_expires_at c \<le> now) (oauth_codes a1),
                  oauth_tokens := del_where (\<lambda>t. to_expires_at t \<le> now \<or> to_revoked_at t \<noteq> None)
                    (oauth_tokens a1)\<rparr>
      in a2\<lparr>families := del_where (\<lambda>f. (fa_expires_at f \<le> now \<or> fa_revoked_at f \<noteq> None) \<and>
                \<not> exists_row (\<lambda>t. to_family_id t = fa_id f) (oauth_tokens a2)) (families a2),
            source_refs := del_where (\<lambda>r. sf_expires_at r \<le> now \<or> sf_revoked_at r \<noteq> None)
              (source_refs a2),
            rate_limits := del_where (\<lambda>r. int (rw_window_start r) < rate_before)
              (rate_limits a2)\<rparr>)"

end
