(* ===== verification/OAuth.thy ===== *)
theory OAuth
  imports OAuth_Store White_Space
begin

text \<open>
  The OAuth server of the remote MCP service (packages/remote-mcp-core/src/index.ts, class
  \<open>RemoteOAuthService\<close>): registration of clients, authorization codes with PKCE, and access and
  refresh tokens in families, with the short memory of replies that lets a lost refresh be
  repeated. Parameters: the URL parser, SHA-256 (as hexadecimal text and as the PKCE challenge),
  the random parts of new identifiers and tokens, and the clock: \<open>now\<close> is the instant a call
  starts with, \<open>clk\<close> what the clock shows later in the same call.
\<close>

record url =
  url_protocol :: string
  url_hostname :: string
  url_username :: string
  url_password :: string
  url_hash :: string
  url_href :: string

record oauth_deps =
  od_url :: "string \<Rightarrow> url option"
  od_sha :: "string \<Rightarrow> string"
  od_challenge :: "string \<Rightarrow> string"
  od_resource :: string

definition access_token_ms :: nat where "access_token_ms = 600000"
definition refresh_token_ms :: nat where "refresh_token_ms = 2592000000"
definition replay_grace_ms :: nat where "replay_grace_ms = 30000"
definition reply_limit :: nat where "reply_limit = 128"
definition authorization_code_ms :: nat where "authorization_code_ms = 300000"
definition oauth_client_limit :: nat where "oauth_client_limit = 10000"
definition unused_client_ms :: nat where "unused_client_ms = 2592000000"

section \<open>Checks\<close>

definition mcp_scopes :: "string list" where
  "mcp_scopes = [''mcp'', ''mcp:render'', ''mcp:read'', ''mcp:cancel'', ''mcp:delete'']"

definition require_scope :: "string list \<Rightarrow> string \<Rightarrow> unit result" where
  "require_scope scopes required =
     ensure (''mcp'' \<in> set scopes \<or> required \<in> set scopes) (AppError ''INSUFFICIENT_SCOPE'' 403)
       (Inr ())"

definition required_param :: "(string \<Rightarrow> string option) \<Rightarrow> string \<Rightarrow> string result" where
  "required_param params name =
     (case params name of
        None \<Rightarrow> Inl (AppError ''INVALID_REQUEST'' 400)
      | Some v \<Rightarrow> if v = [] \<or> length v > 4096 \<or> has_control v
          then Inl (AppError ''INVALID_REQUEST'' 400) else Inr v)"

definition valid_redirect_uri :: "oauth_deps \<Rightarrow> string \<Rightarrow> string result" where
  "valid_redirect_uri dp v =
     (let bad = AppError ''INVALID_REDIRECT_URI'' 400 in
      if length v > 2048 \<or> has_control v then Inl bad
      else case od_url dp v of
          None \<Rightarrow> Inl bad
        | Some u \<Rightarrow>
            (let local = url_protocol u = ''http:'' \<and>
                   url_hostname u \<in> {''localhost'', ''127.0.0.1'', ''[::1]''} in
             if (url_protocol u \<noteq> ''https:'' \<and> \<not> local) \<or> url_username u \<noteq> [] \<or>
                url_password u \<noteq> [] \<or> url_hash u \<noteq> []
             then Inl bad else Inr (url_href u)))"

definition normalize_scopes :: "string option \<Rightarrow> string list result" where
  "normalize_scopes v =
     (let text = coalesce v [] in
      if length text > 500 \<or> has_control text then Inl (AppError ''INVALID_SCOPE'' 400)
      else
        (let requested = (if trim text = [] then [''mcp''] else split_spaces (trim text)) in
         if list_all (\<lambda>s. s \<in> set mcp_scopes) requested then Inr (unique requested)
         else Inl (AppError ''INVALID_SCOPE'' 400)))"

definition optional_state :: "string option \<Rightarrow> string option result" where
  "optional_state v =
     (case v of
        None \<Rightarrow> Inr None
      | Some s \<Rightarrow> if length s > 2048 \<or> has_control s then Inl (AppError ''INVALID_REQUEST'' 400)
          else Inr (Some s))"

definition parse_string_array :: "json_text \<Rightarrow> string list result" where
  "parse_string_array v =
     (case v of
        None \<Rightarrow> Inl PlainError
      | Some j \<Rightarrow> (case string_array j of
            None \<Rightarrow> Inl (AppError ''INVALID_STORED_DATA'' 500) | Some xs \<Rightarrow> Inr xs))"

definition normalize_stored_scopes :: "json_text \<Rightarrow> string list result" where
  "normalize_stored_scopes v = bind_r (parse_string_array v) (\<lambda>xs.
     ensure (list_all (\<lambda>s. s \<in> set mcp_scopes) xs) (AppError ''INVALID_SCOPE_DATA'' 500) (Inr xs))"

definition cleanup_oauth :: "timestamp \<Rightarrow> auth_db \<Rightarrow> auth_db" where
  "cleanup_oauth now a =
     cleanup_remote now (int now - 86400000) (int now - int unused_client_ms) a"

section \<open>Clients\<close>

definition registration_metadata :: "oauth_deps \<Rightarrow> string \<Rightarrow> string list \<Rightarrow> string list result" where
  "registration_metadata dp name uris =
     (if name = [] \<or> length name > 200 \<or> has_control name
      then Inl (AppError ''INVALID_CLIENT_METADATA'' 400)
      else bind_r (traverse (valid_redirect_uri dp) (unique uris)) (\<lambda>rs.
        ensure (rs \<noteq> [] \<and> length rs \<le> 10) (AppError ''INVALID_REDIRECT_URI'' 400) (Inr rs)))"

text \<open>The transaction of a registration, and the audit entry that follows it.\<close>

definition register_client_tx :: "string \<Rightarrow> string \<Rightarrow> string list \<Rightarrow> timestamp \<Rightarrow> unit atx" where
  "register_client_tx i name uris now a =
     (let a1 = cleanup_oauth now a in
      if count_clients a1 \<ge> oauth_client_limit
      then Inl (AppError ''OAUTH_REGISTRATION_CAPACITY'' 503)
      else insert_client i name uris now a1)"

definition register_client :: "oauth_deps \<Rightarrow> string \<Rightarrow> string list \<Rightarrow> string \<Rightarrow> timestamp \<Rightarrow>
  string list atx" where
  "register_client dp name uris i now a =
     bind_r (registration_metadata dp name uris) (\<lambda>rs.
     bind_r (register_client_tx i name rs now a) (\<lambda>(_, a1).
       Inr (rs, audit_a \<lparr>au_actor_type = ActorOauth, au_actor_id = i,
         au_action = ''oauth.client.registered'', au_target_type = ''oauth_client'',
         au_target_id = i, au_result = ''success'', au_ip_address = None, au_user_agent = None,
         au_metadata = [(''redirectUriCount'', JNum (int (length rs)))], au_created_at = now\<rparr> a1)))"

section \<open>Authorization\<close>

record authorization_request =
  aq_client_id :: string
  aq_redirect_uri :: string
  aq_state :: "string option"
  aq_scopes :: "string list"
  aq_resource :: string
  aq_code_challenge :: string

definition is_challenge :: "string \<Rightarrow> bool" where
  "is_challenge s \<longleftrightarrow> 43 \<le> length s \<and> length s \<le> 128 \<and> list_all url_safe s"

definition validate_authorization_request ::
  "oauth_deps \<Rightarrow> timestamp \<Rightarrow> (string \<Rightarrow> string option) \<Rightarrow> authorization_request atx" where
  "validate_authorization_request dp now params a =
     (ensure (params ''response_type'' = Some ''code'') (AppError ''UNSUPPORTED_RESPONSE_TYPE'' 400)
     (ensure (params ''code_challenge_method'' = Some ''S256'') (AppError ''INVALID_REQUEST'' 400)
     (bind_r (required_param params ''client_id'') (\<lambda>i.
      ensure (is_id ''mcp_client_'' i) (AppError ''INVALID_CLIENT'' 400)
     (bind_r (required_param params ''redirect_uri'') (\<lambda>r0.
      bind_r (valid_redirect_uri dp r0) (\<lambda>uri.
      bind_r (required_param params ''resource'') (\<lambda>res.
      bind_r (required_param params ''code_challenge'') (\<lambda>challenge.
      bind_r (optional_state (params ''state'')) (\<lambda>st.
      case oauth_client a i of
        None \<Rightarrow> Inl (AppError ''INVALID_CLIENT'' 400)
      | Some c \<Rightarrow>
          bind_r (parse_string_array (oc_redirect_uris c)) (\<lambda>registered.
          ensure (uri \<in> set registered) (AppError ''INVALID_REDIRECT_URI'' 400)
         (ensure (res = od_resource dp) (AppError ''INVALID_TARGET'' 400)
         (ensure (is_challenge challenge) (AppError ''INVALID_REQUEST'' 400)
         (bind_r (normalize_scopes (params ''scope'')) (\<lambda>scopes.
            Inr (\<lparr>aq_client_id = i, aq_redirect_uri = uri, aq_state = st, aq_scopes = scopes,
                   aq_resource = res, aq_code_challenge = challenge\<rparr>,
                 touch_client i now a))))))))))))))))"

text \<open>
  The result of \<open>authorize\<close> is the redirection with the new code and the state; here the code.
\<close>

definition authorize :: "oauth_deps \<Rightarrow> timestamp \<Rightarrow> timestamp \<Rightarrow> string \<Rightarrow> string \<Rightarrow>
  authorization_request \<Rightarrow> string atx" where
  "authorize dp now clk secret user q a =
     (case user_get a user of
        None \<Rightarrow> Inl (AppError ''OAUTH_USER_INACTIVE'' 403)
      | Some u \<Rightarrow>
          if u_status u \<noteq> Active then Inl (AppError ''OAUTH_USER_INACTIVE'' 403)
          else
            (let new_code = ''mcp_code_'' @ secret in
             bind_r (insert_authorization_code
               \<lparr>co_code_hash = od_sha dp new_code, co_client_id = aq_client_id q, co_user_id = user,
                co_user_security_version = u_security_version u,
                co_redirect_uri = aq_redirect_uri q, co_scopes = Some (JArr (map JStr (aq_scopes q))),
                co_resource = aq_resource q, co_code_challenge = aq_code_challenge q,
                co_created_at = now, co_expires_at = clk + authorization_code_ms,
                co_used_at = None\<rparr> a) (\<lambda>(_, a1).
             Inr (new_code, audit_a \<lparr>au_actor_type = ActorUser, au_actor_id = user,
               au_action = ''oauth.authorization.approved'', au_target_type = ''oauth_client'',
               au_target_id = aq_client_id q, au_result = ''success'', au_ip_address = None,
               au_user_agent = None,
               au_metadata = [(''scopes'', JArr (map JStr (aq_scopes q))),
                 (''resource'', JStr (aq_resource q))], au_created_at = now\<rparr> a1))))"

section \<open>Tokens\<close>

record token_response =
  tr_access :: string
  tr_expires_in :: nat
  tr_refresh :: string
  tr_scope :: string

text \<open>\<open>access\<close> and \<open>refresh\<close> are the two random secrets.\<close>

definition issue_tokens :: "oauth_deps \<Rightarrow> string \<Rightarrow> string list \<Rightarrow> nat \<Rightarrow> timestamp \<Rightarrow> timestamp \<Rightarrow>
  string \<Rightarrow> string \<Rightarrow> token_response atx" where
  "issue_tokens dp fam scopes seq now clk access refresh a =
     (let at = ''mcp_at_'' @ access; rt = ''mcp_rt_'' @ refresh;
          row = (\<lambda>h ty ms. \<lparr>to_token_hash = h, to_family_id = fam, to_type = ty, to_sequence = seq,
             to_created_at = now, to_expires_at = clk + ms, to_used_at = None,
             to_revoked_at = None\<rparr>) in
      bind_r (insert_token (row (od_sha dp at) AccessToken access_token_ms) a) (\<lambda>(_, a1).
      bind_r (insert_token (row (od_sha dp rt) RefreshToken refresh_token_ms) a1) (\<lambda>(_, a2).
        Inr (\<lparr>tr_access = at, tr_expires_in = access_token_ms div 1000, tr_refresh = rt,
               tr_scope = join_on CHR '' '' scopes\<rparr>, a2))))"

definition is_active_token :: "oauth_token_row \<times> family_row \<Rightarrow> timestamp \<Rightarrow> bool" where
  "is_active_token p now \<longleftrightarrow> to_revoked_at (fst p) = None \<and> fa_revoked_at (snd p) = None \<and>
     to_expires_at (fst p) > now \<and> fa_expires_at (snd p) > now"

text \<open>The user is active and has the security version the grant was made under.\<close>

definition same_subject :: "auth_db \<Rightarrow> string \<Rightarrow> nat \<Rightarrow> bool" where
  "same_subject a user version \<longleftrightarrow> (case user_get a user of
     None \<Rightarrow> False | Some u \<Rightarrow> u_status u = Active \<and> u_security_version u = version)"

record exchange_request =
  xq_code :: string
  xq_client_id :: string
  xq_redirect_uri :: string
  xq_code_verifier :: string
  xq_resource :: string

definition validate_code :: "oauth_deps \<Rightarrow> oauth_code_row option \<Rightarrow> exchange_request \<Rightarrow> timestamp \<Rightarrow>
  oauth_code_row result" where
  "validate_code dp row q now =
     (let bad = AppError ''INVALID_GRANT'' 400 in
      case row of
        None \<Rightarrow> Inl bad
      | Some c \<Rightarrow>
          if co_used_at c \<noteq> None \<or> co_expires_at c \<le> now \<or> co_client_id c \<noteq> xq_client_id q
          then Inl bad
          else bind_r (valid_redirect_uri dp (xq_redirect_uri q)) (\<lambda>uri.
            if co_redirect_uri c \<noteq> uri \<or> co_resource c \<noteq> xq_resource q \<or>
               co_code_challenge c \<noteq> od_challenge dp (xq_code_verifier q)
            then Inl bad else Inr c))"

definition new_family :: "oauth_code_row \<Rightarrow> string list \<Rightarrow> string \<Rightarrow> timestamp \<Rightarrow> timestamp \<Rightarrow>
  family_row" where
  "new_family c scopes fam now clk = \<lparr>fa_id = fam, fa_client_id = co_client_id c,
     fa_user_id = co_user_id c, fa_user_security_version = co_user_security_version c,
     fa_scopes = Some (JArr (map JStr scopes)), fa_resource = co_resource c, fa_created_at = now,
     fa_expires_at = clk + refresh_token_ms, fa_revoked_at = None\<rparr>"

text \<open>The transaction: the code is consumed, and the family and its two tokens are made.\<close>

definition exchange_tx :: "oauth_deps \<Rightarrow> oauth_code_row \<Rightarrow> string list \<Rightarrow> timestamp \<Rightarrow> timestamp \<Rightarrow>
  string \<Rightarrow> string \<Rightarrow> string \<Rightarrow> token_response atx" where
  "exchange_tx dp c scopes now clk fam access refresh a =
     (if \<not> same_subject a (co_user_id c) (co_user_security_version c)
      then Inl (AppError ''INVALID_GRANT'' 400)
      else (case consume_authorization_code (co_code_hash c) now a of
          (n, a1) \<Rightarrow>
            if n \<noteq> 1 then Inl (AppError ''INVALID_GRANT'' 400)
            else
              bind_r (insert_token_family (new_family c scopes fam now clk) a1) (\<lambda>(_, a2).
              bind_r (issue_tokens dp fam scopes 0 now clk access refresh a2) (\<lambda>(r, a3).
                Inr (r, touch_client (co_client_id c) now a3)))))"

definition exchange_authorization_code :: "oauth_deps \<Rightarrow> timestamp \<Rightarrow> timestamp \<Rightarrow> string \<Rightarrow>
  string \<Rightarrow> string \<Rightarrow> exchange_request \<Rightarrow> auth_db \<Rightarrow> token_response result \<times> auth_db" where
  "exchange_authorization_code dp now clk fam access refresh q a =
     (let a1 = cleanup_oauth now a in
      case bind_r (validate_code dp (authorization_code a1 (od_sha dp (xq_code q))) q now) (\<lambda>c.
           bind_r (normalize_stored_scopes (co_scopes c)) (\<lambda>scopes.
             exchange_tx dp c scopes now clk fam access refresh a1)) of
        Inl e \<Rightarrow> (Inl e, a1)
      | Inr (r, a2) \<Rightarrow> (Inr r, a2))"

end
