(* ===== verification/OAuth_Refresh.thy ===== *)
theory OAuth_Refresh
  imports OAuth
begin

text \<open>
  Rotation of refresh tokens and verification of access tokens (\<open>RemoteOAuthService.refresh\<close> and
  \<open>verifyAccessToken\<close>), and the continuations of interrupted logins
  (packages/remote-mcp-core/src/login-continuations.ts).
\<close>

section \<open>Remembered replies\<close>

record refresh_reply =
  rp_response :: token_response
  rp_expires_at :: timestamp
  rp_access_expires_at :: timestamp

text \<open>\<open>refreshReplies\<close>, a Map by family in the order of insertion, and \<open>activityDeadline\<close>.\<close>

record oauth_memory =
  replies :: "(string \<times> refresh_reply) list"
  activity_deadline :: timestamp

definition drop_replies :: "(string \<times> refresh_reply \<Rightarrow> bool) \<Rightarrow> oauth_memory \<Rightarrow> oauth_memory" where
  "drop_replies p m = m\<lparr>replies := del_where p (replies m)\<rparr>"

text \<open>The loop at the start of a refresh, and the timer that does the same in between.\<close>

definition expire_replies :: "timestamp \<Rightarrow> oauth_memory \<Rightarrow> oauth_memory" where
  "expire_replies clk = drop_replies (\<lambda>(f, r). rp_expires_at r \<le> clk)"

definition forget_reply :: "string \<Rightarrow> oauth_memory \<Rightarrow> oauth_memory" where
  "forget_reply fam = drop_replies (\<lambda>(f, r). f = fam)"

text \<open>The oldest entries make room: \<open>while (size >= limit)\<close> the first one goes.\<close>

definition remember_reply :: "string \<Rightarrow> refresh_reply \<Rightarrow> oauth_memory \<Rightarrow> oauth_memory" where
  "remember_reply fam r m =
     (let m1 = forget_reply fam m;
          kept = drop (length (replies m1) + 1 - reply_limit) (replies m1) in
      m1\<lparr>replies := kept @ [(fam, r)],
         activity_deadline := max (activity_deadline m1) (rp_expires_at r)\<rparr>)"

definition idle_blocked_until :: "timestamp \<Rightarrow> oauth_memory \<Rightarrow> timestamp" where
  "idle_blocked_until clk m =
     (if replies m \<noteq> [] \<and> activity_deadline m > clk then activity_deadline m else 0)"

section \<open>Refresh\<close>

record refresh_request =
  fq_refresh_token :: string
  fq_client_id :: string
  fq_resource :: string

definition within_grace :: "timestamp \<Rightarrow> timestamp \<Rightarrow> bool" where
  "within_grace used now \<longleftrightarrow> used \<le> now \<and> now - used < replay_grace_ms"

datatype refresh_outcome = InvalidGrant | RetryLater | Replayed token_response
  | Issued string token_response

text \<open>A remembered reply can be repeated while its successor is unused and active.\<close>

definition replayable :: "oauth_deps \<Rightarrow> timestamp \<Rightarrow> timestamp \<Rightarrow> string \<Rightarrow> oauth_memory \<Rightarrow> auth_db \<Rightarrow>
  token_response option" where
  "replayable dp now clk fam m a =
     (case map_of (replies m) fam of
        None \<Rightarrow> None
      | Some r \<Rightarrow>
          (case token_get a (od_sha dp (tr_refresh (rp_response r))) of
             None \<Rightarrow> None
           | Some (t, f) \<Rightarrow>
               if rp_expires_at r > clk \<and> rp_access_expires_at r > clk \<and> to_family_id t = fam \<and>
                  to_used_at t = None \<and> is_active_token (t, f) now
               then Some ((rp_response r)\<lparr>tr_expires_in :=
                      max 1 ((rp_access_expires_at r - clk) div 1000)\<rparr>)
               else None))"

text \<open>
  The transaction: its value, the database it commits and the memory. It throws (and rolls back)
  only where an insertion or the stored scopes do.
\<close>

definition refresh_tx :: "oauth_deps \<Rightarrow> timestamp \<Rightarrow> timestamp \<Rightarrow> string \<Rightarrow> string \<Rightarrow>
  refresh_request \<Rightarrow> oauth_memory \<Rightarrow> (refresh_outcome \<times> oauth_memory) atx" where
  "refresh_tx dp now clk access refresh q m a =
     (let h = od_sha dp (fq_refresh_token q) in
      case token_get a h of
        None \<Rightarrow> Inr ((InvalidGrant, m), a)
      | Some (t, f) \<Rightarrow>
          if to_type t \<noteq> RefreshToken then Inr ((InvalidGrant, m), a)
          else if fa_client_id f \<noteq> fq_client_id q \<or> fa_resource f \<noteq> fq_resource q
          then Inr ((InvalidGrant, m), a)
          else if \<not> is_active_token (t, f) now then Inr ((InvalidGrant, m), a)
          else if \<not> same_subject a (fa_user_id f) (fa_user_security_version f)
          then Inr ((InvalidGrant, m), revoke_family (fa_id f) now a)
          else (case to_used_at t of
              Some used \<Rightarrow>
                if within_grace used now
                then (case replayable dp now clk (fa_id f) m a of
                    Some r \<Rightarrow> Inr ((Replayed r, m), a)
                  | None \<Rightarrow> Inr ((RetryLater, m), a))
                else Inr ((InvalidGrant, forget_reply (fa_id f) m), revoke_family (fa_id f) now a)
            | None \<Rightarrow>
                (case consume_refresh h now a of
                   (n, a1) \<Rightarrow>
                     if n \<noteq> 1 then Inr ((RetryLater, m), a1)
                     else bind_r (normalize_stored_scopes (fa_scopes f)) (\<lambda>scopes.
                       bind_r (issue_tokens dp (fa_id f) scopes (to_sequence t + 1) now clk access
                         refresh a1) (\<lambda>(r, a2). Inr ((Issued (fa_id f) r, m), a2))))))"

definition refresh_token :: "oauth_deps \<Rightarrow> timestamp \<Rightarrow> timestamp \<Rightarrow> string \<Rightarrow> string \<Rightarrow>
  refresh_request \<Rightarrow> oauth_memory \<Rightarrow> auth_db \<Rightarrow> token_response result \<times> oauth_memory \<times> auth_db" where
  "refresh_token dp now clk access refresh q m a =
     (let m1 = expire_replies clk m; a1 = cleanup_oauth now a in
      case refresh_tx dp now clk access refresh q m1 a1 of
        Inl e \<Rightarrow> (Inl e, m1, a1)
      | Inr ((InvalidGrant, m2), a2) \<Rightarrow> (Inl (AppError ''INVALID_GRANT'' 400), m2, a2)
      | Inr ((RetryLater, m2), a2) \<Rightarrow> (Inl (AppError ''OAUTH_REFRESH_RETRY'' 503), m2, a2)
      | Inr ((Replayed r, m2), a2) \<Rightarrow> (Inr r, m2, a2)
      | Inr ((Issued fam r, m2), a2) \<Rightarrow>
          (Inr r, remember_reply fam \<lparr>rp_response = r, rp_expires_at = clk + replay_grace_ms,
             rp_access_expires_at = now + access_token_ms\<rparr> m2, a2))"

section \<open>Access\<close>

record remote_access =
  ra_token :: string
  ra_client_id :: string
  ra_subject :: string
  ra_scopes :: "string list"
  ra_resource :: string
  ra_expires_at :: timestamp

definition verify_access_token :: "oauth_deps \<Rightarrow> timestamp \<Rightarrow> string \<Rightarrow> auth_db \<Rightarrow>
  remote_access result" where
  "verify_access_token dp now v a =
     (let bad = AppError ''INVALID_TOKEN'' 401 in
      if \<not> (starts_with ''mcp_at_'' v \<and> is_secret (drop 7 v)) then Inl bad
      else case token_get a (od_sha dp v) of
          None \<Rightarrow> Inl bad
        | Some (t, f) \<Rightarrow>
            if to_type t \<noteq> AccessToken \<or> \<not> is_active_token (t, f) now \<or>
               fa_resource f \<noteq> od_resource dp
            then Inl bad
            else if \<not> same_subject a (fa_user_id f) (fa_user_security_version f) then Inl bad
            else bind_r (normalize_stored_scopes (fa_scopes f)) (\<lambda>scopes.
              Inr \<lparr>ra_token = v, ra_client_id = fa_client_id f, ra_subject = fa_user_id f,
                ra_scopes = scopes, ra_resource = fa_resource f, ra_expires_at = to_expires_at t\<rparr>))"

section \<open>Login continuations\<close>

text \<open>
  \<open>lt_url\<close> is \<open>new URL(target, "https://oauth-return.invalid")\<close>: origin, path, hash and the
  parameter \<open>client_id\<close>; \<open>None\<close> where it throws.
\<close>

record login_target =
  lt_origin :: string
  lt_pathname :: string
  lt_hash :: string
  lt_client_id :: "string option"

definition oauth_login_ttl_ms :: nat where "oauth_login_ttl_ms = 600000"
definition oauth_login_max_pending :: nat where "oauth_login_max_pending = 1000"

definition cookie_prefix :: string where
  "cookie_prefix = ''__Host-latex_renderer_oauth_login_''"

definition invalid_continuation :: app_error where
  "invalid_continuation = AppError ''INVALID_OAUTH_LOGIN_CONTINUATION'' 400"

definition oauth_login_cookie_name :: "string \<Rightarrow> string result" where
  "oauth_login_cookie_name handle =
     ensure (is_secret handle) invalid_continuation (Inr (cookie_prefix @ handle))"

definition oauth_login_cookie :: "string option \<Rightarrow> string \<Rightarrow> string result" where
  "oauth_login_cookie header handle =
     bind_r (oauth_login_cookie_name handle) (\<lambda>name.
       (let vs = map (drop (length name + 1)) (filter (starts_with (name @ ''=''))
              (map trim (split_on CHR '';'' (coalesce header [])))) in
        case vs of
          [v] \<Rightarrow> ensure (is_secret v) invalid_continuation (Inr v)
        | _ \<Rightarrow> Inl invalid_continuation))"

definition assert_target :: "(string \<Rightarrow> login_target option) \<Rightarrow> string \<Rightarrow> string option \<Rightarrow>
  unit result" where
  "assert_target url target client =
     (case url target of
        None \<Rightarrow> Inl PlainError
      | Some p \<Rightarrow>
          ensure (length target \<le> 65536 \<and> starts_with ''/oauth/authorize?'' target \<and>
            lt_origin p = ''https://oauth-return.invalid'' \<and>
            lt_pathname p = ''/oauth/authorize'' \<and> lt_hash p = [] \<and> CHR 0x5C \<notin> set target \<and>
            \<not> has_control target \<and> (client = None \<or> lt_client_id p = client))
            invalid_continuation (Inr ()))"

text \<open>The result is the handle and the secret of the new cookie.\<close>

definition create_continuation :: "(string \<Rightarrow> login_target option) \<Rightarrow> (string \<Rightarrow> string) \<Rightarrow>
  timestamp \<Rightarrow> string \<Rightarrow> string \<Rightarrow> string \<Rightarrow> string \<Rightarrow> string option \<Rightarrow> (string \<times> string) atx" where
  "create_continuation url sha now handle binding target client cookies a =
     bind_r (assert_target url target (Some client)) (\<lambda>_.
     ensure (length (filter (\<lambda>p. starts_with cookie_prefix (trim p))
         (split_on CHR '';'' (coalesce cookies []))) < 8) (AppError ''OAUTH_LOGIN_CAPACITY'' 503)
       (let a1 = snd (cleanup_login_continuations now a) in
        ensure (login_continuation_count a1 < oauth_login_max_pending)
          (AppError ''OAUTH_LOGIN_CAPACITY'' 503)
          (bind_r (insert_login_continuation \<lparr>lc_handle_hash = sha handle,
             lc_browser_hash = sha binding, lc_client_id = client, lc_target = target,
             lc_expires_at = now + oauth_login_ttl_ms\<rparr> a1) (\<lambda>(_, a2).
           bind_r (oauth_login_cookie_name handle) (\<lambda>_. Inr ((handle, binding), a2))))))"

text \<open>A consumed continuation is gone even where its target is refused.\<close>

definition consume_continuation :: "(string \<Rightarrow> login_target option) \<Rightarrow> (string \<Rightarrow> string) \<Rightarrow>
  timestamp \<Rightarrow> string \<Rightarrow> string \<Rightarrow> auth_db \<Rightarrow> string result \<times> auth_db" where
  "consume_continuation url sha now handle binding a =
     (if \<not> is_secret handle \<or> \<not> is_secret binding then (Inl invalid_continuation, a)
      else (case consume_login_continuation (sha handle) (sha binding) now
               (snd (cleanup_login_continuations now a)) of
          (None, a1) \<Rightarrow> (Inl invalid_continuation, a1)
        | (Some target, a1) \<Rightarrow>
            (bind_r (assert_target url target None) (\<lambda>_. Inr target), a1)))"

end
