(* ===== verification/OAuth_Properties.thy ===== *)
theory OAuth_Properties
  imports OAuth_Refresh
begin

text \<open>
  What the OAuth tables look like in every state the server, the clean-up and changes of the users
  lead to: one live refresh token per family, and revocation that is for good.
\<close>

section \<open>Grants\<close>

definition live_refresh :: "string \<Rightarrow> oauth_token_row \<Rightarrow> bool" where
  "live_refresh fam t \<longleftrightarrow> to_family_id t = fam \<and> to_type t = RefreshToken \<and> to_used_at t = None"

definition grants_ok :: "auth_db \<Rightarrow> bool" where
  "grants_ok a \<longleftrightarrow> distinct (map to_token_hash (oauth_tokens a)) \<and> distinct (map fa_id (families a)) \<and>
     to_family_id ` set (oauth_tokens a) \<subseteq> fa_id ` set (families a) \<and>
     (\<forall>fam. changes (live_refresh fam) (oauth_tokens a) \<le> 1)"

definition dead :: "string \<Rightarrow> auth_db \<Rightarrow> bool" where
  "dead fam a \<longleftrightarrow> (\<forall>f\<in>set (families a). fa_id f = fam \<longrightarrow> fa_revoked_at f \<noteq> None)"

lemma grants_ok_cong:
  "oauth_tokens a' = oauth_tokens a \<Longrightarrow> families a' = families a \<Longrightarrow> grants_ok a \<Longrightarrow> grants_ok a'"
  by (simp add: grants_ok_def)

lemma dead_cong: "families a' = families a \<Longrightarrow> dead fam a \<Longrightarrow> dead fam a'"
  by (simp add: dead_def)

lemma grants_ok_delete:
  assumes "grants_ok a" and "oauth_tokens a' = del_where p (oauth_tokens a)"
    and "families a' = del_where (\<lambda>f. q f \<and>
      \<not> exists_row (\<lambda>t. to_family_id t = fa_id f) (oauth_tokens a')) (families a)"
  shows "grants_ok a'"
proof -
  have "changes (live_refresh fam) (oauth_tokens a') \<le> 1" for fam
    using assms(1,2) changes_del_where_le [of "live_refresh fam" p "oauth_tokens a"]
    by (metis grants_ok_def le_trans)
  moreover have "to_family_id t \<in> fa_id ` set (families a')" if t: "t \<in> set (oauth_tokens a')" for t
  proof -
    from t assms(2) have "t \<in> set (oauth_tokens a)" by simp
    with assms(1) obtain f where f: "f \<in> set (families a)" "fa_id f = to_family_id t"
      by (force simp: grants_ok_def)
    with t assms(3) have "f \<in> set (families a')" by auto
    with f(2) show ?thesis by force
  qed
  moreover have "distinct (map to_token_hash (oauth_tokens a'))" "distinct (map fa_id (families a'))"
    using assms(1) unfolding assms(2,3) grants_ok_def
    by (blast intro: token_table.distinct_del_where family_table.distinct_del_where)+
  ultimately show ?thesis unfolding grants_ok_def by blast
qed

lemma dead_delete: "dead fam a \<Longrightarrow> families a' = del_where q (families a) \<Longrightarrow> dead fam a'"
  by (simp add: dead_def)

section \<open>Each operation\<close>

lemma cleanup_grants:
  "grants_ok a \<Longrightarrow> grants_ok (cleanup_oauth now a)"
  "dead fam a \<Longrightarrow> dead fam (cleanup_oauth now a)"
  "fa_id ` set (families (cleanup_oauth now a)) \<subseteq> fa_id ` set (families a)"
  "co_code_hash ` set (oauth_codes (cleanup_oauth now a)) \<subseteq> co_code_hash ` set (oauth_codes a)"
  unfolding cleanup_oauth_def cleanup_remote_def cleanup_expired_def cleanup_login_continuations_def
    Let_def
  by (auto intro: grants_ok_delete dead_delete)

lemma purge_grants:
  "grants_ok a \<Longrightarrow> grants_ok (purge_remote now b a)" "dead fam a \<Longrightarrow> dead fam (purge_remote now b a)"
  "fa_id ` set (families (purge_remote now b a)) \<subseteq> fa_id ` set (families a)"
  "co_code_hash ` set (oauth_codes (purge_remote now b a)) \<subseteq> co_code_hash ` set (oauth_codes a)"
  unfolding purge_remote_def cleanup_login_continuations_def Let_def
  by (auto intro: grants_ok_delete dead_delete)

lemma revoke_grants:
  "grants_ok a \<Longrightarrow> grants_ok (revoke_family i now a)" "dead fam a \<Longrightarrow> dead fam (revoke_family i now a)"
  "dead i (revoke_family i now a)"
  "fa_id ` set (families (revoke_family i now a)) = fa_id ` set (families a)"
proof -
  have k: "map to_token_hash (oauth_tokens (revoke_family i now a)) = map to_token_hash (oauth_tokens a)"
    "map to_family_id (oauth_tokens (revoke_family i now a)) = map to_family_id (oauth_tokens a)"
    "map fa_id (families (revoke_family i now a)) = map fa_id (families a)"
    by (simp_all add: revoke_family_def map_upd_where)
  show "fa_id ` set (families (revoke_family i now a)) = fa_id ` set (families a)"
    using k(3) by (metis list.set_map)
  moreover have "to_family_id ` set (oauth_tokens (revoke_family i now a)) =
      to_family_id ` set (oauth_tokens a)" using k(2) by (metis list.set_map)
  moreover have "changes (live_refresh fam) (oauth_tokens (revoke_family i now a)) =
      changes (live_refresh fam) (oauth_tokens a)" for fam
    by (simp add: revoke_family_def changes_upd_where_eq live_refresh_def)
  ultimately show "grants_ok a \<Longrightarrow> grants_ok (revoke_family i now a)"
    using k by (simp add: grants_ok_def)
  show "dead fam a \<Longrightarrow> dead fam (revoke_family i now a)"
    by (simp add: dead_def revoke_family_def set_upd_where ball_Un)
  show "dead i (revoke_family i now a)"
    by (simp add: dead_def revoke_family_def set_upd_where ball_Un)
qed

lemma insert_token_InrD:
  "insert_token t a = Inr (u, a') \<Longrightarrow> a' = a\<lparr>oauth_tokens := oauth_tokens a @ [t]\<rparr> \<and>
     to_token_hash t \<notin> to_token_hash ` set (oauth_tokens a) \<and> to_family_id t \<in> fa_id ` set (families a)"
  by (auto simp: insert_token_def fk_def row_by_None_notin split: if_splits)

lemma issue_tokens_InrD:
  assumes "issue_tokens dp fam scopes seq now clk access refresh a = Inr (r, a')"
  shows "\<exists>ta tr. a' = a\<lparr>oauth_tokens := oauth_tokens a @ [ta, tr]\<rparr> \<and> to_type ta = AccessToken \<and>
    to_type tr = RefreshToken \<and> to_family_id ta = fam \<and> to_family_id tr = fam \<and>
    to_used_at tr = None \<and> to_sequence tr = seq \<and> to_token_hash tr = od_sha dp (tr_refresh r) \<and>
    distinct [to_token_hash ta, to_token_hash tr] \<and> fam \<in> fa_id ` set (families a) \<and>
    {to_token_hash ta, to_token_hash tr} \<inter> to_token_hash ` set (oauth_tokens a) = {}"
proof -
  from assms obtain a1 t1 t2 where
    i: "insert_token t1 a = Inr ((), a1)" "insert_token t2 a1 = Inr ((), a')"
    and t: "to_type t1 = AccessToken" "to_type t2 = RefreshToken" "to_family_id t1 = fam"
    "to_family_id t2 = fam" "to_used_at t2 = None" "to_sequence t2 = seq"
    "to_token_hash t2 = od_sha dp (tr_refresh r)"
    by (fastforce simp: issue_tokens_def Let_def bind_r_Inr_iff)
  show ?thesis
    using insert_token_InrD [OF i(1)] insert_token_InrD [OF i(2)] t
    by (intro exI [of _ t1] exI [of _ t2]) auto
qed

lemma issue_grants:
  assumes "issue_tokens dp fam scopes seq now clk access refresh a = Inr (r, a')"
    and "distinct (map to_token_hash (oauth_tokens a))" and "distinct (map fa_id (families a))"
    and "to_family_id ` set (oauth_tokens a) \<subseteq> fa_id ` set (families a)"
    and "\<forall>g. changes (live_refresh g) (oauth_tokens a) \<le> (if g = fam then 0 else 1)"
  shows "grants_ok a'" and "families a' = families a" and "oauth_codes a' = oauth_codes a"
proof -
  from issue_tokens_InrD [OF assms(1)] obtain ta tr where
    t: "a' = a\<lparr>oauth_tokens := oauth_tokens a @ [ta, tr]\<rparr>" "to_type ta = AccessToken"
    "to_type tr = RefreshToken" "to_family_id ta = fam" "to_family_id tr = fam"
    "distinct [to_token_hash ta, to_token_hash tr]" "fam \<in> fa_id ` set (families a)"
    "{to_token_hash ta, to_token_hash tr} \<inter> to_token_hash ` set (oauth_tokens a) = {}" by blast
  have "changes (live_refresh g) (oauth_tokens a') \<le> 1" for g
    using spec [OF assms(5), of g] t(2-5) by (auto simp: t(1) live_refresh_def split: if_splits)
  with t assms(2-4) show "grants_ok a'" "families a' = families a" "oauth_codes a' = oauth_codes a"
    by (auto simp: grants_ok_def)
qed

lemma image_upd_where:
  "(\<And>r. p r \<Longrightarrow> g (f r) = g r) \<Longrightarrow> g ` set (upd_where p f rs) = g ` set rs"
  using map_upd_where [of p g f rs] by (metis list.set_map)

text \<open>Consuming a live refresh token leaves its family without one.\<close>

lemma consume_live:
  assumes "\<forall>g. changes (live_refresh g) ts \<le> 1" and "t \<in> set ts" and "p t" and "live_refresh fam t"
  shows "changes (live_refresh g) (upd_where p (\<lambda>t. t\<lparr>to_used_at := Some now\<rparr>) ts) \<le>
    (if g = fam then 0 else 1)"
proof (cases "g = fam")
  case True
  have "\<not> live_refresh fam x" if x: "x \<in> set (upd_where p (\<lambda>t. t\<lparr>to_used_at := Some now\<rparr>) ts)" for x
  proof
    assume l: "live_refresh fam x"
    with x have "x \<in> set ts" "\<not> p x" by (auto simp: set_upd_where live_refresh_def)
    with changes_le_one_eq [OF spec [OF assms(1)], of x t fam] l assms(2-4) show False by blast
  qed
  with True show ?thesis by (simp add: changes_zero_iff)
next
  case False
  have "changes (live_refresh g) (upd_where p (\<lambda>t. t\<lparr>to_used_at := Some now\<rparr>) ts) \<le>
      changes (live_refresh g) ts"
    by (rule changes_upd_where_less) (simp add: live_refresh_def)
  also have "\<dots> \<le> 1" using assms(1) by blast
  finally show ?thesis using False by simp
qed

text \<open>A refresh commits nothing, a revocation, or the exchange of the one live token.\<close>

lemma refresh_tx_cases:
  assumes "refresh_tx dp now clk access refresh q m a = Inr ((out, m'), a')" and "grants_ok a"
  obtains "a' = a"
  | fam where "a' = revoke_family fam now a"
  | t scopes r where "t \<in> set (oauth_tokens a)" "refreshable (to_token_hash t) now t"
      "out = Issued (to_family_id t) r"
      "issue_tokens dp (to_family_id t) scopes (Suc (to_sequence t)) now clk access refresh
         (a\<lparr>oauth_tokens := upd_where (refreshable (to_token_hash t) now)
            (\<lambda>t. t\<lparr>to_used_at := Some now\<rparr>) (oauth_tokens a)\<rparr>) = Inr (r, a')"
proof (cases "token_get a (od_sha dp (fq_refresh_token q))")
  case None
  with assms show ?thesis by (auto simp: refresh_tx_def Let_def intro: that(1))
next
  case (Some p)
  then obtain t f where tok: "token_get a (od_sha dp (fq_refresh_token q)) = Some (t, f)"
    by (cases p) simp
  then have t: "t \<in> set (oauth_tokens a)" "od_sha dp (fq_refresh_token q) = to_token_hash t"
    "fa_id f = to_family_id t"
    by (auto simp: token_get_def bind_eq_Some_conv dest!: row_by_SomeD)
  let ?r = "refreshable (to_token_hash t) now"
  have one: "changes ?r (oauth_tokens a) = 1" if "?r t"
    using token_table.changes_by_key [of "oauth_tokens a" ?r "to_token_hash t"] that
      token_table.row_by_in [of "oauth_tokens a" t] t assms(2)
    by (simp add: refreshable_def grants_ok_def)
  have r: "to_type t = RefreshToken \<Longrightarrow> is_active_token (t, f) now \<Longrightarrow> to_used_at t = None \<Longrightarrow> ?r t"
    by (simp add: refreshable_def is_active_token_def)
  from assms(1) show ?thesis
    unfolding refresh_tx_def Let_def tok option.case prod.case
    unfolding t(2) consume_refresh_def prod.case
    using r one
    by (auto simp: bind_r_Inr_iff t(1,3) intro: that(1,2) that(3) [OF t(1)] split: if_splits option.splits)
qed

lemma refresh_grants:
  assumes "refresh_tx dp now clk access refresh q m a = Inr ((out, m'), a')" and "grants_ok a"
  shows "grants_ok a'" and "dead fam a \<Longrightarrow> dead fam a'"
    and "fa_id ` set (families a') = fa_id ` set (families a)" and "oauth_codes a' = oauth_codes a"
proof -
  have "grants_ok a' \<and> (dead fam a \<longrightarrow> dead fam a') \<and>
    fa_id ` set (families a') = fa_id ` set (families a) \<and> oauth_codes a' = oauth_codes a"
  proof (cases rule: refresh_tx_cases [OF assms])
    case 1
    with assms(2) show ?thesis by simp
  next
    case (2 g)
    with assms(2) show ?thesis
      using revoke_grants [where a = a and i = g and now = now] by (auto simp: revoke_family_def)
  next
    case (3 t scopes r)
    have "\<forall>g. changes (live_refresh g) (oauth_tokens (a\<lparr>oauth_tokens := upd_where
        (refreshable (to_token_hash t) now) (\<lambda>t. t\<lparr>to_used_at := Some now\<rparr>) (oauth_tokens a)\<rparr>)) \<le>
        (if g = to_family_id t then 0 else 1)"
      using consume_live [where p = "refreshable (to_token_hash t) now" and fam = "to_family_id t",
          OF _ 3(1,2)] 3(2) assms(2)
      by (simp add: grants_ok_def live_refresh_def refreshable_def)
    from issue_grants [OF 3(4) _ _ _ this] assms(2)
    have "grants_ok a'" "families a' = families a" "oauth_codes a' = oauth_codes a"
      by (simp_all add: grants_ok_def map_upd_where image_upd_where)
    then show ?thesis by (simp add: dead_def)
  qed
  then show "grants_ok a'" and "dead fam a \<Longrightarrow> dead fam a'"
    and "fa_id ` set (families a') = fa_id ` set (families a)" and "oauth_codes a' = oauth_codes a"
    by blast+
qed

lemma insert_token_family_InrD:
  "insert_token_family f a = Inr (u, a') \<Longrightarrow> a' = a\<lparr>families := families a @ [f]\<rparr> \<and>
     fa_id f \<notin> fa_id ` set (families a)"
  by (auto simp: insert_token_family_def row_by_None_notin split: if_splits)

text \<open>An exchange consumes its code and makes a family with the first two tokens.\<close>

definition consumed_codes :: "oauth_code_row \<Rightarrow> timestamp \<Rightarrow> oauth_code_row list \<Rightarrow>
  oauth_code_row list" where
  "consumed_codes c now = upd_where (usable_code (co_code_hash c) now)
     (\<lambda>c. c\<lparr>co_used_at := Some now\<rparr>)"

lemma exchange_tx_InrD:
  assumes "exchange_tx dp c scopes now clk fam access refresh a = Inr (r, a')"
  shows "changes (usable_code (co_code_hash c) now) (oauth_codes a) = 1 \<and>
    fam \<notin> fa_id ` set (families a) \<and>
    (\<exists>a3. issue_tokens dp fam scopes 0 now clk access refresh
      (a\<lparr>oauth_codes := consumed_codes c now (oauth_codes a),
         families := families a @ [new_family c scopes fam now clk]\<rparr>) = Inr (r, a3) \<and>
      a' = touch_client (co_client_id c) now a3)"
  using assms unfolding exchange_tx_def consume_authorization_code_def consumed_codes_def
  by (auto simp: bind_r_Inr_iff new_family_def dest!: insert_token_family_InrD split: if_splits)

lemma exchange_grants:
  assumes "exchange_tx dp c scopes now clk fam access refresh a = Inr (r, a')" and "grants_ok a"
  shows "grants_ok a'" and "dead g a \<Longrightarrow> g \<noteq> fam \<Longrightarrow> dead g a'"
    and "fa_id ` set (families a') = insert fam (fa_id ` set (families a))"
    and "oauth_codes a' = consumed_codes c now (oauth_codes a)"
    and "changes (usable_code (co_code_hash c) now) (oauth_codes a) = 1"
proof -
  let ?f = "new_family c scopes fam now clk"
  from exchange_tx_InrD [OF assms(1)] obtain a3 where
    e: "changes (usable_code (co_code_hash c) now) (oauth_codes a) = 1"
      "fam \<notin> fa_id ` set (families a)"
    and i: "issue_tokens dp fam scopes 0 now clk access refresh
      (a\<lparr>oauth_codes := consumed_codes c now (oauth_codes a), families := families a @ [?f]\<rparr>) =
      Inr (r, a3)"
    and a': "a' = touch_client (co_client_id c) now a3" by blast
  have f: "fa_id ?f = fam" by (simp add: new_family_def)
  have "changes (live_refresh fam) (oauth_tokens a) = 0"
    using assms(2) e(2) by (auto simp: changes_zero_iff live_refresh_def grants_ok_def)
  then have l: "\<forall>g. changes (live_refresh g) (oauth_tokens a) \<le> (if g = fam then 0 else 1)"
    using assms(2) by (simp add: grants_ok_def)
  have "to_family_id ` set (oauth_tokens a) \<subseteq> fa_id ` set (families a @ [?f])"
    using assms(2) by (auto simp: grants_ok_def)
  with issue_grants [OF i] l assms(2) e(2) f
  have k: "grants_ok a3" "families a3 = families a @ [?f]"
    "oauth_codes a3 = consumed_codes c now (oauth_codes a)"
    by (simp_all add: grants_ok_def)
  from k(1) show "grants_ok a'" by (rule grants_ok_cong [rotated 2]) (simp_all add: a' touch_client_def)
  from k f show "dead g a \<Longrightarrow> g \<noteq> fam \<Longrightarrow> dead g a'"
    and "fa_id ` set (families a') = insert fam (fa_id ` set (families a))"
    and "oauth_codes a' = consumed_codes c now (oauth_codes a)"
    by (simp_all add: a' touch_client_def dead_def)
  show "changes (usable_code (co_code_hash c) now) (oauth_codes a) = 1" by (rule e(1))
qed

section \<open>The system\<close>

text \<open>
  \<open>drawn\<close> holds the family identifiers and the hashes of the codes drawn so far: random ones do
  not repeat. The other steps are the operations of the server, its timer and the clean-up, and
  anything that changes users, sessions or other tables.
\<close>

record oauth_world =
  drawn :: "string set"
  memory :: oauth_memory
  tables :: auth_db

definition start_world :: "auth_db \<Rightarrow> oauth_world" where
  "start_world a = \<lparr>drawn = {}, memory = \<lparr>replies = [], activity_deadline = 0\<rparr>,
     tables = a\<lparr>oauth_codes := [], families := [], oauth_tokens := []\<rparr>\<rparr>"

inductive oauth_step :: "oauth_deps \<Rightarrow> oauth_world \<Rightarrow> oauth_world \<Rightarrow> bool" for dp where
  others: "families a = families (tables w) \<Longrightarrow> oauth_tokens a = oauth_tokens (tables w) \<Longrightarrow>
    oauth_codes a = oauth_codes (tables w) \<Longrightarrow> oauth_step dp w (w\<lparr>tables := a\<rparr>)"
| authorize: "authorize dp now clk secret user q (tables w) = Inr (code, a) \<Longrightarrow>
    od_sha dp code \<notin> drawn w \<Longrightarrow>
    oauth_step dp w (w\<lparr>drawn := insert (od_sha dp code) (drawn w), tables := a\<rparr>)"
| exchange: "fam \<notin> drawn w \<Longrightarrow>
    exchange_authorization_code dp now clk fam access refresh q (tables w) = (r, a) \<Longrightarrow>
    oauth_step dp w (w\<lparr>drawn := insert fam (drawn w), tables := a\<rparr>)"
| refresh: "refresh_token dp now clk access refresh q' (memory w) (tables w) = (r, m, a) \<Longrightarrow>
    oauth_step dp w (w\<lparr>memory := m, tables := a\<rparr>)"
| timer: "oauth_step dp w (w\<lparr>memory := expire_replies clk (memory w)\<rparr>)"
| revoke: "oauth_step dp w (w\<lparr>tables := revoke_family fam now (tables w)\<rparr>)"
| cleanup: "oauth_step dp w (w\<lparr>tables := cleanup_oauth now (tables w)\<rparr>)"
| purge: "oauth_step dp w (w\<lparr>tables := purge_remote now b (tables w)\<rparr>)"

text \<open>The invariant, with what makes a drawn family that is dead stay dead.\<close>

definition world_ok :: "oauth_world \<Rightarrow> bool" where
  "world_ok w \<longleftrightarrow> grants_ok (tables w) \<and> fa_id ` set (families (tables w)) \<subseteq> drawn w \<and>
     co_code_hash ` set (oauth_codes (tables w)) \<subseteq> drawn w \<and>
     distinct (map co_code_hash (oauth_codes (tables w)))"

definition spent_code :: "string \<Rightarrow> auth_db \<Rightarrow> bool" where
  "spent_code h a \<longleftrightarrow> (\<forall>c\<in>set (oauth_codes a). co_code_hash c = h \<longrightarrow> co_used_at c \<noteq> None)"

lemma cleanup_codes:
  "spent_code h a \<Longrightarrow> spent_code h (cleanup_oauth now a)"
  "distinct (map co_code_hash (oauth_codes a)) \<Longrightarrow>
   distinct (map co_code_hash (oauth_codes (cleanup_oauth now a)))"
  by (auto simp: spent_code_def cleanup_oauth_def cleanup_remote_def cleanup_expired_def
      cleanup_login_continuations_def Let_def code_table.distinct_del_where)

lemma cleanup_frame:
  "set (oauth_codes (cleanup_oauth now a)) \<subseteq> set (oauth_codes a)"
  "same_subject (cleanup_oauth now a) u n = same_subject a u n"
  by (auto simp: same_subject_def user_get_def cleanup_oauth_def cleanup_remote_def
      cleanup_expired_def cleanup_login_continuations_def Let_def)

lemma purge_codes:
  "spent_code h a \<Longrightarrow> spent_code h (purge_remote now b a)"
  "distinct (map co_code_hash (oauth_codes a)) \<Longrightarrow>
   distinct (map co_code_hash (oauth_codes (purge_remote now b a)))"
  by (auto simp: spent_code_def purge_remote_def cleanup_login_continuations_def Let_def
      code_table.distinct_del_where)

lemma consumed_codes_simps [simp]:
  "map co_code_hash (consumed_codes c now cs) = map co_code_hash cs"
  "co_code_hash ` set (consumed_codes c now cs) = co_code_hash ` set cs"
  by (simp_all add: consumed_codes_def map_upd_where image_upd_where)

lemma authorize_InrD:
  assumes "authorize dp now clk secret user q a = Inr (code, a')"
  shows "\<exists>c. oauth_codes a' = oauth_codes a @ [c] \<and> co_code_hash c = od_sha dp code \<and>
    co_code_hash c \<notin> co_code_hash ` set (oauth_codes a) \<and>
    families a' = families a \<and> oauth_tokens a' = oauth_tokens a"
  using assms by (auto simp: authorize_def Let_def bind_r_Inr_iff insert_authorization_code_def
      row_by_None_notin split: option.splits if_splits)

text \<open>An exchange that fails leaves the cleaned tables, one that succeeds those of its transaction.\<close>

lemma exchange_cases:
  assumes "exchange_authorization_code dp now clk fam access refresh q a = (r, a')"
  obtains e where "r = Inl e" "a' = cleanup_oauth now a"
  | x c scopes where "r = Inr x"
      "validate_code dp (authorization_code (cleanup_oauth now a) (od_sha dp (xq_code q))) q now = Inr c"
      "exchange_tx dp c scopes now clk fam access refresh (cleanup_oauth now a) = Inr (x, a')"
  using assms by (auto simp: exchange_authorization_code_def Let_def bind_r_Inr_iff
      split: sum.splits prod.splits)

lemma refresh_token_cases:
  assumes "refresh_token dp now clk access refresh q m a = (r, m', a')"
  obtains e where "r = Inl e" "a' = cleanup_oauth now a"
  | out m1 m2 where "refresh_tx dp now clk access refresh q m1 (cleanup_oauth now a) = Inr ((out, m2), a')"
  using assms by (auto simp: refresh_token_def Let_def
      split: sum.splits prod.splits refresh_outcome.splits)

text \<open>The clean-up that opens an exchange and a refresh.\<close>

lemma cleaned_ok:
  assumes "world_ok w"
  shows "grants_ok (cleanup_oauth now (tables w))"
    and "fa_id ` set (families (cleanup_oauth now (tables w))) \<subseteq> drawn w"
    and "co_code_hash ` set (oauth_codes (cleanup_oauth now (tables w))) \<subseteq> drawn w"
    and "distinct (map co_code_hash (oauth_codes (cleanup_oauth now (tables w))))"
  using assms cleanup_grants(1) subset_trans [OF cleanup_grants(3)]
    subset_trans [OF cleanup_grants(4)] cleanup_codes(2)
  by (simp_all add: world_ok_def)

lemma oauth_step_ok:
  assumes "oauth_step dp w w'" and "world_ok w"
  shows "world_ok w' \<and> drawn w \<subseteq> drawn w' \<and>
    (\<forall>fam\<in>drawn w. dead fam (tables w) \<longrightarrow> dead fam (tables w')) \<and>
    (\<forall>h\<in>drawn w. spent_code h (tables w) \<longrightarrow> spent_code h (tables w'))"
  using assms
proof cases
  case (others a)
  then show ?thesis using assms(2) grants_ok_cong [of a "tables w"]
    by (simp add: world_ok_def dead_def spent_code_def)
next
  case (authorize now clk secret user q code a)
  from authorize_InrD [OF authorize(2)] obtain c where c: "oauth_codes a = oauth_codes (tables w) @ [c]"
    "co_code_hash c = od_sha dp code" "co_code_hash c \<notin> co_code_hash ` set (oauth_codes (tables w))"
    "families a = families (tables w)" "oauth_tokens a = oauth_tokens (tables w)" by blast
  have "grants_ok a" using assms(2) c grants_ok_cong [of a "tables w"] by (simp add: world_ok_def)
  with authorize(1,3) assms(2) c show ?thesis by (auto simp: world_ok_def dead_def spent_code_def)
next
  case (exchange fam now clk access refresh q r a)
  note ok = cleaned_ok [OF assms(2), of now]
  from exchange(3) show ?thesis
  proof (cases rule: exchange_cases)
    case (1 e)
    with exchange(1) ok cleanup_grants(2) cleanup_codes(1) show ?thesis
      by (simp add: world_ok_def subset_insertI2 subset_insertI)
  next
    case (2 x c scopes)
    note g = exchange_grants [OF 2(3) ok(1)]
    have "spent_code h a" if "spent_code h (tables w)" for h
      using cleanup_codes(1) [OF that, of now] unfolding spent_code_def g(4) consumed_codes_def
      by (auto simp: set_upd_where usable_code_def)
    moreover have "dead h a" if "h \<in> drawn w" "dead h (tables w)" for h
      using g(2) [OF cleanup_grants(2) [OF that(2)]] that(1) exchange(2) by auto
    ultimately show ?thesis
      using exchange(1) g(1,3,4) ok by (simp add: world_ok_def subset_insertI2 subset_insertI)
  qed
next
  case (refresh now clk access refresh q r m a)
  note ok = cleaned_ok [OF assms(2), of now]
  from refresh(2) show ?thesis
  proof (cases rule: refresh_token_cases)
    case (1 e)
    with refresh(1) ok cleanup_grants(2) cleanup_codes(1) show ?thesis by (simp add: world_ok_def)
  next
    case (2 out m1 m2)
    note g = refresh_grants [OF 2 ok(1)]
    have "dead h a" if "dead h (tables w)" for h by (rule g(2) [OF cleanup_grants(2) [OF that]])
    moreover have "spent_code h a" if "spent_code h (tables w)" for h
      using cleanup_codes(1) [OF that, of now] by (simp add: spent_code_def g(4))
    ultimately show ?thesis using refresh(1) g(1,3,4) ok by (simp add: world_ok_def)
  qed
next
  case (timer clk)
  with assms(2) show ?thesis by (simp add: world_ok_def)
next
  case (revoke fam now)
  with assms(2) revoke_grants [where a = "tables w" and i = fam and now = now] show ?thesis
    by (auto simp: world_ok_def revoke_family_def spent_code_def)
next
  case (cleanup now)
  with cleaned_ok [OF assms(2), of now] cleanup_grants(2) cleanup_codes(1) show ?thesis
    by (simp add: world_ok_def)
next
  case (purge now b)
  then show ?thesis
    using assms(2) purge_grants(1,2) purge_codes subset_trans [OF purge_grants(3)]
      subset_trans [OF purge_grants(4)] by (simp add: world_ok_def)
qed

lemma start_world_ok: "world_ok (start_world a)"
  by (simp add: world_ok_def start_world_def grants_ok_def)

lemma oauth_steps_ok:
  assumes "(oauth_step dp)\<^sup>*\<^sup>* w w'" and "world_ok w"
  shows "world_ok w' \<and> drawn w \<subseteq> drawn w' \<and>
    (\<forall>fam\<in>drawn w. dead fam (tables w) \<longrightarrow> dead fam (tables w')) \<and>
    (\<forall>h\<in>drawn w. spent_code h (tables w) \<longrightarrow> spent_code h (tables w'))"
  using assms(1)
proof induction
  case (step v u)
  with oauth_step_ok [OF step(2)] show ?case by blast
qed (use assms(2) in simp)

section \<open>One live token\<close>

text \<open>
  C18. A grant has one live refresh token: in every state that the server, the clean-up and changes
  of the users lead to, two refresh tokens of one family of which neither was used are the same
  row, so whoever rotates a token is the only one who can.
\<close>

theorem one_live_refresh_token:
  assumes "(oauth_step dp)\<^sup>*\<^sup>* (start_world a) w"
    and "t \<in> set (oauth_tokens (tables w))" and "u \<in> set (oauth_tokens (tables w))"
    and "to_type t = RefreshToken" and "to_type u = RefreshToken"
    and "to_family_id t = to_family_id u" and "to_used_at t = None" and "to_used_at u = None"
  shows "t = u"
proof (rule changes_le_one_eq [OF _ assms(2,3)])
  show "changes (live_refresh (to_family_id u)) (oauth_tokens (tables w)) \<le> 1"
    using oauth_steps_ok [OF assms(1) start_world_ok] by (simp add: world_ok_def grants_ok_def)
qed (simp_all add: live_refresh_def assms)

section \<open>Reuse\<close>

lemma token_get_SomeD:
  "token_get a h = Some (t, f) \<Longrightarrow> t \<in> set (oauth_tokens a) \<and> to_token_hash t = h \<and>
     f \<in> set (families a) \<and> fa_id f = to_family_id t"
  by (auto simp: token_get_def bind_eq_Some_conv dest!: row_by_SomeD)

text \<open>The family of the token with a hash.\<close>

definition family_of :: "auth_db \<Rightarrow> string \<Rightarrow> string option" where
  "family_of a h = map_option (\<lambda>p. fa_id (snd p)) (token_get a h)"

lemma dead_not_active:
  "dead fam a \<Longrightarrow> token_get a h = Some (t, f) \<Longrightarrow> to_family_id t = fam \<Longrightarrow> \<not> is_active_token (t, f) now"
  by (auto dest!: token_get_SomeD simp: dead_def is_active_token_def)

lemma dead_refresh_refused:
  assumes "dead fam a" and "token_get a (od_sha dp (fq_refresh_token q)) = Some (t, f)"
    and "to_family_id t = fam"
  shows "refresh_tx dp now clk access refresh q m a = Inr ((InvalidGrant, m), a)"
  using assms(2) dead_not_active [OF assms] by (simp add: refresh_tx_def Let_def)

text \<open>
  C22. Reuse revokes the grant: when a refresh token that was used already is presented after the
  grace period, the answer is an error, and in every later state no token of its family, whether
  issued before or since, is accepted any more, neither for access nor for a refresh.
\<close>

theorem reuse_revokes_grant:
  assumes "(oauth_step dp)\<^sup>*\<^sup>* (start_world a) w"
    and "token_get (cleanup_oauth now (tables w)) (od_sha dp (fq_refresh_token q)) = Some (t, f)"
    and "to_type t = RefreshToken" and "fa_client_id f = fq_client_id q" and "fa_resource f = fq_resource q"
    and "to_used_at t = Some used" and "\<not> within_grace used now"
    and "refresh_token dp now clk access refresh q (memory w) (tables w) = (r, m, b)"
    and "is_active_token (t, f) now"
    and "(oauth_step dp)\<^sup>*\<^sup>* (w\<lparr>memory := m, tables := b\<rparr>) v"
  shows "r = Inl (AppError ''INVALID_GRANT'' 400) \<and>
    (family_of (tables v) (od_sha dp x) = Some (fa_id f) \<longrightarrow>
      isl (verify_access_token dp later x (tables v))) \<and>
    (family_of (cleanup_oauth later (tables v)) (od_sha dp (fq_refresh_token p)) = Some (fa_id f) \<longrightarrow>
      isl (fst (refresh_token dp later clk' access' refresh' p (memory v) (tables v))))"
proof -
  let ?a = "cleanup_oauth now (tables w)"
  note w = oauth_steps_ok [OF assms(1) start_world_ok]
  have "(\<exists>m'. refresh_tx dp now clk access refresh q (expire_replies clk (memory w)) ?a =
      Inr ((InvalidGrant, m'), revoke_family (fa_id f) now ?a))"
    using assms(2-7,9) by (simp add: refresh_tx_def Let_def)
  with assms(8) have r: "r = Inl (AppError ''INVALID_GRANT'' 400)" "b = revoke_family (fa_id f) now ?a"
    by (auto simp: refresh_token_def Let_def)
  have "fa_id f \<in> drawn w"
    using token_get_SomeD [OF assms(2)] cleaned_ok(2) [of w now] w by blast
  moreover have "world_ok (w\<lparr>memory := m, tables := b\<rparr>)"
    using oauth_step_ok [OF oauth_step.refresh [OF assms(8)]] w by blast
  ultimately have dead: "dead (fa_id f) (tables v)"
    using oauth_steps_ok [OF assms(10)] revoke_grants(3) [of "fa_id f" now ?a] by (simp add: r(2))
  have "isl (verify_access_token dp later x (tables v))"
    if "family_of (tables v) (od_sha dp x) = Some (fa_id f)"
  proof -
    from that obtain t' g where g: "token_get (tables v) (od_sha dp x) = Some (t', g)"
      "fa_id g = fa_id f" by (auto simp: family_of_def)
    with dead_not_active [OF dead g(1)] token_get_SomeD [OF g(1)] show ?thesis
      by (simp add: verify_access_token_def Let_def)
  qed
  moreover have "isl (fst (refresh_token dp later clk' access' refresh' p (memory v) (tables v)))"
    if "family_of (cleanup_oauth later (tables v)) (od_sha dp (fq_refresh_token p)) = Some (fa_id f)"
  proof -
    from that obtain t' g where
      g: "token_get (cleanup_oauth later (tables v)) (od_sha dp (fq_refresh_token p)) = Some (t', g)"
      "fa_id g = fa_id f" by (auto simp: family_of_def)
    from dead_refresh_refused [OF cleanup_grants(2) [OF dead] g(1)] token_get_SomeD [OF g(1)] g(2)
    show ?thesis by (simp add: refresh_token_def Let_def)
  qed
  ultimately show ?thesis using r(1) by blast
qed

section \<open>Codes\<close>

lemma validate_code_InrD:
  "validate_code dp row q now = Inr c \<Longrightarrow> row = Some c \<and> co_used_at c = None \<and> now < co_expires_at c \<and>
     co_client_id c = xq_client_id q \<and>
     valid_redirect_uri dp (xq_redirect_uri q) = Inr (co_redirect_uri c) \<and>
     co_resource c = xq_resource q \<and> co_code_challenge c = od_challenge dp (xq_code_verifier q)"
  by (auto simp: validate_code_def Let_def bind_r_Inr_iff split: option.splits if_splits)

lemma spent_code_refused:
  assumes "spent_code (od_sha dp (xq_code q)) a"
  shows "isl (fst (exchange_authorization_code dp now clk fam access refresh q a))"
proof -
  let ?row = "authorization_code (cleanup_oauth now a) (od_sha dp (xq_code q))"
  have "validate_code dp ?row q now = Inl (AppError ''INVALID_GRANT'' 400)"
  proof (cases ?row)
    case (Some c)
    with row_by_SomeD [of co_code_hash "od_sha dp (xq_code q)" _ c] cleanup_codes(1) [OF assms, of now]
    have "co_used_at c \<noteq> None" by (auto simp: authorization_code_def spent_code_def)
    with Some show ?thesis by (simp add: validate_code_def Let_def)
  qed (simp add: validate_code_def Let_def)
  then show ?thesis by (simp add: exchange_authorization_code_def Let_def)
qed

lemma consumed_code_spent:
  assumes "distinct (map co_code_hash cs)" and "c \<in> set cs" and "co_used_at c = None"
    and "now < co_expires_at c" and "x \<in> set (consumed_codes c now cs)"
    and "co_code_hash x = co_code_hash c"
  shows "co_used_at x \<noteq> None"
proof -
  from assms(5) obtain y where y: "y \<in> set cs"
    "x = (if usable_code (co_code_hash c) now y then y\<lparr>co_used_at := Some now\<rparr> else y)"
    by (auto simp: consumed_codes_def set_upd_where)
  with assms(6) have "co_code_hash y = co_code_hash c" by (auto split: if_splits)
  with assms(1,2) y(1) have "y = c" by (metis code_table.row_by_in option.inject)
  with y(2) assms(3,4) show ?thesis by (simp add: usable_code_def)
qed

text \<open>
  C28. A code is exchanged once, and only by whom it was made for: an exchange that succeeds names
  the client, redirect URI and resource of an unused, unexpired code and a verifier whose challenge
  the code carries, for a user whose security version is still the one that approved it; and the
  same code is refused in every later state, whoever presents it.
\<close>

theorem code_exchanged_once:
  assumes "(oauth_step dp)\<^sup>*\<^sup>* (start_world a) w" and "fam \<notin> drawn w"
    and "exchange_authorization_code dp now clk fam access refresh q (tables w) = (Inr r, b)"
    and "(oauth_step dp)\<^sup>*\<^sup>* (w\<lparr>drawn := insert fam (drawn w), tables := b\<rparr>) v"
    and "xq_code p = xq_code q"
  shows "(\<exists>c. c \<in> set (oauth_codes (tables w)) \<and> co_code_hash c = od_sha dp (xq_code q) \<and>
      co_used_at c = None \<and> now < co_expires_at c \<and> co_client_id c = xq_client_id q \<and>
      valid_redirect_uri dp (xq_redirect_uri q) = Inr (co_redirect_uri c) \<and>
      co_resource c = xq_resource q \<and> co_code_challenge c = od_challenge dp (xq_code_verifier q) \<and>
      same_subject (tables w) (co_user_id c) (co_user_security_version c)) \<and>
    isl (fst (exchange_authorization_code dp later clk' fam' access' refresh' p (tables v)))"
  using assms(3)
proof (cases rule: exchange_cases)
  case (2 x c scopes)
  note w = oauth_steps_ok [OF assms(1) start_world_ok]
  note ok = cleaned_ok [OF conjunct1 [OF w], of now]
  note v = validate_code_InrD [OF 2(2)]
  have c: "c \<in> set (oauth_codes (cleanup_oauth now (tables w)))" "co_code_hash c = od_sha dp (xq_code q)"
    using v row_by_SomeD [of co_code_hash "od_sha dp (xq_code q)" _ c]
    by (auto simp: authorization_code_def)
  note g = exchange_grants(4) [OF 2(3) ok(1)]
  have "spent_code (od_sha dp (xq_code q)) b"
    using consumed_code_spent [OF ok(4) c(1)] v c(2) by (auto simp: spent_code_def g)
  moreover have "world_ok (w\<lparr>drawn := insert fam (drawn w), tables := b\<rparr>)"
    using oauth_step_ok [OF oauth_step.exchange [OF assms(2,3)]] w by blast
  moreover have "od_sha dp (xq_code q) \<in> drawn w" using c ok(3) by force
  ultimately have "spent_code (od_sha dp (xq_code p)) (tables v)"
    using oauth_steps_ok [OF assms(4)] assms(5) by simp
  moreover have "same_subject (tables w) (co_user_id c) (co_user_security_version c)"
    using 2(3) by (simp add: exchange_tx_def cleanup_frame(2) split: if_splits)
  ultimately show ?thesis
    using spent_code_refused v c cleanup_frame(1) [of now "tables w"] by blast
qed simp

section \<open>A grant, step by step\<close>

definition a_user :: user_row where
  "a_user = \<lparr>u_id = ''u'', u_access_subject = None, u_access_subject_linked_at = None,
     u_access_subject_generation = 0, u_email = None, u_display_name = ''U'', u_role = User,
     u_status = Active, u_security_version = 1, u_created_by = ''o'', u_created_at = 0,
     u_updated_at = 0, u_last_login_at = None\<rparr>"

definition plain_url :: "string \<Rightarrow> url option" where
  "plain_url v = Some \<lparr>url_protocol = ''https:'', url_hostname = ''c'', url_username = [],
     url_password = [], url_hash = [], url_href = v\<rparr>"

definition plain_oauth :: oauth_deps where
  "plain_oauth = \<lparr>od_url = plain_url, od_sha = id, od_challenge = id, od_resource = ''res''\<rparr>"

definition oauth0 :: auth_db where
  "oauth0 = empty_auth\<lparr>shared := empty_db\<lparr>users := [a_user]\<rparr>,
     oauth_clients := [\<lparr>oc_client_id = ''c'', oc_client_name = ''C'',
       oc_redirect_uris = Some (JArr [JStr ''https://c/'']), oc_created_at = 0,
       oc_last_used_at = None\<rparr>]\<rparr>"

definition the_approval :: authorization_request where
  "the_approval = \<lparr>aq_client_id = ''c'', aq_redirect_uri = ''https://c/'', aq_state = None,
     aq_scopes = [''mcp''], aq_resource = ''res'', aq_code_challenge = ''v''\<rparr>"

definition the_exchange :: exchange_request where
  "the_exchange = \<lparr>xq_code = ''mcp_code_s'', xq_client_id = ''c'', xq_redirect_uri = ''https://c/'',
     xq_code_verifier = ''v'', xq_resource = ''res''\<rparr>"

definition first_refresh :: refresh_request where
  "first_refresh = \<lparr>fq_refresh_token = ''mcp_rt_r0'', fq_client_id = ''c'', fq_resource = ''res''\<rparr>"

definition oauth1 :: auth_db where
  "oauth1 = (case authorize plain_oauth 1000 1000 ''s'' ''u'' the_approval (tables (start_world oauth0)) of
     Inl _ \<Rightarrow> oauth0 | Inr (_, a) \<Rightarrow> a)"

definition oauth2 :: auth_db where
  "oauth2 = snd (exchange_authorization_code plain_oauth 2000 2000 ''F'' ''a0'' ''r0'' the_exchange oauth1)"

definition world1 :: oauth_world where
  "world1 = (start_world oauth0)\<lparr>drawn := {''mcp_code_s''}, tables := oauth1\<rparr>"

definition world2 :: oauth_world where
  "world2 = world1\<lparr>drawn := {''F'', ''mcp_code_s''}, tables := oauth2\<rparr>"

definition world3 :: oauth_world where
  "world3 = (case refresh_token plain_oauth 3000 3000 ''a1'' ''r1'' first_refresh (memory world2)
     (tables world2) of (_, m, a) \<Rightarrow> world2\<lparr>memory := m, tables := a\<rparr>)"

lemma reach_world1: "(oauth_step plain_oauth)\<^sup>*\<^sup>* (start_world oauth0) world1"
proof -
  have "authorize plain_oauth 1000 1000 ''s'' ''u'' the_approval (tables (start_world oauth0)) =
      Inr (''mcp_code_s'', oauth1)" by code_simp
  from oauth_step.authorize [OF this] show ?thesis
    by (intro r_into_rtranclp) (simp add: world1_def start_world_def plain_oauth_def)
qed

lemma exchange_world1:
  "exchange_authorization_code plain_oauth 2000 2000 ''F'' ''a0'' ''r0'' the_exchange (tables world1) =
   (Inr \<lparr>tr_access = ''mcp_at_a0'', tr_expires_in = 600, tr_refresh = ''mcp_rt_r0'', tr_scope = ''mcp''\<rparr>,
    oauth2)"
  by code_simp

lemma reach_world2: "(oauth_step plain_oauth)\<^sup>*\<^sup>* (start_world oauth0) world2"
proof -
  have "''F'' \<notin> drawn world1" by code_simp
  from oauth_step.exchange [OF this exchange_world1] show ?thesis
    by (intro rtranclp.rtrancl_into_rtrancl [OF reach_world1]) (simp add: world2_def world1_def)
qed

lemma reach_world3: "(oauth_step plain_oauth)\<^sup>*\<^sup>* (start_world oauth0) world3"
proof -
  obtain r m a where "refresh_token plain_oauth 3000 3000 ''a1'' ''r1'' first_refresh (memory world2)
      (tables world2) = (r, m, a)" by (metis prod_cases3)
  from oauth_step.refresh [OF this] this show ?thesis
    by (intro rtranclp.rtrancl_into_rtrancl [OF reach_world2]) (simp add: world3_def)
qed

theorem one_live_refresh_token_witness:
  "oauth_tokens (tables world3) ! 3 = last (oauth_tokens (tables world3))"
proof (rule one_live_refresh_token [OF reach_world3])
  have v: "length (oauth_tokens (tables world3)) = 4"
    "to_type (oauth_tokens (tables world3) ! 3) = RefreshToken"
    "to_used_at (oauth_tokens (tables world3) ! 3) = None"
    "to_type (last (oauth_tokens (tables world3))) = RefreshToken"
    "to_used_at (last (oauth_tokens (tables world3))) = None"
    "to_family_id (oauth_tokens (tables world3) ! 3) = to_family_id (last (oauth_tokens (tables world3)))"
    by code_simp+
  then show "oauth_tokens (tables world3) ! 3 \<in> set (oauth_tokens (tables world3))"
    "last (oauth_tokens (tables world3)) \<in> set (oauth_tokens (tables world3))"
    "to_type (oauth_tokens (tables world3) ! 3) = RefreshToken"
    "to_used_at (oauth_tokens (tables world3) ! 3) = None"
    "to_type (last (oauth_tokens (tables world3))) = RefreshToken"
    "to_used_at (last (oauth_tokens (tables world3))) = None"
    "to_family_id (oauth_tokens (tables world3) ! 3) = to_family_id (last (oauth_tokens (tables world3)))"
    by (auto intro: last_in_set)
qed

theorem reuse_revokes_grant_witness:
  "fst (refresh_token plain_oauth 100000 100000 ''a2'' ''r2'' first_refresh (memory world3) (tables world3)) =
     Inl (AppError ''INVALID_GRANT'' 400)"
proof -
  let ?t = "oauth_tokens (tables world3) ! 1"
  have v: "token_get (cleanup_oauth 100000 (tables world3)) (od_sha plain_oauth (fq_refresh_token first_refresh)) =
      Some (?t, hd (families (tables world3)))"
    "to_type ?t = RefreshToken" "fa_client_id (hd (families (tables world3))) = fq_client_id first_refresh"
    "fa_resource (hd (families (tables world3))) = fq_resource first_refresh"
    "to_used_at ?t = Some 3000" "\<not> within_grace 3000 100000"
    "is_active_token (?t, hd (families (tables world3))) 100000" by code_simp+
  obtain r m a where r: "refresh_token plain_oauth 100000 100000 ''a2'' ''r2'' first_refresh
      (memory world3) (tables world3) = (r, m, a)" by (metis prod_cases3)
  from reuse_revokes_grant [OF reach_world3 v(1-6) r v(7) rtranclp.rtrancl_refl] r show ?thesis by simp
qed

theorem code_exchanged_once_witness:
  "isl (fst (exchange_authorization_code plain_oauth 2001 2001 ''G'' ''a9'' ''r9'' the_exchange oauth2))"
proof -
  have "''F'' \<notin> drawn world1" by code_simp
  from code_exchanged_once [OF reach_world1 this exchange_world1 rtranclp.rtrancl_refl refl]
  show ?thesis by simp
qed

end
