(* ===== verification/Accounts.thy ===== *)
theory Accounts
  imports Auth_Tables Paging White_Space
begin

text \<open>
  The repositories of users, service accounts, API keys and the principals of the web interface
  (packages/database/src/repositories: users.ts, service-accounts.ts, api-keys.ts and
  web-principals.ts). The searched texts are ASCII, for which JavaScript's \<open>toLowerCase\<close> and
  SQLite's \<open>lower\<close> agree.
\<close>

section \<open>Searching\<close>

definition contains :: "string \<Rightarrow> string \<Rightarrow> bool" where
  "contains field q = instr (lower field) q"

definition search :: "string option \<Rightarrow> (string \<Rightarrow> bool) \<Rightarrow> bool" where
  "search query p = (case query of None \<Rightarrow> True | Some t \<Rightarrow> (let q = lower (trim t) in q = [] \<or> p q))"

text \<open>A page of the matching rows below the cursor, and the number of matching rows.\<close>

definition searched_page ::
  "('r \<Rightarrow> 'k::linorder) \<Rightarrow> ('r \<Rightarrow> bool) \<Rightarrow> 'r list \<Rightarrow> 'k option \<Rightarrow> nat \<Rightarrow> ('r, 'k) page \<times> nat" where
  "searched_page key p rows c limit =
     (cut_page key limit (take (limit + 1) (order_desc key
        (filter (\<lambda>r. p r \<and> before_cursor key c r) rows))), changes p rows)"

section \<open>Users\<close>

definition user_key :: "user_row \<Rightarrow> timestamp \<times> string" where
  "user_key u = (u_created_at u, u_id u)"

definition list_users :: "db \<Rightarrow> nat \<Rightarrow> user_row list" where
  "list_users d limit = take limit (order_desc u_created_at (users d))"

definition user_matches :: "string option \<Rightarrow> user_row \<Rightarrow> bool" where
  "user_matches query u = search query (\<lambda>q. contains (u_id u) q \<or> contains (coalesce (u_email u) []) q \<or>
     contains (u_display_name u) q \<or> contains (coalesce (u_access_subject u) []) q)"

definition users_page :: "string option \<Rightarrow> db \<Rightarrow> (timestamp \<times> string) option \<Rightarrow> nat \<Rightarrow>
  (user_row, timestamp \<times> string) page \<times> nat" where
  "users_page query d = searched_page user_key (user_matches query) (users d)"

definition get_user :: "db \<Rightarrow> string \<Rightarrow> user_row option" where
  "get_user d i = row_by u_id i (users d)"

definition active_user_exists :: "db \<Rightarrow> string \<Rightarrow> bool" where
  "active_user_exists d i \<longleftrightarrow> exists_row (\<lambda>u. u_id u = i \<and> u_status u = Active) (users d)"

definition active_owner :: "user_row \<Rightarrow> bool" where
  "active_owner u \<longleftrightarrow> u_role u = Owner \<and> u_status u = Active"

definition count_active_owners :: "db \<Rightarrow> nat" where
  "count_active_owners d = changes active_owner (users d)"

definition display_name_check :: "string \<Rightarrow> bool" where
  "display_name_check s \<longleftrightarrow> 1 \<le> length s \<and> length s \<le> 200"

definition insert_invitation ::
  "string \<Rightarrow> string option \<Rightarrow> string \<Rightarrow> role \<Rightarrow> string \<Rightarrow> timestamp \<Rightarrow> unit tx" where
  "insert_invitation i email name role by ts d =
     (if get_user d i \<noteq> None \<or> \<not> display_name_check name then Inl ConstraintError
      else Inr ((), d\<lparr>users := users d @
        [\<lparr>u_id = i, u_access_subject = None, u_access_subject_linked_at = None,
          u_access_subject_generation = 0, u_email = email, u_display_name = name, u_role = role,
          u_status = Active, u_security_version = 1, u_created_by = by, u_created_at = ts,
          u_updated_at = ts, u_last_login_at = None\<rparr>]\<rparr>))"

definition update_users :: "(user_row \<Rightarrow> bool) \<Rightarrow> (user_row \<Rightarrow> user_row) \<Rightarrow> db \<Rightarrow> nat \<times> db" where
  "update_users p f d = (changes p (users d), d\<lparr>users := upd_where p f (users d)\<rparr>)"

definition touch_login :: "string \<Rightarrow> timestamp \<Rightarrow> db \<Rightarrow> nat \<times> db" where
  "touch_login i ts = update_users (\<lambda>u. u_id u = i \<and> u_status u = Active)
     (\<lambda>u. u\<lparr>u_last_login_at := Some ts, u_updated_at := ts\<rparr>)"

definition increment_security_version :: "string \<Rightarrow> timestamp \<Rightarrow> db \<Rightarrow> nat \<times> db" where
  "increment_security_version i ts = update_users (\<lambda>u. u_id u = i)
     (\<lambda>u. u\<lparr>u_security_version := u_security_version u + 1, u_updated_at := ts\<rparr>)"

definition set_user_status :: "string \<Rightarrow> account_status \<Rightarrow> timestamp \<Rightarrow> db \<Rightarrow> nat \<times> db" where
  "set_user_status i status ts = update_users (\<lambda>u. u_id u = i)
     (\<lambda>u. u\<lparr>u_status := status, u_security_version := u_security_version u + 1, u_updated_at := ts\<rparr>)"

text \<open>An absent e-mail address keeps the old one; \<open>Some None\<close> removes it.\<close>

record user_changes =
  uc_email :: "string option option"
  uc_display_name :: "string option"
  uc_role :: "role option"

definition apply_user_changes :: "user_changes \<Rightarrow> timestamp \<Rightarrow> user_row \<Rightarrow> user_row" where
  "apply_user_changes c ts u =
     u\<lparr>u_email := coalesce (uc_email c) (u_email u),
       u_display_name := coalesce (uc_display_name c) (u_display_name u),
       u_role := coalesce (uc_role c) (u_role u),
       u_security_version := u_security_version u + 1, u_updated_at := ts\<rparr>"

definition update_user :: "string \<Rightarrow> user_changes \<Rightarrow> timestamp \<Rightarrow> nat tx" where
  "update_user i c ts d =
     (if exists_row (\<lambda>u. u_id u = i \<and> \<not> display_name_check (coalesce (uc_display_name c) (u_display_name u)))
          (users d)
      then Inl ConstraintError
      else Inr (update_users (\<lambda>u. u_id u = i) (apply_user_changes c ts) d))"

section \<open>Service accounts\<close>

definition account_key :: "account_row \<Rightarrow> timestamp \<times> string" where
  "account_key s = (a_created_at s, a_id s)"

fun client_type_name :: "client_type \<Rightarrow> string" where
  "client_type_name Codex = ''codex''"
| "client_type_name ClaudeCode = ''claude-code''"
| "client_type_name Mcp = ''mcp''"
| "client_type_name Ci = ''ci''"
| "client_type_name Generic = ''generic''"

definition list_accounts :: "db \<Rightarrow> nat \<Rightarrow> account_row list" where
  "list_accounts d limit =
     take limit (order_desc a_created_at (filter (\<lambda>s. a_purpose s = UserPurpose) (accounts d)))"

definition account_matches :: "string option \<Rightarrow> account_row \<Rightarrow> bool" where
  "account_matches query s \<longleftrightarrow> a_purpose s = UserPurpose \<and> search query (\<lambda>q. contains (a_id s) q \<or>
     contains (a_name s) q \<or> contains (a_owner_user_id s) q \<or>
     contains (client_type_name (a_client_type s)) q)"

definition accounts_page :: "string option \<Rightarrow> db \<Rightarrow> (timestamp \<times> string) option \<Rightarrow> nat \<Rightarrow>
  (account_row, timestamp \<times> string) page \<times> nat" where
  "accounts_page query d = searched_page account_key (account_matches query) (accounts d)"

definition get_account :: "db \<Rightarrow> string \<Rightarrow> account_row option" where
  "get_account d i = find (\<lambda>s. a_id s = i \<and> a_purpose s = UserPurpose) (accounts d)"

definition account_name_exists :: "db \<Rightarrow> string \<Rightarrow> string \<Rightarrow> bool" where
  "account_name_exists d owner name \<longleftrightarrow>
     exists_row (\<lambda>s. a_owner_user_id s = owner \<and> a_name s = name) (accounts d)"

definition active_account_exists :: "db \<Rightarrow> string \<Rightarrow> bool" where
  "active_account_exists d i \<longleftrightarrow>
     exists_row (\<lambda>s. a_id s = i \<and> a_status s = Active \<and> a_purpose s = UserPurpose) (accounts d)"

definition active_for_owner :: "string \<Rightarrow> account_row \<Rightarrow> bool" where
  "active_for_owner owner s \<longleftrightarrow>
     a_owner_user_id s = owner \<and> a_status s = Active \<and> a_purpose s = UserPurpose"

definition count_active_for_owner :: "db \<Rightarrow> string \<Rightarrow> nat" where
  "count_active_for_owner d owner = changes (active_for_owner owner) (accounts d)"

text \<open>The constraints on a new row: primary key, owner, and one name per owner.\<close>

definition insert_account :: "string \<Rightarrow> string \<Rightarrow> string \<Rightarrow> client_type \<Rightarrow> timestamp \<Rightarrow> unit tx" where
  "insert_account i owner name client ts d =
     (if exists_row (\<lambda>s. a_id s = i) (accounts d) \<or> get_user d owner = None \<or>
         account_name_exists d owner name
      then Inl ConstraintError
      else Inr ((), d\<lparr>accounts := accounts d @
        [\<lparr>a_id = i, a_owner_user_id = owner, a_name = name, a_client_type = client,
          a_status = Active, a_security_version = 1, a_created_at = ts, a_updated_at = ts,
          a_purpose = UserPurpose\<rparr>]\<rparr>))"

definition update_accounts ::
  "(account_row \<Rightarrow> bool) \<Rightarrow> (account_row \<Rightarrow> account_row) \<Rightarrow> db \<Rightarrow> nat \<times> db" where
  "update_accounts p f d = (changes p (accounts d), d\<lparr>accounts := upd_where p f (accounts d)\<rparr>)"

definition set_account_status :: "string \<Rightarrow> account_status \<Rightarrow> timestamp \<Rightarrow> db \<Rightarrow> nat \<times> db" where
  "set_account_status i status ts = update_accounts (\<lambda>s. a_id s = i \<and> a_purpose s = UserPurpose)
     (\<lambda>s. s\<lparr>a_status := status, a_security_version := a_security_version s + 1, a_updated_at := ts\<rparr>)"

definition update_account ::
  "string \<Rightarrow> string option \<Rightarrow> client_type option \<Rightarrow> timestamp \<Rightarrow> nat tx" where
  "update_account i name client ts d =
     (if exists_row (\<lambda>s. a_id s = i \<and> a_purpose s = UserPurpose \<and>
           exists_row (\<lambda>r. a_id r \<noteq> i \<and> a_owner_user_id r = a_owner_user_id s \<and>
             a_name r = coalesce name (a_name s)) (accounts d)) (accounts d)
      then Inl ConstraintError
      else Inr (update_accounts (\<lambda>s. a_id s = i \<and> a_purpose s = UserPurpose)
        (\<lambda>s. s\<lparr>a_name := coalesce name (a_name s), a_client_type := coalesce client (a_client_type s),
           a_security_version := a_security_version s + 1, a_updated_at := ts\<rparr>) d))"

section \<open>API keys\<close>

definition api_key_key :: "key_row \<Rightarrow> timestamp \<times> string" where
  "api_key_key k = (k_created_at k, k_id k)"

definition user_key_row :: "db \<Rightarrow> key_row \<Rightarrow> bool" where
  "user_key_row d k \<longleftrightarrow> user_account d (k_service_account_id k)"

definition list_keys :: "db \<Rightarrow> nat \<Rightarrow> key_row list" where
  "list_keys d limit = take limit (order_desc k_created_at (filter (user_key_row d) (api_keys d)))"

definition key_matches :: "string option \<Rightarrow> db \<Rightarrow> key_row \<Rightarrow> bool" where
  "key_matches query d k \<longleftrightarrow> user_key_row d k \<and> search query (\<lambda>q. contains (k_id k) q \<or>
     contains (k_name k) q \<or> contains (k_prefix k) q \<or> contains (k_service_account_id k) q)"

definition keys_page :: "string option \<Rightarrow> db \<Rightarrow> (timestamp \<times> string) option \<Rightarrow> nat \<Rightarrow>
  (key_row, timestamp \<times> string) page \<times> nat" where
  "keys_page query d = searched_page api_key_key (key_matches query d) (api_keys d)"

definition get_key :: "db \<Rightarrow> string \<Rightarrow> key_row option" where
  "get_key d i = find (\<lambda>k. k_id k = i \<and> user_key_row d k) (api_keys d)"

text \<open>\<open>FROM api_keys k JOIN service_accounts s JOIN users u\<close>.\<close>

type_synonym key_owner = "key_row \<times> account_row \<times> user_row"

definition join_owner :: "db \<Rightarrow> key_row \<Rightarrow> key_owner option" where
  "join_owner d k =
     Option.bind (row_by a_id (k_service_account_id k) (accounts d)) (\<lambda>s.
       map_option (\<lambda>u. (k, s, u)) (row_by u_id (a_owner_user_id s) (users d)))"

definition unexpired :: "timestamp option \<Rightarrow> timestamp \<Rightarrow> bool" where
  "unexpired e now \<longleftrightarrow> (case e of None \<Rightarrow> True | Some t \<Rightarrow> t > now)"

definition live_identity :: "timestamp \<Rightarrow> key_owner \<Rightarrow> bool" where
  "live_identity now = (\<lambda>(k, s, u). k_revoked_at k = None \<and> unexpired (k_expires_at k) now \<and>
     a_status s = Active \<and> a_purpose s = UserPurpose \<and> u_status u = Active)"

definition may_render :: "key_owner \<Rightarrow> bool" where
  "may_render = (\<lambda>(k, s, u). case Option.bind (k_scopes k) string_array of
     None \<Rightarrow> False | Some scopes \<Rightarrow> ''render:create'' \<in> set scopes)"

definition list_render_identities :: "db \<Rightarrow> timestamp \<Rightarrow> key_owner list" where
  "list_render_identities d now =
     filter may_render (sort_key (\<lambda>(k, s, u). (a_name s, k_name k, k_id k))
       (filter (\<lambda>w. k_kind (fst w) = RenderKey \<and> live_identity now w)
         (List.map_filter (join_owner d) (api_keys d))))"

definition key_owner :: "db \<Rightarrow> string \<Rightarrow> key_owner option" where
  "key_owner d i = Option.bind (row_by k_id i (api_keys d)) (join_owner d)"

definition render_identity :: "db \<Rightarrow> string \<Rightarrow> timestamp \<Rightarrow> key_owner option" where
  "render_identity d i now = (case key_owner d i of None \<Rightarrow> None
     | Some w \<Rightarrow> if k_kind (fst w) = RenderKey \<and> live_identity now w \<and> may_render w then Some w else None)"

definition active_identity :: "db \<Rightarrow> string \<Rightarrow> timestamp \<Rightarrow> key_owner option" where
  "active_identity d i now = (case key_owner d i of None \<Rightarrow> None
     | Some w \<Rightarrow> if live_identity now w then Some w else None)"

definition insert_key :: "key_row \<Rightarrow> unit tx" where
  "insert_key k d =
     (if exists_row (\<lambda>r. k_id r = k_id k \<or> k_prefix r = k_prefix k) (api_keys d) \<or>
         row_by a_id (k_service_account_id k) (accounts d) = None
      then Inl ConstraintError else Inr ((), d\<lparr>api_keys := api_keys d @ [k]\<rparr>))"

definition update_keys :: "(key_row \<Rightarrow> bool) \<Rightarrow> (key_row \<Rightarrow> key_row) \<Rightarrow> db \<Rightarrow> nat \<times> db" where
  "update_keys p f d = (changes p (api_keys d), d\<lparr>api_keys := upd_where p f (api_keys d)\<rparr>)"

definition revoked_from :: "timestamp \<Rightarrow> key_row \<Rightarrow> key_row" where
  "revoked_from ts k = k\<lparr>k_revoked_at := Some (coalesce (k_revoked_at k) ts)\<rparr>"

definition revoke_key :: "string \<Rightarrow> timestamp \<Rightarrow> db \<Rightarrow> nat \<times> db" where
  "revoke_key i ts = update_keys (\<lambda>k. k_id k = i) (revoked_from ts)"

definition revoke_account_keys :: "string \<Rightarrow> timestamp \<Rightarrow> db \<Rightarrow> nat \<times> db" where
  "revoke_account_keys i ts = update_keys (\<lambda>k. k_service_account_id k = i) (revoked_from ts)"

definition revoke_all_keys :: "timestamp \<Rightarrow> db \<Rightarrow> nat \<times> db" where
  "revoke_all_keys ts = update_keys (\<lambda>k. k_revoked_at k = None) (\<lambda>k. k\<lparr>k_revoked_at := Some ts\<rparr>)"

section \<open>Principals of the web interface\<close>

definition web_principal :: "auth_db \<Rightarrow> string \<Rightarrow> principal_row option" where
  "web_principal a u = row_by mp_user_id u (web_principals a)"

definition insert_web_principal :: "principal_row \<Rightarrow> unit atx" where
  "insert_web_principal p a =
     (if principal_constraints a (web_principals a) p then Inr ((), a\<lparr>web_principals := web_principals a @ [p]\<rparr>)
      else Inl ConstraintError)"

text \<open>The key of a web principal has no secret: its hash is no hash of anything.\<close>

definition web_key :: "string \<Rightarrow> string \<Rightarrow> timestamp \<Rightarrow> key_row" where
  "web_key key account ts =
     \<lparr>k_id = key, k_service_account_id = account, k_name = ''Web rendering principal'',
      k_prefix = ''web_'' @ drop 4 key, k_kind = RenderKey, k_secret_hash = replicate 64 CHR ''0'',
      k_pepper_id = ''web-principal'',
      k_scopes = Some (JArr [JStr ''render:create'', JStr ''render:read:own'']), k_expires_at = None,
      k_last_used_at = None, k_revoked_at = None, k_created_at = ts,
      k_created_by = ''web-principal''\<rparr>"

text \<open>\<open>account\<close> and \<open>key\<close> are the two new identifiers.\<close>

definition ensure_web_principal ::
  "string \<Rightarrow> string \<Rightarrow> string \<Rightarrow> timestamp \<Rightarrow> principal_row atx" where
  "ensure_web_principal user account key ts a =
     (case web_principal a user of
        Some p \<Rightarrow> Inr (p, a)
      | None \<Rightarrow>
          (let p = \<lparr>mp_user_id = user, mp_service_account_id = account, mp_api_key_id = key,
                    mp_created_at = ts\<rparr> in
           bind_a (shared_tx (insert_account account user ''Web'' Generic ts)) (\<lambda>_.
           bind_a (shared_tx (insert_key (web_key key account ts))) (\<lambda>_.
           bind_a (insert_web_principal p) (\<lambda>_ a. Inr (p, a)))) a))"

fun ensure_each :: "(string \<Rightarrow> string \<times> string) \<Rightarrow> timestamp \<Rightarrow> user_row list \<Rightarrow> nat atx" where
  "ensure_each ids ts [] a = Inr (0, a)"
| "ensure_each ids ts (u # us) a =
     (if web_principal a (u_id u) \<noteq> None then ensure_each ids ts us a
      else bind_a (ensure_web_principal (u_id u) (fst (ids (u_id u))) (snd (ids (u_id u))) ts)
        (\<lambda>_. bind_a (ensure_each ids ts us) (\<lambda>n a. Inr (Suc n, a))) a)"

definition ensure_all :: "(string \<Rightarrow> string \<times> string) \<Rightarrow> timestamp \<Rightarrow> nat atx" where
  "ensure_all ids ts a = ensure_each ids ts (sort_key u_created_at (users (shared a))) a"

end
