(* ===== verification/Browser_Store.thy ===== *)
theory Browser_Store
  imports Accounts
begin

text \<open>
  The repository of the browser logins (packages/database/src/repositories/browser-auth.ts):
  linked identities, local credentials, web sessions and login attempts.
\<close>

section \<open>Identities\<close>

definition find_identity :: "auth_db \<Rightarrow> auth_mode \<Rightarrow> string \<Rightarrow> string \<Rightarrow> identity_row option" where
  "find_identity a provider issuer subject =
     find (\<lambda>i. id_provider i = provider \<and> id_issuer i = issuer \<and> id_subject i = subject) (identities a)"

definition identities_for_user :: "auth_db \<Rightarrow> string \<Rightarrow> identity_row list" where
  "identities_for_user a user =
     sort_key (\<lambda>i. (id_linked_at i, id_id i)) (filter (\<lambda>i. id_user_id i = user) (identities a))"

definition optional_length :: "nat \<Rightarrow> string option \<Rightarrow> bool" where
  "optional_length n s \<longleftrightarrow> (case s of None \<Rightarrow> True | Some t \<Rightarrow> length t \<le> n)"

definition identity_check :: "identity_row \<Rightarrow> auth_db \<Rightarrow> bool" where
  "identity_check i a \<longleftrightarrow>
     id_provider i \<noteq> Password \<and> 8 \<le> length (id_issuer i) \<and> length (id_issuer i) \<le> 2048 \<and>
     1 \<le> length (id_subject i) \<and> length (id_subject i) \<le> 500 \<and>
     optional_length 500 (id_preferred_username i) \<and> optional_length 320 (id_email i) \<and>
     fk u_id (id_user_id i) (users (shared a)) \<and>
     \<not> exists_row (\<lambda>r. id_id r = id_id i \<or>
         (id_provider r = id_provider i \<and> id_issuer r = id_issuer i \<and>
           (id_subject r = id_subject i \<or> id_user_id r = id_user_id i))) (identities a)"

definition insert_identity :: "identity_row \<Rightarrow> unit atx" where
  "insert_identity i a =
     (if identity_check i a then Inr ((), a\<lparr>identities := identities a @ [i]\<rparr>) else Inl ConstraintError)"

definition touch_identity :: "string \<Rightarrow> string option \<Rightarrow> string option \<Rightarrow> timestamp \<Rightarrow> nat atx" where
  "touch_identity i name email ts a =
     (if exists_row (\<lambda>r. id_id r = i) (identities a) \<and>
         \<not> (optional_length 500 name \<and> optional_length 320 email)
      then Inl ConstraintError
      else Inr (changes (\<lambda>r. id_id r = i) (identities a),
        a\<lparr>identities := upd_where (\<lambda>r. id_id r = i)
            (\<lambda>r. r\<lparr>id_preferred_username := name, id_email := email, id_last_seen_at := ts\<rparr>)
            (identities a)\<rparr>))"

text \<open>Deleting an identity takes it away from the sessions that were made with it.\<close>

definition delete_identity :: "string \<Rightarrow> string \<Rightarrow> auth_db \<Rightarrow> nat \<times> auth_db" where
  "delete_identity user i a =
     (let p = (\<lambda>r. id_id r = i \<and> id_user_id r = user) in
      (changes p (identities a),
       a\<lparr>identities := del_where p (identities a),
         sessions := (if exists_row p (identities a)
           then upd_where (\<lambda>s. ws_identity_id s = Some i) (\<lambda>s. s\<lparr>ws_identity_id := None\<rparr>) (sessions a)
           else sessions a)\<rparr>))"

definition clear_access_subject :: "user_row \<Rightarrow> timestamp \<Rightarrow> db \<Rightarrow> nat \<times> db" where
  "clear_access_subject u ts =
     update_users (\<lambda>r. u_id r = u_id u \<and> u_access_subject r = u_access_subject u)
       (\<lambda>r. r\<lparr>u_access_subject := None, u_access_subject_linked_at := None,
          u_access_subject_generation := u_access_subject_generation r + 1, u_updated_at := ts\<rparr>)"

text \<open>One of the rows of \<open>migrateLegacyCloudflareIdentities\<close>, which have a subject; and all of them.\<close>

definition migrate_user :: "string \<Rightarrow> timestamp \<Rightarrow> (string \<Rightarrow> string) \<Rightarrow> user_row \<Rightarrow> nat atx" where
  "migrate_user issuer ts new_id u a =
     (let subject = coalesce (u_access_subject u) [];
          cleared = (\<lambda>n a'. case clear_access_subject u ts (shared a') of
             (c, d) \<Rightarrow> if c \<noteq> 1 then Inl PlainError else Inr (n, a'\<lparr>shared := d\<rparr>)) in
      case find_identity a CloudflareAccess issuer subject of
        Some i \<Rightarrow> if id_user_id i \<noteq> u_id u then Inl PlainError else cleared 0 a
      | None \<Rightarrow>
          bind_a (insert_identity
            \<lparr>id_id = new_id (u_id u), id_user_id = u_id u, id_provider = CloudflareAccess,
             id_issuer = issuer, id_subject = subject, id_preferred_username = None,
             id_email = u_email u,
             id_linked_at = coalesce (u_access_subject_linked_at u) (u_created_at u),
             id_last_seen_at = ts\<rparr>) (\<lambda>_. cleared 1) a)"

fun migrate_users :: "string \<Rightarrow> timestamp \<Rightarrow> (string \<Rightarrow> string) \<Rightarrow> user_row list \<Rightarrow> nat atx" where
  "migrate_users issuer ts new_id [] a = Inr (0, a)"
| "migrate_users issuer ts new_id (u # us) a =
     bind_a (migrate_user issuer ts new_id u)
       (\<lambda>n. bind_a (migrate_users issuer ts new_id us) (\<lambda>m a. Inr (n + m, a))) a"

definition migrate_legacy_identities :: "string \<Rightarrow> timestamp \<Rightarrow> (string \<Rightarrow> string) \<Rightarrow> nat atx" where
  "migrate_legacy_identities issuer ts new_id a =
     migrate_users issuer ts new_id
       (sort_key u_id (filter (\<lambda>u. u_access_subject u \<noteq> None) (users (shared a)))) a"

section \<open>Credentials\<close>

definition credential_by_login :: "auth_db \<Rightarrow> string \<Rightarrow> credential_row option" where
  "credential_by_login a name = find (\<lambda>c. lower (cr_login_name c) = lower name) (credentials a)"

definition credential_for_user :: "auth_db \<Rightarrow> string \<Rightarrow> credential_row option" where
  "credential_for_user a user = row_by cr_user_id user (credentials a)"

definition credential_columns :: "credential_row \<Rightarrow> bool" where
  "credential_columns c \<longleftrightarrow>
     3 \<le> length (cr_login_name c) \<and> length (cr_login_name c) \<le> 64 \<and>
     80 \<le> length (cr_password_hash c) \<and> length (cr_password_hash c) \<le> 512"

definition login_taken :: "credential_row \<Rightarrow> auth_db \<Rightarrow> bool" where
  "login_taken c a \<longleftrightarrow>
     exists_row (\<lambda>r. cr_user_id r \<noteq> cr_user_id c \<and> lower (cr_login_name r) = lower (cr_login_name c))
       (credentials a)"

definition credential_check :: "credential_row \<Rightarrow> auth_db \<Rightarrow> bool" where
  "credential_check c a \<longleftrightarrow>
     credential_columns c \<and> \<not> login_taken c a \<and> fk u_id (cr_user_id c) (users (shared a))"

definition upsert_credential :: "credential_row \<Rightarrow> unit atx" where
  "upsert_credential c a =
     (if \<not> credential_check c a then Inl ConstraintError
      else Inr ((), a\<lparr>credentials :=
        (if credential_for_user a (cr_user_id c) = None then credentials a @ [c]
         else upd_where (\<lambda>r. cr_user_id r = cr_user_id c)
           (\<lambda>r. r\<lparr>cr_login_name := cr_login_name c, cr_password_hash := cr_password_hash c,
              cr_password_updated_at := cr_password_updated_at c\<rparr>) (credentials a))\<rparr>))"

section \<open>Sessions\<close>

definition session_check :: "session_row \<Rightarrow> auth_db \<Rightarrow> bool" where
  "session_check s a \<longleftrightarrow>
     length (ws_token_hash s) = 64 \<and> length (ws_csrf_hash s) = 64 \<and> 0 < ws_user_security_version s \<and>
     fk u_id (ws_user_id s) (users (shared a)) \<and> fk_opt id_id (ws_identity_id s) (identities a) \<and>
     row_by ws_token_hash (ws_token_hash s) (sessions a) = None"

definition insert_session :: "session_row \<Rightarrow> unit atx" where
  "insert_session s a =
     (if session_check s a then Inr ((), a\<lparr>sessions := sessions a @ [s]\<rparr>) else Inl ConstraintError)"

definition active_session :: "timestamp \<Rightarrow> session_row \<Rightarrow> bool" where
  "active_session ts s \<longleftrightarrow>
     ws_revoked_at s = None \<and> ws_idle_expires_at s > ts \<and> ws_absolute_expires_at s > ts"

definition active_session_of :: "string \<Rightarrow> timestamp \<Rightarrow> session_row \<Rightarrow> bool" where
  "active_session_of user ts s \<longleftrightarrow> ws_user_id s = user \<and> active_session ts s"

definition active_session_count_for_user :: "auth_db \<Rightarrow> string \<Rightarrow> timestamp \<Rightarrow> nat" where
  "active_session_count_for_user a user ts = changes (active_session_of user ts) (sessions a)"

definition active_session_count :: "auth_db \<Rightarrow> timestamp \<Rightarrow> nat" where
  "active_session_count a ts = changes (active_session ts) (sessions a)"

text \<open>The \<open>maximum\<close> rows with \<open>p\<close> that were seen the longest time ago are revoked.\<close>

definition revoke_oldest :: "(session_row \<Rightarrow> bool) \<Rightarrow> timestamp \<Rightarrow> nat \<Rightarrow> auth_db \<Rightarrow> nat \<times> auth_db" where
  "revoke_oldest p ts maximum a =
     (let oldest = map ws_token_hash (take maximum
            (sort_key (\<lambda>s. (ws_last_seen_at s, ws_created_at s, ws_token_hash s))
              (filter p (sessions a))));
          q = (\<lambda>s. ws_token_hash s \<in> set oldest) in
      (changes q (sessions a),
       a\<lparr>sessions := upd_where q (\<lambda>s. s\<lparr>ws_revoked_at := Some ts\<rparr>) (sessions a)\<rparr>))"

definition revoke_oldest_for_user :: "string \<Rightarrow> timestamp \<Rightarrow> nat \<Rightarrow> auth_db \<Rightarrow> nat \<times> auth_db" where
  "revoke_oldest_for_user user ts = revoke_oldest (active_session_of user ts) ts"

definition revoke_oldest_sessions :: "timestamp \<Rightarrow> nat \<Rightarrow> auth_db \<Rightarrow> nat \<times> auth_db" where
  "revoke_oldest_sessions ts = revoke_oldest (active_session ts) ts"

definition get_session :: "auth_db \<Rightarrow> string \<Rightarrow> session_row option" where
  "get_session a h = row_by ws_token_hash h (sessions a)"

definition update_sessions ::
  "(session_row \<Rightarrow> bool) \<Rightarrow> (session_row \<Rightarrow> session_row) \<Rightarrow> auth_db \<Rightarrow> nat \<times> auth_db" where
  "update_sessions p f a = (changes p (sessions a), a\<lparr>sessions := upd_where p f (sessions a)\<rparr>)"

definition touch_session :: "string \<Rightarrow> timestamp \<Rightarrow> timestamp \<Rightarrow> auth_db \<Rightarrow> nat \<times> auth_db" where
  "touch_session h ts idle = update_sessions (\<lambda>s. ws_token_hash s = h \<and> ws_revoked_at s = None)
     (\<lambda>s. s\<lparr>ws_last_seen_at := ts, ws_idle_expires_at := idle\<rparr>)"

definition revoke_session :: "string \<Rightarrow> timestamp \<Rightarrow> auth_db \<Rightarrow> nat \<times> auth_db" where
  "revoke_session h ts = update_sessions (\<lambda>s. ws_token_hash s = h)
     (\<lambda>s. s\<lparr>ws_revoked_at := Some (coalesce (ws_revoked_at s) ts)\<rparr>)"

definition revoke_user_sessions :: "string \<Rightarrow> timestamp \<Rightarrow> auth_db \<Rightarrow> nat \<times> auth_db" where
  "revoke_user_sessions user ts = update_sessions (\<lambda>s. ws_user_id s = user \<and> ws_revoked_at s = None)
     (\<lambda>s. s\<lparr>ws_revoked_at := Some ts\<rparr>)"

text \<open>A missing provider or issuer is the empty text, which no identity has.\<close>

definition session_within_policy ::
  "bool \<Rightarrow> auth_mode option \<Rightarrow> string option \<Rightarrow> auth_db \<Rightarrow> session_row \<Rightarrow> bool" where
  "session_within_policy password provider issuer a s \<longleftrightarrow>
     (password \<and> ws_auth_mode s = Password \<and> ws_identity_id s = None) \<or>
     exists_row (\<lambda>i. ws_identity_id s = Some (id_id i) \<and> id_user_id i = ws_user_id s \<and>
       id_provider i = ws_auth_mode s \<and> provider = Some (id_provider i) \<and>
       id_issuer i = coalesce issuer []) (identities a)"

definition retire_sessions_outside_policy ::
  "bool \<Rightarrow> auth_mode option \<Rightarrow> string option \<Rightarrow> timestamp \<Rightarrow> auth_db \<Rightarrow> nat \<times> auth_db" where
  "retire_sessions_outside_policy password provider issuer ts a =
     update_sessions (\<lambda>s. ws_revoked_at s = None \<and> \<not> session_within_policy password provider issuer a s)
       (\<lambda>s. s\<lparr>ws_revoked_at := Some ts\<rparr>) a"

definition delete_expired_sessions :: "timestamp \<Rightarrow> auth_db \<Rightarrow> nat \<times> auth_db" where
  "delete_expired_sessions ts a =
     (let p = (\<lambda>s. ws_absolute_expires_at s \<le> ts \<or> ws_idle_expires_at s \<le> ts \<or>
            sql_le (ws_revoked_at s) ts) in
      (changes p (sessions a), a\<lparr>sessions := del_where p (sessions a)\<rparr>))"

section \<open>Login attempts\<close>

definition login_attempt :: "auth_db \<Rightarrow> string \<Rightarrow> attempt_row option" where
  "login_attempt a key = row_by at_key_hash key (attempts a)"

definition put_login_attempt :: "attempt_row \<Rightarrow> unit atx" where
  "put_login_attempt r a =
     (if length (at_key_hash r) \<noteq> 64 \<or> at_failure_count r = 0 then Inl ConstraintError
      else Inr ((), a\<lparr>attempts :=
        (if login_attempt a (at_key_hash r) = None then attempts a @ [r]
         else upd_where (\<lambda>q. at_key_hash q = at_key_hash r) (\<lambda>_. r) (attempts a))\<rparr>))"

definition clear_login_attempts :: "string list \<Rightarrow> auth_db \<Rightarrow> auth_db" where
  "clear_login_attempts keys a =
     a\<lparr>attempts := del_where (\<lambda>r. at_key_hash r \<in> set keys) (attempts a)\<rparr>"

text \<open>Attempts of before a time go, and of the rest all but the \<open>maximum\<close> latest.\<close>

definition overflowing :: "nat \<Rightarrow> attempt_row list \<Rightarrow> string list" where
  "overflowing maximum rs =
     map at_key_hash (drop maximum (order_desc (\<lambda>r. (at_updated_at r, at_key_hash r)) rs))"

definition prune_login_attempts :: "int \<Rightarrow> nat \<Rightarrow> auth_db \<Rightarrow> nat \<times> auth_db" where
  "prune_login_attempts before maximum a =
     (let fresh = del_where (\<lambda>r. int (at_updated_at r) < before) (attempts a);
          kept = del_where (\<lambda>r. at_key_hash r \<in> set (overflowing maximum fresh)) fresh in
      (length (attempts a) - length kept, a\<lparr>attempts := kept\<rparr>))"

end
