(* ===== verification/Auth_Selection.thy ===== *)
theory Auth_Selection
  imports Auth_Tables White_Space
begin

text \<open>
  Which ways to log in a deployment offers (packages/server-setup-core/src/
  browser-auth-selection.mjs). A selection is a plain object there; the checks that it is one have
  no counterpart for a datatype.
\<close>

datatype auth_selection = AccessOnly | Native bool bool "string option"

text \<open>The settings are read from a map of names to texts.\<close>

type_synonym setting_map = "string \<Rightarrow> string option"

definition selection_keys :: "string list" where
  "selection_keys = [''AUTH_BACKEND'', ''AUTH_PASSWORD_ENABLED'', ''AUTH_OIDC_ENABLED'',
     ''OIDC_DISPLAY_NAME'']"

definition display_name_ok :: "string \<Rightarrow> bool" where
  "display_name_ok n \<longleftrightarrow> 1 \<le> length n \<and> length n \<le> 80 \<and> trim n = n \<and> \<not> has_control n"

fun validate_selection :: "auth_selection \<Rightarrow> auth_selection result" where
  "validate_selection AccessOnly = Inr AccessOnly"
| "validate_selection (Native password oidc name) =
     (if \<not> password \<and> \<not> oidc then Inl PlainError
      else if (case name of None \<Rightarrow> False | Some n \<Rightarrow> \<not> oidc \<or> \<not> display_name_ok n) then Inl PlainError
      else Inr (Native password oidc name))"

definition selection_from_mode :: "string option \<Rightarrow> auth_selection result" where
  "selection_from_mode mode =
     (if mode = Some ''cloudflare-access'' then validate_selection AccessOnly
      else if mode = Some ''password'' \<or> mode = Some ''oidc''
      then validate_selection (Native (mode = Some ''password'') (mode = Some ''oidc'') None)
      else Inl PlainError)"

definition read_boolean :: "setting_map \<Rightarrow> string \<Rightarrow> bool result" where
  "read_boolean m key =
     (if m key = Some ''true'' then Inr True
      else if m key = Some ''false'' then Inr False else Inl PlainError)"

definition parse_selection :: "setting_map \<Rightarrow> auth_selection result" where
  "parse_selection m =
     (if m ''AUTH_BACKEND'' = None
      then (if list_ex (\<lambda>k. m k \<noteq> None) selection_keys then Inl PlainError
            else selection_from_mode (m ''AUTH_MODE''))
      else if m ''AUTH_MODE'' \<noteq> None then Inl PlainError
      else if m ''AUTH_BACKEND'' = Some ''cloudflare-access''
      then (if list_ex (\<lambda>k. m k \<noteq> None) (tl selection_keys) then Inl PlainError
            else validate_selection AccessOnly)
      else if m ''AUTH_BACKEND'' \<noteq> Some ''native'' then Inl PlainError
      else bind_r (read_boolean m ''AUTH_PASSWORD_ENABLED'') (\<lambda>password.
           bind_r (read_boolean m ''AUTH_OIDC_ENABLED'') (\<lambda>oidc.
             validate_selection (Native password oidc (m ''OIDC_DISPLAY_NAME'')))))"

fun method_enabled :: "auth_selection \<Rightarrow> auth_mode \<Rightarrow> bool" where
  "method_enabled AccessOnly method = (method = CloudflareAccess)"
| "method_enabled (Native password oidc name) method =
     ((method = Password \<and> password) \<or> (method = Oidc \<and> oidc))"

record auth_requirements =
  rq_password_enabled :: bool
  rq_oidc_enabled :: bool
  rq_bootstrap_method :: auth_mode
  rq_follow_up_oidc :: bool

definition auth_requirements_of :: "auth_selection \<Rightarrow> auth_requirements result" where
  "auth_requirements_of input = bind_r (validate_selection input) (\<lambda>s.
     let password = method_enabled s Password; oidc = method_enabled s Oidc in
     Inr \<lparr>rq_password_enabled = password, rq_oidc_enabled = oidc,
          rq_bootstrap_method = (if s = AccessOnly then CloudflareAccess
            else if password then Password else Oidc),
          rq_follow_up_oidc = (password \<and> oidc)\<rparr>)"

definition legacy_mode :: "setting_map \<Rightarrow> auth_mode result" where
  "legacy_mode m = bind_r (parse_selection m) (\<lambda>s.
     if list_ex (\<lambda>k. m k \<noteq> None) selection_keys then Inl PlainError
     else Inr (case s of AccessOnly \<Rightarrow> CloudflareAccess
       | Native password oidc name \<Rightarrow> if password then Password else Oidc))"

text \<open>A selection that was accepted offers at least one way to log in, and is accepted again.\<close>

lemma validated_selection:
  assumes "validate_selection s = Inr t"
  shows "validate_selection t = Inr t" and "\<exists>m. method_enabled t m"
proof -
  from assms have "t = s" by (cases s) (auto split: if_splits option.splits)
  with assms show "validate_selection t = Inr t" by simp
  show "\<exists>m. method_enabled t m" using assms by (cases s) (auto split: if_splits option.splits)
qed

lemma parse_selection_validated: "parse_selection m = Inr s \<Longrightarrow> validate_selection s = Inr s"
  by (auto simp: parse_selection_def selection_from_mode_def bind_r_Inr_iff dest: validated_selection(1)
      split: if_splits simp del: validate_selection.simps)

end
