(* ===== verification/Browser_Auth.thy ===== *)
theory Browser_Auth
  imports Browser_Store Auth_Selection
begin

text \<open>
  The login service of the web interfaces (packages/auth/src/browser.ts): sessions and their
  cookies, password logins with their throttle, and external identities. SHA-256 (in hex and in bytes), the HMAC of the
  throttle keys, scrypt, base64url and the verifier of Access assertions are parameters, and so are
  the random secrets of a call and its clock reading \<open>now\<close>. The OIDC exchange itself
  (packages/auth/src/oidc.ts) is not modelled: its result is an argument.
\<close>

section \<open>Constants and configuration\<close>

definition session_cookie :: string where "session_cookie = ''__Host-latex_renderer_session''"
definition csrf_cookie :: string where "csrf_cookie = ''__Host-latex_renderer_csrf''"
definition oidc_state_cookie :: string where
  "oidc_state_cookie = ''__Host-latex_renderer_oidc_state''"

definition default_idle_ms :: int where "default_idle_ms = 1800000"
definition default_absolute_ms :: int where "default_absolute_ms = 28800000"
definition login_window_ms :: nat where "login_window_ms = 900000"
definition login_block_ms :: nat where "login_block_ms = 900000"
definition login_failure_limit :: nat where "login_failure_limit = 5"
definition maximum_login_attempt_rows :: nat where "maximum_login_attempt_rows = 10000"
definition maximum_sessions_per_user :: nat where "maximum_sessions_per_user = 20"
definition maximum_sessions_global :: nat where "maximum_sessions_global = 10000"
definition maximum_password_operations :: nat where "maximum_password_operations = 8"
definition default_scrypt_log_n :: int where "default_scrypt_log_n = 17"

text \<open>\<open>^[a-z0-9][a-z0-9._-]{2,63}$\<close>.\<close>

definition login_name_char :: "char \<Rightarrow> bool" where
  "login_name_char c \<longleftrightarrow> is_lower c \<or> is_digit c \<or> c \<in> {CHR ''.'', CHR ''_'', CHR ''-''}"

definition is_login_name :: "string \<Rightarrow> bool" where
  "is_login_name s \<longleftrightarrow> 3 \<le> length s \<and> length s \<le> 64 \<and> (is_lower (hd s) \<or> is_digit (hd s)) \<and>
     list_all login_name_char (tl s)"

definition bounded_duration :: "int \<Rightarrow> int \<Rightarrow> int \<Rightarrow> int result" where
  "bounded_duration v minimum maximum =
     (if v < - 9007199254740991 \<or> v > 9007199254740991 \<or> v < minimum \<or> v > maximum
      then Inl PlainError else Inr v)"

record auth_deps =
  ad_sha :: "string \<Rightarrow> string"
  ad_digest :: "string \<Rightarrow> string"
  ad_hmac :: "string option \<Rightarrow> string \<Rightarrow> string"
  ad_scrypt :: "string \<Rightarrow> string \<Rightarrow> string option \<Rightarrow> nat \<Rightarrow> string"
  ad_encode :: "string \<Rightarrow> string"
  ad_decode :: "string \<Rightarrow> string"
  ad_origin :: "string \<Rightarrow> string result"

record auth_options =
  ao_selection :: auth_selection
  ao_public_origin :: string
  ao_access_issuer :: "string option"
  ao_oidc_issuer :: "string option"
  ao_password_pepper :: "string option"
  ao_session_idle_ms :: "int option"
  ao_session_absolute_ms :: "int option"
  ao_scrypt_log_n :: "int option"

record browser_auth =
  ba_selection :: auth_selection
  ba_public_origin :: string
  ba_provider :: "auth_mode option"
  ba_issuer :: "string option"
  ba_pepper :: "string option"
  ba_idle_ms :: nat
  ba_absolute_ms :: nat
  ba_log_n :: nat
  ba_dummy_hash :: "string option"

section \<open>Passwords\<close>

definition encode_password_hash :: "auth_deps \<Rightarrow> nat \<Rightarrow> string \<Rightarrow> string \<Rightarrow> string" where
  "encode_password_hash dp log_n salt derived =
     ''$scrypt$ln='' @ decimal log_n @ '',r=8,p=1$'' @ ad_encode dp salt @ ''$'' @ ad_encode dp derived"

text \<open>
  \<open>^\$scrypt\$ln=(1[2-8]),r=8,p=1\$([A-Za-z0-9_-]{22})\$([A-Za-z0-9_-]{43})$\<close>: the parts between
  the dollars are determined by the separators, which are in no part.
\<close>

definition parse_password_hash :: "auth_deps \<Rightarrow> string \<Rightarrow> (nat \<times> string \<times> string) option" where
  "parse_password_hash dp value =
     (case split_on CHR ''$'' value of
        [[], scrypt, parameters, salt, hash] \<Rightarrow>
          (case find (\<lambda>n. parameters = ''ln='' @ decimal n @ '',r=8,p=1'') [12..<19] of
             None \<Rightarrow> None
           | Some n \<Rightarrow>
               if scrypt = ''scrypt'' \<and> length salt = 22 \<and> list_all url_safe salt \<and> is_secret hash
               then Some (n, ad_decode dp salt, ad_decode dp hash) else None)
      | _ \<Rightarrow> None)"

definition derive_password ::
  "auth_deps \<Rightarrow> browser_auth \<Rightarrow> string \<Rightarrow> string \<Rightarrow> nat \<Rightarrow> string" where
  "derive_password dp bs password salt log_n = ad_scrypt dp password salt (ba_pepper bs) log_n"

text \<open>
  \<open>withPasswordSlot\<close>: \<open>busy\<close> is the number of derivations that run. A text is not a password of
  more than 1024 characters, whatever its hash.
\<close>

definition with_password_slot :: "nat \<Rightarrow> 'a \<Rightarrow> 'a result" where
  "with_password_slot busy r =
     (if busy \<ge> maximum_password_operations then Inl (AppError ''PASSWORD_AUTH_BUSY'' 503) else Inr r)"

definition verify_password ::
  "auth_deps \<Rightarrow> browser_auth \<Rightarrow> nat \<Rightarrow> string \<Rightarrow> string \<Rightarrow> bool result" where
  "verify_password dp bs busy password encoded =
     (case parse_password_hash dp encoded of
        None \<Rightarrow> Inr False
      | Some (n, salt, hash) \<Rightarrow>
          if length password > 1024 then Inr False
          else bind_r (with_password_slot busy (derive_password dp bs password salt n))
            (\<lambda>actual. Inr (actual = hash)))"

definition normalize_login_name :: "string \<Rightarrow> string result" where
  "normalize_login_name v =
     (let n = lower (trim v) in
      if is_login_name n then Inr n else Inl (AppError ''LOGIN_NAME_INVALID'' 400))"

definition normalize_login_name_soft :: "string \<Rightarrow> string" where
  "normalize_login_name_soft v = take 128 (lower (trim v))"

text \<open>
  The code also refuses more than 4096 bytes of UTF-8, which a text of at most 1024 UTF-16 units
  never has.
\<close>

definition validate_password :: "string \<Rightarrow> string option \<Rightarrow> unit result" where
  "validate_password password name =
     (if length password < 12 \<or> length password > 1024 \<or> CHR 0x00 \<in> set password \<or>
         (case name of None \<Rightarrow> False | Some n \<Rightarrow> instr (lower password) n)
      then Inl (AppError ''PASSWORD_POLICY'' 400) else Inr ())"

definition hash_password ::
  "auth_deps \<Rightarrow> browser_auth \<Rightarrow> nat \<Rightarrow> string \<Rightarrow> string \<Rightarrow> string \<Rightarrow> string result" where
  "hash_password dp bs busy salt password name =
     bind_r (normalize_login_name name) (\<lambda>_.
     bind_r (validate_password password (Some name)) (\<lambda>_.
     bind_r (with_password_slot busy (derive_password dp bs password salt (ba_log_n bs)))
       (\<lambda>derived. Inr (encode_password_hash dp (ba_log_n bs) salt derived))))"

section \<open>The service\<close>

definition legacy_identity_id :: "auth_deps \<Rightarrow> string \<Rightarrow> string \<Rightarrow> string" where
  "legacy_identity_id dp issuer user =
     ''identity_'' @ take 32 (ad_sha dp (''cloudflare-access'' @ CHR 0x00 # issuer @ CHR 0x00 # user))"

text \<open>The provider and the issuer of external identities; the constructor throws without a verifier.\<close>

definition external_source :: "auth_options \<Rightarrow> (auth_mode \<times> string) option result" where
  "external_source opts =
     (case ao_selection opts of
        AccessOnly \<Rightarrow> (case ao_access_issuer opts of
            None \<Rightarrow> Inl PlainError | Some i \<Rightarrow> Inr (Some (CloudflareAccess, i)))
      | Native _ oidc _ \<Rightarrow>
          if \<not> oidc then Inr None
          else (case ao_oidc_issuer opts of None \<Rightarrow> Inl PlainError | Some i \<Rightarrow> Inr (Some (Oidc, i))))"

definition dummy_salt :: "auth_deps \<Rightarrow> string" where
  "dummy_salt dp = take 16 (ad_digest dp ''latex-renderer-password-dummy'')"

definition new_browser_auth ::
  "auth_deps \<Rightarrow> auth_options \<Rightarrow> timestamp \<Rightarrow> browser_auth atx" where
  "new_browser_auth dp opts now a =
     bind_r (validate_selection (ao_selection opts)) (\<lambda>selection.
     bind_r (ad_origin dp (ao_public_origin opts)) (\<lambda>origin.
     bind_r (bounded_duration (coalesce (ao_session_idle_ms opts) default_idle_ms) 300000 86400000) (\<lambda>idle.
     bind_r (bounded_duration (coalesce (ao_session_absolute_ms opts) default_absolute_ms) idle 604800000)
       (\<lambda>absolute.
     let log_n = coalesce (ao_scrypt_log_n opts) default_scrypt_log_n in
     if log_n < 12 \<or> log_n > 18 then Inl PlainError
     else bind_r (external_source opts) (\<lambda>source.
       bind_r (if selection = AccessOnly
           then migrate_legacy_identities (coalesce (map_option snd source) []) now
             (legacy_identity_id dp (coalesce (map_option snd source) [])) a
           else Inr (0, a)) (\<lambda>(_, a').
       let bs = \<lparr>ba_selection = selection, ba_public_origin = origin,
             ba_provider = map_option fst source, ba_issuer = map_option snd source,
             ba_pepper = None, ba_idle_ms = nat idle, ba_absolute_ms = nat absolute,
             ba_log_n = nat log_n, ba_dummy_hash = None\<rparr> in
       if \<not> method_enabled selection Password then Inr (bs, a')
       else (case ao_password_pepper opts of
           None \<Rightarrow> Inl PlainError
         | Some pepper \<Rightarrow>
             if length pepper < 32 then Inl PlainError
             else (let bs = bs\<lparr>ba_pepper := Some pepper\<rparr> in
               Inr (bs\<lparr>ba_dummy_hash := Some (encode_password_hash dp (nat log_n) (dummy_salt dp)
                 (derive_password dp bs ''invalid-dummy-password'' (dummy_salt dp) (nat log_n)))\<rparr>, a')))))))))"

definition enabled :: "browser_auth \<Rightarrow> auth_mode \<Rightarrow> bool" where
  "enabled bs m = method_enabled (ba_selection bs) m"

definition retire_incompatible_sessions :: "browser_auth \<Rightarrow> timestamp \<Rightarrow> auth_db \<Rightarrow> nat \<times> auth_db" where
  "retire_incompatible_sessions bs now a =
     (case retire_sessions_outside_policy (enabled bs Password) (ba_provider bs) (ba_issuer bs) now a of
        (n, a') \<Rightarrow> if n = 0 then (n, a')
          else (n, audit_a
            \<lparr>au_actor_type = ActorSystem, au_actor_id = ''browser-auth'',
             au_action = ''auth.sessions-retired'', au_target_type = ''auth-configuration'',
             au_target_id = ''browser'', au_result = ''success'', au_ip_address = None,
             au_user_agent = None,
             au_metadata = [(''count'', JNum (int n)),
               (''passwordEnabled'', JBool (enabled bs Password)),
               (''externalProvider'', case ba_provider bs of None \<Rightarrow> JNull
                  | Some CloudflareAccess \<Rightarrow> JStr ''cloudflare-access''
                  | Some Oidc \<Rightarrow> JStr ''oidc'' | Some Password \<Rightarrow> JStr ''password'')],
             au_created_at = now\<rparr> a'))"

end
