(* ===== verification/Browser_Sessions.thy ===== *)
theory Browser_Sessions
  imports Browser_Auth
begin

text \<open>
  Sessions and logins of packages/auth/src/browser.ts. What a call reads and writes outside a
  transaction is a sequence of statements on the tables: an error keeps the writes before it, so
  these operations return a result beside the tables.
\<close>

section \<open>Requests\<close>

text \<open>\<open>headers\<close> is \<open>request.headers.get\<close>.\<close>

type_synonym headers = "string \<Rightarrow> string option"

definition unique_cookie :: "string option \<Rightarrow> string \<Rightarrow> string option" where
  "unique_cookie header name =
     (case header of None \<Rightarrow> None
      | Some h \<Rightarrow>
          (case map (\<lambda>p. join_on CHR ''='' (tl (split_on CHR ''='' (trim p))))
                 (filter (\<lambda>p. hd (split_on CHR ''='' (trim p)) = name) (split_on CHR '';'' h)) of
             [v] \<Rightarrow> if v = [] then None else Some v
           | _ \<Rightarrow> None))"

definition safe_hash_equal :: "string \<Rightarrow> string \<Rightarrow> bool" where
  "safe_hash_equal l r \<longleftrightarrow> is_sha256 l \<and> is_sha256 r \<and> l = r"

definition safe_equal :: "string \<Rightarrow> string \<Rightarrow> bool" where
  "safe_equal l r \<longleftrightarrow> l \<noteq> [] \<and> l = r"

definition bounded_identifier :: "string \<Rightarrow> string \<Rightarrow> string" where
  "bounded_identifier v fallback =
     (let t = trim v in if 0 < length t \<and> length t \<le> 200 then t else fallback)"

record audit_context =
  ac_ip_address :: "string option"
  ac_user_agent :: "string option"

definition non_empty :: "string \<Rightarrow> string option" where
  "non_empty s = (if s = [] then None else Some s)"

definition session_audit_context :: "headers option \<Rightarrow> string option \<Rightarrow> audit_context" where
  "session_audit_context request ip =
     (let header = (\<lambda>n. Option.bind request (\<lambda>h. h n)) in
      \<lparr>ac_ip_address = non_empty (coalesce ip (bounded_identifier
           (coalesce (coalesce_opt (header ''CF-Connecting-IP'')
             (header ''X-Latex-Renderer-Client-IP'')) []) [])),
       ac_user_agent = non_empty (bounded_identifier (coalesce (header ''User-Agent'') []) [])\<rparr>)"

definition require_exact_origin :: "browser_auth \<Rightarrow> headers \<Rightarrow> unit result" where
  "require_exact_origin bs request =
     (if request ''Origin'' \<noteq> Some (ba_public_origin bs) then Inl (AppError ''ORIGIN_REJECTED'' 403)
      else if request ''Sec-Fetch-Site'' \<notin> {None, Some ''same-origin''}
      then Inl (AppError ''CROSS_SITE_REJECTED'' 403) else Inr ())"

section \<open>Principals\<close>

record principal =
  bp_user :: user_row
  bp_mode :: auth_mode
  bp_identity :: "identity_row option"
  bp_session :: "session_row option"

record created_session =
  cs_principal :: principal
  cs_token :: string
  cs_csrf_token :: string
  cs_cookies :: "string list"

definition require_mutation_csrf ::
  "auth_deps \<Rightarrow> browser_auth \<Rightarrow> headers \<Rightarrow> principal \<Rightarrow> unit result" where
  "require_mutation_csrf dp bs request p =
     (case bp_session p of
        None \<Rightarrow> Inl (AppError ''SESSION_REQUIRED'' 401)
      | Some s \<Rightarrow> bind_r (require_exact_origin bs request) (\<lambda>_.
          case (request ''X-CSRF-Token'', unique_cookie (request ''Cookie'') csrf_cookie) of
            (Some header, Some cookie) \<Rightarrow>
              if safe_equal header cookie \<and> safe_hash_equal (ws_csrf_hash s) (ad_sha dp header)
              then Inr () else Inl (AppError ''CSRF_TOKEN_REQUIRED'' 403)
          | _ \<Rightarrow> Inl (AppError ''CSRF_TOKEN_REQUIRED'' 403)))"

text \<open>A session that may be used: live, of an unchanged active user, by an enabled method.\<close>

definition session_live :: "browser_auth \<Rightarrow> timestamp \<Rightarrow> user_row option \<Rightarrow> session_row \<Rightarrow> bool" where
  "session_live bs now user s \<longleftrightarrow>
     active_session now s \<and>
     (case user of None \<Rightarrow> False
      | Some u \<Rightarrow> u_status u = Active \<and> u_security_version u = ws_user_security_version s) \<and>
     enabled bs (ws_auth_mode s)"

definition identity_of_session :: "auth_db \<Rightarrow> session_row \<Rightarrow> identity_row option" where
  "identity_of_session a s = (case ws_identity_id s of None \<Rightarrow> None
     | Some i \<Rightarrow> find (\<lambda>c. id_id c = i) (identities_for_user a (ws_user_id s)))"

definition identity_matches_mode ::
  "browser_auth \<Rightarrow> session_row \<Rightarrow> identity_row option \<Rightarrow> bool" where
  "identity_matches_mode bs s identity \<longleftrightarrow>
     (if ws_auth_mode s = Password then ws_identity_id s = None
      else (case identity of None \<Rightarrow> False
        | Some i \<Rightarrow> ba_provider bs = Some (id_provider i) \<and> id_provider i = ws_auth_mode s \<and>
            ba_issuer bs = Some (id_issuer i)))"

definition authenticate_session ::
  "auth_deps \<Rightarrow> browser_auth \<Rightarrow> timestamp \<Rightarrow> headers \<Rightarrow> auth_db \<Rightarrow> principal option \<times> auth_db" where
  "authenticate_session dp bs now request a =
     (case unique_cookie (request ''Cookie'') session_cookie of
        None \<Rightarrow> (None, a)
      | Some token \<Rightarrow>
          if \<not> is_secret token then (None, a)
          else (case get_session a (ad_sha dp token) of
              None \<Rightarrow> (None, a)
            | Some s \<Rightarrow>
                (let user = user_get a (ws_user_id s); identity = identity_of_session a s;
                     idle = min (now + ba_idle_ms bs) (ws_absolute_expires_at s) in
                 if \<not> session_live bs now user s \<or> \<not> identity_matches_mode bs s identity
                 then (None, snd (revoke_session (ws_token_hash s) now a))
                 else (map_option (\<lambda>u. \<lparr>bp_user = u, bp_mode = ws_auth_mode s, bp_identity = identity,
                         bp_session = Some (s\<lparr>ws_last_seen_at := now, ws_idle_expires_at := idle\<rparr>)\<rparr>)
                         user,
                       snd (touch_session (ws_token_hash s) now idle a)))))"

section \<open>New sessions\<close>

definition clear_cookies :: "string list" where
  "clear_cookies =
     [session_cookie @ ''=; Path=/; HttpOnly; Secure; SameSite=Lax; Max-Age=0'',
      csrf_cookie @ ''=; Path=/; Secure; SameSite=Strict; Max-Age=0'']"

definition session_cookies :: "string \<Rightarrow> string \<Rightarrow> nat \<Rightarrow> string list" where
  "session_cookies token csrf age =
     [session_cookie @ ''='' @ token @ ''; Path=/; HttpOnly; Secure; SameSite=Lax; Max-Age='' @ decimal age,
      csrf_cookie @ ''='' @ csrf @ ''; Path=/; Secure; SameSite=Strict; Max-Age='' @ decimal age]"

definition new_session_row :: "auth_deps \<Rightarrow> browser_auth \<Rightarrow> timestamp \<Rightarrow> timestamp \<Rightarrow> string \<Rightarrow> string \<Rightarrow>
  user_row \<Rightarrow> auth_mode \<Rightarrow> identity_row option \<Rightarrow> session_row" where
  "new_session_row dp bs now absolute token csrf user mode identity =
     \<lparr>ws_token_hash = ad_sha dp token, ws_user_id = u_id user, ws_auth_mode = mode,
      ws_identity_id = map_option id_id identity,
      ws_user_security_version = u_security_version user, ws_csrf_hash = ad_sha dp csrf,
      ws_created_at = now, ws_last_seen_at = now,
      ws_idle_expires_at = min (now + ba_idle_ms bs) absolute,
      ws_absolute_expires_at = absolute, ws_revoked_at = None\<rparr>"

text \<open>Room for one more session of the user, and of all: \<open>max(0, active - limit + 1)\<close> are revoked.\<close>

definition make_room :: "string \<Rightarrow> timestamp \<Rightarrow> auth_db \<Rightarrow> auth_db" where
  "make_room user now a =
     (let a1 = snd (delete_expired_sessions now a);
          a2 = snd (revoke_oldest_for_user user now
            (active_session_count_for_user a1 user now + 1 - maximum_sessions_per_user) a1) in
      snd (revoke_oldest_sessions now (active_session_count a2 now + 1 - maximum_sessions_global) a2))"

fun mode_text :: "auth_mode \<Rightarrow> string" where
  "mode_text CloudflareAccess = ''cloudflare-access''"
| "mode_text Oidc = ''oidc''"
| "mode_text Password = ''password''"

definition login_audit ::
  "string \<Rightarrow> auth_mode \<Rightarrow> identity_row option \<Rightarrow> audit_context \<Rightarrow> timestamp \<Rightarrow> audit_row" where
  "login_audit user mode identity c now =
     \<lparr>au_actor_type = ActorUser, au_actor_id = user, au_action = ''auth.login'',
      au_target_type = ''user'', au_target_id = user, au_result = ''success'',
      au_ip_address = ac_ip_address c, au_user_agent = ac_user_agent c,
      au_metadata = (''mode'', JStr (mode_text mode)) # (case identity of None \<Rightarrow> []
        | Some i \<Rightarrow> [(''provider'', JStr (mode_text (id_provider i))), (''issuer'', JStr (id_issuer i)),
            (''identityId'', JStr (id_id i))]),
      au_created_at = now\<rparr>"

text \<open>The transaction: \<open>check\<close> is \<open>beforeInsert\<close>.\<close>

definition insert_session_tx ::
  "(auth_db \<Rightarrow> unit result) \<Rightarrow> audit_row option \<Rightarrow> session_row \<Rightarrow> timestamp \<Rightarrow> unit atx" where
  "insert_session_tx check log s now a =
     bind_r (check a) (\<lambda>_.
     bind_r (insert_session s (make_room (ws_user_id s) now a)) (\<lambda>(_, a1).
       let a2 = a1\<lparr>shared := snd (touch_login (ws_user_id s) now (shared a1))\<rparr> in
       Inr ((), case log of None \<Rightarrow> a2 | Some r \<Rightarrow> audit_a r a2)))"

definition create_session :: "auth_deps \<Rightarrow> browser_auth \<Rightarrow> timestamp \<Rightarrow> string \<Rightarrow> string \<Rightarrow> user_row \<Rightarrow>
  auth_mode \<Rightarrow> identity_row option \<Rightarrow> timestamp option \<Rightarrow> audit_context option \<Rightarrow>
  (auth_db \<Rightarrow> unit result) \<Rightarrow> created_session atx" where
  "create_session dp bs now token csrf user mode identity cap context check a =
     (let absolute = (case cap of None \<Rightarrow> now + ba_absolute_ms bs
            | Some c \<Rightarrow> min (now + ba_absolute_ms bs) c);
          s = new_session_row dp bs now absolute token csrf user mode identity in
      if absolute \<le> now then Inl (AppError ''IDENTITY_EXPIRED'' 401)
      else bind_r (insert_session_tx check
             (map_option (\<lambda>c. login_audit (u_id user) mode identity c now) context) s now a)
           (\<lambda>(_, a'). Inr (\<lparr>cs_principal = \<lparr>bp_user = user, bp_mode = mode, bp_identity = identity,
                bp_session = Some s\<rparr>,
              cs_token = token, cs_csrf_token = csrf,
              cs_cookies = session_cookies token csrf (max 1 ((absolute - now) div 1000))\<rparr>, a')))"

definition logout :: "auth_deps \<Rightarrow> timestamp \<Rightarrow> headers \<Rightarrow> auth_db \<Rightarrow> auth_db" where
  "logout dp now request a =
     (case unique_cookie (request ''Cookie'') session_cookie of
        None \<Rightarrow> a
      | Some token \<Rightarrow> if is_secret token then snd (revoke_session (ad_sha dp token) now a) else a)"

end
