(* ===== verification/Browser_Logins.thy ===== *)
theory Browser_Logins
  imports Browser_Sessions
begin

text \<open>
  Logins of packages/auth/src/browser.ts: with an external identity, and with a password under the
  throttle of failures. A password login reads the credential, derives a key, which takes a while
  in which others commit, and then makes the session; \<open>between\<close> is what they commit.
\<close>

section \<open>External identities\<close>

record external_identity =
  ei_provider :: auth_mode
  ei_issuer :: string
  ei_subject :: string
  ei_preferred_username :: "string option"
  ei_email :: "string option"
  ei_expires_at :: "timestamp option"

definition resolve_external :: "timestamp \<Rightarrow> external_identity \<Rightarrow> principal atx" where
  "resolve_external now e a =
     (case find_identity a (ei_provider e) (ei_issuer e) (ei_subject e) of
        None \<Rightarrow> Inl (AppError ''IDENTITY_NOT_PROVISIONED'' 403)
      | Some i \<Rightarrow>
          (case user_get a (id_user_id i) of
             None \<Rightarrow> Inl (AppError ''ACCOUNT_DISABLED'' 403)
           | Some u \<Rightarrow>
               if u_status u \<noteq> Active then Inl (AppError ''ACCOUNT_DISABLED'' 403)
               else bind_r (touch_identity (id_id i) (ei_preferred_username e) (ei_email e) now a)
                 (\<lambda>(_, a'). Inr (\<lparr>bp_user = u, bp_mode = ei_provider e,
                    bp_identity = Some (i\<lparr>id_preferred_username := ei_preferred_username e,
                      id_email := ei_email e, id_last_seen_at := now\<rparr>), bp_session = None\<rparr>,
                  a'\<lparr>shared := snd (touch_login (u_id u) now (shared a'))\<rparr>))))"

definition access_enabled :: "browser_auth \<Rightarrow> bool" where
  "access_enabled bs \<longleftrightarrow> ba_selection bs = AccessOnly"

text \<open>\<open>verify\<close> is the verification of an Access assertion (packages/auth/src/access.ts).\<close>

definition access_identity ::
  "browser_auth \<Rightarrow> (string \<Rightarrow> external_identity result) \<Rightarrow> headers \<Rightarrow> external_identity result" where
  "access_identity bs verify request =
     (if \<not> access_enabled bs then Inl (AppError ''LOGIN_REQUIRED'' 401)
      else (case request ''Cf-Access-Jwt-Assertion'' of
          None \<Rightarrow> Inl (AppError ''ACCESS_ASSERTION_REQUIRED'' 401)
        | Some assertion \<Rightarrow> verify assertion))"

text \<open>A result beside the tables: an error leaves what was written before it.\<close>

definition kept :: "auth_db \<Rightarrow> ('a \<times> auth_db) result \<Rightarrow> 'a result \<times> auth_db" where
  "kept a r = (case r of Inl e \<Rightarrow> (Inl e, a) | Inr (x, a') \<Rightarrow> (Inr x, a'))"

definition authenticate :: "auth_deps \<Rightarrow> browser_auth \<Rightarrow> timestamp \<Rightarrow>
  (string \<Rightarrow> external_identity result) \<Rightarrow> headers \<Rightarrow> auth_db \<Rightarrow> principal result \<times> auth_db" where
  "authenticate dp bs now verify request a =
     (case authenticate_session dp bs now request a of
        (Some p, a') \<Rightarrow> (Inr p, a')
      | (None, a') \<Rightarrow>
          kept a' (bind_r (access_identity bs verify request) (\<lambda>e. resolve_external now e a')))"

text \<open>
  \<open>establishSession\<close>. A session whose CSRF cookie does not fit is replaced by a new one that ends
  when the old one would have.
\<close>

definition establish_session :: "auth_deps \<Rightarrow> browser_auth \<Rightarrow> timestamp \<Rightarrow> string \<Rightarrow> string \<Rightarrow>
  (string \<Rightarrow> external_identity result) \<Rightarrow> headers \<Rightarrow> auth_db \<Rightarrow> created_session result \<times> auth_db" where
  "establish_session dp bs now token csrf verify request a =
     (case authenticate_session dp bs now request a of
        (Some p, a') \<Rightarrow>
          (case bp_session p of
             None \<Rightarrow> (Inl (AppError ''LOGIN_REQUIRED'' 401), a')
           | Some s \<Rightarrow>
               (case unique_cookie (request ''Cookie'') csrf_cookie of
                  Some c \<Rightarrow>
                    if safe_hash_equal (ws_csrf_hash s) (ad_sha dp c)
                    then (Inr \<lparr>cs_principal = p, cs_token = [], cs_csrf_token = c, cs_cookies = []\<rparr>, a')
                    else (let a2 = snd (revoke_session (ws_token_hash s) now a') in
                      kept a2 (create_session dp bs now token csrf (bp_user p) (bp_mode p) (bp_identity p)
                        (Some (ws_absolute_expires_at s)) None (\<lambda>_. Inr ()) a2))
                | None \<Rightarrow> (let a2 = snd (revoke_session (ws_token_hash s) now a') in
                      kept a2 (create_session dp bs now token csrf (bp_user p) (bp_mode p) (bp_identity p)
                        (Some (ws_absolute_expires_at s)) None (\<lambda>_. Inr ()) a2))))
      | (None, a') \<Rightarrow>
          (case access_identity bs verify request of
             Inl e \<Rightarrow> (Inl e, a')
           | Inr e \<Rightarrow>
               (case resolve_external now e a' of
                  Inl x \<Rightarrow> (Inl x, a')
                | Inr (p, a2) \<Rightarrow>
                    kept a2 (create_session dp bs now token csrf (bp_user p) CloudflareAccess
                      (bp_identity p) (ei_expires_at e)
                      (Some (session_audit_context (Some request) None)) (\<lambda>_. Inr ()) a2))))"

text \<open>\<open>finishOidc\<close>, from the identity its callback completed with.\<close>

definition finish_oidc :: "auth_deps \<Rightarrow> browser_auth \<Rightarrow> timestamp \<Rightarrow> string \<Rightarrow> string \<Rightarrow>
  external_identity result \<Rightarrow> headers option \<Rightarrow> auth_db \<Rightarrow> created_session result \<times> auth_db" where
  "finish_oidc dp bs now token csrf callback request a =
     (if \<not> enabled bs Oidc then (Inl (AppError ''AUTH_MODE_MISMATCH'' 404), a)
      else (case callback of
          Inl e \<Rightarrow> (Inl e, a)
        | Inr e \<Rightarrow>
            (case resolve_external now e a of
               Inl x \<Rightarrow> (Inl x, a)
             | Inr (p, a2) \<Rightarrow>
                 kept a2 (create_session dp bs now token csrf (bp_user p) Oidc (bp_identity p)
                   (ei_expires_at e) (Some (session_audit_context request None)) (\<lambda>_. Inr ()) a2))))"

definition text_bounds :: "nat \<Rightarrow> string \<Rightarrow> bool" where
  "text_bounds n s \<longleftrightarrow> 1 \<le> length s \<and> length s \<le> n \<and> \<not> has_control s"

definition optional_bounds :: "nat \<Rightarrow> string option \<Rightarrow> bool" where
  "optional_bounds n s \<longleftrightarrow> (case s of None \<Rightarrow> True | Some t \<Rightarrow> text_bounds n t)"

text \<open>\<open>new_id\<close> is the random identifier of the row.\<close>

definition create_external_identity :: "browser_auth \<Rightarrow> string \<Rightarrow> string \<Rightarrow> string \<Rightarrow>
  string option \<Rightarrow> string option \<Rightarrow> timestamp \<Rightarrow> identity_row atx" where
  "create_external_identity bs new_id user subject email name ts a =
     (case (ba_provider bs, ba_issuer bs) of
        (Some provider, Some issuer) \<Rightarrow>
          if \<not> (text_bounds 500 subject \<and> optional_bounds 500 name \<and> optional_bounds 320 email)
          then Inl (AppError ''IDENTITY_METADATA_INVALID'' 400)
          else (let i = \<lparr>id_id = new_id, id_user_id = user, id_provider = provider, id_issuer = issuer,
                  id_subject = subject, id_preferred_username = name, id_email = email,
                  id_linked_at = ts, id_last_seen_at = ts\<rparr> in
            bind_r (insert_identity i a) (\<lambda>(_, a'). Inr (i, a')))
      | _ \<Rightarrow> Inl (AppError ''AUTH_MODE_MISMATCH'' 409))"

section \<open>The throttle\<close>

definition rate_key :: "auth_deps \<Rightarrow> browser_auth \<Rightarrow> string \<Rightarrow> string" where
  "rate_key dp bs v = ad_hmac dp (ba_pepper bs) v"

definition blocked :: "auth_db \<Rightarrow> timestamp \<Rightarrow> string \<Rightarrow> bool" where
  "blocked a now key \<longleftrightarrow> (case login_attempt a key of None \<Rightarrow> False
     | Some r \<Rightarrow> sql_gt (at_blocked_until r) now)"

definition assert_not_rate_limited :: "string list \<Rightarrow> timestamp \<Rightarrow> auth_db \<Rightarrow> unit result" where
  "assert_not_rate_limited keys now a =
     (if list_ex (blocked a now) keys then Inl (AppError ''LOGIN_RATE_LIMITED'' 429) else Inr ())"

definition failed_attempt :: "string \<Rightarrow> attempt_row option \<Rightarrow> timestamp \<Rightarrow> attempt_row" where
  "failed_attempt key previous now =
     (let (n, start) = (case previous of
            Some r \<Rightarrow> if at_window_started_at r + login_window_ms > now
              then (at_failure_count r + 1, at_window_started_at r) else (1, now)
          | None \<Rightarrow> (1, now)) in
      \<lparr>at_key_hash = key, at_failure_count = n, at_window_started_at = start,
       at_blocked_until = (if n \<ge> login_failure_limit then Some (now + login_block_ms) else None),
       at_updated_at = now\<rparr>)"

fun put_failures :: "string list \<Rightarrow> timestamp \<Rightarrow> unit atx" where
  "put_failures [] now a = Inr ((), a)"
| "put_failures (k # ks) now a =
     bind_r (put_login_attempt (failed_attempt k (login_attempt a k) now) a)
       (\<lambda>(_, a'). put_failures ks now a')"

definition record_login_failure :: "string list \<Rightarrow> timestamp \<Rightarrow> unit atx" where
  "record_login_failure keys now a =
     put_failures keys now (snd (prune_login_attempts (int now - 86400000)
       (maximum_login_attempt_rows - length keys) a))"

section \<open>Password logins\<close>

record password_login =
  pl_login_name :: string
  pl_password :: string
  pl_ip_address :: string
  pl_request :: headers

definition login_keys :: "auth_deps \<Rightarrow> browser_auth \<Rightarrow> password_login \<Rightarrow> string list" where
  "login_keys dp bs q =
     [rate_key dp bs (''login:'' @ normalize_login_name_soft (pl_login_name q)),
      rate_key dp bs (''ip:'' @ bounded_identifier (pl_ip_address q) ''unknown'')]"

definition find_credential :: "auth_db \<Rightarrow> string \<Rightarrow> credential_row option" where
  "find_credential a name = (if is_login_name name then credential_by_login a name else None)"

text \<open>\<open>beforeInsert\<close>: neither the user nor the credential changed while the key was derived.\<close>

definition same_credential ::
  "user_row \<Rightarrow> string \<Rightarrow> string \<Rightarrow> auth_db \<Rightarrow> unit result" where
  "same_credential u name hash a =
     (case (user_get a (u_id u), credential_by_login a name) of
        (Some v, Some c) \<Rightarrow>
          if u_status v = Active \<and> u_security_version v = u_security_version u \<and>
             cr_user_id c = u_id u \<and> cr_password_hash c = hash
          then Inr () else Inl (AppError ''INVALID_CREDENTIALS'' 401)
      | _ \<Rightarrow> Inl (AppError ''INVALID_CREDENTIALS'' 401))"

definition failure_audit :: "auth_deps \<Rightarrow> browser_auth \<Rightarrow> password_login \<Rightarrow> timestamp \<Rightarrow> audit_row" where
  "failure_audit dp bs q now =
     \<lparr>au_actor_type = ActorPassword,
      au_actor_id = take 24 (rate_key dp bs (''audit:'' @ normalize_login_name_soft (pl_login_name q))),
      au_action = ''auth.login'', au_target_type = ''user'', au_target_id = ''unmatched'',
      au_result = ''failure'',
      au_ip_address = Some (bounded_identifier (pl_ip_address q) ''unknown''), au_user_agent = None,
      au_metadata = [(''code'', JStr ''INVALID_CREDENTIALS'')], au_created_at = now\<rparr>"

definition refuse_login :: "auth_deps \<Rightarrow> browser_auth \<Rightarrow> password_login \<Rightarrow> timestamp \<Rightarrow> auth_db \<Rightarrow>
  created_session result \<times> auth_db" where
  "refuse_login dp bs q now a =
     (case record_login_failure (login_keys dp bs q) now a of
        Inl e \<Rightarrow> (Inl e, a)
      | Inr (_, a') \<Rightarrow> (Inl (AppError ''INVALID_CREDENTIALS'' 401), audit_a (failure_audit dp bs q now) a'))"

text \<open>After the derivation: \<open>valid\<close> is its outcome, \<open>hash\<close> the text it was compared with.\<close>

definition finish_login :: "auth_deps \<Rightarrow> browser_auth \<Rightarrow> timestamp \<Rightarrow> string \<Rightarrow> string \<Rightarrow> password_login \<Rightarrow>
  credential_row option \<Rightarrow> user_row option \<Rightarrow> string \<Rightarrow> bool \<Rightarrow> auth_db \<Rightarrow>
  created_session result \<times> auth_db" where
  "finish_login dp bs now token csrf q credential user hash valid a =
     (case (credential, user) of
        (Some c, Some u) \<Rightarrow>
          if \<not> valid \<or> u_status u \<noteq> Active then refuse_login dp bs q now a
          else (case create_session dp bs now token csrf u Password None None
              (Some (session_audit_context (Some (pl_request q))
                (Some (bounded_identifier (pl_ip_address q) ''unknown''))))
              (same_credential u (normalize_login_name_soft (pl_login_name q)) hash) a of
             Inl e \<Rightarrow> if e = AppError ''INVALID_CREDENTIALS'' 401 then refuse_login dp bs q now a
               else (Inl e, a)
           | Inr (s, a') \<Rightarrow>
               (Inr s, logout dp now (pl_request q)
                 (clear_login_attempts [hd (login_keys dp bs q)] a')))
      | _ \<Rightarrow> refuse_login dp bs q now a)"

definition login_password :: "auth_deps \<Rightarrow> browser_auth \<Rightarrow> timestamp \<Rightarrow> timestamp \<Rightarrow>
  (auth_db \<Rightarrow> auth_db) \<Rightarrow> nat \<Rightarrow> string \<Rightarrow> string \<Rightarrow> password_login \<Rightarrow> auth_db \<Rightarrow>
  created_session result \<times> auth_db" where
  "login_password dp bs start now between busy token csrf q a =
     (if \<not> enabled bs Password \<or> ba_pepper bs = None
      then (Inl (AppError ''AUTH_MODE_MISMATCH'' 404), a)
      else (case bind_r (require_exact_origin bs (pl_request q))
                  (\<lambda>_. assert_not_rate_limited (login_keys dp bs q) start a) of
          Inl e \<Rightarrow> (Inl e, a)
        | Inr _ \<Rightarrow>
            (let credential = find_credential a (normalize_login_name_soft (pl_login_name q));
                 user = Option.bind credential (\<lambda>c. user_get a (cr_user_id c));
                 hash = coalesce (coalesce_opt (map_option cr_password_hash credential)
                   (ba_dummy_hash bs)) [] in
             case verify_password dp bs busy (pl_password q) hash of
               Inl e \<Rightarrow> (Inl e, between a)
             | Inr valid \<Rightarrow>
                 finish_login dp bs now token csrf q credential user hash valid (between a))))"

definition create_password_credential :: "auth_deps \<Rightarrow> browser_auth \<Rightarrow> nat \<Rightarrow> string \<Rightarrow> string \<Rightarrow>
  string \<Rightarrow> string \<Rightarrow> timestamp \<Rightarrow> unit atx" where
  "create_password_credential dp bs busy salt user name password ts a =
     (if \<not> enabled bs Password then Inl (AppError ''AUTH_MODE_MISMATCH'' 409)
      else bind_r (normalize_login_name name) (\<lambda>n.
        bind_r (hash_password dp bs busy salt password n) (\<lambda>h.
          upsert_credential \<lparr>cr_user_id = user, cr_login_name = n, cr_password_hash = h,
            cr_password_updated_at = ts\<rparr> a)))"

end
