(* ===== verification/Api_Keys.thy ===== *)
theory Api_Keys
  imports Browser_Logins
begin

text \<open>
  The service of the API keys (packages/auth/src/index.ts) and who may use the administration
  interface (apps/admin-api/src/auth/actor.ts, \<open>parseBearer\<close> of packages/shared). The keyed hash
  of the secrets and the random texts of a new key are parameters.
\<close>

section \<open>Keys\<close>

record key_service =
  ks_pepper :: "string \<Rightarrow> string option"
  ks_active :: string
  ks_hmac :: "string \<Rightarrow> string \<Rightarrow> string"

definition new_key_service ::
  "(string \<Rightarrow> string option) \<Rightarrow> string \<Rightarrow> (string \<Rightarrow> string \<Rightarrow> string) \<Rightarrow> key_service result" where
  "new_key_service peppers active_id hmac =
     (if peppers active_id = None then Inl (AppError ''PEPPER_CONFIG_INVALID'' 500)
      else Inr \<lparr>ks_pepper = peppers, ks_active = active_id, ks_hmac = hmac\<rparr>)"

definition hash_secret :: "key_service \<Rightarrow> string \<Rightarrow> string \<Rightarrow> string result" where
  "hash_secret ks secret pepper = (case ks_pepper ks pepper of
     None \<Rightarrow> Inl (AppError ''PEPPER_NOT_FOUND'' 500) | Some p \<Rightarrow> Inr (ks_hmac ks p secret))"

text \<open>\<open>Buffer.from(text, "hex")\<close> stops at the first pair that is no byte.\<close>

definition hex_value :: "char \<Rightarrow> nat option" where
  "hex_value c = (if is_digit c then Some (ord_of c - 48)
     else if 97 \<le> ord_of c \<and> ord_of c \<le> 102 then Some (ord_of c - 87)
     else if 65 \<le> ord_of c \<and> ord_of c \<le> 70 then Some (ord_of c - 55) else None)"

fun hex_bytes :: "string \<Rightarrow> nat list" where
  "hex_bytes (a # b # s) = (case (hex_value a, hex_value b) of
     (Some x, Some y) \<Rightarrow> (16 * x + y) # hex_bytes s | _ \<Rightarrow> [])"
| "hex_bytes _ = []"

definition verify_secret :: "key_service \<Rightarrow> string \<Rightarrow> string \<Rightarrow> string \<Rightarrow> bool result" where
  "verify_secret ks secret expected pepper =
     bind_r (hash_secret ks secret pepper) (\<lambda>h. Inr (hex_bytes h = hex_bytes expected))"

fun kind_prefix :: "key_kind \<Rightarrow> string" where
  "kind_prefix RenderKey = ''lrk''"
| "kind_prefix AdminKey = ''lra''"

definition key_prefix :: "key_kind \<Rightarrow> string \<Rightarrow> string" where
  "key_prefix kind i = kind_prefix kind @ CHR ''_'' # i"

definition key_token :: "key_kind \<Rightarrow> string \<Rightarrow> string \<Rightarrow> string" where
  "key_token kind i secret = key_prefix kind i @ CHR ''_'' # secret"

record generated_key =
  gk_token :: string
  gk_id :: string
  gk_prefix :: string
  gk_kind :: key_kind
  gk_secret_hash :: string
  gk_pepper_id :: string

definition create_key :: "key_service \<Rightarrow> string \<Rightarrow> string \<Rightarrow> key_kind \<Rightarrow> generated_key result" where
  "create_key ks i secret kind =
     bind_r (hash_secret ks secret (ks_active ks)) (\<lambda>h.
       Inr \<lparr>gk_token = key_token kind i secret, gk_id = ''key_'' @ i, gk_prefix = key_prefix kind i,
            gk_kind = kind, gk_secret_hash = h, gk_pepper_id = ks_active ks\<rparr>)"

text \<open>\<open>^(lrk|lra)_([a-f0-9]{32})_([A-Za-z0-9_-]{43})$\<close>; the parts have fixed lengths.\<close>

definition parse_key :: "string \<Rightarrow> (key_kind \<times> string \<times> string) option" where
  "parse_key token =
     (let i = take 32 (drop 4 token); secret = drop 37 token;
          kind = (if take 3 token = ''lrk'' then Some RenderKey
            else if take 3 token = ''lra'' then Some AdminKey else None) in
      case kind of None \<Rightarrow> None
      | Some k \<Rightarrow>
          if length token = 80 \<and> token ! 3 = CHR ''_'' \<and> token ! 36 = CHR ''_'' \<and>
             list_all is_hex i \<and> is_secret secret
          then Some (k, i, secret) else None)"

record key_identity =
  ki_api_key_id :: string
  ki_service_account_id :: string
  ki_user_id :: string
  ki_user_security_version :: nat
  ki_account_security_version :: nat
  ki_scopes :: "string list"
  ki_kind :: key_kind

definition key_scopes :: "key_row \<Rightarrow> string list result" where
  "key_scopes k = (case k_scopes k of
     None \<Rightarrow> Inl PlainError
   | Some v \<Rightarrow> (case string_array v of
       None \<Rightarrow> Inl (AppError ''INVALID_SCOPE_DATA'' 500) | Some ss \<Rightarrow> Inr ss))"

text \<open>What is checked of the row with its owners, after the secret.\<close>

definition key_usable :: "key_owner \<Rightarrow> timestamp \<Rightarrow> string option \<Rightarrow> string list result" where
  "key_usable = (\<lambda>(k, s, u) now required.
     if k_revoked_at k \<noteq> None \<or> \<not> unexpired (k_expires_at k) now
     then Inl (AppError ''API_KEY_INACTIVE'' 401)
     else if a_status s \<noteq> Active \<or> u_status u \<noteq> Active then Inl (AppError ''ACCOUNT_DISABLED'' 403)
     else bind_r (key_scopes k) (\<lambda>scopes.
       if (case required of None \<Rightarrow> False
           | Some r \<Rightarrow> r \<notin> set scopes \<and> ''admin:*'' \<notin> set scopes)
       then Inl (AppError ''INSUFFICIENT_SCOPE'' 403) else Inr scopes))"

definition authenticate_key ::
  "key_service \<Rightarrow> string \<Rightarrow> string option \<Rightarrow> timestamp \<Rightarrow> key_identity tx" where
  "authenticate_key ks token required now d =
     (case parse_key token of
        None \<Rightarrow> Inl (AppError ''INVALID_API_KEY'' 401)
      | Some (kind, i, secret) \<Rightarrow>
          (case key_owner d (''key_'' @ i) of
             None \<Rightarrow> Inl (AppError ''INVALID_API_KEY'' 401)
           | Some (k, s, u) \<Rightarrow>
               if k_kind k \<noteq> kind \<or> k_prefix k \<noteq> key_prefix kind i
               then Inl (AppError ''INVALID_API_KEY'' 401)
               else bind_r (verify_secret ks secret (k_secret_hash k) (k_pepper_id k)) (\<lambda>ok.
                 if \<not> ok then Inl (AppError ''INVALID_API_KEY'' 401)
                 else bind_r (key_usable (k, s, u) now required) (\<lambda>scopes.
                   Inr (\<lparr>ki_api_key_id = k_id k, ki_service_account_id = a_id s,
                         ki_user_id = u_id u, ki_user_security_version = u_security_version u,
                         ki_account_security_version = a_security_version s, ki_scopes = scopes,
                         ki_kind = kind\<rparr>,
                     snd (update_keys (\<lambda>r. k_id r = k_id k) (\<lambda>r. r\<lparr>k_last_used_at := Some now\<rparr>) d))))))"

section \<open>Bearer credentials\<close>

text \<open>\<open>^[ \t]*Bearer +([A-Za-z0-9._~+/-]+=*)[ \t]*$\<close>, the scheme in any case.\<close>

definition blank :: "char \<Rightarrow> bool" where
  "blank c \<longleftrightarrow> c = CHR '' '' \<or> ord_of c = 9"

definition token_char :: "char \<Rightarrow> bool" where
  "token_char c \<longleftrightarrow> is_alnum c \<or> c \<in> set ''._~+/-''"

definition is_token68 :: "string \<Rightarrow> bool" where
  "is_token68 s \<longleftrightarrow> takeWhile token_char s \<noteq> [] \<and>
     list_all (\<lambda>c. c = CHR ''='') (dropWhile token_char s)"

definition parse_bearer :: "string option \<Rightarrow> string result" where
  "parse_bearer header =
     (case header of None \<Rightarrow> Inl (AppError ''UNAUTHORIZED'' 401)
      | Some h \<Rightarrow>
          (let s = rev (dropWhile blank (rev (dropWhile blank h)));
               rest = drop 6 s; token = dropWhile (\<lambda>c. c = CHR '' '') rest in
           if lower (take 6 s) = ''bearer'' \<and> starts_with '' '' rest \<and> is_token68 token
           then Inr token else Inl (AppError ''UNAUTHORIZED'' 401)))"

section \<open>Actors\<close>

record app_actor =
  aa_type :: actor
  aa_id :: string
  aa_role :: role
  aa_user_id :: string

definition administrative :: "user_row \<Rightarrow> bool" where
  "administrative u \<longleftrightarrow> u_status u = Active \<and> (u_role u = Owner \<or> u_role u = Admin)"

definition key_actor ::
  "key_service \<Rightarrow> string option \<Rightarrow> string \<Rightarrow> timestamp \<Rightarrow> db \<Rightarrow> app_actor result \<times> db" where
  "key_actor ks header scope now d =
     (case bind_r (parse_bearer header) (\<lambda>t. authenticate_key ks t (Some scope) now d) of
        Inl e \<Rightarrow> (Inl e, d)
      | Inr (k, d') \<Rightarrow>
          if ki_kind k \<noteq> AdminKey then (Inl (AppError ''ADMIN_KEY_REQUIRED'' 403), d')
          else (case get_user d' (ki_user_id k) of
              None \<Rightarrow> (Inl (AppError ''ADMIN_FORBIDDEN'' 403), d')
            | Some u \<Rightarrow>
                if administrative u
                then (Inr \<lparr>aa_type = ActorAdminKey, aa_id = ki_api_key_id k, aa_role = u_role u,
                           aa_user_id = ki_user_id k\<rparr>, d')
                else (Inl (AppError ''ADMIN_FORBIDDEN'' 403), d')))"

text \<open>A browser request, which must carry the CSRF token where it changes something.\<close>

definition browser_actor :: "auth_deps \<Rightarrow> browser_auth \<Rightarrow> timestamp \<Rightarrow>
  (string \<Rightarrow> external_identity result) \<Rightarrow> (user_row \<Rightarrow> bool) \<Rightarrow> app_error \<Rightarrow> bool \<Rightarrow> headers \<Rightarrow>
  auth_db \<Rightarrow> app_actor result \<times> auth_db" where
  "browser_actor dp bs now verify permitted refusal mutation request a =
     (case authenticate dp bs now verify request a of
        (Inl e, a') \<Rightarrow> (Inl e, a')
      | (Inr p, a') \<Rightarrow>
          (case (if mutation then require_mutation_csrf dp bs request p else Inr ()) of
             Inl e \<Rightarrow> (Inl e, a')
           | Inr _ \<Rightarrow>
               if permitted (bp_user p)
               then (Inr \<lparr>aa_type = ActorUser, aa_id = u_id (bp_user p), aa_role = u_role (bp_user p),
                          aa_user_id = u_id (bp_user p)\<rparr>, a')
               else (Inl refusal, a')))"

definition require_actor :: "key_service \<Rightarrow> auth_deps \<Rightarrow> browser_auth \<Rightarrow> timestamp \<Rightarrow>
  (string \<Rightarrow> external_identity result) \<Rightarrow> string \<Rightarrow> bool \<Rightarrow> headers \<Rightarrow> auth_db \<Rightarrow>
  app_actor result \<times> auth_db" where
  "require_actor ks dp bs now verify scope mutation request a =
     (if request ''Authorization'' \<noteq> None
      then (case key_actor ks (request ''Authorization'') scope now (shared a) of
          (r, d) \<Rightarrow> (r, a\<lparr>shared := d\<rparr>))
      else browser_actor dp bs now verify administrative (AppError ''ADMIN_FORBIDDEN'' 403) mutation
        request a)"

definition require_owner_actor :: "key_service \<Rightarrow> auth_deps \<Rightarrow> browser_auth \<Rightarrow> timestamp \<Rightarrow>
  (string \<Rightarrow> external_identity result) \<Rightarrow> string \<Rightarrow> bool \<Rightarrow> headers \<Rightarrow> auth_db \<Rightarrow>
  app_actor result \<times> auth_db" where
  "require_owner_actor ks dp bs now verify scope mutation request a =
     (case require_actor ks dp bs now verify scope mutation request a of
        (Inl e, a') \<Rightarrow> (Inl e, a')
      | (Inr x, a') \<Rightarrow> if aa_role x \<noteq> Owner then (Inl (AppError ''OWNER_REQUIRED'' 403), a')
          else (Inr x, a'))"

definition require_app_actor :: "auth_deps \<Rightarrow> browser_auth \<Rightarrow> timestamp \<Rightarrow>
  (string \<Rightarrow> external_identity result) \<Rightarrow> bool \<Rightarrow> headers \<Rightarrow> auth_db \<Rightarrow>
  app_actor result \<times> auth_db" where
  "require_app_actor dp bs now verify =
     browser_actor dp bs now verify (\<lambda>u. u_status u = Active) (AppError ''APP_FORBIDDEN'' 403)"

end
