(* ===== verification/Redaction.thy ===== *)
theory Redaction
  imports White_Space
begin

text \<open>
  The redaction of secrets in the reasons that administrators give (\<open>redactAuditReason\<close>,
  apps/admin-api/src/services/users.ts): four patterns, replaced one after another everywhere. Every
  pattern starts at a word boundary with a word character; a matcher gives the length of the match
  at the start of a text, which is what is left of the reason there.
\<close>

definition word_char :: "char \<Rightarrow> bool" where
  "word_char c \<longleftrightarrow> is_alnum c \<or> c = CHR ''_''"

text \<open>\<open>\b\<close> between the first \<open>n\<close> characters, of which there is one, and the others.\<close>

definition boundary_at :: "string \<Rightarrow> nat \<Rightarrow> bool" where
  "boundary_at s n \<longleftrightarrow> word_char (s ! (n - 1)) \<noteq> (n < length s \<and> word_char (s ! n))"

text \<open>\<open>[p]{least,}\b\<close> after the first \<open>skip\<close> characters: greedy, giving back up to a boundary.\<close>

definition run_to_boundary :: "(char \<Rightarrow> bool) \<Rightarrow> nat \<Rightarrow> nat \<Rightarrow> nat \<Rightarrow> string \<Rightarrow> nat option" where
  "run_to_boundary p skip least most s =
     (let run = min most (length (takeWhile p (drop skip s))) in
      find (\<lambda>n. boundary_at s n) (rev (map (\<lambda>k. skip + k) [least..<run + 1])))"

definition match_jwt :: "string \<Rightarrow> nat option" where
  "match_jwt s =
     (let h = length (takeWhile url_safe (drop 3 s)); i = 3 + h + 1;
          p = length (takeWhile url_safe (drop i s)); j = i + p + 1 in
      if starts_with ''eyJ'' s \<and> 5 \<le> h \<and> starts_with ''.'' (drop (3 + h) s) \<and>
         1 \<le> p \<and> starts_with ''.'' (drop (i + p) s)
      then run_to_boundary url_safe j 1 (length s) s else None)"

definition match_api_token :: "string \<Rightarrow> nat option" where
  "match_api_token s =
     (if lower (take 4 s) \<in> {''lra_'', ''lrk_''} then run_to_boundary url_safe 4 4 (length s) s else None)"

definition match_bearer :: "string \<Rightarrow> nat option" where
  "match_bearer s =
     (let spaces = length (takeWhile is_space (drop 6 s));
          rest = length (takeWhile (\<lambda>c. \<not> is_space c) (drop (6 + spaces) s)) in
      if lower (take 6 s) = ''bearer'' \<and> 1 \<le> spaces \<and> 1 \<le> rest then Some (6 + spaces + rest) else None)"

definition match_otp :: "string \<Rightarrow> nat option" where
  "match_otp s = run_to_boundary is_digit 0 6 8 s"

text \<open>\<open>replace\<close> with a global pattern: \<open>before\<close> is whether a word character precedes.\<close>

function replace_all :: "(string \<Rightarrow> nat option) \<Rightarrow> string \<Rightarrow> bool \<Rightarrow> string \<Rightarrow> string" where
  "replace_all m replacement before [] = []"
| "replace_all m replacement before (c # s) =
     (case (if before then None else m (c # s)) of
        Some (Suc n) \<Rightarrow> replacement @ replace_all m replacement (word_char ((c # s) ! n)) (drop n s)
      | _ \<Rightarrow> c # replace_all m replacement (word_char c) s)"
  by pat_completeness auto
termination by (relation "measure (\<lambda>(m, r, b, s). length s)") auto

definition redact_audit_reason :: "string \<Rightarrow> string" where
  "redact_audit_reason reason =
     replace_all match_otp ''[REDACTED_OTP]'' False
       (replace_all match_bearer ''Bearer [REDACTED_TOKEN]'' False
         (replace_all match_api_token ''[REDACTED_API_TOKEN]'' False
           (replace_all match_jwt ''[REDACTED_JWT]'' False reason)))"

lemma redaction_examples:
  "redact_audit_reason ''key lrk_abcd-efgh gone'' = ''key [REDACTED_API_TOKEN] gone''"
  "redact_audit_reason ''otp 123456, not 12345'' = ''otp [REDACTED_OTP], not 12345''"
  "redact_audit_reason ''bearer   abc eyJabcde.f.g'' = ''Bearer [REDACTED_TOKEN] [REDACTED_JWT]''"
  by code_simp+

end
