(* ===== verification/Admin_Accounts.thy ===== *)
theory Admin_Accounts
  imports Api_Keys Redaction
begin

text \<open>
  The administration of users, service accounts and API keys (apps/admin-api/src/services: users.ts,
  service-accounts.ts, api-keys.ts). The random identifiers of a call are arguments. Where a call
  waits for a key derivation, \<open>between\<close> is what others commit meanwhile.
\<close>

definition admin_audit :: "app_actor \<Rightarrow> string \<Rightarrow> string \<Rightarrow> string \<Rightarrow> (string \<times> json) list \<Rightarrow>
  timestamp \<Rightarrow> audit_row" where
  "admin_audit actor action type i metadata now =
     \<lparr>au_actor_type = aa_type actor, au_actor_id = aa_id actor, au_action = action,
      au_target_type = type, au_target_id = i, au_result = ''success'', au_ip_address = None,
      au_user_agent = None, au_metadata = metadata, au_created_at = now\<rparr>"

fun role_text :: "role \<Rightarrow> string" where
  "role_text User = ''user''"
| "role_text Admin = ''admin''"
| "role_text Owner = ''owner''"

section \<open>Users\<close>

text \<open>A snapshot is the row with the identities and the credential of the user.\<close>

type_synonym user_snapshot = "user_row \<times> identity_row list \<times> (string \<times> timestamp) option"

definition snapshot :: "auth_db \<Rightarrow> user_row \<Rightarrow> user_snapshot" where
  "snapshot a u = (u, identities_for_user a (u_id u),
     map_option (\<lambda>c. (cr_login_name c, cr_password_updated_at c)) (credential_for_user a (u_id u)))"

definition admin_users_page :: "string option \<Rightarrow> auth_db \<Rightarrow> (timestamp \<times> string) option \<Rightarrow> nat \<Rightarrow>
  user_snapshot list \<times> (user_row, timestamp \<times> string) page \<times> nat" where
  "admin_users_page query a c limit =
     (let p = users_page query (shared a) c limit in (map (snapshot a) (items (fst p)), p))"

definition admin_get_user :: "string \<Rightarrow> auth_db \<Rightarrow> user_snapshot result" where
  "admin_get_user i a = (case user_get a i of
     None \<Rightarrow> Inl (AppError ''USER_NOT_FOUND'' 404) | Some u \<Rightarrow> Inr (snapshot a u))"

datatype authentication = External string "string option" "string option" | ByPassword string string

record new_user =
  nu_email :: "string option"
  nu_display_name :: string
  nu_role :: role
  nu_authentication :: authentication

definition create_user_check :: "browser_auth \<Rightarrow> app_actor \<Rightarrow> new_user \<Rightarrow> auth_db \<Rightarrow> unit result" where
  "create_user_check bs actor q a =
     (if nu_role q = Owner \<and> aa_role actor \<noteq> Owner then Inl (AppError ''OWNER_REQUIRED'' 403)
      else (case nu_authentication q of
          ByPassword name password \<Rightarrow>
            if \<not> enabled bs Password then Inl (AppError ''AUTH_MODE_MISMATCH'' 409)
            else if credential_by_login a name \<noteq> None then Inl (AppError ''LOGIN_NAME_CONFLICT'' 409)
            else Inr ()
        | External subject name email \<Rightarrow>
            (case (ba_provider bs, ba_issuer bs) of
               (Some provider, Some issuer) \<Rightarrow>
                 if find_identity a provider issuer subject \<noteq> None
                 then Inl (AppError ''IDENTITY_CONFLICT'' 409) else Inr ()
             | (None, _) \<Rightarrow> Inl (AppError ''AUTH_MODE_MISMATCH'' 409)
             | _ \<Rightarrow> Inr ())))"

text \<open>
  \<open>mapLoginNameConflict\<close>: the CHECKs of a credential are looked at before the uniqueness of its
  login name, whose violation gets its own error.
\<close>

definition upsert_mapped :: "credential_row \<Rightarrow> unit atx" where
  "upsert_mapped c a =
     (if credential_columns c \<and> login_taken c a then Inl (AppError ''LOGIN_NAME_CONFLICT'' 409)
      else upsert_credential c a)"

record new_user_ids =
  ni_user :: string
  ni_identity :: string
  ni_account :: string
  ni_key :: string

definition add_authentication :: "browser_auth \<Rightarrow> new_user_ids \<Rightarrow> authentication \<Rightarrow> string \<Rightarrow>
  timestamp \<Rightarrow> unit atx" where
  "add_authentication bs ids auth hash now a =
     (case auth of
        ByPassword name password \<Rightarrow>
          upsert_mapped \<lparr>cr_user_id = ni_user ids, cr_login_name = name, cr_password_hash = hash,
            cr_password_updated_at = now\<rparr> a
      | External subject name email \<Rightarrow>
          bind_r (create_external_identity bs (ni_identity ids) (ni_user ids) subject email name now a)
            (\<lambda>(_, a'). Inr ((), a')))"

definition create_user_tx :: "browser_auth \<Rightarrow> app_actor \<Rightarrow> new_user \<Rightarrow> string \<Rightarrow> new_user_ids \<Rightarrow>
  timestamp \<Rightarrow> unit atx" where
  "create_user_tx bs actor q hash ids now =
     bind_a (shared_tx (insert_invitation (ni_user ids) (nu_email q) (nu_display_name q) (nu_role q)
       (aa_id actor) now)) (\<lambda>_.
     bind_a (add_authentication bs ids (nu_authentication q) hash now) (\<lambda>_.
     bind_a (ensure_web_principal (ni_user ids) (ni_account ids) (ni_key ids) now) (\<lambda>_ a.
       Inr ((), audit_a (admin_audit actor ''user.created'' ''user'' (ni_user ids)
         [(''role'', JStr (role_text (nu_role q))),
          (''authenticationType'', JStr (case nu_authentication q of
             External s n e \<Rightarrow> ''external'' | ByPassword n p \<Rightarrow> ''password''))] now) a))))"

definition create_user :: "auth_deps \<Rightarrow> browser_auth \<Rightarrow> nat \<Rightarrow> string \<Rightarrow> (auth_db \<Rightarrow> auth_db) \<Rightarrow>
  app_actor \<Rightarrow> new_user \<Rightarrow> new_user_ids \<Rightarrow> timestamp \<Rightarrow> auth_db \<Rightarrow> string result \<times> auth_db" where
  "create_user dp bs busy salt between actor q ids now a =
     (case create_user_check bs actor q a of
        Inl e \<Rightarrow> (Inl e, a)
      | Inr _ \<Rightarrow>
          (let (hash, a1) = (case nu_authentication q of
                 ByPassword name password \<Rightarrow> (hash_password dp bs busy salt password name, between a)
               | External s n e \<Rightarrow> (Inr [], a)) in
           kept a1 (bind_r hash (\<lambda>h.
             bind_r (create_user_tx bs actor q h ids now a1) (\<lambda>(_, a2). Inr (ni_user ids, a2))))))"

definition unlink_identity :: "app_actor \<Rightarrow> string \<Rightarrow> string \<Rightarrow> string \<Rightarrow> timestamp \<Rightarrow> unit atx" where
  "unlink_identity actor i identity reason now a =
     (if aa_role actor \<noteq> Owner then Inl (AppError ''OWNER_REQUIRED'' 403)
      else if aa_user_id actor = i then Inl (AppError ''SELF_IDENTITY_UNLINK_REJECTED'' 409)
      else bind_r (admin_get_user i a) (\<lambda>_.
        case find (\<lambda>c. id_id c = identity) (identities_for_user a i) of
          None \<Rightarrow> Inl (AppError ''IDENTITY_NOT_FOUND'' 404)
        | Some row \<Rightarrow>
            (case delete_identity i identity (snd (revoke_user_sessions i now a)) of
               (n, a1) \<Rightarrow>
                 if n \<noteq> 1 then Inl (AppError ''IDENTITY_CONFLICT'' 409)
                 else Inr ((), audit_a (admin_audit actor ''user.identity_unlinked'' ''user'' i
                     [(''reason'', JStr (redact_audit_reason reason)), (''identityId'', JStr identity),
                      (''provider'', JStr (mode_text (id_provider row))),
                      (''issuer'', JStr (id_issuer row))] now)
                   (a1\<lparr>shared := snd (increment_security_version i now (shared a1))\<rparr>)))))"

definition reset_password_tx :: "app_actor \<Rightarrow> string \<Rightarrow> string \<Rightarrow> string \<Rightarrow> string \<Rightarrow> timestamp \<Rightarrow>
  unit atx" where
  "reset_password_tx actor i name hash reason now a =
     bind_r (upsert_mapped \<lparr>cr_user_id = i, cr_login_name = name, cr_password_hash = hash,
         cr_password_updated_at = now\<rparr> a) (\<lambda>(_, a1).
       let a2 = a1\<lparr>shared := snd (increment_security_version i now (shared a1))\<rparr>;
           a3 = snd (revoke_user_sessions i now a2) in
       Inr ((), audit_a (admin_audit actor ''user.password_reset'' ''user'' i
         [(''reason'', JStr (redact_audit_reason reason))] now) a3))"

definition reset_password_check ::
  "browser_auth \<Rightarrow> app_actor \<Rightarrow> string \<Rightarrow> string \<Rightarrow> auth_db \<Rightarrow> unit result" where
  "reset_password_check bs actor i name a =
     (if aa_role actor \<noteq> Owner then Inl (AppError ''OWNER_REQUIRED'' 403)
      else if \<not> enabled bs Password then Inl (AppError ''AUTH_MODE_MISMATCH'' 409)
      else bind_r (admin_get_user i a) (\<lambda>_.
        case credential_by_login a name of
          Some c \<Rightarrow> if cr_user_id c \<noteq> i then Inl (AppError ''LOGIN_NAME_CONFLICT'' 409) else Inr ()
        | None \<Rightarrow> Inr ()))"

definition reset_password :: "auth_deps \<Rightarrow> browser_auth \<Rightarrow> nat \<Rightarrow> string \<Rightarrow> (auth_db \<Rightarrow> auth_db) \<Rightarrow>
  app_actor \<Rightarrow> string \<Rightarrow> string \<Rightarrow> string \<Rightarrow> string \<Rightarrow> timestamp \<Rightarrow> auth_db \<Rightarrow>
  unit result \<times> auth_db" where
  "reset_password dp bs busy salt between actor i name password reason now a =
     (case reset_password_check bs actor i name a of
        Inl e \<Rightarrow> (Inl e, a)
      | Inr _ \<Rightarrow> kept (between a) (bind_r (hash_password dp bs busy salt password name) (\<lambda>h.
          reset_password_tx actor i name h reason now (between a))))"

definition change_user_status :: "app_actor \<Rightarrow> string \<Rightarrow> bool \<Rightarrow> timestamp \<Rightarrow> account_status atx" where
  "change_user_status actor i disable now a =
     (let status = (if disable then Disabled else Active) in
      bind_r (admin_get_user i a) (\<lambda>(target, _).
        if u_role target = Owner \<and> disable \<and> aa_role actor \<noteq> Owner
        then Inl (AppError ''OWNER_REQUIRED'' 403)
        else if u_role target = Owner \<and> disable \<and> count_active_owners (shared a) \<le> 1
        then Inl (AppError ''LAST_OWNER'' 409)
        else (case set_user_status i status now (shared a) of
            (n, d) \<Rightarrow>
              if n \<noteq> 1 then Inl (AppError ''USER_NOT_FOUND'' 404)
              else Inr (status, audit_a (admin_audit actor
                (if disable then ''user.disabled'' else ''user.enabled'') ''user'' i [] now)
                (a\<lparr>shared := d\<rparr>)))))"

definition changes_metadata :: "user_changes \<Rightarrow> (string \<times> json) list" where
  "changes_metadata c =
     (case uc_email c of None \<Rightarrow> [] | Some None \<Rightarrow> [(''email'', JNull)] | Some (Some e) \<Rightarrow> [(''email'', JStr e)]) @
     (case uc_display_name c of None \<Rightarrow> [] | Some n \<Rightarrow> [(''displayName'', JStr n)]) @
     (case uc_role c of None \<Rightarrow> [] | Some r \<Rightarrow> [(''role'', JStr (role_text r))])"

definition role_change_allowed :: "app_actor \<Rightarrow> user_row \<Rightarrow> role option \<Rightarrow> db \<Rightarrow> unit result" where
  "role_change_allowed actor target new_role d =
     (case new_role of
        None \<Rightarrow> Inr ()
      | Some r \<Rightarrow>
          if r = u_role target then Inr ()
          else if aa_role actor \<noteq> Owner then Inl (AppError ''OWNER_REQUIRED'' 403)
          else if active_owner target \<and> r \<noteq> Owner \<and> count_active_owners d \<le> 1
          then Inl (AppError ''LAST_OWNER'' 409) else Inr ())"

definition admin_update_user :: "app_actor \<Rightarrow> string \<Rightarrow> user_changes \<Rightarrow> timestamp \<Rightarrow> unit atx" where
  "admin_update_user actor i c now a =
     bind_r (admin_get_user i a) (\<lambda>(target, _).
     bind_r (role_change_allowed actor target (uc_role c) (shared a)) (\<lambda>_.
     bind_r (update_user i c now (shared a)) (\<lambda>(n, d).
       if n \<noteq> 1 then Inl (AppError ''USER_NOT_FOUND'' 404)
       else Inr ((), audit_a (admin_audit actor
         (if uc_role c \<noteq> None then ''user.role_changed'' else ''user.updated'') ''user'' i
         (changes_metadata c) now) (a\<lparr>shared := d\<rparr>)))))"

section \<open>Service accounts\<close>

definition admin_get_account :: "string \<Rightarrow> db \<Rightarrow> account_row result" where
  "admin_get_account i d = (case get_account d i of
     None \<Rightarrow> Inl (AppError ''SERVICE_ACCOUNT_NOT_FOUND'' 404) | Some s \<Rightarrow> Inr s)"

definition require_available_name :: "string \<Rightarrow> string \<Rightarrow> db \<Rightarrow> unit result" where
  "require_available_name owner name d =
     (if account_name_exists d owner name then Inl (AppError ''SERVICE_ACCOUNT_NAME_CONFLICT'' 409)
      else Inr ())"

definition create_account :: "app_actor \<Rightarrow> string \<Rightarrow> string \<Rightarrow> client_type \<Rightarrow> string \<Rightarrow> timestamp \<Rightarrow>
  string tx" where
  "create_account actor owner name client i now =
     seq_tx (guard_tx (\<lambda>d. active_user_exists d owner) (AppError ''USER_NOT_FOUND'' 404)) (\<lambda>_.
     seq_tx (guard_tx (\<lambda>d. count_active_for_owner d owner < 20)
       (AppError ''SERVICE_ACCOUNT_LIMIT'' 429)) (\<lambda>_.
     seq_tx (read_tx (require_available_name owner name)) (\<lambda>_.
     seq_tx (insert_account i owner name client now) (\<lambda>_.
     seq_tx (write_tx (audit (admin_audit actor ''service_account.created'' ''service_account'' i [] now)))
       (\<lambda>_. return_tx i)))))"

definition one_changed :: "(db \<Rightarrow> nat \<times> db) \<Rightarrow> app_error \<Rightarrow> unit tx" where
  "one_changed f e d = (case f d of (n, d') \<Rightarrow> if n \<noteq> 1 then Inl e else Inr ((), d'))"

definition change_account_status :: "app_actor \<Rightarrow> string \<Rightarrow> bool \<Rightarrow> timestamp \<Rightarrow> account_status tx" where
  "change_account_status actor i enable now =
     seq_tx (read_tx (admin_get_account i)) (\<lambda>s.
     seq_tx (guard_tx (\<lambda>d. \<not> (enable \<and> a_status s \<noteq> Active \<and>
         count_active_for_owner d (a_owner_user_id s) \<ge> 20)) (AppError ''SERVICE_ACCOUNT_LIMIT'' 429)) (\<lambda>_.
     seq_tx (one_changed (set_account_status i (if enable then Active else Disabled) now)
       (AppError ''SERVICE_ACCOUNT_NOT_FOUND'' 404)) (\<lambda>_.
     seq_tx (write_tx (audit (admin_audit actor
       (if enable then ''service_account.enabled'' else ''service_account.disabled'')
       ''service_account'' i [] now))) (\<lambda>_. return_tx (if enable then Active else Disabled)))))"

definition account_metadata :: "string option \<Rightarrow> client_type option \<Rightarrow> (string \<times> json) list" where
  "account_metadata name client =
     (case name of None \<Rightarrow> [] | Some n \<Rightarrow> [(''name'', JStr n)]) @
     (case client of None \<Rightarrow> [] | Some c \<Rightarrow> [(''clientType'', JStr (client_type_name c))])"

definition admin_update_account ::
  "app_actor \<Rightarrow> string \<Rightarrow> string option \<Rightarrow> client_type option \<Rightarrow> timestamp \<Rightarrow> unit tx" where
  "admin_update_account actor i name client now =
     seq_tx (read_tx (admin_get_account i)) (\<lambda>s.
     seq_tx (read_tx (\<lambda>d. case name of None \<Rightarrow> Inr () | Some n \<Rightarrow>
       if n = a_name s then Inr () else require_available_name (a_owner_user_id s) n d)) (\<lambda>_.
     seq_tx (update_account i name client now) (\<lambda>n.
     seq_tx (guard_tx (\<lambda>_. n = 1) (AppError ''SERVICE_ACCOUNT_NOT_FOUND'' 404)) (\<lambda>_.
       write_tx (audit (admin_audit actor ''service_account.updated'' ''service_account'' i
         (account_metadata name client) now))))))"

definition delete_account :: "app_actor \<Rightarrow> string \<Rightarrow> timestamp \<Rightarrow> unit tx" where
  "delete_account actor i now =
     seq_tx (one_changed (set_account_status i Disabled now)
       (AppError ''SERVICE_ACCOUNT_NOT_FOUND'' 404)) (\<lambda>_.
     seq_tx (write_tx (\<lambda>d. snd (revoke_account_keys i now d))) (\<lambda>_.
       write_tx (audit (admin_audit actor ''service_account.deleted'' ''service_account'' i [] now))))"

section \<open>API keys\<close>

definition render_scopes :: "string list" where
  "render_scopes = [''render:create'', ''render:read:own'']"

definition admin_scopes :: "string list" where
  "admin_scopes =
     [''admin:users:read'', ''admin:users:write'', ''admin:service-accounts:read'',
      ''admin:service-accounts:write'', ''admin:api-keys:read'', ''admin:api-keys:write'',
      ''admin:jobs:read'', ''admin:jobs:write'', ''admin:system:read'', ''admin:system:write'',
      ''admin:update:read'', ''admin:update:write'', ''admin:tex-environment:read'',
      ''admin:tex-environment:write'', ''admin:audit:read'', ''admin:*'']"

definition kind_of_scopes :: "string list \<Rightarrow> key_kind result" where
  "kind_of_scopes scopes =
     (if scopes = [] \<or> \<not> distinct scopes then Inl (AppError ''INVALID_SCOPES'' 400)
      else if set scopes \<subseteq> set render_scopes then Inr RenderKey
      else if set scopes \<subseteq> set admin_scopes then Inr AdminKey
      else Inl (AppError ''INVALID_SCOPES'' 400))"

definition admin_get_key :: "string \<Rightarrow> db \<Rightarrow> key_row result" where
  "admin_get_key i d = (case get_key d i of
     None \<Rightarrow> Inl (AppError ''API_KEY_NOT_FOUND'' 404) | Some k \<Rightarrow> Inr k)"

definition new_key_row :: "generated_key \<Rightarrow> string \<Rightarrow> string \<Rightarrow> string list \<Rightarrow> timestamp option \<Rightarrow>
  timestamp \<Rightarrow> string \<Rightarrow> key_row" where
  "new_key_row g account name scopes expires now by =
     \<lparr>k_id = gk_id g, k_service_account_id = account, k_name = name, k_prefix = gk_prefix g,
      k_kind = gk_kind g, k_secret_hash = gk_secret_hash g, k_pepper_id = gk_pepper_id g,
      k_scopes = Some (JArr (map JStr scopes)), k_expires_at = expires, k_last_used_at = None,
      k_revoked_at = None, k_created_at = now, k_created_by = by\<rparr>"

text \<open>\<open>i\<close> and \<open>secret\<close> are the random texts of the new key.\<close>

definition admin_create_key :: "key_service \<Rightarrow> app_actor \<Rightarrow> string \<Rightarrow> string \<Rightarrow> string list \<Rightarrow>
  timestamp option \<Rightarrow> string \<Rightarrow> string \<Rightarrow> timestamp \<Rightarrow> generated_key tx" where
  "admin_create_key ks actor account name scopes expires i secret now =
     seq_tx (read_tx (\<lambda>_. kind_of_scopes scopes)) (\<lambda>kind.
     seq_tx (guard_tx (\<lambda>_. kind = RenderKey \<or> aa_role actor = Owner)
       (AppError ''OWNER_REQUIRED'' 403)) (\<lambda>_.
     seq_tx (guard_tx (\<lambda>d. active_account_exists d account)
       (AppError ''SERVICE_ACCOUNT_NOT_FOUND'' 404)) (\<lambda>_.
     seq_tx (read_tx (\<lambda>_. create_key ks i secret kind)) (\<lambda>g.
     seq_tx (insert_key (new_key_row g account name scopes expires now (aa_id actor))) (\<lambda>_.
     seq_tx (write_tx (audit (admin_audit actor ''api_key.created'' ''api_key'' (gk_id g)
       [(''prefix'', JStr (gk_prefix g)), (''scopes'', JArr (map JStr scopes))] now))) (\<lambda>_.
       return_tx g))))))"

definition admin_revoke_key :: "app_actor \<Rightarrow> string \<Rightarrow> timestamp \<Rightarrow> unit tx" where
  "admin_revoke_key actor i now =
     seq_tx (read_tx (admin_get_key i)) (\<lambda>k.
     seq_tx (guard_tx (\<lambda>_. k_revoked_at k = None) (AppError ''API_KEY_NOT_FOUND'' 404)) (\<lambda>_.
     seq_tx (write_tx (\<lambda>d. snd (revoke_key i now d))) (\<lambda>_.
       write_tx (audit (admin_audit actor ''api_key.revoked'' ''api_key'' i [] now)))))"

text \<open>The checks before the transaction, and the transaction, which looks at the row again.\<close>

definition rotate_check :: "app_actor \<Rightarrow> key_row \<Rightarrow> timestamp \<Rightarrow> string list result" where
  "rotate_check actor old now =
     (if k_revoked_at old \<noteq> None then Inl (AppError ''API_KEY_NOT_FOUND'' 404)
      else if \<not> unexpired (k_expires_at old) now then Inl (AppError ''API_KEY_EXPIRED'' 409)
      else bind_r (key_scopes old) (\<lambda>scopes.
        bind_r (kind_of_scopes scopes) (\<lambda>kind.
          if kind \<noteq> k_kind old then Inl (AppError ''INVALID_API_KEY_STATE'' 500)
          else if kind = AdminKey \<and> aa_role actor \<noteq> Owner then Inl (AppError ''OWNER_REQUIRED'' 403)
          else Inr scopes)))"

definition admin_rotate_key :: "key_service \<Rightarrow> app_actor \<Rightarrow> string \<Rightarrow> string \<Rightarrow> string \<Rightarrow> timestamp \<Rightarrow>
  generated_key tx" where
  "admin_rotate_key ks actor old_id i secret now =
     seq_tx (read_tx (admin_get_key old_id)) (\<lambda>old.
     seq_tx (read_tx (\<lambda>_. rotate_check actor old now)) (\<lambda>scopes.
     seq_tx (read_tx (\<lambda>_. create_key ks i secret (k_kind old))) (\<lambda>g.
     seq_tx (read_tx (admin_get_key old_id)) (\<lambda>fresh.
     seq_tx (guard_tx (\<lambda>_. k_revoked_at fresh = None) (AppError ''API_KEY_STATE_CONFLICT'' 409)) (\<lambda>_.
     seq_tx (guard_tx (\<lambda>_. unexpired (k_expires_at fresh) now) (AppError ''API_KEY_EXPIRED'' 409)) (\<lambda>_.
     seq_tx (write_tx (\<lambda>d. snd (revoke_key old_id now d))) (\<lambda>_.
     seq_tx (insert_key (new_key_row g (k_service_account_id old) (k_name old) scopes
       (k_expires_at old) now (aa_id actor))) (\<lambda>_.
     seq_tx (write_tx (audit (admin_audit actor ''api_key.rotated'' ''api_key'' (gk_id g)
       [(''replaces'', JStr old_id), (''prefix'', JStr (gk_prefix g))] now))) (\<lambda>_.
       return_tx g)))))))))"

end
