(* ===== verification/Auth_World.thy ===== *)
theory Auth_World
  imports Admin_Accounts
begin

text \<open>
  The logins and the administration of users as steps on one database: what every operation keeps
  of the sessions, of the users' security versions and of the owners. \<open>quiet\<close> relates the tables
  before and after an operation that makes no session.
\<close>

section \<open>Statements that make no session\<close>

definition ws_owner :: "session_row \<Rightarrow> string \<times> string \<times> nat" where
  "ws_owner s = (ws_token_hash s, ws_user_id s, ws_user_security_version s)"

definition calm :: "timestamp \<Rightarrow> session_row list \<Rightarrow> session_row list \<Rightarrow> bool" where
  "calm now ss ss' \<longleftrightarrow>
     ws_owner ` set ss' \<subseteq> ws_owner ` set ss \<and>
     (distinct (map ws_token_hash ss) \<longrightarrow> distinct (map ws_token_hash ss')) \<and>
     changes (active_session now) ss' \<le> changes (active_session now) ss \<and>
     (\<forall>u. changes (active_session_of u now) ss' \<le> changes (active_session_of u now) ss)"

lemma calm_refl [simp]: "calm now ss ss"
  by (simp add: calm_def)

lemma calm_trans: "calm now ss ss' \<Longrightarrow> calm now ss' ss'' \<Longrightarrow> calm now ss ss''"
  unfolding calm_def by (meson le_trans subset_trans)

lemma calm_upd_where:
  assumes "\<And>s. ws_owner (f s) = ws_owner s"
    and "\<And>s. s \<in> set ss \<Longrightarrow> p s \<Longrightarrow> active_session now (f s) \<Longrightarrow> active_session now s"
  shows "calm now ss (upd_where p f ss)"
proof -
  have "map ws_token_hash (upd_where p f ss) = map ws_token_hash ss"
    using assms(1) by (intro map_upd_where) (simp add: ws_owner_def)
  moreover have "ws_owner ` set (upd_where p f ss) \<subseteq> ws_owner ` set ss"
    using assms(1) by (auto simp: set_upd_where)
  moreover have "ws_user_id (f s) = ws_user_id s" for s using assms(1) [of s] by (simp add: ws_owner_def)
  then have "changes (active_session_of u now) (upd_where p f ss) \<le>
      changes (active_session_of u now) ss" for u
    using assms(2) by (intro changes_upd_where_less) (simp add: active_session_of_def)
  ultimately show ?thesis
    using changes_upd_where_less [of ss p "active_session now" f] assms(2) by (simp add: calm_def)
qed

lemma calm_del_where: "calm now ss (del_where p ss)"
  unfolding calm_def
  by (auto simp: changes_del_where_le intro: session_table.distinct_del_where)

text \<open>The rows of a user, of which there is one, have at least a security version.\<close>

definition versioned :: "string \<Rightarrow> nat \<Rightarrow> user_row list \<Rightarrow> bool" where
  "versioned u v us \<longleftrightarrow> u \<in> u_id ` set us \<and> (\<forall>x\<in>set us. u_id x = u \<longrightarrow> v \<le> u_security_version x)"

definition users_kept :: "user_row list \<Rightarrow> user_row list \<Rightarrow> bool" where
  "users_kept us us' \<longleftrightarrow> (\<forall>u v. versioned u v us \<longrightarrow> versioned u v us') \<and>
     (distinct (map u_id us) \<longrightarrow> distinct (map u_id us')) \<and>
     (0 < changes active_owner us \<longrightarrow> 0 < changes active_owner us')"

lemma users_kept_refl [simp]: "users_kept us us"
  by (simp add: users_kept_def)

lemma users_kept_trans: "users_kept us us' \<Longrightarrow> users_kept us' us'' \<Longrightarrow> users_kept us us''"
  by (simp add: users_kept_def)

lemma versioned_upd_where:
  assumes "\<And>x. u_id (f x) = u_id x" and "\<And>x. u_security_version x \<le> u_security_version (f x)"
    and "versioned u v us"
  shows "versioned u v (upd_where p f us)"
proof -
  have "u_id ` set (upd_where p f us) = u_id ` set us"
    using map_upd_where [of p u_id f us] assms(1) by (metis list.set_map)
  moreover have "v \<le> u_security_version x" if "x \<in> set (upd_where p f us)" "u_id x = u" for x
    using that assms order_trans by (auto simp: versioned_def set_upd_where split: if_splits) blast
  ultimately show ?thesis using assms(3) by (simp add: versioned_def)
qed

lemma users_kept_upd_where:
  assumes "\<And>x. u_id (f x) = u_id x" and "\<And>x. u_security_version x \<le> u_security_version (f x)"
    and "\<And>x. active_owner (f x) = active_owner x"
  shows "users_kept us (upd_where p f us)"
  using versioned_upd_where [OF assms(1,2)] assms(1,3)
  by (simp add: users_kept_def changes_upd_where_eq user_table.distinct_upd_where)

text \<open>One row changes: either there is another active owner, or the row is no less of one.\<close>

lemma users_kept_one:
  assumes "\<And>x. u_id (f x) = u_id x" and "\<And>x. u_security_version x \<le> u_security_version (f x)"
    and "changes p us = 1"
    and "changes active_owner us > 1 \<or> (\<forall>x\<in>set us. p x \<longrightarrow> active_owner x \<longrightarrow> active_owner (f x))"
  shows "users_kept us (upd_where p f us)"
proof -
  have "0 < changes active_owner (upd_where p f us)" if o: "0 < changes active_owner us"
  proof (cases "changes active_owner us > 1")
    case True
    then show ?thesis using changes_upd_where_ge [of active_owner us p f] assms(3) by simp
  next
    case False
    from o obtain x where x: "x \<in> set us" "active_owner x" by (auto simp: changes_pos_iff)
    then have "(if p x then f x else x) \<in> set (upd_where p f us)" by (force simp: set_upd_where)
    moreover have "active_owner (if p x then f x else x)" using x False assms(4) by auto
    ultimately show ?thesis by (auto simp: changes_pos_iff)
  qed
  then show ?thesis using versioned_upd_where [OF assms(1,2)] assms(1)
    by (simp add: users_kept_def user_table.distinct_upd_where)
qed

lemma users_kept_append: "u_id x \<notin> u_id ` set us \<Longrightarrow> users_kept us (us @ [x])"
  by (auto simp: users_kept_def versioned_def)

definition quiet :: "timestamp \<Rightarrow> auth_db \<Rightarrow> auth_db \<Rightarrow> bool" where
  "quiet now a a' \<longleftrightarrow> calm now (sessions a) (sessions a') \<and>
     users_kept (users (shared a)) (users (shared a'))"

lemma quiet_refl [simp]: "quiet now a a"
  by (simp add: quiet_def)

lemma quiet_trans: "quiet now a a' \<Longrightarrow> quiet now a' a'' \<Longrightarrow> quiet now a a''"
  unfolding quiet_def using calm_trans users_kept_trans by blast

text \<open>What touches neither sessions nor users.\<close>

lemma quiet_same:
  "sessions a' = sessions a \<Longrightarrow> users (shared a') = users (shared a) \<Longrightarrow> quiet now a a'"
  by (simp add: quiet_def)

lemma quiet_audit [simp]: "quiet now a (audit_a r b) \<longleftrightarrow> quiet now a b"
  by (simp add: quiet_def)

section \<open>Sessions\<close>

lemma quiet_revoke_session: "quiet now a (snd (revoke_session h ts a))"
  by (auto simp: quiet_def revoke_session_def update_sessions_def ws_owner_def active_session_def
      intro!: calm_upd_where)

lemma quiet_revoke_user: "quiet now a (snd (revoke_user_sessions u ts a))"
  by (auto simp: quiet_def revoke_user_sessions_def update_sessions_def ws_owner_def
      active_session_def intro!: calm_upd_where)

lemma quiet_retire: "quiet now a (snd (retire_incompatible_sessions bs ts a))"
proof -
  have "quiet now a (snd (retire_sessions_outside_policy p q i ts a))" for p q i
    by (auto simp: quiet_def retire_sessions_outside_policy_def update_sessions_def ws_owner_def
        active_session_def intro!: calm_upd_where)
  then show ?thesis
    unfolding retire_incompatible_sessions_def
    by (simp split: prod.splits) (metis snd_conv)
qed

lemma quiet_delete_identity: "quiet now a (snd (delete_identity u i a))"
  by (auto simp: quiet_def delete_identity_def Let_def ws_owner_def active_session_def
      intro!: calm_upd_where)

lemma quiet_touch_login: "quiet now a (a\<lparr>shared := snd (touch_login u ts (shared a))\<rparr>)"
  by (auto simp: quiet_def touch_login_def update_users_def active_owner_def
      intro!: users_kept_upd_where)

lemma quiet_increment: "quiet now a (a\<lparr>shared := snd (increment_security_version u ts (shared a))\<rparr>)"
  by (auto simp: quiet_def increment_security_version_def update_users_def active_owner_def
      intro!: users_kept_upd_where)

lemma quiet_revoke_oldest: "quiet now a (snd (revoke_oldest p ts n a))"
  by (auto simp: quiet_def revoke_oldest_def Let_def ws_owner_def active_session_def
      intro!: calm_upd_where)

lemma quiet_delete_expired: "quiet now a (snd (delete_expired_sessions ts a))"
  by (simp add: quiet_def delete_expired_sessions_def Let_def calm_del_where)

lemma quiet_logout: "quiet now a (logout dp ts request a)"
  by (simp add: logout_def quiet_revoke_session split: option.splits)

text \<open>A touched session was active.\<close>

lemma quiet_touch_session:
  assumes "distinct (map ws_token_hash (sessions a))" and "s \<in> set (sessions a)"
    and "active_session now s"
  shows "quiet now a (snd (touch_session (ws_token_hash s) now idle a))"
proof -
  have "x = s" if "x \<in> set (sessions a)" "ws_token_hash x = ws_token_hash s" for x
    using session_table.row_by_in [OF assms(1) that(1)] session_table.row_by_in [OF assms(1,2)] that(2)
    by (metis option.inject)
  then have "calm now (sessions a) (upd_where
      (\<lambda>x. ws_token_hash x = ws_token_hash s \<and> ws_revoked_at x = None)
      (\<lambda>x. x\<lparr>ws_last_seen_at := now, ws_idle_expires_at := idle\<rparr>) (sessions a))"
    using assms(3) by (intro calm_upd_where) (simp_all add: ws_owner_def, blast)
  then show ?thesis by (simp add: quiet_def touch_session_def update_sessions_def)
qed

lemma get_session_SomeD:
  "get_session a h = Some s \<Longrightarrow> s \<in> set (sessions a) \<and> ws_token_hash s = h"
  unfolding get_session_def by (rule row_by_SomeD)

lemma authenticate_session_cases:
  obtains "authenticate_session dp bs now request a = (None, a)"
  | s where "authenticate_session dp bs now request a =
      (None, snd (revoke_session (ws_token_hash s) now a))" "s \<in> set (sessions a)"
  | token s u where "unique_cookie (request ''Cookie'') session_cookie = Some token" "is_secret token"
      "get_session a (ad_sha dp token) = Some s" "user_get a (ws_user_id s) = Some u"
      "session_live bs now (Some u) s" "identity_matches_mode bs s (identity_of_session a s)"
      "authenticate_session dp bs now request a =
        (Some \<lparr>bp_user = u, bp_mode = ws_auth_mode s, bp_identity = identity_of_session a s,
          bp_session = Some (s\<lparr>ws_last_seen_at := now,
            ws_idle_expires_at := min (now + ba_idle_ms bs) (ws_absolute_expires_at s)\<rparr>)\<rparr>,
         snd (touch_session (ws_token_hash s) now
           (min (now + ba_idle_ms bs) (ws_absolute_expires_at s)) a))"
proof (cases "unique_cookie (request ''Cookie'') session_cookie")
  case None
  show ?thesis by (rule that(1)) (simp only: authenticate_session_def None option.case)
next
  case (Some token)
  show ?thesis
  proof (cases "is_secret token \<and> get_session a (ad_sha dp token) \<noteq> None")
    case False
    then have "authenticate_session dp bs now request a = (None, a)"
      by (cases "is_secret token") (simp_all add: authenticate_session_def Some)
    then show ?thesis by (rule that(1))
  next
    case True
    then obtain s where s: "is_secret token" "get_session a (ad_sha dp token) = Some s" by blast
    show ?thesis
    proof (cases "session_live bs now (user_get a (ws_user_id s)) s \<and>
        identity_matches_mode bs s (identity_of_session a s)")
      case False
      then have "authenticate_session dp bs now request a =
          (None, snd (revoke_session (ws_token_hash s) now a))"
        by (simp add: authenticate_session_def Let_def Some s)
      then show ?thesis using get_session_SomeD [OF s(2)] by (intro that(2)) blast+
    next
      case True
      then obtain u where "user_get a (ws_user_id s) = Some u"
        by (cases "user_get a (ws_user_id s)") (auto simp: session_live_def)
      with True have u: "user_get a (ws_user_id s) = Some u" "session_live bs now (Some u) s"
          "identity_matches_mode bs s (identity_of_session a s)" by simp_all
      show ?thesis
        by (rule that(3) [OF Some s u]) (simp add: authenticate_session_def Let_def Some s u)
    qed
  qed
qed

lemma quiet_authenticate_session:
  assumes "authenticate_session dp bs now request a = (r, a')"
    and "distinct (map ws_token_hash (sessions a))"
  shows "quiet now a a'"
proof (cases rule: authenticate_session_cases [of dp bs now request a])
  case 1
  with assms(1) show ?thesis by simp
next
  case (2 s)
  with assms(1) show ?thesis using quiet_revoke_session by (metis snd_conv)
next
  case (3 token s u)
  from assms(1) have a: "a' = snd (touch_session (ws_token_hash s) now
      (min (now + ba_idle_ms bs) (ws_absolute_expires_at s)) a)" unfolding 3(7) by simp
  show ?thesis unfolding a
    using get_session_SomeD [OF 3(3)] 3(5)
    by (intro quiet_touch_session [OF assms(2)]) (simp_all add: session_live_def)
qed

end
