(* ===== verification/Auth_Steps.thy ===== *)
theory Auth_Steps
  imports Auth_World
begin

text \<open>
  The steps of the logins and of the administration of users, and what they keep: at most so many
  active sessions, and security versions that only rise.
\<close>

section \<open>Room for a session\<close>

lemma changes_filter_set:
  assumes "distinct (map key rs)"
  shows "changes p rs = card {r \<in> set rs. p r}"
proof -
  have "distinct rs" using assms by (simp add: distinct_map)
  then show ?thesis by (simp add: changes_def distinct_card [symmetric] flip: set_filter)
qed

lemma revoke_oldest_count:
  assumes "distinct (map ws_token_hash (sessions a))"
    and "\<And>s. p s \<Longrightarrow> ws_revoked_at s = None"
  shows "changes p (sessions (snd (revoke_oldest p ts n a))) = changes p (sessions a) - n"
proof -
  let ?ss = "sessions a"
  define T where "T = take n (sort_key (\<lambda>s. (ws_last_seen_at s, ws_created_at s, ws_token_hash s))
    (filter p ?ss))"
  let ?q = "\<lambda>s. ws_token_hash s \<in> ws_token_hash ` set T"
  have sub: "set T \<subseteq> {s \<in> set ?ss. p s}" using set_take_subset by (fastforce simp: T_def)
  have inj: "inj_on ws_token_hash (set ?ss)" using assms(1) by (simp add: distinct_map)
  have d: "distinct T" "distinct ?ss" using assms(1) by (simp_all add: T_def distinct_map)
  have q: "?q s \<longleftrightarrow> s \<in> set T" if "s \<in> set ?ss" for s
    using that sub inj by (auto simp: inj_on_def)
  have len: "length T = min n (changes p ?ss)" by (simp add: T_def changes_def min.commute)
  have "changes p (upd_where ?q (\<lambda>s. s\<lparr>ws_revoked_at := Some ts\<rparr>) rs) = changes (\<lambda>s. p s \<and> \<not> ?q s) rs" for rs
    by (induction rs) (auto dest: assms(2))
  then have "changes p (sessions (snd (revoke_oldest p ts n a))) = changes (\<lambda>s. p s \<and> \<not> ?q s) ?ss"
    by (simp add: revoke_oldest_def T_def Let_def image_image)
  also have "\<dots> = card ({s \<in> set ?ss. p s} - set T)"
    unfolding changes_filter_set [OF assms(1)] using q by (auto intro!: arg_cong [where f = card])
  also have "\<dots> = card {s \<in> set ?ss. p s} - card (set T)" using sub by (intro card_Diff_subset) simp_all
  also have "\<dots> = changes p ?ss - min n (changes p ?ss)"
    using len d(1) by (simp add: changes_filter_set [OF assms(1)] distinct_card)
  finally show ?thesis by simp
qed

lemma quiet_sessionsD:
  assumes "quiet now a a'" and "distinct (map ws_token_hash (sessions a))"
  shows "distinct (map ws_token_hash (sessions a'))"
    and "ws_token_hash ` set (sessions a') \<subseteq> ws_token_hash ` set (sessions a)"
    and "changes (active_session now) (sessions a') \<le> changes (active_session now) (sessions a)"
    and "changes (active_session_of u now) (sessions a') \<le> changes (active_session_of u now) (sessions a)"
proof -
  have "ws_owner ` set (sessions a') \<subseteq> ws_owner ` set (sessions a)"
    using assms(1) by (simp add: quiet_def calm_def)
  then have "fst ` ws_owner ` set (sessions a') \<subseteq> fst ` ws_owner ` set (sessions a)" by (rule image_mono)
  then show "ws_token_hash ` set (sessions a') \<subseteq> ws_token_hash ` set (sessions a)"
    by (simp add: image_image ws_owner_def)
qed (use assms in \<open>simp_all add: quiet_def calm_def\<close>)

lemma make_room:
  assumes "distinct (map ws_token_hash (sessions a))"
  shows "quiet now a (make_room u now a)"
    and "changes (active_session_of u now) (sessions (make_room u now a)) < maximum_sessions_per_user"
    and "changes (active_session now) (sessions (make_room u now a)) < maximum_sessions_global"
proof -
  let ?a1 = "snd (delete_expired_sessions now a)"
  let ?a2 = "snd (revoke_oldest_for_user u now
    (active_session_count_for_user ?a1 u now + 1 - maximum_sessions_per_user) ?a1)"
  have m: "make_room u now a = snd (revoke_oldest_sessions now
      (active_session_count ?a2 now + 1 - maximum_sessions_global) ?a2)"
    by (simp add: make_room_def Let_def)
  have q1: "quiet now a ?a1" by (rule quiet_delete_expired)
  have q2: "quiet now ?a1 ?a2" unfolding revoke_oldest_for_user_def by (rule quiet_revoke_oldest)
  have q3: "quiet now ?a2 (make_room u now a)"
    unfolding m revoke_oldest_sessions_def by (rule quiet_revoke_oldest)
  note d1 = quiet_sessionsD(1) [OF q1 assms]
  note d2 = quiet_sessionsD(1) [OF q2 d1]
  show "quiet now a (make_room u now a)" using q1 q2 q3 quiet_trans by blast
  have "changes (active_session_of u now) (sessions ?a2) < maximum_sessions_per_user"
    unfolding revoke_oldest_for_user_def active_session_count_for_user_def
    by (subst revoke_oldest_count [OF d1])
      (auto simp: active_session_of_def active_session_def maximum_sessions_per_user_def)
  with quiet_sessionsD(4) [OF q3 d2, of u]
  show "changes (active_session_of u now) (sessions (make_room u now a)) < maximum_sessions_per_user"
    by linarith
  show "changes (active_session now) (sessions (make_room u now a)) < maximum_sessions_global"
    unfolding m revoke_oldest_sessions_def active_session_count_def
    by (subst revoke_oldest_count [OF d2]) (auto simp: active_session_def maximum_sessions_global_def)
qed

text \<open>A session is added where there is room for it.\<close>

definition room_for :: "session_row \<Rightarrow> timestamp \<Rightarrow> auth_db \<Rightarrow> bool" where
  "room_for s now a \<longleftrightarrow>
     changes (active_session_of (ws_user_id s) now) (sessions a) < maximum_sessions_per_user \<and>
     changes (active_session now) (sessions a) < maximum_sessions_global"

definition adds_session :: "timestamp \<Rightarrow> string \<Rightarrow> auth_db \<Rightarrow> auth_db \<Rightarrow> bool" where
  "adds_session now h a a' \<longleftrightarrow> (\<exists>b c s. quiet now a b \<and> room_for s now b \<and>
     c = b\<lparr>sessions := sessions b @ [s]\<rparr> \<and> ws_token_hash s = h \<and>
     h \<notin> ws_token_hash ` set (sessions b) \<and> quiet now c a')"

lemma create_session_adds:
  assumes "create_session dp bs now token csrf u mode identity cap ctx check a = Inr (r, a')"
    and "distinct (map ws_token_hash (sessions a))"
  shows "adds_session now (ad_sha dp token) a a'"
proof -
  from assms(1) obtain absolute log where "insert_session_tx check log
      (new_session_row dp bs now absolute token csrf u mode identity) now a = Inr ((), a')"
    by (auto simp: create_session_def Let_def bind_r_Inr_iff split: if_splits)
  moreover have "ws_token_hash (new_session_row dp bs now absolute token csrf u mode identity) =
      ad_sha dp token" by (simp add: new_session_row_def)
  ultimately obtain s where
    s: "ws_token_hash s = ad_sha dp token" "insert_session_tx check log s now a = Inr ((), a')"
    by blast
  let ?b = "make_room (ws_user_id s) now a"
  let ?c = "?b\<lparr>sessions := sessions ?b @ [s]\<rparr>"
  from s(2) have b: "session_check s ?b" and a': "a' = (case log of
      None \<Rightarrow> ?c\<lparr>shared := snd (touch_login (ws_user_id s) now (shared ?c))\<rparr>
    | Some r \<Rightarrow> audit_a r (?c\<lparr>shared := snd (touch_login (ws_user_id s) now (shared ?c))\<rparr>))"
    by (auto simp: insert_session_tx_def bind_r_Inr_iff insert_session_def Let_def split: if_splits)
  have "quiet now ?c (?c\<lparr>shared := snd (touch_login (ws_user_id s) now (shared ?c))\<rparr>)"
    by (rule quiet_touch_login)
  then have "quiet now ?c a'" unfolding a' by (simp split: option.splits)
  with make_room [OF assms(2), where now = now and u = "ws_user_id s"] b s(1) show ?thesis
    unfolding adds_session_def room_for_def
    by (intro exI [of _ ?b] exI [of _ ?c] exI [of _ s])
      (simp add: session_check_def row_by_None_notin)
qed

lemma adds_session_after:
  "quiet now a b \<Longrightarrow> adds_session now h b c \<Longrightarrow> adds_session now h a c"
  unfolding adds_session_def using quiet_trans by blast

lemma adds_session_before:
  "adds_session now h a b \<Longrightarrow> quiet now b c \<Longrightarrow> adds_session now h a c"
  unfolding adds_session_def using quiet_trans by blast

text \<open>What an operation does: nothing but quiet, or adding the session of its token.\<close>

definition may_add :: "timestamp \<Rightarrow> string \<Rightarrow> auth_db \<Rightarrow> auth_db \<Rightarrow> bool" where
  "may_add now h a a' \<longleftrightarrow> quiet now a a' \<or> adds_session now h a a'"

lemma may_add_after: "quiet now a b \<Longrightarrow> may_add now h b c \<Longrightarrow> may_add now h a c"
  unfolding may_add_def using quiet_trans adds_session_after by blast

lemma may_add_before: "may_add now h a b \<Longrightarrow> quiet now b c \<Longrightarrow> may_add now h a c"
  unfolding may_add_def using quiet_trans adds_session_before by blast

lemma may_add_kept:
  assumes "kept a (create_session dp bs now token csrf u mode identity cap ctx check a) = (r, a')"
    and "distinct (map ws_token_hash (sessions a))"
  shows "may_add now (ad_sha dp token) a a'"
  using assms create_session_adds [OF _ assms(2)]
  by (auto simp: kept_def may_add_def split: sum.splits prod.splits)

section \<open>Logins\<close>

lemma quiet_resolve_external:
  assumes "resolve_external now e a = Inr (p, a')"
  shows "quiet now a a'"
proof -
  from assms obtain i u where iu: "find_identity a (ei_provider e) (ei_issuer e) (ei_subject e) = Some i"
    "user_get a (id_user_id i) = Some u" "u_status u = Active"
    by (auto simp: resolve_external_def split: option.splits if_splits)
  with assms obtain n b where
    b: "touch_identity (id_id i) (ei_preferred_username e) (ei_email e) now a = Inr (n, b)"
    "a' = b\<lparr>shared := snd (touch_login (u_id u) now (shared b))\<rparr>"
    by (auto simp: resolve_external_def bind_r_Inr_iff)
  from b(1) have "quiet now a b" by (auto simp: touch_identity_def quiet_same split: if_splits)
  with b(2) quiet_touch_login show ?thesis using quiet_trans by blast
qed

lemma quiet_authenticate:
  assumes "authenticate dp bs now verify request a = (r, a')"
    and "distinct (map ws_token_hash (sessions a))"
  shows "quiet now a a'"
proof -
  obtain q b where b: "authenticate_session dp bs now request a = (q, b)" by fastforce
  note qb = quiet_authenticate_session [OF b assms(2)]
  show ?thesis
  proof (cases q)
    case (Some p)
    with assms(1) b qb show ?thesis by (simp add: authenticate_def)
  next
    case None
    with assms(1) b have "a' = b \<or> (\<exists>e p. resolve_external now e b = Inr (p, a'))"
      by (auto simp: authenticate_def kept_def bind_r_Inr_iff split: sum.splits prod.splits)
    with qb show ?thesis using quiet_resolve_external quiet_trans by blast
  qed
qed

lemma establish_may_add:
  assumes "establish_session dp bs now token csrf verify request a = (r, a')"
    and "distinct (map ws_token_hash (sessions a))"
  shows "may_add now (ad_sha dp token) a a'"
proof -
  obtain q b where b: "authenticate_session dp bs now request a = (q, b)" by fastforce
  note qb = quiet_authenticate_session [OF b assms(2)]
  note db = quiet_sessionsD(1) [OF qb assms(2)]
  have new: "may_add now (ad_sha dp token) a a'" if "quiet now b c"
    "kept c (create_session dp bs now token csrf u mode identity cap ctx check c) = (r, a')"
    for c u mode identity cap ctx check
    using may_add_kept [OF that(2) quiet_sessionsD(1) [OF that(1) db]] that(1) qb may_add_after
    by blast
  have same: "may_add now (ad_sha dp token) a b" using qb by (simp add: may_add_def)
  show ?thesis
  proof (cases q)
    case (Some p)
    show ?thesis
    proof (cases "bp_session p")
      case None
      with assms(1) b Some same show ?thesis by (simp add: establish_session_def)
    next
      case (Some s)
      let ?c = "snd (revoke_session (ws_token_hash s) now b)"
      from assms(1) b \<open>q = Some p\<close> Some have "a' = b \<or>
          kept ?c (create_session dp bs now token csrf (bp_user p) (bp_mode p) (bp_identity p)
            (Some (ws_absolute_expires_at s)) None (\<lambda>_. Inr ()) ?c) = (r, a')"
        by (auto simp: establish_session_def Let_def split: option.splits if_splits)
      then show ?thesis using same new [OF quiet_revoke_session] by blast
    qed
  next
    case None
    with assms(1) b have "a' = b \<or> (\<exists>e p c. resolve_external now e b = Inr (p, c) \<and>
        kept c (create_session dp bs now token csrf (bp_user p) CloudflareAccess (bp_identity p)
          (ei_expires_at e) (Some (session_audit_context (Some request) None)) (\<lambda>_. Inr ()) c) = (r, a'))"
      by (auto simp: establish_session_def split: sum.splits prod.splits)
    then show ?thesis using same new quiet_resolve_external by blast
  qed
qed

lemma oidc_may_add:
  assumes "finish_oidc dp bs now token csrf callback request a = (r, a')"
    and "distinct (map ws_token_hash (sessions a))"
  shows "may_add now (ad_sha dp token) a a'"
proof -
  from assms(1) have "a' = a \<or> (\<exists>e p c. resolve_external now e a = Inr (p, c) \<and>
      kept c (create_session dp bs now token csrf (bp_user p) Oidc (bp_identity p) (ei_expires_at e)
        (Some (session_audit_context request None)) (\<lambda>_. Inr ()) c) = (r, a'))"
    by (auto simp: finish_oidc_def split: if_splits sum.splits prod.splits)
  then show ?thesis
  proof
    assume "a' = a"
    then show ?thesis by (simp add: may_add_def)
  next
    assume "\<exists>e p c. resolve_external now e a = Inr (p, c) \<and>
      kept c (create_session dp bs now token csrf (bp_user p) Oidc (bp_identity p) (ei_expires_at e)
        (Some (session_audit_context request None)) (\<lambda>_. Inr ()) c) = (r, a')"
    then obtain e p c where c: "resolve_external now e a = Inr (p, c)"
      "kept c (create_session dp bs now token csrf (bp_user p) Oidc (bp_identity p) (ei_expires_at e)
        (Some (session_audit_context request None)) (\<lambda>_. Inr ()) c) = (r, a')" by blast
    note q = quiet_resolve_external [OF c(1)]
    show ?thesis
      using may_add_after [OF q may_add_kept [OF c(2) quiet_sessionsD(1) [OF q assms(2)]]] .
  qed
qed

lemma put_failures_tables:
  "put_failures ks now a = Inr (u, a') \<Longrightarrow> sessions a' = sessions a \<and> shared a' = shared a"
proof (induction ks now a rule: put_failures.induct)
  case (2 k ks now a)
  then show ?case by (fastforce simp: bind_r_Inr_iff put_login_attempt_def split: if_splits)
qed simp

lemma record_login_failure_tables:
  "record_login_failure ks now a = Inr (u, a') \<Longrightarrow> sessions a' = sessions a \<and> shared a' = shared a"
  by (auto simp: record_login_failure_def prune_login_attempts_def Let_def dest!: put_failures_tables)

lemma quiet_refuse_login: "refuse_login dp bs q now a = (r, a') \<Longrightarrow> quiet now a a'"
  by (auto simp: refuse_login_def quiet_same split: sum.splits prod.splits
      dest!: record_login_failure_tables)

lemma finish_login_may_add:
  assumes "finish_login dp bs now token csrf q credential user hash valid a = (r, a')"
    and "distinct (map ws_token_hash (sessions a))"
  shows "may_add now (ad_sha dp token) a a'"
proof -
  consider "refuse_login dp bs q now a = (r, a')" | "a' = a"
    | u ctx check s b where
      "create_session dp bs now token csrf u Password None None ctx check a = Inr (s, b)"
      "a' = logout dp now (pl_request q) (clear_login_attempts [hd (login_keys dp bs q)] b)"
    using assms(1)
    by (fastforce simp: finish_login_def split: option.splits if_splits sum.splits prod.splits)
  then show ?thesis
  proof cases
    case 1
    then show ?thesis using quiet_refuse_login by (simp add: may_add_def)
  next
    case 2
    then show ?thesis by (simp add: may_add_def)
  next
    case 3
    have "quiet now b (clear_login_attempts [hd (login_keys dp bs q)] b)"
      by (rule quiet_same) (simp_all add: clear_login_attempts_def)
    then have "quiet now b a'" unfolding 3(2) using quiet_logout quiet_trans by blast
    with create_session_adds [OF 3(1) assms(2)] show ?thesis
      unfolding may_add_def using adds_session_before by blast
  qed
qed

end
