(* ===== verification/Auth_Admin.thy ===== *)
theory Auth_Admin
  imports Auth_Steps
begin

text \<open>
  What the administration of users keeps (\<open>quiet\<close>), and which of its operations raise the security
  version of a user, which ends the sessions made before.
\<close>

section \<open>Administration\<close>

lemma bind_a_InrD: "bind_a m k a = Inr (y, c) \<Longrightarrow> \<exists>x b. m a = Inr (x, b) \<and> k x b = Inr (y, c)"
  by (simp add: bind_a_Inr_iff)

lemma shared_tx_InrD: "shared_tx m a = Inr (x, b) \<Longrightarrow> \<exists>d. m (shared a) = Inr (x, d) \<and> b = a\<lparr>shared := d\<rparr>"
  by (auto simp: shared_tx_def split: sum.splits)

lemma quiet_ensure_web_principal:
  "ensure_web_principal u s k ts a = Inr (p, a') \<Longrightarrow> quiet now a a'"
  by (rule quiet_same)
    (auto simp: ensure_web_principal_def Let_def bind_a_Inr_iff insert_account_def insert_key_def
      insert_web_principal_def dest!: shared_tx_InrD split: option.splits if_splits)

lemma quiet_add_authentication:
  assumes "add_authentication bs ids auth hash ts a = Inr (u, a')"
  shows "quiet now a a'"
proof (cases auth)
  case (External subject name email)
  with assms show ?thesis
    by (intro quiet_same) (auto simp: add_authentication_def bind_r_Inr_iff create_external_identity_def
        insert_identity_def Let_def split: option.splits if_splits)
next
  case (ByPassword name password)
  with assms show ?thesis
    by (intro quiet_same) (auto simp: add_authentication_def upsert_mapped_def upsert_credential_def
        split: if_splits)
qed

lemma quiet_insert_invitation:
  assumes "insert_invitation i email name role by_user ts (shared a) = Inr (u, d)"
  shows "quiet now a (a\<lparr>shared := d\<rparr>)"
  using assms
  by (auto simp: insert_invitation_def quiet_def get_user_def row_by_None_notin intro!: users_kept_append
      split: if_splits)

lemma quiet_create_user:
  assumes "create_user_tx bs actor q hash ids ts a = Inr (u, a')"
  shows "quiet now a a'"
proof -
  from assms obtain d b c p r where
    d: "insert_invitation (ni_user ids) (nu_email q) (nu_display_name q) (nu_role q) (aa_id actor) ts
      (shared a) = Inr ((), d)"
    and b: "add_authentication bs ids (nu_authentication q) hash ts (a\<lparr>shared := d\<rparr>) = Inr ((), b)"
    and c: "ensure_web_principal (ni_user ids) (ni_account ids) (ni_key ids) ts b = Inr (p, c)"
    and a': "a' = audit_a r c"
    by (auto simp: create_user_tx_def dest!: bind_a_InrD shared_tx_InrD)
  show ?thesis unfolding a'
    using quiet_insert_invitation [OF d] quiet_add_authentication [OF b]
      quiet_ensure_web_principal [OF c] quiet_trans by simp blast
qed

text \<open>What raises the security version of a user.\<close>

definition raises :: "string \<Rightarrow> auth_db \<Rightarrow> auth_db \<Rightarrow> bool" where
  "raises i a a' \<longleftrightarrow> (\<forall>v. versioned i v (users (shared a)) \<longrightarrow> versioned i (Suc v) (users (shared a')))"

lemma versioned_raise:
  assumes "versioned i v us" and "\<And>x. u_id (f x) = u_id x"
    and "\<And>x. u_security_version (f x) = u_security_version x + 1"
  shows "versioned i (Suc v) (upd_where (\<lambda>x. u_id x = i) f us)"
proof -
  have "u_id ` set (upd_where (\<lambda>x. u_id x = i) f us) = u_id ` set us"
    using map_upd_where [of "\<lambda>x. u_id x = i" u_id f us] assms(2) by (metis list.set_map)
  then show ?thesis using assms by (auto simp: versioned_def set_upd_where split: if_splits)
qed

lemma raises_increment: "raises i a (a\<lparr>shared := snd (increment_security_version i ts (shared a))\<rparr>)"
  by (simp add: raises_def increment_security_version_def update_users_def versioned_raise)

lemma raises_audit [simp]: "raises i a (audit_a r b) \<longleftrightarrow> raises i a b"
  by (simp add: raises_def)

lemma raises_cong: "users (shared b) = users (shared a) \<Longrightarrow> raises i b c \<Longrightarrow> raises i a c"
  by (simp add: raises_def)

lemma unlink_identity_effect:
  assumes "unlink_identity actor i identity reason ts a = Inr (u, a')"
  shows "quiet now a a'" and "raises i a a'"
proof -
  let ?b = "snd (delete_identity i identity (snd (revoke_user_sessions i ts a)))"
  from assms obtain r where a': "a' = audit_a r
      (?b\<lparr>shared := snd (increment_security_version i ts (shared ?b))\<rparr>)"
    by (auto simp: unlink_identity_def bind_r_Inr_iff split: if_splits option.splits prod.splits)
  have b: "users (shared ?b) = users (shared a)"
    by (simp add: delete_identity_def Let_def revoke_user_sessions_def update_sessions_def)
  show "quiet now a a'" unfolding a'
    unfolding quiet_audit
    by (rule quiet_trans [OF quiet_trans [OF quiet_revoke_user quiet_delete_identity] quiet_increment])
  show "raises i a a'" unfolding a' using raises_cong [OF b raises_increment] by simp
qed

lemma reset_password_effect:
  assumes "reset_password_tx actor i name hash reason ts a = Inr (u, a')"
  shows "quiet now a a'" and "raises i a a'"
proof -
  from assms obtain b c r where b: "upsert_mapped c a = Inr ((), b)"
    and a': "a' = audit_a r (snd (revoke_user_sessions i ts
      (b\<lparr>shared := snd (increment_security_version i ts (shared b))\<rparr>)))"
    by (auto simp: reset_password_tx_def bind_r_Inr_iff Let_def)
  from b have same: "sessions b = sessions a" "users (shared b) = users (shared a)"
    by (auto simp: upsert_mapped_def upsert_credential_def split: if_splits)
  show "quiet now a a'" unfolding a'
    unfolding quiet_audit
    by (rule quiet_trans [OF quiet_trans [OF quiet_same [OF same] quiet_increment] quiet_revoke_user])
  have "raises i a (b\<lparr>shared := snd (increment_security_version i ts (shared b))\<rparr>)"
    using raises_cong [OF same(2) raises_increment] .
  then show "raises i a a'" unfolding a'
    by (simp add: raises_def revoke_user_sessions_def update_sessions_def)
qed

lemma admin_get_user_InrD:
  "admin_get_user i a = Inr (t, x) \<Longrightarrow> t \<in> set (users (shared a)) \<and> u_id t = i"
  by (auto simp: admin_get_user_def snapshot_def user_get_def dest: row_by_SomeD split: option.splits)

lemma change_user_status_effect:
  assumes "change_user_status actor i disable ts a = Inr (u, a')"
  shows "quiet now a a'" and "raises i a a'"
proof -
  let ?f = "\<lambda>u. u\<lparr>u_status := if disable then Disabled else Active,
    u_security_version := u_security_version u + 1, u_updated_at := ts\<rparr>"
  from assms obtain t x d r where t: "admin_get_user i a = Inr (t, x)"
    and one: "changes (\<lambda>u. u_id u = i) (users (shared a)) = 1"
    and last: "u_role t = Owner \<and> disable \<longrightarrow> 1 < count_active_owners (shared a)"
    and a': "a' = audit_a r (a\<lparr>shared := d\<rparr>)"
    and d: "d = (shared a)\<lparr>users := upd_where (\<lambda>u. u_id u = i) ?f (users (shared a))\<rparr>"
    by (auto simp: change_user_status_def Let_def bind_r_Inr_iff set_user_status_def update_users_def
        split: if_splits)
  have only: "y = t" if "y \<in> set (users (shared a))" "u_id y = i" for y
    using changes_le_one_eq [of "\<lambda>u. u_id u = i" "users (shared a)" y t] that one
      admin_get_user_InrD [OF t] by simp
  show "quiet now a a'"
    unfolding quiet_def a' d using one last only
    by (auto simp: count_active_owners_def active_owner_def intro!: users_kept_one)
  show "raises i a a'" unfolding a' d by (simp add: raises_def versioned_raise)
qed

lemma admin_update_user_effect:
  assumes "admin_update_user actor i c ts a = Inr (u, a')"
  shows "quiet now a a'" and "raises i a a'"
proof -
  let ?us = "users (shared a)"
  from assms obtain t x d r where t: "admin_get_user i a = Inr (t, x)"
    and one: "changes (\<lambda>u. u_id u = i) ?us = 1"
    and ok: "role_change_allowed actor t (uc_role c) (shared a) = Inr ()"
    and a': "a' = audit_a r (a\<lparr>shared := d\<rparr>)"
    and d: "d = (shared a)\<lparr>users := upd_where (\<lambda>u. u_id u = i) (apply_user_changes c ts) ?us\<rparr>"
    by (auto simp: admin_update_user_def bind_r_Inr_iff update_user_def update_users_def split: if_splits)
  have only: "y = t" if "y \<in> set ?us" "u_id y = i" for y
    using changes_le_one_eq [of "\<lambda>u. u_id u = i" ?us y t] that one admin_get_user_InrD [OF t] by simp
  have "1 < changes active_owner ?us \<or> (active_owner t \<longrightarrow> active_owner (apply_user_changes c ts t))"
    using ok by (auto simp: role_change_allowed_def count_active_owners_def active_owner_def
        apply_user_changes_def split: option.splits if_splits)
  then have "users_kept ?us (upd_where (\<lambda>u. u_id u = i) (apply_user_changes c ts) ?us)"
    using one only by (intro users_kept_one) (auto simp: apply_user_changes_def)
  then show "quiet now a a'" by (simp add: quiet_def a' d)
  show "raises i a a'" unfolding a' d by (simp add: raises_def versioned_raise apply_user_changes_def)
qed

lemma quiet_migrate_user:
  assumes "migrate_user issuer ts new_id u a = Inr (n, a')"
  shows "quiet now a a'"
proof -
  have clear: "quiet now b (b\<lparr>shared := snd (clear_access_subject u ts (shared b))\<rparr>)" for b
    by (auto simp: quiet_def clear_access_subject_def update_users_def active_owner_def
        intro!: users_kept_upd_where)
  have cleared: "quiet now a a'" if "quiet now a b"
    "a' = b\<lparr>shared := snd (clear_access_subject u ts (shared b))\<rparr>" for b
    using quiet_trans [OF that(1) clear] that(2) by simp
  show ?thesis
  proof (cases "find_identity a CloudflareAccess issuer (coalesce (u_access_subject u) [])")
    case None
    with assms obtain i b where "insert_identity i a = Inr ((), b)"
      "a' = b\<lparr>shared := snd (clear_access_subject u ts (shared b))\<rparr>"
      by (auto simp: migrate_user_def Let_def bind_a_Inr_iff case_prod_beta split: if_splits)
    moreover from this(1) have "quiet now a b"
      by (intro quiet_same) (auto simp: insert_identity_def split: if_splits)
    ultimately show ?thesis using cleared by blast
  next
    case (Some i)
    with assms have "a' = a\<lparr>shared := snd (clear_access_subject u ts (shared a))\<rparr>"
      by (auto simp: migrate_user_def Let_def case_prod_beta split: if_splits)
    then show ?thesis using cleared [OF quiet_refl] by blast
  qed
qed

lemma quiet_migrate_users:
  "migrate_users issuer ts new_id us a = Inr (n, a') \<Longrightarrow> quiet now a a'"
proof (induction us arbitrary: a n)
  case (Cons u us)
  then obtain k b m where "migrate_user issuer ts new_id u a = Inr (k, b)"
    "migrate_users issuer ts new_id us b = Inr (m, a')" by (auto dest!: bind_a_InrD)
  with Cons.IH quiet_migrate_user show ?case using quiet_trans by blast
qed simp

section \<open>Steps\<close>

text \<open>
  The world of the logins: a clock that does not run backwards, the hashes of the tokens drawn so
  far, and the tables. A token is new: its hash is none of those drawn before. Every step is what
  one call commits, and \<open>other\<close> is what the rest of the program commits: it changes neither sessions
  nor users.
\<close>

record auth_world =
  aw_clock :: timestamp
  aw_drawn :: "string set"
  aw_tables :: auth_db

definition start_auth :: "auth_db \<Rightarrow> auth_world" where
  "start_auth a = \<lparr>aw_clock = 0, aw_drawn = {}, aw_tables = a\<lparr>sessions := []\<rparr>\<rparr>"

definition moved :: "timestamp \<Rightarrow> string set \<Rightarrow> auth_db \<Rightarrow> auth_world \<Rightarrow> auth_world" where
  "moved now hs a w = \<lparr>aw_clock = now, aw_drawn = hs \<union> aw_drawn w, aw_tables = a\<rparr>"

inductive auth_step :: "auth_deps \<Rightarrow> browser_auth \<Rightarrow> auth_world \<Rightarrow> auth_world \<Rightarrow> bool"
  for dp bs where
  authenticate: "aw_clock w \<le> now \<Longrightarrow> authenticate dp bs now verify request (aw_tables w) = (r, a) \<Longrightarrow>
    auth_step dp bs w (moved now {} a w)"
| establish: "aw_clock w \<le> now \<Longrightarrow> ad_sha dp token \<notin> aw_drawn w \<Longrightarrow>
    establish_session dp bs now token csrf verify request (aw_tables w) = (r, a) \<Longrightarrow>
    auth_step dp bs w (moved now {ad_sha dp token} a w)"
| oidc: "aw_clock w \<le> now \<Longrightarrow> ad_sha dp token \<notin> aw_drawn w \<Longrightarrow>
    finish_oidc dp bs now token csrf callback origin (aw_tables w) = (r, a) \<Longrightarrow>
    auth_step dp bs w (moved now {ad_sha dp token} a w)"
| login: "aw_clock w \<le> now \<Longrightarrow> ad_sha dp token \<notin> aw_drawn w \<Longrightarrow>
    finish_login dp bs now token csrf q credential user hash valid (aw_tables w) = (r, a) \<Longrightarrow>
    auth_step dp bs w (moved now {ad_sha dp token} a w)"
| logout: "aw_clock w \<le> now \<Longrightarrow> auth_step dp bs w (moved now {} (logout dp now request (aw_tables w)) w)"
| retire: "aw_clock w \<le> now \<Longrightarrow>
    auth_step dp bs w (moved now {} (snd (retire_incompatible_sessions bs now (aw_tables w))) w)"
| migrate: "aw_clock w \<le> now \<Longrightarrow>
    migrate_legacy_identities issuer now new_id (aw_tables w) = Inr (n, a) \<Longrightarrow>
    auth_step dp bs w (moved now {} a w)"
| create_user: "aw_clock w \<le> now \<Longrightarrow>
    create_user_tx bs actor input hash ids now (aw_tables w) = Inr (u, a) \<Longrightarrow>
    auth_step dp bs w (moved now {} a w)"
| unlink_identity: "aw_clock w \<le> now \<Longrightarrow>
    unlink_identity actor i identity reason now (aw_tables w) = Inr (u, a) \<Longrightarrow>
    auth_step dp bs w (moved now {} a w)"
| reset_password: "aw_clock w \<le> now \<Longrightarrow>
    reset_password_tx actor i name hash reason now (aw_tables w) = Inr (u, a) \<Longrightarrow>
    auth_step dp bs w (moved now {} a w)"
| change_status: "aw_clock w \<le> now \<Longrightarrow>
    change_user_status actor i disable now (aw_tables w) = Inr (s, a) \<Longrightarrow>
    auth_step dp bs w (moved now {} a w)"
| update_user: "aw_clock w \<le> now \<Longrightarrow>
    admin_update_user actor i c now (aw_tables w) = Inr (u, a) \<Longrightarrow>
    auth_step dp bs w (moved now {} a w)"
| other: "aw_clock w \<le> now \<Longrightarrow> sessions a = sessions (aw_tables w) \<Longrightarrow>
    users (shared a) = users (shared (aw_tables w)) \<Longrightarrow> auth_step dp bs w (moved now {} a w)"

text \<open>Every step is quiet, but for the one session whose token it draws.\<close>

lemma auth_step_effect:
  assumes "auth_step dp bs w v" and "distinct (map ws_token_hash (sessions (aw_tables w)))"
  shows "aw_clock w \<le> aw_clock v \<and>
    ((aw_drawn v = aw_drawn w \<and> quiet (aw_clock v) (aw_tables w) (aw_tables v)) \<or>
     (\<exists>h. h \<notin> aw_drawn w \<and> aw_drawn v = insert h (aw_drawn w) \<and>
        may_add (aw_clock v) h (aw_tables w) (aw_tables v)))"
  using assms
proof cases
  case (authenticate now verify request r a)
  then show ?thesis using quiet_authenticate [OF _ assms(2)] by (simp add: moved_def)
next
  case (establish now token csrf verify request r a)
  then show ?thesis using establish_may_add [OF _ assms(2)] by (auto simp: moved_def)
next
  case (oidc now token csrf callback origin r a)
  then show ?thesis using oidc_may_add [OF _ assms(2)] by (auto simp: moved_def)
next
  case (login now token csrf q credential user hash valid r a)
  then show ?thesis using finish_login_may_add [OF _ assms(2)] by (auto simp: moved_def)
next
  case (logout now request)
  then show ?thesis by (simp add: moved_def quiet_logout)
next
  case (retire now)
  then show ?thesis by (simp add: moved_def quiet_retire)
next
  case (migrate now issuer new_id n a)
  then show ?thesis by (simp add: moved_def migrate_legacy_identities_def quiet_migrate_users)
next
  case (create_user now actor input hash ids u a)
  then show ?thesis by (simp add: moved_def quiet_create_user)
next
  case (unlink_identity now actor i identity reason u a)
  then show ?thesis by (simp add: moved_def unlink_identity_effect(1))
next
  case (reset_password now actor i name hash reason u a)
  then show ?thesis by (simp add: moved_def reset_password_effect(1))
next
  case (change_status now actor i disable s a)
  then show ?thesis by (simp add: moved_def change_user_status_effect(1))
next
  case (update_user now actor i c u a)
  then show ?thesis by (simp add: moved_def admin_update_user_effect(1))
next
  case (other now a)
  then show ?thesis by (simp add: moved_def quiet_same)
qed

section \<open>What holds in every state\<close>

definition auth_ok :: "auth_world \<Rightarrow> bool" where
  "auth_ok w \<longleftrightarrow>
     distinct (map ws_token_hash (sessions (aw_tables w))) \<and>
     ws_token_hash ` set (sessions (aw_tables w)) \<subseteq> aw_drawn w \<and>
     changes (active_session (aw_clock w)) (sessions (aw_tables w)) \<le> maximum_sessions_global \<and>
     (\<forall>u. changes (active_session_of u (aw_clock w)) (sessions (aw_tables w)) \<le> maximum_sessions_per_user)"

lemma changes_mono_pred: "(\<And>r. p r \<Longrightarrow> q r) \<Longrightarrow> changes p rs \<le> changes q rs"
  by (induction rs) auto

lemma active_later:
  assumes "t \<le> t'"
  shows "changes (active_session t') ss \<le> changes (active_session t) ss"
    and "changes (active_session_of u t') ss \<le> changes (active_session_of u t) ss"
  using assms by (auto simp: active_session_def active_session_of_def intro!: changes_mono_pred)

lemma room_filled:
  assumes "room_for s now b" and "distinct (map ws_token_hash (sessions b))"
    and "\<And>u. changes (active_session_of u now) (sessions b) \<le> maximum_sessions_per_user"
  shows "changes (active_session now) (sessions b @ [s]) \<le> maximum_sessions_global"
    and "changes (active_session_of u now) (sessions b @ [s]) \<le> maximum_sessions_per_user"
  using assms(1) assms(3) [of u]
  by (cases "ws_user_id s = u"; auto simp: room_for_def active_session_of_def)+

lemma auth_ok_step:
  assumes "auth_step dp bs w v" and "auth_ok w"
  shows "auth_ok v"
proof -
  let ?t = "aw_clock v"
  from assms(2) have d: "distinct (map ws_token_hash (sessions (aw_tables w)))"
    and drawn: "ws_token_hash ` set (sessions (aw_tables w)) \<subseteq> aw_drawn w" by (simp_all add: auth_ok_def)
  note step = auth_step_effect [OF assms(1) d]
  have now: "changes (active_session ?t) (sessions (aw_tables w)) \<le> maximum_sessions_global"
    "changes (active_session_of u ?t) (sessions (aw_tables w)) \<le> maximum_sessions_per_user" for u
    using active_later [OF conjunct1 [OF step]] assms(2) by (meson auth_ok_def le_trans)+
  have calm: "auth_ok v" if "quiet ?t (aw_tables w) (aw_tables v)" "aw_drawn w \<subseteq> aw_drawn v"
    using quiet_sessionsD [OF that(1) d] drawn that(2) now unfolding auth_ok_def by (meson le_trans subset_trans)
  show ?thesis
  proof (cases "quiet ?t (aw_tables w) (aw_tables v)")
    case True
    with calm step show ?thesis by auto
  next
    case False
    with step obtain h b c s where h: "h \<notin> aw_drawn w" "aw_drawn v = insert h (aw_drawn w)"
      and b: "quiet ?t (aw_tables w) b" "room_for s ?t b" "c = b\<lparr>sessions := sessions b @ [s]\<rparr>"
      "ws_token_hash s = h" "h \<notin> ws_token_hash ` set (sessions b)" "quiet ?t c (aw_tables v)"
      by (auto simp: may_add_def adds_session_def)
    note qb = quiet_sessionsD [OF b(1) d]
    have c: "distinct (map ws_token_hash (sessions c))" using qb(1) b(3,4,5) by simp
    note qv = quiet_sessionsD [OF b(6) c]
    have "changes (active_session_of u ?t) (sessions b) \<le> maximum_sessions_per_user" for u
      using qb(4) now(2) le_trans by blast
    note full = room_filled [OF b(2) qb(1) this]
    have "changes (active_session ?t) (sessions (aw_tables v)) \<le> maximum_sessions_global"
      using qv(3) full(1) b(3) by simp
    moreover have "changes (active_session_of u ?t) (sessions (aw_tables v)) \<le> maximum_sessions_per_user" for u
      using qv(4) [of u] full(2) [of u] b(3) by simp
    moreover have "ws_token_hash ` set (sessions (aw_tables v)) \<subseteq> aw_drawn v"
      using qv(2) qb(2) drawn h(2) b(3,4) by auto
    ultimately show ?thesis using qv(1) by (simp add: auth_ok_def)
  qed
qed

lemma start_auth_ok: "auth_ok (start_auth a)"
  by (simp add: auth_ok_def start_auth_def)

lemma auth_steps_ok: "(auth_step dp bs)\<^sup>*\<^sup>* w v \<Longrightarrow> auth_ok w \<Longrightarrow> auth_ok v \<and> aw_clock w \<le> aw_clock v"
proof (induction rule: rtranclp_induct)
  case (step x y)
  then show ?case using auth_ok_step auth_step_effect [OF step.hyps(2)]
    by (meson auth_ok_def le_trans)
qed simp

end
