(* ===== verification/Account_Properties.thy ===== *)
theory Account_Properties
  imports Auth_Admin
begin

text \<open>
  Properties of the logins, the accounts and the API keys, over all states that logins, logouts
  and the administration of users lead to.
\<close>

section \<open>Owners\<close>

lemma may_add_users: "may_add now h a a' \<Longrightarrow> users_kept (users (shared a)) (users (shared a'))"
  by (auto simp: may_add_def adds_session_def quiet_def intro: users_kept_trans)

lemma auth_step_users:
  assumes "auth_step dp bs w v" and "auth_ok w"
  shows "users_kept (users (shared (aw_tables w))) (users (shared (aw_tables v)))"
  using auth_step_effect [OF assms(1)] assms(2) may_add_users by (auto simp: auth_ok_def quiet_def)

lemma auth_steps_users:
  assumes "(auth_step dp bs)\<^sup>*\<^sup>* w v" and "auth_ok w"
  shows "users_kept (users (shared (aw_tables w))) (users (shared (aw_tables v)))"
  using assms(1)
proof (induction rule: rtranclp_induct)
  case (step x y)
  with auth_steps_ok [OF step.hyps(1) assms(2)] auth_step_users show ?case
    using users_kept_trans by blast
qed simp

text \<open>
  C38. The administration never locks itself out: from a database with an active owner, no sequence
  of logins, logouts, disabled accounts, changed roles and the other operations on users leads to
  one without an active owner.
\<close>

theorem active_owner_stays:
  assumes "(auth_step dp bs)\<^sup>*\<^sup>* (start_auth a) w" and "0 < count_active_owners (shared a)"
  shows "0 < count_active_owners (shared (aw_tables w))"
  using auth_steps_users [OF assms(1) start_auth_ok] assms(2)
  by (simp add: users_kept_def count_active_owners_def start_auth_def)

section \<open>Sessions\<close>

text \<open>
  C39. However often and in whatever way users log in, a user has at most twenty active sessions and
  the deployment at most ten thousand, now and at every later time until someone acts.
\<close>

theorem active_sessions_bounded:
  assumes "(auth_step dp bs)\<^sup>*\<^sup>* (start_auth a) w" and "aw_clock w \<le> t"
  shows "active_session_count_for_user (aw_tables w) u t \<le> maximum_sessions_per_user \<and>
    active_session_count (aw_tables w) t \<le> maximum_sessions_global"
proof -
  from auth_steps_ok [OF assms(1) start_auth_ok] have ok: "auth_ok w" by blast
  show ?thesis
    using active_later [OF assms(2), where ss = "sessions (aw_tables w)"] ok
    unfolding auth_ok_def active_session_count_for_user_def active_session_count_def
    by (meson le_trans)
qed

text \<open>A token that belongs to a session of an earlier security version of its user.\<close>

definition outdated :: "string \<Rightarrow> string \<Rightarrow> nat \<Rightarrow> auth_db \<Rightarrow> bool" where
  "outdated h i v a \<longleftrightarrow> versioned i v (users (shared a)) \<and>
     (\<forall>s\<in>set (sessions a). ws_token_hash s = h \<longrightarrow> ws_user_id s = i \<and> ws_user_security_version s < v)"

lemma outdated_quiet:
  assumes "outdated h i v a" and "quiet now a a'"
  shows "outdated h i v a'"
proof -
  have "ws_user_id s = i \<and> ws_user_security_version s < v"
    if "s \<in> set (sessions a')" "ws_token_hash s = h" for s
  proof -
    from assms(2) that(1) have "ws_owner s \<in> ws_owner ` set (sessions a)"
      by (auto simp: quiet_def calm_def)
    then obtain r where "r \<in> set (sessions a)" "ws_owner r = ws_owner s" by force
    with assms(1) that(2) show ?thesis by (auto simp: outdated_def ws_owner_def)
  qed
  with assms show ?thesis by (auto simp: outdated_def quiet_def users_kept_def)
qed

lemma outdated_add:
  "outdated h i v b \<Longrightarrow> ws_token_hash s \<noteq> h \<Longrightarrow> outdated h i v (b\<lparr>sessions := sessions b @ [s]\<rparr>)"
  by (auto simp: outdated_def)

lemma outdated_step:
  assumes "auth_step dp bs w w'" and "auth_ok w" and "outdated h i v (aw_tables w)" and "h \<in> aw_drawn w"
  shows "outdated h i v (aw_tables w') \<and> h \<in> aw_drawn w'"
proof -
  from assms(2) have "distinct (map ws_token_hash (sessions (aw_tables w)))" by (simp add: auth_ok_def)
  note step = auth_step_effect [OF assms(1) this]
  show ?thesis
  proof (cases "quiet (aw_clock w') (aw_tables w) (aw_tables w')")
    case True
    with step assms(3,4) outdated_quiet show ?thesis by blast
  next
    case False
    with step obtain k b s where k: "k \<notin> aw_drawn w" "aw_drawn w' = insert k (aw_drawn w)"
      and b: "quiet (aw_clock w') (aw_tables w) b" "ws_token_hash s = k"
      "quiet (aw_clock w') (b\<lparr>sessions := sessions b @ [s]\<rparr>) (aw_tables w')"
      by (auto simp: may_add_def adds_session_def)
    have "ws_token_hash s \<noteq> h" using k(1) b(2) assms(4) by blast
    from outdated_quiet [OF outdated_add [OF outdated_quiet [OF assms(3) b(1)] this] b(3)]
    show ?thesis using k(2) assms(4) by simp
  qed
qed

lemma outdated_steps:
  assumes "(auth_step dp bs)\<^sup>*\<^sup>* w w'" and "auth_ok w" and "outdated h i v (aw_tables w)" and "h \<in> aw_drawn w"
  shows "outdated h i v (aw_tables w')"
proof -
  from assms(1) have "outdated h i v (aw_tables w') \<and> h \<in> aw_drawn w'"
  proof (induction rule: rtranclp_induct)
    case base
    show ?case using assms(3,4) by blast
  next
    case (step x y)
    with auth_steps_ok [OF step.hyps(1) assms(2)] outdated_step show ?case by blast
  qed
  then show ?thesis ..
qed

lemma outdated_refused:
  assumes "outdated (ad_sha dp token) i v a"
    and "unique_cookie (request ''Cookie'') session_cookie = Some token"
  shows "fst (authenticate_session dp bs now request a) = None"
proof (cases rule: authenticate_session_cases [of dp bs now request a])
  case (3 token' s u)
  with assms(2) have t: "token' = token" by simp
  from 3(3) have s: "s \<in> set (sessions a)" "ws_token_hash s = ad_sha dp token"
    using get_session_SomeD unfolding t by blast+
  with assms(1) have "ws_user_id s = i" "ws_user_security_version s < v" "versioned i v (users (shared a))"
    by (auto simp: outdated_def)
  moreover from 3(4) have "u \<in> set (users (shared a)) \<and> u_id u = ws_user_id s"
    unfolding user_get_def by (rule row_by_SomeD)
  ultimately have "u_security_version u \<noteq> ws_user_security_version s" by (auto simp: versioned_def)
  with 3(5) show ?thesis by (simp add: session_live_def)
qed simp_all

text \<open>What the administration does to a user that ends the user's sessions.\<close>

inductive secures :: "string \<Rightarrow> timestamp \<Rightarrow> auth_db \<Rightarrow> auth_db \<Rightarrow> bool" for i now a b where
  reset: "reset_password_tx actor i name hash reason now a = Inr (u, b) \<Longrightarrow> secures i now a b"
| unlink: "unlink_identity actor i identity reason now a = Inr (u, b) \<Longrightarrow> secures i now a b"
| status: "change_user_status actor i disable now a = Inr (s, b) \<Longrightarrow> secures i now a b"
| update: "admin_update_user actor i c now a = Inr (u, b) \<Longrightarrow> secures i now a b"

lemma secures_effect: "secures i now a b \<Longrightarrow> quiet now a b \<and> raises i a b"
  by (auto elim!: secures.cases intro: reset_password_effect unlink_identity_effect
      change_user_status_effect admin_update_user_effect)

lemma secures_step:
  "secures i now (aw_tables w) b \<Longrightarrow> aw_clock w \<le> now \<Longrightarrow> auth_step dp bs w (moved now {} b w)"
  by (auto elim!: secures.cases intro: auth_step.intros)

text \<open>
  C40. Resetting a password, unlinking an identity, changing a user's status, role or data ends the
  sessions the user had: a cookie of such a session, which was made under the user's security version
  or an earlier one, is refused in every later state.
\<close>

theorem secured_user_is_logged_out:
  assumes "(auth_step dp bs)\<^sup>*\<^sup>* (start_auth a) w" and "distinct (map u_id (users (shared a)))"
    and "s \<in> set (sessions (aw_tables w))" and "user_get (aw_tables w) (ws_user_id s) = Some u"
    and "ws_user_security_version s \<le> u_security_version u"
    and "aw_clock w \<le> now" and "secures (ws_user_id s) now (aw_tables w) b"
    and "(auth_step dp bs)\<^sup>*\<^sup>* (moved now {} b w) v"
    and "unique_cookie (request ''Cookie'') session_cookie = Some token"
    and "ad_sha dp token = ws_token_hash s"
  shows "fst (authenticate_session dp bs later request (aw_tables v)) = None"
proof -
  let ?a = "aw_tables w" and ?i = "ws_user_id s" and ?v = "Suc (u_security_version u)"
  from auth_steps_ok [OF assms(1) start_auth_ok] have ok: "auth_ok w" by blast
  have "distinct (map u_id (users (shared ?a)))"
    using auth_steps_users [OF assms(1) start_auth_ok] assms(2) by (simp add: users_kept_def start_auth_def)
  note only = user_table.row_by_in [OF this]
  have "u \<in> set (users (shared ?a))" "u_id u = ?i"
    using assms(4) row_by_SomeD unfolding user_get_def by fast+
  moreover have "x = u" if "x \<in> set (users (shared ?a))" "u_id x = ?i" for x
    using only [OF that(1)] that(2) assms(4) unfolding user_get_def by (metis option.inject)
  ultimately have "versioned ?i (u_security_version u) (users (shared ?a))"
    unfolding versioned_def by (metis image_eqI order_refl)
  with secures_effect [OF assms(7)] have new: "versioned ?i ?v (users (shared b))" "quiet now ?a b"
    by (auto simp: raises_def)
  have same: "r = s" if "r \<in> set (sessions ?a)" "ws_token_hash r = ws_token_hash s" for r
    using that assms(3) ok session_table.row_by_in [of "sessions ?a"]
    by (metis auth_ok_def option.inject)
  have owner: "ws_owner r = ws_owner s"
    if "r \<in> set (sessions b)" "ws_token_hash r = ws_token_hash s" for r
  proof -
    from new(2) that(1) have "ws_owner r \<in> ws_owner ` set (sessions ?a)"
      by (auto simp: quiet_def calm_def)
    then obtain x where "x \<in> set (sessions ?a)" "ws_owner r = ws_owner x" by force
    moreover from this that(2) have "ws_token_hash x = ws_token_hash s" by (simp add: ws_owner_def)
    ultimately show ?thesis using same by metis
  qed
  have "outdated (ad_sha dp token) ?i ?v (aw_tables (moved now {} b w))"
    unfolding outdated_def assms(10) using new(1) owner assms(5)
    by (simp add: moved_def ws_owner_def less_Suc_eq_le)
  moreover have "auth_ok (moved now {} b w)"
    by (rule auth_ok_step [OF secures_step [OF assms(7,6)] ok])
  moreover have "ad_sha dp token \<in> aw_drawn (moved now {} b w)"
    using assms(3,10) ok by (auto simp: moved_def auth_ok_def)
  ultimately have "outdated (ad_sha dp token) ?i ?v (aw_tables v)" using outdated_steps [OF assms(8)] by blast
  then show ?thesis using assms(9) by (rule outdated_refused)
qed

section \<open>Witnesses\<close>

text \<open>An owner logs in with a password, and the password is reset.\<close>

definition padded :: "string \<Rightarrow> string" where
  "padded s = take 64 (s @ replicate 64 CHR ''0'')"

definition plain_auth :: auth_deps where
  "plain_auth = \<lparr>ad_sha = padded, ad_digest = id, ad_hmac = (\<lambda>_. padded), ad_scrypt = (\<lambda>p _ _ _. p),
     ad_encode = id, ad_decode = id, ad_origin = Inr\<rparr>"

definition password_auth :: browser_auth where
  "password_auth = \<lparr>ba_selection = Native True False None, ba_public_origin = ''https://r'',
     ba_provider = None, ba_issuer = None, ba_pepper = Some (replicate 32 CHR ''p''),
     ba_idle_ms = 1800000, ba_absolute_ms = 28800000, ba_log_n = 17, ba_dummy_hash = None\<rparr>"

definition the_owner :: user_row where
  "the_owner = \<lparr>u_id = ''o'', u_access_subject = None, u_access_subject_linked_at = None,
     u_access_subject_generation = 0, u_email = None, u_display_name = ''O'', u_role = Owner,
     u_status = Active, u_security_version = 1, u_created_by = ''o'', u_created_at = 0,
     u_updated_at = 0, u_last_login_at = None\<rparr>"

definition owner_credential :: credential_row where
  "owner_credential = \<lparr>cr_user_id = ''o'', cr_login_name = ''boss'', cr_password_hash = ''hash'',
     cr_password_updated_at = 0\<rparr>"

definition accounts0 :: auth_db where
  "accounts0 = empty_auth\<lparr>shared := empty_db\<lparr>users := [the_owner]\<rparr>,
     credentials := [owner_credential]\<rparr>"

definition owner_login :: password_login where
  "owner_login = \<lparr>pl_login_name = ''Boss'', pl_password = ''secret'', pl_ip_address = ''::1'',
     pl_request = (\<lambda>_. None)\<rparr>"

definition owner_token :: string where
  "owner_token = replicate 43 CHR ''t''"

definition accounts1 :: auth_db where
  "accounts1 = snd (finish_login plain_auth password_auth 1000 owner_token ''csrf'' owner_login
     (Some owner_credential) (Some the_owner) ''hash'' True (aw_tables (start_auth accounts0)))"

definition owner_actor :: app_actor where
  "owner_actor = \<lparr>aa_type = ActorUser, aa_id = ''o'', aa_role = Owner, aa_user_id = ''o''\<rparr>"

definition accounts2 :: auth_db where
  "accounts2 = (case reset_password_tx owner_actor ''o'' ''boss'' (replicate 80 CHR ''h'') ''forgotten'' 2000
     accounts1 of Inl _ \<Rightarrow> accounts1 | Inr (_, a) \<Rightarrow> a)"

abbreviation logged_in :: auth_world where
  "logged_in \<equiv> moved 1000 {ad_sha plain_auth owner_token} accounts1 (start_auth accounts0)"

lemma reach_logged_in: "(auth_step plain_auth password_auth)\<^sup>*\<^sup>* (start_auth accounts0) logged_in"
proof -
  have "finish_login plain_auth password_auth 1000 owner_token ''csrf'' owner_login
      (Some owner_credential) (Some the_owner) ''hash'' True (aw_tables (start_auth accounts0)) =
      (fst (finish_login plain_auth password_auth 1000 owner_token ''csrf'' owner_login
      (Some owner_credential) (Some the_owner) ''hash'' True (aw_tables (start_auth accounts0))), accounts1)"
    by (simp add: accounts1_def)
  from auth_step.login [OF _ _ this] show ?thesis
    by (intro r_into_rtranclp) (simp add: start_auth_def)
qed

lemma resets: "secures ''o'' 2000 accounts1 accounts2"
proof -
  have "reset_password_tx owner_actor ''o'' ''boss'' (replicate 80 CHR ''h'') ''forgotten'' 2000 accounts1 =
      Inr ((), accounts2)" by code_simp
  then show ?thesis by (rule secures.reset)
qed

lemma reach_reset:
  "(auth_step plain_auth password_auth)\<^sup>*\<^sup>* (start_auth accounts0) (moved 2000 {} accounts2 logged_in)"
  using resets reach_logged_in
  by (intro rtranclp.rtrancl_into_rtrancl [OF reach_logged_in] secures_step) (simp_all add: moved_def)

theorem active_owner_stays_witness: "0 < count_active_owners (shared accounts2)"
proof -
  have "0 < count_active_owners (shared accounts0)" by code_simp
  from active_owner_stays [OF reach_reset this] show ?thesis by (simp add: moved_def)
qed

theorem active_sessions_bounded_witness:
  "length (sessions accounts1) = 1 \<and> active_session_count accounts1 1000 \<le> 10000"
proof -
  have "length (sessions accounts1) = 1" by code_simp
  moreover from active_sessions_bounded [OF reach_logged_in, of 1000]
  have "active_session_count accounts1 1000 \<le> 10000"
    by (simp add: moved_def maximum_sessions_global_def)
  ultimately show ?thesis by simp
qed

definition owner_cookies :: headers where
  "owner_cookies h = (if h = ''Cookie'' then Some (session_cookie @ ''='' @ owner_token) else None)"

theorem secured_user_is_logged_out_witness:
  "fst (authenticate_session plain_auth password_auth 1500 owner_cookies accounts1) \<noteq> None \<and>
   fst (authenticate_session plain_auth password_auth 2500 owner_cookies accounts2) = None"
proof -
  let ?s = "hd (sessions accounts1)"
  have u: "user_get accounts1 (ws_user_id ?s) = Some (the_owner\<lparr>u_last_login_at := Some 1000, u_updated_at := 1000\<rparr>)"
    by code_simp
  have v: "?s \<in> set (sessions accounts1)" "ws_user_id ?s = ''o''"
    "distinct (map u_id (users (shared accounts0)))" "ws_user_security_version ?s \<le> 1"
    "unique_cookie (owner_cookies ''Cookie'') session_cookie = Some owner_token"
    "ad_sha plain_auth owner_token = ws_token_hash ?s"
    "fst (authenticate_session plain_auth password_auth 1500 owner_cookies accounts1) \<noteq> None"
    by code_simp+
  have w: "aw_tables logged_in = accounts1" "aw_clock logged_in = 1000" by (simp_all add: moved_def)
  have "fst (authenticate_session plain_auth password_auth 2500 owner_cookies
      (aw_tables (moved 2000 {} accounts2 logged_in))) = None"
  proof (rule secured_user_is_logged_out [OF reach_logged_in v(3)])
    show "?s \<in> set (sessions (aw_tables logged_in))" unfolding w by (rule v(1))
    show "user_get (aw_tables logged_in) (ws_user_id ?s) =
        Some (the_owner\<lparr>u_last_login_at := Some 1000, u_updated_at := 1000\<rparr>)" unfolding w by (rule u)
    show "ws_user_security_version ?s \<le>
        u_security_version (the_owner\<lparr>u_last_login_at := Some 1000, u_updated_at := 1000\<rparr>)"
      using v(4) by (simp add: the_owner_def)
    show "aw_clock logged_in \<le> 2000" unfolding w by simp
    show "secures (ws_user_id ?s) 2000 (aw_tables logged_in) accounts2" unfolding w v(2) by (rule resets)
    show "(auth_step plain_auth password_auth)\<^sup>*\<^sup>* (moved 2000 {} accounts2 logged_in)
        (moved 2000 {} accounts2 logged_in)" by (rule rtranclp.rtrancl_refl)
  qed (rule v(5,6))+
  then have "fst (authenticate_session plain_auth password_auth 2500 owner_cookies accounts2) = None"
    by (simp add: moved_def)
  with v(7) show ?thesis by blast
qed

end
