(* ===== verification/Key_Properties.thy ===== *)
theory Key_Properties
  imports Account_Properties
begin

text \<open>
  Properties of the API keys: a key that was issued, or took the place of another one, is accepted
  with the scopes it was given, and refused once it is revoked or replaced.
\<close>

section \<open>A new key\<close>

definition key_text :: "string \<Rightarrow> string \<Rightarrow> bool" where
  "key_text i secret \<longleftrightarrow> length i = 32 \<and> list_all is_hex i \<and> is_secret secret"

lemma parse_key_token: "key_text i secret \<Longrightarrow> parse_key (key_token kind i secret) = Some (kind, i, secret)"
  by (cases kind) (simp_all add: parse_key_def key_token_def key_prefix_def key_text_def is_secret_def
      nth_append Let_def)

lemma create_key_InrD:
  assumes "create_key ks i secret kind = Inr g"
  obtains h where "hash_secret ks secret (ks_active ks) = Inr h"
    and "g = \<lparr>gk_token = key_token kind i secret, gk_id = ''key_'' @ i, gk_prefix = key_prefix kind i,
      gk_kind = kind, gk_secret_hash = h, gk_pepper_id = ks_active ks\<rparr>"
  using assms by (auto simp: create_key_def bind_r_Inr_iff)

lemma insert_key_InrD:
  "insert_key k d = Inr (x, e) \<Longrightarrow> row_by k_id (k_id k) (api_keys d) = None \<and>
     e = d\<lparr>api_keys := api_keys d @ [k]\<rparr>"
  by (auto simp: insert_key_def row_by_None_iff split: if_splits)

text \<open>The row of a key and what it is accepted as, until someone changes the row or its owners.\<close>

definition issued_row :: "key_service \<Rightarrow> generated_key \<Rightarrow> string list \<Rightarrow> timestamp option \<Rightarrow> string \<Rightarrow> key_row \<Rightarrow> bool" where
  "issued_row ks g scopes expires account r \<longleftrightarrow>
     (\<exists>i secret. key_text i secret \<and> create_key ks i secret (gk_kind g) = Inr g) \<and>
     k_id r = gk_id g \<and> k_prefix r = gk_prefix g \<and> k_kind r = gk_kind g \<and>
     k_secret_hash r = gk_secret_hash g \<and> k_pepper_id r = gk_pepper_id g \<and>
     k_scopes r = Some (JArr (map JStr scopes)) \<and> k_expires_at r = expires \<and>
     k_service_account_id r = account"

definition key_identity_of :: "generated_key \<Rightarrow> string list \<Rightarrow> account_row \<Rightarrow> user_row \<Rightarrow> key_identity" where
  "key_identity_of g scopes s u =
     \<lparr>ki_api_key_id = gk_id g, ki_service_account_id = a_id s, ki_user_id = u_id u,
      ki_user_security_version = u_security_version u, ki_account_security_version = a_security_version s,
      ki_scopes = scopes, ki_kind = gk_kind g\<rparr>"

lemma authenticate_issued:
  assumes "issued_row ks g scopes expires account r"
    and "row_by k_id (gk_id g) (api_keys d) = Some r"
    and "row_by a_id account (accounts d) = Some s" and "row_by u_id (a_owner_user_id s) (users d) = Some u"
  shows "authenticate_key ks (gk_token g) required t d =
    bind_r (key_usable (r, s, u) t required) (\<lambda>scopes'. Inr (key_identity_of g scopes' s u,
      snd (update_keys (\<lambda>k. k_id k = gk_id g) (\<lambda>k. k\<lparr>k_last_used_at := Some t\<rparr>) d)))"
proof -
  from assms(1) obtain i secret where t: "key_text i secret" "create_key ks i secret (gk_kind g) = Inr g"
    by (auto simp: issued_row_def)
  from create_key_InrD [OF this(2)] obtain h where h: "hash_secret ks secret (ks_active ks) = Inr h"
    "g = \<lparr>gk_token = key_token (gk_kind g) i secret, gk_id = ''key_'' @ i, gk_prefix = key_prefix (gk_kind g) i,
      gk_kind = gk_kind g, gk_secret_hash = h, gk_pepper_id = ks_active ks\<rparr>" .
  then have g: "gk_token g = key_token (gk_kind g) i secret" "gk_id g = ''key_'' @ i"
    "gk_prefix g = key_prefix (gk_kind g) i" "gk_secret_hash g = h" "gk_pepper_id g = ks_active ks"
    by (metis generated_key.select_convs)+
  have o: "key_owner d (''key_'' @ i) = Some (r, s, u)"
    using assms g(2) by (simp add: key_owner_def join_owner_def issued_row_def)
  show ?thesis
    using assms(1) g h(1) o
    by (simp add: authenticate_key_def g(1) parse_key_token [OF t(1)] issued_row_def verify_secret_def
        key_identity_of_def)
qed

text \<open>A live row of a live account and owner, and a row that was revoked.\<close>

definition key_live :: "generated_key \<Rightarrow> key_row \<Rightarrow> account_row \<Rightarrow> user_row \<Rightarrow> db \<Rightarrow> bool" where
  "key_live g r s u d \<longleftrightarrow> row_by k_id (gk_id g) (api_keys d) = Some r \<and> k_revoked_at r = None \<and>
     row_by a_id (k_service_account_id r) (accounts d) = Some s \<and> a_status s = Active \<and>
     row_by u_id (a_owner_user_id s) (users d) = Some u \<and> u_status u = Active"

lemma issued_accepted:
  assumes "issued_row ks g scopes expires account r" and "key_live g r s u d"
    and "unexpired expires t" and "p \<in> set scopes"
  shows "\<exists>e. authenticate_key ks (gk_token g) (Some p) t d = Inr (key_identity_of g scopes s u, e)"
proof -
  have "account = k_service_account_id r" using assms(1) by (simp add: issued_row_def)
  with assms(2) have rows: "row_by k_id (gk_id g) (api_keys d) = Some r"
    "row_by a_id account (accounts d) = Some s" "row_by u_id (a_owner_user_id s) (users d) = Some u"
    by (simp_all add: key_live_def)
  from assms have "key_usable (r, s, u) t (Some p) = Inr scopes"
    by (simp add: key_usable_def key_live_def issued_row_def key_scopes_def comp_def)
  with authenticate_issued [OF assms(1) rows] show ?thesis by simp
qed

lemma revoked_refused:
  assumes "issued_row ks g scopes expires account r" and "row_by k_id (gk_id g) (api_keys d) = Some r"
    and "k_revoked_at r \<noteq> None"
    and "row_by a_id account (accounts d) = Some s" and "row_by u_id (a_owner_user_id s) (users d) = Some u"
  shows "authenticate_key ks (gk_token g) required t d = Inl (AppError ''API_KEY_INACTIVE'' 401)"
  using authenticate_issued [OF assms(1,2,4,5)] assms(3) by (simp add: key_usable_def)

section \<open>The administration of keys\<close>

lemma create_issues:
  assumes "admin_create_key ks actor account name scopes expires i secret now d = Inr (g, e)"
    and "key_text i secret"
  obtains r where "issued_row ks g scopes expires account r"
    and "row_by k_id (gk_id g) (api_keys e) = Some r" and "k_revoked_at r = None"
    and "accounts e = accounts d" and "users e = users d"
    and "distinct (map k_id (api_keys d)) \<Longrightarrow> distinct (map k_id (api_keys e))"
proof (rule that)
  let ?r = "new_key_row g account name scopes expires now (aa_id actor)"
  from assms(1) obtain kind e' where g: "create_key ks i secret kind = Inr g"
    and e': "insert_key (new_key_row g account name scopes expires now (aa_id actor)) d = Inr ((), e')"
    and e: "e = audit (admin_audit actor ''api_key.created'' ''api_key'' (gk_id g)
       [(''prefix'', JStr (gk_prefix g)), (''scopes'', JArr (map JStr scopes))] now) e'"
    by (auto simp: admin_create_key_def seq_tx_Inr_iff)
  from g have "gk_kind g = kind" by (auto elim: create_key_InrD)
  with g assms(2) show "issued_row ks g scopes expires account ?r"
    by (auto simp: issued_row_def new_key_row_def)
  show "row_by k_id (gk_id g) (api_keys e) = Some ?r"
    using insert_key_InrD [OF e'] by (auto simp: e row_by_append new_key_row_def audit_def)
  show "accounts e = accounts d" "users e = users d"
    using insert_key_InrD [OF e'] by (auto simp: e audit_def)
  show "k_revoked_at ?r = None" by (simp add: new_key_row_def)
  show "distinct (map k_id (api_keys e))" if "distinct (map k_id (api_keys d))"
    using that insert_key_InrD [OF e'] by (auto simp: e audit_def row_by_None_iff)
qed

lemma revoke_row:
  "row_by k_id i (api_keys (snd (revoke_key i t d))) = map_option (revoked_from t) (row_by k_id i (api_keys d))"
proof (cases "row_by k_id i (api_keys d)")
  case None
  then show ?thesis by (simp add: revoke_key_def update_keys_def key_table.row_by_upd_where revoked_from_def)
next
  case (Some r)
  then have "k_id r = i" by (rule row_by_SomeD [THEN conjunct2])
  with Some show ?thesis
    by (simp add: revoke_key_def update_keys_def key_table.row_by_upd_where revoked_from_def)
qed

lemma issued_revoked [simp]:
  "issued_row ks g scopes expires account (revoked_from t r) = issued_row ks g scopes expires account r"
  by (simp add: issued_row_def revoked_from_def)

lemma revoke_same [simp]:
  "accounts (snd (revoke_key i t d)) = accounts d" "users (snd (revoke_key i t d)) = users d"
  by (simp_all add: revoke_key_def update_keys_def)

lemma admin_get_key_row:
  assumes "admin_get_key i d = Inr k" and "distinct (map k_id (api_keys d))"
  shows "row_by k_id i (api_keys d) = Some k"
proof -
  from assms(1) have "find (\<lambda>k. k_id k = i \<and> user_key_row d k) (api_keys d) = Some k"
    by (simp add: admin_get_key_def get_key_def split: option.splits)
  then have "k \<in> set (api_keys d)" "k_id k = i" by (auto simp: find_Some_iff)
  then show ?thesis using key_table.row_by_in [OF assms(2)] by auto
qed

text \<open>A rotation issues a key with the scopes, the expiry and the account of the old one, whose row it revokes.\<close>

lemma rotate_issues:
  assumes "admin_rotate_key ks actor (gk_id g) i secret t d = Inr (g', e)" and "key_text i secret"
    and "distinct (map k_id (api_keys d))"
    and "issued_row ks g scopes expires account r" and "row_by k_id (gk_id g) (api_keys d) = Some r"
  obtains r' where "issued_row ks g' scopes expires account r'"
    and "row_by k_id (gk_id g') (api_keys e) = Some r'" and "k_revoked_at r' = None"
    and "row_by k_id (gk_id g) (api_keys e) = Some (revoked_from t r)"
    and "accounts e = accounts d" and "users e = users d"
proof (rule that)
  let ?d = "snd (revoke_key (gk_id g) t d)"
  let ?r = "new_key_row g' account (k_name r) scopes expires t (aa_id actor)"
  from assms(1) obtain old ss e' where old: "admin_get_key (gk_id g) d = Inr old"
    and ss: "rotate_check actor old t = Inr ss" and g': "create_key ks i secret (k_kind old) = Inr g'"
    and e': "insert_key (new_key_row g' (k_service_account_id old) (k_name old) ss (k_expires_at old) t
      (aa_id actor)) ?d = Inr ((), e')"
    and e: "e = audit (admin_audit actor ''api_key.rotated'' ''api_key'' (gk_id g')
       [(''replaces'', JStr (gk_id g)), (''prefix'', JStr (gk_prefix g'))] t) e'"
    by (auto simp: admin_rotate_key_def seq_tx_Inr_iff)
  from admin_get_key_row [OF old assms(3)] assms(5) have r: "old = r" by simp
  from ss have "key_scopes r = Inr ss"
    by (auto simp: rotate_check_def bind_r_Inr_iff r split: if_splits)
  then have s: "ss = scopes" using assms(4) by (simp add: key_scopes_def issued_row_def comp_def)
  have row: "new_key_row g' (k_service_account_id old) (k_name old) ss (k_expires_at old) t (aa_id actor) = ?r"
    using assms(4) by (simp add: r s issued_row_def)
  have k: "gk_kind g' = k_kind old" using g' by (auto elim: create_key_InrD)
  show "issued_row ks g' scopes expires account ?r"
    using g' assms(2) k by (auto simp: issued_row_def new_key_row_def)
  note ins = insert_key_InrD [OF e' [unfolded row]]
  have "k_id ?r = gk_id g'" by (simp add: new_key_row_def)
  with ins show "row_by k_id (gk_id g') (api_keys e) = Some ?r"
    by (simp add: e row_by_append audit_def)
  have "row_by k_id (gk_id g) (api_keys ?d) = Some (revoked_from t r)"
    using revoke_row [of "gk_id g" t d] assms(5) by simp
  with ins show "row_by k_id (gk_id g) (api_keys e) = Some (revoked_from t r)"
    by (simp add: e row_by_append audit_def)
  show "accounts e = accounts d" "users e = users d"
    using ins by (auto simp: e audit_def)
  show "k_revoked_at ?r = None" by (simp add: new_key_row_def)
qed

definition key_accepted ::
  "key_service \<Rightarrow> generated_key \<Rightarrow> string list \<Rightarrow> timestamp option \<Rightarrow> account_row \<Rightarrow> user_row \<Rightarrow> db \<Rightarrow> bool" where
  "key_accepted ks g scopes expires s u d \<longleftrightarrow> (\<forall>t p. unexpired expires t \<longrightarrow> p \<in> set scopes \<longrightarrow>
     (\<exists>e. authenticate_key ks (gk_token g) (Some p) t d = Inr (key_identity_of g scopes s u, e)))"

definition key_refused :: "key_service \<Rightarrow> generated_key \<Rightarrow> db \<Rightarrow> bool" where
  "key_refused ks g d \<longleftrightarrow>
     (\<forall>required t. authenticate_key ks (gk_token g) required t d = Inl (AppError ''API_KEY_INACTIVE'' 401))"

lemma key_acceptedI:
  assumes "issued_row ks g scopes expires account r"
    and "row_by k_id (gk_id g) (api_keys d) = Some r" and "k_revoked_at r = None"
    and "row_by a_id account (accounts d) = Some s" and "a_status s = Active"
    and "row_by u_id (a_owner_user_id s) (users d) = Some u" and "u_status u = Active"
  shows "key_accepted ks g scopes expires s u d"
proof -
  have "key_live g r s u d" using assms by (simp add: key_live_def issued_row_def)
  with issued_accepted [OF assms(1)] show ?thesis by (simp add: key_accepted_def)
qed

lemma key_refusedI:
  assumes "issued_row ks g scopes expires account r"
    and "row_by k_id (gk_id g) (api_keys d) = Some (revoked_from t r)"
    and "row_by a_id account (accounts d) = Some s" and "row_by u_id (a_owner_user_id s) (users d) = Some u"
  shows "key_refused ks g d"
proof -
  have "issued_row ks g scopes expires account (revoked_from t r)" using assms(1) by simp
  moreover have "k_revoked_at (revoked_from t r) \<noteq> None" by (simp add: revoked_from_def)
  ultimately show ?thesis using assms(2-4) revoked_refused unfolding key_refused_def by blast
qed

text \<open>
  C23. A key that the administration creates is accepted as its account and user with exactly its
  scopes until it expires. Once revoked it is refused whatever the time and the scope; once rotated
  it is refused and the new key is accepted in its place with the same scopes, expiry and account.
\<close>

theorem api_key_round_trip:
  assumes "admin_create_key ks actor account name scopes expires i secret now d = Inr (g, e)"
    and "key_text i secret" and "distinct (map k_id (api_keys d))"
    and "row_by a_id account (accounts d) = Some s" and "a_status s = Active"
    and "row_by u_id (a_owner_user_id s) (users d) = Some u" and "u_status u = Active"
  shows "key_accepted ks g scopes expires s u e \<and>
    (\<forall>actor' t f. admin_revoke_key actor' (gk_id g) t e = Inr ((), f) \<longrightarrow> key_refused ks g f) \<and>
    (\<forall>actor' i' secret' t g' f. admin_rotate_key ks actor' (gk_id g) i' secret' t e = Inr (g', f) \<longrightarrow>
      key_text i' secret' \<longrightarrow> key_refused ks g f \<and> key_accepted ks g' scopes expires s u f)"
proof (rule create_issues [OF assms(1,2)], intro conjI allI impI)
  fix r
  assume r: "issued_row ks g scopes expires account r" "row_by k_id (gk_id g) (api_keys e) = Some r"
    "k_revoked_at r = None" and same: "accounts e = accounts d" "users e = users d"
    and "distinct (map k_id (api_keys d)) \<Longrightarrow> distinct (map k_id (api_keys e))"
  then have d: "distinct (map k_id (api_keys e))" using assms(3) by blast
  show "key_accepted ks g scopes expires s u e"
    using key_acceptedI [OF r _ assms(5) _ assms(7)] assms(4,6) same by simp
  show "key_refused ks g f" if "admin_revoke_key actor' (gk_id g) t e = Inr ((), f)" for actor' t f
  proof (rule key_refusedI [OF r(1)])
    from that have f: "f = audit (admin_audit actor' ''api_key.revoked'' ''api_key'' (gk_id g) [] t)
        (snd (revoke_key (gk_id g) t e))"
      by (auto simp: admin_revoke_key_def seq_tx_Inr_iff)
    show "row_by k_id (gk_id g) (api_keys f) = Some (revoked_from t r)"
      using revoke_row [of "gk_id g" t e] r(2) by (simp add: f audit_def)
    show "row_by a_id account (accounts f) = Some s" "row_by u_id (a_owner_user_id s) (users f) = Some u"
      using assms(4,6) same by (simp_all add: f audit_def)
  qed
  fix actor' i' secret' t g' f
  assume rot: "admin_rotate_key ks actor' (gk_id g) i' secret' t e = Inr (g', f)" and new: "key_text i' secret'"
  from rotate_issues [OF rot new d r(1,2)] obtain r' where r':
    "issued_row ks g' scopes expires account r'" "row_by k_id (gk_id g') (api_keys f) = Some r'"
    "k_revoked_at r' = None" "row_by k_id (gk_id g) (api_keys f) = Some (revoked_from t r)"
    and f: "accounts f = accounts e" "users f = users e" .
  show "key_refused ks g f"
    using key_refusedI [OF r(1) r'(4)] assms(4,6) same f by simp
  show "key_accepted ks g' scopes expires s u f"
    using key_acceptedI [OF r'(1-3) _ assms(5) _ assms(7)] assms(4,6) same f by simp
qed

section \<open>Witness\<close>

definition plain_keys :: key_service where
  "plain_keys = \<lparr>ks_pepper = (\<lambda>p. if p = ''p1'' then Some ''pepper'' else None), ks_active = ''p1'',
     ks_hmac = (\<lambda>p s. replicate 64 CHR ''a'')\<rparr>"

definition keys0 :: db where
  "keys0 = empty_db\<lparr>users := [the_owner],
     accounts := [\<lparr>a_id = ''sa'', a_owner_user_id = ''o'', a_name = ''CI'', a_client_type = Ci,
       a_status = Active, a_security_version = 1, a_created_at = 0, a_updated_at = 0,
       a_purpose = UserPurpose\<rparr>]\<rparr>"

abbreviation new_text :: "char \<Rightarrow> string" where
  "new_text c \<equiv> replicate 32 c"

abbreviation new_secret :: "char \<Rightarrow> string" where
  "new_secret c \<equiv> replicate 43 c"

definition keys1 :: "generated_key \<times> db" where
  "keys1 = projr (admin_create_key plain_keys owner_actor ''sa'' ''k'' [''render:create''] (Some 9000)
     (new_text CHR ''0'') (new_secret CHR ''x'') 1000 keys0)"

definition keys2 :: "generated_key \<times> db" where
  "keys2 = projr (admin_rotate_key plain_keys owner_actor (gk_id (fst keys1)) (new_text CHR ''1'')
     (new_secret CHR ''y'') 2000 (snd keys1))"

theorem api_key_round_trip_witness:
  "isl (authenticate_key plain_keys (gk_token (fst keys1)) None 3000 (snd keys2)) \<and>
   \<not> isl (authenticate_key plain_keys (gk_token (fst keys2)) (Some ''render:create'') 3000 (snd keys2))"
proof -
  let ?s = "hd (accounts keys0)"
  have "\<not> isl (admin_create_key plain_keys owner_actor ''sa'' ''k'' [''render:create''] (Some 9000)
     (new_text CHR ''0'') (new_secret CHR ''x'') 1000 keys0)" by code_simp
  then have c: "admin_create_key plain_keys owner_actor ''sa'' ''k'' [''render:create''] (Some 9000)
     (new_text CHR ''0'') (new_secret CHR ''x'') 1000 keys0 = Inr (fst keys1, snd keys1)"
    by (simp add: keys1_def)
  have "\<not> isl (admin_rotate_key plain_keys owner_actor (gk_id (fst keys1)) (new_text CHR ''1'')
     (new_secret CHR ''y'') 2000 (snd keys1))" by code_simp
  then have r: "admin_rotate_key plain_keys owner_actor (gk_id (fst keys1)) (new_text CHR ''1'')
     (new_secret CHR ''y'') 2000 (snd keys1) = Inr (fst keys2, snd keys2)"
    by (simp add: keys2_def)
  have t: "key_text (new_text CHR ''0'') (new_secret CHR ''x'')" "key_text (new_text CHR ''1'') (new_secret CHR ''y'')"
    by code_simp+
  have s: "distinct (map k_id (api_keys keys0))" "row_by a_id ''sa'' (accounts keys0) = Some ?s"
    "a_status ?s = Active" "row_by u_id (a_owner_user_id ?s) (users keys0) = Some the_owner"
    "u_status the_owner = Active" "unexpired (Some 9000) 3000" by code_simp+
  from api_key_round_trip [OF c t(1) s(1-5)] r t(2)
  have "key_refused plain_keys (fst keys1) (snd keys2)"
    "key_accepted plain_keys (fst keys2) [''render:create''] (Some 9000) ?s the_owner (snd keys2)"
    by blast+
  then show ?thesis using s(6) unfolding key_refused_def key_accepted_def
    by (metis isl_def list.set_intros(1) sum.disc(2))
qed

end
