(* ===== verification/Login_Properties.thy ===== *)
theory Login_Properties
  imports Account_Properties
begin

text \<open>
  The throttle of password logins: a run of refused logins under one name, between which others may
  be refused too, ends the logins under that name for a while.
\<close>

section \<open>Refused logins\<close>






section \<open>The rows of the throttle\<close>




lemma failed_attempt_key [simp]: "at_key_hash (failed_attempt k previous now) = k"
  by (simp add: failed_attempt_def split: prod.splits)











section \<open>Runs of refused logins\<close>






section \<open>Witness\<close>










end
