(* ===== verification/Worker_Run.thy ===== *)
theory Worker_Run
  imports Lifecycle Artifacts Source_Trees
begin

text \<open>
  What the processors of the renderer worker (apps/renderer-worker/src) are made of. A processor is
  a sequence of statements on the database between which it waits: for the file system, the archive
  and the renderer's container. While it waits others commit, its own lease timer among them. A run
  keeps count of its waits, clock readings and new identifiers, of the directories it has below
  \<open>outputs\<close>, and of what it committed.
\<close>

section \<open>Runs\<close>

text \<open>An error with its message; \<open>Deferred\<close> is \<open>RendererCleanupDeferred\<close>.\<close>

datatype failure = Failure app_error string | Deferred

type_synonym 'a outcome = "failure + 'a"

text \<open>
  What a run meets: \<open>en_others n\<close> is what others commit during the n-th wait, \<open>en_clock n\<close> and
  \<open>en_id n\<close> the n-th reading of the clock and the n-th new identifier.
\<close>

record environment =
  en_others :: "nat \<Rightarrow> db \<Rightarrow> db"
  en_clock :: "nat \<Rightarrow> timestamp"
  en_id :: "nat \<Rightarrow> string"
  en_beats :: "nat \<Rightarrow> nat"
  en_error_text :: "app_error \<Rightarrow> string"

record run =
  rn_db :: db
  rn_waits :: nat
  rn_reads :: nat
  rn_ids :: nat
  rn_outputs :: "(string \<times> nat) list"
  rn_published :: "(string \<times> nat) list"
  rn_lost :: bool
  rn_pin :: "reader_row option"
  rn_commits :: "(db \<times> db) list"

definition start_run :: "db \<Rightarrow> (string \<times> nat) list \<Rightarrow> run" where
  "start_run d dirs = \<lparr>rn_db = d, rn_waits = 0, rn_reads = 0, rn_ids = 0, rn_outputs = dirs,
     rn_published = [], rn_lost = False, rn_pin = None, rn_commits = []\<rparr>"

datatype 'a ending = Value 'a | Returned | Thrown failure

type_synonym 'a act = "environment \<Rightarrow> run \<Rightarrow> 'a ending \<times> run"

definition andthen :: "'a act \<Rightarrow> ('a \<Rightarrow> 'b act) \<Rightarrow> 'b act" where
  "andthen m k env r = (case m env r of
     (Value x, r') \<Rightarrow> k x env r' | (Returned, r') \<Rightarrow> (Returned, r') | (Thrown e, r') \<Rightarrow> (Thrown e, r'))"

definition value_act :: "'a \<Rightarrow> 'a act" where
  "value_act x env r = (Value x, r)"

definition return_act :: "'a act" where
  "return_act env r = (Returned, r)"

definition throw_act :: "failure \<Rightarrow> 'a act" where
  "throw_act e env r = (Thrown e, r)"

definition read_act :: "(db \<Rightarrow> 'a) \<Rightarrow> 'a act" where
  "read_act f env r = (Value (f (rn_db r)), r)"

definition return_unless :: "bool \<Rightarrow> unit act" where
  "return_unless b = (if b then value_act () else return_act)"

definition throw_when :: "bool \<Rightarrow> failure \<Rightarrow> unit act" where
  "throw_when b e = (if b then throw_act e else value_act ())"

text \<open>\<open>nowIso()\<close> and \<open>newId\<close>, the latter for a list of things.\<close>

definition now_act :: "timestamp act" where
  "now_act env r = (Value (en_clock env (rn_reads r)), r\<lparr>rn_reads := rn_reads r + 1\<rparr>)"

definition ids_act :: "nat \<Rightarrow> string list act" where
  "ids_act n env r = (Value (map (\<lambda>k. en_id env (rn_ids r + k)) [0..<n]), r\<lparr>rn_ids := rn_ids r + n\<rparr>)"

text \<open>A statement, and a transaction, which changes nothing when it throws.\<close>

definition commit_act :: "(db \<Rightarrow> 'a \<times> db) \<Rightarrow> 'a act" where
  "commit_act f env r = (case f (rn_db r) of (x, d) \<Rightarrow>
     (Value x, r\<lparr>rn_db := d, rn_commits := rn_commits r @ [(rn_db r, d)]\<rparr>))"

definition tx_act :: "'a tx \<Rightarrow> 'a act" where
  "tx_act m env r = (case m (rn_db r) of
     Inl e \<Rightarrow> (Thrown (Failure e (en_error_text env e)), r)
   | Inr (x, d) \<Rightarrow> (Value x, r\<lparr>rn_db := d, rn_commits := rn_commits r @ [(rn_db r, d)]\<rparr>))"

text \<open>Waiting for something outside: others commit, then its outcome is there.\<close>

definition wait_act :: "'a outcome \<Rightarrow> 'a act" where
  "wait_act x env r = (case x of Inl e \<Rightarrow> Thrown e | Inr y \<Rightarrow> Value y,
     r\<lparr>rn_db := en_others env (rn_waits r) (rn_db r), rn_waits := rn_waits r + 1\<rparr>)"

text \<open>\<open>rename(candidate, output)\<close> followed by \<open>published.add(output)\<close>.\<close>

definition rename_act :: "unit outcome \<Rightarrow> string \<times> nat \<Rightarrow> unit act" where
  "rename_act x g = andthen (wait_act x) (\<lambda>_ env r. (Value (),
     r\<lparr>rn_outputs := g # filter (\<lambda>h. h \<noteq> g) (rn_outputs r), rn_published := g # rn_published r\<rparr>))"

text \<open>\<open>published.delete(output)\<close>, and the removal of what is still in \<open>published\<close>.\<close>

definition settle_act :: "string \<times> nat \<Rightarrow> unit act" where
  "settle_act g env r = (Value (), r\<lparr>rn_published := filter (\<lambda>h. h \<noteq> g) (rn_published r)\<rparr>)"

definition remove_published :: "unit outcome \<Rightarrow> unit act" where
  "remove_published x = andthen (wait_act x) (\<lambda>_ env r. (Value (),
     r\<lparr>rn_outputs := filter (\<lambda>h. h \<notin> set (rn_published r)) (rn_outputs r)\<rparr>))"

text \<open>\<open>releaseInput\<close>: the pin on a cached source tree is remembered and given back.\<close>

definition pin_act :: "reader_row option \<Rightarrow> unit act" where
  "pin_act p env r = (Value (), r\<lparr>rn_pin := p\<rparr>)"

definition release_act :: "unit act" where
  "release_act env r = (case rn_pin r of None \<Rightarrow> (Value (), r)
     | Some p \<Rightarrow> commit_act (\<lambda>d. ((), tree_release p d)) env r)"

section \<open>The lease\<close>

record lease =
  le_job :: string
  le_worker :: string
  le_generation :: nat

definition owns :: "lease \<Rightarrow> db \<Rightarrow> bool" where
  "owns l d \<longleftrightarrow> (case runtime_state d (le_job l) of
     None \<Rightarrow> False
   | Some s \<Rightarrow> rs_lease_owner s = Some (le_worker l) \<and> rs_lease_generation s = le_generation l)"

definition cancel_requested :: "lease \<Rightarrow> db \<Rightarrow> bool" where
  "cancel_requested l d \<longleftrightarrow> (case runtime_state d (le_job l) of
     None \<Rightarrow> True | Some s \<Rightarrow> rs_cancel_requested_at s \<noteq> None)"

text \<open>A statement under the lease, with its number of changed rows.\<close>

definition leased :: "lease \<Rightarrow> (string \<Rightarrow> string \<Rightarrow> nat \<Rightarrow> 'a) \<Rightarrow> 'a" where
  "leased l f = f (le_job l) (le_worker l) (le_generation l)"

definition renew_act :: "lease \<Rightarrow> bool act" where
  "renew_act l = andthen now_act (\<lambda>now. andthen (commit_act (leased l (heartbeat now (now + 30000))))
     (\<lambda>n. value_act (n = 1)))"

definition mark_canceled_act :: "lease \<Rightarrow> nat act" where
  "mark_canceled_act l = andthen now_act (\<lambda>now. commit_act (leased l (mark_canceled now None)))"

definition canceled_act :: "lease \<Rightarrow> bool act" where
  "canceled_act l = andthen (read_act (\<lambda>d. owns l d \<and> cancel_requested l d)) (\<lambda>c.
     if c then andthen (mark_canceled_act l) (\<lambda>_. value_act True) else value_act False)"

text \<open>The audit records of the worker.\<close>

definition worker_audit ::
  "lease \<Rightarrow> string \<Rightarrow> string \<Rightarrow> (string \<times> json) list \<Rightarrow> timestamp \<Rightarrow> audit_row" where
  "worker_audit l action result meta now =
     \<lparr>au_actor_type = ActorSystem, au_actor_id = le_worker l, au_action = action,
      au_target_type = ''job'', au_target_id = le_job l, au_result = result, au_ip_address = None,
      au_user_agent = None, au_metadata = meta, au_created_at = now\<rparr>"

section \<open>Results of a renderer\<close>

datatype render_status = RSucceeded | RFailed | RTimeout

record render_result =
  rr_status :: render_status
  rr_error_code :: "string option"
  rr_error_message :: "string option"
  rr_audit_action :: string

definition stage_timeouts :: "int \<Rightarrow> (string \<times> string) option" where
  "stage_timeouts code =
     (if code = 81 then Some (''LATEX_COMPILE_TIMEOUT'', ''The LaTeX compile stage timed out'')
      else if code = 82 then Some (''PREVIEW_TIMEOUT'', ''The PDF preview stage timed out'')
      else if code = 83 then Some (''SVG_TIMEOUT'', ''The SVG stage timed out'') else None)"

definition int_text :: "int \<Rightarrow> string" where
  "int_text n = (if n < 0 then CHR ''-'' # decimal (nat (- n)) else decimal (nat n))"

definition classify_render_result :: "int \<Rightarrow> bool \<Rightarrow> string \<Rightarrow> render_result" where
  "classify_render_result code timed_out stderr =
     (if timed_out then \<lparr>rr_status = RTimeout, rr_error_code = Some ''JOB_TIMEOUT'',
        rr_error_message = Some ''The renderer exceeded the overall job timeout'',
        rr_audit_action = ''render.timeout''\<rparr>
      else if code = 0 then \<lparr>rr_status = RSucceeded, rr_error_code = None, rr_error_message = None,
        rr_audit_action = ''render.completed''\<rparr>
      else if code = 84 then \<lparr>rr_status = RFailed, rr_error_code = Some ''RENDERER_MEMORY_LIMIT'',
        rr_error_message = Some ''The renderer exceeded its container memory limit'',
        rr_audit_action = ''render.failed''\<rparr>
      else (case stage_timeouts code of
          Some (c, m) \<Rightarrow> \<lparr>rr_status = RTimeout, rr_error_code = Some c, rr_error_message = Some m,
            rr_audit_action = ''render.timeout''\<rparr>
        | None \<Rightarrow> \<lparr>rr_status = RFailed, rr_error_code = Some ''LATEX_COMPILE_FAILED'',
            rr_error_message = Some (''Renderer exited with '' @ int_text code @ '': '' @ take 500 stderr),
            rr_audit_action = ''render.failed''\<rparr>))"

fun job_status_of :: "render_status \<Rightarrow> job_status" where
  "job_status_of RSucceeded = Succeeded"
| "job_status_of RFailed = Failed"
| "job_status_of RTimeout = Timeout"

fun svg_outcome_of :: "render_status \<Rightarrow> svg_outcome" where
  "svg_outcome_of RSucceeded = SvgSucceeded"
| "svg_outcome_of RFailed = SvgFailed"
| "svg_outcome_of RTimeout = SvgTimeout"

fun render_status_text :: "render_status \<Rightarrow> string" where
  "render_status_text RSucceeded = ''succeeded''"
| "render_status_text RFailed = ''failed''"
| "render_status_text RTimeout = ''timeout''"

text \<open>What \<open>runRendererStage\<close> makes of a container: its exit, the first failure of the monitor, and
  whether the stop that an unclear exit calls for could be verified.\<close>

record execution =
  ex_exit_code :: int
  ex_timed_out :: bool
  ex_stderr :: string

definition finish_stage ::
  "int outcome \<Rightarrow> failure option \<Rightarrow> bool \<Rightarrow> bool \<Rightarrow> bool \<Rightarrow> string \<Rightarrow> execution outcome" where
  "finish_stage exited monitor_failure stop_needed stop_verified timed_out stderr =
     (if stop_needed \<and> \<not> stop_verified then Inl Deferred
      else (case exited of
          Inl e \<Rightarrow> Inl e
        | Inr code \<Rightarrow> (case monitor_failure of
            Some e \<Rightarrow> Inl e
          | None \<Rightarrow> Inr \<lparr>ex_exit_code = code, ex_timed_out = timed_out, ex_stderr = stderr\<rparr>)))"

end
