(* ===== verification/Output_Tree.thy ===== *)
theory Output_Tree
  imports White_Space Schema "HOL-Library.Multiset"
begin

text \<open>
  What the worker accepts of a renderer's output (apps/renderer-worker/src/artifact-validator.ts):
  the walk over the output tree with its limits, the kinds of files that are published, the check of
  each file's form, and the totals. SHA-256, the JSON parser and the XML parser are parameters, and
  so is the check of the SVG manifest. That a file changes while it is read is an error of
  \<open>readArtifactSinglePass\<close> which has no counterpart: contents here do not change.
\<close>

section \<open>The walk\<close>

text \<open>\<open>UnsafeEntry\<close> is anything but a directory and a regular file with one link.\<close>

datatype node = Directory string "node list" | Regular string string | UnsafeEntry string

record tree_limits =
  tl_max_output_bytes :: nat
  tl_max_file_count :: nat
  tl_max_directory_count :: nat
  tl_max_log_bytes :: nat
  tl_max_svg_bytes :: nat
  tl_max_svg_total_bytes :: nat

record tree_scan =
  ts_files :: "(string \<times> string) list"
  ts_total_bytes :: nat
  ts_file_count :: nat
  ts_directory_count :: nat

definition empty_scan :: tree_scan where
  "empty_scan = \<lparr>ts_files = [], ts_total_bytes = 0, ts_file_count = 0, ts_directory_count = 0\<rparr>"

text \<open>\<open>relative(root, join(directory, name))\<close>.\<close>

definition below :: "string \<Rightarrow> string \<Rightarrow> string" where
  "below dir name = (if dir = [] then name else dir @ CHR ''/'' # name)"

definition over_limit :: "tree_limits option \<Rightarrow> (tree_limits \<Rightarrow> nat) \<Rightarrow> nat \<Rightarrow> bool" where
  "over_limit limits f n = (case limits of None \<Rightarrow> False | Some l \<Rightarrow> n > f l)"

definition scan_file :: "tree_limits option \<Rightarrow> string \<Rightarrow> string \<Rightarrow> tree_scan \<Rightarrow> tree_scan result" where
  "scan_file limits path content t =
     (let n = ts_file_count t + 1; b = ts_total_bytes t + length content in
      if over_limit limits tl_max_file_count n then Inl (AppError ''OUTPUT_FILE_LIMIT'' 500)
      else if over_limit limits tl_max_output_bytes b then Inl (AppError ''OUTPUT_LIMIT'' 500)
      else Inr (t\<lparr>ts_files := ts_files t @ [(path, content)], ts_file_count := n, ts_total_bytes := b\<rparr>))"

text \<open>The entries of one directory; the directories among them are pushed on \<open>pending\<close>.\<close>

fun scan_entries :: "tree_limits option \<Rightarrow> string \<Rightarrow> node list \<Rightarrow> tree_scan \<Rightarrow>
  (string \<times> node list) list \<Rightarrow> (tree_scan \<times> (string \<times> node list) list) result" where
  "scan_entries limits dir [] t pending = Inr (t, pending)"
| "scan_entries limits dir (Directory name ns # rest) t pending =
     (let n = ts_directory_count t + 1 in
      if over_limit limits tl_max_directory_count n then Inl (AppError ''OUTPUT_DIRECTORY_LIMIT'' 500)
      else scan_entries limits dir rest (t\<lparr>ts_directory_count := n\<rparr>) ((below dir name, ns) # pending))"
| "scan_entries limits dir (Regular name content # rest) t pending =
     bind_r (scan_file limits (below dir name) content t) (\<lambda>t. scan_entries limits dir rest t pending)"
| "scan_entries limits dir (UnsafeEntry name # rest) t pending = Inl (AppError ''UNSAFE_ARTIFACT'' 500)"

text \<open>\<open>while (pending.length > 0)\<close>: the last pushed directory is next.\<close>

definition pending_size :: "(string \<times> node list) list \<Rightarrow> nat" where
  "pending_size pending = (\<Sum>(dir, ns)\<leftarrow>pending. Suc (size_list size ns))"

lemma pending_size_simps [simp]:
  "pending_size [] = 0" "pending_size ((dir, ns) # ps) = Suc (size_list size ns) + pending_size ps"
  by (simp_all add: pending_size_def)

lemma scan_entries_size:
  "scan_entries limits dir ns t pending = Inr (t', pending') \<Longrightarrow>
   pending_size pending' \<le> size_list size ns + pending_size pending"
proof (induction limits dir ns t pending rule: scan_entries.induct)
  case (2 limits dir name ns rest t pending)
  then show ?case by (fastforce simp: Let_def split: if_splits)
next
  case (3 limits dir name content rest t pending)
  then show ?case by (fastforce simp: bind_r_Inr_iff)
qed simp_all

function scan_pending :: "tree_limits option \<Rightarrow> (string \<times> node list) list \<Rightarrow> tree_scan \<Rightarrow> tree_scan result"
  where
  "scan_pending limits [] t = Inr t"
| "scan_pending limits ((dir, ns) # pending) t =
     (case scan_entries limits dir ns t pending of
        Inl e \<Rightarrow> Inl e | Inr (t', pending') \<Rightarrow> scan_pending limits pending' t')"
  by pat_completeness auto
termination
  by (relation "measure (\<lambda>(limits, pending, t). pending_size pending)")
    (auto dest: scan_entries_size)

definition scan_output_tree :: "tree_limits option \<Rightarrow> node list \<Rightarrow> tree_scan result" where
  "scan_output_tree limits ns = scan_pending limits [([], ns)] empty_scan"

definition inspect_output_tree :: "tree_limits \<Rightarrow> node list \<Rightarrow> tree_scan result" where
  "inspect_output_tree limits ns =
     bind_r (scan_output_tree (Some limits) ns) (\<lambda>t.
       if (case find (\<lambda>(path, content). path = ''compile.log'') (ts_files t) of None \<Rightarrow> False
           | Some (path, content) \<Rightarrow> length content > tl_max_log_bytes limits)
       then Inl (AppError ''OUTPUT_LIMIT'' 500) else Inr t)"

section \<open>The kinds of files\<close>

text \<open>\<open>^svg\/objects\/(?:math|tikz)-[0-9]{6}\.svg$\<close> and \<open>^previews\/page-[0-9]+\.png$\<close>.\<close>

definition is_svg_object :: "string \<Rightarrow> bool" where
  "is_svg_object path \<longleftrightarrow> list_ex (\<lambda>pre. starts_with pre path \<and>
     (let r = drop (length pre) path in
      length r = 10 \<and> list_all is_digit (take 6 r) \<and> drop 6 r = ''.svg''))
     [''svg/objects/math-'', ''svg/objects/tikz-'']"

definition is_preview_path :: "string \<Rightarrow> bool" where
  "is_preview_path path \<longleftrightarrow> starts_with ''previews/page-'' path \<and>
     (let r = drop 14 path in takeWhile is_digit r \<noteq> [] \<and> dropWhile is_digit r = ''.png'')"

definition artifact_type_of :: "string \<Rightarrow> artifact_type option" where
  "artifact_type_of path =
     (if path = ''result.pdf'' then Some APdf
      else if path = ''compile.log'' \<or> path = ''svg/compile.log'' then Some ALog
      else if path = ''errors.json'' \<or> path = ''svg/errors.json'' then Some AErrors
      else if path = ''dependencies.json'' \<or> path = ''svg/dependencies.json'' then Some ADependencies
      else if path = ''svg/manifest.json'' then Some ASvgManifest
      else if is_svg_object path then Some ASvg
      else if is_preview_path path then Some APreview else None)"

section \<open>SVG\<close>

text \<open>The events of the XML parser, an element with the local names and the values of its attributes.\<close>

datatype xml_event = Doctype | ProcessingInstruction | OpenTag string "(string \<times> string) list"

definition forbidden_elements :: "string list" where
  "forbidden_elements = [''script'', ''foreignobject'', ''iframe'', ''object'', ''embed'', ''audio'',
     ''video'', ''style'', ''text'']"

definition image_kinds :: "string list" where
  "image_kinds = [''png'', ''jpeg'', ''gif'', ''webp'']"

definition safe_reference :: "string \<Rightarrow> bool" where
  "safe_reference v \<longleftrightarrow> starts_with ''#'' v \<or>
     list_ex (\<lambda>k. starts_with (''data:image/'' @ k @ '';base64,'') v) image_kinds"

text \<open>
  \<open>/url\(\s*(?!['"]?#)/i\<close>: the white space may match nothing, so a space after the parenthesis is
  already more than a local reference.
\<close>

definition local_url :: "string \<Rightarrow> bool" where
  "local_url r \<longleftrightarrow> starts_with ''#'' r \<or>
     (r \<noteq> [] \<and> (hd r = CHR 0x27 \<or> hd r = CHR 0x22) \<and> starts_with ''#'' (tl r))"

definition foreign_url :: "string \<Rightarrow> bool" where
  "foreign_url raw \<longleftrightarrow> list_ex (\<lambda>s. lower (take 4 s) = ''url('' \<and> \<not> local_url (drop 4 s)) (suffixes raw)"

definition check_attribute :: "string \<times> string \<Rightarrow> unit result" where
  "check_attribute = (\<lambda>(local, raw).
     let name = lower local; normalized = lower (trim raw) in
     if starts_with ''on'' name then Inl (AppError ''SVG_UNSAFE'' 500)
     else if name = ''href'' \<and> \<not> safe_reference normalized then Inl (AppError ''SVG_UNSAFE'' 500)
     else if name \<noteq> ''xmlns'' \<and> name \<noteq> ''xlink'' \<and>
       (instr normalized ''javascript:'' \<or> instr normalized ''@import'' \<or> foreign_url raw)
     then Inl (AppError ''SVG_UNSAFE'' 500) else Inr ())"

text \<open>The flag is \<open>state.root\<close>; at the end of the document it must be set.\<close>

fun check_svg_events :: "bool \<Rightarrow> xml_event list \<Rightarrow> bool result" where
  "check_svg_events root [] = Inr root"
| "check_svg_events root (Doctype # es) = Inl (AppError ''SVG_UNSAFE'' 500)"
| "check_svg_events root (ProcessingInstruction # es) = Inl (AppError ''SVG_UNSAFE'' 500)"
| "check_svg_events root (OpenTag local attributes # es) =
     (if \<not> root \<and> lower local \<noteq> ''svg'' then Inl (AppError ''SVG_INVALID'' 500)
      else if lower local \<in> set forbidden_elements then Inl (AppError ''SVG_UNSAFE'' 500)
      else bind_r (traverse check_attribute attributes) (\<lambda>_. check_svg_events True es))"

text \<open>The parser gives the events before the first error, and whether there was none.\<close>

definition validate_svg :: "xml_event list \<times> bool \<Rightarrow> unit result" where
  "validate_svg = (\<lambda>(events, well_formed).
     bind_r (check_svg_events False events) (\<lambda>root.
       if \<not> well_formed \<or> \<not> root then Inl (AppError ''SVG_INVALID'' 500) else Inr ()))"

section \<open>Validation\<close>

record validated =
  va_path :: string
  va_type :: artifact_type
  va_size :: nat
  va_sha256 :: string

record output_deps =
  ou_sha :: "string \<Rightarrow> string"
  ou_json_ok :: "string \<Rightarrow> bool"
  ou_xml :: "string \<Rightarrow> xml_event list \<times> bool"
  ou_svg_set :: "node list \<Rightarrow> validated list \<Rightarrow> unit result"

definition png_magic :: string where
  "png_magic = [CHR 0x89, CHR ''P'', CHR ''N'', CHR ''G'', CHR 0x0D, CHR 0x0A, CHR 0x1A, CHR 0x0A]"

definition check_form :: "output_deps \<Rightarrow> artifact_type \<Rightarrow> string \<Rightarrow> unit result" where
  "check_form dp type content =
     (if type = ASvg then validate_svg (ou_xml dp content)
      else if type = APdf \<and> take 5 content \<noteq> ''%PDF-'' then Inl (AppError ''PDF_MAGIC_INVALID'' 500)
      else if type = APreview \<and> take 8 content \<noteq> png_magic then Inl (AppError ''PNG_MAGIC_INVALID'' 500)
      else if (type = AErrors \<or> type = ADependencies) \<and> \<not> ou_json_ok dp content then Inl PlainError
      else Inr ())"

record totals =
  to_total :: nat
  to_preview :: nat
  to_svg :: nat

definition add_totals :: "artifact_type \<Rightarrow> nat \<Rightarrow> totals \<Rightarrow> totals" where
  "add_totals type bytes t =
     \<lparr>to_total = to_total t + bytes,
      to_preview = (if type = APreview then to_preview t + bytes else to_preview t),
      to_svg = (if type = ASvg \<or> type = ASvgManifest then to_svg t + bytes else to_svg t)\<rparr>"

definition over_output_limits :: "tree_limits \<Rightarrow> artifact_type \<Rightarrow> nat \<Rightarrow> totals \<Rightarrow> bool" where
  "over_output_limits l type bytes t \<longleftrightarrow>
     to_total t > tl_max_output_bytes l \<or> (type = ALog \<and> bytes > tl_max_log_bytes l) \<or>
     (type = APdf \<and> bytes > 104857600) \<or> (type = ASvg \<and> bytes > tl_max_svg_bytes l) \<or>
     to_preview t > 157286400 \<or> to_svg t > tl_max_svg_total_bytes l"

fun validate_files :: "output_deps \<Rightarrow> tree_limits \<Rightarrow> totals \<Rightarrow> (string \<times> string) list \<Rightarrow>
  validated list result" where
  "validate_files dp l t [] = Inr []"
| "validate_files dp l t ((path, content) # rest) =
     (case artifact_type_of path of
        None \<Rightarrow> validate_files dp l t rest
      | Some type \<Rightarrow>
          (let bytes = length content; t' = add_totals type bytes t in
           if over_output_limits l type bytes t' then Inl (AppError ''OUTPUT_LIMIT'' 500)
           else bind_r (check_form dp type content) (\<lambda>_.
             bind_r (validate_files dp l t' rest) (\<lambda>as.
               Inr (\<lparr>va_path = path, va_type = type, va_size = bytes, va_sha256 = ou_sha dp content\<rparr> # as)))))"

definition validate_artifacts :: "output_deps \<Rightarrow> tree_limits \<Rightarrow> bool \<Rightarrow> bool \<Rightarrow> string \<Rightarrow> node list \<Rightarrow>
  validated list result" where
  "validate_artifacts dp l require_pdf require_svg pre ns =
     bind_r (scan_output_tree (Some l) ns) (\<lambda>t.
     bind_r (validate_files dp l \<lparr>to_total = 0, to_preview = 0, to_svg = 0\<rparr> (ts_files t)) (\<lambda>as.
       if require_pdf \<and> \<not> list_ex (\<lambda>a. va_type a = APdf) as then Inl (AppError ''PDF_MISSING'' 500)
       else bind_r (if require_svg then ou_svg_set dp ns as else Inr ()) (\<lambda>_.
         if \<not> list_ex (\<lambda>a. va_path a = pre @ ''compile.log'') as \<or>
            \<not> list_ex (\<lambda>a. va_path a = pre @ ''errors.json'') as
         then Inl (AppError ''DIAGNOSTICS_MISSING'' 500) else Inr as)))"

section \<open>What the walk finds\<close>

text \<open>The tree read from the top: its files, its directories, and whether something unsafe is in it.\<close>

fun tree_files :: "string \<Rightarrow> node list \<Rightarrow> (string \<times> string) list" where
  "tree_files dir [] = []"
| "tree_files dir (Directory name ns # rest) = tree_files (below dir name) ns @ tree_files dir rest"
| "tree_files dir (Regular name content # rest) = (below dir name, content) # tree_files dir rest"
| "tree_files dir (UnsafeEntry name # rest) = tree_files dir rest"

fun tree_directories :: "node list \<Rightarrow> nat" where
  "tree_directories [] = 0"
| "tree_directories (Directory name ns # rest) = Suc (tree_directories ns + tree_directories rest)"
| "tree_directories (Regular name content # rest) = tree_directories rest"
| "tree_directories (UnsafeEntry name # rest) = tree_directories rest"

fun tree_unsafe :: "node list \<Rightarrow> bool" where
  "tree_unsafe [] \<longleftrightarrow> False"
| "tree_unsafe (Directory name ns # rest) \<longleftrightarrow> tree_unsafe ns \<or> tree_unsafe rest"
| "tree_unsafe (Regular name content # rest) \<longleftrightarrow> tree_unsafe rest"
| "tree_unsafe (UnsafeEntry name # rest) \<longleftrightarrow> True"

definition file_bytes :: "(string \<times> string) list \<Rightarrow> nat" where
  "file_bytes fs = sum_list (map (length \<circ> snd) fs)"

lemma file_bytes_simps [simp]:
  "file_bytes [] = 0" "file_bytes (f # fs) = length (snd f) + file_bytes fs"
  "file_bytes (fs @ gs) = file_bytes fs + file_bytes gs"
  by (simp_all add: file_bytes_def)

text \<open>What is found and what is still to be found: files, bytes and directories.\<close>

definition pending_files :: "(string \<times> node list) list \<Rightarrow> (string \<times> string) list" where
  "pending_files ps = concat (map (\<lambda>(dir, ns). tree_files dir ns) ps)"

definition pending_directories :: "(string \<times> node list) list \<Rightarrow> nat" where
  "pending_directories ps = (\<Sum>(dir, ns)\<leftarrow>ps. tree_directories ns)"

definition pending_unsafe :: "(string \<times> node list) list \<Rightarrow> bool" where
  "pending_unsafe ps \<longleftrightarrow> list_ex (\<lambda>(dir, ns). tree_unsafe ns) ps"

lemma pending_simps [simp]:
  "pending_files [] = []" "pending_files ((dir, ns) # ps) = tree_files dir ns @ pending_files ps"
  "pending_directories [] = 0"
  "pending_directories ((dir, ns) # ps) = tree_directories ns + pending_directories ps"
  "\<not> pending_unsafe []" "pending_unsafe ((dir, ns) # ps) \<longleftrightarrow> tree_unsafe ns \<or> pending_unsafe ps"
  by (simp_all add: pending_files_def pending_directories_def pending_unsafe_def)

definition scan_counts :: "tree_scan \<Rightarrow> bool" where
  "scan_counts t \<longleftrightarrow> ts_total_bytes t = file_bytes (ts_files t) \<and> ts_file_count t = length (ts_files t)"

definition within :: "tree_limits option \<Rightarrow> nat \<Rightarrow> nat \<Rightarrow> nat \<Rightarrow> bool" where
  "within limits bytes files dirs \<longleftrightarrow> \<not> over_limit limits tl_max_output_bytes bytes \<and>
     \<not> over_limit limits tl_max_file_count files \<and> \<not> over_limit limits tl_max_directory_count dirs"

lemma within_mono: "within l b f n \<Longrightarrow> b' \<le> b \<Longrightarrow> f' \<le> f \<Longrightarrow> n' \<le> n \<Longrightarrow> within l b' f' n'"
  by (auto simp: within_def over_limit_def split: option.splits)

lemma within_empty: "within l 0 0 0"
  by (simp add: within_def over_limit_def split: option.splits)

abbreviation within_scan :: "tree_limits option \<Rightarrow> tree_scan \<Rightarrow> bool" where
  "within_scan l t \<equiv> within l (ts_total_bytes t) (ts_file_count t) (ts_directory_count t)"

text \<open>What a scan and the directories left to it amount to.\<close>

definition amounts :: "tree_scan \<Rightarrow> (string \<times> node list) list \<Rightarrow> (string \<times> string) multiset \<times> nat \<times> bool" where
  "amounts t ps = (mset (ts_files t @ pending_files ps), ts_directory_count t + pending_directories ps,
     pending_unsafe ps)"

lemma scan_entries_amounts:
  assumes "scan_entries l dir ns t ps = Inr (t', ps')" and "scan_counts t" and "within_scan l t"
  shows "amounts t' ps' = amounts t ((dir, ns) # ps) \<and> scan_counts t' \<and> within_scan l t'"
  using assms
proof (induction l dir ns t ps rule: scan_entries.induct)
  case (2 l dir name ns rest t ps)
  then show ?case by (auto simp: Let_def amounts_def scan_counts_def within_def split: if_splits)
next
  case (3 l dir name content rest t ps)
  then obtain u where "scan_file l (below dir name) content t = Inr u"
    "scan_entries l dir rest u ps = Inr (t', ps')" by (auto simp: bind_r_Inr_iff)
  moreover from this(1) 3(3,4) have "scan_counts u" "within_scan l u"
    "amounts u ((dir, rest) # ps) = amounts t ((dir, Regular name content # rest) # ps)"
    by (auto simp: scan_file_def Let_def scan_counts_def within_def amounts_def split: if_splits)
  ultimately show ?case using 3(1) by simp
qed (simp_all add: amounts_def)

lemma scan_entries_accepts:
  assumes "\<not> tree_unsafe ns" and "scan_counts t"
    and "within l (ts_total_bytes t + file_bytes (tree_files dir ns)) (ts_file_count t + length (tree_files dir ns))
      (ts_directory_count t + tree_directories ns)"
  shows "\<exists>t' ps'. scan_entries l dir ns t ps = Inr (t', ps')"
  using assms
proof (induction l dir ns t ps rule: scan_entries.induct)
  case (2 l dir name ns rest t ps)
  from 2(4) have "within l 0 0 (ts_directory_count t + 1)" by (rule within_mono) simp_all
  then have "\<not> over_limit l tl_max_directory_count (ts_directory_count t + 1)" by (simp add: within_def)
  moreover have "\<exists>t' ps'. scan_entries l dir rest (t\<lparr>ts_directory_count := ts_directory_count t + 1\<rparr>)
      ((below dir name, ns) # ps) = Inr (t', ps')"
    using 2(1) [OF refl calculation] 2(2,3) within_mono [OF 2(4)] by (simp add: scan_counts_def)
  ultimately show ?case by (simp add: Let_def)
next
  case (3 l dir name content rest t ps)
  from 3(4) have "within l (ts_total_bytes t + length content) (ts_file_count t + 1) 0"
    by (rule within_mono) simp_all
  then obtain u where u: "scan_file l (below dir name) content t = Inr u"
    "u = t\<lparr>ts_files := ts_files t @ [(below dir name, content)], ts_file_count := ts_file_count t + 1,
       ts_total_bytes := ts_total_bytes t + length content\<rparr>"
    by (simp add: scan_file_def Let_def within_def)
  then have "scan_counts u" using 3(3) by (simp add: scan_counts_def)
  with 3(1) [of u] 3(2,4) u show ?case by (simp add: ac_simps)
qed simp_all

lemma scan_pending_amounts:
  "scan_pending l ps t = Inr t' \<Longrightarrow> scan_counts t \<Longrightarrow> within_scan l t \<Longrightarrow>
   amounts t' [] = amounts t ps \<and> scan_counts t' \<and> within_scan l t'"
proof (induction l ps t rule: scan_pending.induct)
  case (2 l dir ns ps t)
  then obtain u qs where u: "scan_entries l dir ns t ps = Inr (u, qs)" "scan_pending l qs u = Inr t'"
    by (auto split: sum.splits prod.splits)
  from scan_entries_amounts [OF u(1) 2(3,4)] 2(1) [OF u(1) refl u(2)] show ?case by simp
qed simp

lemma file_bytes_mset: "mset fs = mset gs \<Longrightarrow> file_bytes fs = file_bytes gs"
  unfolding file_bytes_def by (metis mset_map sum_mset_sum_list)

lemma amounts_eqD:
  assumes "amounts u qs = amounts t ps" and "scan_counts u" and "scan_counts t"
  shows "ts_total_bytes u + file_bytes (pending_files qs) = ts_total_bytes t + file_bytes (pending_files ps)"
    and "ts_file_count u + length (pending_files qs) = ts_file_count t + length (pending_files ps)"
    and "ts_directory_count u + pending_directories qs = ts_directory_count t + pending_directories ps"
    and "pending_unsafe qs = pending_unsafe ps"
proof -
  from assms(1) have m: "mset (ts_files u @ pending_files qs) = mset (ts_files t @ pending_files ps)"
    by (simp add: amounts_def)
  from file_bytes_mset [OF m]
  show "ts_total_bytes u + file_bytes (pending_files qs) = ts_total_bytes t + file_bytes (pending_files ps)"
    using assms(2,3) by (simp add: scan_counts_def)
  from mset_eq_length [OF m]
  show "ts_file_count u + length (pending_files qs) = ts_file_count t + length (pending_files ps)"
    using assms(2,3) by (simp add: scan_counts_def)
qed (use assms(1) in \<open>simp_all add: amounts_def\<close>)

lemma scan_pending_accepts:
  "\<not> pending_unsafe ps \<Longrightarrow> scan_counts t \<Longrightarrow>
   within l (ts_total_bytes t + file_bytes (pending_files ps)) (ts_file_count t + length (pending_files ps))
     (ts_directory_count t + pending_directories ps) \<Longrightarrow> \<exists>t'. scan_pending l ps t = Inr t'"
proof (induction l ps t rule: scan_pending.induct)
  case (2 l dir ns ps t)
  from 2(4) have "within l (ts_total_bytes t + file_bytes (tree_files dir ns))
      (ts_file_count t + length (tree_files dir ns)) (ts_directory_count t + tree_directories ns)"
    by (rule within_mono) simp_all
  with 2(2,3) obtain u qs where u: "scan_entries l dir ns t ps = Inr (u, qs)"
    using scan_entries_accepts by (metis pending_simps(6))
  from 2(4) have "within_scan l t" by (rule within_mono) simp_all
  note am = scan_entries_amounts [OF u 2(3) this]
  note eq = amounts_eqD [OF conjunct1 [OF am] conjunct1 [OF conjunct2 [OF am]] 2(3)]
  have "\<exists>t'. scan_pending l qs u = Inr t'"
    using 2(1) [OF u refl] 2(2,4) am eq by simp
  with u show ?case by simp
qed simp

text \<open>
  The walk with its stack accepts a tree exactly when nothing unsafe is in it and its totals are
  within the limits, in whatever order it meets the entries, and then it has found every file once.
\<close>

lemma scan_output_tree_iff:
  "(\<exists>t. scan_output_tree (Some l) ns = Inr t) \<longleftrightarrow> \<not> tree_unsafe ns \<and>
     file_bytes (tree_files [] ns) \<le> tl_max_output_bytes l \<and>
     length (tree_files [] ns) \<le> tl_max_file_count l \<and> tree_directories ns \<le> tl_max_directory_count l"
  and scan_output_tree_files:
  "scan_output_tree limits ns = Inr t \<Longrightarrow> mset (ts_files t) = mset (tree_files [] ns) \<and>
     ts_total_bytes t = file_bytes (tree_files [] ns) \<and> ts_file_count t = length (tree_files [] ns) \<and>
     ts_directory_count t = tree_directories ns"
proof -
  have e: "scan_counts empty_scan" "within_scan k empty_scan" for k
    by (simp_all add: scan_counts_def empty_scan_def within_empty)
  have found: "amounts t [] = amounts empty_scan [([], ns)] \<and> scan_counts t \<and> within_scan k t"
    if "scan_output_tree k ns = Inr t" for k t
    using scan_pending_amounts that e unfolding scan_output_tree_def by blast
  have eq: "ts_total_bytes t = file_bytes (tree_files [] ns)" "ts_file_count t = length (tree_files [] ns)"
    "ts_directory_count t = tree_directories ns" "\<not> tree_unsafe ns" if "scan_output_tree k ns = Inr t" for k t
    using amounts_eqD [of t "[]" empty_scan "[([], ns)]"] found [OF that] e
    by (simp_all add: empty_scan_def)
  show "mset (ts_files t) = mset (tree_files [] ns) \<and>
     ts_total_bytes t = file_bytes (tree_files [] ns) \<and> ts_file_count t = length (tree_files [] ns) \<and>
     ts_directory_count t = tree_directories ns" if "scan_output_tree limits ns = Inr t"
    using found [OF that] eq [OF that] by (simp add: amounts_def empty_scan_def)
  show "(\<exists>t. scan_output_tree (Some l) ns = Inr t) \<longleftrightarrow> \<not> tree_unsafe ns \<and>
     file_bytes (tree_files [] ns) \<le> tl_max_output_bytes l \<and>
     length (tree_files [] ns) \<le> tl_max_file_count l \<and> tree_directories ns \<le> tl_max_directory_count l"
    (is "?scan \<longleftrightarrow> ?ok")
  proof
    assume ?scan
    then obtain t where "scan_output_tree (Some l) ns = Inr t" ..
    with found [OF this] eq [OF this] show ?ok by (simp add: within_def over_limit_def not_less)
  next
    assume ?ok
    then have "within (Some l) (file_bytes (tree_files [] ns)) (length (tree_files [] ns)) (tree_directories ns)"
      by (simp add: within_def over_limit_def not_less)
    with \<open>?ok\<close> show ?scan
      using scan_pending_accepts [of "[([], ns)]" empty_scan "Some l"] e(1)
      by (simp add: scan_output_tree_def empty_scan_def)
  qed
qed

text \<open>What a validated file is, among the files of the tree.\<close>

definition validated_file :: "output_deps \<Rightarrow> tree_limits \<Rightarrow> (string \<times> string) list \<Rightarrow> validated \<Rightarrow> bool" where
  "validated_file dp l fs a \<longleftrightarrow> artifact_type_of (va_path a) = Some (va_type a) \<and>
     (va_type a = ALog \<longrightarrow> va_size a \<le> tl_max_log_bytes l) \<and>
     (va_type a = ASvg \<longrightarrow> va_size a \<le> tl_max_svg_bytes l) \<and>
     (\<exists>content. (va_path a, content) \<in> set fs \<and> va_size a = length content \<and>
        va_sha256 a = ou_sha dp content \<and> check_form dp (va_type a) content = Inr ())"

lemma validated_file_more: "validated_file dp l fs a \<Longrightarrow> set fs \<subseteq> set gs \<Longrightarrow> validated_file dp l gs a"
  by (auto simp: validated_file_def)

lemma validate_files_InrD:
  "validate_files dp l t fs = Inr as \<Longrightarrow> to_total t \<le> tl_max_output_bytes l \<Longrightarrow>
   to_total t + sum_list (map va_size as) \<le> tl_max_output_bytes l \<and> (\<forall>a\<in>set as. validated_file dp l fs a)"
proof (induction dp l t fs arbitrary: as rule: validate_files.induct)
  case (2 dp l t path content rest)
  show ?case
  proof (cases "artifact_type_of path")
    case None
    with 2 show ?thesis by (auto intro: validated_file_more [of dp l rest])
  next
    case (Some type)
    let ?t = "add_totals type (length content) t"
    let ?a = "\<lparr>va_path = path, va_type = type, va_size = length content, va_sha256 = ou_sha dp content\<rparr>"
    from 2(3) Some obtain bs where ok: "\<not> over_output_limits l type (length content) ?t"
      and form: "check_form dp type content = Inr ()" and rest: "validate_files dp l ?t rest = Inr bs"
      and as: "as = ?a # bs"
      by (auto simp: Let_def bind_r_Inr_iff split: if_splits)
    have "to_total ?t \<le> tl_max_output_bytes l" using ok by (simp add: over_output_limits_def not_less)
    from 2(2) [OF Some refl refl ok rest this]
    have IH: "to_total ?t + sum_list (map va_size bs) \<le> tl_max_output_bytes l"
      "\<forall>a\<in>set bs. validated_file dp l rest a" by simp_all
    have "validated_file dp l ((path, content) # rest) ?a"
      using Some ok form by (auto simp: validated_file_def over_output_limits_def not_less)
    moreover have "\<forall>a\<in>set bs. validated_file dp l ((path, content) # rest) a"
      using IH(2) by (auto intro: validated_file_more [of dp l rest])
    moreover have "to_total t + sum_list (map va_size as) \<le> tl_max_output_bytes l"
      using IH(1) by (simp add: as add_totals_def)
    ultimately show ?thesis by (simp add: as)
  qed
qed simp

text \<open>The published files of an accepted output.\<close>

lemma validate_artifacts_InrD:
  assumes "validate_artifacts dp l require_pdf require_svg pre ns = Inr as"
  shows "\<not> tree_unsafe ns \<and> file_bytes (tree_files [] ns) \<le> tl_max_output_bytes l \<and>
    (\<forall>a\<in>set as. validated_file dp l (tree_files [] ns) a) \<and>
    (require_pdf \<longrightarrow> (\<exists>a\<in>set as. va_path a = ''result.pdf'')) \<and>
    (\<exists>a\<in>set as. va_path a = pre @ ''compile.log'') \<and> (\<exists>a\<in>set as. va_path a = pre @ ''errors.json'')"
proof -
  from assms obtain t where t: "scan_output_tree (Some l) ns = Inr t"
    and files: "validate_files dp l \<lparr>to_total = 0, to_preview = 0, to_svg = 0\<rparr> (ts_files t) = Inr as"
    and pdf: "require_pdf \<longrightarrow> (\<exists>a\<in>set as. va_type a = APdf)"
    and logs: "\<exists>a\<in>set as. va_path a = pre @ ''compile.log''" "\<exists>a\<in>set as. va_path a = pre @ ''errors.json''"
    by (auto simp: validate_artifacts_def bind_r_Inr_iff list_ex_iff split: if_splits)
  have "set (ts_files t) = set (tree_files [] ns)"
    using scan_output_tree_files [OF t] by (metis set_mset_mset)
  with validate_files_InrD [OF files] have ok: "\<forall>a\<in>set as. validated_file dp l (tree_files [] ns) a"
    by (auto intro: validated_file_more)
  have "va_path a = ''result.pdf''" if "validated_file dp l fs a" "va_type a = APdf" for a fs
    using that by (auto simp: validated_file_def artifact_type_of_def split: if_splits)
  with pdf ok have "require_pdf \<longrightarrow> (\<exists>a\<in>set as. va_path a = ''result.pdf'')" by blast
  with ok logs scan_output_tree_iff [of l ns] t show ?thesis by blast
qed

end
