(* ===== verification/Staged_Jobs.thy ===== *)
theory Staged_Jobs
  imports Worker_Run Output_Tree Previews
begin

text \<open>
  \<open>processStagedJob\<close> (apps/renderer-worker/src/staged-job-processor.ts): a job that asks for SVG is
  rendered in two stages, each in a container of its own, with a checkpoint between them. A stage
  writes into the directory of the attempt; what it made is validated, copied and renamed to a
  directory below \<open>outputs\<close>, and a transaction under the lease makes it public. What the file system
  and the containers answer is an argument, \<open>stage_io\<close>; the deadline of the job is part of what they
  answer.
\<close>

section \<open>What is answered from outside\<close>

record worker_settings =
  wc_worker :: string
  wc_image :: string
  wc_max_output_bytes :: nat

record digest =
  dg_sha256 :: string
  dg_bytes :: nat

text \<open>
  \<open>io_prepare\<close>: the attempt's directory and \<open>prepareSourceInput\<close>, with the pin on a cached tree;
  \<open>io_run\<close>: \<open>runRendererStage\<close>; \<open>io_metadata\<close>: \<open>inspectOutputTree\<close>, \<open>generateMetadata\<close> and, after an
  SVG stage that succeeded, the document of its manifest; \<open>io_failure_artifacts\<close>, \<open>io_pdf_artifacts\<close>,
  \<open>io_svg_artifacts\<close>: \<open>validateArtifacts\<close> with the copies before it; \<open>io_synctex\<close> and \<open>io_verify\<close>: the
  digests of the files; \<open>io_publish_pdf\<close>, \<open>io_publish_svg\<close>: \<open>publishArtifacts\<close>, the former with the
  digest of the copied SyncTeX; \<open>io_svg_fallback\<close>: the log that replaces a broken SVG output.
\<close>

record stage_io =
  io_prepare :: "reader_row option outcome"
  io_run :: "render_output \<Rightarrow> execution outcome"
  io_metadata :: "render_output \<Rightarrow> unit outcome"
  io_failure_artifacts :: "validated list outcome"
  io_pdf_artifacts :: "validated list outcome"
  io_page_count :: "nat option outcome"
  io_synctex :: "digest outcome"
  io_publish_pdf :: "digest outcome"
  io_rename :: "nat \<Rightarrow> unit outcome"
  io_verify :: "bool \<Rightarrow> (digest \<times> digest) outcome"
  io_svg_fallback :: "unit outcome"
  io_svg_artifacts :: "bool \<Rightarrow> validated list outcome"
  io_publish_svg :: "unit outcome"
  io_cleanup :: "unit outcome"

definition job_lease :: "worker_settings \<Rightarrow> worker_job \<Rightarrow> lease" where
  "job_lease c j = \<lparr>le_job = w_id j, le_worker = wc_worker c, le_generation = w_lease_generation j\<rparr>"

text \<open>\<open>new AppError(code, message)\<close> and \<open>new Error(message)\<close>.\<close>

definition app_failure :: "string \<Rightarrow> string \<Rightarrow> failure" where
  "app_failure code message = Failure (AppError code 500) message"

definition plain_failure :: "string \<Rightarrow> failure" where
  "plain_failure message = Failure PlainError message"

definition storage_generation :: "nat \<Rightarrow> bool \<Rightarrow> nat outcome" where
  "storage_generation lease svg =
     (let v = lease * 2 + (if svg then 1 else 0) in
      if v > 9007199254740991 \<or> v = 0 then Inl (plain_failure ''Stage generation is invalid'') else Inr v)"

definition generation_act :: "nat \<Rightarrow> bool \<Rightarrow> nat act" where
  "generation_act lease svg = (case storage_generation lease svg of
     Inl e \<Rightarrow> throw_act e | Inr v \<Rightarrow> value_act v)"

definition total_size :: "validated list \<Rightarrow> nat" where
  "total_size as = sum_list (map va_size as)"

section \<open>Publication\<close>

definition artifact_of :: "string \<Rightarrow> nat \<Rightarrow> timestamp \<Rightarrow> string \<Rightarrow> validated \<Rightarrow> artifact_row" where
  "artifact_of job g ts i a =
     \<lparr>ar_id = i, ar_job_id = job, ar_type = va_type a, ar_relative_path = va_path a, ar_size = va_size a,
      ar_sha256 = va_sha256 a, ar_created_at = ts, ar_storage_generation = Some g\<rparr>"

text \<open>\<open>insertArtifacts\<close>; \<open>put\<close> is \<open>publishStage\<close> here and \<open>insert\<close> in the other processor.\<close>

fun insert_artifacts :: "(artifact_row \<Rightarrow> unit tx) \<Rightarrow> string \<Rightarrow> string \<Rightarrow> nat \<Rightarrow> timestamp \<Rightarrow> nat option \<Rightarrow>
  (string \<times> validated) list \<Rightarrow> unit tx" where
  "insert_artifacts put job img g ts pages [] = return_tx ()"
| "insert_artifacts put job img g ts pages ((i, a) # rest) =
     seq_tx (put (artifact_of job g ts i a)) (\<lambda>_.
     seq_tx (case (va_type a, pages) of
         (APdf, Some n) \<Rightarrow> register \<lparr>d_job_id = job, d_pdf_artifact_id = i, d_pdf_sha256 = va_sha256 a,
           d_page_count = n, d_runtime_image = img, d_created_at = ts\<rparr>
       | _ \<Rightarrow> return_tx ()) (\<lambda>_.
     insert_artifacts put job img g ts pages rest))"

definition owned_tx :: "lease \<Rightarrow> job_status list \<Rightarrow> job_status \<Rightarrow> timestamp \<Rightarrow> column_update list \<Rightarrow> unit tx"
  where
  "owned_tx l src dst ts us =
     seq_tx (leased l (\<lambda>i w g. transition_owned i w g src dst ts us)) (\<lambda>n.
       guard_tx (\<lambda>_. n = 1) PlainError)"

text \<open>The columns of a job that ends.\<close>

definition ending_columns :: "render_status \<Rightarrow> timestamp \<Rightarrow> nat \<Rightarrow> int \<Rightarrow> render_result \<Rightarrow> column_update list" where
  "ending_columns status ts bytes code r =
     [SetRenderStatus (Some (job_status_of status)), SetCompletedAt (Some ts), SetOutputSize (Some bytes),
      SetExitCode (Some code), SetErrorCode (rr_error_code r), SetErrorMessage (rr_error_message r),
      SetLeaseOwner None, SetLeaseExpiresAt None]"

text \<open>The transaction that ends a job whose PDF stage did not succeed.\<close>

definition fail_pdf_tx :: "lease \<Rightarrow> string \<Rightarrow> (string \<times> validated) list \<Rightarrow> nat \<Rightarrow> int \<Rightarrow> render_result \<Rightarrow>
  timestamp \<Rightarrow> timestamp \<Rightarrow> bool tx" where
  "fail_pdf_tx l img as g code r ts now d =
     (if \<not> owns l d then Inr (False, d)
      else if cancel_requested l d then Inr (False, snd (leased l (mark_canceled now None) d))
      else seq_tx (insert_artifacts publish_stage (le_job l) img g ts None as) (\<lambda>_.
        seq_tx (owned_tx l [Running] (job_status_of (rr_status r)) ts
          (ending_columns (rr_status r) ts (total_size (map snd as)) code r)) (\<lambda>_.
        seq_tx (write_tx (audit (worker_audit l (rr_audit_action r) (render_status_text (rr_status r)) [] ts)))
          (\<lambda>_. return_tx True))) d)"

text \<open>The transaction that publishes the PDF.\<close>

definition publish_pdf_tx :: "lease \<Rightarrow> string \<Rightarrow> (string \<times> validated) list \<Rightarrow> nat \<Rightarrow> validated \<Rightarrow> digest \<Rightarrow>
  nat option \<Rightarrow> timestamp \<Rightarrow> bool tx" where
  "publish_pdf_tx l img as g pdf sync pages ts =
     seq_tx (leased l complete_pdf \<lparr>pr_generation = g, pr_sha256 = va_sha256 pdf,
       pr_synctex_sha256 = dg_sha256 sync, pr_synctex_bytes = dg_bytes sync, pr_completed_at = ts\<rparr>) (\<lambda>ok.
     if \<not> ok then return_tx False
     else seq_tx (insert_artifacts publish_stage (le_job l) img g ts pages as) (\<lambda>_.
       seq_tx (owned_tx l [Running] Running ts
         [SetOutputSize (Some (total_size (map snd as) + dg_bytes sync))]) (\<lambda>_.
       seq_tx (write_tx (audit (worker_audit l ''render.pdf.succeeded'' ''success''
         [(''sha256'', JStr (va_sha256 pdf)),
          (''outputSize'', JNum (int (total_size (map snd as) + dg_bytes sync)))] ts)))
         (\<lambda>_. return_tx True))))"

text \<open>The transaction that ends the job with the outcome of its SVG stage.\<close>

definition finish_svg_tx :: "lease \<Rightarrow> string \<Rightarrow> (string \<times> validated) list \<Rightarrow> nat \<Rightarrow> nat \<Rightarrow> int \<Rightarrow>
  render_result \<Rightarrow> stage_row \<Rightarrow> timestamp \<Rightarrow> bool tx" where
  "finish_svg_tx l img as g bytes code r s ts =
     seq_tx (leased l complete_svg \<lparr>sr_generation = g, sr_outcome = svg_outcome_of (rr_status r),
       sr_error_code = rr_error_code r, sr_error_message = rr_error_message r, sr_completed_at = ts\<rparr>) (\<lambda>ok.
     if \<not> ok then return_tx False
     else seq_tx (insert_artifacts publish_stage (le_job l) img g ts None as) (\<lambda>_.
       seq_tx (owned_tx l [Running] (job_status_of (rr_status r)) ts
         (ending_columns (rr_status r) ts bytes code r @ [SetHeartbeatAt (Some ts)])) (\<lambda>_.
       seq_tx (write_tx (audit (worker_audit l
         (if rr_status r = RSucceeded then ''render.succeeded'' else ''render.svg.failed'')
         (render_status_text (rr_status r))
         [(''pdfSha256'', case st_pdf_sha256 s of None \<Rightarrow> JNull | Some h \<Rightarrow> JStr h),
          (''svgAttempt'', JNum (int (st_svg_attempt s))), (''exitCode'', JNum code)] ts)))
         (\<lambda>_. return_tx True))))"

text \<open>Renaming, the transaction, and taking the directory out of \<open>published\<close> when it committed.\<close>

definition publish_act :: "unit outcome \<Rightarrow> string \<times> nat \<Rightarrow> (timestamp \<Rightarrow> timestamp \<Rightarrow> string list \<Rightarrow> bool tx) \<Rightarrow> nat \<Rightarrow>
  bool act" where
  "publish_act renamed g tx n =
     andthen (rename_act renamed g) (\<lambda>_.
     andthen now_act (\<lambda>ts. andthen now_act (\<lambda>now. andthen (ids_act n) (\<lambda>is.
     andthen (tx_act (tx ts now is)) (\<lambda>committed.
       if committed then andthen (settle_act g) (\<lambda>_. value_act True) else value_act False)))))"

section \<open>The stages\<close>

definition stopped_or_fenced :: "lease \<Rightarrow> unit act" where
  "stopped_or_fenced l =
     andthen (read_act (owns l)) (\<lambda>o1. if \<not> o1 then value_act () else
     andthen (canceled_act l) (\<lambda>c. if c then value_act () else
       throw_act (app_failure ''STAGE_STATE_CONFLICT'' ''Output stage no longer matches the owned Job'')))"

definition start_stage :: "lease \<Rightarrow> render_output \<Rightarrow> unit act" where
  "start_stage l stage =
     andthen (tx_act (leased l (stage_start stage))) (\<lambda>ok. if ok then value_act () else
     andthen (stopped_or_fenced l) (\<lambda>_. return_act))"

text \<open>After a stage: the run ends when it lost the lease or the job was canceled.\<close>

definition stop_if_canceled :: "lease \<Rightarrow> unit act" where
  "stop_if_canceled l =
     andthen (read_act (owns l)) (\<lambda>o1. andthen (return_unless o1) (\<lambda>_.
     andthen (read_act (cancel_requested l)) (\<lambda>c. if \<not> c then value_act () else
     andthen (mark_canceled_act l) (\<lambda>_. return_act))))"

definition renewed_and_owned :: "lease \<Rightarrow> unit act" where
  "renewed_and_owned l = andthen (renew_act l) (\<lambda>ok. andthen (return_unless ok) (\<lambda>_.
     andthen (read_act (owns l)) return_unless))"

definition begin_stages :: "worker_settings \<Rightarrow> stage_io \<Rightarrow> lease \<Rightarrow> unit act" where
  "begin_stages c io l =
     andthen (read_act (\<lambda>d. checkpoint d (le_job l) = None \<and> has_published_pdf d (le_job l))) (\<lambda>lost.
     andthen (throw_when lost (app_failure ''STAGE_CHECKPOINT_MISSING''
       ''Published PDF state cannot be safely reconstructed'')) (\<lambda>_.
     andthen (read_act (owns l)) (\<lambda>o1. andthen (return_unless o1) (\<lambda>_.
     andthen (canceled_act l) (\<lambda>c1. andthen (return_unless (\<not> c1)) (\<lambda>_.
     andthen (commit_act (leased l (\<lambda>i w g. stage_initialize i w g (wc_image c)))) (\<lambda>ok.
     andthen (return_unless ok) (\<lambda>_. andthen (wait_act (io_prepare io)) pin_act))))))))"

definition owned_act :: "lease \<Rightarrow> job_status list \<Rightarrow> job_status \<Rightarrow> timestamp \<Rightarrow> column_update list \<Rightarrow>
  nat act" where
  "owned_act l src dst ts us = tx_act (leased l (\<lambda>i w g. transition_owned i w g src dst ts us))"

text \<open>\<open>validating\<close> to \<open>running\<close>.\<close>

definition run_job_act :: "lease \<Rightarrow> unit act" where
  "run_job_act l = andthen now_act (\<lambda>ts. andthen now_act (\<lambda>started.
     andthen (owned_act l [Validating] Running ts [SetStartedAt (Some started)]) (\<lambda>n. return_unless (n = 1))))"

definition fail_pdf_act :: "worker_settings \<Rightarrow> stage_io \<Rightarrow> lease \<Rightarrow> int \<Rightarrow> render_result \<Rightarrow> 'a act" where
  "fail_pdf_act c io l code r =
     andthen (wait_act (io_failure_artifacts io)) (\<lambda>as.
     andthen (generation_act (le_generation l) False) (\<lambda>g.
     andthen (publish_act (io_rename io g) (le_job l, g)
       (\<lambda>ts now is. fail_pdf_tx l (wc_image c) (zip is as) g code r ts now) (length as)) (\<lambda>_. return_act)))"

definition find_pdf :: "validated list \<Rightarrow> validated act" where
  "find_pdf as =
     andthen (throw_when (\<not> list_ex (\<lambda>a. va_path a = ''previews/page-1.png'') as)
       (app_failure ''PREVIEW_MISSING'' ''PDF preview is missing'')) (\<lambda>_.
     case find (\<lambda>a. va_path a = ''result.pdf'') as of
       None \<Rightarrow> throw_act (plain_failure ''Validated PDF is missing'') | Some pdf \<Rightarrow> value_act pdf)"

definition publish_pdf_act :: "worker_settings \<Rightarrow> stage_io \<Rightarrow> lease \<Rightarrow> unit act" where
  "publish_pdf_act c io l =
     andthen (wait_act (io_pdf_artifacts io)) (\<lambda>found.
     (let as = filter (\<lambda>a. \<not> starts_with ''svg/'' (va_path a)) found in
     andthen (find_pdf as) (\<lambda>pdf.
     andthen (wait_act (io_page_count io)) (\<lambda>pages.
     andthen (wait_act (io_synctex io)) (\<lambda>sync.
     andthen (throw_when (total_size as + dg_bytes sync > wc_max_output_bytes c)
       (app_failure ''OUTPUT_LIMIT'' ''PDF checkpoint exceeds output limit'')) (\<lambda>_.
     andthen (generation_act (le_generation l) False) (\<lambda>g.
     andthen (wait_act (io_publish_pdf io)) (\<lambda>copied.
     andthen (throw_when (copied \<noteq> sync) (plain_failure ''SyncTeX checkpoint changed'')) (\<lambda>_.
     andthen (renewed_and_owned l) (\<lambda>_.
     andthen (publish_act (io_rename io g) (le_job l, g)
       (\<lambda>ts now is. publish_pdf_tx l (wc_image c) (zip is as) g pdf sync pages ts) (length as)) (\<lambda>committed.
     if committed then value_act () else andthen (stopped_or_fenced l) (\<lambda>_. return_act))))))))))))"

definition pdf_stage :: "worker_settings \<Rightarrow> stage_io \<Rightarrow> lease \<Rightarrow> unit act" where
  "pdf_stage c io l =
     andthen (start_stage l Pdf) (\<lambda>_.
     andthen (wait_act (io_run io Pdf)) (\<lambda>x.
     andthen (stop_if_canceled l) (\<lambda>_.
     (let r = classify_render_result (ex_exit_code x) (ex_timed_out x) (ex_stderr x) in
     andthen (wait_act (io_metadata io Pdf)) (\<lambda>_.
     if rr_status r \<noteq> RSucceeded then fail_pdf_act c io l (ex_exit_code x) r
     else publish_pdf_act c io l)))))"

text \<open>The checkpoint that the SVG stage starts from.\<close>

definition check_pdf_checkpoint :: "worker_settings \<Rightarrow> worker_job \<Rightarrow> db \<Rightarrow> stage_row outcome" where
  "check_pdf_checkpoint c j d =
     (case checkpoint d (w_id j) of
        None \<Rightarrow> Inl (plain_failure ''PDF checkpoint is incomplete'')
      | Some s \<Rightarrow>
          if st_pdf_generation s = None \<or> st_pdf_sha256 s = None \<or> st_synctex_sha256 s = None
          then Inl (plain_failure ''PDF checkpoint is incomplete'')
          else if st_renderer_image s \<noteq> wc_image c
          then Inl (app_failure ''SVG_RUNTIME_CHANGED''
            ''The Runtime changed since PDF publication; retry the complete Job'')
          else if st_source_sha256 s \<noteq> w_source_sha256 j \<or> st_source_id s \<noteq> w_source_id j \<or>
            st_entrypoint s \<noteq> w_entrypoint j \<or>
            (case job_of d (w_id j) of None \<Rightarrow> True
             | Some r \<Rightarrow> st_project_revision_id s \<noteq> j_project_revision_id r)
          then Inl (app_failure ''PDF_CHECKPOINT_MISMATCH''
            ''The Source, entrypoint or revision no longer matches the PDF checkpoint'')
          else Inr s)"

definition checkpoint_act :: "worker_settings \<Rightarrow> worker_job \<Rightarrow> stage_row act" where
  "checkpoint_act c j = andthen (read_act (check_pdf_checkpoint c j)) (\<lambda>x.
     case x of Inl e \<Rightarrow> throw_act e | Inr s \<Rightarrow> value_act s)"

definition verify_pdf :: "stage_io \<Rightarrow> stage_row \<Rightarrow> bool \<Rightarrow> unit act" where
  "verify_pdf io s second = andthen (wait_act (io_verify io second)) (\<lambda>(pdf, sync).
     throw_when (Some (dg_sha256 pdf) \<noteq> st_pdf_sha256 s \<or> Some (dg_sha256 sync) \<noteq> st_synctex_sha256 s \<or>
         dg_bytes sync \<noteq> st_synctex_bytes s)
       (app_failure ''PDF_CHECKPOINT_CHANGED'' ''The immutable PDF checkpoint has changed''))"

definition svg_result_of :: "execution \<Rightarrow> render_result" where
  "svg_result_of x =
     (let r = classify_render_result (ex_exit_code x) (ex_timed_out x) (ex_stderr x) in
      if rr_error_code r = Some ''LATEX_COMPILE_FAILED''
      then r\<lparr>rr_error_code := Some ''SVG_GENERATION_FAILED'',
             rr_error_message := Some (''SVG stage exited with '' @ int_text (ex_exit_code x))\<rparr>
      else if rr_error_code r = Some ''RENDERER_MEMORY_LIMIT''
      then r\<lparr>rr_error_code := Some ''SVG_MEMORY_LIMIT'',
             rr_error_message := Some ''The SVG stage exceeded its container memory limit''\<rparr>
      else r)"

fun svg_failure :: "failure \<Rightarrow> render_result" where
  "svg_failure (Failure (AppError code n) message) =
     (classify_render_result 79 False [])\<lparr>rr_error_code := Some code, rr_error_message := Some message\<rparr>"
| "svg_failure e = (classify_render_result 79 False [])\<lparr>rr_error_code := Some ''SVG_GENERATION_FAILED'',
     rr_error_message := Some ''SVG generation failed''\<rparr>"

text \<open>\<open>try\<close> with a \<open>catch\<close>.\<close>

definition catch_act :: "'a act \<Rightarrow> (failure \<Rightarrow> 'a act) \<Rightarrow> 'a act" where
  "catch_act m h env r = (case m env r of (Thrown e, r') \<Rightarrow> h e env r' | x \<Rightarrow> x)"

definition run_svg :: "stage_io \<Rightarrow> (render_result \<times> int) act" where
  "run_svg io = catch_act
     (andthen (wait_act (io_run io Svg)) (\<lambda>x. andthen (wait_act (io_metadata io Svg)) (\<lambda>_.
        value_act (svg_result_of x, ex_exit_code x))))
     (\<lambda>e. if e = Deferred then throw_act e
       else andthen (wait_act (io_svg_fallback io)) (\<lambda>_. value_act (svg_failure e, 79)))"

definition publish_svg_act :: "worker_settings \<Rightarrow> stage_io \<Rightarrow> lease \<Rightarrow> stage_row \<Rightarrow> render_result \<Rightarrow> int \<Rightarrow>
  unit act" where
  "publish_svg_act c io l s r code =
     andthen (wait_act (io_svg_artifacts io (rr_status r = RSucceeded))) (\<lambda>as.
     andthen (throw_when (list_ex (\<lambda>a. \<not> starts_with ''svg/'' (va_path a)) as)
       (app_failure ''SVG_OUTPUT_INVALID'' ''SVG stage attempted to replace PDF artifacts'')) (\<lambda>_.
     andthen (verify_pdf io s True) (\<lambda>_.
     andthen (generation_act (le_generation l) True) (\<lambda>g.
     andthen (read_act (\<lambda>d. coalesce (Option.bind (job_of d (le_job l)) j_output_size) 0)) (\<lambda>previous.
     (let bytes = previous + total_size as in
     andthen (throw_when (bytes > wc_max_output_bytes c)
       (app_failure ''OUTPUT_LIMIT'' ''Combined output and retained attempts exceed limit'')) (\<lambda>_.
     andthen (wait_act (io_publish_svg io)) (\<lambda>_.
     andthen (renewed_and_owned l) (\<lambda>_.
     andthen (publish_act (io_rename io g) (le_job l, g)
       (\<lambda>ts now is. finish_svg_tx l (wc_image c) (zip is as) g bytes code r s ts) (length as)) (\<lambda>committed.
     if committed then value_act () else stopped_or_fenced l))))))))))"

definition svg_stage :: "worker_settings \<Rightarrow> stage_io \<Rightarrow> lease \<Rightarrow> stage_row \<Rightarrow> unit act" where
  "svg_stage c io l s =
     andthen (verify_pdf io s False) (\<lambda>_.
     andthen (start_stage l Svg) (\<lambda>_.
     andthen (run_svg io) (\<lambda>(r, code).
     andthen (stop_if_canceled l) (\<lambda>_. publish_svg_act c io l s r code))))"

definition pdf_succeeded :: "string \<Rightarrow> db \<Rightarrow> bool" where
  "pdf_succeeded i d \<longleftrightarrow> (case checkpoint d i of None \<Rightarrow> False | Some s \<Rightarrow> st_pdf_status s = StSucceeded)"

definition run_stages :: "worker_settings \<Rightarrow> stage_io \<Rightarrow> worker_job \<Rightarrow> lease \<Rightarrow> unit act" where
  "run_stages c io j l =
     andthen (run_job_act l) (\<lambda>_.
     andthen (read_act (pdf_succeeded (le_job l))) (\<lambda>done1.
     andthen (if done1 then value_act () else pdf_stage c io l) (\<lambda>_.
     andthen (checkpoint_act c j) (svg_stage c io l))))"

text \<open>
  The \<open>finally\<close> clause. A deferred clean-up keeps the attempt, its directories and the lease for the
  recovery.
\<close>

definition finish_act :: "stage_io \<Rightarrow> lease \<Rightarrow> unit act" where
  "finish_act io l =
     andthen (remove_published (io_cleanup io)) (\<lambda>_.
     andthen release_act (\<lambda>_. andthen (canceled_act l) (\<lambda>_. value_act ())))"

text \<open>\<open>finally\<close>: what \<open>m\<close> ended with, unless the clause itself throws.\<close>

definition finally_act :: "'a act \<Rightarrow> unit act \<Rightarrow> 'a act" where
  "finally_act m f env r = (case m env r of
     (Thrown Deferred, r') \<Rightarrow> (Thrown Deferred, r')
   | (x, r') \<Rightarrow> (case f env r' of (Thrown e, r'') \<Rightarrow> (Thrown e, r'') | (_, r'') \<Rightarrow> (x, r'')))"

definition process_staged_job :: "worker_settings \<Rightarrow> stage_io \<Rightarrow> worker_job \<Rightarrow> unit act" where
  "process_staged_job c io j =
     (let l = job_lease c j in
      finally_act (andthen (begin_stages c io l) (\<lambda>_. run_stages c io j l)) (finish_act io l))"

end
