(* ===== verification/Staged_Runs.thy ===== *)
theory Staged_Runs
  imports Staged_Jobs
begin

text \<open>
  What the processors of the worker do to the database, whatever others commit while they wait:
  everything a run commits is made of steps of the system, and but for the pins on cached trees it
  changes something only while its lease is held.
\<close>

section \<open>Commits\<close>

definition lease_held :: "lease \<Rightarrow> db \<Rightarrow> bool" where
  "lease_held l d \<longleftrightarrow> (\<exists>j\<in>set (jobs d). leased l holds_lease j)"

definition fenced_commit :: "lease \<Rightarrow> db \<Rightarrow> db \<Rightarrow> bool" where
  "fenced_commit l d d' \<longleftrightarrow> step\<^sup>*\<^sup>* d d' \<and> (d' = d \<or> lease_held l d \<or> (\<exists>p. d' = tree_release p d))"

definition others_step :: "environment \<Rightarrow> bool" where
  "others_step env \<longleftrightarrow> (\<forall>n d. step\<^sup>*\<^sup>* d (en_others env n d))"

text \<open>
  A directory below \<open>outputs\<close> is public when a stage of the job refers to its generation or the job
  ended with it. In a tidy run every directory was there before, or is still in \<open>published\<close> and will
  be removed, or was made public by a commit.
\<close>

definition public_in :: "string \<times> nat \<Rightarrow> db \<Rightarrow> bool" where
  "public_in = (\<lambda>(i, g) d.
     (\<exists>s\<in>set (stages d). st_job_id s = i \<and> (st_pdf_generation s = Some g \<or> st_svg_generation s = Some g)) \<or>
     (\<exists>j\<in>set (jobs d). j_id j = i \<and> j_status j \<in> {Succeeded, Failed, Timeout, Rejected, Canceled}))"

definition made_public :: "lease \<Rightarrow> string \<times> nat \<Rightarrow> run \<Rightarrow> bool" where
  "made_public l g r \<longleftrightarrow> (\<exists>(d, d')\<in>set (rn_commits r). lease_held l d \<and> public_in g d')"

definition tidy :: "lease \<Rightarrow> (string \<times> nat) list \<Rightarrow> run \<Rightarrow> bool" where
  "tidy l dirs r \<longleftrightarrow> (\<forall>g\<in>set (rn_outputs r). g \<in> set dirs \<or> g \<in> set (rn_published r) \<or> made_public l g r)"

text \<open>What a run does from one of its points to a later one.\<close>

definition runs_to :: "lease \<Rightarrow> run \<Rightarrow> run \<Rightarrow> bool" where
  "runs_to l r r' \<longleftrightarrow> step\<^sup>*\<^sup>* (rn_db r) (rn_db r') \<and>
     (\<exists>cs. rn_commits r' = rn_commits r @ cs \<and> (\<forall>(d, d')\<in>set cs. fenced_commit l d d')) \<and>
     (\<forall>dirs. tidy l dirs r \<longrightarrow> tidy l dirs r')"

lemma runs_to_trans:
  assumes "runs_to l r s" and "runs_to l s t"
  shows "runs_to l r t"
proof -
  from assms obtain cs ds where cs: "rn_commits s = rn_commits r @ cs" "\<forall>(d, d')\<in>set cs. fenced_commit l d d'"
    and ds: "rn_commits t = rn_commits s @ ds" "\<forall>(d, d')\<in>set ds. fenced_commit l d d'"
    unfolding runs_to_def by blast
  have "rn_commits t = rn_commits r @ (cs @ ds)" using cs(1) ds(1) by simp
  moreover have "\<forall>(d, d')\<in>set (cs @ ds). fenced_commit l d d'" using cs(2) ds(2) by auto
  moreover have "step\<^sup>*\<^sup>* (rn_db r) (rn_db t)" using assms unfolding runs_to_def by (meson rtranclp_trans)
  moreover have "\<forall>dirs. tidy l dirs r \<longrightarrow> tidy l dirs t" using assms unfolding runs_to_def by blast
  ultimately show ?thesis unfolding runs_to_def by blast
qed

lemma runs_to_same:
  "step\<^sup>*\<^sup>* (rn_db r) (rn_db r') \<Longrightarrow> rn_commits r' = rn_commits r \<Longrightarrow> rn_outputs r' = rn_outputs r \<Longrightarrow>
   rn_published r' = rn_published r \<Longrightarrow> runs_to l r r'"
  by (simp add: runs_to_def tidy_def made_public_def)

text \<open>A commit.\<close>

definition committed :: "db \<Rightarrow> run \<Rightarrow> run" where
  "committed d r = r\<lparr>rn_db := d, rn_commits := rn_commits r @ [(rn_db r, d)]\<rparr>"

lemma tidy_committed: "tidy l dirs r \<Longrightarrow> tidy l dirs (committed d r)"
  by (auto simp: tidy_def made_public_def committed_def)

lemma runs_to_commit: "fenced_commit l (rn_db r) d \<Longrightarrow> runs_to l r (committed d r)"
  using tidy_committed by (auto simp: runs_to_def committed_def fenced_commit_def)

definition proper :: "lease \<Rightarrow> 'a act \<Rightarrow> bool" where
  "proper l m \<longleftrightarrow> (\<forall>env r x r'. others_step env \<longrightarrow> m env r = (x, r') \<longrightarrow> runs_to l r r')"

lemma properI:
  "(\<And>env r x r'. others_step env \<Longrightarrow> m env r = (x, r') \<Longrightarrow> runs_to l r r') \<Longrightarrow> proper l m"
  by (simp add: proper_def)

lemma properD: "proper l m \<Longrightarrow> others_step env \<Longrightarrow> m env r = (x, r') \<Longrightarrow> runs_to l r r'"
  by (simp add: proper_def)

lemma proper_andthen:
  assumes "proper l m" and "\<And>x. proper l (k x)"
  shows "proper l (andthen m k)"
proof (rule properI)
  fix env r x r'
  assume env: "others_step env" and run: "andthen m k env r = (x, r')"
  obtain y s where y: "m env r = (y, s)" by fastforce
  note first = properD [OF assms(1) env y]
  show "runs_to l r r'"
  proof (cases y)
    case (Value z)
    then have "k z env s = (x, r')" using run y by (simp add: andthen_def)
    from runs_to_trans [OF first properD [OF assms(2) env this]] show ?thesis .
  qed (use run y first in \<open>auto simp: andthen_def\<close>)
qed

named_theorems proper_intros

lemma runs_to_refl [simp]: "runs_to l r r"
  by (simp add: runs_to_same)

lemma proper_simple [proper_intros]:
  "proper l (value_act x)" "proper l return_act" "proper l (throw_act e)" "proper l (read_act f)"
  "proper l (return_unless b)" "proper l (throw_when b e)" "proper l now_act" "proper l (ids_act n)"
  "proper l (pin_act p)"
  by (rule properI, auto simp: value_act_def return_act_def throw_act_def read_act_def return_unless_def
      throw_when_def now_act_def ids_act_def pin_act_def split: if_splits intro: runs_to_same)+

lemma proper_wait [proper_intros]: "proper l (wait_act x)"
  by (rule properI, rule runs_to_same) (auto simp: wait_act_def others_step_def split: sum.splits)

lemma proper_rename [proper_intros]: "proper l (rename_act x g)" "proper l (remove_published x)"
proof -
  have "proper l (\<lambda>env r. (Value (),
      r\<lparr>rn_outputs := g # filter (\<lambda>h. h \<noteq> g) (rn_outputs r), rn_published := g # rn_published r\<rparr>))"
    by (rule properI) (auto simp: runs_to_def tidy_def made_public_def)
  then show "proper l (rename_act x g)"
    unfolding rename_act_def by (intro proper_andthen proper_wait)
  have "proper l (\<lambda>env r. (Value (),
      r\<lparr>rn_outputs := filter (\<lambda>h. h \<notin> set (rn_published r)) (rn_outputs r)\<rparr>))"
    by (rule properI) (auto simp: runs_to_def tidy_def made_public_def)
  then show "proper l (remove_published x)"
    unfolding remove_published_def by (intro proper_andthen proper_wait)
qed

lemma proper_commit:
  assumes "\<And>d. fenced_commit l d (snd (f d))"
  shows "proper l (commit_act f)"
proof (rule properI)
  fix env r x r' assume "commit_act f env r = (x, r')"
  then have "r' = committed (snd (f (rn_db r))) r"
    by (auto simp: commit_act_def committed_def split: prod.splits)
  with assms runs_to_commit show "runs_to l r r'" by simp
qed

lemma proper_tx:
  assumes "\<And>d x d'. m d = Inr (x, d') \<Longrightarrow> fenced_commit l d d'"
  shows "proper l (tx_act m)"
proof (rule properI)
  fix env r x r' assume run: "tx_act m env r = (x, r')"
  show "runs_to l r r'"
  proof (cases "m (rn_db r)")
    case (Inl e)
    with run show ?thesis by (auto simp: tx_act_def)
  next
    case (Inr p)
    then obtain y d where d: "m (rn_db r) = Inr (y, d)" by (cases p) auto
    with run have "r' = committed d r" by (auto simp: tx_act_def committed_def)
    with assms [OF d] runs_to_commit show ?thesis by simp
  qed
qed

lemma proper_catch:
  assumes "proper l m" and "\<And>e. proper l (h e)"
  shows "proper l (catch_act m h)"
proof (rule properI)
  fix env r x r'
  assume env: "others_step env" and run: "catch_act m h env r = (x, r')"
  obtain y s where y: "m env r = (y, s)" by fastforce
  note first = properD [OF assms(1) env y]
  show "runs_to l r r'"
  proof (cases y)
    case (Thrown e)
    then have "h e env s = (x, r')" using run y by (simp add: catch_act_def)
    from runs_to_trans [OF first properD [OF assms(2) env this]] show ?thesis .
  qed (use run y first in \<open>auto simp: catch_act_def\<close>)
qed

lemma proper_finally:
  assumes "proper l m" and "proper l f"
  shows "proper l (finally_act m f)"
proof (rule properI)
  fix env r x r'
  assume env: "others_step env" and run: "finally_act m f env r = (x, r')"
  obtain y s where y: "m env r = (y, s)" by fastforce
  obtain z t where z: "f env s = (z, t)" by fastforce
  have "r' = s \<or> r' = t"
    using run y z by (auto simp: finally_act_def split: ending.splits failure.splits)
  with runs_to_trans properD [OF assms(1) env y] properD [OF assms(2) env z] show "runs_to l r r'" by blast
qed

section \<open>Statements under the lease\<close>

lemma fencedI: "step d d' \<Longrightarrow> d' = d \<or> lease_held l d \<Longrightarrow> fenced_commit l d d'"
  by (auto simp: fenced_commit_def)

lemma not_held: "\<not> lease_held l d \<Longrightarrow> \<forall>j\<in>set (jobs d). \<not> holds_lease (le_job l) (le_worker l) (le_generation l) j"
  by (simp add: lease_held_def leased_def)

lemma fenced_mark_canceled: "fenced_commit l d (snd (leased l (mark_canceled now b) d))"
  unfolding leased_def
  by (rule fencedI [OF step.mark_canceled]) (metis mark_canceled.no_lease not_held snd_conv)

lemma fenced_heartbeat: "fenced_commit l d (snd (leased l (heartbeat now until) d))"
  unfolding leased_def
  by (rule fencedI [OF step.heartbeat]) (metis heartbeat.no_lease not_held snd_conv)

lemma fenced_initialize: "fenced_commit l d (snd (leased l (\<lambda>i w g. stage_initialize i w g img) d))"
  unfolding leased_def
proof (rule fencedI [OF step.stage_init])
  show "snd (stage_initialize (le_job l) (le_worker l) (le_generation l) img d) = d \<or> lease_held l d"
  proof (cases "find (wants_stages (le_job l) (le_worker l) (le_generation l)) (jobs d)")
    case None
    then show ?thesis by (simp add: stage_initialize_def)
  next
    case (Some j)
    then have "j \<in> set (jobs d)" "holds_lease (le_job l) (le_worker l) (le_generation l) j"
      by (auto simp: find_Some_iff wants_stages_def)
    then show ?thesis by (auto simp: lease_held_def leased_def)
  qed
qed

lemma fenced_transition:
  assumes "leased l (\<lambda>i w g. transition_owned i w g src dst ts us) d = Inr (n, d')"
    and "worker_transition src dst us"
  shows "fenced_commit l d d'"
proof (rule fencedI)
  from assms show "step d d'" unfolding leased_def by (intro step.transition)
  from assms(1) have "d' = snd (transition_update src dst ts us (le_job l) (le_worker l) (le_generation l) d)"
    by (auto simp: leased_def transition_owned_def split: if_splits)
  then show "d' = d \<or> lease_held l d" by (metis transition_owned.no_lease not_held snd_conv)
qed

text \<open>A stage statement that changes something found its row under the lease.\<close>

lemma stage_owned_held: "st_job_id s = le_job l \<Longrightarrow> stage_owned d (le_worker l) (le_generation l) s \<Longrightarrow> lease_held l d"
  by (auto simp: stage_owned_def lease_held_def leased_def holds_lease_def)

lemma update_stages_held:
  assumes "update_stages p f d = Inr (n, d')"
    and "\<And>s. p s \<Longrightarrow> st_job_id s = le_job l \<and> stage_owned d (le_worker l) (le_generation l) s"
  shows "d' = d \<or> lease_held l d"
proof (cases "\<exists>s\<in>set (stages d). p s")
  case True
  with assms(2) stage_owned_held show ?thesis by blast
next
  case False
  then have "upd_where p f (stages d) = stages d" by (auto simp: upd_where_def intro: map_idI)
  with assms(1) show ?thesis by (auto simp: update_stages_def split: if_splits)
qed

lemma fenced_stage_start: "leased l (stage_start stage) d = Inr (ok, d') \<Longrightarrow> fenced_commit l d d'"
  unfolding leased_def
  by (rule fencedI [OF step.stage_start], assumption)
    (auto simp: stage_start_def split: render_output.splits sum.splits prod.splits
      dest!: update_stages_held)

lemma complete_pdf_held: "leased l complete_pdf p d = Inr (ok, d') \<Longrightarrow> d' = d \<or> lease_held l d"
  by (auto simp: leased_def complete_pdf_def split: sum.splits prod.splits dest!: update_stages_held)

lemma complete_svg_held: "leased l complete_svg p d = Inr (ok, d') \<Longrightarrow> d' = d \<or> lease_held l d"
  by (auto simp: leased_def complete_svg_def split: sum.splits prod.splits dest!: update_stages_held)

section \<open>Transactions\<close>

text \<open>A transaction that is made of steps.\<close>

definition steps_tx :: "'a tx \<Rightarrow> bool" where
  "steps_tx m \<longleftrightarrow> (\<forall>d x d'. m d = Inr (x, d') \<longrightarrow> step\<^sup>*\<^sup>* d d')"

lemma steps_txD: "steps_tx m \<Longrightarrow> m d = Inr (x, d') \<Longrightarrow> step\<^sup>*\<^sup>* d d'"
  by (simp add: steps_tx_def)

lemma steps_seq: "steps_tx m \<Longrightarrow> (\<And>x. steps_tx (k x)) \<Longrightarrow> steps_tx (seq_tx m k)"
  unfolding steps_tx_def seq_tx_Inr_iff by (meson rtranclp_trans)

lemma steps_return [simp]: "steps_tx (return_tx x)" "steps_tx (guard_tx p e)"
  by (auto simp: steps_tx_def return_tx_def guard_tx_def split: if_splits)

text \<open>What touches neither jobs nor stages nor previews is one step.\<close>

lemma frame_step:
  assumes "jobs d' = jobs d" and "stages d' = stages d" and "previews d' = previews d"
    and "preview_sequence d' = preview_sequence d"
  shows "step\<^sup>*\<^sup>* d d'"
  using step.frame [OF assms] by blast

lemma steps_audit: "steps_tx (write_tx (audit a))"
  by (auto simp: steps_tx_def write_tx_def audit_def intro!: frame_step)

lemma steps_artifact: "steps_tx (artifact_insert a)" "steps_tx (publish_stage a)"
  by (auto simp: steps_tx_def artifact_insert_def publish_stage_def intro!: frame_step split: if_splits)

lemma steps_register: "steps_tx (register x)"
  by (auto simp: steps_tx_def register_def intro!: frame_step split: if_splits)

lemma steps_insert_artifacts:
  "(\<And>a. steps_tx (put a)) \<Longrightarrow> steps_tx (insert_artifacts put job img g ts pages as)"
  by (induction as) (auto intro!: steps_seq steps_register split: option.splits artifact_type.splits)

lemma steps_owned_tx: "worker_transition src dst us \<Longrightarrow> steps_tx (owned_tx l src dst ts us)"
  unfolding owned_tx_def
  by (intro steps_seq) (auto simp: steps_tx_def leased_def intro: step.transition)

lemma final_transition: "worker_transition [Running] (job_status_of st) (ending_columns st ts bytes code r @ us)"
  if "us = [] \<or> us = [SetHeartbeatAt h]"
  using that by (cases st) (auto simp: worker_transition_def releases_def ending_columns_def)

lemma fenced_fail_pdf:
  assumes "fail_pdf_tx l img as g code r ts now d = Inr (x, d')"
  shows "fenced_commit l d d'"
proof (cases "owns l d")
  case False
  with assms show ?thesis by (simp add: fail_pdf_tx_def fenced_commit_def)
next
  case True
  then obtain j where "job_of d (le_job l) = Some j" "j_lease_owner j = Some (le_worker l)"
    "j_lease_generation j = le_generation l"
    by (auto simp: owns_def runtime_state_def split: option.splits)
  then have held: "lease_held l d" using row_by_SomeD
    by (fastforce simp: lease_held_def leased_def holds_lease_def)
  have "steps_tx (seq_tx (insert_artifacts publish_stage (le_job l) img g ts None as) (\<lambda>_.
        seq_tx (owned_tx l [Running] (job_status_of (rr_status r)) ts
          (ending_columns (rr_status r) ts (total_size (map snd as)) code r)) (\<lambda>_.
        seq_tx (write_tx (audit (worker_audit l (rr_audit_action r) (render_status_text (rr_status r)) [] ts)))
          (\<lambda>_. return_tx True))))"
    using final_transition [of "[]"]
    by (intro steps_seq steps_insert_artifacts steps_artifact steps_owned_tx steps_audit) simp_all
  with assms True held show ?thesis
    using fenced_mark_canceled [of l d now None]
    by (auto simp: fail_pdf_tx_def fenced_commit_def dest: steps_txD split: if_splits)
qed

lemma fenced_after_stage:
  assumes "seq_tx first (\<lambda>ok. if \<not> ok then return_tx False else rest) d = Inr (x, d')"
    and "\<And>ok e. first d = Inr (ok, e) \<Longrightarrow> step d e \<and> (e = d \<or> lease_held l d)" and "steps_tx rest"
    and "\<And>e. first d = Inr (True, e) \<Longrightarrow> lease_held l d"
  shows "fenced_commit l d d'"
proof -
  from assms(1) obtain ok e where e: "first d = Inr (ok, e)"
    and d': "(if \<not> ok then return_tx False else rest) e = Inr (x, d')" by (auto simp: seq_tx_Inr_iff)
  show ?thesis
  proof (cases ok)
    case True
    then have "step\<^sup>*\<^sup>* e d'" using d' assms(3) by (auto dest: steps_txD)
    with assms(2) [OF e] assms(4) e True show ?thesis
      by (auto simp: fenced_commit_def intro: converse_rtranclp_into_rtranclp)
  next
    case False
    with d' have "d' = e" by (simp add: return_tx_def)
    with assms(2) [OF e] show ?thesis by (auto simp: fenced_commit_def)
  qed
qed

lemma changes_some: "update_stages p f d = Inr (n, e) \<Longrightarrow> n = Suc 0 \<Longrightarrow> \<exists>s\<in>set (stages d). p s"
  by (auto simp: update_stages_def changes_pos_iff [symmetric] split: if_splits)

lemma fenced_publish_pdf:
  assumes "publish_pdf_tx l img as g pdf sync pages ts d = Inr (x, d')"
  shows "fenced_commit l d d'"
  using assms unfolding publish_pdf_tx_def
proof (rule fenced_after_stage)
  fix ok e
  assume "leased l complete_pdf \<lparr>pr_generation = g, pr_sha256 = va_sha256 pdf,
       pr_synctex_sha256 = dg_sha256 sync, pr_synctex_bytes = dg_bytes sync, pr_completed_at = ts\<rparr> d = Inr (ok, e)"
  with complete_pdf_held [OF this] show "step d e \<and> (e = d \<or> lease_held l d)"
    unfolding leased_def by (auto intro: step.complete_pdf)
next
  fix e
  assume "leased l complete_pdf \<lparr>pr_generation = g, pr_sha256 = va_sha256 pdf,
       pr_synctex_sha256 = dg_sha256 sync, pr_synctex_bytes = dg_bytes sync, pr_completed_at = ts\<rparr> d = Inr (True, e)"
  then show "lease_held l d"
    by (auto simp: leased_def complete_pdf_def split: sum.splits prod.splits dest!: changes_some
        intro: stage_owned_held)
qed (intro steps_seq steps_insert_artifacts steps_artifact steps_owned_tx steps_audit;
    simp add: worker_transition_def keeps_owner_def)

lemma fenced_finish_svg:
  assumes "finish_svg_tx l img as g bytes code r s ts d = Inr (x, d')"
  shows "fenced_commit l d d'"
  using assms unfolding finish_svg_tx_def
proof (rule fenced_after_stage)
  fix ok e
  assume "leased l complete_svg \<lparr>sr_generation = g, sr_outcome = svg_outcome_of (rr_status r),
       sr_error_code = rr_error_code r, sr_error_message = rr_error_message r, sr_completed_at = ts\<rparr> d =
       Inr (ok, e)"
  with complete_svg_held [OF this] show "step d e \<and> (e = d \<or> lease_held l d)"
    unfolding leased_def by (auto intro: step.complete_svg)
next
  fix e
  assume "leased l complete_svg \<lparr>sr_generation = g, sr_outcome = svg_outcome_of (rr_status r),
       sr_error_code = rr_error_code r, sr_error_message = rr_error_message r, sr_completed_at = ts\<rparr> d =
       Inr (True, e)"
  then show "lease_held l d"
    by (auto simp: leased_def complete_svg_def split: sum.splits prod.splits dest!: changes_some
        intro: stage_owned_held)
next
  show "steps_tx (seq_tx (insert_artifacts publish_stage (le_job l) img g ts None as) (\<lambda>_.
       seq_tx (owned_tx l [Running] (job_status_of (rr_status r)) ts
         (ending_columns (rr_status r) ts bytes code r @ [SetHeartbeatAt (Some ts)])) (\<lambda>_.
       seq_tx (write_tx (audit (worker_audit l
         (if rr_status r = RSucceeded then ''render.succeeded'' else ''render.svg.failed'')
         (render_status_text (rr_status r))
         [(''pdfSha256'', case st_pdf_sha256 s of None \<Rightarrow> JNull | Some h \<Rightarrow> JStr h),
          (''svgAttempt'', JNum (int (st_svg_attempt s))), (''exitCode'', JNum code)] ts)))
         (\<lambda>_. return_tx True))))"
    by (intro steps_seq steps_insert_artifacts steps_artifact steps_owned_tx steps_audit final_transition)
      simp_all
qed

section \<open>What a publication makes public\<close>

definition stage_key :: "stage_row \<Rightarrow> string \<times> nat option \<times> nat option" where
  "stage_key s = (st_job_id s, st_pdf_generation s, st_svg_generation s)"

definition keeps_stages :: "'a tx \<Rightarrow> bool" where
  "keeps_stages m \<longleftrightarrow> (\<forall>d x d'. m d = Inr (x, d') \<longrightarrow> map stage_key (stages d') = map stage_key (stages d))"

lemma keeps_stages_seq: "keeps_stages m \<Longrightarrow> (\<And>x. keeps_stages (k x)) \<Longrightarrow> keeps_stages (seq_tx m k)"
  unfolding keeps_stages_def seq_tx_Inr_iff by metis

lemma keeps_stages_simple:
  "keeps_stages (return_tx x)" "keeps_stages (guard_tx p e)" "keeps_stages (write_tx (audit a))"
  "keeps_stages (publish_stage b)" "keeps_stages (register y)"
  by (auto simp: keeps_stages_def return_tx_def guard_tx_def write_tx_def audit_def publish_stage_def
      artifact_insert_def register_def split: if_splits)

lemma stage_key_triggers: "map stage_key (status_triggers old new sts) = map stage_key sts"
  by (simp add: status_triggers_def terminal_trigger_def recover_trigger_def map_upd_where stage_key_def)

lemma keeps_stages_owned: "keeps_stages (owned_tx l src dst ts us)"
proof -
  have "map stage_key (fold (\<lambda>r. status_triggers r (f r)) rs sts) = map stage_key sts" for f rs sts
    by (induction rs arbitrary: sts) (simp_all add: stage_key_triggers)
  then show ?thesis
    by (auto simp: keeps_stages_def owned_tx_def seq_tx_Inr_iff guard_tx_def leased_def
        transition_owned_def transition_update_def update_jobs_status_def split: if_splits)
qed

lemma keeps_stages_insert: "keeps_stages (insert_artifacts publish_stage job img g ts pages as)"
  by (induction as) (auto intro!: keeps_stages_seq keeps_stages_simple split: option.splits artifact_type.splits)

lemma update_stages_one:
  assumes "update_stages p f d = Inr (n, d')" and "n = Suc 0"
  shows "\<exists>s\<in>set (stages d). p s \<and> f s \<in> set (stages d')"
proof -
  from changes_some [OF assms] obtain s where "s \<in> set (stages d)" "p s" by blast
  with assms(1) show ?thesis by (auto simp: update_stages_def set_upd_where split: if_splits)
qed

lemma public_after_stage:
  assumes "seq_tx first (\<lambda>ok. if \<not> ok then return_tx False else rest) d = Inr (True, d')"
    and "keeps_stages rest"
    and "\<And>e. first d = Inr (True, e) \<Longrightarrow> lease_held l d \<and> (\<exists>s\<in>set (stages e). st_job_id s = le_job l \<and>
      (st_pdf_generation s = Some g \<or> st_svg_generation s = Some g))"
  shows "lease_held l d \<and> public_in (le_job l, g) d'"
proof -
  from assms(1) obtain ok e where e: "first d = Inr (ok, e)"
    and d': "(if \<not> ok then return_tx False else rest) e = Inr (True, d')" by (auto simp: seq_tx_Inr_iff)
  have ok: "ok" using d' by (auto simp: return_tx_def split: if_splits)
  with d' assms(2) have "map stage_key (stages d') = map stage_key (stages e)" by (simp add: keeps_stages_def)
  then have same: "stage_key ` set (stages d') = stage_key ` set (stages e)" by (metis list.set_map)
  have "first d = Inr (True, e)" using e ok by simp
  from assms(3) [OF this] obtain s where s: "lease_held l d" "s \<in> set (stages e)" "st_job_id s = le_job l"
    "st_pdf_generation s = Some g \<or> st_svg_generation s = Some g" by blast
  from same s(2) obtain t where "t \<in> set (stages d')" "stage_key t = stage_key s" by (metis imageE image_eqI)
  with s show ?thesis by (auto simp: public_in_def stage_key_def)
qed

lemma publish_pdf_public:
  assumes "publish_pdf_tx l img as g pdf sync pages ts d = Inr (True, d')"
  shows "lease_held l d \<and> public_in (le_job l, g) d'"
  using assms unfolding publish_pdf_tx_def
proof (rule public_after_stage)
  fix e
  assume "leased l complete_pdf \<lparr>pr_generation = g, pr_sha256 = va_sha256 pdf,
       pr_synctex_sha256 = dg_sha256 sync, pr_synctex_bytes = dg_bytes sync, pr_completed_at = ts\<rparr> d = Inr (True, e)"
  then show "lease_held l d \<and> (\<exists>s\<in>set (stages e). st_job_id s = le_job l \<and>
      (st_pdf_generation s = Some g \<or> st_svg_generation s = Some g))"
    by (auto simp: leased_def complete_pdf_def split: sum.splits prod.splits dest!: update_stages_one
        intro: stage_owned_held) (rule rev_bexI, assumption, simp)
qed (intro keeps_stages_seq keeps_stages_insert keeps_stages_simple keeps_stages_owned)

lemma finish_svg_public:
  assumes "finish_svg_tx l img as g bytes code r s ts d = Inr (True, d')"
  shows "lease_held l d \<and> public_in (le_job l, g) d'"
  using assms unfolding finish_svg_tx_def
proof (rule public_after_stage)
  fix e
  assume "leased l complete_svg \<lparr>sr_generation = g, sr_outcome = svg_outcome_of (rr_status r),
       sr_error_code = rr_error_code r, sr_error_message = rr_error_message r, sr_completed_at = ts\<rparr> d =
       Inr (True, e)"
  then show "lease_held l d \<and> (\<exists>s\<in>set (stages e). st_job_id s = le_job l \<and>
      (st_pdf_generation s = Some g \<or> st_svg_generation s = Some g))"
    by (auto simp: leased_def complete_svg_def split: sum.splits prod.splits dest!: update_stages_one
        intro: stage_owned_held) (rule rev_bexI, assumption, simp)
qed (intro keeps_stages_seq keeps_stages_insert keeps_stages_simple keeps_stages_owned)

lemma owned_tx_status:
  assumes "owned_tx l src dst ts us d = Inr (x, d')"
  shows "\<exists>j\<in>set (jobs d'). j_id j = le_job l \<and> j_status j = dst"
proof -
  from assms obtain n where "leased l (\<lambda>i w g. transition_owned i w g src dst ts us) d = Inr (n, d')" "n = 1"
    by (auto simp: owned_tx_def seq_tx_Inr_iff guard_tx_def split: if_splits)
  then have u: "transition_update src dst ts us (le_job l) (le_worker l) (le_generation l) d = (1, d')"
    by (auto simp: leased_def transition_owned_def split: if_splits)
  then have "0 < changes (\<lambda>j. holds_lease (le_job l) (le_worker l) (le_generation l) j \<and> j_status j \<in> set src) (jobs d)"
    by (simp add: transition_update_def update_jobs_status_def Let_def)
  then obtain j where j: "j \<in> set (jobs d)" "holds_lease (le_job l) (le_worker l) (le_generation l) j" "j_status j \<in> set src"
    by (auto simp: changes_pos_iff)
  let ?k = "set_columns us (j\<lparr>j_status := dst, j_updated_at := ts\<rparr>)"
  have "jobs d' = upd_where (\<lambda>j. holds_lease (le_job l) (le_worker l) (le_generation l) j \<and> j_status j \<in> set src)
      (\<lambda>j. set_columns us (j\<lparr>j_status := dst, j_updated_at := ts\<rparr>)) (jobs d)"
    using arg_cong [OF u, of "jobs \<circ> snd"] by (simp add: transition_update_def)
  with j have "?k \<in> set (jobs d')" by (simp add: set_upd_where)
  moreover have "j_id ?k = j_id j" "j_status ?k = dst" by simp_all
  ultimately have "\<exists>k\<in>set (jobs d'). j_id k = j_id j \<and> j_status k = dst" by blast
  with j(2) show ?thesis by (simp add: holds_lease_def)
qed

lemma owns_held: "owns l d \<Longrightarrow> lease_held l d"
  using row_by_SomeD
  by (fastforce simp: owns_def runtime_state_def lease_held_def leased_def holds_lease_def split: option.splits)

lemma fail_pdf_public:
  assumes "fail_pdf_tx l img as g code r ts now d = Inr (True, d')" and "rr_status r \<noteq> RSucceeded"
  shows "lease_held l d \<and> public_in (le_job l, g) d'"
proof -
  from assms(1) have o1: "owns l d" by (auto simp: fail_pdf_tx_def split: if_splits)
  from assms(1) o1 obtain e e' x where
    "owned_tx l [Running] (job_status_of (rr_status r)) ts
       (ending_columns (rr_status r) ts (total_size (map snd as)) code r) e = Inr (x, e')"
    and d': "d' = audit (worker_audit l (rr_audit_action r) (render_status_text (rr_status r)) [] ts) e'"
    by (auto simp: fail_pdf_tx_def seq_tx_Inr_iff write_tx_def return_tx_def split: if_splits)
  from owned_tx_status [OF this(1)] have "\<exists>j\<in>set (jobs d'). j_id j = le_job l \<and> j_status j \<in> {Succeeded, Failed, Timeout, Rejected, Canceled}"
    using assms(2) by (cases "rr_status r") (auto simp: d' audit_def)
  with owns_held [OF o1] show ?thesis by (simp add: public_in_def)
qed

section \<open>The processor\<close>

lemma proper_release [proper_intros]: "proper l release_act"
proof (rule properI)
  fix env r x r' assume env: "others_step env" and run: "release_act env r = (x, r')"
  show "runs_to l r r'"
  proof (cases "rn_pin r")
    case None
    with run show ?thesis by (auto simp: release_act_def)
  next
    case (Some p)
    have "proper l (commit_act (\<lambda>d. ((), tree_release p d)))"
      by (rule proper_commit) (auto simp: fenced_commit_def tree_release_def intro: frame_step)
    with run env Some show ?thesis by (auto simp: release_act_def dest: properD)
  qed
qed

lemma proper_lease_acts [proper_intros]:
  "proper l (renew_act l)" "proper l (mark_canceled_act l)" "proper l (canceled_act l)"
proof -
  show "proper l (renew_act l)" unfolding renew_act_def
    by (intro proper_andthen proper_intros proper_commit fenced_heartbeat)
  show m: "proper l (mark_canceled_act l)" unfolding mark_canceled_act_def
    by (intro proper_andthen proper_intros proper_commit fenced_mark_canceled)
  show "proper l (canceled_act l)" unfolding canceled_act_def
    by (intro proper_andthen proper_intros) (auto intro!: proper_andthen proper_intros m)
qed

text \<open>A directory leaves \<open>published\<close> only after the transaction that makes it public.\<close>

lemma proper_publish:
  assumes "\<And>ts now ids d x d'. tx ts now ids d = Inr (x, d') \<Longrightarrow> fenced_commit l d d'"
    and "\<And>ts now ids d d'. tx ts now ids d = Inr (True, d') \<Longrightarrow> lease_held l d \<and> public_in g d'"
  shows "proper l (publish_act renamed g tx n)"
proof -
  have "proper l (andthen (tx_act (tx ts now ids)) (\<lambda>committed.
      if committed then andthen (settle_act g) (\<lambda>_. value_act True) else value_act False))" for ts now ids
  proof (rule properI)
    fix env r x r'
    assume run: "andthen (tx_act (tx ts now ids)) (\<lambda>committed.
      if committed then andthen (settle_act g) (\<lambda>_. value_act True) else value_act False) env r = (x, r')"
    show "runs_to l r r'"
    proof (cases "tx ts now ids (rn_db r)")
      case (Inl e)
      with run show ?thesis by (auto simp: andthen_def tx_act_def)
    next
      case (Inr p)
      then obtain ok d where d: "tx ts now ids (rn_db r) = Inr (ok, d)" by (cases p) auto
      note to_d = runs_to_commit [OF assms(1) [OF d]]
      show ?thesis
      proof (cases ok)
        case False
        with run d have "r' = committed d r"
          by (auto simp: andthen_def tx_act_def committed_def value_act_def)
        with to_d show ?thesis by simp
      next
        case True
        with run d have r': "r' = (committed d r)\<lparr>rn_published := filter (\<lambda>h. h \<noteq> g) (rn_published r)\<rparr>"
          by (auto simp: andthen_def tx_act_def committed_def value_act_def settle_act_def)
        have "made_public l g r'"
          using assms(2) [of ts now ids "rn_db r" d] d True by (auto simp: made_public_def r' committed_def)
        moreover have "made_public l h r'" if "made_public l h (committed d r)" for h
          using that by (simp add: made_public_def r')
        ultimately have "tidy l dirs r'" if "tidy l dirs (committed d r)" for dirs
          using that unfolding tidy_def by (auto simp: r' committed_def)
        then have "runs_to l (committed d r) r'" by (simp add: runs_to_def r')
        with to_d runs_to_trans show ?thesis by blast
      qed
    qed
  qed
  note tx = this
  show ?thesis unfolding publish_act_def by (intro proper_andthen [of l "rename_act renamed g"]
      proper_andthen [of l now_act] proper_andthen [of l "ids_act n"] proper_intros tx)
qed

lemma proper_stopped [proper_intros]: "proper l (stopped_or_fenced l)" "proper l (start_stage l stage)"
  "proper l (stop_if_canceled l)" "proper l (renewed_and_owned l)"
proof -
  show s: "proper l (stopped_or_fenced l)" unfolding stopped_or_fenced_def
    by (intro proper_andthen proper_intros) (auto intro!: proper_andthen proper_intros)
  show "proper l (start_stage l stage)" unfolding start_stage_def
    by (intro proper_andthen proper_tx fenced_stage_start) (auto intro!: proper_andthen proper_intros s)
  show "proper l (stop_if_canceled l)" unfolding stop_if_canceled_def
    by (intro proper_andthen proper_intros) (auto intro!: proper_andthen proper_intros)
  show "proper l (renewed_and_owned l)" unfolding renewed_and_owned_def
    by (intro proper_andthen proper_intros)
qed

lemma proper_generation [proper_intros]: "proper l (generation_act n svg)"
  by (auto simp: generation_act_def intro!: proper_intros split: sum.splits)

lemma proper_begin: "proper l (begin_stages c io l)"
  unfolding begin_stages_def
  by (intro proper_andthen proper_intros proper_commit fenced_initialize)

lemma proper_owned [proper_intros]: "worker_transition src dst us \<Longrightarrow> proper l (owned_act l src dst ts us)"
  unfolding owned_act_def by (rule proper_tx) (rule fenced_transition)

lemma start_transition: "worker_transition [Validating] Running [SetStartedAt ts]"
  by (simp add: worker_transition_def keeps_owner_def)

lemma proper_run_job: "proper l (run_job_act l)"
  unfolding run_job_act_def by (intro proper_andthen proper_intros start_transition)

lemma proper_pdf_stage: "proper l (pdf_stage c io l)"
proof -
  have "proper l (fail_pdf_act c io l code r)" if "rr_status r \<noteq> RSucceeded" for code r
    unfolding fail_pdf_act_def
    by (intro proper_andthen proper_intros proper_publish fenced_fail_pdf fail_pdf_public [OF _ that])
  moreover have "proper l (find_pdf as)" for as
    unfolding find_pdf_def by (intro proper_andthen proper_intros) (auto intro!: proper_intros split: option.splits)
  then have "proper l (publish_pdf_act c io l)"
    unfolding publish_pdf_act_def Let_def
    by (intro proper_andthen proper_intros proper_publish fenced_publish_pdf publish_pdf_public)
      (auto intro!: proper_andthen proper_intros)
  ultimately show ?thesis
    unfolding pdf_stage_def Let_def
    by (intro proper_andthen proper_intros) (auto split: if_splits)
qed

lemma proper_svg_stage: "proper l (svg_stage c io l s)"
proof -
  have v: "proper l (verify_pdf io s second)" for second
    unfolding verify_pdf_def by (intro proper_andthen proper_intros) (auto intro!: proper_intros split: prod.splits)
  have "proper l (run_svg io)"
    unfolding run_svg_def
    by (intro proper_catch proper_andthen proper_intros) (auto intro!: proper_andthen proper_intros)
  moreover have "proper l (publish_svg_act c io l s r code)" for r code
    unfolding publish_svg_act_def Let_def
    by (intro proper_andthen proper_intros proper_publish fenced_finish_svg finish_svg_public v)
      (auto intro!: proper_intros)
  ultimately show ?thesis
    unfolding svg_stage_def by (intro proper_andthen proper_intros v) (auto intro!: proper_andthen proper_intros)
qed

lemma proper_process: "proper (job_lease c j) (process_staged_job c io j)"
proof -
  have "proper l (checkpoint_act c j)" for l
    unfolding checkpoint_act_def
    by (intro proper_andthen proper_intros) (auto intro!: proper_intros split: sum.splits)
  then have "proper l (run_stages c io j l)" for l
    unfolding run_stages_def
    by (intro proper_andthen proper_intros proper_run_job proper_svg_stage)
      (auto intro!: proper_intros proper_pdf_stage)
  moreover have "proper l (finish_act io l)" for l
    unfolding finish_act_def by (intro proper_andthen proper_intros)
  ultimately show ?thesis
    unfolding process_staged_job_def Let_def
    by (intro proper_finally proper_andthen proper_begin)
qed

end
