(* ===== verification/Plain_Jobs.thy ===== *)
theory Plain_Jobs
  imports Staged_Jobs
begin

text \<open>
  \<open>processJob\<close> (apps/renderer-worker/src/job-processor.ts) and \<open>recordFailure\<close> (failure.ts): the checks
  before a job is rendered, the render of a job that asks for a PDF only, in one container and one
  transaction, and what is recorded of a job whose processing failed.
\<close>

section \<open>The lease timer\<close>

text \<open>
  A plain job watches its lease: when the timer finds it gone, \<open>lease.lost\<close> stays set. Before a wait is
  over the timer went off \<open>en_beats\<close> times, and others committed between.
\<close>

definition lose_unless :: "bool \<Rightarrow> unit act" where
  "lose_unless ok env r = (Value (), if ok then r else r\<lparr>rn_lost := True\<rparr>)"

definition renew_or_lose :: "lease \<Rightarrow> unit act" where
  "renew_or_lose l = andthen (renew_act l) lose_unless"

fun beats :: "lease \<Rightarrow> nat \<Rightarrow> unit act" where
  "beats l 0 = value_act ()"
| "beats l (Suc n) = andthen (wait_act (Inr ())) (\<lambda>_. andthen (renew_or_lose l) (\<lambda>_. beats l n))"

definition beats_act :: "lease \<Rightarrow> unit act" where
  "beats_act l env r = beats l (en_beats env (rn_waits r)) env r"

definition timed_wait :: "lease \<Rightarrow> 'a outcome \<Rightarrow> 'a act" where
  "timed_wait l x = andthen (beats_act l) (\<lambda>_. wait_act x)"

definition lost_act :: "bool act" where
  "lost_act env r = (Value (rn_lost r), r)"

section \<open>A job for a PDF\<close>

text \<open>
  \<open>po_exit\<close>: the exit of the container, or the error of starting it; \<open>po_stopped\<close>: whether a stop that
  an unclear exit calls for could be verified; \<open>po_metadata\<close>: \<open>inspectOutputTree\<close> and
  \<open>generateMetadata\<close>; \<open>po_publish\<close>: the copies and the directory \<open>outputs\<close>.
\<close>

record plain_io =
  po_prepare :: "reader_row option outcome"
  po_spawn :: "unit outcome"
  po_exit :: "int outcome"
  po_timed_out :: bool
  po_stderr :: string
  po_monitor_failure :: "failure option"
  po_stopped :: bool
  po_metadata :: "unit outcome"
  po_artifacts :: "bool \<Rightarrow> validated list outcome"
  po_page_count :: "nat option outcome"
  po_publish :: "unit outcome"
  po_rename :: "unit outcome"
  po_cleanup :: "unit outcome"

definition subject_active :: "string \<Rightarrow> timestamp \<Rightarrow> db \<Rightarrow> bool" where
  "subject_active i now d \<longleftrightarrow> (case subject_state d i of
     None \<Rightarrow> False
   | Some s \<Rightarrow> ss_user_status s = Active \<and> ss_sa_status s = Active \<and> ss_revoked_at s = None \<and>
       (case ss_expires_at s of None \<Rightarrow> True | Some e \<Rightarrow> now < e))"

text \<open>The transaction that rejects the job of an inactive owner, account or key.\<close>

definition reject_tx :: "lease \<Rightarrow> timestamp \<Rightarrow> unit tx" where
  "reject_tx l ts =
     seq_tx (leased l (\<lambda>i w g. transition_owned i w g [Validating] Rejected ts
       [SetRenderStatus (Some Rejected), SetCompletedAt (Some ts), SetErrorCode (Some ''ACCOUNT_INACTIVE''),
        SetErrorMessage (Some ''Job owner, service account, or API key is inactive''),
        SetLeaseOwner None, SetLeaseExpiresAt None])) (\<lambda>n.
     if n \<noteq> 1 then return_tx ()
     else write_tx (audit (worker_audit l ''render.failed'' ''rejected''
       [(''code'', JStr ''ACCOUNT_INACTIVE'')] ts)))"

definition render_outputs :: "json_text \<Rightarrow> render_output list outcome" where
  "render_outputs text1 = (case text1 of
       Some (JArr vs) \<Rightarrow>
         (case those (map output_of_json vs) of
            Some os \<Rightarrow> if os \<noteq> [] \<and> length os \<le> 2 \<and> Pdf \<in> set os \<and> distinct os then Inr os
                       else Inl (plain_failure ''Stored render outputs are invalid'')
          | None \<Rightarrow> Inl (plain_failure ''Stored render outputs are invalid''))
     | _ \<Rightarrow> Inl (plain_failure ''Stored render outputs are invalid''))"

definition outcome_act :: "'a outcome \<Rightarrow> 'a act" where
  "outcome_act x = (case x of Inl e \<Rightarrow> throw_act e | Inr y \<Rightarrow> value_act y)"

text \<open>
  The container. When it could not be started it is stopped after the timer is gone; an exit that does
  not prove that the container ended is followed by a stop, and without its proof the job is deferred.
\<close>

definition container_act :: "plain_io \<Rightarrow> lease \<Rightarrow> int act" where
  "container_act io l =
     andthen (outcome_act (po_spawn io)) (\<lambda>_. andthen (timed_wait l (Inr ())) (\<lambda>_.
     case po_exit io of
       Inl e \<Rightarrow> wait_act (Inl (if po_stopped io then e else Deferred))
     | Inr code \<Rightarrow>
         if po_timed_out io \<or> code \<noteq> 0 then timed_wait l (if po_stopped io then Inr code else Inl Deferred)
         else value_act code))"

text \<open>The transaction that ends the job with its outcome, or acknowledges that it was canceled.\<close>

definition finish_plain_tx :: "lease \<Rightarrow> string \<Rightarrow> bool \<Rightarrow> (string \<times> validated) list \<Rightarrow> int \<Rightarrow>
  render_result \<Rightarrow> nat option \<Rightarrow> timestamp \<Rightarrow> timestamp \<Rightarrow> bool tx" where
  "finish_plain_tx l img lost as code r pages ts now d =
     (case runtime_state d (le_job l) of
        None \<Rightarrow> Inl PlainError
      | Some s \<Rightarrow>
          if lost \<or> \<not> owns l d then Inr (False, d)
          else if rs_cancel_requested_at s \<noteq> None \<or> rs_status s = Canceled
          then (case leased l (mark_canceled now (Some (total_size (map snd as)))) d of (n, d') \<Rightarrow> Inr (n = 1, d'))
          else seq_tx (insert_artifacts artifact_insert (le_job l) img (le_generation l) ts pages as) (\<lambda>_.
            seq_tx (owned_tx l [Running] (job_status_of (rr_status r)) ts
              (ending_columns (rr_status r) ts (total_size (map snd as)) code r @ [SetHeartbeatAt (Some ts)])) (\<lambda>_.
            seq_tx (write_tx (audit (worker_audit l (rr_audit_action r)
              (if rr_status r = RSucceeded then ''success'' else ''failed'')
              [(''outputSize'', JNum (int (total_size (map snd as)))),
               (''artifactCount'', JNum (int (length as))), (''exitCode'', JNum code)] ts)))
            (\<lambda>_. return_tx True))) d)"

text \<open>After the container: a job that is gone is an error, a lost lease ends the run.\<close>

definition after_container :: "plain_io \<Rightarrow> lease \<Rightarrow> unit act" where
  "after_container io l =
     andthen (read_act (\<lambda>d. runtime_state d (le_job l))) (\<lambda>s. case s of
       None \<Rightarrow> throw_act (plain_failure ''Renderer job disappeared during processing'')
     | Some s \<Rightarrow>
         andthen lost_act (\<lambda>lost. andthen (read_act (owns l)) (\<lambda>o1.
         andthen (return_unless (\<not> lost \<and> o1)) (\<lambda>_.
         case po_monitor_failure io of
           Some e \<Rightarrow> throw_act e
         | None \<Rightarrow>
             if rs_cancel_requested_at s \<noteq> None \<or> rs_status s = Canceled
             then andthen (mark_canceled_act l) (\<lambda>_. return_act) else value_act ()))))"

definition publish_plain :: "worker_settings \<Rightarrow> plain_io \<Rightarrow> lease \<Rightarrow> int \<Rightarrow> unit act" where
  "publish_plain c io l code =
     (let r = classify_render_result code (po_timed_out io) (po_stderr io) in
     andthen (timed_wait l (po_metadata io)) (\<lambda>_.
     andthen (timed_wait l (po_artifacts io (rr_status r = RSucceeded))) (\<lambda>as.
     andthen (if rr_status r = RSucceeded then timed_wait l (po_page_count io) else value_act None) (\<lambda>pages.
     andthen (timed_wait l (po_publish io)) (\<lambda>_.
     andthen (renew_or_lose l) (\<lambda>_. andthen lost_act (\<lambda>gone. andthen (return_unless (\<not> gone)) (\<lambda>_.
     andthen (beats_act l) (\<lambda>_. andthen lost_act (\<lambda>lost.
     andthen (publish_act (po_rename io) (le_job l, le_generation l)
       (\<lambda>ts now is. finish_plain_tx l (wc_image c) lost (zip is as) code r pages ts now) (length as)) (\<lambda>_.
     value_act ())))))))))))"

definition plain_job :: "worker_settings \<Rightarrow> plain_io \<Rightarrow> lease \<Rightarrow> unit act" where
  "plain_job c io l =
     andthen (timed_wait l (po_prepare io)) (\<lambda>p. andthen (pin_act p) (\<lambda>_.
     andthen now_act (\<lambda>started. andthen lost_act (\<lambda>lost. andthen (return_unless (\<not> lost)) (\<lambda>_.
     andthen (owned_act l [Validating] Running started [SetStartedAt (Some started)]) (\<lambda>n.
     andthen (return_unless (n = 1)) (\<lambda>_.
     andthen (container_act io l) (\<lambda>code.
     andthen (after_container io l) (\<lambda>_. publish_plain c io l code)))))))))"

text \<open>What follows, unless the clean-up is deferred.\<close>

definition finish_plain :: "plain_io \<Rightarrow> lease \<Rightarrow> unit act" where
  "finish_plain io l =
     andthen (remove_published (po_cleanup io)) (\<lambda>_. andthen release_act (\<lambda>_.
     andthen (read_act (\<lambda>d. case runtime_state d (le_job l) of None \<Rightarrow> False
       | Some s \<Rightarrow> rs_cancel_requested_at s \<noteq> None)) (\<lambda>c.
     if c then andthen (mark_canceled_act l) (\<lambda>_. value_act ()) else value_act ())))"

definition process_job :: "worker_settings \<Rightarrow> stage_io \<Rightarrow> plain_io \<Rightarrow> worker_job \<Rightarrow> unit act" where
  "process_job c sio pio j =
     (let l = job_lease c j in
      andthen now_act (\<lambda>now. andthen (read_act (subject_active (w_id j) now)) (\<lambda>ok.
      if \<not> ok then andthen now_act (\<lambda>ts. andthen (tx_act (reject_tx l ts)) (\<lambda>_. return_act))
      else andthen (outcome_act (render_outputs (w_outputs j))) (\<lambda>outs.
        if Svg \<in> set outs then process_staged_job c sio j
        else finally_act (plain_job c pio l) (finish_plain pio l)))))"

section \<open>Recording a failure\<close>

record failure_io =
  fi_clear :: "unit outcome"
  fi_artifacts :: "validated list outcome"
  fi_rename :: "unit outcome"
  fi_cleanup :: "unit outcome"

text \<open>Terminal controls are stripped of what an error says.\<close>

definition control_character :: "char \<Rightarrow> bool" where
  "control_character c \<longleftrightarrow> (let n = of_char c :: nat in
     n \<le> 8 \<or> n = 11 \<or> n = 12 \<or> (14 \<le> n \<and> n \<le> 31) \<or> n = 127 \<or> n = 155)"

definition safe_message :: "string \<Rightarrow> string" where
  "safe_message m = filter (\<lambda>c. \<not> control_character c) m"

definition has_pdf_result :: "string \<Rightarrow> db \<Rightarrow> bool" where
  "has_pdf_result i d \<longleftrightarrow> pdf_succeeded i d \<or> has_published_pdf d i"

abbreviation failure_text :: "bool \<Rightarrow> string" where
  "failure_text rejected \<equiv> (if rejected then ''rejected'' else ''failed'')"

text \<open>A failure after the PDF was published keeps the PDF and its size.\<close>

definition record_late_failure :: "lease \<Rightarrow> string \<Rightarrow> string \<Rightarrow> bool \<Rightarrow> timestamp \<Rightarrow> db \<Rightarrow> unit \<times> db" where
  "record_late_failure l code message rejected now d =
     (case job_of d (le_job l) of
        None \<Rightarrow> ((), d)
      | Some j \<Rightarrow>
          if j_cancel_requested_at j \<noteq> None then ((), snd (leased l (mark_canceled now None) d))
          else (case leased l (finish_failure rejected code (take 16384 message) now
              (coalesce (j_output_size j) 0)) d of (n, d') \<Rightarrow>
            ((), if n \<noteq> 1 then d'
              else audit (worker_audit l ''render.svg.failed'' (failure_text rejected)
                [(''code'', JStr code)] now) d')))"

definition record_failure_tx :: "lease \<Rightarrow> string \<Rightarrow> string \<Rightarrow> string \<Rightarrow> bool \<Rightarrow> (string \<times> validated) list \<Rightarrow>
  timestamp \<Rightarrow> bool tx" where
  "record_failure_tx l img code message rejected as ts d =
     (case leased l (finish_failure rejected code message ts (total_size (map snd as))) d of (n, d') \<Rightarrow>
       if n \<noteq> 1 then Inr (False, d')
       else seq_tx (insert_artifacts artifact_insert (le_job l) img (le_generation l) ts None as) (\<lambda>_.
         seq_tx (write_tx (audit (worker_audit l ''render.failed'' (failure_text rejected)
           [(''message'', JStr message)] ts))) (\<lambda>_. return_tx True)) d')"

text \<open>\<open>try\<close> with a \<open>finally\<close> that is always run.\<close>

definition ensure_act :: "'a act \<Rightarrow> unit act \<Rightarrow> 'a act" where
  "ensure_act m f env r = (case m env r of (x, r') \<Rightarrow>
     (case f env r' of (Thrown e, r'') \<Rightarrow> (Thrown e, r'') | (_, r'') \<Rightarrow> (x, r'')))"

definition publish_failure :: "worker_settings \<Rightarrow> failure_io \<Rightarrow> lease \<Rightarrow> string \<Rightarrow> string \<Rightarrow> bool \<Rightarrow> unit act" where
  "publish_failure c io l code message rejected =
     andthen (wait_act (fi_artifacts io)) (\<lambda>as.
     andthen (renew_act l) (\<lambda>ok. andthen (return_unless ok) (\<lambda>_.
     andthen (publish_act (fi_rename io) (le_job l, le_generation l)
       (\<lambda>ts now is. record_failure_tx l (wc_image c) code message rejected (zip is as) ts) (length as))
     (\<lambda>_. value_act ()))))"

definition record_failure :: "worker_settings \<Rightarrow> failure_io \<Rightarrow> worker_job \<Rightarrow> string \<Rightarrow> string \<Rightarrow> bool \<Rightarrow>
  unit act" where
  "record_failure c io j message code rejected =
     (let l = job_lease c j; safe = safe_message message in
      andthen (read_act (has_pdf_result (w_id j))) (\<lambda>late.
      if late then andthen now_act (\<lambda>now. commit_act (record_late_failure l code safe rejected now))
      else andthen (renew_act l) (\<lambda>ok. andthen (return_unless ok) (\<lambda>_.
        andthen (wait_act (fi_clear io)) (\<lambda>_.
        ensure_act (publish_failure c io l code safe rejected) (remove_published (fi_cleanup io)))))))"

section \<open>A turn of the worker\<close>

text \<open>
  The part of \<open>runWorker\<close> (worker.ts) for a claimed job: it is processed, and a failure is recorded. A
  deferred clean-up leaves the job to the recovery.
\<close>

definition failure_code :: "string \<Rightarrow> failure \<Rightarrow> db \<Rightarrow> string" where
  "failure_code i e d = (case e of
     Failure (AppError code status) m \<Rightarrow>
       if status = 422 \<or> checkpoint d i \<noteq> None \<or> has_published_pdf d i then code else ''RENDERER_FAILED''
   | _ \<Rightarrow> ''RENDERER_FAILED'')"

fun failure_message :: "failure \<Rightarrow> string" where
  "failure_message (Failure e m) = take 1000 m"
| "failure_message Deferred = []"

fun is_rejection :: "failure \<Rightarrow> bool" where
  "is_rejection (Failure (AppError code status) m) \<longleftrightarrow> status = 422"
| "is_rejection _ \<longleftrightarrow> False"

definition work_on_job :: "worker_settings \<Rightarrow> stage_io \<Rightarrow> plain_io \<Rightarrow> failure_io \<Rightarrow> worker_job \<Rightarrow> unit act" where
  "work_on_job c sio pio fio j = catch_act (process_job c sio pio j) (\<lambda>e.
     if e = Deferred then throw_act e
     else andthen (read_act (failure_code (w_id j) e)) (\<lambda>code.
       record_failure c fio j (failure_message e) code (is_rejection e)))"

end
