(* ===== verification/Job_Runs.thy ===== *)
theory Job_Runs
  imports Staged_Runs Plain_Jobs
begin

text \<open>
  The same for plain jobs, for recorded failures, and for a whole turn of the worker: whatever others
  commit, it commits steps of the system, and under its lease.
\<close>

section \<open>Transactions\<close>

lemma update_status_some:
  assumes "update_jobs_status p f d = (n, d')" and "n \<noteq> 0"
  obtains j where "j \<in> set (jobs d)" "p j" "f j \<in> set (jobs d')"
proof -
  from assms have "0 < changes p (jobs d)" by (auto simp: update_jobs_status_def Let_def)
  then obtain j where j: "j \<in> set (jobs d)" "p j" by (auto simp: changes_pos_iff)
  have "jobs d' = upd_where p f (jobs d)"
    using arg_cong [OF assms(1), of "jobs \<circ> snd"] by simp
  with j have "f j \<in> set (jobs d')" by (simp add: set_upd_where)
  with j that show thesis by blast
qed

lemma mark_canceled_done:
  assumes "leased l (mark_canceled now b) d = (n, d')" and "n \<noteq> 0"
  shows "lease_held l d \<and> (\<exists>j\<in>set (jobs d'). j_id j = le_job l \<and> j_status j = Canceled)"
  using assms unfolding leased_def mark_canceled_def
proof (rule update_status_some)
  fix j let ?f = "\<lambda>j. j\<lparr>j_status := Canceled, j_render_status := Some Canceled, j_completed_at := Some now,
    j_updated_at := now, j_output_size := coalesce_opt b (j_output_size j), j_lease_owner := None,
    j_lease_expires_at := None\<rparr>"
  assume "j \<in> set (jobs d)" "?f j \<in> set (jobs d')"
    "holds_lease (le_job l) (le_worker l) (le_generation l) j \<and> j_status j \<in> {Validating, Running, Canceled}"
  moreover from this have "\<exists>k\<in>set (jobs d'). j_id k = le_job l \<and> j_status k = Canceled"
    by (intro bexI [of _ "?f j"]) (simp_all add: holds_lease_def)
  ultimately show ?thesis by (auto simp: lease_held_def leased_def)
qed

lemma mark_canceled_public:
  "leased l (mark_canceled now b) d = (n, d') \<Longrightarrow> n \<noteq> 0 \<Longrightarrow> lease_held l d \<and> public_in (le_job l, g) d'"
  using mark_canceled_done by (fastforce simp: public_in_def)

lemma finish_failure_public:
  assumes "leased l (finish_failure rejected code m now b) d = (n, d')" and "n \<noteq> 0"
  shows "lease_held l d \<and> (\<exists>j\<in>set (jobs d'). j_id j = le_job l \<and> j_status j \<in> {Failed, Rejected})"
  using assms unfolding leased_def finish_failure_def Let_def
proof (rule update_status_some)
  fix j let ?st = "if rejected then Rejected else Failed"
  let ?f = "\<lambda>j. j\<lparr>j_status := ?st, j_render_status := Some ?st, j_error_code := Some code,
    j_error_message := Some m, j_completed_at := Some now, j_updated_at := now,
    j_output_size := Some b, j_lease_owner := None, j_lease_expires_at := None\<rparr>"
  assume "j \<in> set (jobs d)" "?f j \<in> set (jobs d')"
    "holds_lease (le_job l) (le_worker l) (le_generation l) j \<and> j_status j \<in> {Validating, Running}"
  moreover from this have "\<exists>k\<in>set (jobs d'). j_id k = le_job l \<and> j_status k \<in> {Failed, Rejected}"
    by (intro bexI [of _ "?f j"]) (simp_all add: holds_lease_def)
  ultimately show ?thesis by (auto simp: lease_held_def leased_def)
qed

lemma fenced_finish_failure: "fenced_commit l d (snd (leased l (finish_failure rejected code m now b) d))"
  unfolding leased_def
  by (rule fencedI [OF step.finish_failure]) (metis finish_failure.no_lease not_held snd_conv)

text \<open>More steps after a fenced commit that changed something under the lease.\<close>

lemma fenced_more: "lease_held l d \<Longrightarrow> step\<^sup>*\<^sup>* d e \<Longrightarrow> step\<^sup>*\<^sup>* e d' \<Longrightarrow> fenced_commit l d d'"
  by (auto simp: fenced_commit_def)

lemma fenced_steps: "fenced_commit l d d' \<Longrightarrow> step\<^sup>*\<^sup>* d d'"
  by (simp add: fenced_commit_def)

lemma audit_step: "step\<^sup>*\<^sup>* d (audit a d)"
  using steps_txD [OF steps_audit, of a d] by (simp add: write_tx_def)

lemma reject_transition: "worker_transition [Validating] Rejected [SetRenderStatus r, SetCompletedAt t,
    SetErrorCode e, SetErrorMessage m, SetLeaseOwner None, SetLeaseExpiresAt None]"
  by (simp add: worker_transition_def releases_def)

lemma transition_some_held:
  assumes "leased l (\<lambda>i w g. transition_owned i w g src dst ts us) d = Inr (n, d')" and "n \<noteq> 0"
  shows "lease_held l d"
proof -
  from assms(1) have "transition_update src dst ts us (le_job l) (le_worker l) (le_generation l) d = (n, d')"
    by (auto simp: leased_def transition_owned_def split: if_splits)
  with assms(2) show ?thesis
    unfolding transition_update_def
    by (metis (no_types, lifting) update_status_some lease_held_def leased_def)
qed

lemma fenced_reject:
  assumes "reject_tx l ts d = Inr (u, d')"
  shows "fenced_commit l d d'"
proof -
  from assms obtain n e where t: "leased l (\<lambda>i w g. transition_owned i w g [Validating] Rejected ts
       [SetRenderStatus (Some Rejected), SetCompletedAt (Some ts), SetErrorCode (Some ''ACCOUNT_INACTIVE''),
        SetErrorMessage (Some ''Job owner, service account, or API key is inactive''),
        SetLeaseOwner None, SetLeaseExpiresAt None]) d = Inr (n, e)"
    and rest: "n \<noteq> 1 \<and> d' = e \<or> n = 1 \<and> (\<exists>a. d' = audit a e)"
    by (auto simp: reject_tx_def seq_tx_Inr_iff return_tx_def write_tx_def split: if_splits)
  note e = fenced_transition [OF t reject_transition]
  show ?thesis
  proof (cases "n = 1")
    case True
    with rest obtain a where "d' = audit a e" by blast
    with True fenced_more [OF transition_some_held [OF t] fenced_steps [OF e]] audit_step show ?thesis by simp
  next
    case False
    with rest e show ?thesis by blast
  qed
qed

text \<open>What follows the checks of \<open>finish_plain_tx\<close>.\<close>

lemma fenced_finish_plain:
  assumes "finish_plain_tx l img lost as code r pages ts now d = Inr (x, d')"
  shows "fenced_commit l d d'"
proof -
  let ?rest = "seq_tx (insert_artifacts artifact_insert (le_job l) img (le_generation l) ts pages as) (\<lambda>_.
            seq_tx (owned_tx l [Running] (job_status_of (rr_status r)) ts
              (ending_columns (rr_status r) ts (total_size (map snd as)) code r @ [SetHeartbeatAt (Some ts)])) (\<lambda>_.
            seq_tx (write_tx (audit (worker_audit l (rr_audit_action r)
              (if rr_status r = RSucceeded then ''success'' else ''failed'')
              [(''outputSize'', JNum (int (total_size (map snd as)))),
               (''artifactCount'', JNum (int (length as))), (''exitCode'', JNum code)] ts)))
            (\<lambda>_. return_tx True)))"
  from assms obtain s where s: "runtime_state d (le_job l) = Some s"
    by (auto simp: finish_plain_tx_def split: option.splits)
  from assms s consider "d' = d" | "d' = snd (leased l (mark_canceled now (Some (total_size (map snd as)))) d)"
    | "owns l d" "?rest d = Inr (x, d')"
    by (auto simp: finish_plain_tx_def split: if_splits prod.splits)
  then show ?thesis
  proof cases
    case 1
    then show ?thesis by (simp add: fenced_commit_def)
  next
    case 2
    then show ?thesis by (simp add: fenced_mark_canceled)
  next
    case 3
    have "steps_tx ?rest"
      by (intro steps_seq steps_insert_artifacts steps_artifact steps_owned_tx steps_audit final_transition) simp_all
    with 3 owns_held [OF 3(1)] show ?thesis by (auto simp: fenced_commit_def dest: steps_txD)
  qed
qed

lemma finish_plain_public:
  assumes "finish_plain_tx l img lost as code r pages ts now d = Inr (True, d')"
  shows "lease_held l d \<and> public_in (le_job l, le_generation l) d'"
proof -
  from assms obtain s where s: "runtime_state d (le_job l) = Some s"
    by (auto simp: finish_plain_tx_def split: option.splits)
  show ?thesis
  proof (cases "rs_cancel_requested_at s \<noteq> None \<or> rs_status s = Canceled")
    case True
    with assms s obtain n where "leased l (mark_canceled now (Some (total_size (map snd as)))) d = (n, d')" "n \<noteq> 0"
      by (auto simp: finish_plain_tx_def split: if_splits prod.splits)
    then show ?thesis by (rule mark_canceled_public)
  next
    case False
    with assms s obtain e x e' a where o1: "owns l d"
      and "owned_tx l [Running] (job_status_of (rr_status r)) ts
         (ending_columns (rr_status r) ts (total_size (map snd as)) code r @ [SetHeartbeatAt (Some ts)]) e = Inr (x, e')"
      and d': "d' = audit a e'"
      by (auto simp: finish_plain_tx_def seq_tx_Inr_iff write_tx_def return_tx_def split: if_splits)
    from owned_tx_status [OF this(2)] have "\<exists>j\<in>set (jobs d'). j_id j = le_job l \<and>
        j_status j \<in> {Succeeded, Failed, Timeout, Rejected, Canceled}"
      by (cases "rr_status r") (auto simp: d' audit_def)
    with owns_held [OF o1] show ?thesis by (simp add: public_in_def)
  qed
qed

lemma fenced_late_failure: "fenced_commit l d (snd (record_late_failure l code m rejected now d))"
proof (cases "job_of d (le_job l)")
  case None
  then show ?thesis by (simp add: record_late_failure_def fenced_commit_def)
next
  case (Some j)
  obtain n e where e: "leased l (finish_failure rejected code (take 16384 m) now (coalesce (j_output_size j) 0)) d =
      (n, e)" by fastforce
  have f: "fenced_commit l d e"
    using fenced_finish_failure [of l d rejected code "take 16384 m" now "coalesce (j_output_size j) 0"] e by simp
  show ?thesis
  proof (cases "n = 1")
    case True
    with e have "lease_held l d" using finish_failure_public by blast
    with True Some e fenced_more [OF this fenced_steps [OF f] audit_step] show ?thesis
      by (simp add: record_late_failure_def fenced_mark_canceled)
  qed (use Some e f in \<open>simp add: record_late_failure_def fenced_mark_canceled\<close>)
qed

lemma record_failure_cases:
  assumes "record_failure_tx l img code m rejected as ts d = Inr (x, d')"
  obtains n e where "leased l (finish_failure rejected code m ts (total_size (map snd as))) d = (n, e)"
    "x = (n = 1)" "n \<noteq> 1 \<Longrightarrow> d' = e" "n = 1 \<Longrightarrow> step\<^sup>*\<^sup>* e d' \<and> jobs d' = jobs e"
proof -
  let ?rest = "seq_tx (insert_artifacts artifact_insert (le_job l) img (le_generation l) ts None as) (\<lambda>_.
         seq_tx (write_tx (audit (worker_audit l ''render.failed'' (failure_text rejected)
           [(''message'', JStr m)] ts))) (\<lambda>_. return_tx True))"
  obtain n e where e: "leased l (finish_failure rejected code m ts (total_size (map snd as))) d = (n, e)"
    by fastforce
  have st: "steps_tx ?rest" by (intro steps_seq steps_insert_artifacts steps_artifact steps_audit) simp
  have inserted: "jobs f = jobs e'" if "insert_artifacts artifact_insert job img g t None bs e' = Inr (u, f)"
    for job g t bs u e' f using that
    by (induction bs arbitrary: e')
      (auto simp: return_tx_def seq_tx_Inr_iff artifact_insert_def split: if_splits artifact_type.splits)
  then have "jobs f = jobs e" "y" if "?rest e = Inr (y, f)" for y f
    using that by (auto simp: seq_tx_Inr_iff write_tx_def return_tx_def audit_def)
  with assms e st show thesis
    by (intro that [OF e]) (auto simp: record_failure_tx_def dest: steps_txD split: if_splits)
qed

lemma fenced_record_failure:
  assumes "record_failure_tx l img code m rejected as ts d = Inr (x, d')"
  shows "fenced_commit l d d'"
  using assms
proof (rule record_failure_cases)
  fix n e
  assume e: "leased l (finish_failure rejected code m ts (total_size (map snd as))) d = (n, e)"
    and rest: "n \<noteq> 1 \<Longrightarrow> d' = e" "n = 1 \<Longrightarrow> step\<^sup>*\<^sup>* e d' \<and> jobs d' = jobs e"
  have f: "fenced_commit l d e"
    using fenced_finish_failure [of l d rejected code m ts "total_size (map snd as)"] e by simp
  show ?thesis
  proof (cases "n = 1")
    case True
    then have "lease_held l d" using finish_failure_public [OF e] by simp
    with True rest fenced_more [OF this fenced_steps [OF f]] show ?thesis by blast
  qed (use f rest in simp)
qed

lemma record_failure_public:
  assumes "record_failure_tx l img code m rejected as ts d = Inr (True, d')"
  shows "lease_held l d \<and> public_in (le_job l, g) d'"
  using assms
proof (rule record_failure_cases)
  fix n e
  assume e: "leased l (finish_failure rejected code m ts (total_size (map snd as))) d = (n, e)" "True = (n = 1)"
    and rest: "n = 1 \<Longrightarrow> step\<^sup>*\<^sup>* e d' \<and> jobs d' = jobs e"
  with finish_failure_public [OF e(1)] show ?thesis by (auto simp: public_in_def)
qed

section \<open>The processors\<close>

lemma proper_ensure:
  assumes "proper l m" and "proper l f"
  shows "proper l (ensure_act m f)"
proof (rule properI)
  fix env r x r'
  assume env: "others_step env" and run: "ensure_act m f env r = (x, r')"
  obtain y s where y: "m env r = (y, s)" by fastforce
  obtain z t where z: "f env s = (z, t)" by fastforce
  have "r' = t" using run y z by (auto simp: ensure_act_def split: ending.splits)
  with runs_to_trans [OF properD [OF assms(1) env y] properD [OF assms(2) env z]] show "runs_to l r r'" by simp
qed

lemma proper_outcome [proper_intros]: "proper l (outcome_act x)" "proper l lost_act" "proper l (lose_unless b)"
  by (auto simp: outcome_act_def intro!: proper_intros split: sum.splits)
    (rule properI, auto simp: lost_act_def lose_unless_def intro: runs_to_same split: if_splits)+

lemma proper_timed [proper_intros]:
  "proper l (renew_or_lose l)" "proper l (beats_act l)" "proper l (timed_wait l x)"
proof -
  show lose: "proper l (renew_or_lose l)"
    unfolding renew_or_lose_def by (intro proper_andthen proper_intros)
  have "proper l (beats l n)" for n
    by (induction n) (auto intro!: proper_andthen proper_intros lose)
  then show "proper l (beats_act l)" by (auto simp: proper_def beats_act_def)
  then show "proper l (timed_wait l x)"
    unfolding timed_wait_def by (intro proper_andthen proper_intros)
qed

lemma proper_container: "proper l (container_act io l)"
  unfolding container_act_def
  by (intro proper_andthen proper_intros) (auto intro!: proper_intros split: sum.splits)

lemma proper_after_container: "proper l (after_container io l)"
  unfolding after_container_def
  by (intro proper_andthen proper_intros)
    (auto intro!: proper_andthen proper_intros split: option.splits)

lemma proper_publish_plain: "proper l (publish_plain c io l code)"
  unfolding publish_plain_def Let_def
  by (intro proper_andthen proper_intros proper_publish fenced_finish_plain finish_plain_public)
    (auto intro!: proper_intros)

lemma proper_plain_job: "proper l (plain_job c io l)"
  unfolding plain_job_def
  by (intro proper_andthen proper_intros proper_container proper_after_container proper_publish_plain
      start_transition)

lemma proper_finish_plain: "proper l (finish_plain io l)"
  unfolding finish_plain_def by (intro proper_andthen proper_intros) (auto intro!: proper_andthen proper_intros)

lemma proper_process_job: "proper (job_lease c j) (process_job c sio pio j)"
proof -
  have "proper l (tx_act (reject_tx l ts))" for l ts
    by (intro proper_tx fenced_reject)
  then show ?thesis
    unfolding process_job_def Let_def
    by (intro proper_andthen proper_intros)
      (auto intro!: proper_andthen proper_intros proper_process proper_finally proper_plain_job proper_finish_plain)
qed

lemma proper_record_failure: "proper (job_lease c j) (record_failure c io j m code rejected)"
proof -
  have "proper l (publish_failure c io l code' m' rejected)" for l code' m'
    unfolding publish_failure_def
    by (intro proper_andthen proper_intros proper_publish fenced_record_failure record_failure_public)
  then show ?thesis
    unfolding record_failure_def Let_def
    by (intro proper_andthen proper_intros)
      (auto intro!: proper_andthen proper_intros proper_ensure proper_commit fenced_late_failure)
qed

lemma proper_work: "proper (job_lease c j) (work_on_job c sio pio fio j)"
  unfolding work_on_job_def
  by (intro proper_catch proper_process_job) (auto intro!: proper_andthen proper_intros proper_record_failure)

section \<open>What is left below \<open>outputs\<close>\<close>

text \<open>The clean-up takes away what is still in \<open>published\<close>.\<close>

definition swept :: "run \<Rightarrow> bool" where
  "swept r \<longleftrightarrow> set (rn_outputs r) \<inter> set (rn_published r) = {}"

definition sweeping :: "unit act \<Rightarrow> bool" where
  "sweeping f \<longleftrightarrow> (\<forall>env r. (\<nexists>e. fst (f env r) = Thrown e) \<and> swept (snd (f env r)))"

definition orderly :: "'a act \<Rightarrow> bool" where
  "orderly m \<longleftrightarrow> (\<forall>env r x r'. swept r \<longrightarrow> m env r = (x, r') \<longrightarrow> x \<noteq> Thrown Deferred \<longrightarrow> swept r')"

lemma orderlyI:
  "(\<And>env r x r'. swept r \<Longrightarrow> m env r = (x, r') \<Longrightarrow> x \<noteq> Thrown Deferred \<Longrightarrow> swept r') \<Longrightarrow> orderly m"
  by (simp add: orderly_def)

lemma orderlyD: "orderly m \<Longrightarrow> swept r \<Longrightarrow> m env r = (x, r') \<Longrightarrow> x \<noteq> Thrown Deferred \<Longrightarrow> swept r'"
  by (simp add: orderly_def)

lemma orderly_andthen:
  assumes "orderly m" and "\<And>x. orderly (k x)"
  shows "orderly (andthen m k)"
proof (rule orderlyI)
  fix env r x r'
  assume r: "swept r" and run: "andthen m k env r = (x, r')" and x: "x \<noteq> Thrown Deferred"
  obtain y s where y: "m env r = (y, s)" by fastforce
  show "swept r'"
  proof (cases y)
    case (Value z)
    with y have "swept s" by (intro orderlyD [OF assms(1) r y]) simp
    moreover have "k z env s = (x, r')" using run y Value by (simp add: andthen_def)
    ultimately show ?thesis using orderlyD [OF assms(2)] x by blast
  qed (use run y x orderlyD [OF assms(1) r y] in \<open>auto simp: andthen_def\<close>)
qed

lemma orderly_catch:
  assumes "orderly m" and "\<And>e. orderly (h e)" and "h Deferred = throw_act Deferred"
  shows "orderly (catch_act m h)"
proof (rule orderlyI)
  fix env r x r'
  assume r: "swept r" and run: "catch_act m h env r = (x, r')" and x: "x \<noteq> Thrown Deferred"
  obtain y s where y: "m env r = (y, s)" by fastforce
  show "swept r'"
  proof (cases "\<exists>e. y = Thrown e")
    case True
    then obtain e where e: "y = Thrown e" by blast
    with run y have h: "h e env s = (x, r')" by (simp add: catch_act_def)
    with assms(3) x have "e \<noteq> Deferred" by (auto simp: throw_act_def)
    with e have "swept s" using orderlyD [OF assms(1) r y] by simp
    with h x orderlyD [OF assms(2)] show ?thesis by blast
  next
    case False
    with run y x orderlyD [OF assms(1) r y] show ?thesis by (cases y) (auto simp: catch_act_def)
  qed
qed

lemma orderly_finally: "sweeping f \<Longrightarrow> orderly (finally_act m f)"
proof (rule orderlyI)
  fix env r x r'
  assume f: "sweeping f" and run: "finally_act m f env r = (x, r')" and x: "x \<noteq> Thrown Deferred"
  obtain y s where y: "m env r = (y, s)" by fastforce
  obtain z t where z: "f env s = (z, t)" by fastforce
  with f have "swept t" by (metis sweeping_def snd_conv)
  moreover have "r' = t"
    using run y z x by (auto simp: finally_act_def split: ending.splits failure.splits)
  ultimately show "swept r'" by simp
qed

lemma orderly_ensure: "sweeping f \<Longrightarrow> orderly (ensure_act m f)"
proof (rule orderlyI)
  fix env r x r'
  assume f: "sweeping f" and run: "ensure_act m f env r = (x, r')"
  obtain y s where y: "m env r = (y, s)" by fastforce
  obtain z t where z: "f env s = (z, t)" by fastforce
  with f have "swept t" by (metis sweeping_def snd_conv)
  moreover have "r' = t" using run y z by (auto simp: ensure_act_def split: ending.splits)
  ultimately show "swept r'" by simp
qed

lemma orderly_simple:
  "orderly (value_act x)" "orderly return_act" "orderly (throw_act e)" "orderly (read_act f)"
  "orderly (return_unless b)" "orderly now_act" "orderly (commit_act g)" "orderly (tx_act t)"
  "orderly (wait_act w)" "orderly (outcome_act w)"
  by (auto simp: orderly_def swept_def value_act_def return_act_def throw_act_def read_act_def
      return_unless_def now_act_def commit_act_def tx_act_def wait_act_def outcome_act_def
      split: prod.splits sum.splits)

lemma orderly_renew: "orderly (renew_act l)"
  unfolding renew_act_def by (intro orderly_andthen orderly_simple)

text \<open>A clean-up that removes what it should and then runs to its end.\<close>

definition lasting :: "'a act \<Rightarrow> bool" where
  "lasting m \<longleftrightarrow> (\<forall>env r. \<exists>x r'. m env r = (Value x, r') \<and> rn_outputs r' = rn_outputs r \<and>
     rn_published r' = rn_published r)"

lemma lasting_andthen:
  assumes "lasting m" and "\<And>x. lasting (k x)"
  shows "lasting (andthen m k)"
  unfolding lasting_def
proof (intro allI)
  fix env r
  from assms(1) obtain x s where s: "m env r = (Value x, s)" "rn_outputs s = rn_outputs r"
    "rn_published s = rn_published r" unfolding lasting_def by blast
  from assms(2) [of x] obtain y t where "k x env s = (Value y, t)" "rn_outputs t = rn_outputs s"
    "rn_published t = rn_published s" unfolding lasting_def by blast
  with s show "\<exists>x r'. andthen m k env r = (Value x, r') \<and> rn_outputs r' = rn_outputs r \<and>
      rn_published r' = rn_published r" by (simp add: andthen_def)
qed

lemma lasting_simple:
  "lasting (value_act x)" "lasting (read_act f)" "lasting now_act" "lasting (commit_act g)" "lasting release_act"
  by (auto simp: lasting_def value_act_def read_act_def now_act_def commit_act_def release_act_def
      split: prod.splits option.splits)

lemma lasting_if: "lasting a \<Longrightarrow> lasting b \<Longrightarrow> lasting (if c then a else b)"
  by simp

lemma lasting_canceled: "lasting (mark_canceled_act l)" "lasting (canceled_act l)"
proof -
  show m: "lasting (mark_canceled_act l)"
    unfolding mark_canceled_act_def by (intro lasting_andthen lasting_simple)
  then show "lasting (canceled_act l)"
    unfolding canceled_act_def by (intro lasting_andthen lasting_simple lasting_if)
qed

lemma sweeping_remove: "sweeping (remove_published (Inr ()))"
  by (auto simp: sweeping_def remove_published_def andthen_def wait_act_def swept_def)

lemma sweeping_then:
  assumes "sweeping m" and "\<And>x. lasting (k x)"
  shows "sweeping (andthen m k)"
  unfolding sweeping_def
proof (intro allI)
  fix env r
  obtain y s where y: "m env r = (y, s)" by fastforce
  with assms(1) have s: "swept s" "\<nexists>e. y = Thrown e" unfolding sweeping_def by (metis fst_conv snd_conv)+
  show "(\<nexists>e. fst (andthen m k env r) = Thrown e) \<and> swept (snd (andthen m k env r))"
  proof (cases y)
    case (Value z)
    from assms(2) [of z] obtain x r' where "k z env s = (Value x, r')" "rn_outputs r' = rn_outputs s"
      "rn_published r' = rn_published s" unfolding lasting_def by blast
    with y Value s(1) show ?thesis by (simp add: andthen_def swept_def)
  qed (use y s in \<open>auto simp: andthen_def\<close>)
qed

lemma sweeping_finish: "io_cleanup io = Inr () \<Longrightarrow> sweeping (finish_act io l)"
  unfolding finish_act_def
  by simp (intro sweeping_then sweeping_remove lasting_andthen lasting_simple lasting_canceled)

lemma sweeping_finish_plain: "po_cleanup io = Inr () \<Longrightarrow> sweeping (finish_plain io l)"
  unfolding finish_plain_def
  by simp (intro sweeping_then sweeping_remove lasting_andthen lasting_simple lasting_canceled lasting_if)

lemma orderly_work:
  assumes "io_cleanup sio = Inr ()" and "po_cleanup pio = Inr ()" and "fi_cleanup fio = Inr ()"
  shows "orderly (work_on_job c sio pio fio j)"
proof -
  have "orderly (process_staged_job c sio j)"
    unfolding process_staged_job_def Let_def by (intro orderly_finally sweeping_finish assms)
  moreover have "orderly (finally_act (plain_job c pio l) (finish_plain pio l))" for l
    by (intro orderly_finally sweeping_finish_plain assms)
  ultimately have "orderly (process_job c sio pio j)"
    unfolding process_job_def Let_def
    by (intro orderly_andthen orderly_simple) (auto intro!: orderly_andthen orderly_simple)
  moreover have "orderly (record_failure c fio j m code rejected)" for m code rejected
    unfolding record_failure_def Let_def using sweeping_remove
    by (intro orderly_andthen orderly_simple)
      (auto simp: assms(3) intro!: orderly_andthen orderly_simple orderly_renew orderly_ensure)
  ultimately show ?thesis
    unfolding work_on_job_def
    by (intro orderly_catch) (auto intro!: orderly_andthen orderly_simple)
qed

end
