(* ===== verification/Recovery.thy ===== *)
theory Recovery
  imports Job_Runs
begin

text \<open>
  The recovery of expired leases (apps/renderer-worker/src/recovery.ts and stage-recovery.ts): a stale
  lease is taken over under a new generation, the job's containers are stopped, what the lost attempt
  left behind is removed, and the job is queued again, failed or canceled.
\<close>

section \<open>What is answered from outside\<close>

text \<open>
  \<open>rv_containers\<close>: the containers of the job were listed and proven stopped, and whether there were any;
  \<open>rv_root\<close>: the checks on the job's directory, \<open>False\<close> when it does not exist; \<open>rv_target\<close>: the checks
  on the directory of the attempt (\<open>None\<close>) or of a generation, with the walk over its entries.
\<close>

record recovery_io =
  rv_linux :: bool
  rv_containers :: "string \<Rightarrow> bool outcome"
  rv_root :: "string \<Rightarrow> bool outcome"
  rv_target :: "string \<Rightarrow> nat option \<Rightarrow> bool outcome"
  rv_remove :: "string \<Rightarrow> nat option \<Rightarrow> unit outcome"

section \<open>Removing a lost attempt\<close>

definition recovered_job_id :: "string \<Rightarrow> bool" where
  "recovered_job_id i \<longleftrightarrow> length i = 36 \<and> take 4 i = ''job_'' \<and> list_all is_hex (drop 4 i)"

definition still_owned :: "lease \<Rightarrow> db \<Rightarrow> bool" where
  "still_owned rl d \<longleftrightarrow> (case runtime_state d (le_job rl) of
     None \<Rightarrow> False
   | Some s \<Rightarrow> rs_lease_owner s = Some (le_worker rl) \<and> rs_lease_generation s = le_generation rl \<and>
       rs_status s \<in> {Validating, Running, Canceled})"

definition checkpoint_generations :: "stage_row \<Rightarrow> nat list" where
  "checkpoint_generations s = List.map_filter id [st_pdf_generation s, st_svg_generation s]"

text \<open>The generations that must stay, unless the lease is gone or the job is being downloaded.\<close>

definition prune_references :: "lease \<Rightarrow> stage_row \<Rightarrow> timestamp \<Rightarrow> nat list option tx" where
  "prune_references rl s now d =
     (if \<not> still_owned rl d \<or> has_active_transfers d (le_job rl) now then Inr (None, d)
      else Inr (Some (referenced_generations d (le_job rl) @ checkpoint_generations s), d))"

definition remove_generation :: "string \<Rightarrow> nat option \<Rightarrow> unit outcome \<Rightarrow> unit act" where
  "remove_generation i t x = andthen (wait_act x) (\<lambda>_ env r. (Value (),
     case t of None \<Rightarrow> r | Some g \<Rightarrow> r\<lparr>rn_outputs := filter (\<lambda>h. h \<noteq> (i, g)) (rn_outputs r)\<rparr>))"

fun prune_targets :: "recovery_io \<Rightarrow> lease \<Rightarrow> nat option list \<Rightarrow> unit act" where
  "prune_targets io rl [] = value_act ()"
| "prune_targets io rl (t # ts) =
     andthen (wait_act (rv_target io (le_job rl) t)) (\<lambda>there.
     if \<not> there then prune_targets io rl ts
     else andthen (read_act (still_owned rl)) (\<lambda>owned. if \<not> owned then value_act ()
       else andthen (remove_generation (le_job rl) t (rv_remove io (le_job rl) t)) (\<lambda>_.
         prune_targets io rl ts)))"

definition prune_generations :: "nat \<Rightarrow> nat list" where
  "prune_generations lease = [lease * 2, lease * 2 + 1]"

definition prune_attempt :: "recovery_io \<Rightarrow> stale_lease \<Rightarrow> lease \<Rightarrow> unit act" where
  "prune_attempt io sl rl =
     andthen (read_act (\<lambda>d. checkpoint d (sl_id sl))) (\<lambda>cp. case cp of
       None \<Rightarrow> value_act ()
     | Some s \<Rightarrow>
         if \<not> rv_linux io then value_act ()
         else andthen (throw_when (\<not> recovered_job_id (sl_id sl)) (plain_failure ''Unsafe recovered Job ID'')) (\<lambda>_.
         andthen (throw_when (sl_lease_generation sl * 2 + 1 > 9007199254740991 \<or> sl_lease_generation sl = 0)
           (plain_failure ''Unsafe recovered stage generation'')) (\<lambda>_.
         andthen now_act (\<lambda>now. andthen (tx_act (prune_references rl s now)) (\<lambda>refs. case refs of
           None \<Rightarrow> value_act ()
         | Some keep \<Rightarrow>
             andthen (wait_act (rv_root io (sl_id sl))) (\<lambda>there. if \<not> there then value_act ()
             else prune_targets io rl (None # map Some
               (filter (\<lambda>g. g \<notin> set keep) (prune_generations (sl_lease_generation sl))))))))))"

section \<open>Recovering a lease\<close>

definition recovery_owner :: "string \<Rightarrow> nat \<Rightarrow> string" where
  "recovery_owner worker g = worker @ '':recovery:'' @ decimal (g + 1)"

definition recovery_lease :: "string \<Rightarrow> stale_lease \<Rightarrow> lease" where
  "recovery_lease worker sl = \<lparr>le_job = sl_id sl, le_worker = recovery_owner worker (sl_lease_generation sl),
     le_generation = sl_lease_generation sl + 1\<rparr>"

definition recovery_audit :: "string \<Rightarrow> string \<Rightarrow> string \<Rightarrow> string \<Rightarrow> (string \<times> json) list \<Rightarrow> timestamp \<Rightarrow> audit_row"
  where
  "recovery_audit worker i action result meta now =
     worker_audit \<lparr>le_job = i, le_worker = worker, le_generation = 0\<rparr> action result meta now"

text \<open>The containers or the attempt could not be cleared: the claim expires at once, for the next run.\<close>

definition defer_recovery :: "string \<Rightarrow> lease \<Rightarrow> timestamp \<Rightarrow> timestamp \<Rightarrow> db \<Rightarrow> unit \<times> db" where
  "defer_recovery worker rl now at d =
     (case leased rl (expire_recovery_claim now) d of (n, d') \<Rightarrow>
       ((), if n \<noteq> 1 then d'
         else audit (recovery_audit worker (le_job rl) ''render.lease_recovery_deferred'' ''failed''
           [(''reason'', JStr ''container_state_unavailable'')] at) d'))"

definition settle_recovery :: "string \<Rightarrow> stale_lease \<Rightarrow> lease \<Rightarrow> bool \<Rightarrow> timestamp \<Rightarrow> timestamp \<Rightarrow> db \<Rightarrow>
  unit \<times> db" where
  "settle_recovery worker sl rl found ts at d =
     (case (if sl_status sl = Canceled then leased rl (mark_canceled ts None) d
            else if found then leased rl (recover_failed ts) d
            else leased rl (recover_queued ts) d) of (n, d') \<Rightarrow>
       ((), if n \<noteq> 1 then d'
         else audit (recovery_audit worker (sl_id sl) ''render.lease_recovered''
           (if found then ''failed'' else ''success'')
           [(''previousStatus'', JStr (status_name (sl_status sl))), (''containerFound'', JBool found),
            (''previousLeaseOwner'', JStr (sl_lease_owner sl)),
            (''previousLeaseGeneration'', JNum (int (sl_lease_generation sl))),
            (''recoveryLeaseGeneration'', JNum (int (le_generation rl)))] at) d'))"

definition recover_lease :: "worker_settings \<Rightarrow> recovery_io \<Rightarrow> stale_lease \<Rightarrow> unit act" where
  "recover_lease c io sl =
     (let rl = recovery_lease (wc_worker c) sl in
      andthen now_act (\<lambda>claimed. andthen now_act (\<lambda>now.
      andthen (commit_act (claim_expired_lease sl (le_worker rl) claimed (now + 300000))) (\<lambda>g. case g of
        None \<Rightarrow> value_act ()
      | Some _ \<Rightarrow>
          andthen (catch_act
            (andthen (wait_act (rv_containers io (sl_id sl))) (\<lambda>found.
             andthen (prune_attempt io sl rl) (\<lambda>_. value_act (Some found))))
            (\<lambda>e. andthen now_act (\<lambda>now. andthen now_act (\<lambda>at.
             andthen (commit_act (defer_recovery (wc_worker c) rl now at)) (\<lambda>_. value_act None))))) (\<lambda>found.
          case found of
            None \<Rightarrow> value_act ()
          | Some b \<Rightarrow> andthen now_act (\<lambda>ts. andthen now_act (\<lambda>at.
              commit_act (settle_recovery (wc_worker c) sl rl b ts at))))))))"

fun recover_each :: "worker_settings \<Rightarrow> recovery_io \<Rightarrow> stale_lease list \<Rightarrow> unit act" where
  "recover_each c io [] = value_act ()"
| "recover_each c io (sl # sls) = andthen (recover_lease c io sl) (\<lambda>_. recover_each c io sls)"

definition recover_stale_leases :: "worker_settings \<Rightarrow> recovery_io \<Rightarrow> unit act" where
  "recover_stale_leases c io =
     andthen now_act (\<lambda>now. andthen (read_act (stale_leases now)) (recover_each c io))"

section \<open>What the recovery removes\<close>

text \<open>A generation that may be removed: the recovery owns the job and nothing refers to the generation.\<close>

definition removable :: "string \<Rightarrow> environment \<Rightarrow> string \<times> nat \<Rightarrow> db \<Rightarrow> bool" where
  "removable worker env = (\<lambda>(i, g) d.
     (\<exists>sl n. sl_id sl = i \<and> still_owned (recovery_lease worker sl) d \<and>
        \<not> has_active_transfers d i (en_clock env n)) \<and>
     (\<forall>a\<in>set (artifacts d). ar_job_id a = i \<longrightarrow> ar_storage_generation a \<noteq> Some g) \<and>
     (\<forall>s. checkpoint d i = Some s \<longrightarrow> st_pdf_generation s \<noteq> Some g \<and> st_svg_generation s \<noteq> Some g))"

definition justified :: "string \<Rightarrow> environment \<Rightarrow> run \<Rightarrow> string \<times> nat \<Rightarrow> bool" where
  "justified wk env r h \<longleftrightarrow> (\<exists>(d, d')\<in>set (rn_commits r). removable wk env h d)"

definition careful_run :: "string \<Rightarrow> environment \<Rightarrow> run \<Rightarrow> run \<Rightarrow> bool" where
  "careful_run wk env r r' \<longleftrightarrow> step\<^sup>*\<^sup>* (rn_db r) (rn_db r') \<and> set (rn_commits r) \<subseteq> set (rn_commits r') \<and>
     set (rn_outputs r') \<subseteq> set (rn_outputs r) \<and>
     (\<forall>h\<in>set (rn_outputs r). h \<in> set (rn_outputs r') \<or> justified wk env r' h)"

lemma justified_mono: "set (rn_commits r) \<subseteq> set (rn_commits r') \<Longrightarrow> justified wk env r h \<Longrightarrow> justified wk env r' h"
  unfolding justified_def by blast

lemma careful_run_refl [simp]: "careful_run wk env r r"
  by (simp add: careful_run_def)

lemma careful_run_trans:
  assumes "careful_run wk env r s" and "careful_run wk env s t"
  shows "careful_run wk env r t"
proof -
  have "step\<^sup>*\<^sup>* (rn_db r) (rn_db t)" using assms by (auto simp: careful_run_def)
  moreover have "set (rn_commits s) \<subseteq> set (rn_commits t)" using assms(2) by (simp add: careful_run_def)
  ultimately show ?thesis
    using assms justified_mono unfolding careful_run_def by (meson subset_iff)
qed

definition careful :: "string \<Rightarrow> environment \<Rightarrow> (run \<Rightarrow> bool) \<Rightarrow> 'a act \<Rightarrow> bool" where
  "careful wk env P m \<longleftrightarrow> (\<forall>r x r'. others_step env \<longrightarrow> P r \<longrightarrow> m env r = (x, r') \<longrightarrow> careful_run wk env r r' \<and> P r')"

lemma carefulI:
  "(\<And>r x r'. others_step env \<Longrightarrow> P r \<Longrightarrow> m env r = (x, r') \<Longrightarrow> careful_run wk env r r' \<and> P r') \<Longrightarrow> careful wk env P m"
  unfolding careful_def by blast

lemma carefulD: "careful wk env P m \<Longrightarrow> others_step env \<Longrightarrow> P r \<Longrightarrow> m env r = (x, r') \<Longrightarrow> careful_run wk env r r' \<and> P r'"
  unfolding careful_def by blast

lemma careful_andthen:
  assumes "careful wk env P m" and "\<And>x. careful wk env P (k x)"
  shows "careful wk env P (andthen m k)"
proof (rule carefulI)
  fix r x r' assume env: "others_step env" and r: "P r" and run: "andthen m k env r = (x, r')"
  obtain y s where y: "m env r = (y, s)" by fastforce
  note first = carefulD [OF assms(1) env r y]
  show "careful_run wk env r r' \<and> P r'"
  proof (cases y)
    case (Value z)
    then have "k z env s = (x, r')" using run y by (simp add: andthen_def)
    with carefulD [OF assms(2) env] first careful_run_trans show ?thesis by blast
  qed (use run y first in \<open>auto simp: andthen_def\<close>)
qed

lemma careful_catch:
  assumes "careful wk env P m" and "\<And>e. careful wk env P (h e)"
  shows "careful wk env P (catch_act m h)"
proof (rule carefulI)
  fix r x r' assume env: "others_step env" and r: "P r" and run: "catch_act m h env r = (x, r')"
  obtain y s where y: "m env r = (y, s)" by fastforce
  note first = carefulD [OF assms(1) env r y]
  show "careful_run wk env r r' \<and> P r'"
  proof (cases y)
    case (Thrown e)
    then have "h e env s = (x, r')" using run y by (simp add: catch_act_def)
    with carefulD [OF assms(2) env] first careful_run_trans show ?thesis by blast
  qed (use run y first in \<open>auto simp: catch_act_def\<close>)
qed

text \<open>What is justified stays justified.\<close>

definition lasting_pred :: "(run \<Rightarrow> bool) \<Rightarrow> bool" where
  "lasting_pred P \<longleftrightarrow> (\<forall>r r'. P r \<longrightarrow> set (rn_commits r) \<subseteq> set (rn_commits r') \<longrightarrow> P r')"

lemma careful_simple:
  assumes "lasting_pred P"
  shows "careful wk env P (value_act x)" "careful wk env P (throw_act e)" "careful wk env P (read_act f)" "careful wk env P (throw_when b e)"
    "careful wk env P now_act"
  using assms unfolding lasting_pred_def
  by (auto intro!: carefulI simp: value_act_def throw_act_def read_act_def throw_when_def now_act_def
      careful_run_def split: if_splits)

lemma careful_wait: "lasting_pred P \<Longrightarrow> careful wk env P (wait_act w)"
  by (auto intro!: carefulI simp: lasting_pred_def wait_act_def careful_run_def others_step_def split: sum.splits)

lemma careful_commit:
  assumes "lasting_pred P" and "\<And>d. step\<^sup>*\<^sup>* d (snd (f d))"
  shows "careful wk env P (commit_act f)"
proof (rule carefulI)
  fix r x r' assume r: "P r" and run: "commit_act f env r = (x, r')"
  have "r' = r\<lparr>rn_db := snd (f (rn_db r)), rn_commits := rn_commits r @ [(rn_db r, snd (f (rn_db r)))]\<rparr>"
    using run by (auto simp: commit_act_def split: prod.splits)
  moreover from this have "set (rn_commits r) \<subseteq> set (rn_commits r')" by auto
  with r assms(1) have "P r'" unfolding lasting_pred_def by blast
  ultimately show "careful_run wk env r r' \<and> P r'" using assms(2) by (auto simp: careful_run_def)
qed

lemma careful_prune_targets:
  assumes "\<forall>g. Some g \<in> set ts \<longrightarrow> (\<forall>r. P r \<longrightarrow> justified wk env r (le_job rl, g))" and "lasting_pred P"
  shows "careful wk env P (prune_targets io rl ts)"
  using assms(1)
proof (induction ts)
  case Nil
  then show ?case by (simp add: careful_simple assms(2))
next
  case (Cons t ts)
  have remove: "careful wk env P (remove_generation (le_job rl) t w)" for w
    unfolding remove_generation_def
  proof (rule careful_andthen [OF careful_wait [OF assms(2)]], rule carefulI)
    fix r x r'
    assume r: "P r" and run: "(Value (), case t of None \<Rightarrow> r
       | Some g \<Rightarrow> r\<lparr>rn_outputs := filter (\<lambda>h. h \<noteq> (le_job rl, g)) (rn_outputs r)\<rparr>) = (x, r')"
    show "careful_run wk env r r' \<and> P r'"
    proof (cases t)
      case (Some g)
      with run have r': "r' = r\<lparr>rn_outputs := filter (\<lambda>h. h \<noteq> (le_job rl, g)) (rn_outputs r)\<rparr>" by simp
      have "justified wk env r (le_job rl, g)" using Cons.prems Some r by simp
      then have "justified wk env r' (le_job rl, g)" by (simp add: justified_def r')
      moreover have "P r'" using assms(2) r unfolding lasting_pred_def by (auto simp: r')
      ultimately show ?thesis by (auto simp: careful_run_def r')
    qed (use run r in simp)
  qed
  have rest: "careful wk env P (prune_targets io rl ts)" using Cons by simp
  have owned: "careful wk env P (if \<not> o1 then value_act () else andthen (remove_generation (le_job rl) t w) (\<lambda>_.
      prune_targets io rl ts))" for o1 w
    by (simp add: careful_andthen [OF remove rest] careful_simple(1) [OF assms(2)])
  have "careful wk env P (if \<not> there then prune_targets io rl ts
     else andthen (read_act (still_owned rl)) (\<lambda>owned. if \<not> owned then value_act ()
       else andthen (remove_generation (le_job rl) t (rv_remove io (le_job rl) t)) (\<lambda>_. prune_targets io rl ts)))"
    for there
    using rest by (simp add: careful_andthen [OF careful_simple(3) [OF assms(2)] owned])
  then show ?case by (simp add: careful_andthen [OF careful_wait [OF assms(2)]])
qed

lemma lasting_justified: "lasting_pred (\<lambda>r. \<forall>g\<in>G. justified wk env r (i, g))" "lasting_pred (\<lambda>_. True)"
  using justified_mono by (auto simp: lasting_pred_def)

lemma references_removable:
  assumes "prune_references (recovery_lease wk sl) s (en_clock env n) d = Inr (Some keep, d')" and "checkpoint d (sl_id sl) = Some s"
    and "g \<notin> set keep"
  shows "removable wk env (sl_id sl, g) d"
proof -
  have job: "le_job (recovery_lease wk sl) = sl_id sl" by (simp add: recovery_lease_def)
  from assms(1) have owned: "still_owned (recovery_lease wk sl) d" "\<not> has_active_transfers d (sl_id sl) (en_clock env n)"
    and keep: "keep = referenced_generations d (sl_id sl) @ checkpoint_generations s"
    by (auto simp: prune_references_def job split: if_splits)
  have "\<forall>a\<in>set (artifacts d). ar_job_id a = sl_id sl \<longrightarrow> ar_storage_generation a \<noteq> Some g"
    using assms(3) by (force simp: keep referenced_generations_def List.map_filter_def)
  moreover have "st_pdf_generation s \<noteq> Some g \<and> st_svg_generation s \<noteq> Some g"
    using assms(3) by (auto simp: keep checkpoint_generations_def List.map_filter_simps split: option.splits)
  ultimately show ?thesis using owned assms(2) unfolding removable_def by auto
qed

lemma careful_prune_attempt: "careful wk env (\<lambda>_. True) (prune_attempt io sl (recovery_lease wk sl))"
proof (rule carefulI)
  let ?rl = "recovery_lease wk sl"
  have job: "le_job ?rl = sl_id sl" by (simp add: recovery_lease_def)
  fix r x r' assume env: "others_step env" and run: "prune_attempt io sl ?rl env r = (x, r')"
  show "careful_run wk env r r' \<and> True"
  proof (cases "\<exists>s. checkpoint (rn_db r) (sl_id sl) = Some s \<and> rv_linux io \<and> recovered_job_id (sl_id sl) \<and>
      \<not> (sl_lease_generation sl * 2 + 1 > 9007199254740991 \<or> sl_lease_generation sl = 0)")
    case False
    then have "r' = r" using run
      by (auto simp: prune_attempt_def andthen_def read_act_def value_act_def throw_when_def throw_act_def
          split: option.splits if_splits)
    then show ?thesis by simp
  next
    case True
    then obtain s where s: "checkpoint (rn_db r) (sl_id sl) = Some s" by blast
    let ?now = "en_clock env (rn_reads r)"
    have "\<exists>keep. prune_references ?rl s ?now (rn_db r) = Inr (keep, rn_db r)"
      by (cases "\<not> still_owned ?rl (rn_db r) \<or> has_active_transfers (rn_db r) (le_job ?rl) ?now")
        (simp_all add: prune_references_def)
    then obtain keep where keep: "prune_references ?rl s ?now (rn_db r) = Inr (keep, rn_db r)" by blast
    let ?r = "r\<lparr>rn_reads := rn_reads r + 1, rn_commits := rn_commits r @ [(rn_db r, rn_db r)]\<rparr>"
    have first: "careful_run wk env r ?r" by (auto simp: careful_run_def)
    show ?thesis
    proof (cases keep)
      case None
      with True s keep run have "r' = ?r"
        by (simp add: prune_attempt_def andthen_def read_act_def value_act_def throw_when_def now_act_def tx_act_def)
      with first show ?thesis by simp
    next
      case (Some ks)
      let ?ts = "filter (\<lambda>g. g \<notin> set ks) (prune_generations (sl_lease_generation sl))"
      let ?P = "\<lambda>r. \<forall>g\<in>set ?ts. justified wk env r (sl_id sl, g)"
      have P: "?P ?r"
        using references_removable [OF keep [unfolded Some] s] by (auto simp: justified_def)
      have "careful wk env ?P (andthen (wait_act (rv_root io (sl_id sl))) (\<lambda>there. if \<not> there then value_act ()
             else prune_targets io ?rl (None # map Some ?ts)))" (is "careful wk env ?P ?m")
      proof (rule careful_andthen [OF careful_wait [OF lasting_justified(1)]])
        have "careful wk env ?P (prune_targets io ?rl (None # map Some ?ts))"
          by (rule careful_prune_targets [OF _ lasting_justified(1)]) (auto simp: job)
        then show "careful wk env ?P (if \<not> there then value_act () else prune_targets io ?rl (None # map Some ?ts))" for there
          by (cases there) (simp_all only: careful_simple(1) [OF lasting_justified(1)] not_True_eq_False
              not_False_eq_True if_True if_False)
      qed
      moreover have "?m env ?r = (x, r')"
        using True s keep run Some
        by (simp add: prune_attempt_def andthen_def read_act_def value_act_def throw_when_def now_act_def tx_act_def)
      ultimately have "careful_run wk env ?r r'" using carefulD env P by blast
      with first careful_run_trans show ?thesis by blast
    qed
  qed
qed

lemma defer_steps: "step\<^sup>*\<^sup>* d (snd (defer_recovery w rl now at d))"
proof -
  obtain n e where e: "leased rl (expire_recovery_claim now) d = (n, e)" by fastforce
  then have "step d e" using step.expire_claim [of d now] by (metis leased_def snd_conv)
  with audit_step e show ?thesis
    by (auto simp: defer_recovery_def intro: converse_rtranclp_into_rtranclp)
qed

lemma settle_steps: "step\<^sup>*\<^sup>* d (snd (settle_recovery w sl rl found ts at d))"
proof -
  obtain n e where e: "(if sl_status sl = Canceled then leased rl (mark_canceled ts None) d
            else if found then leased rl (recover_failed ts) d else leased rl (recover_queued ts) d) = (n, e)" by fastforce
  then have "step d e"
    using step.mark_canceled [of d ts None] step.recover_failed [of d ts] step.recover_queued [of d ts]
    by (metis leased_def snd_conv)
  with audit_step e show ?thesis
    by (auto simp: settle_recovery_def intro: converse_rtranclp_into_rtranclp)
qed

lemma careful_recover_lease:
  assumes "sl_status sl \<in> {Validating, Running, Canceled}"
  shows "careful (wc_worker c) env (\<lambda>_. True) (recover_lease c io sl)"
proof -
  let ?rl = "recovery_lease (wc_worker c) sl" let ?T = "\<lambda>_ :: run. True"
  note simple = careful_simple [OF lasting_justified(2)] careful_wait [OF lasting_justified(2)]
  have claim: "careful (wc_worker c) env ?T (commit_act (claim_expired_lease sl owner a b))" for owner a b
    by (rule careful_commit [OF lasting_justified(2)]) (use step.claim_expired [OF assms] in blast)
  have put_off: "careful (wc_worker c) env ?T (commit_act (defer_recovery w rl now t))" for w rl now t
    by (rule careful_commit [OF lasting_justified(2) defer_steps])
  have settle: "careful (wc_worker c) env ?T (commit_act (settle_recovery w sl rl b ts t))" for w rl b ts t
    by (rule careful_commit [OF lasting_justified(2) settle_steps])
  have cleared: "careful (wc_worker c) env ?T (catch_act
            (andthen (wait_act (rv_containers io (sl_id sl))) (\<lambda>found.
             andthen (prune_attempt io sl ?rl) (\<lambda>_. value_act (Some found))))
            (\<lambda>e. andthen now_act (\<lambda>now. andthen now_act (\<lambda>at.
             andthen (commit_act (defer_recovery (wc_worker c) ?rl now at)) (\<lambda>_. value_act None)))))"
    by (intro careful_catch careful_andthen simple careful_prune_attempt put_off)
  have last: "careful (wc_worker c) env ?T (case found of None \<Rightarrow> value_act ()
          | Some b \<Rightarrow> andthen now_act (\<lambda>ts. andthen now_act (\<lambda>at.
              commit_act (settle_recovery (wc_worker c) sl ?rl b ts at))))" for found
    by (cases found) (simp_all add: simple careful_andthen settle)
  have "careful (wc_worker c) env ?T (case g of None \<Rightarrow> value_act () | Some (_ :: nat) \<Rightarrow> andthen (catch_act
            (andthen (wait_act (rv_containers io (sl_id sl))) (\<lambda>found.
             andthen (prune_attempt io sl ?rl) (\<lambda>_. value_act (Some found))))
            (\<lambda>e. andthen now_act (\<lambda>now. andthen now_act (\<lambda>at.
             andthen (commit_act (defer_recovery (wc_worker c) ?rl now at)) (\<lambda>_. value_act None))))) (\<lambda>found.
          case found of None \<Rightarrow> value_act ()
          | Some b \<Rightarrow> andthen now_act (\<lambda>ts. andthen now_act (\<lambda>at.
              commit_act (settle_recovery (wc_worker c) sl ?rl b ts at)))))" for g
    using careful_andthen [OF cleared last] simple(1) by (cases g) simp_all
  then show ?thesis
    unfolding recover_lease_def Let_def by (intro careful_andthen simple claim)
qed

lemma careful_recover_each:
  "\<forall>sl\<in>set sls. sl_status sl \<in> {Validating, Running, Canceled} \<Longrightarrow> careful (wc_worker c) env (\<lambda>_. True) (recover_each c io sls)"
  by (induction sls) (auto intro!: careful_andthen careful_recover_lease careful_simple lasting_justified(2))

lemma stale_lease_status: "sl \<in> set (stale_leases now d) \<Longrightarrow> sl_status sl \<in> {Validating, Running, Canceled}"
  by (auto simp: stale_leases_def List.map_filter_def stale_lease_def split: option.splits)

lemma careful_recovery:
  assumes "others_step env" and "recover_stale_leases c io env r = (x, r')"
  shows "careful_run (wc_worker c) env r r'"
proof -
  let ?now = "en_clock env (rn_reads r)"
  have "careful (wc_worker c) env (\<lambda>_. True) (recover_each c io (stale_leases ?now (rn_db r)))"
    by (rule careful_recover_each) (use stale_lease_status in blast)
  moreover have "recover_each c io (stale_leases ?now (rn_db r)) env (r\<lparr>rn_reads := rn_reads r + 1\<rparr>) = (x, r')"
    using assms(2) by (simp add: recover_stale_leases_def andthen_def now_act_def read_act_def)
  ultimately have "careful_run (wc_worker c) env (r\<lparr>rn_reads := rn_reads r + 1\<rparr>) r'"
    using carefulD assms(1) by blast
  then show ?thesis by (simp add: careful_run_def)
qed

end
