(* ===== verification/Turn_Ends.thy ===== *)
theory Turn_Ends
  imports Job_Runs
begin

text \<open>
  A turn of the worker ends its job: when the processor returns, and when the failure it threw is
  recorded, the job is no longer validating or running under the worker's lease.
\<close>

section \<open>Released\<close>

definition in_hand :: "lease \<Rightarrow> job_row \<Rightarrow> bool" where
  "in_hand l j \<longleftrightarrow> leased l holds_lease j \<and> j_status j \<in> {Validating, Running}"

definition known :: "lease \<Rightarrow> db \<Rightarrow> bool" where
  "known l d \<longleftrightarrow> (\<exists>j. job_of d (le_job l) = Some j \<and> le_generation l \<le> j_lease_generation j)"

definition released :: "lease \<Rightarrow> db \<Rightarrow> bool" where
  "released l d \<longleftrightarrow> (\<exists>j. job_of d (le_job l) = Some j \<and> le_generation l \<le> j_lease_generation j \<and> \<not> in_hand l j)"

lemma released_known: "released l d \<Longrightarrow> known l d"
  by (auto simp: released_def known_def)

lemma evolves_in_hand:
  assumes "evolves j j'" and "job_ok j" and "le_generation l \<le> j_lease_generation j" and "\<not> in_hand l j"
  shows "\<not> in_hand l j'"
proof
  assume a: "in_hand l j'"
  then have "j_lease_generation j' = le_generation l" "j_lease_owner j' = Some (le_worker l)"
    "j_id j' = le_job l" "j_status j' \<in> {Validating, Running}"
    by (auto simp: in_hand_def leased_def holds_lease_def)
  with assms(1,3) have "j_lease_owner j = Some (le_worker l)" "j_lease_generation j = le_generation l"
    "j_id j = le_job l" by (auto simp: evolves_def identity_def)
  with assms(4) have "j_status j \<notin> {Validating, Running}"
    by (simp add: in_hand_def leased_def holds_lease_def)
  with assms(2) \<open>j_lease_owner j = Some (le_worker l)\<close> have "j_status j \<in> {Canceled, Deleting}"
    by (auto simp: job_ok_def)
  with assms(1) \<open>j_status j' \<in> {Validating, Running}\<close> show False by (auto simp: evolves_def)
qed

lemma lifecycle_job: "lifecycle_ok d \<Longrightarrow> job_of d i = Some j \<Longrightarrow> job_ok j \<and> j \<in> set (jobs d) \<and> j_id j = i"
  using row_by_SomeD by (fastforce simp: lifecycle_ok_def)

lemma step_known: "step d d' \<Longrightarrow> lifecycle_ok d \<Longrightarrow> known l d \<Longrightarrow> known l d'"
  using step_ok unfolding follows_def evolves_def known_def by (meson order_trans)

lemma step_released:
  assumes "step d d'" and "lifecycle_ok d" and "released l d"
  shows "released l d'"
proof -
  from assms(3) obtain j where j: "job_of d (le_job l) = Some j" "le_generation l \<le> j_lease_generation j" "\<not> in_hand l j"
    by (auto simp: released_def)
  with step_ok [OF assms(1,2)] obtain j' where j': "job_of d' (le_job l) = Some j'" "evolves j j'"
    by (auto simp: follows_def)
  moreover from j'(2) j(2) have "le_generation l \<le> j_lease_generation j'" by (simp add: evolves_def)
  moreover have "\<not> in_hand l j'"
    using evolves_in_hand [OF j'(2)] lifecycle_job [OF assms(2) j(1)] j(2,3) by blast
  ultimately show ?thesis by (auto simp: released_def)
qed

lemma steps_keep:
  assumes "step\<^sup>*\<^sup>* d d'" and "lifecycle_ok d"
  shows "lifecycle_ok d'" and "known l d \<Longrightarrow> known l d'" and "released l d \<Longrightarrow> released l d'"
proof -
  have "lifecycle_ok d' \<and> (known l d \<longrightarrow> known l d') \<and> (released l d \<longrightarrow> released l d')"
    using assms
  proof (induction rule: rtranclp_induct)
    case (step e f)
    with step_ok [OF step.hyps(2)] step_known [OF step.hyps(2)] step_released [OF step.hyps(2)] show ?case by blast
  qed simp
  then show "lifecycle_ok d'" and "known l d \<Longrightarrow> known l d'" and "released l d \<Longrightarrow> released l d'" by simp_all
qed

lemma not_owns_released: "known l d \<Longrightarrow> \<not> owns l d \<Longrightarrow> released l d"
  by (auto simp: known_def released_def owns_def runtime_state_def in_hand_def leased_def holds_lease_def)

text \<open>Statements after which the job is released.\<close>

lemma status_released:
  assumes "lifecycle_ok d" and "known l d" and "j \<in> set (jobs d)" and "j_id j = le_job l"
    and "j_status j \<notin> {Validating, Running}"
  shows "released l d"
proof -
  have "job_of d (le_job l) = Some j"
    using job_table.row_by_in [OF _ assms(3)] assms(1,4) by (auto simp: lifecycle_ok_def)
  with assms(2,5) show ?thesis by (auto simp: known_def released_def in_hand_def)
qed

text \<open>A statement on the job in hand changed it, or there is none.\<close>

lemma no_change_released:
  assumes "lifecycle_ok d" and "known l d" and "changes (\<lambda>j. holds_lease (le_job l) (le_worker l) (le_generation l) j \<and>
      j_status j \<in> S) (jobs d) = 0" and "{Validating, Running} \<subseteq> S"
  shows "released l d"
proof -
  from assms(2) obtain j where j: "job_of d (le_job l) = Some j" "le_generation l \<le> j_lease_generation j"
    by (auto simp: known_def)
  from assms(3) have "\<not> (holds_lease (le_job l) (le_worker l) (le_generation l) j \<and> j_status j \<in> S)"
    using lifecycle_job [OF assms(1) j(1)] by (auto simp: changes_zero_iff)
  with assms(4) j show ?thesis by (auto simp: released_def in_hand_def leased_def)
qed

lemma changes_lease_le_one:
  "lifecycle_ok d \<Longrightarrow> changes (\<lambda>j. holds_lease i w g j \<and> q j) (jobs d) \<le> 1"
  by (rule job_table.changes_le_one [where k = i]) (auto simp: lifecycle_ok_def holds_lease_def)

lemma mark_canceled_released:
  assumes "lifecycle_ok d" and "known l d" and "leased l (mark_canceled now b) d = (n, d')"
  shows "released l d'"
proof (cases "n = 0")
  case True
  then have zero: "changes (\<lambda>j. holds_lease (le_job l) (le_worker l) (le_generation l) j \<and>
      j_status j \<in> {Validating, Running, Canceled}) (jobs d) = 0"
    using assms(3) by (simp add: leased_def mark_canceled_def update_jobs_status_def Let_def)
  from no_change_released [OF assms(1,2) zero] have "released l d" by simp
  moreover have "step d d'" using step.mark_canceled [of d now b] assms(3) by (metis leased_def snd_conv)
  ultimately show ?thesis using step_released assms(1) by blast
next
  case False
  with mark_canceled_done [OF assms(3)] obtain j where "j \<in> set (jobs d')" "j_id j = le_job l" "j_status j = Canceled"
    by blast
  moreover have s: "step d d'" using step.mark_canceled [of d now b] assms(3) by (metis leased_def snd_conv)
  ultimately show ?thesis
    using status_released [of d' l j] step_ok [OF s assms(1)] step_known [OF s assms(1,2)] by simp
qed

section \<open>Assertions about a run\<close>

text \<open>
  Until the worker starts the job itself, it validates while the lease is held: nobody else acts under
  that lease but its own timer.
\<close>

definition unstarted :: "lease \<Rightarrow> db \<Rightarrow> bool" where
  "unstarted l d \<longleftrightarrow> (\<forall>j. job_of d (le_job l) = Some j \<longrightarrow> in_hand l j \<longrightarrow> j_status j = Validating)"

definition fair :: "lease \<Rightarrow> environment \<Rightarrow> bool" where
  "fair l env \<longleftrightarrow> others_step env \<and>
     (\<forall>n d. lifecycle_ok d \<longrightarrow> unstarted l d \<longrightarrow> unstarted l (en_others env n d))"

definition good :: "lease \<Rightarrow> run \<Rightarrow> bool" where
  "good l r \<longleftrightarrow> lifecycle_ok (rn_db r) \<and> known l (rn_db r) \<and> (rn_lost r \<longrightarrow> released l (rn_db r))"

definition ends :: "lease \<Rightarrow> (db \<Rightarrow> bool) \<Rightarrow> 'a act \<Rightarrow> ('a \<Rightarrow> db \<Rightarrow> bool) \<Rightarrow> bool" where
  "ends l P m Q \<longleftrightarrow> (\<forall>env r x r'. fair l env \<longrightarrow> good l r \<longrightarrow> P (rn_db r) \<longrightarrow> m env r = (x, r') \<longrightarrow>
     good l r' \<and> (case x of Value v \<Rightarrow> Q v (rn_db r') | Returned \<Rightarrow> released l (rn_db r') | Thrown e \<Rightarrow> True))"

lemma endsI:
  "(\<And>env r x r'. fair l env \<Longrightarrow> good l r \<Longrightarrow> P (rn_db r) \<Longrightarrow> m env r = (x, r') \<Longrightarrow>
     good l r' \<and> (case x of Value v \<Rightarrow> Q v (rn_db r') | Returned \<Rightarrow> released l (rn_db r') | Thrown e \<Rightarrow> True)) \<Longrightarrow>
   ends l P m Q"
  unfolding ends_def by blast

lemma endsD:
  "ends l P m Q \<Longrightarrow> fair l env \<Longrightarrow> good l r \<Longrightarrow> P (rn_db r) \<Longrightarrow> m env r = (x, r') \<Longrightarrow>
     good l r' \<and> (case x of Value v \<Rightarrow> Q v (rn_db r') | Returned \<Rightarrow> released l (rn_db r') | Thrown e \<Rightarrow> True)"
  unfolding ends_def by blast

lemma ends_andthen:
  assumes "ends l P m Q" and "\<And>v. ends l (Q v) (k v) S"
  shows "ends l P (andthen m k) S"
proof (rule endsI)
  fix env r x r'
  assume env: "fair l env" and r: "good l r" and P: "P (rn_db r)" and run: "andthen m k env r = (x, r')"
  obtain y s where y: "m env r = (y, s)" by fastforce
  note first = endsD [OF assms(1) env r P y]
  show "good l r' \<and> (case x of Value v \<Rightarrow> S v (rn_db r') | Returned \<Rightarrow> released l (rn_db r') | Thrown e \<Rightarrow> True)"
  proof (cases y)
    case (Value z)
    with first have s: "good l s" "Q z (rn_db s)" by simp_all
    have "k z env s = (x, r')" using run y Value by (simp add: andthen_def)
    from endsD [OF assms(2) env s this] show ?thesis .
  qed (use run y first in \<open>auto simp: andthen_def\<close>)
qed

lemma ends_weaken:
  assumes "ends l P m Q" and "\<And>d. lifecycle_ok d \<Longrightarrow> known l d \<Longrightarrow> P' d \<Longrightarrow> P d"
    and "\<And>v d. lifecycle_ok d \<Longrightarrow> known l d \<Longrightarrow> Q v d \<Longrightarrow> Q' v d"
  shows "ends l P' m Q'"
proof (rule endsI)
  fix env r x r'
  assume env: "fair l env" and r: "good l r" and P: "P' (rn_db r)" and run: "m env r = (x, r')"
  have "P (rn_db r)" using assms(2) r P by (simp add: good_def)
  from endsD [OF assms(1) env r this run] assms(3)
  show "good l r' \<and> (case x of Value v \<Rightarrow> Q' v (rn_db r') | Returned \<Rightarrow> released l (rn_db r') | Thrown e \<Rightarrow> True)"
    by (auto simp: good_def split: ending.splits)
qed

lemma ends_pre: "ends l P m Q \<Longrightarrow> (\<And>d. lifecycle_ok d \<Longrightarrow> known l d \<Longrightarrow> P' d \<Longrightarrow> P d) \<Longrightarrow> ends l P' m Q"
  by (rule ends_weaken)

lemma ends_post: "ends l P m Q \<Longrightarrow> (\<And>v d. lifecycle_ok d \<Longrightarrow> known l d \<Longrightarrow> Q v d \<Longrightarrow> Q' v d) \<Longrightarrow> ends l P m Q'"
  by (rule ends_weaken)

text \<open>Acts that leave the database alone.\<close>

lemma ends_value: "ends l P (value_act x) (\<lambda>v d. v = x \<and> P d)"
  by (rule endsI) (auto simp: value_act_def)

lemma ends_return: "(\<And>d. lifecycle_ok d \<Longrightarrow> known l d \<Longrightarrow> P d \<Longrightarrow> released l d) \<Longrightarrow> ends l P return_act Q"
  by (rule endsI) (auto simp: return_act_def good_def)

lemma ends_throw: "ends l P (throw_act e) Q"
  by (rule endsI) (auto simp: throw_act_def)

lemma ends_read: "ends l P (read_act f) (\<lambda>v d. v = f d \<and> P d)"
  by (rule endsI) (auto simp: read_act_def)

lemma ends_lost: "ends l P lost_act (\<lambda>v d. (v \<longrightarrow> released l d) \<and> P d)"
  by (rule endsI) (auto simp: lost_act_def good_def)

lemma ends_unless:
  "(\<And>d. lifecycle_ok d \<Longrightarrow> known l d \<Longrightarrow> P d \<Longrightarrow> \<not> b \<Longrightarrow> released l d) \<Longrightarrow>
   ends l P (return_unless b) (\<lambda>_ d. b \<and> P d)"
  by (cases b; rule endsI) (auto simp: return_unless_def return_act_def value_act_def good_def)

lemma ends_when: "ends l P (throw_when b e) (\<lambda>_ d. \<not> b \<and> P d)"
  by (cases b; rule endsI) (auto simp: throw_when_def throw_act_def value_act_def)

lemma ends_outcome: "ends l P (outcome_act x) (\<lambda>v d. x = Inr v \<and> P d)"
  by (rule endsI) (auto simp: outcome_act_def throw_act_def value_act_def split: sum.splits)

lemma ends_own:
  "ends l P now_act (\<lambda>_. P)" "ends l P (ids_act n) (\<lambda>_. P)" "ends l P (pin_act p) (\<lambda>_. P)"
  "ends l P (settle_act g) (\<lambda>_. P)"
  by (rule endsI, auto simp: now_act_def ids_act_def pin_act_def settle_act_def good_def)+

lemma ends_if: "ends l (\<lambda>d. b \<and> P d) m Q \<Longrightarrow> ends l (\<lambda>d. \<not> b \<and> P d) n Q \<Longrightarrow> ends l P (if b then m else n) Q"
  by (cases b) simp_all

lemma ends_option: "(x = None \<Longrightarrow> ends l P m Q) \<Longrightarrow> (\<And>y. x = Some y \<Longrightarrow> ends l P (n y) Q) \<Longrightarrow>
  ends l P (case x of None \<Rightarrow> m | Some y \<Rightarrow> n y) Q"
  by (cases x) simp_all

text \<open>Acts that change it: what they commit are steps.\<close>

lemma good_steps:
  assumes "good l r" and "step\<^sup>*\<^sup>* (rn_db r) (rn_db r')" and "rn_lost r' = rn_lost r"
  shows "good l r'"
  using assms(1,3) steps_keep [OF assms(2)] by (auto simp: good_def)

lemma ends_commit:
  assumes "\<And>d. step\<^sup>*\<^sup>* d (snd (f d))"
    and "\<And>d x d'. lifecycle_ok d \<Longrightarrow> known l d \<Longrightarrow> P d \<Longrightarrow> f d = (x, d') \<Longrightarrow> Q x d'"
  shows "ends l P (commit_act f) Q"
proof (rule endsI)
  fix env r x r' assume r: "good l r" and P: "P (rn_db r)" and run: "commit_act f env r = (x, r')"
  obtain y d where d: "f (rn_db r) = (y, d)" by fastforce
  with run have "x = Value y" "rn_db r' = d" "rn_lost r' = rn_lost r" by (auto simp: commit_act_def)
  moreover from this d assms(1) [of "rn_db r"] have "good l r'" by (intro good_steps [OF r]) simp_all
  moreover have "Q y d" using assms(2) [OF _ _ P d] r by (simp add: good_def)
  ultimately
  show "good l r' \<and> (case x of Value v \<Rightarrow> Q v (rn_db r') | Returned \<Rightarrow> released l (rn_db r') | Thrown e \<Rightarrow> True)"
    by simp
qed

lemma ends_tx:
  assumes "\<And>d x d'. f d = Inr (x, d') \<Longrightarrow> step\<^sup>*\<^sup>* d d'"
    and "\<And>d x d'. lifecycle_ok d \<Longrightarrow> known l d \<Longrightarrow> P d \<Longrightarrow> f d = Inr (x, d') \<Longrightarrow> Q x d'"
  shows "ends l P (tx_act f) Q"
proof (rule endsI)
  fix env r x r' assume r: "good l r" and P: "P (rn_db r)" and run: "tx_act f env r = (x, r')"
  show "good l r' \<and> (case x of Value v \<Rightarrow> Q v (rn_db r') | Returned \<Rightarrow> released l (rn_db r') | Thrown e \<Rightarrow> True)"
  proof (cases "f (rn_db r)")
    case (Inl e)
    with run r show ?thesis by (auto simp: tx_act_def)
  next
    case (Inr p)
    then obtain y d where d: "f (rn_db r) = Inr (y, d)" by (cases p) auto
    with run have "x = Value y" "rn_db r' = d" "rn_lost r' = rn_lost r" by (auto simp: tx_act_def)
    moreover from this assms(1) [OF d] have "good l r'" by (intro good_steps [OF r]) simp_all
    moreover have "Q y d" using assms(2) [OF _ _ P d] r by (simp add: good_def)
    ultimately show ?thesis by simp
  qed
qed

text \<open>What stays while others commit.\<close>

definition lasts :: "lease \<Rightarrow> (db \<Rightarrow> bool) \<Rightarrow> bool" where
  "lasts l P \<longleftrightarrow> (\<forall>env n d. fair l env \<longrightarrow> lifecycle_ok d \<longrightarrow> P d \<longrightarrow> P (en_others env n d))"

lemma lasts_released: "lasts l (released l)"
  unfolding lasts_def fair_def others_step_def by (blast intro: steps_keep(3))

lemma lasts_unstarted: "lasts l (unstarted l)"
  by (simp add: lasts_def fair_def)

lemma lasts_true: "lasts l (\<lambda>_. True)" "lasts l (\<lambda>_. c)"
  by (simp_all add: lasts_def)

lemma lasts_imp: "lasts l P \<Longrightarrow> lasts l (\<lambda>d. c \<longrightarrow> P d)"
  by (simp add: lasts_def)

lemma lasts_conj: "lasts l P \<Longrightarrow> lasts l (\<lambda>d. c \<and> P d)"
  by (simp add: lasts_def)

lemma ends_wait:
  assumes "lasts l P"
  shows "ends l P (wait_act x) (\<lambda>v d. x = Inr v \<and> P d)"
proof (rule endsI)
  fix env r y r' assume env: "fair l env" and r: "good l r" and P: "P (rn_db r)" and run: "wait_act x env r = (y, r')"
  have "step\<^sup>*\<^sup>* (rn_db r) (rn_db r')" "rn_lost r' = rn_lost r" "P (rn_db r')"
    using run env P assms r by (auto simp: wait_act_def fair_def others_step_def lasts_def good_def)
  with good_steps [OF r] run
  show "good l r' \<and> (case y of Value v \<Rightarrow> x = Inr v \<and> P (rn_db r') | Returned \<Rightarrow> released l (rn_db r') | Thrown e \<Rightarrow> True)"
    by (auto simp: wait_act_def split: sum.splits)
qed

lemma ends_rename:
  assumes "lasts l P"
  shows "ends l P (rename_act x g) (\<lambda>_. P)" and "ends l P (remove_published x) (\<lambda>_. P)"
proof -
  have *: "ends l P (\<lambda>env r. (Value (), r\<lparr>rn_outputs := f r, rn_published := h r\<rparr>)) (\<lambda>_. P)" for f h
    by (rule endsI) (auto simp: good_def)
  have **: "ends l P (\<lambda>env r. (Value (), r\<lparr>rn_outputs := f r\<rparr>)) (\<lambda>_. P)" for f
    by (rule endsI) (auto simp: good_def)
  show "ends l P (remove_published x) (\<lambda>_. P)"
    unfolding remove_published_def by (rule ends_andthen [OF ends_wait [OF assms]], rule ends_pre, rule **) simp
  show "ends l P (rename_act x g) (\<lambda>_. P)"
    unfolding rename_act_def by (rule ends_andthen [OF ends_wait [OF assms]], rule ends_pre, rule *) simp
qed

section \<open>The acts of a processor\<close>

lemma ends_mark_canceled: "ends l P (mark_canceled_act l) (\<lambda>_. released l)"
proof -
  have "ends l P (commit_act (leased l (mark_canceled now None))) (\<lambda>_. released l)" for now
    by (rule ends_commit) (rule fenced_steps [OF fenced_mark_canceled], rule mark_canceled_released)
  then show ?thesis unfolding mark_canceled_act_def by (rule ends_andthen [OF ends_own(1)])
qed

lemma ends_canceled: "ends l P (canceled_act l)
    (\<lambda>c d. if c then released l d else P d \<and> \<not> (owns l d \<and> cancel_requested l d))"
  unfolding canceled_act_def
proof (rule ends_andthen [OF ends_read], rule ends_if)
  fix v
  show "ends l (\<lambda>d. v \<and> v = (owns l d \<and> cancel_requested l d) \<and> P d)
      (andthen (mark_canceled_act l) (\<lambda>_. value_act True))
      (\<lambda>c d. if c then released l d else P d \<and> \<not> (owns l d \<and> cancel_requested l d))"
    by (rule ends_andthen [OF ends_mark_canceled], rule ends_post [OF ends_value]) simp
  show "ends l (\<lambda>d. \<not> v \<and> v = (owns l d \<and> cancel_requested l d) \<and> P d) (value_act False)
      (\<lambda>c d. if c then released l d else P d \<and> \<not> (owns l d \<and> cancel_requested l d))"
    by (rule ends_post [OF ends_value]) auto
qed

lemma renewed_in_hand:
  assumes "lifecycle_ok d" and "known l d" and "leased l (heartbeat now until) d = (n, d')" and "n \<noteq> 1"
  shows "released l d'"
proof -
  let ?p = "\<lambda>j. holds_lease (le_job l) (le_worker l) (le_generation l) j \<and> j_status j \<in> {Validating, Running}"
  from assms(3) have "n = changes ?p (jobs d)" by (auto simp: leased_def heartbeat_def update_jobs_def)
  moreover have "changes ?p (jobs d) \<le> 1" by (rule changes_lease_le_one [OF assms(1)])
  ultimately have "changes ?p (jobs d) = 0" using assms(4) by simp
  from no_change_released [OF assms(1,2) this] have "released l d" by simp
  moreover have "step d d'" using step.heartbeat [of d now until] assms(3) by (metis leased_def snd_conv)
  ultimately show ?thesis using step_released assms(1) by blast
qed

lemma ends_renew: "ends l P (renew_act l) (\<lambda>ok d. \<not> ok \<longrightarrow> released l d)"
proof -
  have "ends l P (commit_act (leased l (heartbeat now until))) (\<lambda>n d. n \<noteq> 1 \<longrightarrow> released l d)" for now until
    by (rule ends_commit) (auto simp: leased_def intro: step.heartbeat renewed_in_hand [unfolded leased_def])
  then show ?thesis
    unfolding renew_act_def
    by (intro ends_andthen [OF ends_own(1)] ends_andthen, assumption) (rule ends_post [OF ends_value], simp)
qed

lemma ends_stopped: "ends l P (stopped_or_fenced l) (\<lambda>_. released l)"
  unfolding stopped_or_fenced_def
  by (rule ends_andthen [OF ends_read], rule ends_if)
    (rule ends_post [OF ends_value], simp add: not_owns_released,
     rule ends_andthen [OF ends_canceled], rule ends_if, rule ends_post [OF ends_value], simp, rule ends_throw)

lemma ends_start: "ends l P (start_stage l stage) (\<lambda>_ _. True)"
proof -
  have "step\<^sup>*\<^sup>* d d'" if "leased l (stage_start stage) d = Inr (x, d')" for d x d'
    using fenced_steps [OF fenced_stage_start [OF that]] .
  then show ?thesis
    unfolding start_stage_def
    by (intro ends_andthen [where Q = "\<lambda>_ _. True"] ends_tx ends_if ends_post [OF ends_value]
        ends_andthen [OF ends_stopped] ends_return) auto
qed

lemma ends_stop_if_canceled: "ends l P (stop_if_canceled l) (\<lambda>_ _. True)"
  unfolding stop_if_canceled_def
  by (rule ends_andthen [OF ends_read], rule ends_andthen [OF ends_unless], simp add: not_owns_released,
      rule ends_andthen [OF ends_read], rule ends_if, rule ends_post [OF ends_value], simp,
      rule ends_andthen [OF ends_mark_canceled], rule ends_return)

lemma ends_renewed_and_owned: "ends l P (renewed_and_owned l) (\<lambda>_ _. True)"
  unfolding renewed_and_owned_def
  by (rule ends_andthen [OF ends_renew], rule ends_andthen [OF ends_unless], simp,
      rule ends_andthen [OF ends_read], rule ends_post [OF ends_unless]) (simp_all add: not_owns_released)

text \<open>Ends that cannot return: generations, digests and other checks.\<close>

lemma ends_generation: "ends l P (generation_act n svg) (\<lambda>_. P)"
  unfolding generation_act_def
  by (cases "storage_generation n svg") (auto intro: ends_throw ends_post [OF ends_value])

lemma ends_verify: "ends l (\<lambda>_. True) (verify_pdf io s second) (\<lambda>_ _. True)"
  unfolding verify_pdf_def
  by (rule ends_andthen [OF ends_wait [OF lasts_true(1)]]) (auto intro: ends_weaken [OF ends_when] split: prod.splits)

lemma ends_find_pdf: "ends l P (find_pdf as) (\<lambda>_ _. True)"
  unfolding find_pdf_def
  by (rule ends_andthen [OF ends_when], rule ends_option) (rule ends_throw, rule ends_post [OF ends_value], simp)

text \<open>A publication whose transaction ends the job, or finds it released.\<close>

lemma ends_publish:
  assumes "\<And>ts now ids d x d'. tx ts now ids d = Inr (x, d') \<Longrightarrow> step\<^sup>*\<^sup>* d d'"
    and "\<And>ts now ids d x d'. lifecycle_ok d \<Longrightarrow> known l d \<Longrightarrow> P d \<Longrightarrow> tx ts now ids d = Inr (x, d') \<Longrightarrow> Q x d'"
    and "lasts l P"
  shows "ends l P (publish_act renamed g tx n) Q"
proof -
  have "ends l P (tx_act (tx ts now ids)) Q" for ts now ids
    by (rule ends_tx) (rule assms(1) assms(2); assumption)+
  then have "ends l P (andthen (tx_act (tx ts now ids)) (\<lambda>committed.
       if committed then andthen (settle_act g) (\<lambda>_. value_act True) else value_act False)) Q" for ts now ids
  proof (rule ends_andthen, intro ends_if)
    show "ends l (\<lambda>d. v \<and> Q v d) (andthen (settle_act g) (\<lambda>_. value_act True)) Q" for v
      by (rule ends_andthen [OF ends_own(4)], rule ends_post [OF ends_value]) (cases v; simp)
    show "ends l (\<lambda>d. \<not> v \<and> Q v d) (value_act False) Q" for v
      by (rule ends_post [OF ends_value]) (cases v; simp)
  qed
  then show ?thesis
    unfolding publish_act_def
    by (intro ends_andthen [OF ends_rename(1) [OF assms(3)]] ends_andthen [OF ends_own(1)] ends_andthen [OF ends_own(2)])
qed

section \<open>The transactions that end a job\<close>

lemma owned_tx_released:
  assumes "lifecycle_ok d" and "known l d" and "owned_tx l src dst ts us d = Inr (x, d')"
    and "worker_transition src dst us" and "dst \<notin> {Validating, Running}"
  shows "released l d'"
proof -
  have s: "step\<^sup>*\<^sup>* d d'" using steps_txD [OF steps_owned_tx [OF assms(4)] assms(3)] .
  from owned_tx_status [OF assms(3)] obtain j where "j \<in> set (jobs d')" "j_id j = le_job l" "j_status j = dst"
    by blast
  with status_released [OF steps_keep(1,2) [OF s assms(1)]] assms(2,5) show ?thesis by blast
qed

lemma ending_status: "job_status_of st \<notin> {Validating, Running}"
  by (cases st) simp_all

text \<open>Artifacts, the transition to the final status, and the audit record.\<close>

lemma ending_tx_released:
  assumes "seq_tx ins (\<lambda>_. seq_tx (owned_tx l [Running] (job_status_of st) ts
      (ending_columns st ts bytes code r @ us)) (\<lambda>_. seq_tx (write_tx (audit a)) (\<lambda>_. return_tx True))) d = Inr (x, d')"
    and "steps_tx ins" and "us = [] \<or> us = [SetHeartbeatAt h]" and "lifecycle_ok d" and "known l d"
  shows "released l d'"
proof -
  from assms(1) obtain u e v e' where e: "ins d = Inr (u, e)" and o1: "owned_tx l [Running] (job_status_of st) ts
      (ending_columns st ts bytes code r @ us) e = Inr (v, e')" and d': "d' = audit a e'"
    by (auto simp: seq_tx_Inr_iff write_tx_def return_tx_def)
  note e_ok = steps_keep(1,2) [OF steps_txD [OF assms(2) e] assms(4)]
  note t = final_transition [OF assms(3)]
  have "released l e'"
    using owned_tx_released [OF e_ok(1) e_ok(2) [OF assms(5)] o1 t ending_status] .
  moreover have "lifecycle_ok e'" using steps_keep(1) [OF steps_txD [OF steps_owned_tx [OF t] o1] e_ok(1)] .
  ultimately show ?thesis unfolding d' using steps_keep(3) [OF audit_step] by blast
qed

lemma fail_pdf_released:
  assumes "lifecycle_ok d" and "known l d" and "fail_pdf_tx l img as g code r ts now d = Inr (x, d')"
  shows "released l d'"
proof -
  consider "\<not> owns l d" | "owns l d" "cancel_requested l d" | "owns l d" "\<not> cancel_requested l d" by blast
  then show ?thesis
  proof cases
    case 1
    with assms not_owns_released show ?thesis by (simp add: fail_pdf_tx_def)
  next
    case 2
    obtain n e where "leased l (mark_canceled now None) d = (n, e)" by fastforce
    with 2 assms(3) mark_canceled_released [OF assms(1,2) this] show ?thesis by (simp add: fail_pdf_tx_def)
  next
    case 3
    with assms(3) have "seq_tx (insert_artifacts publish_stage (le_job l) img g ts None as) (\<lambda>_.
        seq_tx (owned_tx l [Running] (job_status_of (rr_status r)) ts
          (ending_columns (rr_status r) ts (total_size (map snd as)) code r @ [])) (\<lambda>_.
        seq_tx (write_tx (audit (worker_audit l (rr_audit_action r) (render_status_text (rr_status r)) [] ts)))
          (\<lambda>_. return_tx True))) d = Inr (x, d')" by (simp add: fail_pdf_tx_def)
    then show ?thesis
      by (rule ending_tx_released) (rule steps_insert_artifacts, rule steps_artifact, simp, rule assms(1), rule assms(2))
  qed
qed

lemma finish_svg_released:
  assumes "lifecycle_ok d" and "known l d" and "finish_svg_tx l img as g bytes code r s ts d = Inr (x, d')"
  shows "x \<longrightarrow> released l d'"
proof
  assume x
  let ?first = "leased l complete_svg \<lparr>sr_generation = g, sr_outcome = svg_outcome_of (rr_status r),
       sr_error_code = rr_error_code r, sr_error_message = rr_error_message r, sr_completed_at = ts\<rparr>"
  from assms(3) \<open>x\<close> obtain e where e: "?first d = Inr (True, e)" and rest:
    "seq_tx (insert_artifacts publish_stage (le_job l) img g ts None as) (\<lambda>_.
       seq_tx (owned_tx l [Running] (job_status_of (rr_status r)) ts
         (ending_columns (rr_status r) ts bytes code r @ [SetHeartbeatAt (Some ts)])) (\<lambda>_.
       seq_tx (write_tx (audit (worker_audit l
         (if rr_status r = RSucceeded then ''render.succeeded'' else ''render.svg.failed'')
         (render_status_text (rr_status r))
         [(''pdfSha256'', case st_pdf_sha256 s of None \<Rightarrow> JNull | Some h \<Rightarrow> JStr h),
          (''svgAttempt'', JNum (int (st_svg_attempt s))), (''exitCode'', JNum code)] ts)))
         (\<lambda>_. return_tx True))) e = Inr (x, d')"
    unfolding finish_svg_tx_def seq_tx_Inr_iff [of ?first] by (auto simp: return_tx_def split: if_splits)
  have "step d e" using e unfolding leased_def by (rule step.complete_svg)
  then have "lifecycle_ok e" "known l e" using step_ok step_known assms(1,2) by blast+
  with rest show "released l d'"
    by (intro ending_tx_released [OF rest]) (auto intro: steps_insert_artifacts steps_artifact)
qed

lemma finish_plain_released:
  assumes "lifecycle_ok d" and "known l d" and "lost \<longrightarrow> released l d"
    and "finish_plain_tx l img lost as code r pages ts now d = Inr (x, d')"
  shows "released l d'"
proof -
  from assms(4) obtain s where s: "runtime_state d (le_job l) = Some s"
    by (auto simp: finish_plain_tx_def split: option.splits)
  consider "lost \<or> \<not> owns l d" | "\<not> lost" "owns l d" "rs_cancel_requested_at s \<noteq> None \<or> rs_status s = Canceled"
    | "\<not> lost" "owns l d" "\<not> (rs_cancel_requested_at s \<noteq> None \<or> rs_status s = Canceled)" by blast
  then show ?thesis
  proof cases
    case 1
    with assms s not_owns_released show ?thesis by (auto simp: finish_plain_tx_def)
  next
    case 2
    then obtain n where "leased l (mark_canceled now (Some (total_size (map snd as)))) d = (n, d')"
      using assms(4) s by (auto simp: finish_plain_tx_def split: prod.splits)
    then show ?thesis by (rule mark_canceled_released [OF assms(1,2)])
  next
    case 3
    with assms(4) s have "seq_tx (insert_artifacts artifact_insert (le_job l) img (le_generation l) ts pages as) (\<lambda>_.
            seq_tx (owned_tx l [Running] (job_status_of (rr_status r)) ts
              (ending_columns (rr_status r) ts (total_size (map snd as)) code r @ [SetHeartbeatAt (Some ts)])) (\<lambda>_.
            seq_tx (write_tx (audit (worker_audit l (rr_audit_action r)
              (if rr_status r = RSucceeded then ''success'' else ''failed'')
              [(''outputSize'', JNum (int (total_size (map snd as)))),
               (''artifactCount'', JNum (int (length as))), (''exitCode'', JNum code)] ts)))
            (\<lambda>_. return_tx True))) d = Inr (x, d')" by (simp add: finish_plain_tx_def)
    then show ?thesis
      by (rule ending_tx_released)
        (rule steps_insert_artifacts, rule steps_artifact, simp, rule assms(1), rule assms(2))
  qed
qed

lemma finish_failure_released:
  assumes "lifecycle_ok d" and "known l d" and "leased l (finish_failure rejected code m now b) d = (n, d')"
  shows "released l d'"
proof -
  have s: "step d d'" using step.finish_failure [of d rejected code m now b] assms(3) by (metis leased_def snd_conv)
  show ?thesis
  proof (cases "n = 0")
    case True
    then have "changes (\<lambda>j. holds_lease (le_job l) (le_worker l) (le_generation l) j \<and>
        j_status j \<in> {Validating, Running}) (jobs d) = 0"
      using assms(3) by (simp add: leased_def finish_failure_def update_jobs_status_def Let_def)
    from no_change_released [OF assms(1,2) this] step_released [OF s assms(1)] show ?thesis by simp
  next
    case False
    with finish_failure_public [OF assms(3)] obtain j where "j \<in> set (jobs d')" "j_id j = le_job l"
      "j_status j \<in> {Failed, Rejected}" by blast
    with status_released [of d' l j] step_ok [OF s assms(1)] step_known [OF s assms(1,2)] show ?thesis by auto
  qed
qed

lemma late_failure_released:
  assumes "lifecycle_ok d" and "known l d" and "record_late_failure l code m rejected now d = (u, d')"
  shows "released l d'"
proof -
  from assms(2) obtain j where j: "job_of d (le_job l) = Some j" by (auto simp: known_def)
  obtain n e where e: "leased l (mark_canceled now None) d = (n, e)" by fastforce
  obtain k f where f: "leased l (finish_failure rejected code (take 16384 m) now (coalesce (j_output_size j) 0)) d =
      (k, f)" by fastforce
  note f_ok = finish_failure_released [OF assms(1,2) f]
  have "lifecycle_ok f" using steps_keep(1) [OF fenced_steps [OF fenced_finish_failure] assms(1)] f by (metis snd_conv)
  with f_ok have "released l (audit a f)" for a using steps_keep(3) [OF audit_step] by blast
  with f_ok mark_canceled_released [OF assms(1,2) e] assms(3) j e f show ?thesis
    by (auto simp: record_late_failure_def split: if_splits)
qed

lemma record_failure_released:
  assumes "lifecycle_ok d" and "known l d" and "record_failure_tx l img code m rejected as ts d = Inr (x, d')"
  shows "released l d'"
  using assms(3)
proof (rule record_failure_cases)
  fix n e
  assume e: "leased l (finish_failure rejected code m ts (total_size (map snd as))) d = (n, e)"
    and rest: "n \<noteq> 1 \<Longrightarrow> d' = e" "n = 1 \<Longrightarrow> step\<^sup>*\<^sup>* e d' \<and> jobs d' = jobs e"
  have r: "released l e" by (rule finish_failure_released [OF assms(1,2) e])
  have "lifecycle_ok e" using steps_keep(1) [OF fenced_steps [OF fenced_finish_failure] assms(1)] e by (metis snd_conv)
  with r rest steps_keep(3) show ?thesis by (cases "n = 1") auto
qed

lemma reject_released:
  assumes "lifecycle_ok d" and "known l d" and "unstarted l d" and "reject_tx l ts d = Inr (u, d')"
  shows "released l d'"
proof -
  let ?us = "[SetRenderStatus (Some Rejected), SetCompletedAt (Some ts), SetErrorCode (Some ''ACCOUNT_INACTIVE''),
        SetErrorMessage (Some ''Job owner, service account, or API key is inactive''),
        SetLeaseOwner None, SetLeaseExpiresAt None]"
  have s: "step\<^sup>*\<^sup>* d d'" using fenced_steps [OF fenced_reject [OF assms(4)]] .
  from assms(4) obtain n e where t: "transition_update [Validating] Rejected ts ?us (le_job l) (le_worker l)
      (le_generation l) d = (n, e)" and rest: "n \<noteq> 1 \<and> d' = e \<or> n = 1 \<and> (\<exists>a. d' = audit a e)"
    by (auto simp: reject_tx_def seq_tx_Inr_iff return_tx_def write_tx_def leased_def transition_owned_def split: if_splits)
  then have n: "n = changes (\<lambda>j. holds_lease (le_job l) (le_worker l) (le_generation l) j \<and> j_status j = Validating) (jobs d)"
    by (auto simp: transition_update_def update_jobs_status_def Let_def)
  show ?thesis
  proof (cases "n = 0")
    case True
    from assms(2) obtain j where j: "job_of d (le_job l) = Some j" "le_generation l \<le> j_lease_generation j"
      by (auto simp: known_def)
    with True n lifecycle_job [OF assms(1) j(1)] assms(3) have "\<not> in_hand l j"
      by (auto simp: changes_zero_iff unstarted_def in_hand_def leased_def)
    with j have "released l d" by (auto simp: released_def)
    with s assms(1) steps_keep(3) show ?thesis by blast
  next
    case False
    with n changes_lease_le_one [OF assms(1)] have one: "n = 1" by (metis le_SucE le_zero_eq One_nat_def)
    from t False obtain j where "j \<in> set (jobs e)" "j_id j = le_job l" "j_status j = Rejected"
      unfolding transition_update_def by (rule update_status_some) (auto simp: holds_lease_def)
    with one rest have "j \<in> set (jobs d')" by (auto simp: audit_def)
    then show ?thesis
      using status_released [of d' l j] steps_keep(1,2) [OF s assms(1)] assms(2) \<open>j_id j = le_job l\<close>
        \<open>j_status j = Rejected\<close> by simp
  qed
qed

section \<open>The processors\<close>

abbreviation ends_any :: "lease \<Rightarrow> 'a act \<Rightarrow> bool" where
  "ends_any l m \<equiv> ends l (\<lambda>_. True) m (\<lambda>_ _. True)"

lemma ends_then: "ends_any l m \<Longrightarrow> (\<And>v. ends l (\<lambda>_. True) (k v) S) \<Longrightarrow> ends l (\<lambda>_. True) (andthen m k) S"
  by (rule ends_andthen)

lemma ends_waiting_any: "ends_any l (wait_act x)"
  by (rule ends_post [OF ends_wait [OF lasts_true(1)]]) simp

lemma any_simple: "ends_any l (value_act x)" "ends_any l (throw_when b e)" "ends_any l (read_act f)"
    "ends_any l (outcome_act w)" "ends_any l (generation_act n svg)" "ends_any l now_act" "ends_any l (pin_act p)"
  by (rule ends_post [OF ends_value] ends_post [OF ends_when] ends_post [OF ends_read]
      ends_post [OF ends_outcome] ends_generation ends_own; simp)+

lemma ends_fail_pdf: "ends_any l (fail_pdf_act c io l code r)"
proof -
  have "ends l (\<lambda>_. True) (publish_act rn h (\<lambda>ts now is. fail_pdf_tx l img (zip is as) g code r ts now) n)
      (\<lambda>_. released l)" for rn h img as g n
    by (rule ends_publish) (rule fenced_steps, rule fenced_fail_pdf, assumption, (rule fail_pdf_released; assumption),
      rule lasts_true)
  then show ?thesis
    unfolding fail_pdf_act_def
    by (intro ends_then [OF ends_waiting_any] ends_then [OF any_simple(5)] ends_andthen) (assumption, rule ends_return)
qed

lemma ends_publish_pdf: "ends_any l (publish_pdf_act c io l)"
proof -
  have p: "ends_any l (publish_act rn h (\<lambda>ts now is. publish_pdf_tx l img (zip is as) g pdf sync pages ts) n)"
    for rn h img as g pdf sync pages n
    by (rule ends_publish) (rule fenced_steps, rule fenced_publish_pdf, assumption, rule TrueI, rule lasts_true)
  have stop: "ends_any l (andthen (stopped_or_fenced l) (\<lambda>_. return_act))"
    by (rule ends_andthen [OF ends_stopped], rule ends_return)
  show ?thesis
    unfolding publish_pdf_act_def Let_def
    by (intro ends_then [OF ends_waiting_any] ends_then [OF ends_find_pdf] ends_then [OF any_simple(2)]
        ends_then [OF any_simple(5)] ends_then [OF ends_renewed_and_owned] ends_then [OF p] ends_if
        ends_pre [OF any_simple(1)] ends_pre [OF stop] TrueI)
qed

lemma ends_pdf_stage: "ends_any l (pdf_stage c io l)"
  unfolding pdf_stage_def Let_def
  by (intro ends_then [OF ends_start] ends_then [OF ends_waiting_any] ends_then [OF ends_stop_if_canceled]
      ends_if ends_pre [OF ends_fail_pdf] ends_pre [OF ends_publish_pdf] TrueI)

lemma ends_checkpoint: "ends_any l (checkpoint_act c j)"
  unfolding checkpoint_act_def
proof (rule ends_then [OF any_simple(3)])
  show "ends_any l (case x of Inl e \<Rightarrow> throw_act e | Inr s \<Rightarrow> value_act s)" for x
    by (cases x) (simp_all add: ends_throw any_simple(1))
qed

lemma ends_catch:
  assumes "ends l P m Q" and "\<And>e. ends l (\<lambda>_. True) (h e) Q"
  shows "ends l P (catch_act m h) Q"
proof (rule endsI)
  fix env r x r' assume env: "fair l env" and r: "good l r" and P: "P (rn_db r)" and run: "catch_act m h env r = (x, r')"
  obtain y s where y: "m env r = (y, s)" by fastforce
  note first = endsD [OF assms(1) env r P y]
  show "good l r' \<and> (case x of Value v \<Rightarrow> Q v (rn_db r') | Returned \<Rightarrow> released l (rn_db r') | Thrown e \<Rightarrow> True)"
  proof (cases y)
    case (Thrown e)
    with run y have h: "h e env s = (x, r')" by (simp add: catch_act_def)
    from first have "good l s" by simp
    from endsD [OF assms(2) env this TrueI h] show ?thesis .
  qed (use run y first in \<open>auto simp: catch_act_def\<close>)
qed

lemma ends_run_svg: "ends_any l (run_svg io)"
  unfolding run_svg_def
proof (rule ends_catch)
  show "ends_any l (andthen (wait_act (io_run io Svg)) (\<lambda>x. andthen (wait_act (io_metadata io Svg)) (\<lambda>_.
      value_act (svg_result_of x, ex_exit_code x))))"
    by (intro ends_then [OF ends_waiting_any] any_simple(1))
  show "ends_any l (if e = Deferred then throw_act e
     else andthen (wait_act (io_svg_fallback io)) (\<lambda>_. value_act (svg_failure e, 79)))" for e
    by (cases "e = Deferred") (auto intro: ends_throw ends_then [OF ends_waiting_any] any_simple(1))
qed

lemma ends_publish_svg: "ends l (\<lambda>_. True) (publish_svg_act c io l s r code) (\<lambda>_. released l)"
proof -
  have p: "ends l (\<lambda>_. True) (publish_act rn h (\<lambda>ts now is. finish_svg_tx l img (zip is as) g bytes code r s ts) n)
      (\<lambda>x d. x \<longrightarrow> released l d)" for rn h img as g bytes n
    by (rule ends_publish) (rule fenced_steps, rule fenced_finish_svg, assumption, (rule finish_svg_released; assumption),
      rule lasts_true)
  have last: "ends l (\<lambda>d. x \<longrightarrow> released l d) (if x then value_act () else stopped_or_fenced l) (\<lambda>_. released l)" for x
    by (rule ends_if) (rule ends_post [OF ends_value], simp, rule ends_stopped)
  show ?thesis
    unfolding publish_svg_act_def Let_def
    by (intro ends_then [OF ends_waiting_any] ends_then [OF any_simple(2)] ends_then [OF ends_verify]
        ends_then [OF any_simple(5)] ends_then [OF any_simple(3)] ends_then [OF ends_renewed_and_owned]
        ends_andthen [OF p] last)
qed

lemma ends_svg_stage: "ends l (\<lambda>_. True) (svg_stage c io l s) (\<lambda>_. released l)"
proof -
  have "ends l (\<lambda>_. True) (case v of (r, code) \<Rightarrow> andthen (stop_if_canceled l) (\<lambda>_. publish_svg_act c io l s r code))
      (\<lambda>_. released l)" for v
    by (cases v) (simp add: ends_then [OF ends_stop_if_canceled ends_publish_svg])
  then show ?thesis
    unfolding svg_stage_def
    by (intro ends_then [OF ends_verify] ends_then [OF ends_start] ends_then [OF ends_run_svg])
qed

text \<open>The job that waits is started, unless it is canceled by then.\<close>

lemma started_released:
  assumes "lifecycle_ok d" and "known l d" and "unstarted l d"
    and "leased l (\<lambda>i w g. transition_owned i w g [Validating] Running ts [SetStartedAt s]) d = Inr (n, d')"
  shows "n = 1 \<or> released l d'"
proof (cases "n = 1")
  case False
  from assms(4) have t: "transition_update [Validating] Running ts [SetStartedAt s] (le_job l) (le_worker l)
      (le_generation l) d = (n, d')" by (auto simp: leased_def transition_owned_def split: if_splits)
  then have n: "n = changes (\<lambda>j. holds_lease (le_job l) (le_worker l) (le_generation l) j \<and> j_status j = Validating) (jobs d)"
    by (auto simp: transition_update_def update_jobs_status_def Let_def)
  with False changes_lease_le_one [OF assms(1), of "le_job l" "le_worker l" "le_generation l" "\<lambda>j. j_status j = Validating"]
  have "n = 0" by linarith
  from assms(2) obtain j where j: "job_of d (le_job l) = Some j" "le_generation l \<le> j_lease_generation j"
    by (auto simp: known_def)
  with \<open>n = 0\<close> n lifecycle_job [OF assms(1) j(1)] assms(3) have "\<not> in_hand l j"
    by (auto simp: changes_zero_iff unstarted_def in_hand_def leased_def)
  with j have "released l d" by (auto simp: released_def)
  moreover have "step\<^sup>*\<^sup>* d d'" using fenced_steps [OF fenced_transition [OF assms(4) start_transition]] .
  ultimately show ?thesis using steps_keep(3) assms(1) by blast
qed simp

lemma ends_start_job:
  "ends l (unstarted l) (owned_act l [Validating] Running ts [SetStartedAt s]) (\<lambda>n d. n = 1 \<or> released l d)"
  unfolding owned_act_def
  by (rule ends_tx) (rule fenced_steps [OF fenced_transition [OF _ start_transition]], assumption,
    (rule started_released; assumption))

lemma ends_run_stages: "ends l (unstarted l) (run_stages c io j l) (\<lambda>_. released l)"
proof -
  have run: "ends l (unstarted l) (run_job_act l) (\<lambda>_ _. True)"
    unfolding run_job_act_def
    by (intro ends_andthen [OF ends_own(1)] ends_andthen [OF ends_start_job])
      (rule ends_post [OF ends_unless], simp_all)
  show ?thesis
    unfolding run_stages_def
    by (rule ends_andthen [OF run]) (intro ends_then [OF any_simple(3)] ends_then [OF ends_checkpoint]
        ends_then [where m = "if _ then _ else _"] ends_if ends_pre [OF any_simple(1)] ends_pre [OF ends_pdf_stage]
        ends_svg_stage TrueI)
qed

text \<open>What a claimed job is when its processing begins.\<close>

definition claimed_row :: "lease \<Rightarrow> json_text \<Rightarrow> db \<Rightarrow> bool" where
  "claimed_row l outs d \<longleftrightarrow> unstarted l d \<and> (\<forall>k. job_of d (le_job l) = Some k \<longrightarrow>
     j_outputs k = outs \<and> length (j_source_sha256 k) = 64)"

definition asks_svg :: "json_text \<Rightarrow> bool" where
  "asks_svg outs \<longleftrightarrow> (case outs of None \<Rightarrow> False | Some v \<Rightarrow> JStr ''svg'' \<in> set (json_each v))"

lemma initialized:
  assumes "lifecycle_ok d" and "known l d" and "claimed_row l outs d" and "asks_svg outs"
    and "owns l d" and "\<not> cancel_requested l d"
    and "leased l (\<lambda>i w g. stage_initialize i w g img) d = (ok, d')"
  shows "unstarted l d' \<and> (\<not> ok \<longrightarrow> released l d')"
proof -
  have jobs: "jobs d' = jobs d" using assms(7)
    by (auto simp: leased_def stage_initialize_def Let_def split: option.splits if_splits)
  have "released l d'" if "\<not> ok"
  proof -
    from assms(2) obtain j where j: "job_of d (le_job l) = Some j" "le_generation l \<le> j_lease_generation j"
      by (auto simp: known_def)
    have "\<not> in_hand l j"
    proof
      assume "in_hand l j"
      with j assms(3,4,6) have wants: "wants_stages (le_job l) (le_worker l) (le_generation l) j"
        by (auto simp: wants_stages_def in_hand_def leased_def claimed_row_def asks_svg_def cancel_requested_def
            runtime_state_def)
      moreover have "j \<in> set (jobs d)" using lifecycle_job [OF assms(1) j(1)] by simp
      ultimately obtain k where k: "find (wants_stages (le_job l) (le_worker l) (le_generation l)) (jobs d) = Some k"
        by (metis find_None_iff not_None_eq)
      then have "k \<in> set (jobs d)" "j_id k = le_job l" by (auto simp: find_Some_iff wants_stages_def holds_lease_def)
      then have "job_of d (le_job l) = Some k"
        using job_table.row_by_in [of "jobs d" k] assms(1) by (simp add: lifecycle_ok_def)
      then have "length (j_source_sha256 k) = 64" "j_id k = le_job l"
        using assms(3) \<open>j_id k = le_job l\<close> by (auto simp: claimed_row_def)
      then have "stage_check (new_stage img k)" by (simp add: stage_check_def new_stage_def positive_opt_def len64_def)
      then have "checkpoint d' (le_job l) \<noteq> None"
        using assms(7) k \<open>j_id k = le_job l\<close>
        by (auto simp: leased_def stage_initialize_def Let_def checkpoint_def row_by_append new_stage_def
            split: option.splits if_splits)
      moreover have "ok = (checkpoint d' (le_job l) \<noteq> None)"
        using assms(7) by (auto simp: leased_def stage_initialize_def Let_def)
      ultimately show False using that by simp
    qed
    with j jobs show ?thesis by (auto simp: released_def)
  qed
  moreover have "unstarted l d'" using assms(3) jobs by (simp add: unstarted_def claimed_row_def)
  ultimately show ?thesis by blast
qed

lemma ends_begin: "asks_svg outs \<Longrightarrow> ends l (claimed_row l outs) (begin_stages c io l) (\<lambda>_. unstarted l)"
  unfolding begin_stages_def
proof (rule ends_andthen [OF ends_read], rule ends_andthen [OF ends_when], rule ends_andthen [OF ends_read],
    rule ends_andthen [OF ends_unless], simp add: not_owns_released, rule ends_andthen [OF ends_canceled],
    rule ends_andthen [OF ends_unless], simp, rule ends_andthen)
  assume svg: "asks_svg outs"
  fix v va vb :: bool and u u1 u2 :: unit
  show "ends l (\<lambda>d. \<not> vb \<and> (if vb then released l d else (va \<and> va = owns l d \<and> \<not> v \<and>
        v = (checkpoint d (le_job l) = None \<and> has_published_pdf d (le_job l)) \<and> claimed_row l outs d) \<and>
        \<not> (owns l d \<and> cancel_requested l d)))
      (commit_act (leased l (\<lambda>i w g. stage_initialize i w g (wc_image c))))
      (\<lambda>ok d. unstarted l d \<and> (\<not> ok \<longrightarrow> released l d))"
  proof (rule ends_commit)
    show "step\<^sup>*\<^sup>* d (snd (leased l (\<lambda>i w g. stage_initialize i w g (wc_image c)) d))" for d
      using fenced_steps [OF fenced_initialize] .
  qed (use svg in \<open>auto dest: initialized\<close>)
next
  fix ok
  show "ends l (\<lambda>d. unstarted l d \<and> (\<not> ok \<longrightarrow> released l d))
      (andthen (return_unless ok) (\<lambda>_. andthen (wait_act (io_prepare io)) pin_act)) (\<lambda>_. unstarted l)"
    by (rule ends_andthen [OF ends_unless], simp, rule ends_andthen)
      (rule ends_pre [OF ends_wait [OF lasts_unstarted]], simp, rule ends_pre [OF ends_own(3)], simp)
qed

lemma ends_release: "lasts l P \<Longrightarrow> (\<And>d p. lifecycle_ok d \<Longrightarrow> P d \<Longrightarrow> P (tree_release p d)) \<Longrightarrow>
  ends l P release_act (\<lambda>_. P)"
proof (rule endsI)
  fix env r x r' assume keep: "\<And>d p. lifecycle_ok d \<Longrightarrow> P d \<Longrightarrow> P (tree_release p d)"
    and env: "fair l env" and r: "good l r" and P: "P (rn_db r)" and run: "release_act env r = (x, r')"
  have "step\<^sup>*\<^sup>* d (tree_release p d)" for p d by (rule frame_step) (simp_all add: tree_release_def)
  then have "ends l P (commit_act (\<lambda>d. ((), tree_release p d))) (\<lambda>_. P)" for p
    by (intro ends_commit) (auto intro: keep)
  from endsD [OF this env r P] run r P
  show "good l r' \<and> (case x of Value v \<Rightarrow> P (rn_db r') | Returned \<Rightarrow> released l (rn_db r') | Thrown e \<Rightarrow> True)"
    by (cases "rn_pin r") (auto simp: release_act_def)
qed

lemma released_release: "lifecycle_ok d \<Longrightarrow> released l d \<Longrightarrow> released l (tree_release p d)"
  by (rule steps_keep(3), rule frame_step) (simp_all add: tree_release_def)

lemma ends_finally:
  assumes "ends l P m (\<lambda>_. released l)" and "ends l (released l) f (\<lambda>_. released l)" and "ends_any l f"
  shows "ends l P (finally_act m f) (\<lambda>_. released l)" and "ends l P (ensure_act m f) (\<lambda>_. released l)"
proof -
  have both: "good l t \<and> (released l (rn_db s) \<longrightarrow> (\<nexists>e. z = Thrown e) \<longrightarrow> released l (rn_db t))"
    if "fair l env" "good l s" "f env s = (z, t)" for env s z t
    using endsD [OF assms(2) that(1,2) _ that(3)] endsD [OF assms(3) that(1,2) TrueI that(3)]
    by (auto split: ending.splits)
  show "ends l P (finally_act m f) (\<lambda>_. released l)" "ends l P (ensure_act m f) (\<lambda>_. released l)"
  proof -
    show "ends l P (finally_act m f) (\<lambda>_. released l)"
    proof (rule endsI)
      fix env r x r'
      assume env: "fair l env" and r: "good l r" and P: "P (rn_db r)" and run: "finally_act m f env r = (x, r')"
      obtain y s where y: "m env r = (y, s)" by fastforce
      obtain z t where z: "f env s = (z, t)" by fastforce
      note first = endsD [OF assms(1) env r P y]
      then have "good l s" by simp
      from both [OF env this z] first run y z
      show "good l r' \<and> (case x of Value v \<Rightarrow> released l (rn_db r') | Returned \<Rightarrow> released l (rn_db r') | Thrown e \<Rightarrow> True)"
        by (auto simp: finally_act_def split: ending.splits failure.splits)
    qed
    show "ends l P (ensure_act m f) (\<lambda>_. released l)"
    proof (rule endsI)
      fix env r x r'
      assume env: "fair l env" and r: "good l r" and P: "P (rn_db r)" and run: "ensure_act m f env r = (x, r')"
      obtain y s where y: "m env r = (y, s)" by fastforce
      obtain z t where z: "f env s = (z, t)" by fastforce
      note first = endsD [OF assms(1) env r P y]
      then have "good l s" by simp
      from both [OF env this z] first run y z
      show "good l r' \<and> (case x of Value v \<Rightarrow> released l (rn_db r') | Returned \<Rightarrow> released l (rn_db r') | Thrown e \<Rightarrow> True)"
        by (auto simp: ensure_act_def split: ending.splits)
    qed
  qed
qed

lemma ends_finish: "ends l (released l) (finish_act io l) (\<lambda>_. released l)" "ends_any l (finish_act io l)"
proof -
  have last: "ends l (\<lambda>d. if c then released l d else released l d \<and> \<not> (owns l d \<and> cancel_requested l d))
      (value_act ()) (\<lambda>_. released l)" for c
    by (rule ends_post [OF ends_value]) (auto split: if_splits)
  show "ends l (released l) (finish_act io l) (\<lambda>_. released l)"
    unfolding finish_act_def
    by (intro ends_andthen [OF ends_rename(2) [OF lasts_released]]
        ends_andthen [OF ends_release [OF lasts_released released_release]] ends_andthen [OF ends_canceled] last)
  have "ends_any l (canceled_act l)" by (rule ends_post [OF ends_canceled]) simp
  then show "ends_any l (finish_act io l)"
    unfolding finish_act_def
    by (intro ends_then [OF ends_rename(2) [OF lasts_true(1)]] ends_then [OF ends_release [OF lasts_true(1)]]
        ends_then any_simple(1)) simp_all
qed

lemma ends_process_staged:
  assumes "asks_svg outs"
  shows "ends (job_lease c j) (claimed_row (job_lease c j) outs) (process_staged_job c io j)
    (\<lambda>_. released (job_lease c j))"
  unfolding process_staged_job_def Let_def
  by (intro ends_finally(1) ends_finish ends_andthen [OF ends_begin [OF assms]] ends_run_stages)

section \<open>Plain jobs\<close>

lemma ends_timed:
  assumes "lasts l P" and "\<And>d now until. lifecycle_ok d \<Longrightarrow> P d \<Longrightarrow> P (snd (leased l (heartbeat now until) d))"
  shows "ends l P (renew_or_lose l) (\<lambda>_. P)" and "ends l P (beats_act l) (\<lambda>_. P)"
    and "ends l P (timed_wait l x) (\<lambda>v d. x = Inr v \<and> P d)"
proof -
  have "ends l P (commit_act (leased l (heartbeat now until))) (\<lambda>n d. (n \<noteq> 1 \<longrightarrow> released l d) \<and> P d)" for now until
  proof (rule ends_commit)
    fix d x d' assume "lifecycle_ok d" "known l d" "P d" "leased l (heartbeat now until) d = (x, d')"
    with renewed_in_hand [of d l now until x d'] assms(2) [of d now until]
    show "(x \<noteq> 1 \<longrightarrow> released l d') \<and> P d'" by simp
  qed (rule fenced_steps [OF fenced_heartbeat])
  then have "ends l P (renew_act l) (\<lambda>ok d. (\<not> ok \<longrightarrow> released l d) \<and> P d)"
    unfolding renew_act_def
    by (intro ends_andthen [OF ends_own(1)] ends_andthen, assumption) (rule ends_post [OF ends_value], simp)
  moreover have "ends l (\<lambda>d. (\<not> ok \<longrightarrow> released l d) \<and> P d) (lose_unless ok) (\<lambda>_. P)" for ok
    by (rule endsI) (auto simp: lose_unless_def good_def)
  ultimately show lose: "ends l P (renew_or_lose l) (\<lambda>_. P)"
    unfolding renew_or_lose_def by (rule ends_andthen)
  have wait: "ends l P (wait_act (Inr ())) (\<lambda>_. P)" by (rule ends_post [OF ends_wait [OF assms(1)]]) simp
  have "ends l P (beats l n) (\<lambda>_. P)" for n
  proof (induction n)
    case 0
    show ?case by simp (rule ends_post [OF ends_value], simp)
  next
    case (Suc n)
    then show ?case by (simp add: ends_andthen [OF wait] ends_andthen [OF lose])
  qed
  then show beats: "ends l P (beats_act l) (\<lambda>_. P)" unfolding ends_def beats_act_def by blast
  show "ends l P (timed_wait l x) (\<lambda>v d. x = Inr v \<and> P d)"
    unfolding timed_wait_def by (rule ends_andthen [OF beats], rule ends_wait [OF assms(1)])
qed

lemma heartbeat_unstarted:
  assumes "lifecycle_ok d" and "unstarted l d"
  shows "unstarted l (snd (leased l (heartbeat now until) d))"
  unfolding unstarted_def
proof (intro allI impI)
  let ?p = "\<lambda>j. holds_lease (le_job l) (le_worker l) (le_generation l) j \<and> j_status j \<in> {Validating, Running}"
  let ?f = "\<lambda>j. j\<lparr>j_heartbeat_at := Some now, j_lease_expires_at := Some until\<rparr>"
  fix k assume "job_of (snd (leased l (heartbeat now until) d)) (le_job l) = Some k" and k: "in_hand l k"
  then have "map_option (\<lambda>r. if ?p r then ?f r else r) (job_of d (le_job l)) = Some k"
    using job_table.row_by_upd_where [of ?p ?f "le_job l" "jobs d"]
    by (simp add: leased_def heartbeat_def update_jobs_def)
  then obtain j where j: "job_of d (le_job l) = Some j" "k = (if ?p j then ?f j else j)" by blast
  have "j_status k = j_status j" "in_hand l j = in_hand l k"
    by (simp_all add: j(2) in_hand_def leased_def holds_lease_def)
  with j(1) k assms(2) show "j_status k = Validating" by (simp add: unstarted_def)
qed

lemma any_timed: "ends_any l (renew_or_lose l)" "ends_any l (beats_act l)" "ends_any l (timed_wait l x)"
proof -
  note t = ends_timed [OF lasts_true(1), of l, OF TrueI]
  show "ends_any l (renew_or_lose l)" "ends_any l (beats_act l)" by (rule t)+
  show "ends_any l (timed_wait l x)" by (rule ends_post [OF t(3)]) simp
qed

lemma ends_container: "ends_any l (container_act io l)"
proof -
  have "ends_any l (case po_exit io of Inl e \<Rightarrow> wait_act (Inl (if po_stopped io then e else Deferred))
     | Inr code \<Rightarrow>
         if po_timed_out io \<or> code \<noteq> 0 then timed_wait l (if po_stopped io then Inr code else Inl Deferred)
         else value_act code)"
    by (auto intro: any_simple(1) ends_waiting_any any_timed(3) split: sum.split)
  then show ?thesis
    unfolding container_act_def by (rule ends_then [OF any_simple(4) ends_then [OF any_timed(3)]])
qed

lemma ends_after_container: "ends_any l (after_container io l)"
  unfolding after_container_def
proof (rule ends_then [OF any_simple(3)], rule ends_option [OF ends_throw])
  fix s
  have stop: "ends_any l (if b then andthen (mark_canceled_act l) (\<lambda>_. return_act) else value_act ())" for b
    by (rule ends_if) (rule ends_andthen [OF ends_mark_canceled], rule ends_return, simp,
      rule ends_pre [OF any_simple(1)], simp)
  show "ends_any l (andthen lost_act (\<lambda>lost. andthen (read_act (owns l)) (\<lambda>o1.
         andthen (return_unless (\<not> lost \<and> o1)) (\<lambda>_. case po_monitor_failure io of
           Some e \<Rightarrow> throw_act e
         | None \<Rightarrow> if rs_cancel_requested_at s \<noteq> None \<or> rs_status s = Canceled
             then andthen (mark_canceled_act l) (\<lambda>_. return_act) else value_act ()))))"
    by (rule ends_andthen [OF ends_lost], rule ends_andthen [OF ends_read], rule ends_andthen [OF ends_unless],
        use not_owns_released in blast, rule ends_option) (rule ends_pre [OF stop], simp, rule ends_throw)
qed

lemma ends_publish_plain: "ends l (\<lambda>_. True) (publish_plain c io l code) (\<lambda>_. released l)"
proof -
  let ?r = "classify_render_result code (po_timed_out io) (po_stderr io)"
  have p: "ends l (\<lambda>d. lost \<longrightarrow> released l d) (publish_act rn h
      (\<lambda>ts now is. finish_plain_tx l img lost (zip is as) code r pages ts now) n) (\<lambda>_. released l)"
    for lost rn h img as r pages n
    by (rule ends_publish) (rule fenced_steps, rule fenced_finish_plain, assumption,
      (rule finish_plain_released; assumption), rule lasts_imp [OF lasts_released])
  have last: "ends l (released l) (value_act ()) (\<lambda>_. released l)" by (rule ends_post [OF ends_value]) simp
  have pages: "ends_any l (if b then timed_wait l w else value_act None)" for b w
    by (rule ends_if) (rule ends_pre [OF any_timed(3)], simp, rule ends_pre [OF any_simple(1)], simp)
  have final: "ends l (\<lambda>_. True) (andthen lost_act (\<lambda>lost. andthen (publish_act rn h
      (\<lambda>ts now is. finish_plain_tx l img lost (zip is as) code r pages ts now) n) (\<lambda>_. value_act ()))) (\<lambda>_. released l)"
    for rn h img as r pages n
    by (rule ends_andthen [OF ends_lost], rule ends_andthen [OF ends_pre [OF p] last]) simp
  have gone: "ends_any l (andthen lost_act (\<lambda>gone. return_unless (\<not> gone)))"
    by (rule ends_andthen [OF ends_lost], rule ends_post [OF ends_unless]) simp_all
  have lost: "ends l (\<lambda>_. True) (andthen lost_act (\<lambda>gone. andthen (return_unless (\<not> gone)) k)) Q"
    if "\<And>u. ends l (\<lambda>_. True) (k u) Q" for k and Q :: "unit \<Rightarrow> _"
    by (rule ends_andthen [OF ends_lost], rule ends_andthen [OF ends_unless], simp, rule ends_pre [OF that]) simp
  show ?thesis
    unfolding publish_plain_def Let_def
    by (intro ends_then [OF any_timed(3)] ends_then [OF pages] ends_then [OF any_timed(1)] lost
        ends_then [OF any_timed(2)] final)
qed

lemma ends_plain_job: "ends l (unstarted l) (plain_job c io l) (\<lambda>_. released l)"
proof -
  have run: "ends l (\<lambda>_. True) (andthen (container_act io l) (\<lambda>code.
      andthen (after_container io l) (\<lambda>_. publish_plain c io l code))) (\<lambda>_. released l)"
    by (intro ends_then [OF ends_container] ends_then [OF ends_after_container] ends_publish_plain)
  have started: "ends l (unstarted l) (andthen (owned_act l [Validating] Running s [SetStartedAt (Some s)]) (\<lambda>n.
     andthen (return_unless (n = 1)) (\<lambda>_. andthen (container_act io l) (\<lambda>code.
     andthen (after_container io l) (\<lambda>_. publish_plain c io l code))))) (\<lambda>_. released l)" for s
    by (rule ends_andthen [OF ends_start_job], rule ends_andthen [OF ends_unless], simp, rule ends_pre [OF run]) simp
  have lost: "ends l (unstarted l) (andthen lost_act (\<lambda>lost. andthen (return_unless (\<not> lost)) k)) Q"
    if "\<And>u. ends l (unstarted l) (k u) Q" for k and Q :: "unit \<Rightarrow> _"
    by (rule ends_andthen [OF ends_lost], rule ends_andthen [OF ends_unless], simp, rule ends_pre [OF that]) simp
  have prepared: "ends l (unstarted l) (timed_wait l (po_prepare io)) (\<lambda>_. unstarted l)"
    by (rule ends_post [OF ends_timed(3) [OF lasts_unstarted heartbeat_unstarted]]) simp_all
  show ?thesis
    unfolding plain_job_def
    by (intro ends_andthen [OF prepared] ends_andthen [OF ends_own(3)] ends_andthen [OF ends_own(1)] lost started)
qed

lemma ends_finish_plain: "ends l (released l) (finish_plain io l) (\<lambda>_. released l)" "ends_any l (finish_plain io l)"
proof -
  have "ends l P (if c then andthen (mark_canceled_act l) (\<lambda>_. value_act ()) else value_act ()) Q"
    if "\<And>d. P d \<or> released l d \<Longrightarrow> Q () d" for c P and Q :: "unit \<Rightarrow> _"
    by (rule ends_if) (rule ends_andthen [OF ends_mark_canceled], rule ends_post [OF ends_value],
      simp add: that, rule ends_post [OF ends_value], simp add: that)
  note last = this
  show "ends l (released l) (finish_plain io l) (\<lambda>_. released l)"
    unfolding finish_plain_def
    by (intro ends_andthen [OF ends_rename(2) [OF lasts_released]]
        ends_andthen [OF ends_release [OF lasts_released released_release]] ends_andthen [OF ends_read] last) auto
  show "ends_any l (finish_plain io l)"
    unfolding finish_plain_def
    by (intro ends_then [OF ends_rename(2) [OF lasts_true(1)]] ends_then [OF ends_release [OF lasts_true(1)]]
        ends_andthen [OF ends_read] last) auto
qed

lemma asks_svg_outputs: "render_outputs v = Inr os \<Longrightarrow> Svg \<in> set os \<Longrightarrow> asks_svg v"
proof -
  assume "render_outputs v = Inr os" "Svg \<in> set os"
  then obtain vs where v: "v = Some (JArr vs)" and os: "those (map output_of_json vs) = Some os"
    by (auto simp: render_outputs_def split: option.splits json.splits if_splits)
  have "those (map output_of_json vs) = Some os \<Longrightarrow> Svg \<in> set os \<Longrightarrow> JStr ''svg'' \<in> set vs" for vs os
  proof (induction vs arbitrary: os)
    case (Cons w ws)
    then show ?case by (cases w) (auto split: option.splits if_splits)
  qed simp
  with os \<open>Svg \<in> set os\<close> show "asks_svg v" by (simp add: asks_svg_def v)
qed

lemma ends_process_job:
  "ends (job_lease c j) (claimed_row (job_lease c j) (w_outputs j)) (process_job c sio pio j)
    (\<lambda>_. released (job_lease c j))"
proof -
  let ?l = "job_lease c j" let ?P = "claimed_row ?l (w_outputs j)"
  have waits: "ends ?l ?P m Q" if "ends ?l (unstarted ?l) m Q" for m and Q :: "unit \<Rightarrow> _"
    by (rule ends_pre [OF that]) (simp add: claimed_row_def)
  have reject: "ends ?l (unstarted ?l) (andthen now_act (\<lambda>ts. andthen (tx_act (reject_tx ?l ts)) (\<lambda>_. return_act)))
      (\<lambda>_. released ?l)"
    by (rule ends_andthen [OF ends_own(1)], rule ends_andthen [where Q = "\<lambda>_. released ?l"], rule ends_tx)
      (rule fenced_steps, rule fenced_reject, assumption, (rule reject_released; assumption), rule ends_return)
  have rest: "ends ?l (\<lambda>d. render_outputs (w_outputs j) = Inr outs \<and> ?P d)
      (if Svg \<in> set outs then process_staged_job c sio j else finally_act (plain_job c pio ?l) (finish_plain pio ?l))
      (\<lambda>_. released ?l)" for outs
  proof (cases "render_outputs (w_outputs j) = Inr outs \<and> Svg \<in> set outs")
    case True
    from ends_process_staged [OF asks_svg_outputs [OF conjunct1 [OF True] conjunct2 [OF True]]] True
    show ?thesis by (simp add: ends_pre)
  next
    case False
    have "ends ?l (\<lambda>d. render_outputs (w_outputs j) = Inr outs \<and> ?P d)
        (finally_act (plain_job c pio ?l) (finish_plain pio ?l)) (\<lambda>_. released ?l)"
      by (rule ends_pre [OF waits [OF ends_finally(1) [OF ends_plain_job ends_finish_plain]]]) simp
    moreover have "ends ?l (\<lambda>_. False) m Q" for m :: "unit act" and Q by (simp add: ends_def)
    ultimately show ?thesis using False by (cases "Svg \<in> set outs") simp_all
  qed
  show ?thesis
    unfolding process_job_def Let_def
    by (rule ends_andthen [OF ends_own(1)], rule ends_andthen [OF ends_read], rule ends_if)
      (rule ends_pre [OF waits [OF reject]], simp, rule ends_pre, rule ends_andthen [OF ends_outcome], rule rest, simp)
qed

lemma ends_record_failure:
  "ends (job_lease c j) (\<lambda>_. True) (record_failure c io j m code rejected) (\<lambda>_. released (job_lease c j))"
proof -
  let ?l = "job_lease c j"
  have late: "ends ?l (\<lambda>_. True) (commit_act (record_late_failure ?l code msg rejected now)) (\<lambda>_. released ?l)" for msg now
    by (rule ends_commit) (rule fenced_steps [OF fenced_late_failure], rule late_failure_released)
  have renew: "ends ?l (\<lambda>_. True) (andthen (renew_act ?l) (\<lambda>ok. andthen (return_unless ok) k)) Q"
    if "\<And>u. ends ?l (\<lambda>_. True) (k u) Q" for k and Q :: "unit \<Rightarrow> _"
    by (rule ends_andthen [OF ends_renew], rule ends_andthen [OF ends_unless], simp, rule ends_pre [OF that]) simp
  have p: "ends ?l (\<lambda>_. True) (publish_act rn h (\<lambda>ts now is. record_failure_tx ?l img code msg rejected (zip is as) ts) n)
      (\<lambda>_. released ?l)" for rn h img msg as n
    by (rule ends_publish) (rule fenced_steps, rule fenced_record_failure, assumption,
      (rule record_failure_released; assumption), rule lasts_true)
  have last: "ends ?l (released ?l) (value_act ()) (\<lambda>_. released ?l)" by (rule ends_post [OF ends_value]) simp
  have publish: "ends ?l (\<lambda>_. True) (publish_failure c io ?l code msg rejected) (\<lambda>_. released ?l)" for msg
    unfolding publish_failure_def
    by (intro ends_then [OF ends_waiting_any] renew ends_andthen [OF p last])
  have "ends_any ?l (remove_published (fi_cleanup io))"
    by (rule ends_rename(2)) (rule lasts_true)
  note ensured = ends_finally(2) [OF publish ends_rename(2) [OF lasts_released] this]
  show ?thesis
    unfolding record_failure_def Let_def
    by (intro ends_then [OF any_simple(3)] ends_if ends_pre [OF ends_andthen [OF ends_own(1) late]]
        ends_pre [OF renew [OF ends_then [OF ends_waiting_any ensured]]] TrueI)
qed

lemma ends_work:
  "ends (job_lease c j) (claimed_row (job_lease c j) (w_outputs j)) (work_on_job c sio pio fio j)
    (\<lambda>_. released (job_lease c j))"
  unfolding work_on_job_def
proof (rule ends_catch [OF ends_process_job])
  fix e
  show "ends (job_lease c j) (\<lambda>_. True) (if e = Deferred then throw_act e
      else andthen (read_act (failure_code (w_id j) e)) (\<lambda>code.
       record_failure c fio j (failure_message e) code (is_rejection e))) (\<lambda>_. released (job_lease c j))"
    by (cases "e = Deferred") (simp_all add: ends_throw ends_then [OF any_simple(3) ends_record_failure])
qed

end
