(* ===== verification/Worker_Properties.thy ===== *)
theory Worker_Properties
  imports Turn_Ends Scenarios
begin

text \<open>
  Properties of the renderer worker: what its processors do to the database and leave below
  \<open>outputs\<close>, whatever others commit while they wait, and what it accepts of a renderer's output.
\<close>

section \<open>A turn of the worker\<close>

lemma claimed_job_ready:
  assumes "lifecycle_ok d0" and "claim_next (wc_worker c) now until before expected d0 = (Some j, d)"
    and "length (w_source_sha256 j) = 64"
  shows "lifecycle_ok d \<and> known (job_lease c j) d \<and> claimed_row (job_lease c j) (w_outputs j) d"
proof -
  have ok: "lifecycle_ok d" using step_ok [OF step.claim [OF assms(2)] assms(1)] by simp
  have distinct: "distinct (map j_id (jobs d0))" using assms(1) by (simp add: lifecycle_ok_def)
  from distinct assms(2) show ?thesis
  proof (cases rule: claim_next_cases)
    case (2 k)
    let ?p = "\<lambda>x. j_id x = j_id k \<and> j_status x = Queued"
    let ?k = "claim_update (wc_worker c) now until k"
    have j: "w_id j = j_id k" "w_lease_generation j = j_lease_generation k + 1" "w_outputs j = j_outputs k"
      "w_source_sha256 j = j_source_sha256 k" using 2(5) by (simp_all add: worker_job_def)
    have "job_of d0 (j_id k) = Some k" by (rule job_table.row_by_in [OF distinct 2(2)])
    then have "job_of d (j_id k) = Some ?k"
      using 2(3) by (simp add: 2(6) job_table.row_by_upd_where claim_update_def claimable_def)
    moreover have "j_status ?k = Validating" "j_lease_generation ?k = j_lease_generation k + 1"
      "j_outputs ?k = j_outputs k" "j_source_sha256 ?k = j_source_sha256 k" by (simp_all add: claim_update_def)
    ultimately show ?thesis
      using ok assms(3) by (auto simp: known_def claimed_row_def unstarted_def job_lease_def j)
  qed simp
qed

lemma turn_of_worker:
  assumes "others_step env" and "work_on_job c sio pio fio j env (start_run d dirs) = (x, r)"
  shows "step\<^sup>*\<^sup>* d (rn_db r) \<and> (\<forall>(e, e')\<in>set (rn_commits r). fenced_commit (job_lease c j) e e') \<and>
    tidy (job_lease c j) dirs r"
proof -
  have "tidy (job_lease c j) dirs (start_run d dirs)" by (simp add: tidy_def start_run_def)
  with properD [OF proper_work assms] show ?thesis by (auto simp: runs_to_def start_run_def)
qed

text \<open>C19. Whatever others commit while a worker renders a job, in two stages or in one, and records its
  failure: everything it commits is made of steps of the system, and but for giving back a pin on a
  cached tree a commit changes something only while the worker's lease is held.\<close>

theorem turn_is_fenced:
  assumes "others_step env" and "work_on_job c sio pio fio j env (start_run d dirs) = (x, r)"
  shows "step\<^sup>*\<^sup>* d (rn_db r) \<and> (\<forall>(e, e')\<in>set (rn_commits r). step\<^sup>*\<^sup>* e e' \<and>
    (e' = e \<or> (\<exists>k\<in>set (jobs e). holds_lease (w_id j) (wc_worker c) (w_lease_generation j) k) \<or>
      (\<exists>p. e' = tree_release p e)))"
  using turn_of_worker [OF assms]
  by (simp add: fenced_commit_def lease_held_def leased_def job_lease_def)


text \<open>C20. A turn of the worker ends its job. When nothing is thrown out of the turn for a claimed job, the
  job is no longer validating or running under the worker's lease: it ended, or its cancellation is
  acknowledged, or another took it over. Nobody else uses the lease meanwhile but for renewing it.\<close>

theorem turn_ends_job:
  assumes "reachable d0" and "claim_next (wc_worker c) now until before expected d0 = (Some j, d)"
    and "length (w_source_sha256 j) = 64" and "fair (job_lease c j) env"
    and "work_on_job c sio pio fio j env (start_run d dirs) = (x, r)" and "\<forall>e. x \<noteq> Thrown e"
  shows "\<exists>k. job_of (rn_db r) (w_id j) = Some k \<and>
    \<not> (holds_lease (w_id j) (wc_worker c) (w_lease_generation j) k \<and> j_status k \<in> {Validating, Running})"
proof -
  let ?l = "job_lease c j"
  have "good ?l (start_run d dirs)" "claimed_row ?l (w_outputs j) d"
    using claimed_job_ready [OF reachable_ok [OF assms(1)] assms(2,3)]
    by (simp_all add: good_def start_run_def)
  from endsD [OF ends_work assms(4) this(1) _ assms(5)] this(2)
  have "case x of Value v \<Rightarrow> released ?l (rn_db r) | Returned \<Rightarrow> released ?l (rn_db r) | Thrown e \<Rightarrow> True"
    by (simp add: start_run_def)
  with assms(6) have "released ?l (rn_db r)" by (cases x) auto
  then show ?thesis by (auto simp: released_def in_hand_def leased_def job_lease_def)
qed

section \<open>What is validated\<close>

text \<open>C25. The walk over the output tree, with its stack and its limits, answers as the tree read from
  the top: it succeeds exactly when every entry is a directory or a plain file and the totals are within
  the limits, and then has found every file once.\<close>

theorem output_walk_exact:
  "case scan_output_tree (Some l) ns of
     Inl e \<Rightarrow> tree_unsafe ns \<or> tl_max_output_bytes l < file_bytes (tree_files [] ns) \<or>
       tl_max_file_count l < length (tree_files [] ns) \<or> tl_max_directory_count l < tree_directories ns
   | Inr t \<Rightarrow> \<not> tree_unsafe ns \<and> mset (ts_files t) = mset (tree_files [] ns) \<and>
       ts_total_bytes t = file_bytes (tree_files [] ns) \<and> ts_total_bytes t \<le> tl_max_output_bytes l \<and>
       ts_file_count t = length (tree_files [] ns) \<and> ts_file_count t \<le> tl_max_file_count l \<and>
       ts_directory_count t = tree_directories ns \<and> ts_directory_count t \<le> tl_max_directory_count l"
proof (cases "scan_output_tree (Some l) ns")
  case (Inl e)
  then have "\<nexists>t. scan_output_tree (Some l) ns = Inr t" by simp
  with Inl show ?thesis unfolding scan_output_tree_iff by auto
next
  case (Inr t)
  then have "\<exists>t. scan_output_tree (Some l) ns = Inr t" by blast
  with scan_output_tree_files [OF Inr] Inr show ?thesis unfolding scan_output_tree_iff by simp
qed

section \<open>Witnesses\<close>

definition the_claimed_job :: worker_job where
  "the_claimed_job = the (fst (claim_next ''w1'' 20 50 None None demo_queued))"

definition the_settings :: worker_settings where
  "the_settings = \<lparr>wc_worker = ''w1'', wc_image = ''img'', wc_max_output_bytes = 1000\<rparr>"

definition a_file :: "string \<Rightarrow> artifact_type \<Rightarrow> validated" where
  "a_file path t = \<lparr>va_path = path, va_type = t, va_size = 50, va_sha256 = sha\<rparr>"

definition a_digest :: "nat \<Rightarrow> digest" where
  "a_digest n = \<lparr>dg_sha256 = sha, dg_bytes = n\<rparr>"

text \<open>A render both of whose stages succeed; the job is canceled during the k-th wait.\<close>

definition good_io :: stage_io where
  "good_io = \<lparr>io_prepare = Inr None,
     io_run = (\<lambda>_. Inr \<lparr>ex_exit_code = 0, ex_timed_out = False, ex_stderr = []\<rparr>),
     io_metadata = (\<lambda>_. Inr ()), io_failure_artifacts = Inr [],
     io_pdf_artifacts = Inr [a_file ''result.pdf'' APdf, a_file ''previews/page-1.png'' APreview],
     io_page_count = Inr (Some 1), io_synctex = Inr (a_digest 7), io_publish_pdf = Inr (a_digest 7),
     io_rename = (\<lambda>_. Inr ()), io_verify = (\<lambda>_. Inr (a_digest 50, a_digest 7)),
     io_svg_fallback = Inr (), io_svg_artifacts = (\<lambda>_. Inr [a_file ''svg/manifest.json'' ASvgManifest]),
     io_publish_svg = Inr (), io_cleanup = Inr ()\<rparr>"

definition good_plain :: plain_io where
  "good_plain = \<lparr>po_prepare = Inr None, po_spawn = Inr (), po_exit = Inr 0, po_timed_out = False,
     po_stderr = [], po_monitor_failure = None, po_stopped = True, po_metadata = Inr (),
     po_artifacts = (\<lambda>_. Inr [a_file ''result.pdf'' APdf]), po_page_count = Inr (Some 1),
     po_publish = Inr (), po_rename = Inr (), po_cleanup = Inr ()\<rparr>"

definition good_failure :: failure_io where
  "good_failure = \<lparr>fi_clear = Inr (), fi_artifacts = Inr [a_file ''compile.log'' ALog],
     fi_rename = Inr (), fi_cleanup = Inr ()\<rparr>"

definition canceled_in_wait :: "nat \<Rightarrow> environment" where
  "canceled_in_wait k = \<lparr>en_others = (\<lambda>n d. if n = k then snd (cancel jid 25 d) else d),
     en_clock = (\<lambda>n. 30 + n), en_id = (\<lambda>n. replicate n CHR ''i''), en_beats = (\<lambda>n. 0), en_error_text = (\<lambda>e. [])\<rparr>"

lemma canceled_in_wait_steps: "others_step (canceled_in_wait k)"
  by (auto simp: others_step_def canceled_in_wait_def intro: step.cancel)















text \<open>The job is canceled during the tenth wait, when its PDF is being published.\<close>

abbreviation the_turn :: "unit ending \<times> run" where
  "the_turn \<equiv> work_on_job the_settings good_io good_plain good_failure the_claimed_job
     (canceled_in_wait 9) (start_run demo_claimed [(jid, 1)])"

lemma unstarted_cancel:
  assumes "unstarted l d"
  shows "unstarted l (snd (cancel i ts d))"
  unfolding unstarted_def
proof (intro allI impI)
  fix k assume "job_of (snd (cancel i ts d)) (le_job l) = Some k" and k: "in_hand l k"
  then obtain j where j: "job_of d (le_job l) = Some j"
    "k = j \<or> (\<not> cancelable_now (j_status j) \<and> j_status k = j_status j \<and> identity k = identity j \<and>
      j_lease_owner k = j_lease_owner j \<and> j_lease_generation k = j_lease_generation j) \<or> j_status k = Canceled"
    unfolding cancel_job_of by (auto simp: identity_def split: if_splits)
  from k have "j_status k \<noteq> Canceled" by (auto simp: in_hand_def)
  with j k have "in_hand l j \<and> j_status k = j_status j"
    by (auto simp: in_hand_def leased_def holds_lease_def identity_def)
  with assms j(1) show "j_status k = Validating" by (simp add: unstarted_def)
qed

lemma canceled_in_wait_fair: "fair l (canceled_in_wait n)"
  using canceled_in_wait_steps unstarted_cancel by (simp add: fair_def canceled_in_wait_def)

theorem turn_ends_job_witness:
  "\<exists>k. job_of (rn_db (snd (work_on_job the_settings good_io good_plain good_failure the_claimed_job
      (canceled_in_wait 0) (start_run demo_claimed [])))) jid = Some k \<and>
    \<not> (holds_lease jid ''w1'' 1 k \<and> j_status k \<in> {Validating, Running})"
proof -
  let ?m = "work_on_job the_settings good_io good_plain good_failure the_claimed_job
      (canceled_in_wait 0) (start_run demo_claimed [])"
  have x: "fst ?m = Returned" by code_simp
  have job: "w_id the_claimed_job = jid" "length (w_source_sha256 the_claimed_job) = 64"
    "w_lease_generation the_claimed_job = 1" "fst (claim_next ''w1'' 20 50 None None demo_queued) \<noteq> None"
    by code_simp+
  have w: "wc_worker the_settings = ''w1''" by (simp add: the_settings_def)
  have claim: "claim_next (wc_worker the_settings) 20 50 None None demo_queued = (Some the_claimed_job, demo_claimed)"
    using job(4) by (simp add: w the_claimed_job_def demo_claimed_def prod_eq_iff)
  have "\<forall>e. fst ?m \<noteq> Thrown e" by (simp add: x)
  from turn_ends_job [OF reach_queued claim job(2) canceled_in_wait_fair prod.collapse [symmetric] this]
  show ?thesis by (simp only: job w)
qed

theorem turn_is_fenced_witness:
  "set (rn_commits (snd the_turn)) \<subseteq> {(e, e'). step\<^sup>*\<^sup>* e e'}"
proof
  obtain x r where m: "the_turn = (x, r)" by fastforce
  fix p assume "p \<in> set (rn_commits (snd the_turn))"
  then have "p \<in> set (rn_commits r)" using m by simp
  from bspec [OF conjunct2 [OF turn_is_fenced [OF canceled_in_wait_steps m]] this]
  show "p \<in> {(e, e'). step\<^sup>*\<^sup>* e e'}" by (cases p) simp
qed


end
