(* ===== verification/Recovery_Properties.thy ===== *)
theory Recovery_Properties
  imports Recovery Worker_Properties
begin

text \<open>What the recovery of expired leases keeps, whatever others commit while it waits.\<close>

text \<open>C37. The recovery of expired leases, whatever others commit meanwhile, commits only steps, and removes
  an output directory only of a job it has taken over, that is not being downloaded, and whose
  generation neither an artifact nor the checkpoint refers to.\<close>

theorem recovery_spares_references:
  assumes "others_step env" and "recover_stale_leases c io env (start_run d dirs) = (x, r)"
    and "h \<in> set dirs"
  shows "step\<^sup>*\<^sup>* d (rn_db r) \<and>
    (h \<in> set (rn_outputs r) \<or> (\<exists>(e, e')\<in>set (rn_commits r). removable (wc_worker c) env h e))"
  using careful_recovery [OF assms(1,2)] assms(3) by (auto simp: careful_run_def justified_def start_run_def)

text \<open>The worker is lost after its PDF is published; generation 2 stays, 3 is removed.\<close>

definition clear_io :: recovery_io where
  "clear_io = \<lparr>rv_linux = True, rv_containers = (\<lambda>_. Inr False), rv_root = (\<lambda>_. Inr True),
     rv_target = (\<lambda>_ _. Inr True), rv_remove = (\<lambda>_ _. Inr ())\<rparr>"

definition quiet :: environment where
  "quiet = \<lparr>en_others = (\<lambda>_ d. d), en_clock = (\<lambda>n. 100 + n), en_id = (\<lambda>n. replicate n CHR ''i''),
     en_beats = (\<lambda>n. 0), en_error_text = (\<lambda>e. [])\<rparr>"

abbreviation the_recovery :: "unit ending \<times> run" where
  "the_recovery \<equiv> recover_stale_leases the_settings clear_io quiet
     (start_run demo_svg_started [(jid, 2), (jid, 3), (jid, 9)])"

lemma quiet_steps: "others_step quiet"
  by (simp add: others_step_def quiet_def)

theorem recovery_spares_references_witness:
  "rn_outputs (snd the_recovery) = [(jid, 2), (jid, 9)] \<and>
   (\<exists>(e, e')\<in>set (rn_commits (snd the_recovery)). removable ''w1'' quiet (jid, 3) e)"
proof -
  have outputs: "rn_outputs (snd the_recovery) = [(jid, 2), (jid, 9)]" by code_simp
  have worker: "wc_worker the_settings = ''w1''" by (simp add: the_settings_def)
  have "(jid, 3) \<in> set (rn_outputs (snd the_recovery)) \<or>
      (\<exists>(e, e')\<in>set (rn_commits (snd the_recovery)). removable (wc_worker the_settings) quiet (jid, 3) e)"
    by (rule conjunct2 [OF recovery_spares_references [OF quiet_steps prod.collapse [symmetric]]]) simp
  with outputs show ?thesis unfolding worker by simp
qed

end
