(* ===== verification/Inline_Budget.thy ===== *)
theory Inline_Budget
  imports Prelude "HOL-Library.Multiset"
begin

text \<open>
  The memory budget of artifacts that are read into MCP replies (\<open>acquireInlineArtifactBytes\<close> and
  \<open>releaseInlineArtifactBytes\<close> of packages/remote-mcp-core/src/index.ts). A read that does not fit waits;
  a release grants the waiting reads that fit, the earliest first. \<open>read_step\<close> is one call of either; its
  ghost state \<open>iw_holders\<close> lists the reads that hold bytes.
\<close>

section \<open>The budget\<close>

definition max_inline_bytes :: nat where
  "max_inline_bytes = 16 * 1024 * 1024"

definition max_in_flight :: nat where
  "max_in_flight = 64 * 1024 * 1024"

text \<open>\<open>maxInlineArtifactBytes\<close> of a configured output limit.\<close>

definition inline_limit :: "int \<Rightarrow> nat" where
  "inline_limit max_output = (if 0 < max_output \<and> max_output \<le> 9007199254740991
     then min max_inline_bytes (nat max_output) else max_inline_bytes)"

record inline_budget =
  ib_in_flight :: nat
  ib_waiters :: "(nat \<times> nat) list"

definition new_budget :: inline_budget where
  "new_budget = \<lparr>ib_in_flight = 0, ib_waiters = []\<rparr>"

definition fits :: "nat \<Rightarrow> nat \<times> nat \<Rightarrow> bool" where
  "fits in_flight w \<longleftrightarrow> in_flight + snd w \<le> max_in_flight"

text \<open>A read is its number and its bytes; the answer says whether it may go on at once.\<close>

definition acquire_bytes :: "nat \<times> nat \<Rightarrow> inline_budget \<Rightarrow> bool \<times> inline_budget" where
  "acquire_bytes w bd =
     (if fits (ib_in_flight bd) w then (True, bd\<lparr>ib_in_flight := ib_in_flight bd + snd w\<rparr>)
      else (False, bd\<lparr>ib_waiters := ib_waiters bd @ [w]\<rparr>))"

text \<open>The loop of a release: the waiters that it resolves, in order.\<close>

function grant_waiting :: "inline_budget \<Rightarrow> (nat \<times> nat) list \<times> inline_budget" where
  "grant_waiting bd = (case List.extract (fits (ib_in_flight bd)) (ib_waiters bd) of
       None \<Rightarrow> ([], bd)
     | Some (ys, w, zs) \<Rightarrow> (case grant_waiting (bd\<lparr>ib_in_flight := ib_in_flight bd + snd w,
           ib_waiters := ys @ zs\<rparr>) of (gs, bd') \<Rightarrow> (w # gs, bd')))"
  by pat_completeness auto
termination
  by (relation "measure (\<lambda>bd. length (ib_waiters bd))") (auto dest!: extract_SomeE [THEN conjunct1])

declare grant_waiting.simps [simp del]

definition release_bytes :: "nat \<Rightarrow> inline_budget \<Rightarrow> (nat \<times> nat) list \<times> inline_budget" where
  "release_bytes b bd = grant_waiting (bd\<lparr>ib_in_flight := ib_in_flight bd - b\<rparr>)"

section \<open>What a release grants\<close>

definition bytes_of :: "(nat \<times> nat) list \<Rightarrow> nat" where
  "bytes_of ws = sum_list (map snd ws)"

lemma bytes_of_simps [simp]: "bytes_of [] = 0" "bytes_of (w # ws) = snd w + bytes_of ws"
  "bytes_of (ws @ vs) = bytes_of ws + bytes_of vs"
  by (simp_all add: bytes_of_def)

lemma bytes_of_remove: "w \<in> set ws \<Longrightarrow> bytes_of (remove1 w ws) + snd w = bytes_of ws"
  by (induction ws) auto

lemma grant_waiting_stops:
  assumes "grant_waiting bd = (gs, bd')" and "w \<in> set (ib_waiters bd')"
  shows "\<not> fits (ib_in_flight bd') w"
  using assms
proof (induction bd arbitrary: gs bd' rule: grant_waiting.induct)
  case (1 bd)
  show ?case
  proof (cases "List.extract (fits (ib_in_flight bd)) (ib_waiters bd)")
    case None
    with 1 show ?thesis by (auto simp: grant_waiting.simps [of bd] extract_None_iff)
  next
    case (Some r)
    obtain ys v zs where r: "r = (ys, v, zs)" by (cases r)
    obtain hs e where "grant_waiting (bd\<lparr>ib_in_flight := ib_in_flight bd + snd v, ib_waiters := ys @ zs\<rparr>) = (hs, e)"
      by fastforce
    with 1 Some r show ?thesis by (auto simp: grant_waiting.simps [of bd])
  qed
qed

lemma grant_waiting_moves:
  assumes "grant_waiting bd = (gs, bd')"
  shows "ib_in_flight bd' = ib_in_flight bd + bytes_of gs \<and>
    mset (ib_waiters bd) = mset gs + mset (ib_waiters bd') \<and>
    (ib_in_flight bd \<le> max_in_flight \<longrightarrow> ib_in_flight bd' \<le> max_in_flight)"
  using assms
proof (induction bd arbitrary: gs bd' rule: grant_waiting.induct)
  case (1 bd)
  show ?case
  proof (cases "List.extract (fits (ib_in_flight bd)) (ib_waiters bd)")
    case None
    with 1 show ?thesis by (simp add: grant_waiting.simps [of bd])
  next
    case (Some r)
    obtain ys v zs where r: "r = (ys, v, zs)" by (cases r)
    let ?e = "bd\<lparr>ib_in_flight := ib_in_flight bd + snd v, ib_waiters := ys @ zs\<rparr>"
    obtain hs e where hs: "grant_waiting ?e = (hs, e)" by fastforce
    have v: "ib_waiters bd = ys @ v # zs" "fits (ib_in_flight bd) v"
      using extract_SomeE [OF Some [unfolded r]] by auto
    from 1(1) [OF Some [unfolded r] refl refl hs] v 1(2) Some r hs show ?thesis
      by (auto simp: grant_waiting.simps [of bd] fits_def)
  qed
qed

section \<open>Reads one after another\<close>

record inline_world =
  iw_budget :: inline_budget
  iw_holders :: "(nat \<times> nat) list"

definition no_reads :: inline_world where
  "no_reads = \<lparr>iw_budget = new_budget, iw_holders = []\<rparr>"

definition begin_read :: "nat \<times> nat \<Rightarrow> inline_world \<Rightarrow> inline_world" where
  "begin_read v w = (case acquire_bytes v (iw_budget w) of
     (ok, bd) \<Rightarrow> \<lparr>iw_budget = bd, iw_holders = (if ok then iw_holders w @ [v] else iw_holders w)\<rparr>)"

definition finish_read :: "nat \<times> nat \<Rightarrow> inline_world \<Rightarrow> inline_world" where
  "finish_read v w = (case release_bytes (snd v) (iw_budget w) of
     (gs, bd) \<Rightarrow> \<lparr>iw_budget = bd, iw_holders = remove1 v (iw_holders w) @ gs\<rparr>)"

text \<open>A read asks for at most the inline limit; a holder gives back what it holds, once.\<close>

inductive read_step :: "inline_world \<Rightarrow> inline_world \<Rightarrow> bool" where
  begins: "snd v \<le> max_inline_bytes \<Longrightarrow> read_step w (begin_read v w)"
| finishes: "v \<in> set (iw_holders w) \<Longrightarrow> read_step w (finish_read v w)"

definition budget_ok :: "inline_world \<Rightarrow> bool" where
  "budget_ok w \<longleftrightarrow> ib_in_flight (iw_budget w) = bytes_of (iw_holders w) \<and>
     ib_in_flight (iw_budget w) \<le> max_in_flight \<and>
     (\<forall>v\<in>set (ib_waiters (iw_budget w)). snd v \<le> max_inline_bytes \<and> \<not> fits (ib_in_flight (iw_budget w)) v)"

lemma budget_ok_no_reads [simp]: "budget_ok no_reads"
  by (simp add: budget_ok_def no_reads_def new_budget_def)

lemma budget_ok_begin: "budget_ok w \<Longrightarrow> snd v \<le> max_inline_bytes \<Longrightarrow> budget_ok (begin_read v w)"
  by (auto simp: budget_ok_def begin_read_def acquire_bytes_def fits_def)

lemma finish_read_cases:
  assumes "budget_ok w" and "v \<in> set (iw_holders w)"
  shows "\<exists>gs. iw_holders (finish_read v w) = remove1 v (iw_holders w) @ gs \<and>
    mset (ib_waiters (iw_budget w)) = mset gs + mset (ib_waiters (iw_budget (finish_read v w))) \<and>
    budget_ok (finish_read v w)"
proof -
  let ?bd = "(iw_budget w)\<lparr>ib_in_flight := ib_in_flight (iw_budget w) - snd v\<rparr>"
  obtain gs bd where g: "grant_waiting ?bd = (gs, bd)" by fastforce
  then have f: "finish_read v w = \<lparr>iw_budget = bd, iw_holders = remove1 v (iw_holders w) @ gs\<rparr>"
    by (simp add: finish_read_def release_bytes_def)
  note moved = grant_waiting_moves [OF g]
  have "bytes_of (remove1 v (iw_holders w)) + snd v = bytes_of (iw_holders w)"
    using assms(2) by (rule bytes_of_remove)
  with moved assms(1) have "ib_in_flight bd = bytes_of (remove1 v (iw_holders w) @ gs)"
    and "ib_in_flight bd \<le> max_in_flight"
    by (auto simp: budget_ok_def)
  moreover have "set (ib_waiters bd) \<subseteq> set (ib_waiters (iw_budget w))"
    using moved by (metis inline_budget.select_convs(2) inline_budget.simps(3) set_mset_mset set_mset_union
        Un_upper2 inline_budget.update_convs(1) inline_budget.surjective)
  ultimately have "budget_ok (finish_read v w)"
    using assms(1) grant_waiting_stops [OF g] by (auto simp: budget_ok_def f)
  with moved show ?thesis by (intro exI [of _ gs]) (simp add: f)
qed

lemma budget_ok_steps: "read_step\<^sup>*\<^sup>* no_reads w \<Longrightarrow> budget_ok w"
proof (induction rule: rtranclp_induct)
  case (step w w')
  from step(2,3) show ?case
    by (cases rule: read_step.cases) (auto simp: budget_ok_begin dest: finish_read_cases)
qed simp

text \<open>A waiting read waits for a holder.\<close>

lemma waiting_needs_holder:
  assumes "budget_ok w" and "ib_waiters (iw_budget w) \<noteq> []"
  shows "iw_holders w \<noteq> []"
proof
  assume "iw_holders w = []"
  moreover obtain v where "v \<in> set (ib_waiters (iw_budget w))" using assms(2) by (cases "ib_waiters (iw_budget w)") auto
  ultimately show False
    using assms(1) by (auto simp: budget_ok_def fits_def max_inline_bytes_def max_in_flight_def)
qed

text \<open>Holders that finish, with no new reads, leave nothing behind.\<close>

inductive finishing :: "inline_world \<Rightarrow> inline_world \<Rightarrow> bool" where
  "v \<in> set (iw_holders w) \<Longrightarrow> finishing w (finish_read v w)"

definition reads_open :: "inline_world \<Rightarrow> nat" where
  "reads_open w = length (iw_holders w) + length (ib_waiters (iw_budget w))"

lemma finishing_reduces:
  assumes "budget_ok w" and "finishing w w'"
  shows "budget_ok w' \<and> Suc (reads_open w') = reads_open w"
  using assms(2)
proof cases
  case (1 v)
  obtain gs where gs: "iw_holders w' = remove1 v (iw_holders w) @ gs"
    "mset (ib_waiters (iw_budget w)) = mset gs + mset (ib_waiters (iw_budget w'))" "budget_ok w'"
    using finish_read_cases [OF assms(1) 1(2)] 1(1) by blast
  from arg_cong [OF gs(2), of size] have "length (ib_waiters (iw_budget w)) = length gs + length (ib_waiters (iw_budget w'))"
    by simp
  moreover have "Suc (length (remove1 v (iw_holders w))) = length (iw_holders w)"
    using 1(2) length_pos_if_in_set [OF 1(2)] by (simp add: length_remove1)
  ultimately show ?thesis using gs by (simp add: reads_open_def)
qed

lemma finishing_goes_on: "budget_ok w \<Longrightarrow> reads_open w \<noteq> 0 \<Longrightarrow> \<exists>w'. finishing w w'"
  using waiting_needs_holder [of w] finishing.intros [of "hd (iw_holders w)" w]
  by (auto simp: reads_open_def)

lemma finishing_counts:
  "(finishing ^^ n) w w' \<Longrightarrow> budget_ok w \<Longrightarrow> budget_ok w' \<and> reads_open w' + n = reads_open w"
proof (induction n arbitrary: w')
  case (Suc n)
  then obtain v where v: "(finishing ^^ n) w v" "finishing v w'" by auto
  with Suc finishing_reduces [of v w'] show ?case by fastforce
qed simp

lemma finishing_completes:
  assumes "budget_ok w"
  shows "\<exists>w'. (finishing ^^ reads_open w) w w'"
proof -
  have "\<exists>w'. (finishing ^^ n) w w'" if "n \<le> reads_open w" for n
    using that
  proof (induction n)
    case (Suc n)
    then obtain v where v: "(finishing ^^ n) w v" by auto
    with finishing_counts [OF v assms] Suc(2) finishing_goes_on [of v] show ?case by auto
  qed auto
  then show ?thesis by blast
qed

end
