(* ===== verification/Remote_Base.thy ===== *)
theory Remote_Base
  imports OAuth Svg_Retry Upload
begin

text \<open>
  What the operations of \<open>RemoteRenderService\<close> (packages/remote-mcp-core/src/index.ts) share: its
  settings, the caller, the decoding of base64, the checks on owned sources, quota, queue and
  maintenance mode.
\<close>

section \<open>Settings and callers\<close>

text \<open>
  \<open>rd_canon\<close> is \<open>s.normalize("NFC").toLowerCase()\<close>, \<open>rd_sha\<close> the hexadecimal SHA-256, \<open>rd_zip\<close> what yauzl
  finds in an archive and \<open>rd_unpack\<close> the files that are extracted from it, \<open>rd_pack\<close> the archive that yazl
  writes, and \<open>rd_collate\<close> the keys that \<open>localeCompare\<close> compares.
\<close>

record remote_deps =
  rd_sha :: "string \<Rightarrow> string"
  rd_canon :: "string \<Rightarrow> string"
  rd_zip :: "string \<Rightarrow> zip_event list option"
  rd_unpack :: "string \<Rightarrow> (string \<times> string) list"
  rd_pack :: "(string \<times> string) list \<Rightarrow> string"
  rd_collate :: "string \<Rightarrow> string"
  rd_root :: string
  rd_renderer_version :: string
  rd_max_queue_length :: nat
  rd_max_user_storage_bytes :: nat
  rd_max_output_bytes :: nat
  rd_retention_hours :: nat
  rd_max_upload_bytes :: nat
  rd_max_extracted_bytes :: nat
  rd_max_zip_entries :: nat
  rd_max_file_count :: nat

record remote_identity =
  ri_user_id :: string
  ri_scopes :: "string list"

definition source_upload_ms :: nat where "source_upload_ms = 10 * 60000"
definition source_upload_lease_ms :: nat where "source_upload_lease_ms = 60000"
definition source_ref_ms :: nat where "source_ref_ms = 15 * 60000"
definition inline_source_max_bytes :: nat where "inline_source_max_bytes = 64 * 1024"
definition direct_source_max_bytes :: nat where "direct_source_max_bytes = 4 * 1024 * 1024"
definition direct_source_max_file_bytes :: nat where "direct_source_max_file_bytes = 1024 * 1024"
definition direct_source_max_files :: nat where "direct_source_max_files = 100"
definition chunk_max_bytes :: nat where "chunk_max_bytes = 512 * 1024"

definition remote_zip_limits :: "remote_deps \<Rightarrow> zip_limits" where
  "remote_zip_limits rd = \<lparr>max_extracted_bytes = rd_max_extracted_bytes rd,
     max_file_bytes = rd_max_upload_bytes rd, max_entries = rd_max_zip_entries rd,
     max_files = rd_max_file_count rd, max_depth = 10, max_name_length = 200\<rparr>"

record direct_limits =
  dl_files :: nat
  dl_file_bytes :: nat
  dl_content_bytes :: nat

definition direct_source_limits :: "remote_deps \<Rightarrow> direct_limits" where
  "direct_source_limits rd = \<lparr>dl_files = min direct_source_max_files (rd_max_file_count rd),
     dl_file_bytes = min direct_source_max_file_bytes
       (min (rd_max_upload_bytes rd) (rd_max_extracted_bytes rd)),
     dl_content_bytes = min direct_source_max_bytes (rd_max_extracted_bytes rd)\<rparr>"

text \<open>A number of a tool call: \<open>None\<close> when it is not an integer.\<close>

definition safe_count :: "int option \<Rightarrow> bool" where
  "safe_count n = (case n of None \<Rightarrow> False | Some m \<Rightarrow> 0 \<le> m \<and> m \<le> max_safe)"

section \<open>Base64\<close>

definition base64_value :: "char \<Rightarrow> nat option" where
  "base64_value c = (let n = ord_of c in
     if 65 \<le> n \<and> n \<le> 90 then Some (n - 65) else if 97 \<le> n \<and> n \<le> 122 then Some (n - 71)
     else if 48 \<le> n \<and> n \<le> 57 then Some (n + 4) else if n = 43 then Some 62
     else if n = 47 then Some 63 else None)"

text \<open>
  The pattern of \<open>decodeBase64\<close> and the bytes \<open>Buffer.from\<close> reads from a text that matches it: four
  digits give three bytes, the last group may be padded, and what its digits hold beyond the
  bytes is dropped.
\<close>

fun base64_groups :: "string \<Rightarrow> string option" where
  "base64_groups [] = Some []"
| "base64_groups (a # b # c # d # s) =
     (case (base64_value a, base64_value b) of
        (Some x, Some y) \<Rightarrow>
          (if c = CHR ''='' then if d = CHR ''='' \<and> s = [] then Some [char_of (4 * x + y div 16)] else None
           else (case base64_value c of None \<Rightarrow> None
             | Some z \<Rightarrow>
                 if d = CHR ''='' then if s = [] then Some [char_of (4 * x + y div 16),
                     char_of (16 * (y mod 16) + z div 4)] else None
                 else (case (base64_value d, base64_groups s) of
                     (Some w, Some r) \<Rightarrow> Some (char_of (4 * x + y div 16) #
                       char_of (16 * (y mod 16) + z div 4) # char_of (64 * (z mod 4) + w) # r)
                   | _ \<Rightarrow> None)))
      | _ \<Rightarrow> None)"
| "base64_groups _ = None"

definition decode_base64 :: "string \<Rightarrow> string result" where
  "decode_base64 s = (case base64_groups s of None \<Rightarrow> Inl (AppError ''INVALID_BASE64'' 400) | Some b \<Rightarrow> Inr b)"

text \<open>The encoding that senders use, of RFC 4648.\<close>

definition base64_digit :: "nat \<Rightarrow> char" where
  "base64_digit n = (if n < 26 then char_of (n + 65) else if n < 52 then char_of (n + 71)
     else if n < 62 then char_of (n - 4) else if n = 62 then CHR ''+'' else CHR ''/'')"

fun encode_base64 :: "string \<Rightarrow> string" where
  "encode_base64 [] = []"
| "encode_base64 [a] = [base64_digit (ord_of a div 4), base64_digit (16 * (ord_of a mod 4)),
     CHR ''='', CHR ''='']"
| "encode_base64 [a, b] = [base64_digit (ord_of a div 4),
     base64_digit (16 * (ord_of a mod 4) + ord_of b div 16), base64_digit (4 * (ord_of b mod 16)), CHR ''='']"
| "encode_base64 (a # b # c # s) = base64_digit (ord_of a div 4) #
     base64_digit (16 * (ord_of a mod 4) + ord_of b div 16) #
     base64_digit (4 * (ord_of b mod 16) + ord_of c div 64) # base64_digit (ord_of c mod 64) # encode_base64 s"

lemma base64_value_digit: "n < 64 \<Longrightarrow> base64_value (base64_digit n) = Some n"
  by (auto simp: base64_value_def base64_digit_def Let_def)

lemma base64_digit_not_pad: "n < 64 \<Longrightarrow> base64_digit n \<noteq> CHR ''=''"
  using base64_value_digit [of n] by (auto simp: base64_value_def)

lemma ord_of_less: "ord_of c < 256"
  by simp

lemma sextets:
  fixes a b c :: nat
  assumes "a < 256" and "b < 256" and "c < 256"
  shows "a div 4 < 64" "16 * (a mod 4) < 64" "16 * (a mod 4) + b div 16 < 64" "4 * (b mod 16) < 64"
    "4 * (b mod 16) + c div 64 < 64" "c mod 64 < 64"
    "(16 * (a mod 4) + b div 16) div 16 = a mod 4" "(16 * (a mod 4) + b div 16) mod 16 = b div 16"
    "(4 * (b mod 16) + c div 64) div 4 = b mod 16" "(4 * (b mod 16) + c div 64) mod 4 = c div 64"
  using assms by auto

lemma octets:
  "4 * (a div 4) + a mod 4 = a" "16 * (b div 16) + b mod 16 = b" "64 * (c div 64) + c mod 64 = c"
  for a b c :: nat
  by simp_all

lemma decode_encode_base64: "decode_base64 (encode_base64 s) = Inr s"
proof -
  have d: "n < 64 \<Longrightarrow> base64_value (base64_digit n) = Some n \<and> base64_digit n \<noteq> CHR ''=''" for n
    by (simp add: base64_value_digit base64_digit_not_pad)
  have "base64_groups (encode_base64 s) = Some s"
  proof (induction s rule: encode_base64.induct)
    case (2 a)
    note six = sextets [OF ord_of_less [of a] ord_of_less [of a] ord_of_less [of a]]
    show ?case using six(1,2) by (simp add: d octets)
  next
    case (3 a b)
    note six = sextets [OF ord_of_less [of a] ord_of_less [of b] ord_of_less [of b]]
    show ?case using six(1,3,4,7,8) by (simp add: d octets)
  next
    case (4 a b c s)
    note six = sextets [OF ord_of_less [of a] ord_of_less [of b] ord_of_less [of c]]
    show ?case using six(1,3,5-10) 4 by (simp add: d octets)
  qed simp
  then show ?thesis by (simp add: decode_base64_def)
qed

section \<open>Checks\<close>

definition owned_source :: "string \<Rightarrow> string \<Rightarrow> db \<Rightarrow> source_row result" where
  "owned_source u i d = (case source_get_owned d i u [] of
     None \<Rightarrow> Inl (AppError ''SOURCE_NOT_FOUND'' 404) | Some s \<Rightarrow> Inr s)"

definition resolve_owned_source :: "string \<Rightarrow> string \<Rightarrow> timestamp \<Rightarrow> db \<Rightarrow> source_row result" where
  "resolve_owned_source u i now d = bind_r (owned_source u i d) (\<lambda>s.
     ensure (source_get_owned_ready d (s_id s) u now [] \<noteq> None) (AppError ''SOURCE_NOT_READY'' 409) (Inr s))"

definition source_path :: "remote_deps \<Rightarrow> source_row \<Rightarrow> string result" where
  "source_path rd s = ensure (\<not> bad_storage_key (s_storage_key s)) (AppError ''SOURCE_STORAGE_INVALID'' 500)
     (Inr (rd_root rd @ ''/'' @ s_storage_key s))"

definition assert_storage_quota :: "remote_deps \<Rightarrow> string \<Rightarrow> nat \<Rightarrow> db \<Rightarrow> unit result" where
  "assert_storage_quota rd u bytes d =
     check_setting d ''max_user_storage_bytes'' (JNum (int (rd_max_user_storage_bytes rd)))
       (\<lambda>v. exceeds (int bytes) v (storage_usage_for_user d u)) ''USER_STORAGE_QUOTA'' 429"

definition assert_maintenance :: "db \<Rightarrow> unit result" where
  "assert_maintenance d = check_setting d ''maintenance_mode'' (JStr ''normal'')
     (\<lambda>v. v \<noteq> JStr ''normal'') ''MAINTENANCE'' 503"

definition assert_remote_queue :: "remote_deps \<Rightarrow> string \<Rightarrow> string \<Rightarrow> db \<Rightarrow> unit result" where
  "assert_remote_queue rd u acc d =
     bind_r (assert_maintenance d) (\<lambda>_.
     bind_r (check_setting d ''max_queue_length'' (JNum (int (rd_max_queue_length rd)))
       (reaches (count_active d)) ''QUEUE_FULL'' 503) (\<lambda>_.
     ensure (count_active_for_service_account d acc < 5) (AppError ''ACCOUNT_QUEUE_LIMIT'' 429)
     (bind_r (check_setting d ''max_user_active_jobs'' (JNum 20)
       (reaches (count_active_for_user d u)) ''USER_QUEUE_LIMIT'' 429) (\<lambda>_.
      assert_storage_quota rd u (rd_max_output_bytes rd) d))))"

record source_summary =
  su_id :: string
  su_status :: source_status
  su_size :: nat
  su_sha256 :: string
  su_paths :: "string list"
  su_created_at :: timestamp
  su_expires_at :: timestamp
  su_revision_of :: "string option"

definition summarize_source :: "source_row \<Rightarrow> string option \<Rightarrow> source_summary result" where
  "summarize_source s old = bind_r (source_paths s) (\<lambda>ps. Inr \<lparr>su_id = s_id s, su_status = s_status s,
     su_size = s_size s, su_sha256 = s_sha256 s, su_paths = ps, su_created_at = s_created_at s,
     su_expires_at = s_expires_at s, su_revision_of = old\<rparr>)"

end
