(* ===== verification/Chunked_Upload.thy ===== *)
theory Chunked_Upload
  imports Remote_Base
begin

text \<open>
  The upload of a source in chunks (\<open>beginSourceUpload\<close>, \<open>appendSourceChunk\<close>, \<open>completeSourceUpload\<close>,
  \<open>writeUploadChunk\<close> and \<open>assembleUploadChunks\<close> of packages/remote-mcp-core/src/index.ts). Each call is a
  sequence of phases, and between two phases others run: other calls on the same upload, with
  their lease or after it ran out, and the rest of the program. A phase is a function of the database
  or of the upload's files; \<open>upload_step\<close> in Chunk_Steps composes them.
\<close>

section \<open>Files and replies\<close>

text \<open>
  The files of one upload: \<open>source.zip\<close>, the chunks in \<open>.chunks\<close> by their offset (\<open>None\<close>: no such
  directory), and the archives \<open>source.zip.finalizing-<owner>\<close>.
\<close>

record upload_files =
  uf_archive :: "string option"
  uf_chunks :: "(nat \<times> string) list option"
  uf_temps :: "(string \<times> string) list"

definition no_files :: upload_files where
  "no_files = \<lparr>uf_archive = None, uf_chunks = None, uf_temps = []\<rparr>"

record chunk_reply =
  cp_source_id :: string
  cp_expected_bytes :: nat
  cp_received_bytes :: nat
  cp_expires_at :: timestamp
  cp_max_chunk_bytes :: nat

text \<open>\<open>uploadId\<close> and \<open>sourceId\<close> are the same.\<close>

definition chunk_reply :: "source_row \<Rightarrow> nat \<Rightarrow> chunk_reply" where
  "chunk_reply s received = \<lparr>cp_source_id = s_id s, cp_expected_bytes = s_size s,
     cp_received_bytes = received, cp_expires_at = s_expires_at s, cp_max_chunk_bytes = chunk_max_bytes\<rparr>"

section \<open>Beginning\<close>

definition remote_reservation :: "string \<Rightarrow> string \<Rightarrow> nat \<Rightarrow> string \<Rightarrow> timestamp \<Rightarrow> bool option \<Rightarrow> source_input" where
  "remote_reservation u i n hash now dedupe = \<lparr>si_id = i, si_owner_user_id = u, si_size = n,
     si_sha256 = hash, si_storage_key = ''sources/'' @ i @ ''/source.zip'', si_timestamp = now,
     si_expires_at = now + source_upload_ms, si_dedupe_eligible = dedupe, si_service_account_id = None\<rparr>"

definition reserve_remote :: "remote_deps \<Rightarrow> string \<Rightarrow> nat \<Rightarrow> string \<Rightarrow> bool option \<Rightarrow> string \<Rightarrow> timestamp \<Rightarrow> unit tx" where
  "reserve_remote rd u n hash dedupe i now =
     seq_tx (read_tx (assert_storage_quota rd u n)) (\<lambda>_.
     seq_tx (read_tx assert_source_writable) (\<lambda>_.
     source_insert_reserved (remote_reservation u i n hash now dedupe)))"

datatype begun_upload = ExistingSource chunk_reply | Reserved_Upload chunk_reply

definition begin_source_upload :: "remote_deps \<Rightarrow> remote_identity \<Rightarrow> int option \<Rightarrow> string \<Rightarrow> string \<Rightarrow>
  timestamp \<Rightarrow> begun_upload tx" where
  "begin_source_upload rd c n hash i now d =
     bind_r (require_scope (ri_scopes c) ''mcp:render'') (\<lambda>_.
     bind_r (assert_source_writable d) (\<lambda>_.
     ensure (safe_count n \<and> 1 \<le> the n \<and> the n \<le> int (rd_max_upload_bytes rd)) (AppError ''SOURCE_UPLOAD_SIZE'' 400)
     (ensure (is_sha256 hash) (AppError ''SOURCE_UPLOAD_HASH'' 400)
     (case find_ready d (ri_user_id c) hash (nat (the n)) now [] of
        Some s \<Rightarrow> Inr (ExistingSource (chunk_reply s (nat (the n))), d)
      | None \<Rightarrow> bind_r (reserve_remote rd (ri_user_id c) (nat (the n)) hash (Some False) i now d) (\<lambda>(_, d').
          Inr (Reserved_Upload \<lparr>cp_source_id = i, cp_expected_bytes = nat (the n), cp_received_bytes = 0,
            cp_expires_at = now + source_upload_ms, cp_max_chunk_bytes = chunk_max_bytes\<rparr>, d'))))))"

definition prepare_files :: "upload_files \<Rightarrow> upload_files result" where
  "prepare_files f = ensure (uf_archive f = None \<and> uf_chunks f = None) PlainError
     (Inr (f\<lparr>uf_archive := Some [], uf_chunks := Some []\<rparr>))"

definition activate_upload :: "string \<Rightarrow> timestamp \<Rightarrow> unit tx" where
  "activate_upload i now = seq_tx (read_tx assert_source_writable) (\<lambda>_.
     source_transition_before_expiry i [SReserved] SUploading now [])"

section \<open>A chunk\<close>

definition still_open :: "source_row \<Rightarrow> timestamp \<Rightarrow> unit result" where
  "still_open s now =
     ensure (now < s_expires_at s) (AppError ''SOURCE_UPLOAD_EXPIRED'' 410)
     (ensure (s_status s = SUploading) (AppError ''SOURCE_UPLOAD_STATE'' 409) (Inr ()))"

definition lease_upload :: "string \<Rightarrow> string \<Rightarrow> string \<Rightarrow> timestamp \<Rightarrow> db \<Rightarrow> source_row result \<times> db" where
  "lease_upload i u w now d =
     (case claim_upload_lease i u w now (now + source_upload_lease_ms) d of
        (None, d') \<Rightarrow> (Inl (AppError ''SOURCE_UPLOAD_CONCURRENT'' 409), d')
      | (Some r, d') \<Rightarrow> (Inr r, d'))"

datatype chunk_begun = AllThere chunk_reply | ChunkLeased source_row nat string

text \<open>The checks up to the lease, with the offset and the bytes.\<close>

definition chunk_checks :: "remote_identity \<Rightarrow> string \<Rightarrow> int option \<Rightarrow> string \<Rightarrow> timestamp \<Rightarrow> db \<Rightarrow>
  (chunk_reply + nat \<times> string) result" where
  "chunk_checks c i offset text64 now d =
     bind_r (require_scope (ri_scopes c) ''mcp:render'') (\<lambda>_.
     bind_r (assert_source_writable d) (\<lambda>_.
     bind_r (owned_source (ri_user_id c) i d) (\<lambda>s.
     if s_status s = SReady
     then bind_r (resolve_owned_source (ri_user_id c) i now d) (\<lambda>_. Inr (Inl (chunk_reply s (s_size s))))
     else bind_r (still_open s now) (\<lambda>_.
       ensure (safe_count offset) (AppError ''SOURCE_UPLOAD_OFFSET'' 400)
       (bind_r (decode_base64 text64) (\<lambda>bytes.
        ensure (1 \<le> length bytes \<and> length bytes \<le> chunk_max_bytes) (AppError ''SOURCE_UPLOAD_CHUNK_SIZE'' 400)
        (Inr (Inr (nat (the offset), bytes)))))))))"

definition begin_chunk :: "remote_identity \<Rightarrow> string \<Rightarrow> int option \<Rightarrow> string \<Rightarrow> string \<Rightarrow> timestamp \<Rightarrow> db \<Rightarrow>
  chunk_begun result \<times> db" where
  "begin_chunk c i offset text64 w now d =
     (case chunk_checks c i offset text64 now d of
        Inl e \<Rightarrow> (Inl e, d)
      | Inr (Inl reply) \<Rightarrow> (Inr (AllThere reply), d)
      | Inr (Inr (n, bytes)) \<Rightarrow> (case lease_upload i (ri_user_id c) w now d of
            (Inl e, d') \<Rightarrow> (Inl e, d')
          | (Inr r, d') \<Rightarrow> (Inr (ChunkLeased r n bytes), d')))"

definition check_staging :: "source_row \<Rightarrow> nat \<Rightarrow> string \<Rightarrow> upload_files \<Rightarrow> unit result" where
  "check_staging r offset bytes f =
     (case uf_archive f of
        None \<Rightarrow> Inl PlainError
      | Some a \<Rightarrow>
          ensure (a = []) (AppError ''SOURCE_UPLOAD_STATE'' 409)
          (ensure (uf_chunks f \<noteq> None) (AppError ''SOURCE_UPLOAD_STATE'' 409)
          (ensure (offset = s_received r) (AppError ''SOURCE_UPLOAD_OFFSET'' 409)
          (ensure (offset + length bytes \<le> s_size r) (AppError ''SOURCE_UPLOAD_OVERFLOW'' 400)
          (Inr ())))))"

text \<open>\<open>link\<close> creates the file and never replaces one; the same bytes are taken over.\<close>

definition link_chunk :: "nat \<Rightarrow> string \<Rightarrow> upload_files \<Rightarrow> upload_files result" where
  "link_chunk offset bytes f =
     (case uf_chunks f of
        None \<Rightarrow> Inl PlainError
      | Some cs \<Rightarrow> (case map_of cs offset of
            None \<Rightarrow> Inr (f\<lparr>uf_chunks := Some ((offset, bytes) # cs)\<rparr>)
          | Some b \<Rightarrow> ensure (b = bytes) (AppError ''SOURCE_UPLOAD_CONCURRENT'' 409) (Inr f)))"

definition commit_chunk :: "string \<Rightarrow> source_row \<Rightarrow> string \<Rightarrow> string \<Rightarrow> timestamp \<Rightarrow> db \<Rightarrow> chunk_reply result \<times> db" where
  "commit_chunk i r bytes w now d =
     (case assert_source_writable d of
        Inl e \<Rightarrow> (Inl e, d)
      | Inr _ \<Rightarrow>
          (case commit_upload_offset i w (s_received r) (s_received r + length bytes) now d of (n, d') \<Rightarrow>
            (if n = 1 then Inr (chunk_reply r (s_received r + length bytes))
             else Inl (AppError ''SOURCE_UPLOAD_CONCURRENT'' 409), d')))"

section \<open>Finalizing\<close>

datatype final_begun = AlreadyReady source_summary | FinalLeased source_row

definition final_checks :: "remote_identity \<Rightarrow> string \<Rightarrow> timestamp \<Rightarrow> db \<Rightarrow> source_summary option result" where
  "final_checks c i now d =
     bind_r (require_scope (ri_scopes c) ''mcp:render'') (\<lambda>_.
     bind_r (assert_source_writable d) (\<lambda>_.
     bind_r (owned_source (ri_user_id c) i d) (\<lambda>s.
     if s_status s = SReady
     then bind_r (resolve_owned_source (ri_user_id c) i now d) (\<lambda>r.
       bind_r (summarize_source r None) (\<lambda>x. Inr (Some x)))
     else bind_r (still_open s now) (\<lambda>_. Inr None))))"

definition begin_finalize :: "remote_identity \<Rightarrow> string \<Rightarrow> string \<Rightarrow> timestamp \<Rightarrow> db \<Rightarrow> final_begun result \<times> db" where
  "begin_finalize c i w now d =
     (case final_checks c i now d of
        Inl e \<Rightarrow> (Inl e, d)
      | Inr (Some x) \<Rightarrow> (Inr (AlreadyReady x), d)
      | Inr None \<Rightarrow> (case lease_upload i (ri_user_id c) w now d of
            (Inl e, d') \<Rightarrow> (Inl e, d')
          | (Inr r, d') \<Rightarrow> (Inr (FinalLeased r), d')))"

text \<open>Whether \<open>source.zip\<close> is there in full already, from an earlier attempt.\<close>

definition check_archive :: "source_row \<Rightarrow> upload_files \<Rightarrow> bool result" where
  "check_archive r f =
     (case uf_archive f of
        None \<Rightarrow> Inl PlainError
      | Some a \<Rightarrow>
          ensure (s_received r = s_size r) (AppError ''SOURCE_UPLOAD_MISMATCH'' 422)
          (ensure (length a = 0 \<or> length a = s_size r) (AppError ''SOURCE_UPLOAD_MISMATCH'' 422)
          (Inr (length a = s_size r))))"

definition open_temp :: "string \<Rightarrow> upload_files \<Rightarrow> upload_files result" where
  "open_temp w f = ensure (map_of (uf_temps f) w = None) PlainError
     (Inr (f\<lparr>uf_temps := (w, []) # uf_temps f\<rparr>))"

text \<open>The next chunk after the bytes that were copied; a chunk does not change once it is there.\<close>

definition read_chunk :: "source_row \<Rightarrow> string \<Rightarrow> upload_files \<Rightarrow> string result" where
  "read_chunk r got f =
     (case uf_chunks f of
        None \<Rightarrow> Inl PlainError
      | Some cs \<Rightarrow> (case map_of cs (length got) of
            None \<Rightarrow> Inl PlainError
          | Some b \<Rightarrow> ensure (1 \<le> length b \<and> length b \<le> chunk_max_bytes \<and> length got + length b \<le> s_size r)
              (AppError ''SOURCE_UPLOAD_MISMATCH'' 422) (Inr b)))"

definition write_temp :: "string \<Rightarrow> string \<Rightarrow> upload_files \<Rightarrow> upload_files" where
  "write_temp w bytes f = f\<lparr>uf_temps := map (\<lambda>(v, b). if v = w then (v, bytes) else (v, b)) (uf_temps f)\<rparr>"

lemma read_chunk_Inr:
  "read_chunk r got f = Inr b \<longleftrightarrow> (\<exists>cs. uf_chunks f = Some cs \<and> map_of cs (length got) = Some b \<and>
     1 \<le> length b \<and> length b \<le> chunk_max_bytes \<and> length got + length b \<le> s_size r)"
  by (auto simp: read_chunk_def split: option.splits)

lemma bind_r_cong [fundef_cong]:
  "m = m' \<Longrightarrow> (\<And>x. m' = Inr x \<Longrightarrow> k x = k' x) \<Longrightarrow> bind_r m k = bind_r m' k'"
  by (cases m) auto

text \<open>The loop over the chunks, on files that stay as they are.\<close>

function assemble_chunks :: "source_row \<Rightarrow> string \<Rightarrow> upload_files \<Rightarrow> string result" where
  "assemble_chunks r got f =
     (if s_size r \<le> length got then Inr got
      else bind_r (read_chunk r got f) (\<lambda>b. assemble_chunks r (got @ b) f))"
  by pat_completeness auto
termination
  by (relation "measure (\<lambda>(r, got, f). s_size r - length got)") (auto simp: read_chunk_Inr)

declare assemble_chunks.simps [simp del]

definition renew_upload :: "string \<Rightarrow> string \<Rightarrow> timestamp \<Rightarrow> db \<Rightarrow> unit result \<times> db" where
  "renew_upload i w now d =
     (case assert_source_writable d of
        Inl e \<Rightarrow> (Inl e, d)
      | Inr _ \<Rightarrow> (case extend_upload_lease i w now (now + source_upload_lease_ms) d of (n, d') \<Rightarrow>
          (if n = 1 then Inr () else Inl (AppError ''SOURCE_UPLOAD_CONCURRENT'' 409), d')))"

definition verify_digest :: "remote_deps \<Rightarrow> source_row \<Rightarrow> string \<Rightarrow> unit result" where
  "verify_digest rd r bytes = ensure (length bytes = s_size r \<and> rd_sha rd bytes = s_sha256 r)
     (AppError ''SOURCE_UPLOAD_MISMATCH'' 422) (Inr ())"

definition inspect_source :: "remote_deps \<Rightarrow> string \<Rightarrow> string \<Rightarrow> extract_result result" where
  "inspect_source rd root bytes =
     validate_and_extract (remote_zip_limits rd) (rd_canon rd) id root bytes (rd_zip rd bytes) []"

definition promote_temp :: "string \<Rightarrow> upload_files \<Rightarrow> upload_files result" where
  "promote_temp w f =
     (case map_of (uf_temps f) w of
        None \<Rightarrow> Inl PlainError
      | Some b \<Rightarrow> Inr (f\<lparr>uf_archive := Some b, uf_temps := filter (\<lambda>(v, _). v \<noteq> w) (uf_temps f)\<rparr>))"

text \<open>\<open>[...result.paths].sort()\<close>.\<close>

definition complete_remote :: "string \<Rightarrow> string \<Rightarrow> extract_result \<Rightarrow> timestamp \<Rightarrow> timestamp \<Rightarrow> db \<Rightarrow> unit result \<times> db" where
  "complete_remote i w x ts expires d =
     (case assert_source_writable d of
        Inl e \<Rightarrow> (Inl e, d)
      | Inr _ \<Rightarrow> (case complete_upload i w ts expires (paths_json (sort (xr_paths x))) d of (n, d') \<Rightarrow>
          (if n = 1 then Inr () else Inl (AppError ''SOURCE_UPLOAD_CONCURRENT'' 409), d')))"

definition drop_temp :: "string \<Rightarrow> upload_files \<Rightarrow> upload_files" where
  "drop_temp w f = f\<lparr>uf_temps := filter (\<lambda>(v, _). v \<noteq> w) (uf_temps f)\<rparr>"

end
