(* ===== verification/Chunk_Steps.thy ===== *)
theory Chunk_Steps
  imports Chunked_Upload
begin

text \<open>
  All the calls on one chunked upload, interleaved. A process is a call between two of its phases,
  with its lease owner and the row it leased; lease owners are random and used once. \<open>others\<close> is
  what the rest of the program commits, \<open>removed\<close> the removal of the upload's directory by the clean-up.
\<close>

section \<open>Processes\<close>

text \<open>
  \<open>tmp\<close> tells whether the archive was assembled into the owner's temporary file or was there in full;
  \<open>x\<close> is what the inspection of the bytes found.
\<close>

datatype upload_proc =
    Opening
  | Opened
  | Abandoning
  | Claimed string source_row nat string
  | Checked string source_row string
  | Linked string source_row string
  | Finalizing string source_row
  | Assembling string source_row string
  | Staged string source_row bool
  | Hashed string source_row bool string
  | Inspected string source_row bool string extract_result timestamp timestamp
  | Promoted string source_row string extract_result timestamp timestamp
  | Completed string

fun proc_owner :: "upload_proc \<Rightarrow> string option" where
  "proc_owner (Claimed w r n b) = Some w"
| "proc_owner (Checked w r b) = Some w"
| "proc_owner (Linked w r b) = Some w"
| "proc_owner (Finalizing w r) = Some w"
| "proc_owner (Assembling w r got) = Some w"
| "proc_owner (Staged w r tmp) = Some w"
| "proc_owner (Hashed w r tmp b) = Some w"
| "proc_owner (Inspected w r tmp b x ts e) = Some w"
| "proc_owner (Promoted w r b x ts e) = Some w"
| "proc_owner (Completed w) = Some w"
| "proc_owner _ = None"

definition staged_bytes :: "string \<Rightarrow> bool \<Rightarrow> upload_files \<Rightarrow> string option" where
  "staged_bytes w tmp f = (if tmp then map_of (uf_temps f) w else uf_archive f)"

text \<open>One phase of a process: what is left of it, the database and the files after it.\<close>

inductive proc_step :: "remote_deps \<Rightarrow> string \<Rightarrow> upload_proc \<Rightarrow> db \<times> upload_files \<Rightarrow>
  upload_proc option \<Rightarrow> db \<times> upload_files \<Rightarrow> bool" for rd i where
  prepares: "prepare_files f = Inr f' \<Longrightarrow> proc_step rd i Opening (d, f) (Some Opened) (d, f')"
| activates: "activate_upload i now d = Inr ((), d') \<Longrightarrow> proc_step rd i Opened (d, f) None (d', f)"
| gives_up: "p \<in> {Opening, Opened} \<Longrightarrow> proc_step rd i p (d, f) (Some Abandoning) (d, no_files)"
| discards: "discard_reservation i d = Inr (n, d') \<Longrightarrow> proc_step rd i Abandoning (d, f) None (d', f)"
| checks: "check_staging r n b f = Inr () \<Longrightarrow>
    proc_step rd i (Claimed w r n b) (d, f) (Some (Checked w r b)) (d, f)"
| links: "link_chunk (s_received r) b f = Inr f' \<Longrightarrow>
    proc_step rd i (Checked w r b) (d, f) (Some (Linked w r b)) (d, f')"
| commits: "commit_chunk i r b w now d = (reply, d') \<Longrightarrow>
    proc_step rd i (Linked w r b) (d, f) None (snd (release_upload_lease i w d'), f)"
| finds: "check_archive r f = Inr True \<Longrightarrow>
    proc_step rd i (Finalizing w r) (d, f) (Some (Staged w r False)) (d, f)"
| opens: "check_archive r f = Inr False \<Longrightarrow> open_temp w f' = Inr f'' \<Longrightarrow> f' = f \<Longrightarrow>
    proc_step rd i (Finalizing w r) (d, f) (Some (Assembling w r [])) (d, f'')"
| copies: "read_chunk r got f = Inr b \<Longrightarrow> length got < s_size r \<Longrightarrow>
    proc_step rd i (Assembling w r got) (d, f) (Some (Assembling w r (got @ b))) (d, write_temp w (got @ b) f)"
| assembled: "s_size r \<le> length got \<Longrightarrow>
    proc_step rd i (Assembling w r got) (d, f) (Some (Staged w r True)) (d, f)"
| hashes: "staged_bytes w tmp f = Some b \<Longrightarrow> renew_upload i w now d = (Inr (), d') \<Longrightarrow>
    verify_digest rd r b = Inr () \<Longrightarrow>
    proc_step rd i (Staged w r tmp) (d, f) (Some (Hashed w r tmp b)) (d', f)"
| inspects: "inspect_source rd root b = Inr x \<Longrightarrow> orphan_expiry now d = Inr e \<Longrightarrow>
    proc_step rd i (Hashed w r tmp b) (d, f) (Some (Inspected w r tmp b x now e)) (d, f)"
| promotes: "renew_upload i w now d = (Inr (), d') \<Longrightarrow> promote_temp w f = Inr f' \<Longrightarrow>
    proc_step rd i (Inspected w r True b x ts e) (d, f) (Some (Promoted w r b x ts e)) (d', f')"
| keeps: "renew_upload i w now d = (Inr (), d') \<Longrightarrow>
    proc_step rd i (Inspected w r False b x ts e) (d, f) (Some (Promoted w r b x ts e)) (d', f)"
| completes: "complete_remote i w x ts e d = (Inr (), d') \<Longrightarrow>
    proc_step rd i (Promoted w r b x ts e) (d, f) (Some (Completed w)) (d', f)"
| sweeps: "proc_step rd i (Completed w) (d, f) None
    (snd (release_upload_lease i w d), drop_temp w (f\<lparr>uf_chunks := None\<rparr>))"
| beats: "renew_upload i w now d = (a, d') \<Longrightarrow> proc_owner p = Some w \<Longrightarrow>
    proc_step rd i p (d, f) (Some p) (d', f)"
| fails: "proc_owner p = Some w \<Longrightarrow>
    proc_step rd i p (d, f) None (snd (release_upload_lease i w d), drop_temp w f)"
| crashes: "proc_step rd i p (d, f) None (d, f)"

section \<open>The world of an upload\<close>

record upload_world =
  uw_db :: db
  uw_files :: upload_files
  uw_procs :: "upload_proc list"
  uw_owners :: "string set"
  uw_begun :: bool

text \<open>
  What the rest of the program does to the row of a chunked upload: it may be removed and its
  status may change, but nobody else makes it reserved, uploading or ready, or writes its size, hash,
  received bytes or paths.
\<close>

definition row_kept :: "string \<Rightarrow> db \<Rightarrow> db \<Rightarrow> bool" where
  "row_kept i d d' \<longleftrightarrow> (\<forall>s'. source_of d' i = Some s' \<longrightarrow> (\<exists>s. source_of d i = Some s \<and>
     s_size s' = s_size s \<and> s_sha256 s' = s_sha256 s \<and> s_received s' = s_received s \<and>
     s_paths s' = s_paths s \<and>
     (s_status s' = s_status s \<or> s_status s' \<notin> {SReserved, SUploading, SReady})))"

definition start_upload :: "db \<Rightarrow> upload_world" where
  "start_upload d = \<lparr>uw_db = d, uw_files = no_files, uw_procs = [], uw_owners = {}, uw_begun = False\<rparr>"

text \<open>Identifiers are random: one upload begins under an identifier.\<close>

inductive upload_step :: "remote_deps \<Rightarrow> string \<Rightarrow> upload_world \<Rightarrow> upload_world \<Rightarrow> bool" for rd i where
  reserves: "begin_source_upload rd c n hash i now (uw_db w) = Inr (Reserved_Upload reply, d') \<Longrightarrow>
    \<not> uw_begun w \<Longrightarrow>
    upload_step rd i w (w\<lparr>uw_db := d', uw_procs := [Opening], uw_begun := True\<rparr>)"
| chunk: "begin_chunk c i offset text64 ow now (uw_db w) = (Inr (ChunkLeased r n b), d') \<Longrightarrow>
    ow \<notin> uw_owners w \<Longrightarrow>
    upload_step rd i w (w\<lparr>uw_db := d', uw_procs := Claimed ow r n b # uw_procs w,
      uw_owners := insert ow (uw_owners w)\<rparr>)"
| finalize: "begin_finalize c i ow now (uw_db w) = (Inr (FinalLeased r), d') \<Longrightarrow>
    ow \<notin> uw_owners w \<Longrightarrow>
    upload_step rd i w (w\<lparr>uw_db := d', uw_procs := Finalizing ow r # uw_procs w,
      uw_owners := insert ow (uw_owners w)\<rparr>)"
| proceeds: "uw_procs w = ps @ p # qs \<Longrightarrow> proc_step rd i p (uw_db w, uw_files w) p' (d', f') \<Longrightarrow>
    upload_step rd i w (w\<lparr>uw_db := d', uw_files := f',
      uw_procs := ps @ (case p' of None \<Rightarrow> [] | Some q \<Rightarrow> [q]) @ qs\<rparr>)"
| others: "row_kept i (uw_db w) d' \<Longrightarrow> sources_keyed d' \<Longrightarrow> upload_step rd i w (w\<lparr>uw_db := d'\<rparr>)"
| removed: "(\<forall>s. source_of (uw_db w) i = Some s \<longrightarrow> s_status s \<notin> {SReserved, SUploading, SReady}) \<Longrightarrow>
    upload_step rd i w (w\<lparr>uw_files := no_files\<rparr>)"

section \<open>The bytes received\<close>

text \<open>The first \<open>k\<close> chunks that lie end to end from offset 0.\<close>

fun first_chunks :: "(nat \<times> string) list \<Rightarrow> nat \<Rightarrow> string option" where
  "first_chunks cs 0 = Some []"
| "first_chunks cs (Suc k) = (case first_chunks cs k of None \<Rightarrow> None
     | Some bs \<Rightarrow> (case map_of cs (length bs) of None \<Rightarrow> None
         | Some b \<Rightarrow> if 1 \<le> length b \<and> length b \<le> chunk_max_bytes then Some (bs @ b) else None))"

definition covers :: "(nat \<times> string) list \<Rightarrow> string \<Rightarrow> bool" where
  "covers cs bs \<longleftrightarrow> (\<exists>k. first_chunks cs k = Some bs)"

text \<open>The bytes of an upload whose row is uploading: as many as it acknowledged.\<close>

definition received_bytes :: "string \<Rightarrow> upload_world \<Rightarrow> string \<Rightarrow> bool" where
  "received_bytes i w bs \<longleftrightarrow> (\<exists>s cs. source_of (uw_db w) i = Some s \<and> s_status s = SUploading \<and>
     uf_chunks (uw_files w) = Some cs \<and> covers cs bs \<and> length bs = s_received s)"

lemma covers_Nil [simp]: "covers cs []"
  unfolding covers_def by (rule exI [of _ 0]) simp

lemma covers_more:
  assumes "covers cs bs" and "map_of cs (length bs) = Some b" and "1 \<le> length b" and "length b \<le> chunk_max_bytes"
  shows "covers cs (bs @ b)"
proof -
  obtain k where "first_chunks cs k = Some bs" using assms(1) by (auto simp: covers_def)
  with assms(2-4) have "first_chunks cs (Suc k) = Some (bs @ b)" by simp
  then show ?thesis unfolding covers_def by blast
qed

lemma first_chunks_grow:
  "first_chunks cs k = Some as \<Longrightarrow> first_chunks cs (k + m) = Some bs \<Longrightarrow> prefix as bs"
proof (induction m arbitrary: bs)
  case (Suc m)
  then show ?case by (auto split: option.splits if_splits intro: prefix_prefix)
qed simp

lemma covers_prefix:
  assumes "covers cs as" and "covers cs bs" and "length as \<le> length bs"
  shows "prefix as bs"
proof -
  obtain k m where k: "first_chunks cs k = Some as" and m: "first_chunks cs m = Some bs"
    using assms(1,2) by (auto simp: covers_def)
  show ?thesis
  proof (cases "k \<le> m")
    case True
    then obtain n where "m = k + n" using le_Suc_ex by blast
    then show ?thesis using k m first_chunks_grow by blast
  next
    case False
    then obtain n where "k = m + n" using le_Suc_ex nat_le_linear by blast
    then have "prefix bs as" using k m first_chunks_grow by blast
    with assms(3) show ?thesis
      by (metis dual_order.antisym prefix_length_le prefix_order.order_refl not_equal_is_parallel parallelE prefix_same_cases)
  qed
qed

lemma covers_same: "covers cs as \<Longrightarrow> covers cs bs \<Longrightarrow> length as = length bs \<Longrightarrow> as = bs"
  using covers_prefix [of cs as bs] covers_prefix [of cs bs as] by auto

lemma covers_new:
  assumes "covers cs bs" and "map_of cs n = None"
  shows "covers ((n, b) # cs) bs"
proof -
  have "first_chunks ((n, b) # cs) k = Some bs" if "first_chunks cs k = Some bs" for k
    using that assms(2)
    by (induction k arbitrary: bs) (auto split: option.splits if_splits)
  then show ?thesis using assms(1) by (auto simp: covers_def)
qed

section \<open>What stays true\<close>

definition good_bytes :: "remote_deps \<Rightarrow> source_row \<Rightarrow> string \<Rightarrow> bool" where
  "good_bytes rd s b \<longleftrightarrow> length b = s_size s \<and> rd_sha rd b = s_sha256 s"

definition good_archive :: "remote_deps \<Rightarrow> source_row \<Rightarrow> upload_files \<Rightarrow> bool" where
  "good_archive rd s f \<longleftrightarrow> (\<exists>a. uf_archive f = Some a \<and> good_bytes rd s a)"

text \<open>The paths of a ready source are those found in bytes of its size and hash.\<close>

definition inspected_paths :: "remote_deps \<Rightarrow> source_row \<Rightarrow> bool" where
  "inspected_paths rd s \<longleftrightarrow> (\<exists>b root x. good_bytes rd s b \<and> inspect_source rd root b = Inr x \<and>
     s_paths s = Some (paths_json (sort (xr_paths x))))"

definition row_ok :: "remote_deps \<Rightarrow> source_row \<Rightarrow> upload_files \<Rightarrow> upload_proc list \<Rightarrow> bool" where
  "row_ok rd s f ps \<longleftrightarrow> 1 \<le> s_size s \<and>
     (s_status s = SReserved \<longrightarrow> s_received s = 0 \<and> set ps \<subseteq> {Opening, Opened, Abandoning} \<and> length ps \<le> 1 \<and>
        (Opened \<in> set ps \<longrightarrow> uf_archive f = Some [] \<and> uf_chunks f = Some [])) \<and>
     (s_status s = SUploading \<longrightarrow> (\<exists>cs bs. uf_chunks f = Some cs \<and> covers cs bs \<and> length bs = s_received s) \<and>
        (uf_archive f = Some [] \<or> good_archive rd s f)) \<and>
     (s_status s = SReady \<longrightarrow> good_archive rd s f \<and> inspected_paths rd s)"

definition leased_row :: "source_row \<Rightarrow> source_row \<Rightarrow> bool" where
  "leased_row r s \<longleftrightarrow> s_size s = s_size r \<and> s_sha256 s = s_sha256 r"

definition archive_there :: "remote_deps \<Rightarrow> source_row \<Rightarrow> upload_files \<Rightarrow> bool" where
  "archive_there rd s f \<longleftrightarrow> (s_status s \<in> {SUploading, SReady} \<longrightarrow> good_archive rd s f)"

definition chunk_at :: "source_row \<Rightarrow> nat \<Rightarrow> string \<Rightarrow> upload_files \<Rightarrow> bool" where
  "chunk_at s n b f \<longleftrightarrow> (s_status s = SUploading \<longrightarrow> (\<exists>cs. uf_chunks f = Some cs \<and> map_of cs n = Some b))"

definition copied :: "source_row \<Rightarrow> string \<Rightarrow> upload_files \<Rightarrow> bool" where
  "copied s got f \<longleftrightarrow> (s_status s = SUploading \<longrightarrow> (\<exists>cs. uf_chunks f = Some cs \<and> covers cs got))"

definition temp_is :: "string \<Rightarrow> string \<Rightarrow> upload_files \<Rightarrow> bool" where
  "temp_is w b f \<longleftrightarrow> (\<forall>c. map_of (uf_temps f) w = Some c \<longrightarrow> c = b)"

definition staged_ok :: "remote_deps \<Rightarrow> source_row \<Rightarrow> upload_files \<Rightarrow> string \<Rightarrow> bool \<Rightarrow> string \<Rightarrow> bool" where
  "staged_ok rd s f w tmp b \<longleftrightarrow> good_bytes rd s b \<and> (if tmp then temp_is w b f else archive_there rd s f)"

fun proc_ok :: "remote_deps \<Rightarrow> source_row \<Rightarrow> upload_files \<Rightarrow> upload_proc \<Rightarrow> bool" where
  "proc_ok rd s f (Claimed w r n b) \<longleftrightarrow> leased_row r s \<and> 1 \<le> length b \<and> length b \<le> chunk_max_bytes"
| "proc_ok rd s f (Checked w r b) \<longleftrightarrow> leased_row r s \<and> 1 \<le> length b \<and> length b \<le> chunk_max_bytes"
| "proc_ok rd s f (Linked w r b) \<longleftrightarrow> leased_row r s \<and> 1 \<le> length b \<and> length b \<le> chunk_max_bytes \<and>
     chunk_at s (s_received r) b f"
| "proc_ok rd s f (Finalizing w r) \<longleftrightarrow> leased_row r s"
| "proc_ok rd s f (Assembling w r got) \<longleftrightarrow> leased_row r s \<and> copied s got f \<and> temp_is w got f"
| "proc_ok rd s f (Staged w r tmp) \<longleftrightarrow> leased_row r s \<and> (\<not> tmp \<longrightarrow> archive_there rd s f)"
| "proc_ok rd s f (Hashed w r tmp b) \<longleftrightarrow> leased_row r s \<and> staged_ok rd s f w tmp b"
| "proc_ok rd s f (Inspected w r tmp b x ts e) \<longleftrightarrow> leased_row r s \<and> staged_ok rd s f w tmp b \<and>
     (\<exists>root. inspect_source rd root b = Inr x)"
| "proc_ok rd s f (Promoted w r b x ts e) \<longleftrightarrow> leased_row r s \<and> good_bytes rd s b \<and> archive_there rd s f \<and>
     (\<exists>root. inspect_source rd root b = Inr x)"
| "proc_ok rd s f (Completed w) \<longleftrightarrow> s_status s \<notin> {SReserved, SUploading}"
| "proc_ok rd s f p \<longleftrightarrow> s_status s \<notin> {SUploading, SReady}"

definition owners_of :: "upload_proc list \<Rightarrow> string list" where
  "owners_of ps = List.map_filter proc_owner ps"

definition upload_ok :: "remote_deps \<Rightarrow> string \<Rightarrow> upload_world \<Rightarrow> bool" where
  "upload_ok rd i w \<longleftrightarrow> (\<not> uw_begun w \<longrightarrow> source_of (uw_db w) i = None) \<and> sources_keyed (uw_db w) \<and> distinct (owners_of (uw_procs w)) \<and>
     set (owners_of (uw_procs w)) \<subseteq> uw_owners w \<and>
     (\<forall>s. source_of (uw_db w) i = Some s \<longrightarrow>
        row_ok rd s (uw_files w) (uw_procs w) \<and> list_all (proc_ok rd s (uw_files w)) (uw_procs w))"

section \<open>What a change of the row or of the files keeps\<close>

text \<open>The row changes as others may change it, or it becomes ready.\<close>

definition row_moves :: "source_row \<Rightarrow> source_row \<Rightarrow> bool" where
  "row_moves s s' \<longleftrightarrow> s_size s' = s_size s \<and> s_sha256 s' = s_sha256 s \<and>
     (s_status s' = s_status s \<or> s_status s' \<notin> {SReserved, SUploading, SReady} \<or>
      s_status s = SUploading \<and> s_status s' = SReady)"

definition files_kept :: "remote_deps \<Rightarrow> string option \<Rightarrow> source_row \<Rightarrow> upload_files \<Rightarrow> upload_files \<Rightarrow> bool" where
  "files_kept rd w s f f' \<longleftrightarrow>
     (s_status s = SUploading \<longrightarrow> (\<forall>cs. uf_chunks f = Some cs \<longrightarrow> (\<exists>cs'. uf_chunks f' = Some cs' \<and>
        (cs' = cs \<or> (\<exists>n b. cs' = (n, b) # cs \<and> map_of cs n = None))))) \<and>
     (\<forall>v c. Some v \<noteq> w \<longrightarrow> map_of (uf_temps f') v = Some c \<longrightarrow> map_of (uf_temps f) v = Some c) \<and>
     (s_status s \<in> {SUploading, SReady} \<longrightarrow> good_archive rd s f \<longrightarrow> good_archive rd s f')"

lemma good_moves: "row_moves s s' \<Longrightarrow> good_bytes rd s' b = good_bytes rd s b"
  "row_moves s s' \<Longrightarrow> good_archive rd s' f = good_archive rd s f"
  "row_moves s s' \<Longrightarrow> leased_row r s' = leased_row r s"
  by (simp_all add: row_moves_def good_bytes_def good_archive_def leased_row_def)

lemma there_moves:
  "row_moves s s' \<Longrightarrow> archive_there rd s f \<Longrightarrow> archive_there rd s' f"
  "row_moves s s' \<Longrightarrow> chunk_at s n b f \<Longrightarrow> chunk_at s' n b f"
  "row_moves s s' \<Longrightarrow> copied s got f \<Longrightarrow> copied s' got f"
  using good_moves(2) [of s s' rd f]
  by (auto simp: archive_there_def chunk_at_def copied_def row_moves_def)

lemma proc_ok_moves:
  assumes "row_moves s s'" and "proc_ok rd s f p"
  shows "proc_ok rd s' f p"
proof (cases p)
  case Opening
  with assms show ?thesis by (auto simp: row_moves_def)
next
  case Opened
  with assms show ?thesis by (auto simp: row_moves_def)
next
  case Abandoning
  with assms show ?thesis by (auto simp: row_moves_def)
next
  case (Completed w)
  with assms show ?thesis by (auto simp: row_moves_def)
qed (use assms there_moves [OF assms(1)] in \<open>auto simp: good_moves [OF assms(1)] staged_ok_def\<close>)

lemma there_files:
  assumes "files_kept rd w s f f'"
  shows "archive_there rd s f \<Longrightarrow> archive_there rd s f'" "chunk_at s n b f \<Longrightarrow> chunk_at s n b f'"
    "copied s got f \<Longrightarrow> copied s got f'" "Some v \<noteq> w \<Longrightarrow> temp_is v b f \<Longrightarrow> temp_is v b f'"
proof -
  show "archive_there rd s f \<Longrightarrow> archive_there rd s f'"
    using assms by (auto simp: archive_there_def files_kept_def)
  show "copied s got f'" if c: "copied s got f"
    unfolding copied_def
  proof
    assume up: "s_status s = SUploading"
    with c obtain cs where cs: "uf_chunks f = Some cs" "covers cs got" by (auto simp: copied_def)
    with assms up obtain cs' where "uf_chunks f' = Some cs'"
      "cs' = cs \<or> (\<exists>n b. cs' = (n, b) # cs \<and> map_of cs n = None)" by (auto simp: files_kept_def)
    with cs show "\<exists>cs. uf_chunks f' = Some cs \<and> covers cs got" using covers_new by blast
  qed
  show "chunk_at s n b f'" if c: "chunk_at s n b f"
    unfolding chunk_at_def
  proof
    assume up: "s_status s = SUploading"
    with c obtain cs where cs: "uf_chunks f = Some cs" "map_of cs n = Some b" by (auto simp: chunk_at_def)
    with assms up obtain cs' where "uf_chunks f' = Some cs'"
      "cs' = cs \<or> (\<exists>n b. cs' = (n, b) # cs \<and> map_of cs n = None)" by (auto simp: files_kept_def)
    with cs show "\<exists>cs. uf_chunks f' = Some cs \<and> map_of cs n = Some b" by auto
  qed
  show "Some v \<noteq> w \<Longrightarrow> temp_is v b f \<Longrightarrow> temp_is v b f'"
    using assms by (auto simp: temp_is_def files_kept_def)
qed

lemma proc_ok_files:
  assumes "files_kept rd w s f f'" and "proc_owner p = None \<or> proc_owner p \<noteq> w" and "proc_ok rd s f p"
  shows "proc_ok rd s f' p"
  using assms(2,3) there_files [OF assms(1)]
  by (cases p) (auto simp: staged_ok_def split: if_splits)

lemma files_kept_refl [simp]: "files_kept rd w s f f"
  by (auto simp: files_kept_def)

lemma owners_of_simps [simp]:
  "owners_of [] = []" "owners_of (p # ps) = (case proc_owner p of None \<Rightarrow> owners_of ps | Some w \<Rightarrow> w # owners_of ps)"
  "owners_of (ps @ qs) = owners_of ps @ owners_of qs"
  by (simp_all add: owners_of_def List.map_filter_def split: option.splits)

lemma owner_in: "q \<in> set ps \<Longrightarrow> proc_owner q = Some v \<Longrightarrow> v \<in> set (owners_of ps)"
  by (induction ps) (auto split: option.splits)

text \<open>Another process goes on as before when one of them changed the row and the files.\<close>

lemma other_procs_ok:
  assumes "distinct (owners_of (ps @ p # qs))" and "list_all (proc_ok rd s f) (ps @ p # qs)"
    and "files_kept rd (proc_owner p) s f f'" and "row_moves s s'" and "q \<in> set ps \<union> set qs"
  shows "proc_ok rd s' f' q"
proof -
  have "proc_owner q = None \<or> proc_owner q \<noteq> proc_owner p"
  proof (rule ccontr)
    assume "\<not> ?thesis"
    then obtain v where v: "proc_owner q = Some v" "proc_owner p = Some v" by (metis not_None_eq)
    from owner_in [OF _ v(1)] assms(5) have "v \<in> set (owners_of ps) \<union> set (owners_of qs)" by blast
    with assms(1) v(2) show False by auto
  qed
  with assms(2,5) have "proc_ok rd s f' q"
    by (intro proc_ok_files [OF assms(3)]) (auto simp: list_all_iff)
  then show ?thesis by (rule proc_ok_moves [OF assms(4)])
qed

section \<open>What the statements do to the row\<close>

definition same_row :: "source_row \<Rightarrow> source_row \<Rightarrow> bool" where
  "same_row s s' \<longleftrightarrow> s_size s' = s_size s \<and> s_sha256 s' = s_sha256 s \<and> s_status s' = s_status s \<and>
     s_received s' = s_received s \<and> s_paths s' = s_paths s"

definition row_same :: "string \<Rightarrow> db \<Rightarrow> db \<Rightarrow> bool" where
  "row_same i d d' \<longleftrightarrow> rel_option same_row (source_of d i) (source_of d' i)"

lemma source_of_update: "(\<And>s. s_id (f s) = s_id s) \<Longrightarrow>
  source_of (snd (update_sources p f d)) i = map_option (\<lambda>s. if p s then f s else s) (source_of d i)"
  by (simp add: source_table.row_by_upd_where)

lemma row_same_refl [simp]: "row_same i d d"
  by (cases "source_of d i") (simp_all add: row_same_def same_row_def)

lemma row_same_update:
  assumes "\<And>s. s_id (f s) = s_id s \<and> same_row s (f s)"
  shows "row_same i d (snd (update_sources p f d))"
proof -
  have "same_row s s" for s by (simp add: same_row_def)
  with assms show ?thesis
    unfolding row_same_def by (subst source_of_update) (auto simp: option.rel_map option.rel_refl)
qed

lemma lease_upload_row:
  assumes "lease_upload i u w now d = (a, d')" and "sources_keyed d"
  shows "row_same i d d'" "sources_keyed d'" "a = Inr r \<Longrightarrow> source_of d' i = Some r"
proof -
  obtain x where x: "claim_upload_lease i u w now (now + source_upload_lease_ms) d = (x, d')"
    "a = (case x of None \<Rightarrow> Inl (AppError ''SOURCE_UPLOAD_CONCURRENT'' 409) | Some r \<Rightarrow> Inr r)"
    using assms(1) by (auto simp: lease_upload_def split: prod.splits option.splits)
  let ?u = "update_sources (claimable_lease i u w now)
    (\<lambda>s. s\<lparr>s_lease_owner := Some w, s_lease_expires_at := Some (now + source_upload_lease_ms)\<rparr>) d"
  have d': "d' = snd ?u"
    using x(1) by (cases ?u) (simp add: claim_upload_lease_def)
  show "row_same i d d'" unfolding d' by (rule row_same_update) (simp add: same_row_def)
  show "sources_keyed d'" unfolding d' by (rule keyed_update_sources [OF _ assms(2)]) simp
  show "a = Inr r \<Longrightarrow> source_of d' i = Some r"
    using x source_claim_cases [OF assms(2)] by (cases x) auto
qed

lemma renew_upload_row:
  assumes "renew_upload i w now d = (a, d')" and "sources_keyed d"
  shows "row_same i d d'" "sources_keyed d'"
proof -
  let ?u = "update_sources (holds_upload i w now)
    (\<lambda>s. s\<lparr>s_lease_expires_at := Some (now + source_upload_lease_ms)\<rparr>) d"
  have d': "d' = d \<or> d' = snd ?u"
    using assms(1) by (auto simp: renew_upload_def extend_upload_lease_def split: sum.splits prod.splits)
  have "row_same i d (snd ?u)" "sources_keyed (snd ?u)"
    by (rule row_same_update, simp add: same_row_def) (rule keyed_update_sources [OF _ assms(2)], simp)
  with d' assms(2) show "row_same i d d'" "sources_keyed d'" by auto
qed

lemma release_upload_row:
  assumes "sources_keyed d"
  shows "row_same i d (snd (release_upload_lease i w d))" "sources_keyed (snd (release_upload_lease i w d))"
  unfolding release_upload_lease_def
  by (rule row_same_update, simp add: same_row_def) (rule keyed_update_sources [OF _ assms], simp)

lemma commit_chunk_row:
  assumes "commit_chunk i r b w now d = (a, d')" and "sources_keyed d"
  shows "sources_keyed d'" "row_same i d d' \<or> (\<exists>s. source_of d i = Some s \<and> s_status s = SUploading \<and>
    s_received s = s_received r \<and> source_of d' i = Some (s\<lparr>s_received := s_received r + length b, s_updated_at := now\<rparr>))"
proof -
  let ?p = "\<lambda>s. holds_upload i w now s \<and> s_received s = s_received r \<and> s_received r + length b \<le> s_size s"
  let ?f = "\<lambda>s. s\<lparr>s_received := s_received r + length b, s_updated_at := now\<rparr>"
  have d': "d' = d \<or> d' = snd (update_sources ?p ?f d)"
    using assms(1) by (auto simp: commit_chunk_def commit_upload_offset_def split: sum.splits prod.splits)
  have row: "source_of (snd (update_sources ?p ?f d)) i = map_option (\<lambda>s. if ?p s then ?f s else s) (source_of d i)"
    by (rule source_of_update) simp
  show "sources_keyed d'"
    using d' assms(2) keyed_update_sources [of ?f d ?p] by auto
  have "row_same i d d' \<or> (\<exists>s. source_of d i = Some s \<and> ?p s \<and> source_of d' i = Some (?f s))"
  proof (cases "source_of d i")
    case None
    with d' row show ?thesis by (auto simp: row_same_def)
  next
    case (Some s)
    with d' row show ?thesis by (cases "?p s") (auto simp: row_same_def same_row_def)
  qed
  then show "row_same i d d' \<or> (\<exists>s. source_of d i = Some s \<and> s_status s = SUploading \<and>
      s_received s = s_received r \<and> source_of d' i = Some (?f s))"
    by (auto simp: holds_upload_def)
qed

lemma complete_remote_row:
  assumes "complete_remote i w x ts e d = (Inr (), d')" and "sources_keyed d"
  shows "sources_keyed d'" "\<exists>s t. source_of d i = Some s \<and> s_status s = SUploading \<and> s_received s = s_size s \<and>
    source_of d' i = Some t \<and> s_status t = SReady \<and> s_size t = s_size s \<and> s_sha256 t = s_sha256 s \<and>
    s_paths t = Some (paths_json (sort (xr_paths x)))"
proof -
  let ?p = "\<lambda>s. holds_upload i w ts s \<and> s_received s = s_size s"
  let ?f = "\<lambda>s. s\<lparr>s_status := SReady, s_updated_at := ts, s_uploaded_at := Some ts, s_expires_at := e,
              s_paths := Some (paths_json (sort (xr_paths x))), s_received := s_size s, s_lease_owner := None,
              s_lease_expires_at := None\<rparr>"
  have d': "d' = snd (update_sources ?p ?f d)" and n: "changes ?p (sources d) = 1"
    using assms(1) by (auto simp: complete_remote_def complete_upload_def update_sources_def split: sum.splits if_splits)
  show "sources_keyed d'" unfolding d' by (rule keyed_update_sources [OF _ assms(2)]) simp
  from one_source [OF assms(2), of ?p i ?f] n
  obtain s where s: "source_of d i = Some s" "?p s" by (auto simp: holds_upload_def)
  moreover have "source_of d' i = Some (?f s)"
    unfolding d' by (subst source_of_update) (use s in simp_all)
  ultimately show "\<exists>s t. source_of d i = Some s \<and> s_status s = SUploading \<and> s_received s = s_size s \<and>
      source_of d' i = Some t \<and> s_status t = SReady \<and> s_size t = s_size s \<and> s_sha256 t = s_sha256 s \<and>
      s_paths t = Some (paths_json (sort (xr_paths x)))"
    by (auto simp: holds_upload_def)
qed

lemma activate_upload_row:
  assumes "activate_upload i now d = Inr ((), d')" and "sources_keyed d"
  shows "sources_keyed d'" "\<exists>s t. source_of d i = Some s \<and> s_status s = SReserved \<and> source_of d' i = Some t \<and>
    s_status t = SUploading \<and> s_size t = s_size s \<and> s_sha256 t = s_sha256 s \<and> s_received t = s_received s"
proof -
  let ?p = "\<lambda>s. s_id s = i \<and> s_status s \<in> set [SReserved] \<and> s_expires_at s > now"
  let ?f = "\<lambda>s. fold set_source_column [] (s\<lparr>s_status := SUploading, s_updated_at := now\<rparr>)"
  have d': "d' = snd (update_sources ?p ?f d)" and n: "changes ?p (sources d) = 1"
    using assms(1)
    by (auto simp: activate_upload_def seq_tx_Inr_iff source_transition_before_expiry_def update_sources_def
        split: if_splits)
  show "sources_keyed d'" unfolding d' by (rule keyed_update_sources [OF _ assms(2)]) simp
  from one_source [OF assms(2), of ?p i ?f] n
  obtain s where s: "source_of d i = Some s" "?p s" by auto
  moreover have "source_of d' i = Some (?f s)"
    unfolding d' by (subst source_of_update) (use s in simp_all)
  ultimately show "\<exists>s t. source_of d i = Some s \<and> s_status s = SReserved \<and> source_of d' i = Some t \<and>
    s_status t = SUploading \<and> s_size t = s_size s \<and> s_sha256 t = s_sha256 s \<and> s_received t = s_received s"
    by auto
qed

lemma discard_reservation_row:
  assumes "discard_reservation i d = Inr (n, d')" and "sources_keyed d"
  shows "sources_keyed d'" "source_of d' i = Some s \<Longrightarrow> source_of d i = Some s"
proof -
  obtain p where d': "sources d' = del_where p (sources d)"
    using assms(1) by (auto simp: discard_reservation_def Let_def split: if_splits)
  show "sources_keyed d'"
    using assms(2) by (simp add: sources_keyed_def d' source_table.distinct_del_where)
  assume "source_of d' i = Some s"
  then have "s \<in> set (sources d)" "s_id s = i"
    using row_by_SomeD [of s_id i "sources d'" s] by (simp_all add: d')
  then show "source_of d i = Some s"
    using source_table.row_by_in [of "sources d" s] assms(2) by (simp add: sources_keyed_def)
qed

section \<open>Every step keeps the invariant\<close>

abbreviation rest_of :: "upload_proc option \<Rightarrow> upload_proc list" where
  "rest_of p \<equiv> (case p of None \<Rightarrow> [] | Some q \<Rightarrow> [q])"

definition procs_ok :: "remote_deps \<Rightarrow> source_row \<Rightarrow> upload_files \<Rightarrow> upload_proc list \<Rightarrow> bool" where
  "procs_ok rd s f ps \<longleftrightarrow> row_ok rd s f ps \<and> list_all (proc_ok rd s f) ps"

lemma same_row_moves: "same_row s s' \<Longrightarrow> row_moves s s'"
  by (simp add: same_row_def row_moves_def)

lemma row_same_SomeD: "row_same i d d' \<Longrightarrow> source_of d' i = Some s' \<Longrightarrow> \<exists>s. source_of d i = Some s \<and> same_row s s'"
  by (cases "source_of d i") (auto simp: row_same_def)

lemma owner_not_reserved:
  "row_ok rd s f ps \<Longrightarrow> p \<in> set ps \<Longrightarrow> proc_owner p \<noteq> None \<Longrightarrow> s_status s \<noteq> SReserved"
  by (auto simp: row_ok_def)

text \<open>A process of a leased call advances, the row and the files changing as allowed.\<close>

lemma advance:
  assumes "procs_ok rd s f (ps @ p # qs)" and "distinct (owners_of (ps @ p # qs))"
    and "files_kept rd (proc_owner p) s f f'" and "row_moves s s'" and "row_ok rd s' f' (ps @ rest_of p' @ qs)"
    and "\<And>q. p' = Some q \<Longrightarrow> proc_ok rd s' f' q"
  shows "procs_ok rd s' f' (ps @ rest_of p' @ qs)"
proof -
  have "proc_ok rd s' f' q" if "q \<in> set ps \<union> set qs" for q
    using other_procs_ok [OF assms(2) _ assms(3,4) that] assms(1) by (simp add: procs_ok_def)
  with assms(5,6) show ?thesis by (auto simp: procs_ok_def list_all_iff split: option.splits)
qed

lemma uploading_files:
  assumes "files_kept rd w s f f'" and "s_status s = SUploading" and "uf_chunks f = Some cs" and "covers cs bs"
  shows "\<exists>cs'. uf_chunks f' = Some cs' \<and> covers cs' bs"
  using assms covers_new by (fastforce simp: files_kept_def)

lemma row_ok_keep:
  assumes "row_ok rd s f ps" and "same_row s s'" and "s_status s \<noteq> SReserved" and "files_kept rd w s f f'"
    and "s_status s = SUploading \<Longrightarrow> uf_archive f' = uf_archive f \<or> good_archive rd s f'"
  shows "row_ok rd s' f' ps'"
proof -
  note moved = good_moves(1,2) [OF same_row_moves [OF assms(2)], where rd = rd]
  have paths: "inspected_paths rd s' = inspected_paths rd s"
    using assms(2) by (simp add: inspected_paths_def moved same_row_def)
  have "uf_archive f' = Some [] \<or> good_archive rd s f'" if "s_status s = SUploading"
    using assms(1,4) assms(5) [OF that] that by (auto simp: row_ok_def files_kept_def)
  moreover have "\<exists>cs bs. uf_chunks f' = Some cs \<and> covers cs bs \<and> length bs = s_received s" if up: "s_status s = SUploading"
    using assms(1) up uploading_files [OF assms(4) up] unfolding row_ok_def by blast
  ultimately show ?thesis
    using assms(1-4) unfolding row_ok_def moved paths same_row_def files_kept_def by auto
qed

text \<open>A phase that leaves the row as it is, up to its lease.\<close>

lemma quiet_phase:
  assumes "procs_ok rd s f (ps @ p # qs)" and "distinct (owners_of (ps @ p # qs))" and "proc_owner p \<noteq> None"
    and "same_row s s'" and "files_kept rd (proc_owner p) s f f'"
    and "s_status s = SUploading \<Longrightarrow> uf_archive f' = uf_archive f \<or> good_archive rd s f'"
    and "\<And>q. p' = Some q \<Longrightarrow> proc_ok rd s' f' q"
  shows "procs_ok rd s' f' (ps @ rest_of p' @ qs)"
proof (rule advance [OF assms(1,2,5) same_row_moves [OF assms(4)] _ assms(7)])
  have row: "row_ok rd s f (ps @ p # qs)" using assms(1) by (simp add: procs_ok_def)
  then have "s_status s \<noteq> SReserved" using assms(3) owner_not_reserved by (meson in_set_conv_decomp)
  then show "row_ok rd s' f' (ps @ rest_of p' @ qs)"
    by (rule row_ok_keep [OF row assms(4) _ assms(5,6)])
qed

text \<open>A phase of a process that has no lease: of the call that reserved the source.\<close>

lemma opening_phase:
  assumes "procs_ok rd s f (ps @ p # qs)" and "distinct (owners_of (ps @ p # qs))" and "proc_owner p = None"
    and "files_kept rd None s f f'" and "s_status s \<notin> {SUploading, SReady}"
    and "s_status s = SReserved \<Longrightarrow> ps = [] \<Longrightarrow> qs = [] \<Longrightarrow> set (rest_of p') \<subseteq> {Opening, Opened, Abandoning} \<and>
       (Opened \<in> set (rest_of p') \<longrightarrow> uf_archive f' = Some [] \<and> uf_chunks f' = Some [])"
    and "\<And>q. p' = Some q \<Longrightarrow> q \<in> {Opening, Opened, Abandoning}"
  shows "procs_ok rd s f' (ps @ rest_of p' @ qs)"
proof (rule advance [OF assms(1,2)])
  show "files_kept rd (proc_owner p) s f f'" using assms(3,4) by simp
  show "row_moves s s" by (simp add: row_moves_def)
  show "\<And>q. p' = Some q \<Longrightarrow> proc_ok rd s f' q" using assms(5,7) by fastforce
  have "1 \<le> s_size s" and "s_status s = SReserved \<Longrightarrow> s_received s = 0 \<and> length (ps @ p # qs) \<le> 1"
    using assms(1) by (auto simp: procs_ok_def row_ok_def)
  with assms(5,6) show "row_ok rd s f' (ps @ rest_of p' @ qs)"
    by (auto simp: row_ok_def split: option.splits)
qed

lemma files_kept_temps:
  assumes "\<And>v. v \<noteq> w \<Longrightarrow> map_of ts v = map_of (uf_temps f) v"
  shows "files_kept rd (Some w) s f (f\<lparr>uf_temps := ts\<rparr>)"
  using assms by (auto simp: files_kept_def good_archive_def)

lemma map_of_write: "map_of (map (\<lambda>(v, b). if v = w then (v, c) else (v, b)) ts) v =
  (if v = w then map_option (\<lambda>_. c) (map_of ts v) else map_of ts v)"
  by (induction ts) auto

lemma map_of_drop: "map_of (filter (\<lambda>(v, _). v \<noteq> w) ts) v = (if v = w then None else map_of ts v)"
  by (induction ts) auto

lemma files_kept_write [simp]: "files_kept rd (Some w) s f (write_temp w c f)"
  unfolding write_temp_def by (rule files_kept_temps) (simp add: map_of_write)

lemma files_kept_drop [simp]: "files_kept rd (Some w) s f (drop_temp w f)"
  unfolding drop_temp_def by (rule files_kept_temps) (simp add: map_of_drop)

lemma files_kept_open: "open_temp w f = Inr f' \<Longrightarrow> files_kept rd (Some w) s f f'"
  by (auto simp: open_temp_def intro: files_kept_temps)

lemma files_kept_link: "link_chunk n b f = Inr f' \<Longrightarrow> files_kept rd w s f f'"
  by (auto simp: link_chunk_def files_kept_def good_archive_def split: option.splits if_splits)

lemma temps_only [simp]:
  "uf_archive (write_temp w c f) = uf_archive f" "uf_chunks (write_temp w c f) = uf_chunks f"
  "uf_archive (drop_temp w f) = uf_archive f" "uf_chunks (drop_temp w f) = uf_chunks f"
  by (simp_all add: write_temp_def drop_temp_def)

lemma promote_temp_Inr:
  assumes "promote_temp w f = Inr f'" and "temp_is w b f" and "good_bytes rd s b"
  shows "good_archive rd s f'" "files_kept rd (Some w) s f f'"
proof -
  from assms(1,2) have f': "f' = f\<lparr>uf_archive := Some b, uf_temps := filter (\<lambda>(v, _). v \<noteq> w) (uf_temps f)\<rparr>"
    by (auto simp: promote_temp_def temp_is_def split: option.splits)
  show "good_archive rd s f'" using assms(3) by (simp add: good_archive_def f')
  then show "files_kept rd (Some w) s f f'"
    by (auto simp: files_kept_def f' map_of_drop)
qed

lemma check_archive_full:
  assumes "check_archive r f = Inr True" and "row_ok rd s f ps" and "leased_row r s"
  shows "archive_there rd s f"
proof -
  obtain a where a: "uf_archive f = Some a" "length a = s_size r"
    using assms(1) by (auto simp: check_archive_def split: option.splits)
  moreover have "1 \<le> s_size s" using assms(2) by (simp add: row_ok_def)
  ultimately have "uf_archive f \<noteq> Some []" using assms(3) by (auto simp: leased_row_def)
  with assms(2) show ?thesis by (auto simp: archive_there_def row_ok_def)
qed

lemma release_after:
  assumes "sources_keyed d" and "source_of (snd (release_upload_lease i w d)) i = Some s'"
  shows "\<exists>s. source_of d i = Some s \<and> same_row s s'"
  using row_same_SomeD [OF release_upload_row(1) [OF assms(1)] assms(2)] .

lemma same_row_trans: "same_row s t \<Longrightarrow> same_row t u \<Longrightarrow> same_row s u"
  by (simp add: same_row_def)

lemma same_row_refl [simp]: "same_row s s"
  by (simp add: same_row_def)

text \<open>A commit adds the linked chunk to the received bytes.\<close>

lemma commit_row_ok:
  assumes "row_ok rd s f ps" and "chunk_at s (s_received s) b f" and "1 \<le> length b" and "length b \<le> chunk_max_bytes"
    and "s_status s = SUploading" and "s_status t = SUploading" and "s_size t = s_size s" and "s_sha256 t = s_sha256 s"
    and "s_received t = s_received s + length b"
  shows "row_ok rd t f ps'"
proof -
  obtain cs bs where cs: "uf_chunks f = Some cs" "covers cs bs" "length bs = s_received s"
    using assms(1,5) by (auto simp: row_ok_def)
  moreover have "map_of cs (s_received s) = Some b"
    using assms(2,5) cs(1) by (auto simp: chunk_at_def)
  ultimately have "covers cs (bs @ b)" "length (bs @ b) = s_received t"
    using covers_more [of cs bs b] assms(3,4,9) by simp_all
  with cs(1) have "\<exists>cs bs. uf_chunks f = Some cs \<and> covers cs bs \<and> length bs = s_received t" by blast
  then show ?thesis
    using assms(1,5-8) by (auto simp: row_ok_def good_archive_def good_bytes_def)
qed

lemma proc_step_ok:
  assumes "proc_step rd i p (d, f) p' (d', f')" and "sources_keyed d" and "distinct (owners_of (ps @ p # qs))"
    and "\<And>s. source_of d i = Some s \<Longrightarrow> procs_ok rd s f (ps @ p # qs)" and "source_of d' i = Some s'"
  shows "procs_ok rd s' f' (ps @ rest_of p' @ qs)"
proof -
  have pok: "proc_ok rd s f p" if "source_of d i = Some s" for s
    using assms(4) [OF that] by (simp add: procs_ok_def)
  have rok: "row_ok rd s f (ps @ p # qs)" if "source_of d i = Some s" for s
    using assms(4) [OF that] by (simp add: procs_ok_def)
  show ?thesis
    using assms(1)
  proof cases
    case prepares
    then have s: "source_of d i = Some s'" using assms(5) by simp
    have f': "uf_archive f' = Some []" "uf_chunks f' = Some []" "uf_temps f' = uf_temps f"
      using prepares by (auto simp: prepare_files_def)
    from pok [OF s] have "s_status s' \<notin> {SUploading, SReady}" by (simp add: prepares)
    moreover from this f' have "files_kept rd None s' f f'" by (auto simp: files_kept_def)
    ultimately show ?thesis
      by (intro opening_phase [OF assms(4) [OF s] assms(3)]) (simp_all add: prepares f')
  next
    case (activates now)
    then obtain s where s: "source_of d i = Some s" "s_status s = SReserved" "s_status s' = SUploading"
      "s_size s' = s_size s" "s_sha256 s' = s_sha256 s" "s_received s' = s_received s"
      using activate_upload_row(2) [OF _ assms(2), of i now d'] assms(5) by auto
    from rok [OF s(1)] s(2) activates have "ps = []" "qs = []" "s_received s = 0" "1 \<le> s_size s"
      "uf_archive f = Some []" "uf_chunks f = Some []"
      by (auto simp: row_ok_def)
    with s activates show ?thesis by (auto simp: procs_ok_def row_ok_def)
  next
    case gives_up
    then have s: "source_of d i = Some s'" using assms(5) by simp
    from pok [OF s] gives_up have "s_status s' \<notin> {SUploading, SReady}" by auto
    moreover from this have "files_kept rd None s' f f'" by (auto simp: files_kept_def gives_up no_files_def)
    moreover have "proc_owner p = None" using gives_up by auto
    ultimately show ?thesis
      by (intro opening_phase [OF assms(4) [OF s] assms(3)]) (simp_all add: gives_up)
  next
    case (discards n)
    then have s: "source_of d i = Some s'" using discard_reservation_row(2) [OF _ assms(2)] assms(5) by blast
    from pok [OF s] have "s_status s' \<notin> {SUploading, SReady}" by (simp add: discards)
    then show ?thesis
      by (intro opening_phase [OF assms(4) [OF s] assms(3)]) (simp_all add: discards)
  next
    case (checks r n b w)
    then have s: "source_of d i = Some s'" using assms(5) by simp
    from pok [OF s] show ?thesis
      by (intro quiet_phase [OF assms(4) [OF s] assms(3)]) (auto simp: checks)
  next
    case (links r b w)
    then have s: "source_of d i = Some s'" using assms(5) by simp
    have "chunk_at s' (s_received r) b f'" and a: "uf_archive f' = uf_archive f"
      using links rok [OF s] by (auto simp: chunk_at_def link_chunk_def split: option.splits if_splits)
    moreover have "files_kept rd (Some w) s' f f'" using links files_kept_link by blast
    ultimately show ?thesis using pok [OF s]
      by (intro quiet_phase [OF assms(4) [OF s] assms(3)]) (auto simp: links)
  next
    case (commits r b w now reply e)
    note row = commit_chunk_row [OF commits(5) assms(2)]
    obtain t where t: "source_of e i = Some t" "same_row t s'"
      using release_after [OF row(1)] assms(5) commits(3) by blast
    from row(2) show ?thesis
    proof
      assume "row_same i d e"
      with t obtain s where s: "source_of d i = Some s" "same_row s s'"
        using row_same_SomeD same_row_trans by blast
      from pok [OF s(1)] s(2) show ?thesis
        by (intro quiet_phase [OF assms(4) [OF s(1)] assms(3)]) (auto simp: commits)
    next
      assume "\<exists>s. source_of d i = Some s \<and> s_status s = SUploading \<and> s_received s = s_received r \<and>
        source_of e i = Some (s\<lparr>s_received := s_received r + length b, s_updated_at := now\<rparr>)"
      then obtain s where s: "source_of d i = Some s" "s_status s = SUploading" "s_received s = s_received r"
        "t = s\<lparr>s_received := s_received r + length b, s_updated_at := now\<rparr>" using t(1) by auto
      from s t(2) have s': "s_status s' = SUploading" "s_size s' = s_size s" "s_sha256 s' = s_sha256 s"
        "s_received s' = s_received s + length b" by (simp_all add: same_row_def)
      from pok [OF s(1)] commits(1) s(3) have b: "chunk_at s (s_received s) b f" "1 \<le> length b" "length b \<le> chunk_max_bytes"
        by simp_all
      have "row_ok rd s' f' (ps @ rest_of p' @ qs)"
        unfolding commits(4) by (rule commit_row_ok [OF rok [OF s(1)] b s(2) s'])
      moreover have "row_moves s s'" using s(2) s' by (simp add: row_moves_def)
      ultimately show ?thesis
        by (intro advance [OF assms(4) [OF s(1)] assms(3)]) (simp_all add: commits)
    qed
  next
    case (finds r w)
    then have s: "source_of d i = Some s'" using assms(5) by simp
    from pok [OF s] check_archive_full [OF finds(5) rok [OF s]] show ?thesis
      by (intro quiet_phase [OF assms(4) [OF s] assms(3)]) (auto simp: finds)
  next
    case (opens r w g)
    then have s: "source_of d i = Some s'" using assms(5) by simp
    have "files_kept rd (Some w) s' f f'" using opens files_kept_open by blast
    moreover have "uf_archive f' = uf_archive f" "temp_is w [] f'" "uf_chunks f' = uf_chunks f"
      using opens by (auto simp: open_temp_def temp_is_def)
    moreover from this rok [OF s] have "copied s' [] f'" by (auto simp: copied_def row_ok_def)
    ultimately show ?thesis using pok [OF s]
      by (intro quiet_phase [OF assms(4) [OF s] assms(3)]) (auto simp: opens)
  next
    case (copies r got b w)
    then have s: "source_of d i = Some s'" using assms(5) by simp
    have "temp_is w (got @ b) f'" by (simp add: copies temp_is_def write_temp_def map_of_write)
    moreover have "copied s' (got @ b) f'"
      using pok [OF s] copies covers_more by (auto simp: copied_def read_chunk_Inr)
    ultimately show ?thesis using pok [OF s]
      by (intro quiet_phase [OF assms(4) [OF s] assms(3)]) (auto simp: copies)
  next
    case (assembled r got w)
    then have s: "source_of d i = Some s'" using assms(5) by simp
    from pok [OF s] show ?thesis
      by (intro quiet_phase [OF assms(4) [OF s] assms(3)]) (auto simp: assembled)
  next
    case (hashes w tmp b now r)
    obtain s where s: "source_of d i = Some s" "same_row s s'"
      using row_same_SomeD [OF renew_upload_row(1) [OF _ assms(2)] assms(5)] hashes by blast
    have "staged_ok rd s' f w tmp b"
      using pok [OF s(1)] s(2) hashes there_moves(1) [OF same_row_moves [OF s(2)]]
      by (auto simp: staged_ok_def verify_digest_def staged_bytes_def temp_is_def leased_row_def good_bytes_def
          same_row_def)
    with pok [OF s(1)] show ?thesis
      by (intro quiet_phase [OF assms(4) [OF s(1)] assms(3) _ s(2)])
        (auto simp: hashes good_moves(3) [OF same_row_moves [OF s(2)]])
  next
    case (inspects root b x now e w r tmp)
    then have s: "source_of d i = Some s'" using assms(5) by simp
    from pok [OF s] inspects show ?thesis
      by (intro quiet_phase [OF assms(4) [OF s] assms(3)]) auto
  next
    case (promotes w now r b x ts e)
    obtain s where s: "source_of d i = Some s" "same_row s s'"
      using row_same_SomeD [OF renew_upload_row(1) [OF _ assms(2)] assms(5)] promotes by blast
    note moved = good_moves [OF same_row_moves [OF s(2)]]
    from pok [OF s(1)] promotes have b: "temp_is w b f" "good_bytes rd s b" by (simp_all add: staged_ok_def)
    have "good_archive rd s f'" "files_kept rd (Some w) s f f'"
      using promote_temp_Inr [OF _ b] promotes by blast+
    moreover from this(1) b have "archive_there rd s' f'" "good_bytes rd s' b"
      by (simp_all add: archive_there_def moved)
    ultimately show ?thesis using pok [OF s(1)]
      by (intro quiet_phase [OF assms(4) [OF s(1)] assms(3) _ s(2)]) (auto simp: promotes moved)
  next
    case (keeps w now r b x ts e)
    obtain s where s: "source_of d i = Some s" "same_row s s'"
      using row_same_SomeD [OF renew_upload_row(1) [OF _ assms(2)] assms(5)] keeps by blast
    note moved = good_moves [OF same_row_moves [OF s(2)]]
    show ?thesis using pok [OF s(1)] there_moves(1) [OF same_row_moves [OF s(2)]]
      by (intro quiet_phase [OF assms(4) [OF s(1)] assms(3) _ s(2)]) (auto simp: keeps moved staged_ok_def)
  next
    case (completes w x ts e r b)
    obtain s where s: "source_of d i = Some s" "s_status s = SUploading" "s_status s' = SReady"
      "s_size s' = s_size s" "s_sha256 s' = s_sha256 s" "s_paths s' = Some (paths_json (sort (xr_paths x)))"
      using complete_remote_row(2) [OF _ assms(2)] completes assms(5) by fastforce
    have moves: "row_moves s s'" using s by (simp add: row_moves_def)
    note moved = good_moves [OF moves]
    from pok [OF s(1)] completes s(2) have b: "good_archive rd s f" "good_bytes rd s b" "\<exists>root. inspect_source rd root b = Inr x"
      by (auto simp: archive_there_def)
    then have "row_ok rd s' f' (ps @ rest_of p' @ qs)"
      using s rok [OF s(1)] by (auto simp: row_ok_def moved inspected_paths_def completes)
    then show ?thesis
      using s(3) by (intro advance [OF assms(4) [OF s(1)] assms(3) _ moves]) (auto simp: completes)
  next
    case (sweeps w)
    obtain s where s: "source_of d i = Some s" "same_row s s'"
      using release_after [OF assms(2)] assms(5) sweeps by blast
    from pok [OF s(1)] have "s_status s \<noteq> SUploading" by (simp add: sweeps)
    then have "files_kept rd (Some w) s f f'"
      by (auto simp: sweeps files_kept_def drop_temp_def map_of_drop good_archive_def)
    then show ?thesis
      by (intro quiet_phase [OF assms(4) [OF s(1)] assms(3) _ s(2)]) (auto simp: sweeps)
  next
    case (beats w now a)
    obtain s where s: "source_of d i = Some s" "same_row s s'"
      using row_same_SomeD [OF renew_upload_row(1) [OF _ assms(2)] assms(5)] beats by blast
    from pok [OF s(1)] proc_ok_moves [OF same_row_moves [OF s(2)]] show ?thesis
      by (intro quiet_phase [OF assms(4) [OF s(1)] assms(3) _ s(2)]) (auto simp: beats)
  next
    case (fails w)
    obtain s where s: "source_of d i = Some s" "same_row s s'"
      using release_after [OF assms(2)] assms(5) fails by blast
    show ?thesis
      by (intro quiet_phase [OF assms(4) [OF s(1)] assms(3) _ s(2)]) (auto simp: fails)
  next
    case crashes
    then have s: "source_of d i = Some s'" using assms(5) by simp
    show ?thesis
    proof (rule advance [OF assms(4) [OF s] assms(3)])
      show "row_moves s' s'" by (simp add: row_moves_def)
      show "row_ok rd s' f' (ps @ rest_of p' @ qs)"
        using rok [OF s] by (auto simp: row_ok_def crashes)
    qed (simp_all add: crashes)
  qed
qed

lemma proc_step_keyed:
  assumes "proc_step rd i p (d, f) p' (d', f')" and "sources_keyed d"
  shows "sources_keyed d'"
  using assms(1)
proof cases
  case (activates now)
  then show ?thesis using activate_upload_row(1) assms(2) by blast
next
  case (discards n)
  then show ?thesis using discard_reservation_row(1) assms(2) by blast
next
  case (commits r b w now reply e)
  then show ?thesis using commit_chunk_row(1) release_upload_row(2) assms(2) by blast
qed (use assms(2) renew_upload_row(2) complete_remote_row(1) release_upload_row(2) in \<open>auto\<close>)

lemma proc_step_none:
  assumes "proc_step rd i p (d, f) p' (d', f')" and "sources_keyed d" and "source_of d i = None"
  shows "source_of d' i = None"
proof (rule ccontr)
  have same: "row_same i d e \<Longrightarrow> source_of e i = None" for e using assms(3) by (simp add: row_same_def)
  have rel: "sources_keyed e \<Longrightarrow> source_of e i = None \<Longrightarrow> source_of (snd (release_upload_lease i w e)) i = None" for e w
    using release_upload_row(1) [of e i w] by (simp add: row_same_def)
  assume "source_of d' i \<noteq> None"
  with assms(1) show False
  proof cases
    case (activates now)
    then show False using activate_upload_row(2) [OF _ assms(2)] assms(3) by fastforce
  next
    case (discards n)
    then show False using discard_reservation_row(2) [OF _ assms(2)] assms(3) \<open>source_of d' i \<noteq> None\<close> by fastforce
  next
    case (commits r b w now reply e)
    note row = commit_chunk_row [OF commits(5) assms(2)]
    from row(2) assms(3) same have "source_of e i = None" by auto
    with rel [OF row(1)] commits \<open>source_of d' i \<noteq> None\<close> show False by simp
  next
    case (completes w x ts e r b)
    then show False using complete_remote_row(2) [OF _ assms(2)] assms(3) by fastforce
  qed (use same rel [OF assms(2)] assms(2,3) renew_upload_row(1) in \<open>fastforce+\<close>)
qed

lemma proc_step_owner: "proc_step rd i p x (Some q) y \<Longrightarrow> proc_owner q = proc_owner p"
  by (cases rule: proc_step.cases) auto

lemma begun_upload_row:
  assumes "begin_source_upload rd c n hash i now d = Inr (Reserved_Upload reply, d')" and "sources_keyed d"
  shows "sources_keyed d'" "source_of d i = None" "\<exists>s. source_of d' i = Some s \<and> s_status s = SReserved \<and>
    1 \<le> s_size s \<and> s_received s = 0"
proof -
  obtain e where e: "source_insert_reserved (remote_reservation (ri_user_id c) i (nat (the n)) hash now (Some False)) d = Inr ((), e)"
    "d' = e" "1 \<le> the n"
    using assms(1)
    by (auto simp: begin_source_upload_def bind_r_Inr_iff reserve_remote_def seq_tx_Inr_iff split: option.splits)
  let ?s = "reserved_source d (remote_reservation (ri_user_id c) i (nat (the n)) hash now (Some False))"
  from e show new: "source_of d i = None"
    by (auto simp: source_insert_reserved_def remote_reservation_def split: if_splits)
  have d': "sources d' = sources d @ [?s]" "s_id ?s = i"
    using e by (auto simp: source_insert_reserved_def remote_reservation_def reserved_source_def split: if_splits)
  with new assms(2) show "sources_keyed d'"
    by (auto simp: sources_keyed_def row_by_None_notin)
  from d' new have "source_of d' i = Some ?s" by (simp add: row_by_append)
  moreover have "s_status ?s = SReserved" "1 \<le> s_size ?s" "s_received ?s = 0"
    using e(3) by (simp_all add: reserved_source_def remote_reservation_def)
  ultimately show "\<exists>s. source_of d' i = Some s \<and> s_status s = SReserved \<and> 1 \<le> s_size s \<and> s_received s = 0" by blast
qed

text \<open>A new process with a lease, on a row that is uploading.\<close>

lemma new_proc_ok:
  assumes "upload_ok rd i w" and "row_same i (uw_db w) d'" and "sources_keyed d'" and "proc_owner p = Some ow"
    and "ow \<notin> uw_owners w" and "source_of d' i = Some r" and "s_status r = SUploading" and "proc_ok rd r (uw_files w) p"
  shows "upload_ok rd i (w\<lparr>uw_db := d', uw_procs := p # uw_procs w, uw_owners := insert ow (uw_owners w)\<rparr>)"
proof -
  obtain s where s: "source_of (uw_db w) i = Some s" "same_row s r"
    using row_same_SomeD [OF assms(2,6)] by blast
  note moves = same_row_moves [OF s(2)]
  have ok: "row_ok rd s (uw_files w) (uw_procs w)" "list_all (proc_ok rd s (uw_files w)) (uw_procs w)"
    using assms(1) s(1) by (auto simp: upload_ok_def)
  have "row_ok rd r (uw_files w) (p # uw_procs w)"
    by (rule row_ok_keep [OF ok(1) s(2)]) (use s(2) assms(7) in \<open>auto simp: same_row_def\<close>)
  moreover have "list_all (proc_ok rd r (uw_files w)) (uw_procs w)"
    using ok(2) proc_ok_moves [OF moves] by (auto simp: list_all_iff)
  ultimately show ?thesis
    using assms s(1) by (auto simp: upload_ok_def)
qed

lemma leased_new:
  assumes "lease_upload i u ow now d = (Inr r, d')" and "sources_keyed d"
  shows "s_status r = SUploading"
  using assms source_claim_cases [OF assms(2)] by (auto simp: lease_upload_def split: prod.splits option.splits)

lemma upload_step_ok:
  assumes "upload_ok rd i w" and "upload_step rd i w w'"
  shows "upload_ok rd i w'"
  using assms(2)
proof cases
  case (reserves c n hash now reply d')
  have "sources_keyed (uw_db w)" using assms(1) by (simp add: upload_ok_def)
  note row = begun_upload_row [OF reserves(2) this]
  then show ?thesis using reserves by (auto simp: upload_ok_def row_ok_def)
next
  case (chunk c offset text64 ow now r n b d')
  have keyed: "sources_keyed (uw_db w)" using assms(1) by (simp add: upload_ok_def)
  obtain x where x: "chunk_checks c i offset text64 now (uw_db w) = Inr (Inr (n, b))"
    "lease_upload i (ri_user_id c) ow now (uw_db w) = (Inr r, d')"
    using chunk(2) by (auto simp: begin_chunk_def split: sum.splits prod.splits)
  from x(1) have "1 \<le> length b \<and> length b \<le> chunk_max_bytes"
    by (auto simp: chunk_checks_def bind_r_Inr_iff split: if_splits)
  then have "proc_ok rd r (uw_files w) (Claimed ow r n b)" by (simp add: leased_row_def)
  from new_proc_ok [OF assms(1) lease_upload_row(1,2) [OF x(2) keyed] _ chunk(3) lease_upload_row(3) [OF x(2) keyed refl]
      leased_new [OF x(2) keyed] this] show ?thesis
    by (simp add: chunk)
next
  case (finalize c ow now r d')
  have keyed: "sources_keyed (uw_db w)" using assms(1) by (simp add: upload_ok_def)
  have x: "lease_upload i (ri_user_id c) ow now (uw_db w) = (Inr r, d')"
    using finalize(2) by (auto simp: begin_finalize_def split: sum.splits prod.splits option.splits)
  have "proc_ok rd r (uw_files w) (Finalizing ow r)" by (simp add: leased_row_def)
  from new_proc_ok [OF assms(1) lease_upload_row(1,2) [OF x keyed] _ finalize(3) lease_upload_row(3) [OF x keyed refl]
      leased_new [OF x keyed] this] show ?thesis
    by (simp add: finalize)
next
  case (proceeds ps p qs p' d' f')
  have ok: "sources_keyed (uw_db w)" "distinct (owners_of (ps @ p # qs))" "set (owners_of (ps @ p # qs)) \<subseteq> uw_owners w"
    "uw_begun w \<or> source_of (uw_db w) i = None"
    "\<And>s. source_of (uw_db w) i = Some s \<Longrightarrow> procs_ok rd s (uw_files w) (ps @ p # qs)"
    using assms(1) by (auto simp: upload_ok_def procs_ok_def proceeds)
  have "procs_ok rd s' f' (ps @ rest_of p' @ qs)" if "source_of d' i = Some s'" for s'
    by (rule proc_step_ok [OF proceeds(3) ok(1,2) ok(5) that])
  moreover have "set (owners_of (rest_of p')) \<subseteq> set (owners_of [p])" "distinct (owners_of (rest_of p'))"
    using proc_step_owner proceeds(3) by (auto split: option.splits)
  moreover have "sources_keyed d'" by (rule proc_step_keyed [OF proceeds(3) ok(1)])
  moreover have "uw_begun w \<or> source_of d' i = None"
    using ok(4) proc_step_none [OF proceeds(3) ok(1)] by auto
  ultimately show ?thesis
    using ok(2,3) by (auto simp: upload_ok_def procs_ok_def proceeds(1) split: option.splits)
next
  case (others d')
  have "row_ok rd s' (uw_files w) (uw_procs w) \<and> list_all (proc_ok rd s' (uw_files w)) (uw_procs w)"
    if s': "source_of d' i = Some s'" for s'
  proof -
    from others(2) s' obtain s where s: "source_of (uw_db w) i = Some s" "row_moves s s'" "s_received s' = s_received s"
      "s_paths s' = s_paths s" "s_status s' = s_status s \<or> s_status s' \<notin> {SReserved, SUploading, SReady}"
      unfolding row_kept_def row_moves_def by blast
    note moved = good_moves [OF s(2)]
    have ok: "row_ok rd s (uw_files w) (uw_procs w)" "list_all (proc_ok rd s (uw_files w)) (uw_procs w)"
      using assms(1) s(1) by (auto simp: upload_ok_def)
    have "s_size s' = s_size s" using s(2) by (simp add: row_moves_def)
    moreover have "inspected_paths rd s' = inspected_paths rd s" by (simp add: inspected_paths_def moved s)
    ultimately have "row_ok rd s' (uw_files w) (uw_procs w)"
      using ok(1) s(3,5) unfolding row_ok_def moved by auto
    with ok(2) proc_ok_moves [OF s(2)] show ?thesis by (auto simp: list_all_iff)
  qed
  moreover have "\<not> uw_begun w \<longrightarrow> source_of d' i = None"
    using assms(1) others(2) by (cases "source_of d' i") (auto simp: upload_ok_def row_kept_def)
  ultimately show ?thesis using assms(1) others by (auto simp: upload_ok_def)
next
  case removed
  have "row_ok rd s no_files (uw_procs w) \<and> list_all (proc_ok rd s no_files) (uw_procs w)"
    if s: "source_of (uw_db w) i = Some s" for s
  proof -
    have ok: "row_ok rd s (uw_files w) (uw_procs w)" "list_all (proc_ok rd s (uw_files w)) (uw_procs w)"
      using assms(1) s by (auto simp: upload_ok_def)
    have gone: "s_status s \<notin> {SReserved, SUploading, SReady}" using removed(2) s by blast
    then have "files_kept rd v s (uw_files w) no_files" for v by (auto simp: files_kept_def no_files_def)
    from there_files [OF this] have "proc_ok rd s (uw_files w) p \<Longrightarrow> proc_ok rd s no_files p" for p
      by (cases p) (auto simp: staged_ok_def temp_is_def no_files_def)
    with ok gone show ?thesis by (auto simp: list_all_iff row_ok_def)
  qed
  then show ?thesis using assms(1) removed by (auto simp: upload_ok_def)
qed

lemma upload_steps_ok: "(upload_step rd i)\<^sup>*\<^sup>* w w' \<Longrightarrow> upload_ok rd i w \<Longrightarrow> upload_ok rd i w'"
  by (induction rule: rtranclp_induct) (auto intro: upload_step_ok)

lemma start_upload_ok: "sources_keyed d \<Longrightarrow> source_of d i = None \<Longrightarrow> upload_ok rd i (start_upload d)"
  by (simp add: upload_ok_def start_upload_def)

section \<open>Received bytes only grow\<close>

text \<open>While the row is uploading, a phase keeps every chunk and does not lower the received bytes.\<close>

definition grows :: "string \<Rightarrow> db \<times> upload_files \<Rightarrow> db \<times> upload_files \<Rightarrow> bool" where
  "grows i x y \<longleftrightarrow> (\<forall>s t cs. source_of (fst x) i = Some s \<longrightarrow> s_status s = SUploading \<longrightarrow>
     source_of (fst y) i = Some t \<longrightarrow> s_status t = SUploading \<longrightarrow> uf_chunks (snd x) = Some cs \<longrightarrow>
     s_received s \<le> s_received t \<and> (\<exists>cs'. uf_chunks (snd y) = Some cs' \<and> (\<forall>bs. covers cs bs \<longrightarrow> covers cs' bs)))"

lemma grows_same: "row_same i d d' \<Longrightarrow> uf_chunks f' = uf_chunks f \<Longrightarrow> grows i (d, f) (d', f')"
  by (auto simp: grows_def row_same_def same_row_def option_rel_Some1)

lemma proc_step_grows:
  assumes "proc_step rd i p (d, f) p' (d', f')" and "sources_keyed d"
    and "\<And>s. source_of d i = Some s \<Longrightarrow> proc_ok rd s f p"
  shows "grows i (d, f) (d', f')"
  using assms(1)
proof cases
  case prepares
  then show ?thesis using assms(3) by (auto simp: grows_def)
next
  case (activates now)
  then show ?thesis using activate_upload_row(2) [OF _ assms(2)] by (fastforce simp: grows_def)
next
  case gives_up
  then show ?thesis using assms(3) by (fastforce simp: grows_def)
next
  case (discards n)
  then show ?thesis using discard_reservation_row(2) [OF _ assms(2)] by (fastforce simp: grows_def)
next
  case (links r b w)
  have "\<exists>cs'. uf_chunks f' = Some cs' \<and> (\<forall>bs. covers cs bs \<longrightarrow> covers cs' bs)" if "uf_chunks f = Some cs" for cs
    using links that covers_new by (auto simp: link_chunk_def split: option.splits if_splits)
  then show ?thesis using links by (auto simp: grows_def)
next
  case (commits r b w now reply e)
  note row = commit_chunk_row [OF commits(5) assms(2)]
  have "s_received s \<le> s_received t" if s: "source_of d i = Some s" and t: "source_of d' i = Some t" for s t
  proof -
    obtain u where u: "source_of e i = Some u" "s_received t = s_received u"
      using release_after [OF row(1), of i w t] t commits(3) by (auto simp: same_row_def)
    from row(2) s u show ?thesis by (auto simp: row_same_def same_row_def)
  qed
  then show ?thesis unfolding grows_def commits(4) by simp
next
  case (hashes w tmp b now r)
  then show ?thesis using renew_upload_row(1) assms(2) grows_same by blast
next
  case (promotes w now r b x ts e)
  then have "uf_chunks f' = uf_chunks f" by (auto simp: promote_temp_def split: option.splits)
  then show ?thesis using promotes renew_upload_row(1) assms(2) grows_same by blast
next
  case (keeps w now r b x ts e)
  then show ?thesis using renew_upload_row(1) assms(2) grows_same by blast
next
  case (completes w x ts e r b)
  then show ?thesis using complete_remote_row(2) [OF _ assms(2)] by (fastforce simp: grows_def)
next
  case (sweeps w)
  then show ?thesis using assms(3) by (auto simp: grows_def)
next
  case (beats w now a)
  then show ?thesis using renew_upload_row(1) assms(2) grows_same by blast
next
  case (fails w)
  then show ?thesis using release_upload_row(1) [OF assms(2)] grows_same by simp
qed (auto simp: open_temp_def intro: grows_same)

lemma upload_step_grows:
  assumes "upload_ok rd i w" and "upload_step rd i w w'"
  shows "grows i (uw_db w, uw_files w) (uw_db w', uw_files w')"
  using assms(2)
proof cases
  case (reserves c n hash now reply d')
  then show ?thesis using assms(1) by (auto simp: upload_ok_def grows_def)
next
  case (chunk c offset text64 ow now r n b d')
  have "sources_keyed (uw_db w)" using assms(1) by (simp add: upload_ok_def)
  moreover obtain x where "lease_upload i (ri_user_id c) ow now (uw_db w) = (x, d')"
    using chunk(2) by (auto simp: begin_chunk_def split: sum.splits prod.splits)
  ultimately show ?thesis using lease_upload_row(1) chunk(1) grows_same by simp
next
  case (finalize c ow now r d')
  have "sources_keyed (uw_db w)" using assms(1) by (simp add: upload_ok_def)
  moreover obtain x where "lease_upload i (ri_user_id c) ow now (uw_db w) = (x, d')"
    using finalize(2) by (auto simp: begin_finalize_def split: sum.splits prod.splits option.splits)
  ultimately show ?thesis using lease_upload_row(1) finalize(1) grows_same by simp
next
  case (proceeds ps p qs p' d' f')
  have "proc_ok rd s (uw_files w) p" if "source_of (uw_db w) i = Some s" for s
    using assms(1) that by (auto simp: upload_ok_def proceeds)
  with proc_step_grows [OF proceeds(3)] assms(1) proceeds show ?thesis by (auto simp: upload_ok_def)
next
  case (others d')
  then show ?thesis by (fastforce simp: grows_def row_kept_def)
next
  case removed
  then show ?thesis by (auto simp: grows_def)
qed

text \<open>An upload does not begin again: a row that is not uploading does not become so.\<close>

definition past_begin :: "string \<Rightarrow> upload_world \<Rightarrow> bool" where
  "past_begin i w \<longleftrightarrow> uw_begun w \<and> (\<forall>s. source_of (uw_db w) i = Some s \<longrightarrow> s_status s \<noteq> SReserved)"

lemma proc_step_status:
  assumes "proc_step rd i p (d, f) p' (d', f')" and "sources_keyed d" and "source_of d' i = Some t"
  shows "\<exists>s. source_of d i = Some s \<and> (s_status s = SReserved \<or>
    s_status t \<noteq> SReserved \<and> (s_status t = SUploading \<longrightarrow> s_status s = SUploading) \<or> s_status t = s_status s)"
  using assms(1)
proof cases
  case (activates now)
  then show ?thesis using activate_upload_row(2) [OF _ assms(2)] by blast
next
  case (discards n)
  then show ?thesis using discard_reservation_row(2) [OF _ assms(2)] assms(3) by blast
next
  case (commits r b w now reply e)
  note row = commit_chunk_row [OF commits(5) assms(2)]
  obtain u where u: "source_of e i = Some u" "same_row u t"
    using release_after [OF row(1)] assms(3) commits(3) by blast
  from row(2) u show ?thesis by (auto simp: row_same_def same_row_def option_rel_Some2)
next
  case (hashes w tmp b now r)
  then show ?thesis using row_same_SomeD [OF renew_upload_row(1) [OF _ assms(2)] assms(3)] by (fastforce simp: same_row_def)
next
  case (promotes w now r b x ts e)
  then show ?thesis using row_same_SomeD [OF renew_upload_row(1) [OF _ assms(2)] assms(3)] by (fastforce simp: same_row_def)
next
  case (keeps w now r b x ts e)
  then show ?thesis using row_same_SomeD [OF renew_upload_row(1) [OF _ assms(2)] assms(3)] by (fastforce simp: same_row_def)
next
  case (completes w x ts e r b)
  then show ?thesis using complete_remote_row(2) [OF _ assms(2)] assms(3) by fastforce
next
  case (sweeps w)
  then show ?thesis using release_after [OF assms(2)] assms(3) by (fastforce simp: same_row_def)
next
  case (beats w now a)
  then show ?thesis using row_same_SomeD [OF renew_upload_row(1) [OF _ assms(2)] assms(3)] by (fastforce simp: same_row_def)
next
  case (fails w)
  then show ?thesis using release_after [OF assms(2)] assms(3) by (fastforce simp: same_row_def)
qed (use assms(3) in auto)

lemma upload_step_past:
  assumes "upload_ok rd i w" and "upload_step rd i w w'" and "past_begin i w"
  shows "past_begin i w' \<and> (\<forall>t. source_of (uw_db w') i = Some t \<longrightarrow> s_status t = SUploading \<longrightarrow>
    (\<exists>s. source_of (uw_db w) i = Some s \<and> s_status s = SUploading))"
  using assms(2)
proof cases
  case (reserves c n hash now reply d')
  then show ?thesis using assms(3) by (simp add: past_begin_def)
next
  case (chunk c offset text64 ow now r n b d')
  have "sources_keyed (uw_db w)" using assms(1) by (simp add: upload_ok_def)
  moreover obtain x where "lease_upload i (ri_user_id c) ow now (uw_db w) = (x, d')"
    using chunk(2) by (auto simp: begin_chunk_def split: sum.splits prod.splits)
  ultimately have "row_same i (uw_db w) d'" by (rule lease_upload_row(1) [rotated])
  then show ?thesis using assms(3) chunk by (auto simp: past_begin_def row_same_def same_row_def option_rel_Some2)
next
  case (finalize c ow now r d')
  have "sources_keyed (uw_db w)" using assms(1) by (simp add: upload_ok_def)
  moreover obtain x where "lease_upload i (ri_user_id c) ow now (uw_db w) = (x, d')"
    using finalize(2) by (auto simp: begin_finalize_def split: sum.splits prod.splits option.splits)
  ultimately have "row_same i (uw_db w) d'" by (rule lease_upload_row(1) [rotated])
  then show ?thesis using assms(3) finalize by (auto simp: past_begin_def row_same_def same_row_def option_rel_Some2)
next
  case (proceeds ps p qs p' d' f')
  have "sources_keyed (uw_db w)" using assms(1) by (simp add: upload_ok_def)
  from proc_step_status [OF proceeds(3) this] show ?thesis
    using assms(3) proceeds(1) by (fastforce simp: past_begin_def)
next
  case (others d')
  then show ?thesis using assms(3) by (fastforce simp: past_begin_def row_kept_def)
next
  case removed
  then show ?thesis using assms(3) by (auto simp: past_begin_def)
qed

lemma received_bytes_grow:
  assumes "(upload_step rd i)\<^sup>*\<^sup>* w v" and "upload_ok rd i w" and "received_bytes i w bs"
  shows "past_begin i v \<and> (\<forall>t. source_of (uw_db v) i = Some t \<longrightarrow> s_status t = SUploading \<longrightarrow>
    (\<exists>ext. received_bytes i v (bs @ ext)))"
  using assms(1)
proof (induction rule: rtranclp_induct)
  case base
  from assms(2,3) show ?case
    by (auto simp: past_begin_def received_bytes_def upload_ok_def intro: exI [of _ "[]"])
next
  case (step v u)
  have ok: "upload_ok rd i v" "upload_ok rd i u"
    using upload_steps_ok assms(2) step(1,2) by (meson rtranclp.rtrancl_into_rtrancl)+
  note past = upload_step_past [OF ok(1) step(2) conjunct1 [OF step(3)]]
  have "\<exists>ext. received_bytes i u (bs @ ext)" if t: "source_of (uw_db u) i = Some t" "s_status t = SUploading" for t
  proof -
    from past t obtain s where s: "source_of (uw_db v) i = Some s" "s_status s = SUploading" by blast
    with step(3) obtain ext cs where cs: "uf_chunks (uw_files v) = Some cs" "covers cs (bs @ ext)"
      "length (bs @ ext) = s_received s" by (auto simp: received_bytes_def)
    from upload_step_grows [OF ok(1) step(2)] s t cs(1) obtain cs' where cs': "uf_chunks (uw_files u) = Some cs'"
      "covers cs' (bs @ ext)" "s_received s \<le> s_received t" using cs(2) by (fastforce simp: grows_def)
    from ok(2) t cs'(1) obtain as where as: "covers cs' as" "length as = s_received t"
      by (auto simp: upload_ok_def row_ok_def)
    with covers_prefix [OF cs'(2) as(1)] cs(3) cs'(3) have "prefix (bs @ ext) as" by simp
    then obtain more where "as = bs @ ext @ more" by (auto simp: prefix_def)
    with as t cs'(1) show ?thesis by (auto simp: received_bytes_def intro!: exI [of _ "ext @ more"])
  qed
  with past show ?case by blast
qed

end
