(* ===== verification/Remote_Properties.thy ===== *)
theory Remote_Properties
  imports Inline_Budget Chunk_Steps Request_Scenarios
begin

text \<open>
  Properties of the remote rendering service: uploads in chunks, whatever other calls on the same upload and
  the rest of the program do in between, and the memory that artifacts take which are read into replies.
\<close>

section \<open>Chunks that were acknowledged\<close>

lemma commit_chunk_acknowledged:
  assumes "commit_chunk i r b w now d = (Inr reply, d')" and "sources_keyed d"
  shows "cp_received_bytes reply = s_received r + length b" "\<exists>s t. source_of d i = Some s \<and> s_status s = SUploading \<and>
    s_received s = s_received r \<and> source_of d' i = Some t \<and> s_status t = SUploading \<and>
    s_received t = s_received s + length b"
proof -
  let ?p = "\<lambda>s. holds_upload i w now s \<and> s_received s = s_received r \<and> s_received r + length b \<le> s_size s"
  let ?f = "\<lambda>s. s\<lparr>s_received := s_received r + length b, s_updated_at := now\<rparr>"
  have d': "d' = snd (update_sources ?p ?f d)" and n: "changes ?p (sources d) = 1"
    and reply: "reply = chunk_reply r (s_received r + length b)"
    using assms(1)
    by (auto simp: commit_chunk_def commit_upload_offset_def update_sources_def split: sum.splits if_splits)
  from reply show "cp_received_bytes reply = s_received r + length b" by (simp add: chunk_reply_def)
  from one_source [OF assms(2), of ?p i ?f] n
  obtain s where s: "source_of d i = Some s" "?p s" by (auto simp: holds_upload_def)
  moreover have "source_of d' i = Some (?f s)"
    unfolding d' by (subst source_of_update) (use s in simp_all)
  ultimately show "\<exists>s t. source_of d i = Some s \<and> s_status s = SUploading \<and> s_received s = s_received r \<and>
      source_of d' i = Some t \<and> s_status t = SUploading \<and> s_received t = s_received s + length b"
    by (auto simp: holds_upload_def)
qed

lemma acknowledged_received:
  assumes "upload_ok rd i w" and "uw_procs w = ps @ Linked ow r b # qs"
    and "commit_chunk i r b ow now (uw_db w) = (Inr reply, d')"
    and "v = w\<lparr>uw_db := snd (release_upload_lease i ow d'), uw_procs := ps @ qs\<rparr>"
  shows "\<exists>bs. received_bytes i w bs \<and> cp_received_bytes reply = length (bs @ b) \<and> received_bytes i v (bs @ b)"
proof -
  have keyed: "sources_keyed (uw_db w)" using assms(1) by (simp add: upload_ok_def)
  note ack = commit_chunk_acknowledged [OF assms(3) keyed]
  from ack(2) obtain s t where s: "source_of (uw_db w) i = Some s" "s_status s = SUploading" "s_received s = s_received r"
    and t: "source_of d' i = Some t" "s_status t = SUploading" "s_received t = s_received s + length b" by blast
  from commit_chunk_row(1) [OF assms(3) keyed] have keyed': "sources_keyed d'" .
  from assms(1,2) s(1) have row: "row_ok rd s (uw_files w) (uw_procs w)" "proc_ok rd s (uw_files w) (Linked ow r b)"
    by (auto simp: upload_ok_def)
  from row s(2,3) obtain cs bs where cs: "uf_chunks (uw_files w) = Some cs" "covers cs bs" "length bs = s_received s"
    "map_of cs (s_received s) = Some b" "1 \<le> length b" "length b \<le> chunk_max_bytes"
    by (auto simp: row_ok_def chunk_at_def)
  have "covers cs (bs @ b)" using cs by (intro covers_more) simp_all
  moreover obtain t' where "source_of (uw_db v) i = Some t'" "same_row t t'"
    using release_upload_row(1) [OF keyed', of i ow] t(1) by (auto simp: row_same_def assms(4) option_rel_Some1)
  ultimately show ?thesis
    using cs s t ack(1) by (intro exI [of _ bs]) (auto simp: received_bytes_def same_row_def assms(4))
qed

text \<open>The loop over the chunks of a complete upload copies the received bytes.\<close>

lemma assemble_from:
  assumes "uf_chunks f = Some cs"
  shows "first_chunks cs k = Some as \<Longrightarrow> first_chunks cs (k + m) = Some bs \<Longrightarrow> length bs = s_size r \<Longrightarrow>
    assemble_chunks r as f = Inr bs"
proof (induction m arbitrary: k as)
  case 0
  then show ?case by (subst assemble_chunks.simps) simp
next
  case (Suc m)
  have "prefix as bs" using first_chunks_grow Suc.prems(1,2) by blast
  obtain cs' where c: "first_chunks cs (Suc k) = Some cs'"
  proof (cases "first_chunks cs (Suc k)")
    case None
    have "first_chunks cs (Suc k + n) = None" for n by (induction n) (use None in auto)
    from this [of m] Suc.prems(2) show ?thesis by simp
  qed blast
  with Suc.prems(1) obtain b where b: "map_of cs (length as) = Some b" "1 \<le> length b" "length b \<le> chunk_max_bytes"
    "cs' = as @ b" by (auto split: option.splits if_splits)
  have "prefix cs' bs" using first_chunks_grow [OF c, of m] Suc.prems(2) by simp
  then have le: "length as + length b \<le> length bs" using prefix_length_le b(4) by fastforce
  have "assemble_chunks r cs' f = Inr bs" using Suc.IH [OF c] Suc.prems(2,3) by simp
  moreover have "read_chunk r as f = Inr b" using b le Suc.prems(3) assms by (simp add: read_chunk_Inr)
  ultimately show ?case using le b(2,4) Suc.prems(3) by (simp add: assemble_chunks.simps [of r as f])
qed

lemma assemble_received:
  assumes "received_bytes i w bs" and "length bs = s_size r"
  shows "assemble_chunks r [] (uw_files w) = Inr bs"
proof -
  from assms(1) obtain cs k where "uf_chunks (uw_files w) = Some cs" "first_chunks cs k = Some bs"
    by (auto simp: received_bytes_def covers_def)
  with assemble_from [of "uw_files w" cs 0 "[]" k bs r] assms(2) show ?thesis by simp
qed

section \<open>An upload in two chunks\<close>

text \<open>A toy hash of 64 hexadecimal digits.\<close>

definition hex_hash :: "string \<Rightarrow> string" where
  "hex_hash s = replicate 63 CHR ''a'' @ [if s = zip_bytes then CHR ''0'' else CHR ''1'']"

definition up_rd :: remote_deps where
  "up_rd = \<lparr>rd_sha = hex_hash, rd_canon = to_lower, rd_zip = (\<lambda>_. Some [ZipEntry zip_main]),
     rd_unpack = (\<lambda>_. [(''main.tex'', ''abcdef'')]), rd_pack = (\<lambda>_. zip_bytes), rd_collate = id, rd_root = ''/data'',
     rd_renderer_version = ''v1'', rd_max_queue_length = 100, rd_max_user_storage_bytes = 5000,
     rd_max_output_bytes = 1000, rd_retention_hours = 24, rd_max_upload_bytes = 1000,
     rd_max_extracted_bytes = 1000, rd_max_zip_entries = 10, rd_max_file_count = 10\<rparr>"

definition up_caller :: remote_identity where
  "up_caller = \<lparr>ri_user_id = ''u'', ri_scopes = [''mcp:render'']\<rparr>"

definition chunk1 :: string where "chunk1 = take 20 zip_bytes"
definition chunk2 :: string where "chunk2 = drop 20 zip_bytes"

text \<open>The databases after the calls, the rows they lease, and the worlds between them.\<close>

definition row_in :: "db \<Rightarrow> source_row" where
  "row_in d = the (source_of d new_sid)"

definition up_begun :: db where
  "up_begun = after (begin_source_upload up_rd up_caller (Some 44) (hex_hash zip_bytes) new_sid 10 demo_base)"

definition up_open :: db where "up_open = after (activate_upload new_sid 11 up_begun)"

definition up_leased1 :: db where
  "up_leased1 = snd (begin_chunk up_caller new_sid (Some 0) (encode_base64 chunk1) ''o1'' 12 up_open)"

definition up_got1 :: db where
  "up_got1 = snd (commit_chunk new_sid (row_in up_leased1) chunk1 ''o1'' 13 up_leased1)"

definition up_free1 :: db where "up_free1 = snd (release_upload_lease new_sid ''o1'' up_got1)"

definition up_leased2 :: db where
  "up_leased2 = snd (begin_chunk up_caller new_sid (Some 20) (encode_base64 chunk2) ''o2'' 14 up_free1)"

definition up_got2 :: db where
  "up_got2 = snd (commit_chunk new_sid (row_in up_leased2) chunk2 ''o2'' 15 up_leased2)"

definition up_free2 :: db where "up_free2 = snd (release_upload_lease new_sid ''o2'' up_got2)"

definition up_final :: db where "up_final = snd (begin_finalize up_caller new_sid ''o3'' 16 up_free2)"

definition up_hashed :: db where "up_hashed = snd (renew_upload new_sid ''o3'' 17 up_final)"

definition up_promoted :: db where "up_promoted = snd (renew_upload new_sid ''o3'' 19 up_hashed)"

definition up_inspected :: extract_result where
  "up_inspected = \<lparr>xr_files = 1, xr_bytes = 6, xr_paths = [''main.tex'']\<rparr>"

definition up_expiry :: timestamp where "up_expiry = projr (orphan_expiry 18 up_hashed)"

definition up_ready :: db where
  "up_ready = snd (complete_remote new_sid ''o3'' up_inspected 18 up_expiry up_promoted)"

definition up_world :: "db \<Rightarrow> upload_files \<Rightarrow> upload_proc list \<Rightarrow> string set \<Rightarrow> upload_world" where
  "up_world d f ps os = \<lparr>uw_db = d, uw_files = f, uw_procs = ps, uw_owners = os, uw_begun = True\<rparr>"

definition up_files :: "(nat \<times> string) list \<Rightarrow> (string \<times> string) list \<Rightarrow> upload_files" where
  "up_files cs ts = \<lparr>uf_archive = Some [], uf_chunks = Some cs, uf_temps = ts\<rparr>"

definition all_chunks :: "(nat \<times> string) list" where "all_chunks = [(20, chunk2), (0, chunk1)]"

definition leased_as :: "source_row \<Rightarrow> nat \<Rightarrow> string \<Rightarrow> chunk_begun result \<Rightarrow> bool" where
  "leased_as r n b x = (case x of Inr (ChunkLeased s m c) \<Rightarrow> s = r \<and> m = n \<and> c = b | _ \<Rightarrow> False)"

definition final_as :: "source_row \<Rightarrow> final_begun result \<Rightarrow> bool" where
  "final_as r x = (case x of Inr (FinalLeased s) \<Rightarrow> s = r | _ \<Rightarrow> False)"

definition reserved_in :: "(begun_upload \<times> db) result \<Rightarrow> bool" where
  "reserved_in r = (case r of Inr (Reserved_Upload x, _) \<Rightarrow> True | _ \<Rightarrow> False)"

lemma leased_asD: "leased_as r n b (fst x) \<Longrightarrow> x = (Inr (ChunkLeased r n b), snd x)"
  by (cases x) (auto simp: leased_as_def split: sum.splits chunk_begun.splits)

lemma final_asD: "final_as r (fst x) \<Longrightarrow> x = (Inr (FinalLeased r), snd x)"
  by (cases x) (auto simp: final_as_def split: sum.splits final_begun.splits)

lemma reserved_inD: "reserved_in r \<Longrightarrow> \<exists>x. r = Inr (Reserved_Upload x, after r)"
  by (auto simp: reserved_in_def after_def split: sum.splits begun_upload.splits prod.splits)

lemma up_begin_facts:
  "reserved_in (begin_source_upload up_rd up_caller (Some 44) (hex_hash zip_bytes) new_sid 10 demo_base)"
  "\<not> isl (activate_upload new_sid 11 up_begun)"
  by code_simp+

lemma up_chunk_facts:
  "leased_as (row_in up_leased1) 0 chunk1
     (fst (begin_chunk up_caller new_sid (Some 0) (encode_base64 chunk1) ''o1'' 12 up_open))"
  "leased_as (row_in up_leased2) 20 chunk2
     (fst (begin_chunk up_caller new_sid (Some 20) (encode_base64 chunk2) ''o2'' 14 up_free1))"
  "final_as (row_in up_final) (fst (begin_finalize up_caller new_sid ''o3'' 16 up_free2))"
  by code_simp+

lemma up_commit_facts:
  "map_sum id cp_received_bytes (fst (commit_chunk new_sid (row_in up_leased1) chunk1 ''o1'' 13 up_leased1)) = Inr 20"
  "map_sum id cp_received_bytes (fst (commit_chunk new_sid (row_in up_leased2) chunk2 ''o2'' 15 up_leased2)) = Inr 44"
  by code_simp+

lemma up_renew_facts:
  "fst (renew_upload new_sid ''o3'' 17 up_final) = Inr ()"
  "fst (renew_upload new_sid ''o3'' 19 up_hashed) = Inr ()"
  "fst (complete_remote new_sid ''o3'' up_inspected 18 up_expiry up_promoted) = Inr ()"
  by code_simp+

lemma up_inspect_facts:
  "inspect_source up_rd ''/data'' zip_bytes = Inr up_inspected"
  "verify_digest up_rd (row_in up_final) zip_bytes = Inr ()"
  "\<not> isl (orphan_expiry 18 up_hashed)"
  by code_simp+

lemma up_row_facts:
  "s_received (row_in up_leased1) = 0 \<and> s_received (row_in up_leased2) = 20"
  "s_size (row_in up_leased1) = 44 \<and> s_size (row_in up_leased2) = 44"
  "s_received (row_in up_final) = 44 \<and> s_size (row_in up_final) = 44"
  "s_received (row_in up_free2) = 44 \<and> s_size (row_in up_free2) = 44"
  "length chunk1 = 20 \<and> length chunk2 = 24 \<and> length zip_bytes = 44"
  by code_simp+

lemma up_status_facts:
  "map_option s_status (source_of up_free2 new_sid) = Some SUploading"
  "map_option s_status (source_of up_ready new_sid) = Some SReady"
  "source_of demo_base new_sid = None" "sources_keyed demo_base"
  by code_simp+

text \<open>The calls of one client, one after another.\<close>

abbreviation up_steps :: "upload_world \<Rightarrow> upload_world \<Rightarrow> bool" where
  "up_steps \<equiv> (upload_step up_rd new_sid)\<^sup>*\<^sup>*"

abbreviation up_reached :: "upload_world \<Rightarrow> bool" where
  "up_reached \<equiv> up_steps (start_upload demo_base)"

lemma up_step: "up_steps v w \<Longrightarrow> upload_step up_rd new_sid w w' \<Longrightarrow> up_steps v w'"
  by (rule rtranclp.rtrancl_into_rtrancl)

lemma up_proceeds:
  assumes "up_steps v (up_world d f [p] os)" and "proc_step up_rd new_sid p (d, f) p' (d', f')"
  shows "up_steps v (up_world d' f' (rest_of p') os)"
  using up_step [OF assms(1) upload_step.proceeds [of "up_world d f [p] os" "[]" p "[]" up_rd new_sid p' d' f']] assms(2)
  by (simp add: up_world_def split: option.splits)

lemma up_leases:
  assumes "up_steps v (up_world d f [] os)" and "leased_as r n b (fst (begin_chunk up_caller new_sid offset s ow now d))"
    and "ow \<notin> os"
  shows "up_steps v (up_world (snd (begin_chunk up_caller new_sid offset s ow now d)) f [Claimed ow r n b] (insert ow os))"
  using up_step [OF assms(1) upload_step.chunk [OF _ , of up_caller new_sid offset s ow now _ r n b]] leased_asD [OF assms(2)]
    assms(3)
  by (simp add: up_world_def)

lemma up_finalizes:
  assumes "up_steps v (up_world d f [] os)" and "final_as r (fst (begin_finalize up_caller new_sid ow now d))"
    and "ow \<notin> os"
  shows "up_steps v (up_world (snd (begin_finalize up_caller new_sid ow now d)) f [Finalizing ow r] (insert ow os))"
  using up_step [OF assms(1) upload_step.finalize [OF _ , of up_caller new_sid ow now _ r]] final_asD [OF assms(2)]
    assms(3)
  by (simp add: up_world_def)

lemma up_acknowledged:
  assumes "map_sum id cp_received_bytes (fst (commit_chunk i r b ow now d)) = Inr n"
  shows "\<exists>reply. commit_chunk i r b ow now d = (Inr reply, snd (commit_chunk i r b ow now d)) \<and> cp_received_bytes reply = n"
proof (cases "commit_chunk i r b ow now d")
  case (Pair a e)
  with assms show ?thesis by (cases a) auto
qed

lemma up_opened: "up_reached (up_world up_open (up_files [] []) [] {})"
proof -
  obtain x where "begin_source_upload up_rd up_caller (Some 44) (hex_hash zip_bytes) new_sid 10 demo_base =
      Inr (Reserved_Upload x, up_begun)"
    using reserved_inD [OF up_begin_facts(1)] unfolding up_begun_def by blast
  then have "upload_step up_rd new_sid (start_upload demo_base) (up_world up_begun no_files [Opening] {})"
    using upload_step.reserves [of up_rd up_caller "Some 44" "hex_hash zip_bytes" new_sid 10 "start_upload demo_base" x up_begun]
    by (simp add: start_upload_def up_world_def)
  then have "up_reached (up_world up_begun no_files [Opening] {})"
    by (rule up_step [rotated]) simp
  moreover have "proc_step up_rd new_sid Opening (up_begun, no_files) (Some Opened) (up_begun, up_files [] [])"
    by (rule proc_step.prepares) (simp add: prepare_files_def no_files_def up_files_def)
  ultimately have "up_reached (up_world up_begun (up_files [] []) [Opened] {})"
    using up_proceeds [where p' = "Some Opened"] by fastforce
  moreover have "proc_step up_rd new_sid Opened (up_begun, up_files [] []) None (up_open, up_files [] [])"
    using after_Inr [OF up_begin_facts(2)] by (intro proc_step.activates [of _ 11]) (simp add: up_open_def)
  ultimately show ?thesis using up_proceeds [where p' = None] by fastforce
qed

lemma up_linked1: "up_reached (up_world up_leased1 (up_files [(0, chunk1)] []) [Linked ''o1'' (row_in up_leased1) chunk1] {''o1''})"
proof -
  have "up_reached (up_world up_leased1 (up_files [] []) [Claimed ''o1'' (row_in up_leased1) 0 chunk1] {''o1''})"
    using up_leases [OF up_opened up_chunk_facts(1)] by (simp add: up_leased1_def)
  from up_proceeds [OF this proc_step.checks]
  have "up_reached (up_world up_leased1 (up_files [] []) [Checked ''o1'' (row_in up_leased1) chunk1] {''o1''})"
    by (simp add: check_staging_def up_files_def up_row_facts)
  from up_proceeds [OF this proc_step.links] show ?thesis
    by (simp add: link_chunk_def up_files_def up_row_facts)
qed

lemma up_received1: "up_reached (up_world up_free1 (up_files [(0, chunk1)] []) [] {''o1''})"
  using up_proceeds [OF up_linked1 proc_step.commits] up_acknowledged [OF up_commit_facts(1)]
  by (auto simp: up_free1_def up_got1_def)

lemma up_continues:
  "up_steps (up_world up_free1 (up_files [(0, chunk1)] []) [] {''o1''})
    (up_world up_free2 (up_files all_chunks []) [] {''o2'', ''o1''})"
proof -
  let ?v = "up_world up_free1 (up_files [(0, chunk1)] []) [] {''o1''}"
  have "up_steps ?v (up_world up_leased2 (up_files [(0, chunk1)] []) [Claimed ''o2'' (row_in up_leased2) 20 chunk2] {''o2'', ''o1''})"
    using up_leases [OF rtranclp.rtrancl_refl up_chunk_facts(2)] by (simp add: up_leased2_def)
  from up_proceeds [OF this proc_step.checks]
  have "up_steps ?v (up_world up_leased2 (up_files [(0, chunk1)] []) [Checked ''o2'' (row_in up_leased2) chunk2] {''o2'', ''o1''})"
    by (simp add: check_staging_def up_files_def up_row_facts)
  from up_proceeds [OF this proc_step.links]
  have "up_steps ?v (up_world up_leased2 (up_files all_chunks []) [Linked ''o2'' (row_in up_leased2) chunk2] {''o2'', ''o1''})"
    by (simp add: link_chunk_def up_files_def up_row_facts all_chunks_def)
  from up_proceeds [OF this proc_step.commits] show ?thesis
    using up_acknowledged [OF up_commit_facts(2)] by (auto simp: up_free2_def up_got2_def)
qed

lemma up_received2: "up_reached (up_world up_free2 (up_files all_chunks []) [] {''o2'', ''o1''})"
  using up_received1 up_continues by (rule rtranclp_trans)

text \<open>Finalizing: the archive is copied, hashed, inspected and moved to its place.\<close>

definition up_done :: upload_files where
  "up_done = \<lparr>uf_archive = Some zip_bytes, uf_chunks = Some all_chunks, uf_temps = []\<rparr>"

lemma chunks_joined: "chunk1 @ chunk2 = zip_bytes"
  by (simp add: chunk1_def chunk2_def)

lemma up_assembled:
  "up_reached (up_world up_final (up_files all_chunks [(''o3'', zip_bytes)]) [Staged ''o3'' (row_in up_final) True]
    {''o3'', ''o2'', ''o1''})"
proof -
  let ?r = "row_in up_final" and ?f = "\<lambda>b. up_files all_chunks [(''o3'', b)]" and ?os = "{''o3'', ''o2'', ''o1''}"
  have "up_reached (up_world up_final (up_files all_chunks []) [Finalizing ''o3'' ?r] ?os)"
    using up_finalizes [OF up_received2 up_chunk_facts(3)] by (simp add: up_final_def)
  from up_proceeds [OF this proc_step.opens [of _ _ _ "up_files all_chunks []" "?f []"]]
  have "up_reached (up_world up_final (?f []) [Assembling ''o3'' ?r []] ?os)"
    by (simp add: check_archive_def open_temp_def up_files_def up_row_facts)
  from up_proceeds [OF this proc_step.copies [of _ _ _ chunk1]]
  have "up_reached (up_world up_final (?f chunk1) [Assembling ''o3'' ?r chunk1] ?os)"
    by (simp add: read_chunk_def write_temp_def up_files_def up_row_facts all_chunks_def chunk_max_bytes_def)
  from up_proceeds [OF this proc_step.copies [of _ _ _ chunk2]]
  have "up_reached (up_world up_final (?f zip_bytes) [Assembling ''o3'' ?r zip_bytes] ?os)"
    by (simp add: read_chunk_def write_temp_def up_files_def up_row_facts all_chunks_def chunk_max_bytes_def chunks_joined)
  from up_proceeds [OF this proc_step.assembled] show ?thesis by (simp add: up_row_facts)
qed

lemma up_finalized: "up_reached (up_world up_ready up_done [Completed ''o3''] {''o3'', ''o2'', ''o1''})"
proof -
  let ?r = "row_in up_final" and ?f = "up_files all_chunks [(''o3'', zip_bytes)]" and ?os = "{''o3'', ''o2'', ''o1''}"
  have "renew_upload new_sid ''o3'' 17 up_final = (Inr (), up_hashed)"
    using up_renew_facts(1) by (simp add: up_hashed_def prod_eq_iff)
  with up_proceeds [OF up_assembled proc_step.hashes [of _ _ _ zip_bytes _ 17 _ up_hashed]]
  have "up_reached (up_world up_hashed ?f [Hashed ''o3'' ?r True zip_bytes] ?os)"
    by (simp add: staged_bytes_def up_files_def up_inspect_facts)
  from up_proceeds [OF this proc_step.inspects [of _ "''/data''" _ up_inspected 18 _ up_expiry]]
  have "up_reached (up_world up_hashed ?f [Inspected ''o3'' ?r True zip_bytes up_inspected 18 up_expiry] ?os)"
    using up_inspect_facts(1,3) by (cases "orphan_expiry 18 up_hashed") (simp_all add: up_expiry_def)
  moreover have "renew_upload new_sid ''o3'' 19 up_hashed = (Inr (), up_promoted)"
    using up_renew_facts(2) by (simp add: up_promoted_def prod_eq_iff)
  ultimately have "up_reached (up_world up_promoted up_done [Promoted ''o3'' ?r zip_bytes up_inspected 18 up_expiry] ?os)"
    using up_proceeds [OF _ proc_step.promotes [of _ _ 19 _ up_promoted ?f up_done]]
    by (simp add: promote_temp_def up_files_def up_done_def)
  moreover have "complete_remote new_sid ''o3'' up_inspected 18 up_expiry up_promoted = (Inr (), up_ready)"
    using up_renew_facts(3) by (simp add: up_ready_def prod_eq_iff)
  ultimately show ?thesis
    using up_proceeds [OF _ proc_step.completes [of _ _ _ _ _ _ up_ready]] by simp
qed

text \<open>
  C27. A chunk that was acknowledged stays received: whatever calls on the same upload run at once, with
  their lease or after it ran out, and whatever the rest of the program commits, as long as the upload is
  open its received bytes begin with those before the chunk and the chunk, at the offset the reply
  reports. Once all announced bytes are received, assembling the chunks gives these bytes.
\<close>

theorem acknowledged_chunk_stays:
  assumes "sources_keyed d0" and "source_of d0 i = None" and "(upload_step rd i)\<^sup>*\<^sup>* (start_upload d0) w"
    and "uw_procs w = ps @ Linked ow r b # qs" and "commit_chunk i r b ow now (uw_db w) = (Inr reply, d')"
    and "(upload_step rd i)\<^sup>*\<^sup>* (w\<lparr>uw_db := snd (release_upload_lease i ow d'), uw_procs := ps @ qs\<rparr>) v"
    and "source_of (uw_db v) i = Some s" and "s_status s = SUploading"
  shows "\<exists>bs ext. received_bytes i w bs \<and> cp_received_bytes reply = length (bs @ b) \<and>
    received_bytes i v (bs @ b @ ext) \<and>
    (s_received s = s_size s \<longrightarrow> assemble_chunks s [] (uw_files v) = Inr (bs @ b @ ext))"
proof -
  let ?u = "w\<lparr>uw_db := snd (release_upload_lease i ow d'), uw_procs := ps @ qs\<rparr>"
  have ok: "upload_ok rd i w" using upload_steps_ok [OF assms(3)] start_upload_ok assms(1,2) by blast
  obtain bs where bs: "received_bytes i w bs" "cp_received_bytes reply = length (bs @ b)" "received_bytes i ?u (bs @ b)"
    using acknowledged_received [OF ok assms(4,5) refl] by blast
  have "proc_step rd i (Linked ow r b) (uw_db w, uw_files w) None (snd (release_upload_lease i ow d'), uw_files w)"
    using assms(5) by (rule proc_step.commits)
  from upload_step.proceeds [OF assms(4) this] have "upload_step rd i w ?u" by simp
  then have "upload_ok rd i ?u" by (rule upload_step_ok [OF ok])
  from received_bytes_grow [OF assms(6) this bs(3)] assms(7,8)
  obtain ext where ext: "received_bytes i v (bs @ b @ ext)" by auto
  then have "s_received s = s_size s \<longrightarrow> assemble_chunks s [] (uw_files v) = Inr (bs @ b @ ext)"
    using assemble_received [OF ext, of s] assms(7) by (auto simp: received_bytes_def)
  with bs ext show ?thesis by blast
qed

theorem acknowledged_chunk_stays_witness:
  "\<exists>ext. received_bytes new_sid (up_world up_free2 (up_files all_chunks []) [] {''o2'', ''o1''}) (chunk1 @ ext) \<and>
     assemble_chunks (row_in up_free2) [] (up_files all_chunks []) = Inr (chunk1 @ ext)"
proof -
  let ?w = "up_world up_leased1 (up_files [(0, chunk1)] []) [Linked ''o1'' (row_in up_leased1) chunk1] {''o1''}"
  let ?v = "up_world up_free2 (up_files all_chunks []) [] {''o2'', ''o1''}"
  obtain reply where reply: "commit_chunk new_sid (row_in up_leased1) chunk1 ''o1'' 13 (uw_db ?w) = (Inr reply, up_got1)"
    "cp_received_bytes reply = 20"
    using up_acknowledged [OF up_commit_facts(1)] by (auto simp: up_got1_def up_world_def)
  have row: "source_of (uw_db ?v) new_sid = Some (row_in up_free2)" "s_status (row_in up_free2) = SUploading"
    using up_status_facts(1) by (auto simp: row_in_def up_world_def)
  have "?w\<lparr>uw_db := snd (release_upload_lease new_sid ''o1'' up_got1), uw_procs := [] @ []\<rparr> =
      up_world up_free1 (up_files [(0, chunk1)] []) [] {''o1''}"
    by (simp add: up_world_def up_free1_def)
  then have "up_steps (?w\<lparr>uw_db := snd (release_upload_lease new_sid ''o1'' up_got1), uw_procs := [] @ []\<rparr>) ?v"
    using up_continues by simp
  from acknowledged_chunk_stays [OF up_status_facts(4,3) up_linked1 _ reply(1) this row] reply(2) up_row_facts(4,5)
  show ?thesis by (auto simp: up_world_def)
qed

text \<open>
  C8. A source that was uploaded in chunks is ready only with an archive of the announced size and
  hash, and its paths are those that the inspection of an archive of this size and hash found, in every state
  that calls on the upload lead to, whatever they interleave with.
\<close>

theorem finalized_upload_verified:
  assumes "sources_keyed d0" and "source_of d0 i = None" and "(upload_step rd i)\<^sup>*\<^sup>* (start_upload d0) w"
    and "source_of (uw_db w) i = Some s" and "s_status s = SReady"
  shows "(\<exists>a. uf_archive (uw_files w) = Some a \<and> verify_digest rd s a = Inr ()) \<and>
    (\<exists>b root x. verify_digest rd s b = Inr () \<and> inspect_source rd root b = Inr x \<and>
      s_paths s = Some (paths_json (sort (xr_paths x))))"
proof -
  have "upload_ok rd i w" using upload_steps_ok [OF assms(3)] start_upload_ok assms(1,2) by blast
  with assms(4,5) have "good_archive rd s (uw_files w)" "inspected_paths rd s"
    by (auto simp: upload_ok_def row_ok_def)
  then show ?thesis by (auto simp: good_archive_def inspected_paths_def good_bytes_def verify_digest_def)
qed

theorem finalized_upload_verified_witness:
  "verify_digest up_rd (row_in up_ready) zip_bytes = Inr ()"
proof -
  have "source_of up_ready new_sid = Some (row_in up_ready)" "s_status (row_in up_ready) = SReady"
    using up_status_facts(2) by (auto simp: row_in_def)
  with finalized_upload_verified [OF up_status_facts(4,3) up_finalized, of "row_in up_ready"] show ?thesis
    by (simp add: up_world_def up_done_def)
qed

section \<open>Artifacts in replies\<close>

text \<open>
  C31. However reads of artifacts into replies begin and end, the bytes in flight are those of the reads
  that hold some and never exceed 64 MiB, and no waiting read would fit. Waiting ends: whatever the order
  in which the reads that hold bytes give them back, every one of the open reads gets its turn, and after as
  many returns as there are reads none holds bytes and none waits.
\<close>

theorem inline_reads_bounded:
  assumes "read_step\<^sup>*\<^sup>* no_reads w"
  shows "ib_in_flight (iw_budget w) = bytes_of (iw_holders w) \<and> bytes_of (iw_holders w) \<le> 64 * 1024 * 1024 \<and>
    (\<forall>v. v \<in> set (ib_waiters (iw_budget w)) \<longrightarrow> 64 * 1024 * 1024 < bytes_of (iw_holders w) + snd v) \<and>
    (\<forall>n v. (finishing ^^ n) w v \<longrightarrow> reads_open v + n = reads_open w \<and> (reads_open v \<noteq> 0 \<longrightarrow> (\<exists>u. finishing v u)))"
proof -
  from assms have ok: "budget_ok w" by (rule budget_ok_steps)
  have "reads_open v + n = reads_open w \<and> (reads_open v \<noteq> 0 \<longrightarrow> (\<exists>u. finishing v u))" if "(finishing ^^ n) w v" for n v
    using finishing_counts [OF that ok] finishing_goes_on [of v] by blast
  with ok show ?thesis by (auto simp: budget_ok_def fits_def max_in_flight_def)
qed

definition mib :: nat where "mib = 1024 * 1024"

text \<open>Five reads of 15 MiB: the last one waits.\<close>

definition five_reads :: inline_world where
  "five_reads = begin_read (5, 15 * mib) (begin_read (4, 15 * mib) (begin_read (3, 15 * mib)
     (begin_read (2, 15 * mib) (begin_read (1, 15 * mib) no_reads))))"

theorem inline_reads_bounded_witness:
  "ib_in_flight (iw_budget five_reads) = bytes_of (iw_holders five_reads)"
proof -
  have b: "read_step w (begin_read (n, 15 * mib) w)" for w n
    by (rule read_step.begins) (simp add: mib_def max_inline_bytes_def)
  have "read_step\<^sup>*\<^sup>* no_reads five_reads"
    unfolding five_reads_def using b by (meson rtranclp.rtrancl_into_rtrancl rtranclp.rtrancl_refl)
  from inline_reads_bounded [OF this] show ?thesis by blast
qed

end
