(* ===== verification/Remote_Run.thy ===== *)
theory Remote_Run
  imports Remote_Base Accounts
begin

text \<open>
  Calls of \<open>RemoteRenderService\<close> (packages/remote-mcp-core/src/index.ts) as sequences of visits to the
  database, between which other processes commit, and the accounting principal that every call on a job
  goes through. A call is a function of an environment, which says what others commit before each visit,
  the time, the new identifiers and how the file operations end, and of the run so far, which records the
  database before and after each visit.
\<close>

section \<open>Calls\<close>

record remote_env =
  re_others :: "nat \<Rightarrow> auth_db \<Rightarrow> auth_db"
  re_now :: "nat \<Rightarrow> timestamp"
  re_id :: "string \<Rightarrow> nat \<Rightarrow> string"
  re_io :: "nat \<Rightarrow> unit result"

record remote_run =
  rr_db :: auth_db
  rr_visits :: nat
  rr_commits :: "(auth_db \<times> auth_db) list"

definition start_call :: "auth_db \<Rightarrow> remote_run" where
  "start_call a = \<lparr>rr_db = a, rr_visits = 0, rr_commits = []\<rparr>"

type_synonym 'a call = "remote_env \<Rightarrow> remote_run \<Rightarrow> 'a result \<times> remote_run"

definition return_c :: "'a \<Rightarrow> 'a call" where
  "return_c x e r = (Inr x, r)"

definition fail_c :: "app_error \<Rightarrow> 'a call" where
  "fail_c err e r = (Inl err, r)"

definition bind_c :: "'a call \<Rightarrow> ('a \<Rightarrow> 'b call) \<Rightarrow> 'b call" where
  "bind_c m k e r = (case m e r of (Inl err, r') \<Rightarrow> (Inl err, r') | (Inr x, r') \<Rightarrow> k x e r')"

definition check_c :: "bool \<Rightarrow> app_error \<Rightarrow> unit call" where
  "check_c b err = (if b then return_c () else fail_c err)"

definition of_result :: "'a result \<Rightarrow> 'a call" where
  "of_result x e r = (x, r)"

text \<open>One visit: what others committed is there, and the call's own statements run.\<close>

definition visit_c :: "(auth_db \<Rightarrow> 'a result \<times> auth_db) \<Rightarrow> 'a call" where
  "visit_c f e r =
     (let a = re_others e (rr_visits r) (rr_db r); y = f a in
      (fst y, \<lparr>rr_db = snd y, rr_visits = Suc (rr_visits r), rr_commits = rr_commits r @ [(a, snd y)]\<rparr>))"

definition read_c :: "(auth_db \<Rightarrow> 'a result) \<Rightarrow> 'a call" where
  "read_c f = visit_c (\<lambda>a. (f a, a))"

text \<open>A transaction is rolled back when it throws.\<close>

definition atomically :: "'a atx \<Rightarrow> auth_db \<Rightarrow> 'a result \<times> auth_db" where
  "atomically m a = (case m a of Inl err \<Rightarrow> (Inl err, a) | Inr (x, a') \<Rightarrow> (Inr x, a'))"

definition tx_c :: "'a atx \<Rightarrow> 'a call" where
  "tx_c m = visit_c (atomically m)"

definition shared_c :: "'a tx \<Rightarrow> 'a call" where
  "shared_c m = tx_c (shared_tx m)"

definition look_c :: "(db \<Rightarrow> 'a result) \<Rightarrow> 'a call" where
  "look_c f = read_c (\<lambda>a. f (shared a))"

definition catch_c :: "'a call \<Rightarrow> (app_error \<Rightarrow> 'a call) \<Rightarrow> 'a call" where
  "catch_c m h e r = (case m e r of (Inl err, r') \<Rightarrow> h err e r' | (Inr x, r') \<Rightarrow> (Inr x, r'))"

definition now_c :: "timestamp call" where
  "now_c e r = (Inr (re_now e (rr_visits r)), r)"

text \<open>\<open>newId\<close>.\<close>

definition new_id_c :: "string \<Rightarrow> string call" where
  "new_id_c pre e r = (Inr (re_id e pre (rr_visits r)), r)"

definition io_c :: "unit call" where
  "io_c e r = (re_io e (rr_visits r), r)"

section \<open>The accounting principal\<close>

text \<open>The key of a principal has no secret: its hash is no hash of anything.\<close>

definition remote_key :: "string \<Rightarrow> string \<Rightarrow> timestamp \<Rightarrow> key_row" where
  "remote_key key account ts =
     \<lparr>k_id = key, k_service_account_id = account, k_name = ''Remote MCP accounting principal'',
      k_prefix = ''oauth_'' @ drop 4 key, k_kind = RenderKey, k_secret_hash = replicate 64 CHR ''0'',
      k_pepper_id = ''oauth-principal'', k_scopes = Some (JArr [JStr ''oauth:mcp'']), k_expires_at = None,
      k_last_used_at = None, k_revoked_at = None, k_created_at = ts, k_created_by = ''remote_mcp''\<rparr>"

definition remote_account_name :: "db \<Rightarrow> string \<Rightarrow> string \<Rightarrow> string" where
  "remote_account_name d u account =
     (if account_name_exists d u ''Remote MCP'' then ''Remote MCP ('' @ account @ '')'' else ''Remote MCP'')"

definition insert_remote_principal :: "principal_row \<Rightarrow> principal_row atx" where
  "insert_remote_principal p =
     bind_a (shared_tx (\<lambda>d. insert_account (mp_service_account_id p) (mp_user_id p)
       (remote_account_name d (mp_user_id p) (mp_service_account_id p)) Mcp (mp_created_at p) d)) (\<lambda>_.
     bind_a (shared_tx (insert_key (remote_key (mp_api_key_id p) (mp_service_account_id p) (mp_created_at p)))) (\<lambda>_.
     bind_a (insert_principal p) (\<lambda>_ a. Inr (p, a))))"

definition find_principal :: "string \<Rightarrow> principal_row option call" where
  "find_principal u = read_c (\<lambda>a. Inr (mcp_principal a u))"

definition ensure_principal :: "string \<Rightarrow> principal_row call" where
  "ensure_principal u =
     bind_c (find_principal u) (\<lambda>old.
     (case old of
        Some p \<Rightarrow> return_c p
      | None \<Rightarrow>
          bind_c now_c (\<lambda>now.
          bind_c (new_id_c ''sa'') (\<lambda>account.
          bind_c (new_id_c ''key'') (\<lambda>key.
          catch_c (tx_c (insert_remote_principal \<lparr>mp_user_id = u, mp_service_account_id = account,
              mp_api_key_id = key, mp_created_at = now\<rparr>)) (\<lambda>err.
            bind_c (find_principal u) (\<lambda>raced.
              (case raced of Some p \<Rightarrow> return_c p | None \<Rightarrow> fail_c err))))))))"

definition some_c :: "app_error \<Rightarrow> 'a option \<Rightarrow> 'a call" where
  "some_c err x = (case x of None \<Rightarrow> fail_c err | Some y \<Rightarrow> return_c y)"

definition owned_job :: "string \<Rightarrow> string \<Rightarrow> job_row call" where
  "owned_job u i =
     bind_c (ensure_principal u) (\<lambda>p.
     bind_c (look_c (\<lambda>d. Inr (get_owned d i u (mp_service_account_id p)))) (some_c (AppError ''JOB_NOT_FOUND'' 404)))"

end
