(* ===== verification/Remote_Sources.thy ===== *)
theory Remote_Sources
  imports Remote_Run Chunked_Upload Projects
begin

text \<open>
  Sources that are made in one call (packages/remote-mcp-core/src/index.ts): from files of the call,
  from one inline document, and as a revision of another source with a file written or removed. A text
  is a list of bytes here, in UTF-8.
\<close>

section \<open>Files of a call\<close>

record source_file =
  fi_path :: string
  fi_text :: "string option"
  fi_base64 :: "string option"

definition file_content :: "source_file \<Rightarrow> string result" where
  "file_content f = (case (fi_text f, fi_base64 f) of
       (Some t, None) \<Rightarrow> Inr t
     | (None, Some b) \<Rightarrow> decode_base64 b
     | _ \<Rightarrow> Inl (AppError ''SOURCE_FILE_CONTENT'' 400))"

definition source_file_path :: "string \<Rightarrow> string result" where
  "source_file_path p = validate_source_file p 10 200"

text \<open>The loop of \<open>createSource\<close>: \<open>seen\<close> are the normalized paths so far, \<open>used\<close> their bytes.\<close>

fun prepare_source :: "(string \<Rightarrow> string) \<Rightarrow> direct_limits \<Rightarrow> string list \<Rightarrow> nat \<Rightarrow> source_file list \<Rightarrow>
  (string \<times> string) list result" where
  "prepare_source canon lim seen used [] = Inr []"
| "prepare_source canon lim seen used (f # fs) =
     bind_r (source_file_path (fi_path f)) (\<lambda>path.
     ensure (canon path \<notin> set seen) (AppError ''SOURCE_DUPLICATE_PATH'' 422)
     (bind_r (file_content f) (\<lambda>bytes.
      ensure (length bytes \<le> dl_file_bytes lim) (AppError ''SOURCE_FILE_SIZE'' 400)
      (ensure (used + length bytes \<le> dl_content_bytes lim) (AppError ''SOURCE_TOTAL_SIZE'' 400)
      (bind_r (prepare_source canon lim (canon path # seen) (used + length bytes) fs) (\<lambda>rest.
       Inr ((path, bytes) # rest)))))))"

definition assert_tex_source :: "string list \<Rightarrow> unit result" where
  "assert_tex_source paths = ensure (\<exists>p\<in>set paths. ends_with ''.tex'' (to_lower p))
     (AppError ''TEX_ENTRYPOINT_MISSING'' 422) (Inr ())"

text \<open>\<open>addZipFiles\<close> up to the writer: the sizes, then the order of the entries.\<close>

fun check_zip_sizes :: "nat \<Rightarrow> nat \<Rightarrow> nat \<Rightarrow> (string \<times> string) list \<Rightarrow> unit result" where
  "check_zip_sizes max_file max_total used [] = Inr ()"
| "check_zip_sizes max_file max_total used ((p, b) # fs) =
     ensure (length b \<le> max_file) (AppError ''ZIP_FILE_TOO_LARGE'' 422)
     (ensure (used + length b \<le> max_total) (AppError ''ZIP_BOMB'' 422)
     (check_zip_sizes max_file max_total (used + length b) fs))"

definition default_max_upload_bytes :: nat where "default_max_upload_bytes = 20 * 1024 * 1024"
definition default_max_extracted_bytes :: nat where "default_max_extracted_bytes = 100 * 1024 * 1024"

text \<open>The order of \<open>localeCompare\<close> is that of the keys \<open>rd_collate\<close>; the archive is what \<open>rd_pack\<close> writes.\<close>

definition by_locale :: "remote_deps \<Rightarrow> (string \<times> string) list \<Rightarrow> (string \<times> string) list" where
  "by_locale rd = sort_key (\<lambda>f. rd_collate rd (fst f))"

definition zip_files :: "remote_deps \<Rightarrow> (string \<times> string) list \<Rightarrow> string result" where
  "zip_files rd fs = bind_r (check_zip_sizes default_max_upload_bytes default_max_extracted_bytes 0 fs) (\<lambda>_.
     Inr (rd_pack rd (by_locale rd fs)))"

section \<open>A ready source\<close>

definition ready_source_columns :: "timestamp \<Rightarrow> timestamp \<Rightarrow> string list \<Rightarrow> source_update list" where
  "ready_source_columns now expires paths =
     [SetUploadedAt (Some now), SetSourceExpiresAt expires, SetPaths (Some (paths_json paths))]"

text \<open>\<open>ready\<close> is what the caller adds to the transaction that makes the source ready.\<close>

definition make_ready :: "string \<Rightarrow> timestamp \<Rightarrow> string list \<Rightarrow> (string \<Rightarrow> timestamp \<Rightarrow> unit tx) option \<Rightarrow>
  timestamp \<Rightarrow> unit tx" where
  "make_ready i expires paths ready now =
     seq_tx (read_tx assert_source_writable) (\<lambda>_.
     seq_tx (source_transition_before_expiry i [SReserved] SReady now (ready_source_columns now expires paths)) (\<lambda>_.
     (case ready of None \<Rightarrow> return_tx () | Some f \<Rightarrow> f i now)))"

definition reserve_archive :: "remote_deps \<Rightarrow> string \<Rightarrow> string \<Rightarrow> string \<Rightarrow> timestamp \<Rightarrow> unit tx" where
  "reserve_archive rd u archive i now =
     seq_tx (read_tx (assert_storage_quota rd u (length archive))) (\<lambda>_.
     seq_tx (read_tx assert_source_writable) (\<lambda>_.
     source_insert_reserved \<lparr>si_id = i, si_owner_user_id = u, si_size = length archive,
       si_sha256 = rd_sha rd archive, si_storage_key = ''sources/'' @ i @ ''/source.zip'', si_timestamp = now,
       si_expires_at = now + source_upload_ms, si_dedupe_eligible = None, si_service_account_id = None\<rparr>))"

text \<open>The file goes to its place and the source becomes ready; else both are given up.\<close>

definition publish_ready :: "string \<Rightarrow> timestamp \<Rightarrow> string list \<Rightarrow> (string \<Rightarrow> timestamp \<Rightarrow> unit tx) option \<Rightarrow> unit call" where
  "publish_ready i expires paths ready =
     catch_c (bind_c io_c (\<lambda>_. bind_c now_c (\<lambda>now. shared_c (make_ready i expires paths ready now))))
       (\<lambda>err. bind_c io_c (\<lambda>_. bind_c (shared_c (discard_reservation i)) (\<lambda>_. fail_c err)))"

definition store_new :: "remote_deps \<Rightarrow> string \<Rightarrow> string \<Rightarrow> string list \<Rightarrow>
  (string \<Rightarrow> timestamp \<Rightarrow> unit tx) option \<Rightarrow> source_row call" where
  "store_new rd u archive paths ready =
     bind_c (new_id_c ''source'') (\<lambda>i.
     bind_c now_c (\<lambda>now.
     bind_c (look_c (orphan_expiry now)) (\<lambda>expires.
     bind_c (shared_c (reserve_archive rd u archive i now)) (\<lambda>_.
     bind_c (publish_ready i expires paths ready) (\<lambda>_.
     bind_c (look_c (\<lambda>d. Inr (source_get d i))) (some_c (AppError ''SOURCE_CREATE_FAILED'' 500)))))))"

text \<open>
  \<open>storeReadySource\<close> and \<open>storeReadySourceArchive\<close>. The archive is in memory or in a file of the call; a
  ready source with the same bytes is taken instead.
\<close>

definition store_ready :: "remote_deps \<Rightarrow> string \<Rightarrow> string \<Rightarrow> string list \<Rightarrow>
  (string \<Rightarrow> timestamp \<Rightarrow> unit tx) option \<Rightarrow> source_row call" where
  "store_ready rd u archive paths ready =
     bind_c (look_c assert_source_writable) (\<lambda>_.
     bind_c now_c (\<lambda>t.
     bind_c (look_c (\<lambda>d. Inr (find_ready d u (rd_sha rd archive) (length archive) t []))) (\<lambda>old.
     (case old of
        None \<Rightarrow> store_new rd u archive paths ready
      | Some s \<Rightarrow>
          (case ready of None \<Rightarrow> return_c s
           | Some f \<Rightarrow> bind_c now_c (\<lambda>now. bind_c (shared_c (f (s_id s) now)) (\<lambda>_. return_c s)))))))"

definition store_archive :: "remote_deps \<Rightarrow> string \<Rightarrow> string \<Rightarrow> string list \<Rightarrow>
  (string \<Rightarrow> timestamp \<Rightarrow> unit tx) option \<Rightarrow> source_row call" where
  "store_archive rd u archive paths ready =
     bind_c (look_c assert_source_writable) (\<lambda>_.
     bind_c (check_c (1 \<le> length archive \<and> length archive \<le> rd_max_upload_bytes rd)
       (AppError ''SOURCE_ARCHIVE_SIZE'' 422)) (\<lambda>_.
     store_ready rd u archive paths ready))"

definition validate_and_store :: "remote_deps \<Rightarrow> string \<Rightarrow> string \<Rightarrow> source_row call" where
  "validate_and_store rd u archive =
     bind_c (check_c (length archive \<le> rd_max_upload_bytes rd) (AppError ''SOURCE_ARCHIVE_SIZE'' 422)) (\<lambda>_.
     bind_c io_c (\<lambda>_.
     bind_c (of_result (inspect_source rd (rd_root rd @ ''/.remote-direct'') archive)) (\<lambda>x.
     store_ready rd u archive (xr_paths x) None)))"

definition create_source :: "remote_deps \<Rightarrow> remote_identity \<Rightarrow> source_file list \<Rightarrow> source_summary call" where
  "create_source rd c fs =
     bind_c (of_result (require_scope (ri_scopes c) ''mcp:render'')) (\<lambda>_.
     bind_c (look_c assert_source_writable) (\<lambda>_.
     let lim = direct_source_limits rd in
     bind_c (check_c (1 \<le> length fs \<and> length fs \<le> dl_files lim) (AppError ''SOURCE_FILE_COUNT'' 400)) (\<lambda>_.
     bind_c (of_result (prepare_source (rd_canon rd) lim [] 0 fs)) (\<lambda>ps.
     bind_c (of_result (assert_tex_source (map fst (by_locale rd ps)))) (\<lambda>_.
     bind_c (of_result (zip_files rd (by_locale rd ps))) (\<lambda>archive.
     bind_c (validate_and_store rd (ri_user_id c) archive) (\<lambda>s.
     of_result (summarize_source s None))))))))"

definition create_inline_source :: "remote_deps \<Rightarrow> string \<Rightarrow> string \<Rightarrow> string \<Rightarrow> source_row call" where
  "create_inline_source rd u content entrypoint =
     bind_c (look_c assert_source_writable) (\<lambda>_.
     let lim = direct_source_limits rd in
     bind_c (check_c (1 \<le> length content \<and> length content \<le> inline_source_max_bytes)
       (AppError ''INLINE_SOURCE_SIZE'' 400)) (\<lambda>_.
     bind_c (check_c (length content \<le> dl_file_bytes lim) (AppError ''SOURCE_FILE_SIZE'' 400)) (\<lambda>_.
     bind_c (check_c (length content \<le> dl_content_bytes lim) (AppError ''SOURCE_TOTAL_SIZE'' 400)) (\<lambda>_.
     bind_c (of_result (zip_files rd [(entrypoint, content)])) (\<lambda>archive.
     validate_and_store rd u archive)))))"

section \<open>A revision\<close>

text \<open>
  The files below the directory of a revision are their paths and contents. A path cannot go through a
  file, nor be that of a directory.
\<close>

definition below :: "string \<Rightarrow> string \<Rightarrow> bool" where
  "below p q \<longleftrightarrow> prefix (p @ ''/'') q"

datatype mutation = WriteFile string string | RemoveFile string

fun mutate :: "mutation \<Rightarrow> (string \<times> string) list \<Rightarrow> (string \<times> string) list result" where
  "mutate (WriteFile p b) fs =
     ensure (\<forall>(q, _)\<in>set fs. \<not> below q p \<and> \<not> below p q) PlainError
       (Inr ((p, b) # filter (\<lambda>(q, _). q \<noteq> p) fs))"
| "mutate (RemoveFile p) fs =
     ensure (\<exists>(q, _)\<in>set fs. q = p) (AppError ''SOURCE_FILE_NOT_FOUND'' 404)
       (Inr (filter (\<lambda>(q, _). q \<noteq> p) fs))"

text \<open>\<open>readDirectoryFiles\<close> on the regular files of the directory, with the counters of its state.\<close>

fun read_directory :: "remote_deps \<Rightarrow> nat \<Rightarrow> nat \<Rightarrow> (string \<times> string) list \<Rightarrow> (string \<times> string) list result" where
  "read_directory rd files bytes [] = Inr []"
| "read_directory rd files bytes ((p, b) # fs) =
     ensure (Suc files \<le> rd_max_file_count rd) (AppError ''ZIP_TOO_MANY_FILES'' 422)
     (ensure (length b \<le> rd_max_upload_bytes rd) (AppError ''ZIP_FILE_TOO_LARGE'' 422)
     (ensure (bytes + length b \<le> rd_max_extracted_bytes rd) (AppError ''ZIP_BOMB'' 422)
     (bind_r (source_file_path p) (\<lambda>q.
      bind_r (read_directory rd (Suc files) (bytes + length b) fs) (\<lambda>rest. Inr ((q, b) # rest))))))"

text \<open>The archive of a revision: \<open>writeZipFiles\<close> stops at the limit of an upload.\<close>

definition write_zip_files :: "remote_deps \<Rightarrow> (string \<times> string) list \<Rightarrow> string result" where
  "write_zip_files rd fs =
     bind_r (check_zip_sizes (rd_max_upload_bytes rd) (rd_max_extracted_bytes rd) 0 fs) (\<lambda>_.
     let archive = rd_pack rd (by_locale rd fs) in
     ensure (length archive \<le> rd_max_upload_bytes rd) (AppError ''SOURCE_ARCHIVE_SIZE'' 422) (Inr archive))"

definition revised_archive :: "remote_deps \<Rightarrow> mutation \<Rightarrow> string \<Rightarrow> (string \<times> string list) result" where
  "revised_archive rd m stored =
     bind_r (inspect_source rd (rd_root rd @ ''/.remote-revision'') stored) (\<lambda>_.
     bind_r (mutate m (rd_unpack rd stored)) (\<lambda>fs.
     bind_r (read_directory rd 0 0 fs) (\<lambda>gs.
     bind_r (assert_tex_source (map fst (by_locale rd gs))) (\<lambda>_.
     bind_r (write_zip_files rd (by_locale rd gs)) (\<lambda>archive.
     bind_r (inspect_source rd (rd_root rd @ ''/.remote-archive'') archive) (\<lambda>x.
     Inr (archive, xr_paths x)))))))"

text \<open>\<open>stored\<close> is the file of the source that is revised.\<close>

definition revise_source :: "remote_deps \<Rightarrow> string \<Rightarrow> string \<Rightarrow> mutation \<Rightarrow> string \<Rightarrow>
  (string \<Rightarrow> timestamp \<Rightarrow> unit tx) option \<Rightarrow> source_summary call" where
  "revise_source rd u i m stored ready =
     bind_c (look_c assert_source_writable) (\<lambda>_.
     bind_c now_c (\<lambda>now.
     bind_c (look_c (resolve_owned_source u i now)) (\<lambda>s.
     bind_c io_c (\<lambda>_.
     bind_c (of_result (source_path rd s)) (\<lambda>_.
     bind_c (of_result (revised_archive rd m stored)) (\<lambda>(archive, paths).
     bind_c (store_archive rd u archive paths ready) (\<lambda>t.
     of_result (summarize_source t (Some (s_id s))))))))))"

definition revision_content :: "remote_deps \<Rightarrow> source_file \<Rightarrow> mutation result" where
  "revision_content rd f =
     bind_r (source_file_path (fi_path f)) (\<lambda>path.
     bind_r (file_content f) (\<lambda>bytes.
     ensure (length bytes \<le> min (20 * 1024 * 1024) (rd_max_upload_bytes rd)) (AppError ''SOURCE_FILE_SIZE'' 400)
       (Inr (WriteFile path bytes))))"

definition update_source_file :: "remote_deps \<Rightarrow> remote_identity \<Rightarrow> string \<Rightarrow> source_file \<Rightarrow> string \<Rightarrow> source_summary call" where
  "update_source_file rd c i f stored =
     bind_c (of_result (require_scope (ri_scopes c) ''mcp:render'')) (\<lambda>_.
     bind_c (look_c assert_source_writable) (\<lambda>_.
     bind_c (of_result (revision_content rd f)) (\<lambda>m.
     revise_source rd (ri_user_id c) i m stored None)))"

definition delete_source_file :: "remote_deps \<Rightarrow> remote_identity \<Rightarrow> string \<Rightarrow> string \<Rightarrow> string \<Rightarrow> source_summary call" where
  "delete_source_file rd c i path stored =
     bind_c (of_result (require_scope (ri_scopes c) ''mcp:render'')) (\<lambda>_.
     bind_c (look_c assert_source_writable) (\<lambda>_.
     bind_c (of_result (source_file_path path)) (\<lambda>p.
     revise_source rd (ri_user_id c) i (RemoveFile p) stored None)))"

end
