(* ===== verification/Remote_Renders.thy ===== *)
theory Remote_Renders
  imports Remote_Sources Svg_Retry
begin

text \<open>
  Renders and projects through the remote MCP server (packages/remote-mcp-core/src/index.ts): references
  to sources, the creation, the retries, the cancellation and the deletion of jobs, the operations on
  projects, and the rates and audit records of its tools.
\<close>

section \<open>References to sources\<close>

definition ref_expiry :: "db \<Rightarrow> source_row \<Rightarrow> timestamp \<Rightarrow> timestamp" where
  "ref_expiry d s now = (if is_retained d (s_id s) then now + source_ref_ms
     else min (now + source_ref_ms) (s_expires_at s))"

definition ref_audit :: "string \<Rightarrow> string \<Rightarrow> timestamp \<Rightarrow> timestamp \<Rightarrow> audit_row" where
  "ref_audit u i expires now = \<lparr>au_actor_type = ActorUser, au_actor_id = u, au_action = ''source_ref.created'',
     au_target_type = ''source'', au_target_id = i, au_result = ''success'', au_ip_address = None,
     au_user_agent = None, au_metadata = [(''expiresAt'', JNum (int expires))], au_created_at = now\<rparr>"

definition create_source_ref :: "string \<Rightarrow> string \<Rightarrow> (string \<times> timestamp) call" where
  "create_source_ref u i =
     bind_c (look_c assert_source_writable) (\<lambda>_.
     bind_c now_c (\<lambda>t.
     bind_c (look_c (\<lambda>d. case source_get_owned_ready d i u t [] of
         None \<Rightarrow> Inl (AppError ''SOURCE_NOT_READY'' 409) | Some s \<Rightarrow> Inr s)) (\<lambda>s.
     bind_c (new_id_c ''source_ref'') (\<lambda>r.
     bind_c now_c (\<lambda>now.
     bind_c (look_c (\<lambda>d. Inr (ref_expiry d s now))) (\<lambda>expires.
     bind_c (tx_c (bind_a (shared_tx (read_tx assert_source_writable)) (\<lambda>_.
       insert_source_ref \<lparr>sf_id = r, sf_source_id = i, sf_owner_user_id = u, sf_created_at = t,
         sf_expires_at = expires, sf_revoked_at = None\<rparr>))) (\<lambda>_.
     bind_c now_c (\<lambda>later.
     bind_c (shared_c (write_tx (audit (ref_audit u i expires later)))) (\<lambda>_.
     return_c (r, expires))))))))))"

definition create_source_reference :: "remote_identity \<Rightarrow> string \<Rightarrow> (string \<times> timestamp) call" where
  "create_source_reference c i =
     bind_c (of_result (require_scope (ri_scopes c) ''mcp:render'')) (\<lambda>_. create_source_ref (ri_user_id c) i)"

definition resolve_source_ref :: "string \<Rightarrow> string \<Rightarrow> source_row call" where
  "resolve_source_ref u r =
     bind_c now_c (\<lambda>t.
     bind_c (read_c (\<lambda>a. case source_ref a r u t of
         None \<Rightarrow> Inl (AppError ''SOURCE_REF_INVALID'' 404) | Some x \<Rightarrow> Inr x)) (\<lambda>x.
     bind_c now_c (\<lambda>now.
     look_c (\<lambda>d. case source_get_owned_ready d (sf_source_id x) u now [] of
         None \<Rightarrow> Inl (AppError ''SOURCE_NOT_READY'' 409) | Some s \<Rightarrow> Inr s))))"

section \<open>Creating a render\<close>

datatype render_source = InlineSource string | SourceRef string | SourceId string "(string \<times> string) option"

record remote_render =
  rq_source :: render_source
  rq_entrypoint :: "string option"
  rq_outputs :: "render_output list option"

definition normalize_render_outputs :: "render_output list option \<Rightarrow> render_output list result" where
  "normalize_render_outputs v = (let os = coalesce v [Pdf] in
     ensure (valid_outputs os) (AppError ''INVALID_OUTPUTS'' 400) (Inr os))"

fun chosen_source :: "remote_deps \<Rightarrow> string \<Rightarrow> string \<Rightarrow> render_source \<Rightarrow> source_row call" where
  "chosen_source rd u entrypoint (SourceRef r) = resolve_source_ref u r"
| "chosen_source rd u entrypoint (SourceId i p) = bind_c now_c (\<lambda>now. look_c (resolve_owned_source u i now))"
| "chosen_source rd u entrypoint (InlineSource content) = create_inline_source rd u content entrypoint"

fun chosen_project :: "render_source \<Rightarrow> (string \<times> string) option" where
  "chosen_project (SourceId i p) = p"
| "chosen_project _ = None"

text \<open>\<open>(project, revision)\<close> as the transaction checks it.\<close>

definition project_matches :: "string \<Rightarrow> source_row \<Rightarrow> string \<Rightarrow> string \<times> string \<Rightarrow> db \<Rightarrow> bool" where
  "project_matches u s entrypoint p d \<longleftrightarrow> project_get_owned d (fst p) u \<noteq> None \<and>
     (case revision_owned d (snd p) u of None \<Rightarrow> False
      | Some r \<Rightarrow> r_project_id r = fst p \<and> r_source_id r = s_id s \<and> r_entrypoint r = entrypoint)"

definition oauth_audit :: "string \<Rightarrow> string \<Rightarrow> string \<Rightarrow> string \<Rightarrow> (string \<times> json) list \<Rightarrow> timestamp \<Rightarrow> audit_row" where
  "oauth_audit u action ttype target meta now = \<lparr>au_actor_type = ActorOauth, au_actor_id = u,
     au_action = action, au_target_type = ttype, au_target_id = target, au_result = ''success'',
     au_ip_address = None, au_user_agent = None, au_metadata = meta, au_created_at = now\<rparr>"

definition remote_queued :: "remote_deps \<Rightarrow> string \<Rightarrow> principal_row \<Rightarrow> string \<Rightarrow> source_row \<Rightarrow> string \<Rightarrow>
  render_output list \<Rightarrow> string option \<Rightarrow> timestamp \<Rightarrow> queued_input" where
  "remote_queued rd u p i s entrypoint os revision ts = \<lparr>qi_id = i, qi_user_id = u,
     qi_service_account_id = mp_service_account_id p, qi_api_key_id = mp_api_key_id p,
     qi_renderer_version = rd_renderer_version rd, qi_source_id = s_id s, qi_entrypoint = entrypoint,
     qi_timestamp = ts, qi_retry_of_job_id = None, qi_project_revision_id = revision, qi_outputs = Some os,
     qi_reserved_output_bytes = rd_max_output_bytes rd\<rparr>"

text \<open>The reads of the transaction, then its writes.\<close>

definition queue_checks :: "remote_deps \<Rightarrow> string \<Rightarrow> string \<Rightarrow> string \<Rightarrow> string \<Rightarrow> (string \<times> string) option \<Rightarrow>
  timestamp \<Rightarrow> db \<Rightarrow> source_row result" where
  "queue_checks rd u account source entrypoint project ts d =
     bind_r (assert_remote_queue rd u account d) (\<lambda>_.
     (case source_get_owned_ready d source u ts [] of
        None \<Rightarrow> Inl (AppError ''SOURCE_NOT_READY'' 409)
      | Some s \<Rightarrow>
          bind_r (source_paths s) (\<lambda>paths.
          ensure (entrypoint \<in> set paths) (AppError ''ENTRYPOINT_MISSING'' 422)
          (ensure (case project of None \<Rightarrow> True | Some pr \<Rightarrow> project_matches u s entrypoint pr d)
            (AppError ''PROJECT_REVISION_NOT_FOUND'' 404) (Inr s)))))"

definition queue_remote :: "remote_deps \<Rightarrow> string \<Rightarrow> principal_row \<Rightarrow> string \<Rightarrow> string \<Rightarrow> string \<Rightarrow>
  render_output list \<Rightarrow> (string \<times> string) option \<Rightarrow> timestamp \<Rightarrow> unit tx" where
  "queue_remote rd u p i source entrypoint os project ts =
     seq_tx (read_tx (queue_checks rd u (mp_service_account_id p) source entrypoint project ts)) (\<lambda>s.
     seq_tx (insert_queued (remote_queued rd u p i s entrypoint os (map_option snd project) ts)) (\<lambda>n.
     seq_tx (one_changed n (AppError ''SOURCE_NOT_READY'' 409)) (\<lambda>_.
     write_tx (audit (oauth_audit u ''remote_mcp.render.queued'' ''job'' i
       [(''sourceId'', JStr (s_id s)), (''entrypoint'', JStr entrypoint),
        (''outputs'', JArr (map (\<lambda>x. JStr (output_name x)) os))] ts)))))"

definition get_created :: "string \<Rightarrow> job_row call" where
  "get_created i = bind_c (look_c (\<lambda>d. Inr (get_job d i))) (some_c (AppError ''JOB_CREATE_FAILED'' 500))"

definition create_remote_render :: "remote_deps \<Rightarrow> remote_identity \<Rightarrow> remote_render \<Rightarrow> job_row call" where
  "create_remote_render rd c q =
     bind_c (of_result (require_scope (ri_scopes c) ''mcp:render'')) (\<lambda>_.
     bind_c (look_c assert_maintenance) (\<lambda>_.
     bind_c (of_result (validate_entrypoint (coalesce (rq_entrypoint q) ''main.tex'') 10 200)) (\<lambda>entrypoint.
     bind_c (of_result (normalize_render_outputs (rq_outputs q))) (\<lambda>os.
     bind_c (ensure_principal (ri_user_id c)) (\<lambda>p.
     bind_c (chosen_source rd (ri_user_id c) entrypoint (rq_source q)) (\<lambda>s.
     bind_c (of_result (source_paths s)) (\<lambda>paths.
     bind_c (check_c (entrypoint \<in> set paths) (AppError ''ENTRYPOINT_MISSING'' 422)) (\<lambda>_.
     bind_c (new_id_c ''job'') (\<lambda>i.
     bind_c now_c (\<lambda>ts.
     bind_c (shared_c (queue_remote rd (ri_user_id c) p i (s_id s) entrypoint os (chosen_project (rq_source q)) ts)) (\<lambda>_.
     get_created i)))))))))))"

section \<open>Retries\<close>

definition retryable_status :: "job_status \<Rightarrow> bool" where
  "retryable_status s \<longleftrightarrow> s \<in> {Succeeded, Failed, Timeout, Canceled, Rejected, Expired}"

definition queue_retry :: "remote_deps \<Rightarrow> string \<Rightarrow> job_row \<Rightarrow> string \<Rightarrow> string \<Rightarrow> timestamp \<Rightarrow> unit tx" where
  "queue_retry rd u old source i ts =
     seq_tx (read_tx (assert_remote_queue rd u (j_service_account_id old))) (\<lambda>_.
     seq_tx (read_tx (\<lambda>d. ensure (source_get_ready d source ts \<noteq> None) (AppError ''SOURCE_NOT_READY'' 409) (Inr ()))) (\<lambda>_.
     seq_tx (insert_retry i old (rd_renderer_version rd) ts (rd_max_output_bytes rd)) (\<lambda>_.
     write_tx (audit (oauth_audit u ''remote_mcp.render.retried'' ''job'' i
       [(''retryOf'', JStr (j_id old)), (''sourceId'', JStr source)] ts)))))"

definition retry_render :: "remote_deps \<Rightarrow> remote_identity \<Rightarrow> string \<Rightarrow> job_row call" where
  "retry_render rd c i =
     bind_c (of_result (require_scope (ri_scopes c) ''mcp:render'')) (\<lambda>_.
     bind_c (look_c assert_maintenance) (\<lambda>_.
     bind_c (owned_job (ri_user_id c) i) (\<lambda>old.
     bind_c (check_c (retryable_status (j_status old)) (AppError ''JOB_NOT_RETRYABLE'' 409)) (\<lambda>_.
     bind_c (some_c (AppError ''SOURCE_NOT_READY'' 409) (j_source_id old)) (\<lambda>source.
     bind_c now_c (\<lambda>t.
     bind_c (look_c (resolve_owned_source (ri_user_id c) source t)) (\<lambda>_.
     bind_c (new_id_c ''job'') (\<lambda>new.
     bind_c now_c (\<lambda>ts.
     bind_c (shared_c (queue_retry rd (ri_user_id c) old source new ts)) (\<lambda>_.
     get_created new))))))))))"

definition remote_retry_limits :: "remote_deps \<Rightarrow> retry_limits" where
  "remote_retry_limits rd = \<lparr>rl_max_queue_length = Some (int (rd_max_queue_length rd)),
     rl_max_user_storage_bytes = Some (int (rd_max_user_storage_bytes rd)),
     rl_max_output_bytes = Some (int (rd_max_output_bytes rd)),
     rl_artifact_retention_hours = Some (int (rd_retention_hours rd))\<rparr>"

definition retry_svg_render :: "remote_deps \<Rightarrow> remote_identity \<Rightarrow> string \<Rightarrow> string \<Rightarrow> job_row call" where
  "retry_svg_render rd c i key =
     bind_c (of_result (require_scope (ri_scopes c) ''mcp:render'')) (\<lambda>_.
     bind_c (owned_job (ri_user_id c) i) (\<lambda>old.
     bind_c now_c (\<lambda>now.
     bind_c (shared_c (retry_svg (rd_sha rd) (remote_retry_limits rd) \<lparr>ra_user_id = ri_user_id c,
       ra_type = ActorOauth, ra_id = ri_user_id c, ra_service_account_id = Some (j_service_account_id old)\<rparr> i key now)) (\<lambda>_.
     bind_c (look_c (\<lambda>d. Inr (get_job d i))) (some_c (AppError ''JOB_NOT_FOUND'' 404))))))"

section \<open>Canceling and deleting\<close>

definition remote_job :: "remote_identity \<Rightarrow> string \<Rightarrow> job_row call" where
  "remote_job c i =
     bind_c (of_result (require_scope (ri_scopes c) ''mcp:read'')) (\<lambda>_. owned_job (ri_user_id c) i)"

definition counted_tx :: "(db \<Rightarrow> nat \<times> db) \<Rightarrow> nat tx" where
  "counted_tx f d = Inr (f d)"

definition remote_cancel :: "remote_identity \<Rightarrow> string \<Rightarrow> job_row call" where
  "remote_cancel c i =
     bind_c (of_result (require_scope (ri_scopes c) ''mcp:cancel'')) (\<lambda>_.
     bind_c (owned_job (ri_user_id c) i) (\<lambda>_.
     bind_c now_c (\<lambda>now.
     bind_c (shared_c (counted_tx (cancel i now))) (\<lambda>n.
     bind_c (check_c (n = 1) (AppError ''JOB_NOT_CANCELABLE'' 409)) (\<lambda>_.
     remote_job (c\<lparr>ri_scopes := [''mcp'']\<rparr>) i)))))"

definition remote_delete :: "remote_identity \<Rightarrow> string \<Rightarrow> unit call" where
  "remote_delete c i =
     bind_c (of_result (require_scope (ri_scopes c) ''mcp:delete'')) (\<lambda>_.
     bind_c (owned_job (ri_user_id c) i) (\<lambda>_.
     bind_c now_c (\<lambda>now.
     bind_c (shared_c (counted_tx (mark_deleting i now))) (\<lambda>n.
     check_c (n = 1) (AppError ''JOB_NOT_DELETABLE'' 409)))))"

section \<open>Projects\<close>

definition remote_actor :: "remote_identity \<Rightarrow> project_actor" where
  "remote_actor c = \<lparr>pa_user_id = ri_user_id c, pa_type = ActorOauth, pa_id = ri_user_id c\<rparr>"

definition with_scope :: "remote_identity \<Rightarrow> string \<Rightarrow> 'a call \<Rightarrow> 'a call" where
  "with_scope c scope m = bind_c (of_result (require_scope (ri_scopes c) scope)) (\<lambda>_. m)"

definition list_remote_projects :: "remote_identity \<Rightarrow> (timestamp \<times> string) option \<Rightarrow> nat \<Rightarrow>
  (project_summary, timestamp \<times> string) page call" where
  "list_remote_projects c cursor limit = with_scope c ''mcp:read''
     (look_c (\<lambda>d. Inr (project_list d (remote_actor c) cursor limit)))"

definition get_remote_project :: "remote_identity \<Rightarrow> string \<Rightarrow> (nat \<times> string) option \<Rightarrow> nat \<Rightarrow> project_view call" where
  "get_remote_project c i cursor limit = with_scope c ''mcp:read''
     (look_c (\<lambda>d. project_get d (remote_actor c) i cursor limit))"

definition remote_revision_jobs :: "remote_identity \<Rightarrow> string \<Rightarrow> string \<Rightarrow> job_cursor \<Rightarrow> nat \<Rightarrow>
  (job_item, timestamp \<times> string) page call" where
  "remote_revision_jobs c p r cursor limit = with_scope c ''mcp:read''
     (look_c (\<lambda>d. project_jobs d (remote_actor c) p r cursor limit))"

definition create_remote_project :: "remote_identity \<Rightarrow> string \<Rightarrow> string call" where
  "create_remote_project c name = with_scope c ''mcp:render'' (bind_c (new_id_c ''project'') (\<lambda>i.
     bind_c now_c (\<lambda>now. shared_c (project_create (remote_actor c) i name now))))"

definition rename_remote_project :: "remote_identity \<Rightarrow> string \<Rightarrow> string \<Rightarrow> unit call" where
  "rename_remote_project c i name = with_scope c ''mcp:render''
     (bind_c now_c (\<lambda>now. shared_c (project_rename (remote_actor c) i name now)))"

definition delete_remote_project :: "remote_identity \<Rightarrow> string \<Rightarrow> unit call" where
  "delete_remote_project c i = with_scope c ''mcp:delete''
     (bind_c now_c (\<lambda>now. shared_c (project_delete (remote_actor c) i now)))"

definition attach_remote_revision :: "remote_identity \<Rightarrow> revision_input \<Rightarrow> revision_row call" where
  "attach_remote_revision c x = with_scope c ''mcp:render''
     (bind_c (of_result (validate_entrypoint (vi_entrypoint x) 10 200)) (\<lambda>entrypoint.
      bind_c (new_id_c ''revision'') (\<lambda>i.
      bind_c now_c (\<lambda>now.
      bind_c (shared_c (attach_revision (remote_actor c) (x\<lparr>vi_entrypoint := entrypoint\<rparr>) i now)) (\<lambda>r.
      bind_c (of_result (revision_outputs r)) (\<lambda>_. return_c r))))))"

text \<open>A revision of a project's source and of the project, in one transaction.\<close>

definition revise_project_file :: "remote_deps \<Rightarrow> remote_identity \<Rightarrow> string \<Rightarrow> string \<Rightarrow> mutation \<Rightarrow> string \<Rightarrow>
  source_summary call" where
  "revise_project_file rd c p r m stored =
     bind_c now_c (\<lambda>now.
     bind_c (look_c (\<lambda>d. project_revision d (remote_actor c) p r now)) (\<lambda>(x, v, s).
     bind_c (new_id_c ''revision'') (\<lambda>i.
     revise_source rd (ri_user_id c) (r_source_id v) m stored (Some (\<lambda>source ts.
       seq_tx (read_tx (\<lambda>_. revision_outputs v)) (\<lambda>os.
       seq_tx (attach_revision (remote_actor c) \<lparr>vi_project_id = p, vi_source_id = source,
         vi_display_name = r_display_name v, vi_original_filename = r_original_filename v,
         vi_entrypoint = r_entrypoint v, vi_outputs = os\<rparr> i ts) (\<lambda>_. return_tx ())))))))"

definition update_project_file :: "remote_deps \<Rightarrow> remote_identity \<Rightarrow> string \<Rightarrow> string \<Rightarrow> source_file \<Rightarrow> string \<Rightarrow>
  source_summary call" where
  "update_project_file rd c p r f stored = with_scope c ''mcp:render''
     (bind_c (of_result (revision_content rd f)) (\<lambda>m. revise_project_file rd c p r m stored))"

definition delete_project_file :: "remote_deps \<Rightarrow> remote_identity \<Rightarrow> string \<Rightarrow> string \<Rightarrow> string \<Rightarrow> string \<Rightarrow>
  source_summary call" where
  "delete_project_file rd c p r path stored = with_scope c ''mcp:render''
     (bind_c (of_result (source_file_path path)) (\<lambda>q. revise_project_file rd c p r (RemoveFile q) stored))"

definition render_project_revision :: "remote_deps \<Rightarrow> remote_identity \<Rightarrow> string \<Rightarrow> string \<Rightarrow>
  render_output list option \<Rightarrow> job_row call" where
  "render_project_revision rd c p r os = with_scope c ''mcp:render''
     (bind_c now_c (\<lambda>now.
      bind_c (look_c (\<lambda>d. project_revision d (remote_actor c) p r now)) (\<lambda>(x, v, s).
      bind_c (of_result (case os of Some xs \<Rightarrow> Inr xs | None \<Rightarrow> revision_outputs v)) (\<lambda>xs.
      create_remote_render rd c \<lparr>rq_source = SourceId (r_source_id v) (Some (p, r)),
        rq_entrypoint = Some (r_entrypoint v), rq_outputs = Some xs\<rparr>))))"

section \<open>Rates and audit records\<close>

definition minute_of :: "timestamp \<Rightarrow> timestamp" where
  "minute_of now = now - now mod 60000"

definition enforce_rate_limit :: "string \<Rightarrow> string \<Rightarrow> nat \<Rightarrow> unit call" where
  "enforce_rate_limit u tool limit =
     bind_c now_c (\<lambda>now.
     bind_c (tx_c (increment_rate_limit u tool (minute_of now))) (\<lambda>n.
     check_c (n \<le> limit) (AppError ''REMOTE_MCP_RATE_LIMIT'' 429)))"

definition audit_tool_call :: "remote_identity \<Rightarrow> string \<Rightarrow> bool \<Rightarrow> (string \<times> json) list \<Rightarrow> unit call" where
  "audit_tool_call c tool ok meta =
     bind_c now_c (\<lambda>now. shared_c (write_tx (audit ((oauth_audit (ri_user_id c) (''remote_mcp.tool.'' @ tool)
       ''remote_mcp_tool'' tool meta now)\<lparr>au_result := (if ok then ''success'' else ''failure'')\<rparr>))))"

end
