(* ===== verification/Remote_Runs.thy ===== *)
theory Remote_Runs
  imports Remote_Renders Lifecycle
begin

text \<open>
  What the calls of the remote MCP server commit, whatever other processes commit between their visits:
  steps of the system, on the rows of the caller only.
\<close>

section \<open>Commits of a user\<close>

definition others_jobs :: "string \<Rightarrow> db \<Rightarrow> job_row list" where
  "others_jobs u d = filter (\<lambda>j. j_user_id j \<noteq> u) (jobs d)"

definition others_sources :: "string \<Rightarrow> db \<Rightarrow> source_row list" where
  "others_sources u d = filter (\<lambda>s. s_owner_user_id s \<noteq> u) (sources d)"

definition own_db :: "string \<Rightarrow> db \<Rightarrow> db \<Rightarrow> bool" where
  "own_db u d d' \<longleftrightarrow> step\<^sup>*\<^sup>* d d' \<and> others_jobs u d' = others_jobs u d \<and> others_sources u d' = others_sources u d"

lemma own_db_refl [simp]: "own_db u d d"
  by (simp add: own_db_def)

lemma own_db_trans: "own_db u d d' \<Longrightarrow> own_db u d' d'' \<Longrightarrow> own_db u d d''"
  by (auto simp: own_db_def)

lemma steps_ok: "step\<^sup>*\<^sup>* d d' \<Longrightarrow> lifecycle_ok d \<Longrightarrow> lifecycle_ok d'"
  by (induction rule: rtranclp_induct) (auto dest: step_ok)

lemma own_db_ok: "own_db u d d' \<Longrightarrow> lifecycle_ok d \<Longrightarrow> lifecycle_ok d'"
  using steps_ok by (auto simp: own_db_def)

definition same_jobs :: "db \<Rightarrow> db \<Rightarrow> bool" where
  "same_jobs d d' \<longleftrightarrow> jobs d' = jobs d \<and> stages d' = stages d \<and> previews d' = previews d \<and>
     preview_sequence d' = preview_sequence d"

lemma own_sources: "same_jobs d d' \<Longrightarrow> others_sources u d' = others_sources u d \<Longrightarrow> own_db u d d'"
  by (auto simp: own_db_def same_jobs_def others_jobs_def intro: step.frame)

lemma own_frame: "same_jobs d d' \<Longrightarrow> sources d' = sources d \<Longrightarrow> own_db u d d'"
  by (rule own_sources) (simp_all add: others_sources_def)

lemma own_step:
  "step d d' \<Longrightarrow> others_jobs u d' = others_jobs u d \<Longrightarrow> sources d' = sources d \<Longrightarrow> own_db u d d'"
  by (auto simp: own_db_def others_sources_def)

lemma filter_upd_where:
  "(\<And>x. x \<in> set xs \<Longrightarrow> p x \<Longrightarrow> \<not> q x \<and> \<not> q (f x)) \<Longrightarrow> filter q (upd_where p f xs) = filter q xs"
  by (induction xs) (auto simp: upd_where_def)

lemma filter_del_where: "(\<And>x. x \<in> set xs \<Longrightarrow> p x \<Longrightarrow> \<not> q x) \<Longrightarrow> filter q (del_where p xs) = filter q xs"
  by (induction xs) (auto simp: del_where_def)

section \<open>Whose a job and a source is\<close>

definition job_of_user :: "string \<Rightarrow> string \<Rightarrow> db \<Rightarrow> bool" where
  "job_of_user i u d \<longleftrightarrow> (\<exists>j. job_of d i = Some j \<and> j_user_id j = u)"

definition source_of_user :: "string \<Rightarrow> string \<Rightarrow> db \<Rightarrow> bool" where
  "source_of_user i u d \<longleftrightarrow> (\<forall>s\<in>set (sources d). s_id s = i \<longrightarrow> s_owner_user_id s = u)"

lemma job_of_user_step:
  assumes "job_of_user i u d" and "step\<^sup>*\<^sup>* d d'" and "lifecycle_ok d"
  shows "job_of_user i u d'"
  using assms(2,1,3)
proof (induction rule: rtranclp_induct)
  case (step e e')
  then obtain j where j: "job_of e i = Some j" "j_user_id j = u" by (auto simp: job_of_user_def)
  from step_ok [OF step(2) steps_ok [OF step(1) step(5)]] j(1)
  obtain j' where "job_of e' i = Some j'" "evolves j j'" by (auto simp: follows_def)
  with j(2) show ?case by (auto simp: job_of_user_def evolves_def identity_def)
qed

lemma jobs_of_user:
  assumes "job_of_user i u d" and "lifecycle_ok d" and "j \<in> set (jobs d)" and "j_id j = i"
  shows "j_user_id j = u"
proof -
  have "distinct (map j_id (jobs d))" using assms(2) by (simp add: lifecycle_ok_def)
  from job_table.row_by_in [OF this assms(3)] assms(1,4) show ?thesis by (auto simp: job_of_user_def)
qed

lemma others_jobs_update:
  assumes "job_of_user i u d" and "lifecycle_ok d" and "\<And>j. p j \<Longrightarrow> j_id j = i"
    and "\<And>j. j_user_id (f j) = j_user_id j" and "jobs d' = upd_where p f (jobs d)"
  shows "others_jobs u d' = others_jobs u d"
  unfolding others_jobs_def assms(5)
  by (rule filter_upd_where) (use assms(3,4) jobs_of_user [OF assms(1,2)] in auto)

section \<open>The runs of a call\<close>

definition own_commit :: "string \<Rightarrow> auth_db \<Rightarrow> auth_db \<Rightarrow> bool" where
  "own_commit u a b \<longleftrightarrow> own_db u (shared a) (shared b) \<and>
     sessions b = sessions a \<and> credentials b = credentials a \<and> identities b = identities a \<and>
     families b = families a \<and> oauth_tokens b = oauth_tokens a"

text \<open>
  Others commit steps, and do not use the identifiers of the call's new sources for sources of
  somebody else.
\<close>

definition remote_others :: "string \<Rightarrow> remote_env \<Rightarrow> bool" where
  "remote_others u e \<longleftrightarrow> (\<forall>n a. step\<^sup>*\<^sup>* (shared a) (shared (re_others e n a)) \<and>
     (\<forall>k. source_of_user (re_id e ''source'' k) u (shared a) \<longrightarrow>
        source_of_user (re_id e ''source'' k) u (shared (re_others e n a))))"

definition stable :: "remote_env \<Rightarrow> (db \<Rightarrow> bool) \<Rightarrow> bool" where
  "stable e P \<longleftrightarrow> (\<forall>n a. lifecycle_ok (shared a) \<longrightarrow> P (shared a) \<longrightarrow> P (shared (re_others e n a)))"

text \<open>
  From a state with \<open>P\<close> the call commits only what is its user's; a value it returns satisfies \<open>Q\<close> in
  the state it leaves, and when it throws \<open>E\<close> holds there.
\<close>

definition runs_own :: "string \<Rightarrow> remote_env \<Rightarrow> (db \<Rightarrow> bool) \<Rightarrow> 'a call \<Rightarrow> ('a \<Rightarrow> db \<Rightarrow> bool) \<Rightarrow> (db \<Rightarrow> bool) \<Rightarrow> bool" where
  "runs_own u e P m Q E \<longleftrightarrow> (\<forall>r x r'. lifecycle_ok (shared (rr_db r)) \<longrightarrow> P (shared (rr_db r)) \<longrightarrow> m e r = (x, r') \<longrightarrow>
     lifecycle_ok (shared (rr_db r')) \<and>
     (\<exists>cs. rr_commits r' = rr_commits r @ cs \<and> (\<forall>(a, b)\<in>set cs. own_commit u a b)) \<and>
     (case x of Inl _ \<Rightarrow> E (shared (rr_db r')) | Inr y \<Rightarrow> Q y (shared (rr_db r'))))"

abbreviation anyhow :: "db \<Rightarrow> bool" where "anyhow \<equiv> \<lambda>_. True"

abbreviation plain :: "string \<Rightarrow> remote_env \<Rightarrow> 'a call \<Rightarrow> bool" where
  "plain u e m \<equiv> runs_own u e anyhow m (\<lambda>_. anyhow) anyhow"

lemma runs_ownI:
  assumes "\<And>r x r'. lifecycle_ok (shared (rr_db r)) \<Longrightarrow> P (shared (rr_db r)) \<Longrightarrow> m e r = (x, r') \<Longrightarrow>
    lifecycle_ok (shared (rr_db r')) \<and>
    (\<exists>cs. rr_commits r' = rr_commits r @ cs \<and> (\<forall>(a, b)\<in>set cs. own_commit u a b)) \<and>
    (case x of Inl _ \<Rightarrow> E (shared (rr_db r')) | Inr y \<Rightarrow> Q y (shared (rr_db r')))"
  shows "runs_own u e P m Q E"
  using assms by (simp add: runs_own_def)

lemma runs_own_weaken:
  assumes "runs_own u e P m Q E" and "\<And>d. P' d \<Longrightarrow> P d" and "\<And>x d. Q x d \<Longrightarrow> Q' x d" and "\<And>d. E d \<Longrightarrow> E' d"
  shows "runs_own u e P' m Q' E'"
  using assms unfolding runs_own_def by (fastforce split: sum.splits)

lemma runs_own_pure:
  assumes "\<And>r. snd (m e r) = r" and "\<And>r y d. fst (m e r) = Inr y \<Longrightarrow> P d \<Longrightarrow> Q y d" and "\<And>d. P d \<Longrightarrow> E d"
  shows "runs_own u e P m Q E"
proof (rule runs_ownI)
  fix r x r' assume "lifecycle_ok (shared (rr_db r))" "P (shared (rr_db r))" "m e r = (x, r')"
  with assms(1) [of r] assms(2) [of r] assms(3) show "lifecycle_ok (shared (rr_db r')) \<and>
    (\<exists>cs. rr_commits r' = rr_commits r @ cs \<and> (\<forall>(a, b)\<in>set cs. own_commit u a b)) \<and>
    (case x of Inl _ \<Rightarrow> E (shared (rr_db r')) | Inr y \<Rightarrow> Q y (shared (rr_db r')))"
    by (auto split: sum.splits)
qed

lemma runs_own_bind:
  assumes "runs_own u e P m R E" and "\<And>x. runs_own u e (R x) (k x) Q E"
  shows "runs_own u e P (bind_c m k) Q E"
proof (rule runs_ownI)
  fix r x r' assume r: "lifecycle_ok (shared (rr_db r))" "P (shared (rr_db r))" "bind_c m k e r = (x, r')"
  obtain y s where y: "m e r = (y, s)" by fastforce
  from assms(1) r y obtain cs where s: "lifecycle_ok (shared (rr_db s))" "rr_commits s = rr_commits r @ cs"
    "\<forall>(a, b)\<in>set cs. own_commit u a b" "case y of Inl _ \<Rightarrow> E (shared (rr_db s)) | Inr z \<Rightarrow> R z (shared (rr_db s))"
    unfolding runs_own_def by blast
  show "lifecycle_ok (shared (rr_db r')) \<and>
    (\<exists>cs. rr_commits r' = rr_commits r @ cs \<and> (\<forall>(a, b)\<in>set cs. own_commit u a b)) \<and>
    (case x of Inl _ \<Rightarrow> E (shared (rr_db r')) | Inr y \<Rightarrow> Q y (shared (rr_db r')))"
  proof (cases y)
    case (Inl err)
    with r(3) y have "x = Inl err" "r' = s" by (simp_all add: bind_c_def)
    with s Inl show ?thesis by auto
  next
    case (Inr z)
    with r(3) y have "k z e s = (x, r')" by (simp add: bind_c_def)
    with assms(2) [of z] s Inr obtain ds where "lifecycle_ok (shared (rr_db r'))" "rr_commits r' = rr_commits s @ ds"
      "\<forall>(a, b)\<in>set ds. own_commit u a b" "case x of Inl _ \<Rightarrow> E (shared (rr_db r')) | Inr y \<Rightarrow> Q y (shared (rr_db r'))"
      unfolding runs_own_def by fastforce
    with s show ?thesis by (intro conjI exI [of _ "cs @ ds"]) auto
  qed
qed

lemma runs_own_catch:
  assumes "runs_own u e P m Q F" and "\<And>err. runs_own u e F (h err) Q E"
  shows "runs_own u e P (catch_c m h) Q E"
proof (rule runs_ownI)
  fix r x r' assume r: "lifecycle_ok (shared (rr_db r))" "P (shared (rr_db r))" "catch_c m h e r = (x, r')"
  obtain y s where y: "m e r = (y, s)" by fastforce
  from assms(1) r y obtain cs where s: "lifecycle_ok (shared (rr_db s))" "rr_commits s = rr_commits r @ cs"
    "\<forall>(a, b)\<in>set cs. own_commit u a b" "case y of Inl _ \<Rightarrow> F (shared (rr_db s)) | Inr z \<Rightarrow> Q z (shared (rr_db s))"
    unfolding runs_own_def by blast
  show "lifecycle_ok (shared (rr_db r')) \<and>
    (\<exists>cs. rr_commits r' = rr_commits r @ cs \<and> (\<forall>(a, b)\<in>set cs. own_commit u a b)) \<and>
    (case x of Inl _ \<Rightarrow> E (shared (rr_db r')) | Inr y \<Rightarrow> Q y (shared (rr_db r')))"
  proof (cases y)
    case (Inl err)
    with r(3) y have "h err e s = (x, r')" by (simp add: catch_c_def)
    with assms(2) [of err] s Inl obtain ds where "lifecycle_ok (shared (rr_db r'))" "rr_commits r' = rr_commits s @ ds"
      "\<forall>(a, b)\<in>set ds. own_commit u a b" "case x of Inl _ \<Rightarrow> E (shared (rr_db r')) | Inr y \<Rightarrow> Q y (shared (rr_db r'))"
      unfolding runs_own_def by fastforce
    with s show ?thesis by (intro conjI exI [of _ "cs @ ds"]) auto
  next
    case (Inr z)
    with r(3) y have "x = Inr z" "r' = s" by (simp_all add: catch_c_def)
    with s Inr show ?thesis by auto
  qed
qed

lemma runs_own_visit:
  assumes "remote_others u e" and "stable e P"
    and "\<And>a x b. lifecycle_ok (shared a) \<Longrightarrow> P (shared a) \<Longrightarrow> f a = (x, b) \<Longrightarrow>
      own_commit u a b \<and> (case x of Inl _ \<Rightarrow> E (shared b) | Inr y \<Rightarrow> Q y (shared b))"
  shows "runs_own u e P (visit_c f) Q E"
proof (rule runs_ownI)
  fix r x r' assume r: "lifecycle_ok (shared (rr_db r))" "P (shared (rr_db r))" "visit_c f e r = (x, r')"
  let ?a = "re_others e (rr_visits r) (rr_db r)"
  obtain b where b: "f ?a = (x, b)" "rr_db r' = b" "rr_commits r' = rr_commits r @ [(?a, b)]"
    using r(3) by (auto simp: visit_c_def Let_def prod_eq_iff)
  have "step\<^sup>*\<^sup>* (shared (rr_db r)) (shared ?a)" using assms(1) by (simp add: remote_others_def)
  from steps_ok [OF this r(1)] have "lifecycle_ok (shared ?a)" .
  moreover have "P (shared ?a)" using assms(2) r(1,2) by (simp add: stable_def)
  ultimately have own: "own_commit u ?a b" "case x of Inl _ \<Rightarrow> E (shared b) | Inr y \<Rightarrow> Q y (shared b)"
    using assms(3) b(1) by blast+
  with \<open>lifecycle_ok (shared ?a)\<close> have "lifecycle_ok (shared b)" using own_db_ok by (auto simp: own_commit_def)
  with own b show "lifecycle_ok (shared (rr_db r')) \<and>
    (\<exists>cs. rr_commits r' = rr_commits r @ cs \<and> (\<forall>(a, b)\<in>set cs. own_commit u a b)) \<and>
    (case x of Inl _ \<Rightarrow> E (shared (rr_db r')) | Inr y \<Rightarrow> Q y (shared (rr_db r')))"
    by auto
qed

section \<open>Rules\<close>

named_theorems own_intros

lemma plain_pure [own_intros]:
  "plain u e (return_c x)" "plain u e (fail_c err)" "plain u e (check_c b err)" "plain u e (of_result y)"
  "plain u e now_c" "plain u e (new_id_c p)" "plain u e io_c" "plain u e (some_c err z)"
  by (rule runs_own_pure; auto simp: return_c_def fail_c_def check_c_def of_result_def now_c_def new_id_c_def
      io_c_def some_c_def split: option.splits)+

lemma plain_bind [own_intros]: "plain u e m \<Longrightarrow> (\<And>x. plain u e (k x)) \<Longrightarrow> plain u e (bind_c m k)"
  by (rule runs_own_bind)

lemma plain_catch [own_intros]: "plain u e m \<Longrightarrow> (\<And>err. plain u e (h err)) \<Longrightarrow> plain u e (catch_c m h)"
  by (rule runs_own_catch)

lemma plain_cases [own_intros]:
  "plain u e m \<Longrightarrow> (\<And>x. plain u e (k x)) \<Longrightarrow> plain u e (case z of None \<Rightarrow> m | Some x \<Rightarrow> k x)"
  "(\<And>x y. plain u e (f x y)) \<Longrightarrow> plain u e (case p of (x, y) \<Rightarrow> f x y)"
  by (auto split: option.splits prod.splits)

lemma stable_anyhow [simp]: "stable e anyhow"
  by (simp add: stable_def)

lemma own_commit_same [simp]: "own_commit u a a"
  by (simp add: own_commit_def)

lemma plain_read: "remote_others u e \<Longrightarrow> plain u e (read_c f)" "remote_others u e \<Longrightarrow> plain u e (look_c g)"
  unfolding look_c_def read_c_def by (rule runs_own_visit; auto split: sum.splits)+

lemma plain_tx:
  assumes "remote_others u e" and "\<And>a x b. lifecycle_ok (shared a) \<Longrightarrow> m a = Inr (x, b) \<Longrightarrow> own_commit u a b"
  shows "plain u e (tx_c m)"
  unfolding tx_c_def
  by (rule runs_own_visit [OF assms(1)]) (use assms(2) in \<open>auto simp: atomically_def split: sum.splits\<close>)

lemma own_commit_shared: "own_db u (shared a) d \<Longrightarrow> own_commit u a (a\<lparr>shared := d\<rparr>)"
  by (simp add: own_commit_def)

lemma shared_tx_cases: "shared_tx m a = Inr (x, b) \<longleftrightarrow> (\<exists>d. m (shared a) = Inr (x, d) \<and> b = a\<lparr>shared := d\<rparr>)"
  by (auto simp: shared_tx_def split: sum.splits)

lemma plain_shared:
  assumes "remote_others u e" and "\<And>d x d'. lifecycle_ok d \<Longrightarrow> m d = Inr (x, d') \<Longrightarrow> own_db u d d'"
  shows "plain u e (shared_c m)"
  unfolding shared_c_def
  by (rule plain_tx [OF assms(1)]) (auto simp: shared_tx_cases intro!: own_commit_shared assms(2))

text \<open>A transaction in a state with \<open>P\<close>, which others keep.\<close>

lemma runs_own_shared:
  assumes "remote_others u e" and "stable e P"
    and "\<And>d x d'. lifecycle_ok d \<Longrightarrow> P d \<Longrightarrow> m d = Inr (x, d') \<Longrightarrow> own_db u d d' \<and> Q x d'"
    and "\<And>d. P d \<Longrightarrow> E d"
  shows "runs_own u e P (shared_c m) Q E"
  unfolding shared_c_def tx_c_def
  by (rule runs_own_visit [OF assms(1,2)])
     (use assms(3,4) in \<open>auto simp: atomically_def shared_tx_cases intro!: own_commit_shared split: sum.splits\<close>)

lemma runs_own_look:
  assumes "remote_others u e" and "stable e P"
    and "\<And>d y. lifecycle_ok d \<Longrightarrow> P d \<Longrightarrow> f d = Inr y \<Longrightarrow> Q y d" and "\<And>d. P d \<Longrightarrow> E d"
  shows "runs_own u e P (look_c f) Q E"
  unfolding look_c_def read_c_def
  by (rule runs_own_visit [OF assms(1,2)]) (use assms(3,4) in \<open>auto split: sum.splits\<close>)

lemma stable_job:
  "remote_others u e \<Longrightarrow> stable e (job_of_user i u)"
  using job_of_user_step by (auto simp: stable_def remote_others_def)

lemma stable_source:
  "remote_others u e \<Longrightarrow> stable e (source_of_user (re_id e ''source'' k) u)"
  by (auto simp: stable_def remote_others_def)

section \<open>The principal and a job of it\<close>

lemma own_insert_principal:
  assumes "insert_remote_principal p a = Inr (q, b)"
  shows "own_commit u a b"
proof -
  have "same_jobs (shared a) (shared b) \<and> sources (shared b) = sources (shared a) \<and> sessions b = sessions a \<and>
    credentials b = credentials a \<and> identities b = identities a \<and> families b = families a \<and>
    oauth_tokens b = oauth_tokens a"
    using assms
    by (auto simp: insert_remote_principal_def bind_a_Inr_iff shared_tx_cases insert_account_def insert_key_def
        insert_principal_def same_jobs_def split: if_splits)
  then show ?thesis using own_frame by (simp add: own_commit_def)
qed

lemma plain_ensure_principal:
  assumes "remote_others u e"
  shows "plain u e (ensure_principal v)"
  unfolding ensure_principal_def find_principal_def
  by (intro own_intros plain_read [OF assms] plain_tx [OF assms] own_insert_principal)

lemma get_owned_of_user:
  assumes "get_owned d i u acc = Some j" and "lifecycle_ok d"
  shows "job_of_user i u d \<and> j_user_id j = u \<and> j_id j = i"
proof -
  have j: "j \<in> set (jobs d)" "j_id j = i" "j_user_id j = u"
    using assms(1) by (auto simp: get_owned_def find_Some_iff)
  have "distinct (map j_id (jobs d))" using assms(2) by (simp add: lifecycle_ok_def)
  from job_table.row_by_in [OF this j(1)] j show ?thesis by (auto simp: job_of_user_def)
qed

lemma owned_job_of_user:
  assumes "remote_others u e"
  shows "runs_own u e anyhow (owned_job u i) (\<lambda>j. \<lambda>d. job_of_user i u d \<and> j_user_id j = u \<and> j_id j = i) anyhow"
  unfolding owned_job_def
proof (rule runs_own_bind [OF plain_ensure_principal [OF assms]], rule runs_own_bind)
  fix p
  show "runs_own u e anyhow (look_c (\<lambda>d. Inr (get_owned d i u (mp_service_account_id p))))
      (\<lambda>x. \<lambda>d. \<forall>j. x = Some j \<longrightarrow> job_of_user i u d \<and> j_user_id j = u \<and> j_id j = i) anyhow"
    by (rule runs_own_look [OF assms]) (auto dest: get_owned_of_user)
next
  fix x :: "job_row option"
  show "runs_own u e (\<lambda>d. \<forall>j. x = Some j \<longrightarrow> job_of_user i u d \<and> j_user_id j = u \<and> j_id j = i)
      (some_c (AppError ''JOB_NOT_FOUND'' 404) x) (\<lambda>j. \<lambda>d. job_of_user i u d \<and> j_user_id j = u \<and> j_id j = i) anyhow"
    by (rule runs_own_pure) (auto simp: some_c_def return_c_def fail_c_def split: option.splits)
qed

section \<open>Transactions on tables that jobs do not depend on\<close>

lemma sequence_audit [simp]: "preview_sequence (audit x d) = preview_sequence d"
  by (simp add: audit_def)

lemma own_audit [simp]: "own_db u d (audit x d)"
  by (rule own_frame) (simp_all add: same_jobs_def)

lemma own_audit_after: "own_db u d d' \<Longrightarrow> own_db u d (audit x d')"
  using own_db_trans own_audit by blast

lemma own_write_audit: "write_tx (audit x) d = Inr (y, d') \<Longrightarrow> own_db u d d'"
  by (auto simp: write_tx_def)

lemma own_insert_ref:
  assumes "bind_a (shared_tx (read_tx assert_source_writable)) (\<lambda>_. insert_source_ref x) a = Inr (y, b)"
  shows "own_commit u a b"
  using assms
  by (auto simp: bind_a_Inr_iff shared_tx_cases read_tx_def insert_source_ref_def own_commit_def
      split: if_splits sum.splits)

lemma own_rate: "increment_rate_limit v tool w a = Inr (n, b) \<Longrightarrow> own_commit u a b"
  by (auto simp: increment_rate_limit_def own_commit_def split: option.splits if_splits)

lemma same_jobs_projects:
  "project_create x i name now d = Inr (y, d') \<Longrightarrow> same_jobs d d' \<and> sources d' = sources d"
  "project_rename x i name now d = Inr (z, d') \<Longrightarrow> same_jobs d d' \<and> sources d' = sources d"
  "project_delete x i now d = Inr (z, d') \<Longrightarrow> same_jobs d d' \<and> sources d' = sources d"
  by (auto simp: project_create_def project_rename_def project_delete_def seq_tx_Inr_iff read_tx_def write_tx_def
      project_insert_def project_rename_row_def soft_delete_def update_projects_def one_changed_def return_tx_def
      same_jobs_def Let_def split: if_splits sum.splits)

lemma same_jobs_attach:
  "attach_revision x v i now d = Inr (r, d') \<Longrightarrow> same_jobs d d' \<and> sources d' = sources d"
  by (auto simp: attach_revision_def find_or_insert_revision_def insert_revision_def seq_tx_Inr_iff read_tx_def
      write_tx_def return_tx_def project_touch_def update_projects_def same_jobs_def Let_def
      split: if_splits sum.splits option.splits)

lemma own_projects:
  "project_create x i name now d = Inr (y, d') \<Longrightarrow> own_db u d d'"
  "project_rename x i name now d = Inr (z, d') \<Longrightarrow> own_db u d d'"
  "project_delete x i now d = Inr (z, d') \<Longrightarrow> own_db u d d'"
  "attach_revision x v i now d = Inr (r, d') \<Longrightarrow> own_db u d d'"
  using own_frame same_jobs_projects same_jobs_attach by metis+

section \<open>Sources\<close>

lemma own_reserve:
  assumes "source_insert_reserved x d = Inr (y, d')" and "si_owner_user_id x = u"
  shows "own_db u d d' \<and> source_of_user (si_id x) u d'"
proof -
  have d': "d' = d\<lparr>sources := sources d @ [reserved_source d x]\<rparr>" and new: "source_of d (si_id x) = None"
    using assms(1) by (auto simp: source_insert_reserved_def split: if_splits)
  have row: "s_owner_user_id (reserved_source d x) = u" "s_id (reserved_source d x) = si_id x"
    using assms(2) by (simp_all add: reserved_source_def)
  from new have "\<forall>s\<in>set (sources d). s_id s \<noteq> si_id x" by (force simp: row_by_None_notin)
  then show ?thesis
    by (auto simp: d' source_of_user_def row same_jobs_def others_sources_def intro!: own_sources)
qed

lemma own_update_source:
  assumes "update_sources p f d = (n, d')" and "source_of_user i u d" and "\<And>s. p s \<Longrightarrow> s_id s = i"
    and "\<And>s. s_owner_user_id (f s) = s_owner_user_id s \<and> s_id (f s) = s_id s"
  shows "own_db u d d' \<and> source_of_user i u d'"
proof -
  have d': "d' = d\<lparr>sources := upd_where p f (sources d)\<rparr>" using assms(1) by (auto simp: update_sources_def)
  have "others_sources u d' = others_sources u d"
    unfolding others_sources_def d' using assms(2-4)
    by (auto simp: source_of_user_def intro!: filter_upd_where)
  moreover have "source_of_user i u d'"
    using assms(2,4) by (auto simp: source_of_user_def d' set_upd_where)
  ultimately show ?thesis by (auto simp: d' same_jobs_def intro!: own_sources)
qed

lemma fold_source_columns: "s_owner_user_id (fold set_source_column us s) = s_owner_user_id s"
  "s_id (fold set_source_column us s) = s_id s"
proof -
  have "s_owner_user_id (set_source_column x s) = s_owner_user_id s \<and> s_id (set_source_column x s) = s_id s" for x s
    by (cases x) simp_all
  then show "s_owner_user_id (fold set_source_column us s) = s_owner_user_id s"
    "s_id (fold set_source_column us s) = s_id s"
    by (induction us arbitrary: s) simp_all
qed

definition ready_own :: "string \<Rightarrow> (string \<Rightarrow> timestamp \<Rightarrow> unit tx) option \<Rightarrow> bool" where
  "ready_own u ready \<longleftrightarrow> (\<forall>f i now d y d'. ready = Some f \<longrightarrow> f i now d = Inr (y, d') \<longrightarrow>
     own_db u d d' \<and> sources d' = sources d)"

lemma own_make_ready:
  assumes "make_ready i expires paths ready now d = Inr (y, d')" and "source_of_user i u d" and "ready_own u ready"
  shows "own_db u d d' \<and> source_of_user i u d'"
proof -
  obtain n e where e: "update_sources (\<lambda>s. s_id s = i \<and> s_status s \<in> set [SReserved] \<and> s_expires_at s > now)
      (\<lambda>s. fold set_source_column (ready_source_columns now expires paths)
        (s\<lparr>s_status := SReady, s_updated_at := now\<rparr>)) d = (n, e)"
    "case ready of None \<Rightarrow> d' = e | Some f \<Rightarrow> f i now e = Inr (y, d')"
    using assms(1)
    by (auto simp: make_ready_def seq_tx_Inr_iff read_tx_def source_transition_before_expiry_def return_tx_def
        split: option.splits sum.splits prod.splits if_splits)
  have "own_db u d e \<and> source_of_user i u e"
    by (rule own_update_source [OF e(1) assms(2)]) (simp_all add: fold_source_columns)
  then show ?thesis
    using e(2) assms(3) own_db_trans by (auto simp: ready_own_def source_of_user_def split: option.splits) 
qed

lemma own_discard:
  assumes "discard_reservation i d = Inr (n, d')" and "source_of_user i u d"
  shows "own_db u d d'"
proof -
  obtain p where d': "d' = d\<lparr>sources := del_where p (sources d)\<rparr>" and p: "\<And>s. p s \<Longrightarrow> s_id s = i"
    using assms(1) by (auto simp: discard_reservation_def Let_def split: if_splits)
  have "others_sources u d' = others_sources u d"
    unfolding others_sources_def d' using assms(2) p
    by (auto simp: source_of_user_def intro!: filter_del_where)
  then show ?thesis by (auto simp: d' same_jobs_def intro!: own_sources)
qed

section \<open>Calls on sources\<close>

text \<open>The identifier of a new source belongs to the caller from its reservation on.\<close>

lemma runs_own_given: "(b \<Longrightarrow> plain u e m) \<Longrightarrow> runs_own u e (\<lambda>_. b) m (\<lambda>_. anyhow) anyhow"
  by (cases b) (simp_all add: runs_own_def)

lemma runs_own_keeps:
  "runs_own u e P (return_c x) (\<lambda>_. P) P" "runs_own u e P (fail_c err) Q P" "runs_own u e P now_c (\<lambda>_. P) P"
  "runs_own u e P io_c (\<lambda>_. P) P" "runs_own u e P (check_c b err) (\<lambda>_. P) P"
  by (rule runs_own_pure; simp add: return_c_def fail_c_def now_c_def io_c_def check_c_def split: if_splits)+

lemma runs_own_io: "runs_own u e P io_c (\<lambda>_. P) anyhow" "runs_own u e P now_c (\<lambda>_. P) anyhow"
    "runs_own u e P (new_id_c pre) (\<lambda>_. P) anyhow"
  by (rule runs_own_pure; simp add: now_c_def io_c_def new_id_c_def)+

lemma plain_publish:
  assumes "remote_others u e" and "ready_own u ready" and "i = re_id e ''source'' k"
  shows "runs_own u e (source_of_user i u) (publish_ready i expires paths ready) (\<lambda>_. anyhow) anyhow"
  unfolding publish_ready_def
proof (rule runs_own_catch [where F = "source_of_user i u"])
  have st: "stable e (source_of_user i u)" unfolding assms(3) by (rule stable_source [OF assms(1)])
  have "runs_own u e (source_of_user i u) (shared_c (make_ready i expires paths ready t)) (\<lambda>_. anyhow) (source_of_user i u)" for t
    by (rule runs_own_shared [OF assms(1) st]) (auto dest: own_make_ready [OF _ _ assms(2)])
  then show "runs_own u e (source_of_user i u)
      (bind_c io_c (\<lambda>_. bind_c now_c (\<lambda>t. shared_c (make_ready i expires paths ready t)))) (\<lambda>_. anyhow) (source_of_user i u)"
    by (intro runs_own_bind [OF runs_own_keeps(4)] runs_own_bind [OF runs_own_keeps(3)])
  have "runs_own u e (source_of_user i u) (shared_c (discard_reservation i)) (\<lambda>_. anyhow) anyhow"
    by (rule runs_own_shared [OF assms(1) st]) (auto dest: own_discard)
  then have "runs_own u e (source_of_user i u) (bind_c (shared_c (discard_reservation i)) (\<lambda>_. fail_c err)) (\<lambda>_. anyhow) anyhow" for err
    by (rule runs_own_bind) (intro own_intros)
  then show "runs_own u e (source_of_user i u)
      (bind_c io_c (\<lambda>_. bind_c (shared_c (discard_reservation i)) (\<lambda>_. fail_c err))) (\<lambda>_. anyhow) anyhow" for err
    by (rule runs_own_bind [OF runs_own_io(1)])
qed

lemma plain_reserve:
  assumes "remote_others u e"
  shows "runs_own u e anyhow (shared_c (reserve_archive rd u archive i now)) (\<lambda>_. source_of_user i u) anyhow"
  by (rule runs_own_shared [OF assms])
     (auto simp: reserve_archive_def seq_tx_Inr_iff read_tx_def dest!: own_reserve [where u = u] split: sum.splits)

lemma plain_store_new:
  assumes "remote_others u e" and "ready_own u ready"
  shows "plain u e (store_new rd u archive paths ready)"
  unfolding store_new_def
proof (rule runs_own_bind [where R = "\<lambda>i. \<lambda>_. \<exists>k. i = re_id e ''source'' k"])
  show "runs_own u e anyhow (new_id_c ''source'') (\<lambda>i. \<lambda>_. \<exists>k. i = re_id e ''source'' k) anyhow"
    by (rule runs_own_pure) (auto simp: new_id_c_def)
  fix i
  show "runs_own u e (\<lambda>_. \<exists>k. i = re_id e ''source'' k) (bind_c now_c (\<lambda>now.
      bind_c (look_c (orphan_expiry now)) (\<lambda>expires.
      bind_c (shared_c (reserve_archive rd u archive i now)) (\<lambda>_.
      bind_c (publish_ready i expires paths ready) (\<lambda>_.
      bind_c (look_c (\<lambda>d. Inr (source_get d i))) (some_c (AppError ''SOURCE_CREATE_FAILED'' 500))))))) (\<lambda>_. anyhow) anyhow"
  proof (rule runs_own_given, elim exE)
    fix k assume i: "i = re_id e ''source'' k"
    show "plain u e (bind_c now_c (\<lambda>now.
      bind_c (look_c (orphan_expiry now)) (\<lambda>expires.
      bind_c (shared_c (reserve_archive rd u archive i now)) (\<lambda>_.
      bind_c (publish_ready i expires paths ready) (\<lambda>_.
      bind_c (look_c (\<lambda>d. Inr (source_get d i))) (some_c (AppError ''SOURCE_CREATE_FAILED'' 500)))))))"
      by (intro plain_bind plain_pure plain_read [OF assms(1)] runs_own_bind [OF plain_reserve [OF assms(1)]]
          runs_own_bind [OF plain_publish [OF assms i]])
  qed
qed

lemma plain_store:
  assumes "remote_others u e" and "ready_own u ready"
  shows "plain u e (store_ready rd u archive paths ready)"
proof (cases ready)
  case None
  note new = plain_store_new [OF assms, unfolded None]
  show ?thesis
    unfolding store_ready_def None option.case
    by (intro plain_bind plain_pure plain_read [OF assms(1)] plain_cases new)
next
  case (Some f)
  note new = plain_store_new [OF assms, unfolded Some]
  have "plain u e (shared_c (f i now))" for i now
    by (rule plain_shared [OF assms(1)]) (use assms(2) Some in \<open>auto simp: ready_own_def\<close>)
  then show ?thesis
    unfolding store_ready_def Some option.case
    by (intro plain_bind plain_pure plain_read [OF assms(1)] plain_cases new)
qed

lemma plain_store_archive:
  "remote_others u e \<Longrightarrow> ready_own u ready \<Longrightarrow> plain u e (store_archive rd u archive paths ready)"
  unfolding store_archive_def by (intro plain_bind plain_pure plain_read plain_store)

lemma plain_validate_and_store: "remote_others u e \<Longrightarrow> plain u e (validate_and_store rd u archive)"
  unfolding validate_and_store_def
  by (intro plain_bind plain_pure plain_store) (simp add: ready_own_def)+

lemma plain_create_source: "remote_others (ri_user_id c) e \<Longrightarrow> plain (ri_user_id c) e (create_source rd c fs)"
  unfolding create_source_def Let_def by (intro plain_bind plain_pure plain_read plain_validate_and_store)

lemma plain_inline: "remote_others u e \<Longrightarrow> plain u e (create_inline_source rd u content entrypoint)"
  unfolding create_inline_source_def Let_def by (intro plain_bind plain_pure plain_read plain_validate_and_store)

lemma plain_revise:
  "remote_others u e \<Longrightarrow> ready_own u ready \<Longrightarrow> plain u e (revise_source rd u i m stored ready)"
  unfolding revise_source_def by (intro plain_bind plain_pure plain_read plain_store_archive plain_cases)

lemma plain_source_files:
  assumes "remote_others (ri_user_id c) e"
  shows "plain (ri_user_id c) e (update_source_file rd c i f stored)"
    "plain (ri_user_id c) e (delete_source_file rd c i p stored)"
  unfolding update_source_file_def delete_source_file_def
  by (intro plain_bind plain_pure plain_read [OF assms] plain_revise [OF assms]; simp add: ready_own_def)+

section \<open>Calls on jobs\<close>

lemma plain_refs:
  assumes "remote_others u e"
  shows "plain u e (create_source_ref u i)" "plain u e (resolve_source_ref u r)"
  unfolding create_source_ref_def resolve_source_ref_def
  by (intro plain_bind plain_pure plain_read [OF assms] plain_tx [OF assms] plain_shared [OF assms];
      (elim own_insert_ref own_write_audit)?)+

lemma own_insert_job:
  assumes "insert_job j d = Inr (y, d')" and "step d d'" and "j_user_id j = u"
  shows "own_db u d d'"
  using assms by (auto simp: insert_job_def own_db_def others_jobs_def others_sources_def split: if_splits)

lemma own_insert_queued:
  assumes "insert_queued x d = Inr (n, d')" and "qi_user_id x = u"
  shows "own_db u d d'"
  using assms(1)
proof (cases rule: insert_queued_cases)
  case (2 s)
  then have "others_jobs u d' = others_jobs u d" using assms(2) by (simp add: others_jobs_def queued_row_def)
  with 2 step.insert_queued [OF assms(1)] show ?thesis by (simp add: own_step)
qed simp

lemma own_insert_retry:
  assumes "insert_retry i old ver ts b d = Inr (y, d')" and "j_user_id old = u"
  shows "own_db u d d'"
  by (rule own_insert_job [OF assms(1) [unfolded insert_retry_def] step.insert_retry [OF assms(1)]])
     (simp add: retry_row_def assms(2))

lemma own_queue_remote:
  assumes "queue_remote rd u p i source entrypoint os project ts d = Inr (y, d')"
  shows "own_db u d d'"
proof -
  obtain s n e where e: "insert_queued (remote_queued rd u p i s entrypoint os (map_option snd project) ts) d = Inr (n, e)"
    and d': "\<exists>x. d' = audit x e"
    using assms
    by (auto simp: queue_remote_def seq_tx_Inr_iff read_tx_def write_tx_def one_changed_def
        split: if_splits sum.splits)
  from own_insert_queued [OF e, of u] d' show ?thesis by (auto simp: remote_queued_def intro: own_audit_after)
qed

lemma own_queue_retry:
  assumes "queue_retry rd u old source i ts d = Inr (y, d')" and "j_user_id old = u"
  shows "own_db u d d'"
  using assms
  by (auto simp: queue_retry_def seq_tx_Inr_iff read_tx_def write_tx_def
      split: if_splits sum.splits intro!: own_audit_after own_insert_retry)

lemma own_cancel:
  assumes "job_of_user i u d" and "lifecycle_ok d"
  shows "own_db u d (snd (cancel i now d))" "own_db u d (snd (mark_deleting i now d))"
proof -
  show "own_db u d (snd (cancel i now d))"
    by (rule own_step [OF step.cancel], rule others_jobs_update [OF assms]) (auto simp: cancel_def)
  show "own_db u d (snd (mark_deleting i now d))"
    by (rule own_step [OF step.mark_deleting], rule others_jobs_update [OF assms]) (auto simp: mark_deleting_def)
qed

lemma own_requeue:
  assumes "requeue_svg i u now cutoff b d = Inr (ok, d')" and "lifecycle_ok d"
  shows "own_db u d d'"
proof -
  obtain n d1 where d1: "update_jobs_status (\<lambda>j. j_id j = i \<and> j_user_id j = u \<and> svg_retryable d now cutoff j)
      (requeued_job now b) d = (n, d1)" "jobs d' = jobs d1" "sources d' = sources d1"
    using assms(1) by (auto simp: requeue_svg_def update_stages_def split: prod.splits sum.splits if_splits)
  have "jobs d1 = upd_where (\<lambda>j. j_id j = i \<and> j_user_id j = u \<and> svg_retryable d now cutoff j) (requeued_job now b) (jobs d)"
    using arg_cong [OF d1(1), of "\<lambda>x. jobs (snd x)"] by simp
  then have "others_jobs u d' = others_jobs u d"
    unfolding others_jobs_def d1(2) by (simp only:, intro filter_upd_where) (auto simp: requeued_job_def)
  moreover have "sources d' = sources d"
    using arg_cong [OF d1(1), of "\<lambda>x. sources (snd x)"] d1(3) by simp
  ultimately show ?thesis by (intro own_step [OF step.requeue_svg [OF assms(1)]])
qed

lemma own_retry_svg:
  assumes "retry_svg sha l x i key now d = Inr (reused, d')" and "lifecycle_ok d" and "ra_user_id x = u"
  shows "own_db u d d'"
proof (cases reused)
  case True
  then show ?thesis using assms(1)
    by (auto simp: retry_svg_def retry_tx_def retry_new_def seq_tx_Inr_iff return_tx_def split: if_splits option.splits)
next
  case False
  with assms(1) obtain d1 d2 cutoff b where d1: "requeue_svg i u now cutoff b d = Inr (True, d1)"
    "insert_idempotency (retry_record sha x i key now) d1 = Inr ((), d2)" "d' = audit (retry_audit x i now) d2"
    using assms(3) by (auto elim: retry_svg_new)
  have "same_jobs d1 d2 \<and> sources d2 = sources d1"
    using d1(2) by (auto simp: insert_idempotency_def same_jobs_def Let_def split: if_splits)
  then have "own_db u d1 d2" using own_frame by blast
  with own_requeue [OF d1(1) assms(2)] show ?thesis
    unfolding d1(3) using own_db_trans own_audit_after by blast
qed

text \<open>A call that goes on with a job of the caller's.\<close>

abbreviation found_job :: "string \<Rightarrow> string \<Rightarrow> job_row \<Rightarrow> db \<Rightarrow> bool" where
  "found_job u i \<equiv> \<lambda>j d. job_of_user i u d \<and> j_user_id j = u \<and> j_id j = i"

lemma with_owned_job:
  assumes "remote_others u e" and "\<And>j. j_user_id j = u \<Longrightarrow> j_id j = i \<Longrightarrow> runs_own u e (job_of_user i u) (k j) (\<lambda>_. anyhow) anyhow"
  shows "plain u e (bind_c (owned_job u i) k)"
proof (rule runs_own_bind [OF owned_job_of_user [OF assms(1)]])
  fix j
  show "runs_own u e (\<lambda>d. found_job u i j d) (k j) (\<lambda>_. anyhow) anyhow"
    using assms(2) [of j] by (auto simp: runs_own_def)
qed

lemma plain_owned_job: "remote_others u e \<Longrightarrow> plain u e (owned_job u i)"
  by (rule runs_own_weaken [OF owned_job_of_user]) simp_all

lemma ignore_job: "plain u e m \<Longrightarrow> runs_own u e P m (\<lambda>_. anyhow) anyhow"
  by (rule runs_own_weaken) simp_all

lemma plain_remote_job: "remote_others (ri_user_id c) e \<Longrightarrow> plain (ri_user_id c) e (remote_job c i)"
  unfolding remote_job_def by (intro plain_bind plain_pure plain_owned_job)

lemma plain_create_render:
  assumes "remote_others (ri_user_id c) e"
  shows "plain (ri_user_id c) e (create_remote_render rd c q)"
proof -
  have "plain (ri_user_id c) e (chosen_source rd (ri_user_id c) entrypoint (rq_source q))" for entrypoint
    by (cases "rq_source q") (auto intro: plain_refs plain_inline assms intro!: plain_bind plain_pure plain_read)
  then show ?thesis
    unfolding create_remote_render_def get_created_def
    by (intro plain_bind plain_pure plain_read [OF assms] plain_ensure_principal [OF assms] plain_shared [OF assms]
        own_queue_remote)
qed

lemma plain_retry_render:
  assumes "remote_others (ri_user_id c) e"
  shows "plain (ri_user_id c) e (retry_render rd c i)"
  unfolding retry_render_def get_created_def
  by (intro plain_bind plain_pure plain_read [OF assms] with_owned_job [OF assms ignore_job] plain_shared [OF assms]
      own_queue_retry)

lemma plain_retry_svg:
  assumes "remote_others (ri_user_id c) e"
  shows "plain (ri_user_id c) e (retry_svg_render rd c i key)"
  unfolding retry_svg_render_def
  by (intro plain_bind plain_pure plain_read [OF assms] plain_owned_job [OF assms] plain_shared [OF assms];
      (erule (1) own_retry_svg, simp)?)

lemma plain_counted:
  assumes "remote_others u e" and "\<And>d. job_of_user i u d \<Longrightarrow> lifecycle_ok d \<Longrightarrow> own_db u d (snd (f d))"
  shows "runs_own u e (job_of_user i u) (shared_c (counted_tx f)) (\<lambda>_. anyhow) anyhow"
  by (rule runs_own_shared [OF assms(1) stable_job [OF assms(1)]])
     (use assms(2) in \<open>fastforce simp: counted_tx_def\<close>)+

lemma plain_cancel:
  assumes "remote_others (ri_user_id c) e"
  shows "plain (ri_user_id c) e (remote_cancel c i)" "plain (ri_user_id c) e (remote_delete c i)"
proof -
  have again: "plain (ri_user_id c) e (remote_job (c\<lparr>ri_scopes := [''mcp'']\<rparr>) i)"
    using plain_remote_job [of "c\<lparr>ri_scopes := [''mcp'']\<rparr>" e i] assms by simp
  note counted = plain_counted [OF assms own_cancel(1)] plain_counted [OF assms own_cancel(2)]
  show "plain (ri_user_id c) e (remote_cancel c i)"
    unfolding remote_cancel_def
    by (intro plain_bind plain_pure with_owned_job [OF assms] runs_own_bind [OF runs_own_io(2)]
        runs_own_bind [OF counted(1)] again)
  show "plain (ri_user_id c) e (remote_delete c i)"
    unfolding remote_delete_def
    by (intro plain_bind plain_pure with_owned_job [OF assms] runs_own_bind [OF runs_own_io(2)]
        runs_own_bind [OF counted(2)])
qed

section \<open>Projects, rates and audit records\<close>

lemma plain_projects:
  assumes "remote_others (ri_user_id c) e"
  shows "plain (ri_user_id c) e (create_remote_project c name)"
    "plain (ri_user_id c) e (rename_remote_project c i name)"
    "plain (ri_user_id c) e (delete_remote_project c i)"
    "plain (ri_user_id c) e (attach_remote_revision c x)"
  unfolding create_remote_project_def rename_remote_project_def delete_remote_project_def
    attach_remote_revision_def with_scope_def
  by (intro plain_bind plain_pure plain_shared [OF assms]; erule own_projects)+

lemma plain_project_files:
  assumes "remote_others (ri_user_id c) e"
  shows "plain (ri_user_id c) e (update_project_file rd c p r f stored)"
    "plain (ri_user_id c) e (delete_project_file rd c p r path stored)"
proof -
  have "ready_own (ri_user_id c) (Some (\<lambda>source ts.
       seq_tx (read_tx (\<lambda>_. revision_outputs v)) (\<lambda>os.
       seq_tx (attach_revision (remote_actor c) \<lparr>vi_project_id = p, vi_source_id = source,
         vi_display_name = r_display_name v, vi_original_filename = r_original_filename v,
         vi_entrypoint = r_entrypoint v, vi_outputs = os\<rparr> i ts) (\<lambda>_. return_tx ()))))" for v i
    by (auto simp: ready_own_def seq_tx_Inr_iff read_tx_def return_tx_def split: sum.splits
        dest: same_jobs_attach own_projects(4))
  then have revised: "plain (ri_user_id c) e (revise_project_file rd c p r m stored)" for m
    unfolding revise_project_file_def
    by (intro plain_bind plain_pure plain_read [OF assms] plain_cases plain_revise [OF assms])
  show "plain (ri_user_id c) e (update_project_file rd c p r f stored)"
    "plain (ri_user_id c) e (delete_project_file rd c p r path stored)"
    unfolding update_project_file_def delete_project_file_def with_scope_def
    by (intro plain_bind plain_pure revised)+
qed

lemma plain_project_render:
  assumes "remote_others (ri_user_id c) e"
  shows "plain (ri_user_id c) e (render_project_revision rd c p r os)"
  unfolding render_project_revision_def with_scope_def
  by (intro plain_bind plain_pure plain_read [OF assms] plain_cases plain_create_render [OF assms])

lemma plain_rate:
  assumes "remote_others u e"
  shows "plain u e (enforce_rate_limit v tool limit)" "plain u e (audit_tool_call c tool ok meta)"
  unfolding enforce_rate_limit_def audit_tool_call_def
  by (intro plain_bind plain_pure plain_tx [OF assms] plain_shared [OF assms]; (erule own_rate own_write_audit))+

section \<open>Every request\<close>

text \<open>The calls of the tools that change something; the last argument of a revision is the stored file.\<close>

datatype remote_request =
    CreateSource "source_file list"
  | UpdateSourceFile string source_file string
  | DeleteSourceFile string string string
  | CreateReference string
  | CreateRender remote_render
  | RetryRender string
  | RetrySvg string string
  | CancelJob string
  | DeleteJob string
  | CreateProject string
  | RenameProject string string
  | DeleteProject string
  | AttachRevision revision_input
  | UpdateProjectFile string string source_file string
  | DeleteProjectFile string string string string
  | RenderRevision string string "render_output list option"
  | CountTool string nat
  | AuditTool string bool "(string \<times> json) list"

definition forget :: "'a call \<Rightarrow> unit call" where
  "forget m = bind_c m (\<lambda>_. return_c ())"

fun remote_call :: "remote_deps \<Rightarrow> remote_identity \<Rightarrow> remote_request \<Rightarrow> unit call" where
  "remote_call rd c (CreateSource fs) = forget (create_source rd c fs)"
| "remote_call rd c (UpdateSourceFile i f stored) = forget (update_source_file rd c i f stored)"
| "remote_call rd c (DeleteSourceFile i p stored) = forget (delete_source_file rd c i p stored)"
| "remote_call rd c (CreateReference i) = forget (create_source_reference c i)"
| "remote_call rd c (CreateRender q) = forget (create_remote_render rd c q)"
| "remote_call rd c (RetryRender i) = forget (retry_render rd c i)"
| "remote_call rd c (RetrySvg i key) = forget (retry_svg_render rd c i key)"
| "remote_call rd c (CancelJob i) = forget (remote_cancel c i)"
| "remote_call rd c (DeleteJob i) = remote_delete c i"
| "remote_call rd c (CreateProject name) = forget (create_remote_project c name)"
| "remote_call rd c (RenameProject i name) = rename_remote_project c i name"
| "remote_call rd c (DeleteProject i) = delete_remote_project c i"
| "remote_call rd c (AttachRevision x) = forget (attach_remote_revision c x)"
| "remote_call rd c (UpdateProjectFile p r f stored) = forget (update_project_file rd c p r f stored)"
| "remote_call rd c (DeleteProjectFile p r path stored) = forget (delete_project_file rd c p r path stored)"
| "remote_call rd c (RenderRevision p r os) = forget (render_project_revision rd c p r os)"
| "remote_call rd c (CountTool tool limit) = enforce_rate_limit (ri_user_id c) tool limit"
| "remote_call rd c (AuditTool tool ok meta) = audit_tool_call c tool ok meta"

lemma plain_forget: "plain u e m \<Longrightarrow> plain u e (forget m)"
  unfolding forget_def by (intro plain_bind plain_pure)

lemma plain_remote_call:
  assumes "remote_others (ri_user_id c) e"
  shows "plain (ri_user_id c) e (remote_call rd c q)"
proof -
  have "plain (ri_user_id c) e (create_source_reference c i)" for i
    unfolding create_source_reference_def by (intro plain_bind plain_pure plain_refs [OF assms])
  then show ?thesis
    using plain_create_source [OF assms] plain_source_files [OF assms] plain_create_render [OF assms]
      plain_retry_render [OF assms] plain_retry_svg [OF assms] plain_cancel [OF assms] plain_projects [OF assms]
      plain_project_files [OF assms] plain_project_render [OF assms] plain_rate [OF assms]
    by (cases q) (simp_all add: plain_forget)
qed

end
