(* ===== verification/Remote_Reads.thy ===== *)
theory Remote_Reads
  imports Remote_Run Previews Inline_Budget Environment
begin

text \<open>
  What the remote MCP server reads (packages/remote-mcp-core/src/index.ts): the summary of a job with
  its artifacts, artifacts with their protection, diagnostics and log excerpts, and the inventory of
  packages and fonts. A text is a list of characters of one byte.
\<close>

section \<open>Artifacts of a job\<close>

definition remote_policy :: "remote_deps \<Rightarrow> timestamp \<Rightarrow> availability" where
  "remote_policy rd now = \<lparr>av_retention_hours = rd_retention_hours rd, av_now = now\<rparr>"

fun artifact_mime_type :: "artifact_type \<Rightarrow> string" where
  "artifact_mime_type APdf = ''application/pdf''"
| "artifact_mime_type ALog = ''text/plain; charset=utf-8''"
| "artifact_mime_type AErrors = ''application/json''"
| "artifact_mime_type ADependencies = ''application/json''"
| "artifact_mime_type APreview = ''image/png''"
| "artifact_mime_type ASvg = ''image/svg+xml''"
| "artifact_mime_type ASvgManifest = ''application/json''"
| "artifact_mime_type ASource = ''application/octet-stream''"

text \<open>\<open>/^previews\/page-(\d+)\.png$/\<close>.\<close>

definition preview_digits :: "string \<Rightarrow> string option" where
  "preview_digits p =
     (let n = length p - 18; ds = take n (drop 14 p) in
      if 18 < length p \<and> starts_with ''previews/page-'' p \<and> ends_with ''.png'' p \<and> list_all is_digit ds
      then Some ds else None)"

definition preview_page :: "string \<Rightarrow> nat option" where
  "preview_page p = map_option decimal_value (preview_digits p)"

text \<open>\<open>encodeURIComponent\<close> of a text in UTF-8.\<close>

definition uri_plain :: "char \<Rightarrow> bool" where
  "uri_plain c \<longleftrightarrow> is_alnum c \<or> c \<in> set ''-_.!~*()'' \<or> c = CHR 0x27"

definition upper_hex :: "nat \<Rightarrow> char" where
  "upper_hex n = (if n < 10 then char_of (n + 48) else char_of (n + 55))"

definition encode_uri_component :: "string \<Rightarrow> string" where
  "encode_uri_component s = concat (map (\<lambda>c. if uri_plain c then [c]
     else [CHR 0x25, upper_hex (ord_of c div 16), upper_hex (ord_of c mod 16)]) s)"

definition resource_uri :: "string \<Rightarrow> string \<Rightarrow> string" where
  "resource_uri i p = ''latex-renderer://jobs/'' @ i @
     (if p = ''result.pdf'' then ''/output.pdf''
      else if p = ''compile.log'' then ''/build.log''
      else case preview_page p of Some n \<Rightarrow> ''/preview/'' @ decimal n
        | None \<Rightarrow> ''/artifact/'' @ encode_uri_component p)"

record artifact_summary =
  as_type :: artifact_type
  as_filename :: string
  as_mime_type :: string
  as_relative_path :: string
  as_size :: nat
  as_sha256 :: string
  as_page_count :: "nat option"
  as_resource_uri :: string

definition summarize_artifact :: "string \<Rightarrow> nat list \<Rightarrow> artifact_row \<Rightarrow> artifact_summary" where
  "summarize_artifact i pages a = \<lparr>as_type = ar_type a,
     as_filename = last (split_on CHR ''/'' (ar_relative_path a)), as_mime_type = artifact_mime_type (ar_type a),
     as_relative_path = ar_relative_path a, as_size = ar_size a, as_sha256 = ar_sha256 a,
     as_page_count = (if ar_type a = APdf \<and> pages \<noteq> [] then Some (length pages) else None),
     as_resource_uri = resource_uri i (ar_relative_path a)\<rparr>"

record job_summary =
  js_job :: job_row
  js_outputs :: "render_output list"
  js_preview_pages :: "nat list"
  js_artifacts :: "artifact_summary list"
  js_stages :: "(public_pdf \<times> public_svg) option"

definition generated_pages :: "artifact_row list \<Rightarrow> nat list" where
  "generated_pages as = sort (List.map_filter (\<lambda>a. preview_page (ar_relative_path a))
     (filter (\<lambda>a. ar_type a = APreview) as))"

definition summarize_job :: "availability \<Rightarrow> db \<Rightarrow> job_row \<Rightarrow> job_summary result" where
  "summarize_job policy d j =
     bind_r (list_downloadable d (j_id j) policy) (\<lambda>as.
     bind_r (verified_pdf d (j_id j) policy) (\<lambda>pdf.
     let pages = (case (pdf, document d (j_id j)) of (Some _, Some x) \<Rightarrow> [1..<Suc (d_page_count x)]
                  | _ \<Rightarrow> generated_pages as) in
     bind_r (outputs j) (\<lambda>os. Inr \<lparr>js_job = j, js_outputs = os, js_preview_pages = pages,
       js_artifacts = map (summarize_artifact (j_id j) pages) as, js_stages = public_state d (j_id j)\<rparr>)))"

section \<open>Reading an artifact\<close>

definition artifact_read_chunk_bytes :: nat where "artifact_read_chunk_bytes = 64 * 1024"

text \<open>
  What an open file shows: its size, the bytes of its reads, its size at the end; the protection is
  lost after \<open>fv_lost\<close> reads, if at all.
\<close>

record file_view =
  fv_size :: nat
  fv_reads :: "string list"
  fv_final :: nat
  fv_lost :: "nat option"

definition unavailable :: app_error where "unavailable = AppError ''ARTIFACT_UNAVAILABLE'' 503"
definition too_large :: app_error where "too_large = AppError ''ARTIFACT_TOO_LARGE'' 413"

text \<open>The loop; it ends with the bytes, or after the last read.\<close>

fun read_loop :: "nat \<Rightarrow> nat \<Rightarrow> string \<Rightarrow> nat option \<Rightarrow> string list \<Rightarrow> (string \<times> nat option) result" where
  "read_loop full maximum got lost reads =
     (if full \<le> length got then Inr (got, lost)
      else if lost = Some 0 then Inl unavailable
      else case reads of [] \<Rightarrow> Inl unavailable
        | b # bs \<Rightarrow>
            (let c = take (min artifact_read_chunk_bytes (full - length got)) b in
             if c = [] then Inl unavailable
             else if maximum < length (got @ c) then Inl too_large
             else read_loop full maximum (got @ c) (map_option (\<lambda>n. n - 1) lost) bs))"

declare read_loop.simps [simp del]

definition read_bounded_artifact :: "nat \<Rightarrow> nat \<Rightarrow> file_view option \<Rightarrow> string result" where
  "read_bounded_artifact expected maximum file =
     (case file of None \<Rightarrow> Inl (AppError ''ARTIFACT_NOT_FOUND'' 404)
      | Some f \<Rightarrow>
          ensure (fv_lost f \<noteq> Some 0) unavailable
          (ensure (fv_size f = expected) unavailable
          (ensure (fv_size f \<le> maximum) too_large
          (bind_r (read_loop (fv_size f) maximum [] (fv_lost f) (fv_reads f)) (\<lambda>(got, lost).
           ensure (lost \<noteq> Some 0) unavailable
          (ensure (fv_final f = expected) unavailable (Inr got)))))))"

text \<open>The preview page a path names, when it is one that the worker can make.\<close>

definition made_page :: "string \<Rightarrow> nat option" where
  "made_page p = (case preview_digits p of None \<Rightarrow> None
     | Some ds \<Rightarrow> if hd ds = CHR ''0'' then None else Some (decimal_value ds))"

definition preview_candidates :: "nat \<Rightarrow> artifact_row list \<Rightarrow> artifact_row list" where
  "preview_candidates n = filter (\<lambda>a. ar_type a = APreview \<and> preview_page (ar_relative_path a) = Some n)"

text \<open>\<open>waited\<close> is what waiting for a preview gives.\<close>

definition find_artifact :: "remote_deps \<Rightarrow> string \<Rightarrow> string \<Rightarrow> artifact_row call \<Rightarrow> artifact_row call" where
  "find_artifact rd i path waited =
     bind_c now_c (\<lambda>now.
     bind_c (look_c (\<lambda>d. get_downloadable d i path (remote_policy rd now))) (\<lambda>a.
     (case made_page path of
        None \<Rightarrow> some_c (AppError ''ARTIFACT_NOT_FOUND'' 404) a
      | Some n \<Rightarrow>
          bind_c now_c (\<lambda>t.
          bind_c (look_c (\<lambda>d. list_downloadable d i (remote_policy rd t))) (\<lambda>as.
          (case preview_candidates n as of
             [] \<Rightarrow> waited
           | [b] \<Rightarrow> return_c b
           | _ \<Rightarrow> fail_c (AppError ''INVALID_PREVIEW'' 409)))))))"

record artifact_content =
  ac_relative_path :: string
  ac_mime_type :: string
  ac_size :: nat
  ac_sha256 :: string
  ac_bytes :: string

definition protect_artifact :: "remote_deps \<Rightarrow> string \<Rightarrow> artifact_row \<Rightarrow> string \<Rightarrow> timestamp \<Rightarrow> unit tx" where
  "protect_artifact rd i a lease now =
     seq_tx (read_tx (\<lambda>d. get_downloadable d i (ar_relative_path a) (remote_policy rd now))) (\<lambda>current.
     (case current of None \<Rightarrow> (\<lambda>d. Inl (AppError ''ARTIFACT_NOT_FOUND'' 404))
      | Some b \<Rightarrow>
          if ar_id b \<noteq> ar_id a then (\<lambda>d. Inl (AppError ''ARTIFACT_NOT_FOUND'' 404))
          else create_lease \<lparr>l_id = lease, l_job_id = i, l_artifact_id = ar_id b,
            l_expires_at = now + artifact_download_lease_ms, l_created_at = now\<rparr>))"

text \<open>\<open>finally\<close>: the lease is released, whatever the read gave.\<close>

definition remote_artifact :: "remote_deps \<Rightarrow> remote_identity \<Rightarrow> string \<Rightarrow> string \<Rightarrow> artifact_row call \<Rightarrow>
  (artifact_row \<Rightarrow> file_view option) \<Rightarrow> artifact_content call" where
  "remote_artifact rd c i path waited file =
     bind_c (of_result (require_scope (ri_scopes c) ''mcp:read'')) (\<lambda>_.
     bind_c (owned_job (ri_user_id c) i) (\<lambda>_.
     bind_c (find_artifact rd i path waited) (\<lambda>a.
     let limit = inline_limit (int (rd_max_output_bytes rd)) in
     bind_c (check_c (ar_size a \<le> limit) too_large) (\<lambda>_.
     bind_c io_c (\<lambda>_.
     bind_c (new_id_c ''download'') (\<lambda>lease.
     bind_c now_c (\<lambda>now.
     bind_c (shared_c (protect_artifact rd i a lease now)) (\<lambda>_.
     bind_c (catch_c (of_result (read_bounded_artifact (ar_size a) limit (file a)))
       (\<lambda>err. bind_c (shared_c (write_tx (delete_lease lease))) (\<lambda>_. fail_c err))) (\<lambda>bytes.
     bind_c (shared_c (write_tx (delete_lease lease))) (\<lambda>_.
     return_c \<lparr>ac_relative_path = ar_relative_path a, ac_mime_type = artifact_mime_type (ar_type a),
       ac_size = ar_size a, ac_sha256 = ar_sha256 a, ac_bytes = bytes\<rparr>))))))))))"

section \<open>Diagnostics\<close>

record diagnostic_item =
  di_type :: string
  di_file :: "string option"
  di_line :: "int option"
  di_message :: string

fun text_member :: "nat \<Rightarrow> json option \<Rightarrow> string option" where
  "text_member n (Some (JStr s)) = Some (take n s)"
| "text_member n _ = None"

fun line_member :: "json option \<Rightarrow> int option" where
  "line_member (Some (JNum n)) = (if \<bar>n\<bar> \<le> max_safe then Some n else None)"
| "line_member _ = None"

text \<open>An array is an object without these members.\<close>

definition diagnostic_item :: "string \<Rightarrow> json \<Rightarrow> diagnostic_item option" where
  "diagnostic_item fallback v =
     (case v of
        JObj ms \<Rightarrow> (case text_member 2000 (map_of ms ''message'') of
            None \<Rightarrow> None
          | Some m \<Rightarrow> Some \<lparr>di_type = coalesce (text_member 100 (map_of ms ''type'')) fallback,
              di_file = text_member 500 (map_of ms ''file''), di_line = line_member (map_of ms ''line''),
              di_message = m\<rparr>)
      | _ \<Rightarrow> None)"

definition diagnostic_items :: "json option \<Rightarrow> string \<Rightarrow> diagnostic_item list" where
  "diagnostic_items v fallback = (case v of
     Some (JArr vs) \<Rightarrow> List.map_filter (diagnostic_item fallback) (take 500 vs) | _ \<Rightarrow> [])"

text \<open>The text as \<open>JSON.parse\<close> reads it: \<open>None\<close> when it throws.\<close>

definition parse_diagnostics :: "json_text \<Rightarrow> (diagnostic_item list \<times> diagnostic_item list) result" where
  "parse_diagnostics text = (case text of
     Some (JObj ms) \<Rightarrow> Inr (diagnostic_items (map_of ms ''errors'') ''latex-error'',
       diagnostic_items (map_of ms ''warnings'') ''latex-warning'')
   | Some (JArr _) \<Rightarrow> Inr ([], [])
   | _ \<Rightarrow> Inl (AppError ''DIAGNOSTICS_INVALID'' 500))"

record remote_diagnostic =
  rg_error :: bool
  rg_type :: string
  rg_file :: "string option"
  rg_line :: "int option"
  rg_message :: string

definition remote_diagnostics :: "diagnostic_item list \<times> diagnostic_item list \<Rightarrow> remote_diagnostic list" where
  "remote_diagnostics p =
     map (\<lambda>x. \<lparr>rg_error = True, rg_type = ''latex-error'', rg_file = di_file x, rg_line = di_line x,
       rg_message = di_message x\<rparr>) (fst p) @
     map (\<lambda>x. \<lparr>rg_error = False, rg_type = di_type x, rg_file = di_file x, rg_line = di_line x,
       rg_message = di_message x\<rparr>) (snd p)"

definition log_control :: "char \<Rightarrow> bool" where
  "log_control c \<longleftrightarrow> (let n = ord_of c in n \<le> 8 \<or> n = 11 \<or> n = 12 \<or> (14 \<le> n \<and> n \<le> 31) \<or> n = 127 \<or> n = 155)"

text \<open>\<open>split(/\r?\n/)\<close>.\<close>

definition drop_cr :: "string \<Rightarrow> string" where
  "drop_cr s = (if s \<noteq> [] \<and> last s = CHR 0x0D then butlast s else s)"

definition split_lines :: "string \<Rightarrow> string list" where
  "split_lines s = (let ps = split_on (CHR 0x0A) s in map drop_cr (butlast ps) @ [last ps])"

fun first_index :: "('a \<Rightarrow> bool) \<Rightarrow> 'a list \<Rightarrow> nat option" where
  "first_index p [] = None"
| "first_index p (x # xs) = (if p x then Some 0 else map_option Suc (first_index p xs))"

definition excerpt_bounds :: "nat \<Rightarrow> nat option \<Rightarrow> nat \<times> nat" where
  "excerpt_bounds n matched = (case matched of
     Some m \<Rightarrow> (m - 12, min n (m + 12)) | None \<Rightarrow> (n - 80, n))"

definition log_excerpt :: "string \<Rightarrow> remote_diagnostic list \<Rightarrow> string" where
  "log_excerpt log ds =
     (let lines = split_lines (take (4 * 1024 * 1024) (filter (\<lambda>c. \<not> log_control c) log));
          matched = (case find rg_error ds of None \<Rightarrow> None
            | Some g \<Rightarrow> first_index (\<lambda>l. instr l (take 160 (rg_message g))) lines);
          (start, stop) = excerpt_bounds (length lines) matched in
      take 16384 (join_on (CHR 0x0A) (drop start (take stop lines))))"

definition selected_svg :: "bool option \<Rightarrow> (public_pdf \<times> public_svg) option \<Rightarrow> bool" where
  "selected_svg chosen sg = coalesce chosen (case sg of None \<Rightarrow> False
     | Some (p, s) \<Rightarrow> pp_status p = StSucceeded \<and> ps_status s \<in> {StFailed, StTimeout, StCanceled})"

definition retryable_job :: "job_row \<Rightarrow> (public_pdf \<times> public_svg) option \<Rightarrow> bool" where
  "retryable_job j sg \<longleftrightarrow> j_status j \<in> {Failed, Timeout, Rejected} \<or>
     j_status j = Canceled \<and> (case sg of None \<Rightarrow> False
       | Some (p, s) \<Rightarrow> pp_status p = StSucceeded \<and> ps_attempt s < 8)"

record diagnostics_reply =
  dr_status :: job_status
  dr_diagnostics :: "remote_diagnostic list"
  dr_log_excerpt :: string
  dr_raw_log :: "string option"
  dr_retryable :: bool
  dr_svg_stage :: "bool option"

definition find_path :: "string \<Rightarrow> artifact_row list \<Rightarrow> artifact_row option" where
  "find_path p = find (\<lambda>a. ar_relative_path a = p)"

text \<open>\<open>parse\<close> is \<open>JSON.parse\<close>; \<open>read\<close> the call that reads an artifact by its path.\<close>

definition remote_job_diagnostics :: "remote_deps \<Rightarrow> remote_identity \<Rightarrow> string \<Rightarrow> bool option \<Rightarrow>
  (string \<Rightarrow> json_text) \<Rightarrow> (string \<Rightarrow> artifact_content call) \<Rightarrow> diagnostics_reply call" where
  "remote_job_diagnostics rd c i chosen parse read =
     bind_c (of_result (require_scope (ri_scopes c) ''mcp:read'')) (\<lambda>_.
     bind_c (owned_job (ri_user_id c) i) (\<lambda>j.
     bind_c (look_c (\<lambda>d. Inr (public_state d i))) (\<lambda>stages.
     let svg = selected_svg chosen stages; pre = (if svg then ''svg/'' else []) in
     bind_c now_c (\<lambda>now.
     bind_c (look_c (\<lambda>d. list_downloadable d i (remote_policy rd now))) (\<lambda>as.
     bind_c (case find_path (pre @ ''errors.json'') as of None \<Rightarrow> return_c ([], [])
       | Some a \<Rightarrow> bind_c (read (ar_relative_path a)) (\<lambda>x. of_result (parse_diagnostics (parse (ac_bytes x))))) (\<lambda>parsed.
     let log = find_path (pre @ ''compile.log'') as in
     bind_c (case log of None \<Rightarrow> return_c [] | Some a \<Rightarrow>
       bind_c (read (ar_relative_path a)) (\<lambda>x. return_c (ac_bytes x))) (\<lambda>text.
     return_c \<lparr>dr_status = j_status j, dr_diagnostics = remote_diagnostics parsed,
       dr_log_excerpt = log_excerpt text (remote_diagnostics parsed),
       dr_raw_log = map_option (\<lambda>a. resource_uri i (ar_relative_path a)) log,
       dr_retryable = retryable_job j stages,
       dr_svg_stage = (if stages = None \<and> chosen = None then None else Some svg)\<rparr>)))))))"

section \<open>Packages and fonts\<close>

definition read_environment_list :: "remote_deps \<Rightarrow> string option \<Rightarrow> string list result" where
  "read_environment_list rd content = (case content of
     None \<Rightarrow> Inl (AppError ''ENVIRONMENT_INVENTORY_UNAVAILABLE'' 503)
   | Some s \<Rightarrow> Inr (sort_key (rd_collate rd) (unique (filter (\<lambda>x. x \<noteq> []) (map trim (split_lines s))))))"

definition check_name :: "string list \<Rightarrow> string \<Rightarrow> (string \<times> bool) result" where
  "check_name known name = (let t = trim name in
     ensure (1 \<le> length t \<and> length t \<le> 200) (AppError ''ENVIRONMENT_NAME'' 400)
       (Inr (t, lower t \<in> set known)))"

definition check_environment_names :: "string list \<Rightarrow> string list \<Rightarrow> (string \<times> bool) list result" where
  "check_environment_names names available =
     ensure (1 \<le> length names \<and> length names \<le> 50) (AppError ''ENVIRONMENT_NAME_COUNT'' 400)
       (traverse (check_name (map lower available)) names)"

definition search_environment_names :: "string \<Rightarrow> int option \<Rightarrow> string list \<Rightarrow> (string list \<times> nat option) result" where
  "search_environment_names query cursor available =
     (let q = lower (trim query) in
      ensure (1 \<le> length q \<and> length q \<le> 100) (AppError ''ENVIRONMENT_QUERY'' 400)
      (ensure (safe_count cursor) (AppError ''ENVIRONMENT_CURSOR'' 400)
      (let every = filter (\<lambda>n. instr (lower n) q) available;
           start = nat (the cursor); matches = take 50 (drop start every); next = start + length matches in
       Inr (matches, if next < length every then Some next else None))))"

text \<open>The cached inventory: what was read, for which files, and until when.\<close>

record inventory_cache =
  iv_fingerprint :: string
  iv_expires_at :: timestamp
  iv_value :: "string list \<times> string list"

definition environment_index_ttl_ms :: nat where "environment_index_ttl_ms = 30000"

definition load_environment_index :: "remote_deps \<Rightarrow> string \<Rightarrow> timestamp \<Rightarrow> string option \<Rightarrow> string option \<Rightarrow>
  inventory_cache option \<Rightarrow> (string list \<times> string list) result \<times> inventory_cache option" where
  "load_environment_index rd fingerprint now packages fonts cache =
     (case cache of
        Some v \<Rightarrow> if iv_fingerprint v = fingerprint \<and> now < iv_expires_at v then (Inr (iv_value v), cache)
          else (case bind_r (read_environment_list rd packages) (\<lambda>ps.
                  bind_r (read_environment_list rd fonts) (\<lambda>fs. Inr (ps, fs))) of
              Inl e \<Rightarrow> (Inl e, cache)
            | Inr x \<Rightarrow> (Inr x, Some \<lparr>iv_fingerprint = fingerprint,
                iv_expires_at = now + environment_index_ttl_ms, iv_value = x\<rparr>))
      | None \<Rightarrow> (case bind_r (read_environment_list rd packages) (\<lambda>ps.
                  bind_r (read_environment_list rd fonts) (\<lambda>fs. Inr (ps, fs))) of
              Inl e \<Rightarrow> (Inl e, None)
            | Inr x \<Rightarrow> (Inr x, Some \<lparr>iv_fingerprint = fingerprint,
                iv_expires_at = now + environment_index_ttl_ms, iv_value = x\<rparr>)))"

end
