(* ===== verification/Remote_Call_Properties.thy ===== *)
theory Remote_Call_Properties
  imports Remote_Runs Remote_Reads Render_Admission Request_Scenarios
begin

text \<open>
  Properties of the remote MCP server's calls: whose rows they change, the limits a new render respects,
  and what they answer about a job's artifacts and diagnostics.
\<close>

section \<open>A render of a caller who is alone\<close>

definition lone_env :: remote_env where
  "lone_env = \<lparr>re_others = (\<lambda>n a. a), re_now = (\<lambda>n. 10 + n), re_id = (\<lambda>pre n.
     if pre = ''job'' then fr_job_id fresh1 else pre @ ''_'' @ decimal n), re_io = (\<lambda>n. Inr ())\<rparr>"

definition lone_deps :: remote_deps where
  "lone_deps = \<lparr>rd_sha = toy_hash, rd_canon = to_lower, rd_zip = (\<lambda>_. Some [ZipEntry zip_main]),
     rd_unpack = (\<lambda>_. [(''main.tex'', ''abcdef'')]), rd_pack = (\<lambda>_. zip_bytes), rd_collate = id, rd_root = ''/data'',
     rd_renderer_version = ''v1'', rd_max_queue_length = 100, rd_max_user_storage_bytes = 5000,
     rd_max_output_bytes = 1000, rd_retention_hours = 24, rd_max_upload_bytes = 1000,
     rd_max_extracted_bytes = 1000, rd_max_zip_entries = 10, rd_max_file_count = 10\<rparr>"

definition mcp_caller :: remote_identity where
  "mcp_caller = \<lparr>ri_user_id = ''u'', ri_scopes = [''mcp:render'', ''mcp:read'']\<rparr>"

definition mcp_base :: auth_db where "mcp_base = empty_auth\<lparr>shared := ready_base\<rparr>"

definition render_query :: remote_render where
  "render_query = \<lparr>rq_source = SourceId sid None, rq_entrypoint = None, rq_outputs = Some [Pdf, Svg]\<rparr>"

definition mcp_created :: "job_row result \<times> remote_run" where
  "mcp_created = create_remote_render lone_deps mcp_caller render_query lone_env (start_call mcp_base)"

definition mcp_called :: "unit result \<times> remote_run" where
  "mcp_called = remote_call lone_deps mcp_caller (CreateRender render_query) lone_env (start_call mcp_base)"

lemma mcp_created_facts:
  "map_sum (\<lambda>_. ()) j_id (fst mcp_created) = Inr (fr_job_id fresh1)"
  "length (rr_commits (snd mcp_created)) = 6" "rr_commits (snd mcp_called) \<noteq> []"
  by code_simp+

lemma reachable_ready_base: "reachable ready_base"
  by (rule reachable.next_state [OF reachable.start], rule step.frame)
     (simp_all add: ready_base_def demo_base_def empty_db_def)

lemma lone_others: "remote_others u lone_env"
  by (simp add: remote_others_def lone_env_def)

section \<open>What a call changes\<close>

text \<open>
  C12. Whatever other processes commit between the visits of a remote call, the call itself commits only
  steps of the system, leaves the jobs and sources of all other users as they are, and touches
  neither sessions nor credentials, identities, grants or tokens.
\<close>

theorem remote_calls_stay_with_user:
  assumes "reachable (shared a)" and "remote_others (ri_user_id c) e"
    and "remote_call rd c q e (start_call a) = (x, r)" and "(b, b') \<in> set (rr_commits r)"
  shows "step\<^sup>*\<^sup>* (shared b) (shared b') \<and>
    filter (\<lambda>j. j_user_id j \<noteq> ri_user_id c) (jobs (shared b')) = filter (\<lambda>j. j_user_id j \<noteq> ri_user_id c) (jobs (shared b)) \<and>
    filter (\<lambda>s. s_owner_user_id s \<noteq> ri_user_id c) (sources (shared b')) =
      filter (\<lambda>s. s_owner_user_id s \<noteq> ri_user_id c) (sources (shared b)) \<and>
    sessions b' = sessions b \<and> credentials b' = credentials b \<and> identities b' = identities b \<and>
    families b' = families b \<and> oauth_tokens b' = oauth_tokens b"
proof -
  have "lifecycle_ok (shared (rr_db (start_call a)))" using reachable_ok [OF assms(1)] by (simp add: start_call_def)
  with plain_remote_call [OF assms(2), of rd q] assms(3) obtain cs where
    "rr_commits r = rr_commits (start_call a) @ cs" "\<forall>(b, b')\<in>set cs. own_commit (ri_user_id c) b b'"
    unfolding runs_own_def by blast
  then have "own_commit (ri_user_id c) b b'" using assms(4) by (auto simp: start_call_def)
  then show ?thesis by (simp add: own_commit_def own_db_def others_jobs_def others_sources_def)
qed

theorem remote_calls_stay_with_user_witness:
  "filter (\<lambda>j. j_user_id j \<noteq> ''u'') (jobs (shared (snd (last (rr_commits (snd mcp_called)))))) =
   filter (\<lambda>j. j_user_id j \<noteq> ''u'') (jobs (shared (fst (last (rr_commits (snd mcp_called))))))"
proof -
  have start: "reachable (shared mcp_base)" using reachable_ready_base by (simp add: mcp_base_def)
  have called: "remote_call lone_deps mcp_caller (CreateRender render_query) lone_env (start_call mcp_base) =
      (fst mcp_called, snd mcp_called)" by (simp add: mcp_called_def)
  have last: "(fst (last (rr_commits (snd mcp_called))), snd (last (rr_commits (snd mcp_called)))) \<in>
      set (rr_commits (snd mcp_called))" using mcp_created_facts(3) by simp
  show ?thesis
    using remote_calls_stay_with_user [OF start lone_others called last] by (simp add: mcp_caller_def)
qed

section \<open>The limits of a new render\<close>

lemma bind_c_InrD: "bind_c m k e r = (Inr x, r') \<Longrightarrow> \<exists>y s. m e r = (Inr y, s) \<and> k y e s = (Inr x, r')"
  by (auto simp: bind_c_def split: prod.splits sum.splits)

lemma shared_c_InrD:
  "shared_c m e r = (Inr x, r') \<Longrightarrow> \<exists>a d. m (shared a) = Inr (x, d) \<and> rr_commits r' = rr_commits r @ [(a, a\<lparr>shared := d\<rparr>)]"
  by (auto simp: shared_c_def tx_c_def visit_c_def atomically_def shared_tx_def Let_def split: sum.splits)

lemma look_c_InrD: "look_c f e r = (Inr x, r') \<Longrightarrow> \<exists>a. f (shared a) = Inr x \<and> rr_commits r' = rr_commits r @ [(a, a)]"
  by (auto simp: look_c_def read_c_def visit_c_def Let_def)

lemma some_c_InrD: "some_c err z e r = (Inr x, r') \<Longrightarrow> z = Some x \<and> r' = r"
  by (auto simp: some_c_def return_c_def fail_c_def split: option.splits)

lemma get_created_InrD:
  assumes "get_created i e r = (Inr j, r')"
  shows "j_id j = i" "set (rr_commits r) \<subseteq> set (rr_commits r')"
proof -
  obtain y s where y: "look_c (\<lambda>d. Inr (get_job d i)) e r = (Inr y, s)" "y = Some j" "r' = s"
    using bind_c_InrD [OF assms [unfolded get_created_def]] by (auto dest: some_c_InrD)
  from look_c_InrD [OF y(1)] y(2,3) show "j_id j = i" "set (rr_commits r) \<subseteq> set (rr_commits r')"
    by (auto simp: get_job_def dest: row_by_SomeD)
qed

text \<open>What holds of the states before and after a job was queued.\<close>

definition within_limits :: "remote_deps \<Rightarrow> string \<Rightarrow> string \<Rightarrow> db \<Rightarrow> db \<Rightarrow> bool" where
  "within_limits rd u i d d' \<longleftrightarrow> job_of d i = None \<and> (\<exists>j. job_of d' i = Some j \<and> j_user_id j = u \<and>
       count_active_for_service_account d' (j_service_account_id j) \<le> 5) \<and>
     (\<forall>m. setting_value d ''max_queue_length'' (JNum (int (rd_max_queue_length rd))) = Inr (JNum m) \<longrightarrow>
        int (count_active d') \<le> m) \<and>
     (\<forall>m. setting_value d ''max_user_active_jobs'' (JNum 20) = Inr (JNum m) \<longrightarrow> int (count_active_for_user d' u) \<le> m) \<and>
     (\<forall>m. setting_value d ''max_user_storage_bytes'' (JNum (int (rd_max_user_storage_bytes rd))) = Inr (JNum m) \<longrightarrow>
        previews_refer d \<longrightarrow> int (storage_usage_for_user d' u) \<le> m)"

lemma new_job_within_limits:
  assumes "assert_remote_queue rd u acc d = Inr ()" and "job_constraints d j" and "jobs d' = jobs d @ [j]"
    and "sources d' = sources d" and "previews d' = previews d" and "trees d' = trees d"
    and "j_user_id j = u" and "j_service_account_id j = acc" and "j_status j = Queued"
    and "job_bytes j = rd_max_output_bytes rd"
  shows "within_limits rd u (j_id j) d d'"
proof -
  have new: "job_of d (j_id j) = None" using assms(2) by (simp add: job_constraints_def)
  have act: "active (j_status j)" by (simp add: assms(9) active_def)
  have "storage_usage_for_user d' u = storage_usage_for_user (d\<lparr>jobs := jobs d @ [j]\<rparr>) u"
    using assms(3-6) by (intro storage_usage_cong) simp_all
  also have "\<dots> = storage_usage_for_user d u + rd_max_output_bytes rd" if "previews_refer d"
    using storage_usage_insert [OF assms(2)] that assms(7,9,10) by (simp add: previews_refer_def)
  finally have storage: "previews_refer d \<Longrightarrow>
      storage_usage_for_user d' u = storage_usage_for_user d u + rd_max_output_bytes rd" .
  have counts: "count_active d' = Suc (count_active d)" "count_active_for_user d' u = Suc (count_active_for_user d u)"
    "count_active_for_service_account d' acc = Suc (count_active_for_service_account d acc)"
    using assms(3,7,8) act
    by (simp_all add: count_active_def count_active_for_user_def count_active_for_service_account_def)
  show ?thesis
    unfolding within_limits_def
    using assms(1,3,7,8) new storage counts
    by (auto simp: assert_remote_queue_def bind_r_Inr_iff check_setting_Inr_iff assert_storage_quota_def row_by_append
        split: option.splits)
qed

lemma queue_remote_within_limits:
  assumes "queue_remote rd u p i source entrypoint os project ts d = Inr (y, d')"
  shows "within_limits rd u i d d'"
proof -
  obtain s e where e: "insert_queued (remote_queued rd u p i s entrypoint os (map_option snd project) ts) d = Inr (1, e)"
    and d': "\<exists>x. d' = audit x e" and c: "queue_checks rd u (mp_service_account_id p) source entrypoint project ts d = Inr s"
    using assms
    by (auto simp: queue_remote_def seq_tx_Inr_iff read_tx_def write_tx_def one_changed_def
        split: if_splits sum.splits)
  from c have q: "assert_remote_queue rd u (mp_service_account_id p) d = Inr ()"
    by (auto simp: queue_checks_def bind_r_Inr_iff)
  from e show ?thesis
  proof (cases rule: insert_queued_cases)
    case (2 t)
    let ?j = "queued_row (remote_queued rd u p i s entrypoint os (map_option snd project) ts) t"
    from d' 2 have d'': "jobs d' = jobs d @ [?j]" "sources d' = sources d" "previews d' = previews d" "trees d' = trees d"
      by auto
    have "j_id ?j = i" "j_user_id ?j = u" "j_service_account_id ?j = mp_service_account_id p" "j_status ?j = Queued"
      "job_bytes ?j = rd_max_output_bytes rd"
      by (simp_all add: queued_row_def remote_queued_def job_bytes_def active_def)
    with new_job_within_limits [OF q 2(6) d''] show ?thesis by simp
  qed simp
qed

lemma queue_retry_within_limits:
  assumes "queue_retry rd u old source i ts d = Inr (y, d')" and "j_user_id old = u" and "j_source_id old = Some source"
  shows "within_limits rd u i d d'"
proof -
  let ?j = "retry_row i old (rd_renderer_version rd) ts (rd_max_output_bytes rd)"
  obtain e where e: "insert_job ?j d = Inr ((), e)" "\<exists>x. d' = audit x e"
    and q: "assert_remote_queue rd u (j_service_account_id old) d = Inr ()"
    using assms(1) by (auto simp: queue_retry_def seq_tx_Inr_iff read_tx_def write_tx_def insert_retry_def split: sum.splits)
  note j = insert_job_InrD [OF e(1)]
  have d': "jobs d' = jobs d @ [?j]" "sources d' = sources d" "previews d' = previews d" "trees d' = trees d"
    using j e(2) by auto
  have "j_id ?j = i" "j_user_id ?j = u" "j_service_account_id ?j = j_service_account_id old" "j_status ?j = Queued"
    "job_bytes ?j = rd_max_output_bytes rd"
    using assms(2,3) by (simp_all add: retry_row_def job_bytes_def active_def)
  with new_job_within_limits [OF q _ d'] j show ?thesis by simp
qed

lemma owned_job_InrD:
  assumes "owned_job u i e r = (Inr j, r')"
  shows "j_user_id j = u"
  using assms unfolding owned_job_def
  by (elim bind_c_InrD [THEN exE] exE conjE) (auto simp: get_owned_def find_Some_iff dest!: look_c_InrD some_c_InrD)

lemma committed_within_limits:
  assumes "shared_c m e s = (Inr x, t)" and "get_created i e t = (Inr j, r)"
    and "\<And>d x d'. m d = Inr (x, d') \<Longrightarrow> within_limits rd u i d d'"
  shows "\<exists>b b'. (b, b') \<in> set (rr_commits r) \<and> within_limits rd u (j_id j) (shared b) (shared b')"
proof -
  obtain a d where a: "m (shared a) = Inr (x, d)" "rr_commits t = rr_commits s @ [(a, a\<lparr>shared := d\<rparr>)]"
    using shared_c_InrD [OF assms(1)] by blast
  have "within_limits rd u i (shared a) (shared (a\<lparr>shared := d\<rparr>))" using assms(3) [OF a(1)] by simp
  moreover have "(a, a\<lparr>shared := d\<rparr>) \<in> set (rr_commits r)" using get_created_InrD(2) [OF assms(2)] a(2) by auto
  ultimately show ?thesis using get_created_InrD(1) [OF assms(2)] by blast
qed

text \<open>
  C30. Remote renders respect the limits at the moment they are queued, whatever else happens during the
  call: when a render or a retry answers with a job, one of its commits made this job, and after this
  commit the queue, the active jobs of the user and of its principal, and the user's storage with the
  output reserved for the job are within their limits.
\<close>

theorem remote_render_within_limits:
  assumes "create_remote_render rd c q e r0 = (Inr j, r) \<or> retry_render rd c i e r0 = (Inr j, r)"
  shows "\<exists>b b'. (b, b') \<in> set (rr_commits r) \<and> within_limits rd (ri_user_id c) (j_id j) (shared b) (shared b')"
  using assms
proof
  assume "create_remote_render rd c q e r0 = (Inr j, r)"
  then obtain p new source entrypoint os ts x s t where
    "shared_c (queue_remote rd (ri_user_id c) p new source entrypoint os (chosen_project (rq_source q)) ts) e s = (Inr x, t)"
    "get_created new e t = (Inr j, r)"
    unfolding create_remote_render_def by (elim bind_c_InrD [THEN exE] exE conjE) blast
  then show ?thesis by (rule committed_within_limits) (rule queue_remote_within_limits)
next
  assume "retry_render rd c i e r0 = (Inr j, r)"
  then obtain old source new ts x s t v w y z where
    old: "owned_job (ri_user_id c) i e v = (Inr old, w)"
    and source: "some_c (AppError ''SOURCE_NOT_READY'' 409) (j_source_id old) e y = (Inr source, z)"
    and queued: "shared_c (queue_retry rd (ri_user_id c) old source new ts) e s = (Inr x, t)" "get_created new e t = (Inr j, r)"
    unfolding retry_render_def by (elim bind_c_InrD [THEN exE] exE conjE) blast
  from queued show ?thesis
    by (rule committed_within_limits)
       (use owned_job_InrD [OF old] some_c_InrD [OF source] in \<open>auto intro: queue_retry_within_limits\<close>)
qed

theorem remote_render_within_limits_witness:
  "\<exists>b b'. within_limits lone_deps ''u'' (fr_job_id fresh1) b b'"
proof -
  obtain x r where mcp: "mcp_created = (x, r)" by fastforce
  have "map_sum (\<lambda>_. ()) j_id x = Inr (fr_job_id fresh1)" using mcp_created_facts(1) unfolding mcp fst_conv .
  then obtain j where j: "mcp_created = (Inr j, r)" "j_id j = fr_job_id fresh1"
    using mcp by (cases x) simp_all
  then have "create_remote_render lone_deps mcp_caller render_query lone_env (start_call mcp_base) = (Inr j, r)"
    by (simp add: mcp_created_def)
  from remote_render_within_limits [OF disjI1, OF this] j(2) show ?thesis by (auto simp: mcp_caller_def)
qed

section \<open>Diagnostics\<close>

definition well_typed :: "remote_diagnostic \<Rightarrow> bool" where
  "well_typed g \<longleftrightarrow> length (rg_type g) \<le> 100 \<and> (\<forall>f. rg_file g = Some f \<longrightarrow> length f \<le> 500) \<and>
     (\<forall>n. rg_line g = Some n \<longrightarrow> \<bar>n\<bar> \<le> max_safe) \<and> length (rg_message g) \<le> 2000 \<and>
     (rg_error g \<longrightarrow> rg_type g = ''latex-error'')"

lemma text_member_length: "text_member n v = Some s \<Longrightarrow> length s \<le> n"
  by (induction n v rule: text_member.induct) auto

lemma line_member_safe: "line_member v = Some n \<Longrightarrow> \<bar>n\<bar> \<le> max_safe"
  by (induction v rule: line_member.induct) (auto split: if_splits)

definition item_ok :: "diagnostic_item \<Rightarrow> bool" where
  "item_ok x \<longleftrightarrow> length (di_type x) \<le> 100 \<and> (\<forall>f. di_file x = Some f \<longrightarrow> length f \<le> 500) \<and>
     (\<forall>n. di_line x = Some n \<longrightarrow> \<bar>n\<bar> \<le> max_safe) \<and> length (di_message x) \<le> 2000"

lemma diagnostic_item_ok:
  assumes "diagnostic_item fallback v = Some x" and "length fallback \<le> 100"
  shows "item_ok x"
  using assms text_member_length line_member_safe
  by (auto simp: diagnostic_item_def item_ok_def coalesce_def split: json.splits option.splits)

lemma diagnostic_items_ok:
  assumes "length fallback \<le> 100"
  shows "list_all item_ok (diagnostic_items v fallback) \<and> length (diagnostic_items v fallback) \<le> 500"
proof -
  have "length (List.map_filter f xs) \<le> length xs" for f :: "json \<Rightarrow> diagnostic_item option" and xs
    using length_filter_le [of "\<lambda>x. f x \<noteq> None" xs] by (simp add: List.map_filter_def comp_def)
  from order_trans [OF this] have "length (List.map_filter (diagnostic_item fallback) (take 500 vs)) \<le> 500" for vs
    by simp
  then show ?thesis
    using diagnostic_item_ok [OF _ assms]
    by (auto simp: diagnostic_items_def list_all_iff List.map_filter_def split: option.splits json.splits)
qed

lemma join_on_in: "c \<in> set (join_on x ps) \<Longrightarrow> c = x \<or> (\<exists>p\<in>set ps. c \<in> set p)"
  by (induction x ps rule: join_on.induct) auto

lemma split_on_in: "p \<in> set (split_on x s) \<Longrightarrow> set p \<subseteq> set s"
proof (induction s arbitrary: p)
  case (Cons c s)
  obtain q qs where q: "split_on x s = q # qs" using split_on_not_Nil by (cases "split_on x s") auto
  have IH: "p \<in> set (q # qs) \<Longrightarrow> set p \<subseteq> set s" for p using Cons.IH q by simp
  have "p = [] \<or> p = c # q \<or> p \<in> set (q # qs)" using Cons.prems q by (auto split: if_splits)
  with IH [of p] IH [of q] show ?case by auto
qed simp

lemma split_lines_in: "l \<in> set (split_lines s) \<Longrightarrow> set l \<subseteq> set s"
proof -
  have drop: "set (drop_cr p) \<subseteq> set p" for p by (auto simp: drop_cr_def dest: in_set_butlastD)
  let ?ps = "split_on (CHR 0x0A) s"
  assume "l \<in> set (split_lines s)"
  then have "l = last ?ps \<or> (\<exists>p\<in>set (butlast ?ps). l = drop_cr p)" by (auto simp: split_lines_def Let_def)
  then obtain p where "p \<in> set ?ps" "set l \<subseteq> set p"
    using drop in_set_butlastD [of _ ?ps] last_in_set [OF split_on_not_Nil, of "CHR 0x0A" s] by blast
  with split_on_in show ?thesis by blast
qed

lemma join_on_all:
  assumes "P x" and "\<And>p. p \<in> set ps \<Longrightarrow> list_all P p"
  shows "list_all P (join_on x ps)"
  using assms unfolding list_all_iff by (blast dest: join_on_in)

lemma list_all_take_drop: "list_all P xs \<Longrightarrow> list_all P (take n xs) \<and> list_all P (drop n xs)"
  by (auto simp: list_all_iff dest: in_set_takeD in_set_dropD)

lemma lines_plain:
  assumes "list_all (\<lambda>c. \<not> log_control c) s"
  shows "list_all (\<lambda>c. \<not> log_control c) (join_on (CHR 0x0A) (drop n (take m (split_lines s))))"
proof (rule join_on_all)
  fix l assume "l \<in> set (drop n (take m (split_lines s)))"
  then have "set l \<subseteq> set s" by (intro split_lines_in) (blast dest: in_set_takeD in_set_dropD)
  with assms show "list_all (\<lambda>c. \<not> log_control c) l" unfolding list_all_iff by blast
qed (simp add: log_control_def)

lemma log_excerpt_plain: "list_all (\<lambda>c. \<not> log_control c) (log_excerpt log ds)"
proof -
  have "list_all (\<lambda>c. \<not> log_control c) (take n (filter (\<lambda>c. \<not> log_control c) log))" for n
    by (rule conjunct1 [OF list_all_take_drop]) (simp add: list_all_iff)
  from conjunct1 [OF list_all_take_drop, OF lines_plain [OF this]] show ?thesis
    unfolding log_excerpt_def Let_def split_beta .
qed

text \<open>
  C26. Whatever a job's stored diagnostics and log hold, the answer is well typed: it has at most 500 errors
  and 500 warnings with bounded texts and safe line numbers, errors are of the type \<open>latex-error\<close>, and the
  excerpt of the log has at most 16384 characters and no control character but line ends and tabs; or the
  diagnostics are refused as a whole.
\<close>

theorem diagnostics_well_typed:
  "case parse_diagnostics text of
     Inl err \<Rightarrow> err = AppError ''DIAGNOSTICS_INVALID'' 500
   | Inr p \<Rightarrow> length (fst p) \<le> 500 \<and> length (snd p) \<le> 500 \<and> list_all well_typed (remote_diagnostics p) \<and>
       length (log_excerpt log (remote_diagnostics p)) \<le> 16384 \<and>
       list_all (\<lambda>c. \<not> log_control c) (log_excerpt log (remote_diagnostics p))"
proof -
  have short: "length (log_excerpt log ds) \<le> 16384" for ds
    by (simp add: log_excerpt_def Let_def split: prod.splits)
  show ?thesis
  proof (cases "parse_diagnostics text")
    case (Inl err)
    then show ?thesis by (auto simp: parse_diagnostics_def split: option.splits json.splits)
  next
    case (Inr p)
    then have p: "p = ([], []) \<or> (\<exists>v w. p = (diagnostic_items v ''latex-error'', diagnostic_items w ''latex-warning''))"
      by (auto simp: parse_diagnostics_def split: option.splits json.splits)
    then have "list_all item_ok (fst p) \<and> list_all item_ok (snd p) \<and> length (fst p) \<le> 500 \<and> length (snd p) \<le> 500"
      using diagnostic_items_ok by fastforce
    moreover from this have "list_all well_typed (remote_diagnostics p)"
      by (auto simp: remote_diagnostics_def well_typed_def item_ok_def list_all_iff)
    ultimately show ?thesis using Inr short log_excerpt_plain by simp
  qed
qed

end
