(* ===== verification/Spec2Isabelle.thy ===== *)
theory Spec2Isabelle
  imports Request_Properties Upload_Properties Access_Properties Document_Properties
    Storage_Properties Queue_Properties Cleanup_Properties OAuth_Properties Account_Properties
    Key_Properties Login_Properties Recovery_Properties Remote_Properties
    Remote_Call_Properties
begin
text \<open>
  A model of the render server: the database layer in which its services and its worker meet, the
  services that create renders and receive uploads, the tickets they exchange, the checks on
  archives, the scripts that keep the tables and the files clean, and the logins, API keys and
  OAuth grants under which all of it is used. Source paths below are relative to the repository's
  src directory.

  The system. A client asks internal-api for a render and gets a job, an upload ticket and a job
  ticket; renderer-api receives the archive under the upload ticket; renderer-worker claims queued
  jobs under leases, runs them in two stages (PDF, then SVG) and publishes artifacts; timers
  recover and clean up. All of them share one SQLite database and change it in transactions. Here
  the database is a record of tables, each a list of row records; a read is a function of it, a
  statement returns the number of changed rows and the database after it, and a transaction
  returns an error (the database as it was) or a value with the database after it. The states of
  the whole system are those reachable by steps, each a committed transaction of a service, the
  worker or its recovery. The logins and the OAuth server have tables of their own beside the
  shared ones (\<open>auth_db\<close>) and step relations of their own, in which what the rest of the program
  commits is a step too.

  The theories, each over one part of the code:

    Prelude       tables (\<open>upd_where\<close>, \<open>del_where\<close>, \<open>changes\<close>, \<open>row_by\<close>), transactions and errors
    Schema        packages/database/src/schema.ts and packages/contracts: rows, states, constraints
    Text, Json    decimal numbers, splitting and joining of texts; JSON values of settings and rows
    Paging        keyset pages and the walk over them (packages/shared/src/pagination.ts)
    Job_Table, Source_Lifecycle      rows of jobs and sources, visibility, the write guard
    Jobs, Worker, Nonces, Output_Stages, Artifacts, Previews, Sources, Source_Trees, Projects,
    Svg_Retry     packages/database/src/repositories and the operations beside them
    Tickets       packages/ticket/src/index.ts
    Zip_Paths, Zip_Extract           packages/zip-validation/src/index.ts
    Render_Tickets, Render_Admission, Source_Tickets    apps/internal-api/src/services
    Upload        apps/renderer-api/src/services/upload.ts
    Environment, Maintenance, Cleanup     deploy/scripts: environment, worker-demand,
                  source-tree-gc and cleanup .mjs
    Auth_Tables   the tables of the logins and of the OAuth server
    White_Space   trimming, lower case and the forms of secrets that several parts share
    OAuth_Store   packages/database/src/repositories/remote-mcp.ts
    OAuth, OAuth_Refresh             the authorization server of packages/remote-mcp-core
    Inline_Budget, Remote_Base, Chunked_Upload      the rendering service there: memory of inline
                  artifacts, checks and base64, the phases of uploads in chunks
    Chunk_Steps   all calls on one chunked upload interleaved (\<open>upload_step\<close>), and the invariant
    Remote_Run    calls of the rendering service: a call visits the database again and again, and others
                  commit between its visits; the caller's principal and jobs
    Remote_Sources, Remote_Renders, Remote_Reads    the calls: sources and revisions; references, renders,
                  retries, projects and rate limits; summaries, artifacts, diagnostics, package lists
    Remote_Runs   what each of these calls commits (\<open>remote_call\<close> is any of them)
    Accounts      the repositories users, service-accounts, api-keys and web-principals
    Auth_Selection                   server-setup-core/src/browser-auth-selection.mjs
    Browser_Store                    the repository browser-auth.ts
    Browser_Auth, Browser_Sessions, Browser_Logins      packages/auth/src/browser.ts
    Redaction     secrets in the reasons of audit records (packages/contracts)
    Api_Keys      packages/auth/src/index.ts and apps/admin-api/src/auth/actor.ts
    Admin_Accounts                   apps/admin-api/src/services: users, service-accounts, api-keys
    Worker_Run, Staged_Jobs, Plain_Jobs         apps/renderer-worker/src: what a processor is made of
                  (\<open>act\<close>), render-result, renderer-stage, staged-job-processor, job-processor, failure
    Recovery      recovery.ts and stage-recovery.ts there
    Output_Tree   artifact-validator.ts there
    Staged_Runs, Job_Runs            what a processor commits while others commit too, and what it leaves
                  below \<open>outputs\<close>
    Turn_Ends     assertions about runs (\<open>ends\<close>): how a turn leaves its job
    Auth_World, Auth_Steps, Auth_Admin      the step relation of the logins and the administration,
                  what each operation keeps of sessions and users, and the invariant
    Lifecycle     the step relation of the system, its invariant and the relation \<open>evolves\<close> between
                  a job row before and after a step
    Scenarios, Request_Scenarios     concrete states, reached by steps and by requests

  Properties. This theory holds those of the life of a job; Request_Properties those of the render
  and source requests, Upload_Properties of uploads, Access_Properties of tickets,
  Document_Properties of paths and archives, Storage_Properties of projects, listings, previews,
  trees and sources, Queue_Properties the refinement of an abstract queue by the claims,
  Cleanup_Properties of the clean-up, OAuth_Properties of authorization codes and refresh tokens,
  Account_Properties of owners and sessions, Key_Properties of API keys, Login_Properties of the
  throttle of password logins, Worker_Properties of the worker's processors and of what they accept of
  a renderer, Recovery_Properties of the recovery of lost workers, and Remote_Properties of uploads in
  chunks and inline artifacts, and Remote_Call_Properties of the remote calls. The invariant \<open>lifecycle_ok\<close> is proved for each operation in
  its theory and lifted to all reachable states in Lifecycle.

  Interfaces. Contracts between parts are locales: keyed tables, guarded updates, spendable nonces,
  uploads by offset, leases. Each is interpreted on the definitions of the theory that provides
  it, and the properties use the interpreted facts.

  Time, bounds and fuel. Timestamps are natural numbers (milliseconds); ISO texts of one format
  compare alike. Numbers that the code computes as JavaScript numbers are natural numbers or
  integers, with the bounds of the code checked where the code checks them. Loops of the code
  that walk a list or count down are recursions on the list or the counter. The walk over pages
  has fuel; more fuel than rows is enough, and C24 states that.

  Parameters. What is not under src is an argument: the JOSE library, SHA-256 and the keyed hashes,
  scrypt, base64url, the URL parser, the XML parser, the ZIP reader and inflater, random identifiers,
  the clock, the file system, Docker. A processor of the worker runs in an \<open>environment\<close> that says
  what others commit during each of its waits, and is given the outcome of what it waits for; the
  only hypothesis about others is that they commit steps. Hypotheses about parameters are named
  where they are needed (\<open>jose_ok\<close>: a signed payload verifies under its key until it expires).

  Not modelled. HTTP routing and response schemas, the user interfaces and command lines, the
  exchange with an OpenID provider and the verification of Access assertions (their results are
  arguments), the wire format of the remote MCP tools, containers and TeX itself, image and
  update managers, installation, CI and deployment scripts, and migrations (the tables are modelled
  as the last one leaves them).
\<close>

section \<open>The life of a job\<close>









text \<open>
  C5. A job that succeeded, was rejected or expired, and one that is being deleted, is settled:
  whatever services, workers and recovery do, it has that status or is on its way to deletion. Only
  failed, timed out and canceled jobs can come back to the queue (as SVG retries).
\<close>

theorem settled_jobs_stay:
  assumes "reachable d" and "step\<^sup>*\<^sup>* d e" and "job_of d i = Some j"
    and "j_status j \<in> {Succeeded, Rejected, Expired, Deleting, Deleted}"
  shows "\<exists>k. job_of e i = Some k \<and> j_status k \<in> {j_status j, Deleting}"
proof (rule settled_run [OF assms(2) reachable_ok [OF assms(1)] assms(3)])
  show "settled (j_status j)" using assms(4) by (auto simp: settled_def)
qed

theorem settled_jobs_stay_witness:
  "map_option j_status (job_of demo_deleting jid) = Some Deleting \<and>
   (\<exists>k. job_of demo_deleting jid = Some k \<and> j_status k \<in> {Succeeded, Deleting})"
proof -
  have "map_option j_status (job_of demo_succeeded jid) = Some Succeeded" by code_simp
  then obtain j where j: "job_of demo_succeeded jid = Some j" "j_status j = Succeeded" by blast
  have "step\<^sup>*\<^sup>* demo_succeeded demo_deleting" using step_deleting by blast
  from settled_jobs_stay [OF reach_succeeded this j(1)] j(2)
  have "\<exists>k. job_of demo_deleting jid = Some k \<and> j_status k \<in> {Succeeded, Deleting}" by simp
  moreover have "map_option j_status (job_of demo_deleting jid) = Some Deleting" by code_simp
  ultimately show ?thesis by blast
qed

text \<open>
  C6. A published PDF is final: whatever happens later (retries of the SVG stage, cancellation,
  recovery), the checkpoint's inputs, generation, hashes and completion time stay as they were.
\<close>

theorem published_pdf_is_final:
  assumes "reachable d" and "step\<^sup>*\<^sup>* d e" and "stage_of d i = Some s"
    and "st_pdf_status s = StSucceeded"
  shows "\<exists>t. stage_of e i = Some t \<and> st_pdf_status t = StSucceeded \<and>
    st_pdf_generation t = st_pdf_generation s \<and> st_pdf_sha256 t = st_pdf_sha256 s \<and>
    st_synctex_sha256 t = st_synctex_sha256 s \<and> st_pdf_completed_at t = st_pdf_completed_at s \<and>
    st_source_sha256 t = st_source_sha256 s \<and> st_entrypoint t = st_entrypoint s"
  using run_ok [OF assms(2) reachable_ok [OF assms(1)]] assms(3,4)
  unfolding pdf_kept_def pdf_part_def by fastforce

theorem published_pdf_is_final_witness:
  "\<exists>t. stage_of demo_retry jid = Some t \<and> st_pdf_sha256 t = Some sha"
proof -
  have "map_option (\<lambda>s. (st_pdf_status s, st_pdf_sha256 s)) (stage_of demo_failed jid) =
      Some (StSucceeded, Some sha)" by code_simp
  then obtain s where s: "stage_of demo_failed jid = Some s" "st_pdf_status s = StSucceeded"
      "st_pdf_sha256 s = Some sha" by auto
  have "step\<^sup>*\<^sup>* demo_failed demo_retry" using step_retry by blast
  from published_pdf_is_final [OF reach_failed this s(1,2)] s(3) show ?thesis by auto
qed

text \<open>
  C7. In every reachable state the SVG stage of a job has only started where the PDF stage has
  succeeded, a succeeded PDF carries its generation, its hashes and its time, a succeeded SVG its
  generation, and no stage is attempted more than eight times.
\<close>

theorem stage_invariant:
  assumes "reachable d" and "s \<in> set (stages d)"
  shows "(st_svg_status s \<in> {StRunning, StSucceeded, StFailed, StTimeout, StCanceled} \<longrightarrow>
      st_pdf_status s = StSucceeded) \<and>
    (st_pdf_status s = StSucceeded \<longrightarrow> st_pdf_generation s \<noteq> None \<and> st_pdf_sha256 s \<noteq> None \<and>
      st_synctex_sha256 s \<noteq> None \<and> st_pdf_completed_at s \<noteq> None) \<and>
    (st_svg_status s = StSucceeded \<longrightarrow> st_svg_generation s \<noteq> None) \<and>
    1 \<le> st_svg_attempt s \<and> st_svg_attempt s \<le> 8"
  using reachable_ok [OF assms(1)] assms(2)
  unfolding lifecycle_ok_def stages_ok_def stage_ok_def stage_check_def stage_order_def by fastforce

theorem stage_invariant_witness:
  "\<exists>s\<in>set (stages demo_failed). st_svg_status s = StFailed \<and> st_pdf_status s = StSucceeded"
proof -
  have "map st_svg_status (stages demo_failed) = [StFailed]" by code_simp
  then obtain s where "s \<in> set (stages demo_failed)" "st_svg_status s = StFailed" by auto
  with stage_invariant [OF reach_failed this(1)] show ?thesis by blast
qed

text \<open>
  Claiming is first come, first served: while no preview runs, a worker that may take any job
  gets the queued job with the least queue time (then id), under a new generation, and every
  other job is left alone; while a preview runs it gets nothing and changes nothing.
\<close>

theorem claim_next_fifo:
  assumes "reachable d" and "claim_next w now until None None d = (r, d')"
  shows "(r = None \<longrightarrow> d' = d \<and> (preview_running d \<or> (\<forall>j\<in>set (jobs d). j_status j \<noteq> Queued))) \<and>
    (\<forall>x. r = Some x \<longrightarrow> (\<exists>j. job_of d (w_id x) = Some j \<and> j_status j = Queued \<and>
       \<not> preview_running d \<and>
       (\<forall>k\<in>set (jobs d). j_status k = Queued \<longrightarrow> queue_key j \<le> queue_key k) \<and>
       w_lease_generation x = j_lease_generation j + 1 \<and>
       job_of d' (w_id x) = Some (claim_update w now until j) \<and>
       (\<forall>i. i \<noteq> w_id x \<longrightarrow> job_of d' i = job_of d i)))"
proof -
  from reachable_ok [OF assms(1)] have ids: "distinct (map j_id (jobs d))"
    by (simp add: lifecycle_ok_def)
  have none: "preview_running d \<or> (\<forall>j\<in>set (jobs d). j_status j \<noteq> Queued)" if "r = None"
    using assms(2) that ids claim_next_None by blast
  from ids assms(2) show ?thesis
  proof (cases rule: claim_next_cases)
    case 1
    with none show ?thesis by simp
  next
    case (2 j)
    have job: "job_of d (j_id j) = Some j" by (rule job_table.row_by_in [OF ids 2(2)])
    have upd: "job_of d' i = map_option (\<lambda>x. if j_id x = j_id j \<and> j_status x = Queued
        then claim_update w now until x else x) (job_of d i)" for i
      unfolding 2(6) jobs_update_jobs
      by (rule job_table.row_by_upd_where) (simp add: claim_update_def)
    have other: "job_of d' i = job_of d i" if "i \<noteq> j_id j" for i
      using that by (cases "job_of d i") (auto simp: upd dest: row_by_SomeD)
    from 2 job upd [of "j_id j"] other show ?thesis
      by (auto simp: claimable_def worker_job_def)
  qed
qed

theorem claim_next_fifo_witness:
  "\<exists>x d'. claim_next ''w1'' 20 50 None None demo_queued = (Some x, d') \<and> w_id x = jid \<and>
     w_lease_generation x = 1"
proof -
  have v: "map_option (\<lambda>x. (w_id x, w_lease_generation x))
      (fst (claim_next ''w1'' 20 50 None None demo_queued)) = Some (jid, 1)" by code_simp
  obtain r d' where c: "claim_next ''w1'' 20 50 None None demo_queued = (r, d')" by fastforce
  with claim_next_fifo [OF reach_queued c] v show ?thesis by auto
qed

end
